(* ===== verification/Prelude.thy ===== *)
theory Prelude
  imports Main "HOL-Library.Word"
begin

unbundle bit_operations_syntax

text \<open>
  The shared vocabulary of the development: the machine-integer types of
  \<^verbatim>\<open>src/server/shared/Define.h\<close>, the error monad in which every operation that can throw,
  assert or run out of bounds is written,
  and the generic lemmas on lists and words that more than one component needs.

  A C++ operation that may throw becomes a function into \<open>'e + 'a\<close>: \<open>Inl e\<close> is the exception
  (or the failed assertion, or the access outside an array), \<open>Inr a\<close> the normal result.
  \<open>ebind\<close> sequences two such operations; an exception skips what follows it.
\<close>

section \<open>Machine integers\<close>

type_synonym u8 = "8 word"
type_synonym u16 = "16 word"
type_synonym u32 = "32 word"
type_synonym u64 = "64 word"

section \<open>The error monad\<close>

definition ebind :: "'e + 'a \<Rightarrow> ('a \<Rightarrow> 'e + 'b) \<Rightarrow> 'e + 'b" where
  "ebind m f = (case m of Inl e \<Rightarrow> Inl e | Inr a \<Rightarrow> f a)"

lemma ebind_simps [simp]:
  "ebind (Inl e) f = Inl e"
  "ebind (Inr a) f = f a"
  by (simp_all add: ebind_def)

lemma ebind_eq_Inr_iff: "ebind m f = Inr b \<longleftrightarrow> (\<exists>a. m = Inr a \<and> f a = Inr b)"
  by (cases m) auto

lemma ebind_InrE [elim!]:
  assumes "ebind m f = Inr b"
  obtains a where "m = Inr a" and "f a = Inr b"
  using assms by (auto simp: ebind_eq_Inr_iff)

lemma ebind_assoc: "ebind (ebind m f) g = ebind m (\<lambda>x. ebind (f x) g)"
  by (cases m) auto

text \<open>Run an operation over the elements of a list, threading the state.\<close>

fun efold :: "('a \<Rightarrow> 's \<Rightarrow> 'e + 's) \<Rightarrow> 'a list \<Rightarrow> 's \<Rightarrow> 'e + 's" where
  "efold f [] s = Inr s"
| "efold f (x # xs) s = ebind (f x s) (efold f xs)"

lemma efold_map: "efold (\<lambda>x. f (g x)) xs s = efold f (map g xs) s"
  by (induction xs arbitrary: s) (auto simp: ebind_def split: sum.split)

text \<open>Read \<open>n\<close> values one after the other.\<close>

fun get_n :: "('s \<Rightarrow> 'e + ('v \<times> 's)) \<Rightarrow> nat \<Rightarrow> 's \<Rightarrow> 'e + ('v list \<times> 's)" where
  "get_n get 0 s = Inr ([], s)"
| "get_n get (Suc n) s = ebind (get s) (\<lambda>(v, s). ebind (get_n get n s) (\<lambda>(vs, s). Inr (v # vs, s)))"

section \<open>Lists\<close>

lemma list_update_last_length [simp]: "xs[length xs - Suc 0 := y] = (if xs = [] then [] else butlast xs @ [y])"
proof (cases xs rule: rev_cases)
  case (snoc ys z)
  then show ?thesis by simp
qed simp

section \<open>Words\<close>

lemma byte_eqI: "(\<And>i. i < 8 \<Longrightarrow> bit (a :: u8) i = bit b i) \<Longrightarrow> a = b"
  by (rule bit_word_eqI) simp

lemma xor_one_twice [simp]: "(1 :: 'a::len word) XOR (b XOR 1) = b"
  by (rule bit_word_eqI) (auto simp: bit_xor_iff)

lemma bit_one_word [simp]: "bit (1 :: 'a::len word) n \<longleftrightarrow> n = 0"
  by (simp add: bit_1_iff)

lemma bit_of_bool_word [simp]: "bit (of_bool b :: 'a::len word) n \<longleftrightarrow> b \<and> n = 0"
  by (cases b) auto

lemma not_bit_above: "(v :: 'a::len word) < 2 ^ n \<Longrightarrow> n \<le> i \<Longrightarrow> \<not> bit v i"
  using less_mask_eq [of v n] bit_and_iff [of v "mask n" i] by (simp add: bit_mask_iff)

lemma widen_inj: "(ucast (a :: u16) :: u32) = ucast b \<longleftrightarrow> a = b"
proof
  assume eq: "(ucast a :: u32) = ucast b"
  show "a = b"
  proof (rule bit_word_eqI)
    fix n assume "n < LENGTH(16)"
    then show "bit a n = bit b n" using arg_cong [OF eq, of "\<lambda>w. bit w n"] by (simp add: bit_ucast_iff)
  qed
qed simp

lemma narrow_widen:
  assumes "(w :: u32) < 2 ^ 16"
  shows "ucast (ucast w :: u16) = w"
proof (rule bit_word_eqI)
  fix n
  have "bit w n \<Longrightarrow> n < 16" using not_bit_above [OF assms, of n] not_less by blast
  then show "bit (ucast (ucast w :: u16) :: u32) n = bit w n" by (auto simp: bit_ucast_iff dest: bit_imp_le_length)
qed

text \<open>The little-endian byte sequence of a word, and its inverse.\<close>

fun le_bytes :: "nat \<Rightarrow> 'a::len word \<Rightarrow> u8 list" where
  "le_bytes 0 w = []"
| "le_bytes (Suc n) w = ucast w # le_bytes n (drop_bit 8 w)"

fun le_word :: "u8 list \<Rightarrow> 'a::len word" where
  "le_word [] = 0"
| "le_word (b # bs) = ucast b OR push_bit 8 (le_word bs)"

lemma length_le_bytes [simp]: "length (le_bytes n w) = n"
  by (induction n arbitrary: w) simp_all

lemma le_bytes_eq_Nil [simp]: "le_bytes n w = [] \<longleftrightarrow> n = 0"
  by (cases n) simp_all

lemma bit_le_word_le_bytes:
  "bit (le_word (le_bytes n (w :: 'a::len word)) :: 'a word) i \<longleftrightarrow> i < 8 * n \<and> bit w i"
proof (induction n arbitrary: w i)
  case 0
  then show ?case by simp
next
  case (Suc n)
  show ?case
    using Suc.IH [of "drop_bit 8 w" "i - 8"]
    by (auto simp: bit_or_iff bit_ucast_iff bit_push_bit_iff bit_drop_bit_eq
        not_less dest: bit_imp_le_length)
qed

lemma le_word_le_bytes:
  "LENGTH('a) \<le> 8 * n \<Longrightarrow> (le_word (le_bytes n (w :: 'a::len word)) :: 'a word) = w"
  by (rule bit_word_eqI) (auto simp: bit_le_word_le_bytes)

lemma le_word_le_bytes_sizes [simp]:
  "(le_word (le_bytes 1 (b :: u8)) :: u8) = b"
  "(le_word (le_bytes 2 (h :: u16)) :: u16) = h"
  "(le_word (le_bytes 4 (w :: u32)) :: u32) = w"
  "(le_word (le_bytes 8 (d :: u64)) :: u64) = d"
  by (simp_all add: le_word_le_bytes)

end
