(* ===== verification/ByteBuffer.thy ===== *)
theory ByteBuffer
  imports Prelude
begin

text \<open>
  Model of \<^verbatim>\<open>src/server/shared/Packets/ByteBuffer.h\<close>: the growing byte vector with a read
  cursor, a write cursor and a shared bit cursor on which every packet of the server is built.

  Conventions:

  \<^item> \<open>size_t\<close> positions are \<open>nat\<close>; where a caller-supplied count is added to a
  position the 64-bit wrap-around of the comparison is written out (\<open>size_add\<close>); an access that
  only passes the comparison because it wrapped is outside the vector.

  \<^item> An exception leaves the packet to be dropped by the session loop, so \<open>Inl\<close> carries the
  exception only.

  \<^item> \<open>_storage[_wpos - 1]\<close> and \<open>_storage[_rpos - 1]\<close> outside the vector are
  undefined behaviour in C++ and the error \<open>OutOfBounds\<close> here.

  \<^item> \<open>EndianConvert\<close> makes the wire
  format little-endian on every host, so a \<open>T\<close> of \<open>n\<close> bytes is \<open>le_bytes n\<close>.

  \<^item> \<open>reserve\<close> only affects capacity and has no counterpart.

  The last section has the generic facts on the bytes of a guid; the abstract bit stream is in
  \<open>ByteStream\<close>.
\<close>

unbundle bit_operations_syntax

section \<open>ObjectGuid\<close>

text \<open>The union of a 64-bit integer and eight bytes; \<open>guid[index]\<close> asserts \<open>index < 8\<close>.\<close>

definition guid_byte :: "u64 \<Rightarrow> nat \<Rightarrow> u8" where
  "guid_byte g i = ucast (drop_bit (8 * i) g)"

definition guid_set_byte :: "u64 \<Rightarrow> nat \<Rightarrow> u8 \<Rightarrow> u64" where
  "guid_set_byte g i b =
     (g AND NOT (push_bit (8 * i) 255)) OR push_bit (8 * i) (ucast b)"

definition guid_IsEmpty :: "u64 \<Rightarrow> bool" where
  "guid_IsEmpty g \<longleftrightarrow> g \<noteq> 0"

section \<open>State and errors\<close>

datatype bb_error =
    PositionException bool nat nat nat  \<comment> \<open>add, pos, size, valueSize as passed to the constructor\<close>
  | SourceException nat nat nat         \<comment> \<open>pos, size, valueSize\<close>
  | AssertFailed
  | OutOfBounds

record byte_buffer =
  storage :: "u8 list"
  rpos :: nat
  wpos :: nat
  bitpos :: nat

abbreviation bb_size :: "byte_buffer \<Rightarrow> nat" where
  "bb_size b \<equiv> length (storage b)"

definition size_add :: "nat \<Rightarrow> nat \<Rightarrow> nat" where
  "size_add a b = (a + b) mod 2 ^ 64"

definition empty_buffer :: byte_buffer where
  "empty_buffer = \<lparr>storage = [], rpos = 0, wpos = 0, bitpos = 8\<rparr>"

definition bb_clear :: "byte_buffer \<Rightarrow> byte_buffer" where
  "bb_clear b = b\<lparr>storage := [], rpos := 0, wpos := 0, bitpos := 8\<rparr>"

definition ResetBits :: "byte_buffer \<Rightarrow> byte_buffer" where
  "ResetBits b = b\<lparr>bitpos := 8\<rparr>"

text \<open>\<open>_storage.size() >= num\<close> compares an unsigned with a non-negative \<open>int\<close>.\<close>

definition eraseFirst :: "nat \<Rightarrow> byte_buffer \<Rightarrow> byte_buffer" where
  "eraseFirst num b =
     (if bb_size b \<ge> num then b\<lparr>storage := drop num (storage b)\<rparr> else b)"

section \<open>Appending\<close>

definition MAX_BUFFER :: nat where
  "MAX_BUFFER = 10000000"

text \<open>\<open>append(const uint8 *src, size_t cnt)\<close> with a non-null source of \<open>cnt\<close> bytes.\<close>

definition append_bytes :: "u8 list \<Rightarrow> byte_buffer \<Rightarrow> bb_error + byte_buffer" where
  "append_bytes src b =
     (let b = ResetBits b; cnt = length src in
      if cnt = 0 then Inl (SourceException (wpos b) (bb_size b) cnt)
      else if \<not> bb_size b < MAX_BUFFER then Inl AssertFailed
      else
        let st = (if bb_size b < wpos b + cnt
                  then storage b @ replicate (wpos b + cnt - bb_size b) 0 else storage b)
        in Inr (b\<lparr>storage := take (wpos b) st @ src @ drop (wpos b + cnt) st,
                  wpos := wpos b + cnt\<rparr>))"

definition append_u8 :: "u8 \<Rightarrow> byte_buffer \<Rightarrow> bb_error + byte_buffer" where
  "append_u8 v = append_bytes (le_bytes 1 v)"

definition append_u16 :: "u16 \<Rightarrow> byte_buffer \<Rightarrow> bb_error + byte_buffer" where
  "append_u16 v = append_bytes (le_bytes 2 v)"

definition append_u32 :: "u32 \<Rightarrow> byte_buffer \<Rightarrow> bb_error + byte_buffer" where
  "append_u32 v = append_bytes (le_bytes 4 v)"

definition append_u64 :: "u64 \<Rightarrow> byte_buffer \<Rightarrow> bb_error + byte_buffer" where
  "append_u64 v = append_bytes (le_bytes 8 v)"

text \<open>\<open>append(const ByteBuffer& buffer)\<close>: the first \<open>wpos\<close> bytes of the other buffer;
  reading past its vector is undefined.\<close>

definition append_buffer :: "byte_buffer \<Rightarrow> byte_buffer \<Rightarrow> bb_error + byte_buffer" where
  "append_buffer buffer b =
     (if wpos buffer = 0 then Inr b
      else if bb_size buffer < wpos buffer then Inl OutOfBounds
      else append_bytes (take (wpos buffer) (storage buffer)) b)"

text \<open>\<open>operator<<(std::string)\<close>: the characters, then a terminating zero byte.\<close>

definition append_string :: "u8 list \<Rightarrow> byte_buffer \<Rightarrow> bb_error + byte_buffer" where
  "append_string str b =
     ebind (if str \<noteq> [] then append_bytes str b else Inr b) (append_u8 0)"

definition WriteString :: "u8 list \<Rightarrow> byte_buffer \<Rightarrow> bb_error + byte_buffer" where
  "WriteString str b = (if str \<noteq> [] then append_bytes str b else Inr b)"

text \<open>\<open>put(pos, src, cnt)\<close> overwrites bytes already in the vector.\<close>

definition put_bytes :: "nat \<Rightarrow> u8 list \<Rightarrow> byte_buffer \<Rightarrow> bb_error + byte_buffer" where
  "put_bytes pos src b =
     (let cnt = length src in
      if size_add pos cnt > bb_size b then Inl (PositionException True pos cnt (bb_size b))
      else if pos + cnt > bb_size b then Inl OutOfBounds
      else Inr (b\<lparr>storage := take pos (storage b) @ src @ drop (pos + cnt) (storage b)\<rparr>))"

section \<open>Writing bits\<close>

text \<open>\<open>_storage[_wpos - 1] |= x\<close>\<close>

definition or_last :: "u8 \<Rightarrow> byte_buffer \<Rightarrow> bb_error + byte_buffer" where
  "or_last x b =
     (if 0 < wpos b \<and> wpos b \<le> bb_size b
      then Inr (b\<lparr>storage := (storage b)[wpos b - 1 := storage b ! (wpos b - 1) OR x]\<rparr>)
      else Inl OutOfBounds)"

text \<open>\<open>if (_bitpos == 8) { *this << uint8(0); _bitpos = 0; }\<close>\<close>

definition open_byte :: "byte_buffer \<Rightarrow> bb_error + byte_buffer" where
  "open_byte b =
     (if bitpos b = 8
      then ebind (append_u8 0 b) (\<lambda>b. Inr (b\<lparr>bitpos := 0\<rparr>))
      else Inr b)"

definition WriteBit :: "bool \<Rightarrow> byte_buffer \<Rightarrow> bb_error + byte_buffer" where
  "WriteBit bt b =
     ebind (open_byte b) (\<lambda>b.
       let b = b\<lparr>bitpos := bitpos b + 1\<rparr> in
       if bt then or_last (push_bit (8 - bitpos b) 1) b else Inr b)"

text \<open>
  One turn of the loop of \<open>WriteBits\<close>, then the loop: \<open>bits\<close> is the number of bits still to
  write.  \<open>value\<close> is an unsigned integer of any width.
\<close>

definition WriteBits_cycle ::
  "'a::len word \<Rightarrow> nat \<Rightarrow> nat \<Rightarrow> byte_buffer \<Rightarrow> bb_error + byte_buffer" where
  "WriteBits_cycle value bits k b =
     or_last (push_bit (8 - (bitpos b + k)) (ucast (drop_bit (bits - k) value AND mask k)))
       (b\<lparr>bitpos := bitpos b + k\<rparr>)"

definition writtenThisCycle :: "nat \<Rightarrow> byte_buffer \<Rightarrow> nat" where
  "writtenThisCycle bits b = min (8 - bitpos b) bits"

function WriteBits ::
  "'a::len word \<Rightarrow> nat \<Rightarrow> byte_buffer \<Rightarrow> bb_error + byte_buffer" where
  "WriteBits value bits b =
     (if bits = 0 then Inr b
      else ebind (open_byte b) (\<lambda>b.
        let k = writtenThisCycle bits b in
        if k = 0 then Inl OutOfBounds
        else ebind (WriteBits_cycle value bits k b) (WriteBits value (bits - k))))"
  by pat_completeness auto
termination
  by (relation "measure (\<lambda>(v, n, b). n)") auto

declare WriteBits.simps [simp del]

text \<open>
  \<open>PutBits\<close> overwrites bits at an explicit position; the position and its bit offset are
  updated in place by the caller's references.  \<open>bits\<close> was written out as \<open>int\<close> and is
  non-negative here.
\<close>

function PutBits ::
  "'a::len word \<Rightarrow> nat \<Rightarrow> nat \<Rightarrow> nat \<Rightarrow> byte_buffer \<Rightarrow> bb_error + (byte_buffer \<times> nat \<times> nat)" where
  "PutBits value bits pos bp b =
     (if bits = 0 then Inr (b, pos, bp)
      else
        let pos = (if bp = 8 then pos + 1 else pos);
            bp = (if bp = 8 then 0 else bp);
            k = min (8 - bp) bits
        in if k = 0 then Inl OutOfBounds
           else if 0 < pos \<and> pos \<le> bb_size b
           then PutBits value (bits - k) pos (bp + k)
                  (b\<lparr>storage := (storage b)[pos - 1 := storage b ! (pos - 1) OR
                       push_bit (8 - (bp + k)) (ucast (drop_bit (bits - k) value AND mask k))]\<rparr>)
           else Inl OutOfBounds)"
  by pat_completeness auto
termination
  by (relation "measure (\<lambda>(v, n, p, q, b). n)") (auto split: if_splits)

declare PutBits.simps [simp del]

definition WriteByteSeq :: "u8 \<Rightarrow> byte_buffer \<Rightarrow> bb_error + byte_buffer" where
  "WriteByteSeq x b = (if x \<noteq> 0 then append_u8 (x XOR 1) b else Inr b)"

definition WriteBitInOrder :: "u64 \<Rightarrow> nat list \<Rightarrow> byte_buffer \<Rightarrow> bb_error + byte_buffer" where
  "WriteBitInOrder guid order =
     efold (\<lambda>i b. if i < 8 then WriteBit (guid_byte guid i \<noteq> 0) b else Inl AssertFailed) order"

definition WriteBytesSeq :: "u64 \<Rightarrow> nat list \<Rightarrow> byte_buffer \<Rightarrow> bb_error + byte_buffer" where
  "WriteBytesSeq guid order =
     efold (\<lambda>i b. if i < 8 then WriteByteSeq (guid_byte guid i) b else Inl AssertFailed) order"

section \<open>Reading\<close>

definition read_skip :: "nat \<Rightarrow> byte_buffer \<Rightarrow> bb_error + byte_buffer" where
  "read_skip skip b =
     (let b = ResetBits b in
      if size_add (rpos b) skip > bb_size b
      then Inl (PositionException False (rpos b) skip (bb_size b))
      else Inr (b\<lparr>rpos := size_add (rpos b) skip\<rparr>))"

text \<open>\<open>read(uint8 *dest, size_t len)\<close>, and \<open>read<T>()\<close> for a \<open>T\<close> of \<open>n\<close> bytes.\<close>

definition read_bytes :: "nat \<Rightarrow> byte_buffer \<Rightarrow> bb_error + (u8 list \<times> byte_buffer)" where
  "read_bytes len b =
     (let b = ResetBits b in
      if size_add (rpos b) len > bb_size b
      then Inl (PositionException False (rpos b) len (bb_size b))
      else if rpos b + len > bb_size b then Inl OutOfBounds
      else Inr (take len (drop (rpos b) (storage b)), b\<lparr>rpos := rpos b + len\<rparr>))"

definition read_word :: "nat \<Rightarrow> byte_buffer \<Rightarrow> bb_error + ('a::len word \<times> byte_buffer)" where
  "read_word n b = ebind (read_bytes n b) (\<lambda>(bs, b). Inr (le_word bs, b))"

definition read_u8 :: "byte_buffer \<Rightarrow> bb_error + (u8 \<times> byte_buffer)" where
  "read_u8 = read_word 1"

definition read_u16 :: "byte_buffer \<Rightarrow> bb_error + (u16 \<times> byte_buffer)" where
  "read_u16 = read_word 2"

definition read_u32 :: "byte_buffer \<Rightarrow> bb_error + (u32 \<times> byte_buffer)" where
  "read_u32 = read_word 4"

definition read_u64 :: "byte_buffer \<Rightarrow> bb_error + (u64 \<times> byte_buffer)" where
  "read_u64 = read_word 8"

lemma read_u8_Inr:
  "read_u8 b = Inr (c, b') \<Longrightarrow> storage b' = storage b \<and> rpos b' = rpos b + 1 \<and> bitpos b' = 8"
  by (auto simp: read_u8_def read_word_def read_bytes_def ResetBits_def Let_def split: if_splits)

text \<open>\<open>if (_bitpos == 8) { read_skip<uint8>(); _bitpos = 0; }\<close> and \<open>_storage[_rpos - 1]\<close>\<close>

definition enter_byte :: "byte_buffer \<Rightarrow> bb_error + byte_buffer" where
  "enter_byte b =
     (if bitpos b = 8
      then ebind (read_skip 1 b) (\<lambda>b. Inr (b\<lparr>bitpos := 0\<rparr>))
      else Inr b)"

definition current_byte :: "byte_buffer \<Rightarrow> bb_error + u8" where
  "current_byte b =
     (if 0 < rpos b \<and> rpos b \<le> bb_size b then Inr (storage b ! (rpos b - 1)) else Inl OutOfBounds)"

definition ReadBit :: "byte_buffer \<Rightarrow> bb_error + (bool \<times> byte_buffer)" where
  "ReadBit b =
     ebind (enter_byte b) (\<lambda>b.
       let b = b\<lparr>bitpos := bitpos b + 1\<rparr> in
       ebind (current_byte b) (\<lambda>x. Inr (drop_bit (8 - bitpos b) x AND 1 \<noteq> 0, b)))"

definition readThisCycle :: "nat \<Rightarrow> byte_buffer \<Rightarrow> nat" where
  "readThisCycle bits b = min (8 - bitpos b) bits"

function ReadBits_loop ::
  "nat \<Rightarrow> u32 \<Rightarrow> byte_buffer \<Rightarrow> bb_error + (u32 \<times> byte_buffer)" where
  "ReadBits_loop bits value b =
     (if bits = 0 then Inr (value, b)
      else ebind (enter_byte b) (\<lambda>b.
        let k = readThisCycle bits b; b = b\<lparr>bitpos := bitpos b + k\<rparr> in
        if k = 0 then Inl OutOfBounds
        else ebind (current_byte b) (\<lambda>x.
          ReadBits_loop (bits - k)
            (value OR push_bit (bits - k) (ucast (drop_bit (8 - bitpos b) x AND mask k))) b)))"
  by pat_completeness auto
termination
  by (relation "measure (\<lambda>(n, v, b). n)") (auto simp: Let_def)

declare ReadBits_loop.simps [simp del]

definition ReadBits :: "nat \<Rightarrow> byte_buffer \<Rightarrow> bb_error + (u32 \<times> byte_buffer)" where
  "ReadBits bits b = ReadBits_loop bits 0 b"

definition ReadByteSeq :: "u8 \<Rightarrow> byte_buffer \<Rightarrow> bb_error + (u8 \<times> byte_buffer)" where
  "ReadByteSeq x b =
     (let b = ResetBits b in
      if x \<noteq> 0 then ebind (read_u8 b) (\<lambda>(y, b). Inr (x XOR y, b)) else Inr (x, b))"

definition ReadBitInOrder ::
  "nat list \<Rightarrow> u64 \<times> byte_buffer \<Rightarrow> bb_error + (u64 \<times> byte_buffer)" where
  "ReadBitInOrder order =
     efold (\<lambda>i (g, b). if i < 8
              then ebind (ReadBit b) (\<lambda>(v, b). Inr (guid_set_byte g i (of_bool v), b))
              else Inl AssertFailed) order"

definition ReadBytesSeq ::
  "nat list \<Rightarrow> u64 \<times> byte_buffer \<Rightarrow> bb_error + (u64 \<times> byte_buffer)" where
  "ReadBytesSeq order =
     efold (\<lambda>i (g, b). if i < 8
              then ebind (ReadByteSeq (guid_byte g i) b) (\<lambda>(v, b). Inr (guid_set_byte g i v, b))
              else Inl AssertFailed) order"

text \<open>\<open>operator>>(std::string&)\<close>: characters up to a zero byte or the end of the packet.\<close>

function read_string :: "byte_buffer \<Rightarrow> bb_error + (u8 list \<times> byte_buffer)" where
  "read_string b =
     (if rpos b < bb_size b
      then (case read_u8 b of
              Inl e \<Rightarrow> Inl e
            | Inr (c, b') \<Rightarrow>
                if c = 0 then Inr ([], b')
                else ebind (read_string b') (\<lambda>(cs, b). Inr (c # cs, b)))
      else Inr ([], b))"
  by pat_completeness auto
termination
  by (relation "measure (\<lambda>b. bb_size b - rpos b)") (auto dest!: read_u8_Inr)

declare read_string.simps [simp del]

definition ReadString :: "nat \<Rightarrow> byte_buffer \<Rightarrow> bb_error + (u8 list \<times> byte_buffer)" where
  "ReadString len b =
     (let b = ResetBits b in
      if size_add (rpos b) len > bb_size b
      then Inl (PositionException False (rpos b) len (bb_size b))
      else if len = 0 then Inr ([], b)
      else if rpos b + len > bb_size b then Inl OutOfBounds
      else Inr (take len (drop (rpos b) (storage b)), b\<lparr>rpos := rpos b + len\<rparr>))"

definition read_bool :: "byte_buffer \<Rightarrow> bb_error + (bool \<times> byte_buffer)" where
  "read_bool b = ebind (read_u8 b) (\<lambda>(c, b). Inr (0 < sint c, b))"

section \<open>Packed guids\<close>

text \<open>The loop of \<open>appendPackGUID\<close>: \<open>mark\<close> is \<open>packGUID[0]\<close>, \<open>packed\<close> the bytes after it.\<close>

function pack_loop :: "nat \<Rightarrow> u64 \<Rightarrow> u8 \<Rightarrow> u8 list \<Rightarrow> u8 \<times> u8 list" where
  "pack_loop i guid mark packed =
     (if guid = 0 then (mark, packed)
      else if guid AND 255 \<noteq> 0
      then pack_loop (i + 1) (drop_bit 8 guid) (mark OR push_bit i 1) (packed @ [ucast guid])
      else pack_loop (i + 1) (drop_bit 8 guid) mark packed)"
  by pat_completeness auto
termination
proof (relation "measure (\<lambda>(i, g, m, p). unat g)", goal_cases)
  case 1
  show ?case by simp
next
  case (2 i guid mark packed)
  then have "0 < unat guid" by (simp add: unat_gt_0)
  then show ?case by (simp add: drop_bit_eq_div unat_div)
next
  case (3 i guid mark packed)
  then have "0 < unat guid" by (simp add: unat_gt_0)
  then show ?case by (simp add: drop_bit_eq_div unat_div)
qed

declare pack_loop.simps [simp del]

definition appendPackGUID :: "u64 \<Rightarrow> byte_buffer \<Rightarrow> bb_error + byte_buffer" where
  "appendPackGUID guid b =
     (case pack_loop 0 guid 0 [] of (mark, packed) \<Rightarrow> append_bytes (mark # packed) b)"

fun unpack_loop :: "nat \<Rightarrow> u8 \<Rightarrow> u64 \<Rightarrow> byte_buffer \<Rightarrow> bb_error + (u64 \<times> byte_buffer)" where
  "unpack_loop 0 mark guid b = Inr (guid, b)"
| "unpack_loop (Suc n) mark guid b =
     (let i = 7 - n in
      if mark AND push_bit i 1 \<noteq> 0
      then if size_add (rpos b) 1 > bb_size b
           then Inl (PositionException False (rpos b) 1 (bb_size b))
           else ebind (read_u8 b) (\<lambda>(x, b).
                  unpack_loop n mark (guid OR push_bit (i * 8) (ucast x)) b)
      else unpack_loop n mark guid b)"

definition readPackGUID :: "byte_buffer \<Rightarrow> bb_error + (u64 \<times> byte_buffer)" where
  "readPackGUID b =
     (if size_add (rpos b) 1 > bb_size b
      then Inl (PositionException False (rpos b) 1 (bb_size b))
      else ebind (read_u8 (ResetBits b)) (\<lambda>(mark, b). unpack_loop 8 mark 0 b))"

section \<open>Cursor access\<close>

definition set_rpos :: "nat \<Rightarrow> byte_buffer \<Rightarrow> byte_buffer" where
  "set_rpos p b = b\<lparr>rpos := p\<rparr>"

definition rfinish :: "byte_buffer \<Rightarrow> byte_buffer" where
  "rfinish b = b\<lparr>rpos := wpos b\<rparr>"

definition set_wpos :: "nat \<Rightarrow> byte_buffer \<Rightarrow> byte_buffer" where
  "set_wpos p b = b\<lparr>wpos := p\<rparr>"

definition bitwpos :: "byte_buffer \<Rightarrow> nat" where
  "bitwpos b = wpos b * 8 + 8 - bitpos b"

definition set_bitwpos :: "nat \<Rightarrow> byte_buffer \<Rightarrow> byte_buffer" where
  "set_bitwpos newPos b = b\<lparr>wpos := newPos div 8, bitpos := 8 - newPos mod 8\<rparr>"

definition byte_at :: "nat \<Rightarrow> byte_buffer \<Rightarrow> bb_error + u8" where
  "byte_at pos b =
     (if pos \<ge> bb_size b then Inl (PositionException False pos 1 (bb_size b))
      else Inr (storage b ! pos))"

definition bb_resize :: "nat \<Rightarrow> byte_buffer \<Rightarrow> byte_buffer" where
  "bb_resize n b =
     (let st = (if n \<le> bb_size b then take n (storage b)
                else storage b @ replicate (n - bb_size b) 0)
      in b\<lparr>storage := st, rpos := 0, wpos := length st\<rparr>)"

section \<open>The bytes of a guid\<close>

lemma bit_guid_byte: "bit (guid_byte g i) j \<longleftrightarrow> j < 8 \<and> bit g (8 * i + j)"
  by (auto simp: guid_byte_def bit_ucast_iff bit_drop_bit_eq dest: bit_imp_le_length)

lemma byte_mask: "(255 :: u64) = mask 8"
  by (simp add: mask_eq_exp_minus_1)

lemma guid_byte_set:
  assumes "i < 8" "j < 8"
  shows "guid_byte (guid_set_byte g i b) j = (if i = j then b else guid_byte g j)"
proof (rule byte_eqI)
  fix k :: nat assume k: "k < 8"
  have "8 * j + k < 64" using assms k by simp
  moreover have "8 * i \<le> 8 * j + k \<and> 8 * j + k - 8 * i < 8 \<longleftrightarrow> i = j" using k by linarith
  ultimately show "bit (guid_byte (guid_set_byte g i b) j) k = bit (if i = j then b else guid_byte g j) k"
    using k assms
    by (auto simp: bit_guid_byte guid_set_byte_def byte_mask bit_or_iff bit_and_iff bit_not_iff
        bit_push_bit_iff bit_mask_iff bit_ucast_iff dest: bit_imp_le_length)
qed

lemma guid_bytes_eqI:
  assumes "\<And>i. i < 8 \<Longrightarrow> guid_byte g i = guid_byte h i"
  shows "g = h"
proof (rule bit_word_eqI)
  fix n assume "n < LENGTH(64)"
  then have "guid_byte g (n div 8) = guid_byte h (n div 8)" by (intro assms) simp
  then have "bit (guid_byte g (n div 8)) (n mod 8) = bit (guid_byte h (n div 8)) (n mod 8)" by simp
  then show "bit g n = bit h n" by (simp add: bit_guid_byte)
qed

end
