(* ===== verification/ByteStream.thy ===== *)
theory ByteStream
  imports ByteBuffer
begin

text \<open>
  The abstract reading of \<^verbatim>\<open>ByteBuffer\<close>: a buffer is a stream of bits, most significant bit of
  the first byte first.  \<open>stream\<close> is what has been written, \<open>unread\<close> what is still to be read.
  The lemmas show that every write appends to the stream, that every read consumes a prefix of it,
  and that byte operations first move to the next byte boundary.  \<open>in_step\<close> relates a writer and
  a reader of the same packet: it is the simulation relation of the movement protocol.
\<close>

unbundle bit_operations_syntax

section \<open>Definitions\<close>

definition sbit :: "u8 list \<Rightarrow> nat \<Rightarrow> bool" where
  "sbit st i = bit (st ! (i div 8)) (7 - i mod 8)"

definition nbits :: "byte_buffer \<Rightarrow> nat" where
  "nbits b = 8 * bb_size b - (8 - bitpos b)"

definition stream :: "byte_buffer \<Rightarrow> bool list" where
  "stream b = map (sbit (storage b)) [0..<nbits b]"

definition wr_inv :: "byte_buffer \<Rightarrow> bool" where
  "wr_inv b \<longleftrightarrow> wpos b = bb_size b \<and> 1 \<le> bitpos b \<and> bitpos b \<le> 8 \<and>
     (bitpos b < 8 \<longrightarrow> storage b \<noteq> [] \<and> (\<forall>i < 8 - bitpos b. \<not> bit (last (storage b)) i))"

definition rdpos :: "byte_buffer \<Rightarrow> nat" where
  "rdpos b = 8 * rpos b - (8 - bitpos b)"

definition rd_inv :: "byte_buffer \<Rightarrow> bool" where
  "rd_inv b \<longleftrightarrow> rpos b \<le> bb_size b \<and> bb_size b < 2 ^ 63 \<and> 1 \<le> bitpos b \<and> bitpos b \<le> 8 \<and>
     (bitpos b < 8 \<longrightarrow> 0 < rpos b)"

definition unread :: "byte_buffer \<Rightarrow> bool list" where
  "unread b = map (sbit (storage b)) [rdpos b..<8 * bb_size b]"

definition msb_bits :: "nat \<Rightarrow> 'a::len word \<Rightarrow> bool list" where
  "msb_bits n v = map (\<lambda>i. bit v (n - 1 - i)) [0..<n]"

definition byte_bits :: "u8 list \<Rightarrow> bool list" where
  "byte_bits bs = concat (map (msb_bits 8) bs)"

definition pad8 :: "bool list \<Rightarrow> bool list" where
  "pad8 s = s @ replicate ((8 - length s mod 8) mod 8) False"

text \<open>\<open>extends b b'\<close>: everything written to \<open>b\<close> is still there in the byte vector \<open>st\<close>.\<close>

definition extended_by :: "byte_buffer \<Rightarrow> u8 list \<Rightarrow> bool" where
  "extended_by b st \<longleftrightarrow> bb_size b \<le> length st \<and> (\<forall>i < nbits b. sbit st i = sbit (storage b) i)"

section \<open>Positions inside a byte\<close>

lemma length_stream [simp]: "length (stream b) = nbits b"
  by (simp add: stream_def)

lemma msb_bits_length [simp]: "length (msb_bits n v) = n"
  by (simp add: msb_bits_def)

lemma sbit_in_byte: "k < 8 \<Longrightarrow> sbit st (8 * q + k) = bit (st ! q) (7 - k)"
  by (simp add: sbit_def)

lemma sbit_append_left: "i < 8 * length xs \<Longrightarrow> sbit (xs @ ys) i = sbit xs i"
  by (simp add: sbit_def nth_append div_less_iff_less_mult mult.commute)

lemma sbit_append_right: "sbit (xs @ ys) (8 * length xs + i) = sbit ys i"
  by (simp add: sbit_def nth_append)

lemma map_sbit_byte: "map (sbit [x]) [0..<8] = msb_bits 8 x"
  by (simp add: msb_bits_def sbit_def)

lemma map_sbit_all: "map (sbit st) [0..<8 * length st] = byte_bits st"
proof (induction st rule: rev_induct)
  case Nil
  then show ?case by (simp add: byte_bits_def)
next
  case (snoc x st)
  have "map (sbit (st @ [x])) [0..<8 * length (st @ [x])] =
      map (sbit (st @ [x])) [0..<8 * length st] @
      map (sbit (st @ [x])) (map (\<lambda>i. i + 8 * length st) [0..<8])"
    using upt_add_eq_append [of 0 "8 * length st" 8] map_add_upt [of "8 * length st" 8]
    by (metis add.commute length_append_singleton map_append mult_Suc_right zero_le)
  also have "map (sbit (st @ [x])) (map (\<lambda>i. i + 8 * length st) [0..<8]) = msb_bits 8 x"
    by (simp add: map_sbit_byte [symmetric] sbit_append_right add.commute [of _ "8 * length st"] del: upt_Suc)
  also have "map (sbit (st @ [x])) [0..<8 * length st] = byte_bits st"
    by (simp add: snoc [symmetric] sbit_append_left)
  finally show ?case by (simp add: byte_bits_def)
qed

lemma stream_aligned: "bitpos b = 8 \<Longrightarrow> stream b = byte_bits (storage b)"
  by (simp add: stream_def nbits_def map_sbit_all)

lemma extended_by_refl: "extended_by b (storage b)"
  by (simp add: extended_by_def)

lemma extended_by_stream: "extended_by b st \<Longrightarrow> stream b = map (sbit st) [0..<nbits b]"
  by (simp add: extended_by_def stream_def)

lemma extended_by_aligned:
  assumes "extended_by b st" and "bitpos b = 8" and "i < bb_size b"
  shows "st ! i = storage b ! i"
proof (rule byte_eqI)
  fix j :: nat assume j: "j < 8"
  have "8 * i + (7 - j) < nbits b" using assms(2,3) j by (simp add: nbits_def)
  then have "sbit st (8 * i + (7 - j)) = sbit (storage b) (8 * i + (7 - j))"
    using assms(1) by (simp add: extended_by_def)
  then show "bit (st ! i) j = bit (storage b ! i) j" 
    using j sbit_in_byte [of "7 - j" st i] sbit_in_byte [of "7 - j" "storage b" i] by simp
qed

section \<open>Writing\<close>

lemma append_bytes_Inr:
  assumes "wpos b = bb_size b" and "append_bytes bs b = Inr b'"
  shows "b' = b\<lparr>storage := storage b @ bs, wpos := bb_size b + length bs, bitpos := 8\<rparr>"
  using assms by (auto simp: append_bytes_def ResetBits_def Let_def split: if_splits)

lemma append_bytes_ok:
  "bs \<noteq> [] \<Longrightarrow> bb_size b < MAX_BUFFER \<Longrightarrow> \<exists>b'. append_bytes bs b = Inr b'"
  by (simp add: append_bytes_def ResetBits_def Let_def)

lemma append_bytes_wr_inv: "wr_inv b \<Longrightarrow> append_bytes bs b = Inr b' \<Longrightarrow> wr_inv b'"
  by (frule append_bytes_Inr [rotated]) (auto simp: wr_inv_def)

text \<open>An append keeps every bit written before it.\<close>

lemma append_bytes_extended:
  assumes "wpos b = bb_size b" "append_bytes bs b = Inr b'" "extended_by b' st"
  shows "extended_by b st"
  using assms(3) sbit_append_left [of _ "storage b" bs]
  unfolding append_bytes_Inr [OF assms(1,2)]
  by (auto simp: extended_by_def nbits_def)

text \<open>Before a byte append the open byte is closed; its unused low bits are zero.\<close>

lemma unused_bits_zero:
  assumes "wr_inv b" "nbits b \<le> i" "i < 8 * bb_size b"
  shows "\<not> sbit (storage b) i"
proof -
  have bp: "bitpos b < 8" and ne: "storage b \<noteq> []"
    and z: "\<forall>i < 8 - bitpos b. \<not> bit (last (storage b)) i"
    using assms by (auto simp: wr_inv_def nbits_def)
  obtain n where n: "bb_size b = Suc n" using ne by (cases "bb_size b") auto
  obtain k where k: "i = 8 * n + k" "bitpos b \<le> k" "k < 8"
    using assms(2,3) bp n by (intro that [of "i - 8 * n"]) (auto simp: nbits_def)
  have "sbit (storage b) i = bit (last (storage b)) (7 - k)"
    using k ne n by (simp add: sbit_in_byte last_conv_nth)
  then show ?thesis using z k bp by auto
qed

lemma pad8_stream:
  assumes "wr_inv b"
  shows "pad8 (stream b) = byte_bits (storage b)"
proof -
  let ?n = "8 * bb_size b"
  have le: "nbits b \<le> ?n" by (simp add: nbits_def)
  have "[0..<?n] = [0..<nbits b] @ [nbits b..<?n]"
    using upt_add_eq_append [of 0 "nbits b" "?n - nbits b"] le by simp
  moreover have "map (sbit (storage b)) [nbits b..<?n] = replicate (?n - nbits b) False"
    using unused_bits_zero [OF assms] by (intro replicate_eqI) auto
  moreover have "(8 - nbits b mod 8) mod 8 = ?n - nbits b"
  proof (cases "bitpos b = 8")
    case True
    then show ?thesis by (simp add: nbits_def)
  next
    case False
    then obtain n where n: "bb_size b = Suc n" "1 \<le> bitpos b" "bitpos b < 8"
      using assms by (cases "bb_size b") (auto simp: wr_inv_def)
    then have "nbits b = 8 * n + bitpos b" by (simp add: nbits_def)
    then show ?thesis using n by simp
  qed
  ultimately show ?thesis
    by (simp add: pad8_def map_sbit_all [symmetric] stream_def)
qed

lemma append_bytes_stream:
  assumes "wr_inv b" and "append_bytes bs b = Inr b'"
  shows "stream b' = pad8 (stream b) @ byte_bits bs"
proof -
  have "wpos b = bb_size b" using assms(1) by (simp add: wr_inv_def)
  note eq = append_bytes_Inr [OF this assms(2)]
  have "stream b' = byte_bits (storage b @ bs)" unfolding eq by (simp add: stream_aligned)
  then show ?thesis by (simp add: pad8_stream [OF assms(1)]) (simp add: byte_bits_def)
qed

text \<open>
  Writing \<open>k\<close> bits into the open byte.  The state between opening a byte and filling it has
  \<open>bitpos = 0\<close>, so the step lemma asks for less than \<open>wr_inv\<close>.
\<close>

definition open_inv :: "byte_buffer \<Rightarrow> bool" where
  "open_inv b \<longleftrightarrow> wpos b = bb_size b \<and> bitpos b < 8 \<and> storage b \<noteq> [] \<and>
     (\<forall>i < 8 - bitpos b. \<not> bit (last (storage b)) i)"

lemma open_byte_Inr:
  assumes "wr_inv b" "open_byte b = Inr b'"
  shows "open_inv b' \<and> stream b' = stream b \<and> rpos b' = rpos b \<and>
     (bitpos b < 8 \<longrightarrow> b' = b) \<and> (bitpos b = 8 \<longrightarrow> bitpos b' = 0 \<and> storage b' = storage b @ [0])"
proof (cases "bitpos b = 8")
  case False
  then show ?thesis using assms by (auto simp: open_byte_def open_inv_def wr_inv_def)
next
  case True
  have w: "wpos b = bb_size b" using assms(1) by (simp add: wr_inv_def)
  obtain c where c: "append_bytes [0] b = Inr c" "b' = c\<lparr>bitpos := 0\<rparr>"
    using assms(2) True by (auto simp: open_byte_def append_u8_def)
  have "b' = b\<lparr>storage := storage b @ [0], wpos := Suc (bb_size b), bitpos := 0\<rparr>"
    using c append_bytes_Inr [OF w c(1)] by simp
  then show ?thesis
    using True by (auto simp: open_inv_def stream_def nbits_def sbit_append_left)
qed

lemma or_chunk:
  fixes x :: u8
  assumes inv: "open_inv b" and k: "0 < k" "bitpos b + k \<le> 8"
    and x: "\<And>i. bit x i \<longleftrightarrow> 8 - (bitpos b + k) \<le> i \<and> i < 8 - bitpos b \<and> f (7 - bitpos b - i)"
    and w: "or_last x (b\<lparr>bitpos := bitpos b + k\<rparr>) = Inr b'"
  shows "wr_inv b' \<and> stream b' = stream b @ map f [0..<k] \<and> rpos b' = rpos b \<and>
    bb_size b' = bb_size b \<and> bitpos b' = bitpos b + k"
proof -
  obtain st y where st: "storage b = st @ [y]"
    using inv by (auto simp: open_inv_def intro: rev_cases)
  have z: "\<And>i. i < 8 - bitpos b \<Longrightarrow> \<not> bit y i" using inv st by (simp add: open_inv_def)
  have b': "b' = b\<lparr>storage := st @ [y OR x], bitpos := bitpos b + k\<rparr>"
    using w st inv by (auto simp: or_last_def open_inv_def split: if_splits)
  have nb: "nbits b = 8 * length st + bitpos b" and nb': "nbits b' = nbits b + k"
    using st inv k by (auto simp: nbits_def b' open_inv_def)
  have lo: "sbit (storage b') i = sbit (storage b) i" if i: "i < nbits b" for i
  proof (cases "i < 8 * length st")
    case True
    then show ?thesis by (simp add: b' st sbit_append_left)
  next
    case False
    then obtain j where j: "i = 8 * length st + j" "j < bitpos b"
      using i nb by (intro that [of "i - 8 * length st"]) auto
    then show ?thesis using inv x [of "7 - j"]
      by (auto simp: b' st sbit_in_byte bit_or_iff open_inv_def)
  qed
  have hi: "sbit (storage b') (nbits b + i) = f i" if i: "i < k" for i
  proof -
    have r: "8 - (bitpos b + k) \<le> 7 - (bitpos b + i)" "7 - (bitpos b + i) < 8 - bitpos b"
      "7 - bitpos b - (7 - (bitpos b + i)) = i"
      using i k by auto
    then have "bit (y OR x) (7 - (bitpos b + i)) = f i"
      using x [of "7 - (bitpos b + i)"] z [of "7 - (bitpos b + i)"] by (simp add: bit_or_iff)
    then show ?thesis using i k by (simp add: b' nb sbit_in_byte add.assoc)
  qed
  have "stream b' = map (sbit (storage b')) ([0..<nbits b] @ [nbits b..<nbits b + k])"
    unfolding stream_def nb' using upt_add_eq_append [of 0 "nbits b" k] by simp
  also have "map (sbit (storage b')) ([0..<nbits b] @ [nbits b..<nbits b + k]) = stream b @ map f [0..<k]"
  proof -
    have "map (sbit (storage b')) [0..<nbits b] = stream b"
      using lo by (simp add: stream_def)
    moreover have "map (sbit (storage b')) [nbits b..<nbits b + k] = map f [0..<k]"
      using hi by (intro nth_equalityI) simp_all
    ultimately show ?thesis by simp
  qed
  finally have "stream b' = stream b @ map f [0..<k]" .
  moreover have "wr_inv b'"
    using inv k z x by (auto simp: wr_inv_def open_inv_def b' st bit_or_iff)
  ultimately show ?thesis by (simp add: b' st)
qed

lemma WriteBit_refines:
  assumes "wr_inv b" and "WriteBit v b = Inr b'"
  shows "wr_inv b' \<and> stream b' = stream b @ [v] \<and> rpos b' = rpos b"
proof -
  obtain c where c: "open_byte b = Inr c"
    and w: "(if v then or_last (push_bit (8 - Suc (bitpos c)) 1) (c\<lparr>bitpos := Suc (bitpos c)\<rparr>)
             else Inr (c\<lparr>bitpos := Suc (bitpos c)\<rparr>)) = Inr b'"
    using assms(2) by (cases v) (auto simp: WriteBit_def Let_def)
  note oc = open_byte_Inr [OF assms(1) c]
  have inv: "open_inv c" using oc by simp
  have o: "or_last (if v then push_bit (8 - (bitpos c + 1)) 1 else 0) (c\<lparr>bitpos := bitpos c + 1\<rparr>) = Inr b'"
    using w inv by (cases v) (auto simp: or_last_def open_inv_def)
  have x: "bit (if v then push_bit (8 - (bitpos c + 1)) 1 else 0 :: u8) i \<longleftrightarrow>
      8 - (bitpos c + 1) \<le> i \<and> i < 8 - bitpos c \<and> v" for i
    using inv by (cases v) (auto simp: bit_exp_iff open_inv_def)
  have le: "bitpos c + 1 \<le> 8" using inv by (simp add: open_inv_def)
  from or_chunk [OF inv zero_less_one le x o]
  have "wr_inv b' \<and> stream b' = stream c @ [v] \<and> rpos b' = rpos c" by simp
  then show ?thesis using oc by simp
qed

lemma bit_chunk:
  fixes v :: "'a::len word"
  assumes "p + k \<le> 8"
  shows "bit (push_bit (8 - (p + k)) (ucast (drop_bit m v AND mask k)) :: u8) i \<longleftrightarrow>
    8 - (p + k) \<le> i \<and> i < 8 - p \<and> bit v (m + (i - (8 - (p + k))))"
proof (cases "8 - (p + k) \<le> i")
  case True
  then obtain j where j: "i = 8 - (p + k) + j" by (metis le_add_diff_inverse)
  then show ?thesis using assms
    by (auto simp: bit_push_bit_iff bit_ucast_iff bit_and_iff bit_mask_iff bit_drop_bit_eq
        dest: bit_imp_le_length)
qed (simp add: bit_push_bit_iff)

lemma WriteBits_cycle_refines:
  fixes v :: "'a::len word"
  assumes "open_inv b" "0 < k" "bitpos b + k \<le> 8" "k \<le> n" "WriteBits_cycle v n k b = Inr b'"
  shows "wr_inv b' \<and> stream b' = stream b @ map (\<lambda>i. bit v (n - 1 - i)) [0..<k] \<and> rpos b' = rpos b"
proof -
  let ?x = "push_bit (8 - (bitpos b + k)) (ucast (drop_bit (n - k) v AND mask k)) :: u8"
  have "bit ?x i \<longleftrightarrow> 8 - (bitpos b + k) \<le> i \<and> i < 8 - bitpos b \<and>
      bit v (n - 1 - (7 - bitpos b - i))" for i
  proof -
    have "n - 1 - (7 - bitpos b - i) = n - k + (i - (8 - (bitpos b + k)))"
      if "8 - (bitpos b + k) \<le> i" "i < 8 - bitpos b"
      using assms(2-4) that by linarith
    moreover have "bit ?x i \<longleftrightarrow> 8 - (bitpos b + k) \<le> i \<and> i < 8 - bitpos b \<and>
        bit v (n - k + (i - (8 - (bitpos b + k))))"
      using bit_chunk [OF assms(3), of "n - k" v i] by simp
    ultimately show ?thesis
      by (cases "8 - (bitpos b + k) \<le> i \<and> i < 8 - bitpos b") (simp only:, blast)
  qed
  from or_chunk [OF assms(1-3) this assms(5) [unfolded WriteBits_cycle_def]] show ?thesis
    by blast
qed

lemma msb_bits_split:
  "k \<le> n \<Longrightarrow> map (\<lambda>i. bit v (n - 1 - i)) [0..<k] @ msb_bits (n - k) v = msb_bits n v"
  by (rule nth_equalityI) (auto simp: msb_bits_def nth_append intro!: arg_cong [where f = "bit v"])

lemma WriteBits_refines:
  fixes v :: "'a::len word"
  assumes "wr_inv b" and "WriteBits v n b = Inr b'"
  shows "wr_inv b' \<and> stream b' = stream b @ msb_bits n v \<and> rpos b' = rpos b"
  using assms
proof (induction v n b arbitrary: b' rule: WriteBits.induct)
  case (1 v n b)
  show ?case
  proof (cases "n = 0")
    case True
    then show ?thesis using "1.prems" by (simp add: WriteBits.simps msb_bits_def)
  next
    case False
    obtain c where c: "open_byte b = Inr c"
      using "1.prems"(2) False by (subst (asm) WriteBits.simps) auto
    define k where "k = writtenThisCycle n c"
    note oc = open_byte_Inr [OF "1.prems"(1) c]
    have k: "0 < k" "bitpos c + k \<le> 8" "k \<le> n"
      using oc False by (auto simp: k_def writtenThisCycle_def open_inv_def)
    obtain d where d: "WriteBits_cycle v n k c = Inr d" "WriteBits v (n - k) d = Inr b'"
      using "1.prems"(2) False c k by (subst (asm) WriteBits.simps) (auto simp: k_def [symmetric] Let_def)
    note cyc = WriteBits_cycle_refines [OF conjunct1 [OF oc] k d(1)]
    have "wr_inv b' \<and> stream b' = stream d @ msb_bits (n - k) v \<and> rpos b' = rpos d"
      using "1.IH" [OF False k_def _ conjunct1 [OF cyc] d(2)] k(1) by simp
    then show ?thesis using cyc oc msb_bits_split [OF k(3), of v] by simp
  qed
qed

text \<open>A write that starts below the assertion's limit succeeds; \<open>n\<close> bits open at most
  \<open>n div 8 + 1\<close> new bytes.\<close>

lemma open_byte_ok:
  assumes "wr_inv b" "bb_size b < MAX_BUFFER"
  shows "\<exists>b'. open_byte b = Inr b' \<and> bb_size b' \<le> bb_size b + 1"
proof (cases "bitpos b = 8")
  case True
  obtain c where c: "append_bytes [0] b = Inr c"
    using append_bytes_ok [of "[0]" b] assms(2) by auto
  have "wpos b = bb_size b" using assms(1) by (simp add: wr_inv_def)
  from append_bytes_Inr [OF this c] show ?thesis
    using True c by (simp add: open_byte_def append_u8_def)
qed (simp add: open_byte_def)

lemma WriteBit_ok:
  assumes "wr_inv b" "bb_size b < MAX_BUFFER"
  shows "\<exists>b'. WriteBit v b = Inr b' \<and> bb_size b' \<le> bb_size b + 1"
proof -
  obtain c where c: "open_byte b = Inr c" "bb_size c \<le> bb_size b + 1"
    using open_byte_ok [OF assms] by blast
  have "open_inv c" using open_byte_Inr [OF assms(1) c(1)] by simp
  then show ?thesis using c by (auto simp: WriteBit_def Let_def or_last_def open_inv_def)
qed

section \<open>Reading\<close>

lemma size_add_small: "a \<le> s \<Longrightarrow> s < 2 ^ 63 \<Longrightarrow> n < 2 ^ 63 \<Longrightarrow> size_add a n = a + n"
  by (simp add: size_add_def)

lemma read_bytes_ok:
  assumes "rd_inv b" "rpos b + n \<le> bb_size b"
  shows "read_bytes n b = Inr (take n (drop (rpos b) (storage b)), b\<lparr>rpos := rpos b + n, bitpos := 8\<rparr>)"
proof -
  have "size_add (rpos b) n = rpos b + n"
    using assms by (intro size_add_small [of _ "bb_size b"]) (auto simp: rd_inv_def)
  then show ?thesis using assms by (simp add: read_bytes_def ResetBits_def Let_def)
qed

lemma read_skip_ok:
  assumes "rd_inv b" "rpos b + n \<le> bb_size b"
  shows "read_skip n b = Inr (b\<lparr>rpos := rpos b + n, bitpos := 8\<rparr>)"
proof -
  have "size_add (rpos b) n = rpos b + n"
    using assms by (intro size_add_small [of _ "bb_size b"]) (auto simp: rd_inv_def)
  then show ?thesis using assms by (simp add: read_skip_def ResetBits_def Let_def)
qed

text \<open>Reading past the end throws, and names the position it stopped at.\<close>

lemma read_bytes_overrun:
  assumes "rd_inv b" "bb_size b < rpos b + n" "n < 2 ^ 63"
  shows "read_bytes n b = Inl (PositionException False (rpos b) n (bb_size b))"
proof -
  have "size_add (rpos b) n = rpos b + n"
    using assms by (intro size_add_small [of _ "bb_size b"]) (auto simp: rd_inv_def)
  then show ?thesis using assms by (simp add: read_bytes_def ResetBits_def Let_def)
qed

text \<open>The byte being read: between entering it and taking bits from it \<open>bitpos\<close> is 0.\<close>

definition in_byte :: "byte_buffer \<Rightarrow> bool" where
  "in_byte b \<longleftrightarrow> 0 < rpos b \<and> rpos b \<le> bb_size b \<and> bb_size b < 2 ^ 63 \<and> bitpos b < 8"

lemma enter_byte_ok:
  assumes "rd_inv b" "rdpos b < 8 * bb_size b"
  shows "\<exists>c. enter_byte b = Inr c \<and> in_byte c \<and> rdpos c = rdpos b \<and> storage c = storage b \<and>
     wpos c = wpos b"
proof (cases "bitpos b = 8")
  case True
  then have "rpos b + 1 \<le> bb_size b" using assms(2) by (simp add: rdpos_def)
  from read_skip_ok [OF assms(1) this] show ?thesis
    using True assms by (simp add: enter_byte_def in_byte_def rdpos_def rd_inv_def)
next
  case False
  then show ?thesis using assms by (auto simp: enter_byte_def in_byte_def rd_inv_def)
qed

lemma enter_byte_overrun:
  assumes "rd_inv b" "8 * bb_size b \<le> rdpos b"
  shows "enter_byte b = Inl (PositionException False (rpos b) 1 (bb_size b))"
proof -
  have e: "bitpos b = 8" "rpos b = bb_size b" using assms by (auto simp: rd_inv_def rdpos_def)
  have "size_add (rpos b) 1 = rpos b + 1"
    using assms by (intro size_add_small [of _ "bb_size b"]) (auto simp: rd_inv_def)
  then show ?thesis using e by (simp add: enter_byte_def read_skip_def ResetBits_def Let_def)
qed

lemma sbit_current:
  assumes "in_byte b" "bitpos b + i < 8"
  shows "sbit (storage b) (rdpos b + i) = bit (storage b ! (rpos b - 1)) (7 - (bitpos b + i))"
proof -
  have "rdpos b + i = 8 * (rpos b - 1) + (bitpos b + i)"
    using assms by (simp add: rdpos_def in_byte_def algebra_simps)
  then show ?thesis by (simp only: sbit_in_byte [OF assms(2)])
qed

lemma advance_inv:
  assumes "in_byte b" "0 < k" "bitpos b + k \<le> 8"
  shows "rd_inv (b\<lparr>bitpos := bitpos b + k\<rparr>) \<and> rdpos (b\<lparr>bitpos := bitpos b + k\<rparr>) = rdpos b + k"
  using assms by (auto simp: in_byte_def rd_inv_def rdpos_def)

lemma bit_and_one_iff: "x AND 1 \<noteq> 0 \<longleftrightarrow> bit (x :: 'a::len word) 0"
  by (simp add: and_one_eq bit_0 odd_iff_mod_2_eq_one)

lemma ReadBit_ok:
  assumes "rd_inv b" "rdpos b < 8 * bb_size b"
  shows "\<exists>b'. ReadBit b = Inr (sbit (storage b) (rdpos b), b') \<and> rd_inv b' \<and>
     rdpos b' = rdpos b + 1 \<and> storage b' = storage b \<and> wpos b' = wpos b"
proof -
  obtain c where c: "enter_byte b = Inr c" "in_byte c" "rdpos c = rdpos b" "storage c = storage b"
      "wpos c = wpos b"
    using enter_byte_ok [OF assms] by blast
  have bp: "bitpos c < 8" using c(2) by (simp add: in_byte_def)
  have "sbit (storage b) (rdpos b) = bit (storage c ! (rpos c - 1)) (7 - bitpos c)"
    using sbit_current [OF c(2), of 0] c bp by simp
  moreover have "current_byte (c\<lparr>bitpos := Suc (bitpos c)\<rparr>) = Inr (storage c ! (rpos c - 1))"
    using c(2) by (simp add: current_byte_def in_byte_def)
  ultimately have "ReadBit b = Inr (sbit (storage b) (rdpos b), c\<lparr>bitpos := Suc (bitpos c)\<rparr>)"
    using c(1) bp by (simp add: ReadBit_def Let_def bit_and_one_iff bit_drop_bit_eq)
  then show ?thesis using advance_inv [OF c(2), of 1] bp c by simp
qed

lemma bit_read_chunk:
  fixes x :: u8
  assumes "p + k \<le> 8" "k \<le> n" "n \<le> 32"
  shows "bit (push_bit (n - k) (ucast (drop_bit (8 - (p + k)) x AND mask k)) :: u32) j \<longleftrightarrow>
    n - k \<le> j \<and> j < n \<and> bit x (7 - (p + (n - 1 - j)))"
proof (cases "n - k \<le> j")
  case True
  then obtain i where i: "j = n - k + i" by (metis le_add_diff_inverse)
  have "7 - (p + (n - 1 - j)) = 8 - (p + k) + i" if "i < k"
    using i assms that by linarith
  moreover have "j < n \<longleftrightarrow> i < k" using i assms by linarith
  ultimately show ?thesis using i assms
    by (auto simp: bit_push_bit_iff bit_ucast_iff bit_and_iff bit_mask_iff bit_drop_bit_eq
        dest: bit_imp_le_length)
qed (simp add: bit_push_bit_iff)

lemma ReadBits_loop_ok:
  fixes v :: u32
  assumes "rd_inv b" "rdpos b + n \<le> 8 * bb_size b" "n \<le> 32"
    and "\<And>i. i < n \<Longrightarrow> sbit (storage b) (rdpos b + i) = bit v (n - 1 - i)"
  shows "\<exists>b'. ReadBits_loop n (v AND NOT (mask n)) b = Inr (v, b') \<and> rd_inv b' \<and>
     rdpos b' = rdpos b + n \<and> storage b' = storage b \<and> wpos b' = wpos b"
  using assms
proof (induction n arbitrary: b rule: less_induct)
  case (less n)
  show ?case
  proof (cases "n = 0")
    case True
    then show ?thesis using less.prems by (simp add: ReadBits_loop.simps)
  next
    case False
    then have "rdpos b < 8 * bb_size b" using less.prems(2) by simp
    then obtain c where c: "enter_byte b = Inr c" "in_byte c" "rdpos c = rdpos b"
        "storage c = storage b" "wpos c = wpos b"
      using enter_byte_ok [OF less.prems(1)] by blast
    define k where "k = readThisCycle n c"
    have k: "0 < k" "k \<le> n" "bitpos c + k \<le> 8"
      using False c(2) by (auto simp: k_def readThisCycle_def in_byte_def)
    let ?d = "c\<lparr>bitpos := bitpos c + k\<rparr>"
    let ?x = "storage c ! (rpos c - 1)"
    have cur: "current_byte ?d = Inr ?x"
      using c(2) by (simp add: current_byte_def in_byte_def)
    have val: "(v AND NOT (mask n)) OR push_bit (n - k) (ucast (drop_bit (8 - (bitpos c + k)) ?x AND mask k))
        = v AND NOT (mask (n - k))"
    proof (rule bit_word_eqI)
      fix j
      have "bit ?x (7 - (bitpos c + (n - 1 - j))) = bit v j" if "n - k \<le> j" "j < n"
      proof -
        have "bitpos c + (n - 1 - j) < 8" using that k by linarith
        from sbit_current [OF c(2) this]
        have "bit ?x (7 - (bitpos c + (n - 1 - j))) = sbit (storage b) (rdpos b + (n - 1 - j))"
          using c by simp
        also have "\<dots> = bit v (n - 1 - (n - 1 - j))" using that by (intro less.prems(4)) simp
        also have "n - 1 - (n - 1 - j) = j" using that by simp
        finally show ?thesis .
      qed
      then show "bit ((v AND NOT (mask n)) OR push_bit (n - k)
          (ucast (drop_bit (8 - (bitpos c + k)) ?x AND mask k))) j = bit (v AND NOT (mask (n - k))) j"
        unfolding bit_or_iff bit_read_chunk [OF k(3,2) less.prems(3)] using k less.prems(3)
        by (auto simp: bit_and_iff bit_not_iff bit_mask_iff dest: bit_imp_le_length)
    qed
    have step: "ReadBits_loop n (v AND NOT (mask n)) b = ReadBits_loop (n - k) (v AND NOT (mask (n - k))) ?d"
      using False c(1) cur k(1) val
      by (subst ReadBits_loop.simps) (simp add: Let_def k_def [symmetric])
    note adv = advance_inv [OF c(2) k(1,3)]
    have "\<exists>b'. ReadBits_loop (n - k) (v AND NOT (mask (n - k))) ?d = Inr (v, b') \<and> rd_inv b' \<and>
       rdpos b' = rdpos ?d + (n - k) \<and> storage b' = storage ?d \<and> wpos b' = wpos ?d"
    proof (rule less.IH)
      show "rdpos ?d + (n - k) \<le> 8 * bb_size ?d" using adv c less.prems(2) k by simp
      show "sbit (storage ?d) (rdpos ?d + i) = bit v (n - k - 1 - i)" if "i < n - k" for i
        using less.prems(4) [of "k + i"] that adv c by (simp add: add.assoc)
    qed (use k adv less.prems in simp_all)
    then show ?thesis using step adv c k by auto
  qed
qed

text \<open>\<open>ReadBits n\<close> returns the number whose \<open>n\<close> binary digits come next in the stream.\<close>

lemma ReadBits_ok:
  fixes v :: u32
  assumes "rd_inv b" "rdpos b + n \<le> 8 * bb_size b" "n \<le> 32" "\<And>i. n \<le> i \<Longrightarrow> \<not> bit v i"
    and "\<And>i. i < n \<Longrightarrow> sbit (storage b) (rdpos b + i) = bit v (n - 1 - i)"
  shows "\<exists>b'. ReadBits n b = Inr (v, b') \<and> rd_inv b' \<and> rdpos b' = rdpos b + n \<and>
     storage b' = storage b \<and> wpos b' = wpos b"
proof -
  have "v AND NOT (mask n) = 0"
    using assms(4) not_le_imp_less
    by (intro bit_word_eqI) (auto simp: bit_and_iff bit_not_iff bit_mask_iff)
  then show ?thesis
    using ReadBits_loop_ok [OF assms(1-3) assms(5)] by (simp add: ReadBits_def)
qed

section \<open>A writer and a reader in step\<close>

text \<open>\<open>early\<close>: the reader may be at a byte boundary the writer has not reached.\<close>

definition in_step :: "u8 list \<Rightarrow> bool \<Rightarrow> byte_buffer \<Rightarrow> byte_buffer \<Rightarrow> bool" where
  "in_step st early w r \<longleftrightarrow> wr_inv w \<and> rd_inv r \<and> storage r = st \<and> extended_by w st \<and>
     rpos r = bb_size w \<and> (bitpos r = bitpos w \<or> early \<and> bitpos r = 8)"

lemma in_step_mono: "in_step st early w r \<Longrightarrow> early \<longrightarrow> early' \<Longrightarrow> in_step st early' w r"
  by (auto simp: in_step_def)

lemma stream_grows_extended:
  assumes "wr_inv w" "wr_inv w'" "stream w' = stream w @ s" "extended_by w' st"
  shows "extended_by w st"
proof -
  have len: "nbits w' = nbits w + length s"
    using arg_cong [OF assms(3), of length] by simp
  have "sbit st i = sbit (storage w) i" if i: "i < nbits w" for i
  proof -
    have "sbit st i = sbit (storage w') i" using assms(4) i len by (simp add: extended_by_def)
    also have "\<dots> = stream w' ! i" using i len by (simp add: stream_def)
    also have "\<dots> = sbit (storage w) i" using i by (simp add: assms(3) nth_append) (simp add: stream_def)
    finally show ?thesis .
  qed
  moreover have "bb_size w \<le> bb_size w'"
    using len assms(1,2) by (auto simp: nbits_def wr_inv_def)
  ultimately show ?thesis using assms(4) by (simp add: extended_by_def)
qed

lemma in_step_next_bits:
  assumes "in_step st False w r" "wr_inv w'" "stream w' = stream w @ s" "extended_by w' st"
  shows "rdpos r + length s \<le> 8 * bb_size r \<and> (\<forall>i < length s. sbit (storage r) (rdpos r + i) = s ! i)"
proof -
  have pos: "rdpos r = nbits w" using assms(1) by (simp add: in_step_def rdpos_def nbits_def)
  have len: "nbits w' = nbits w + length s"
    using arg_cong [OF assms(3), of length] by simp
  have "nbits w' \<le> 8 * length st"
    using assms(4) unfolding extended_by_def nbits_def by linarith
  moreover have "sbit st (nbits w + i) = s ! i" if i: "i < length s" for i
  proof -
    have "sbit st (nbits w + i) = sbit (storage w') (nbits w + i)"
      using assms(4) i len by (simp add: extended_by_def)
    also have "\<dots> = stream w' ! (nbits w + i)" using i len by (simp add: stream_def)
    also have "\<dots> = s ! i" by (simp add: assms(3) nth_append)
    finally show ?thesis .
  qed
  ultimately show ?thesis using pos len assms(1) by (simp add: in_step_def)
qed

lemma byte_position_unique:
  assumes "8 * a - (8 - x) = 8 * b - (8 - y)" "1 \<le> x" "x \<le> 8" "1 \<le> y" "y \<le> (8::nat)"
    and "x < 8 \<Longrightarrow> 0 < a" "y < 8 \<Longrightarrow> 0 < b"
  shows "a = b \<and> x = y"
proof -
  have "8 \<le> 8 * a + x" "8 \<le> 8 * b + y"
    using assms(3,5-7) by (cases "x = 8"; cases "y = 8"; simp)+
  then have "8 * a + x = 8 * b + y" using assms(1,3,5) by linarith
  then show ?thesis using assms(2-5) by presburger
qed

lemma same_position:
  assumes "rd_inv r" "wr_inv w" "rdpos r = nbits w"
  shows "rpos r = bb_size w \<and> bitpos r = bitpos w"
  using assms by (intro byte_position_unique) (auto simp: rd_inv_def wr_inv_def rdpos_def nbits_def)

lemma in_step_WriteBit:
  assumes "in_step st False w r" "WriteBit v w = Inr w'" "extended_by w' st"
  shows "\<exists>r'. ReadBit r = Inr (v, r') \<and> in_step st False w' r'"
proof -
  have w: "wr_inv w" and r: "rd_inv r" "storage r = st" using assms(1) by (auto simp: in_step_def)
  note wb = WriteBit_refines [OF w assms(2)]
  from wb have w': "wr_inv w'" and st': "stream w' = stream w @ [v]" by auto
  note nx = in_step_next_bits [OF assms(1) w' st' assms(3)]
  have "rdpos r < 8 * bb_size r" using nx by simp
  from ReadBit_ok [OF r(1) this] nx obtain r' where
    r': "ReadBit r = Inr (v, r')" "rd_inv r'" "rdpos r' = rdpos r + 1" "storage r' = storage r"
    by auto
  have "rdpos r' = nbits w'"
    using r'(3) assms(1) arg_cong [OF st', of length]
    by (simp add: in_step_def rdpos_def nbits_def)
  from same_position [OF r'(2) w' this] show ?thesis
    using r' r w' assms(3) by (simp add: in_step_def)
qed

lemma in_step_WriteBits:
  fixes v :: "'a::len word" and u :: u32
  assumes "in_step st False w r" "WriteBits v n w = Inr w'" "extended_by w' st"
    and "n \<le> 32" "\<And>i. i < n \<Longrightarrow> bit u i = bit v i" "\<And>i. n \<le> i \<Longrightarrow> \<not> bit u i"
  shows "\<exists>r'. ReadBits n r = Inr (u, r') \<and> in_step st False w' r'"
proof -
  have w: "wr_inv w" and r: "rd_inv r" "storage r = st" using assms(1) by (auto simp: in_step_def)
  note wb = WriteBits_refines [OF w assms(2)]
  from wb have w': "wr_inv w'" and st': "stream w' = stream w @ msb_bits n v" by auto
  note nx = in_step_next_bits [OF assms(1) w' st' assms(3)]
  have "sbit (storage r) (rdpos r + i) = bit u (n - 1 - i)" if "i < n" for i
    using nx that assms(5) [of "n - 1 - i"] by (simp add: msb_bits_def)
  then obtain r' where
    r': "ReadBits n r = Inr (u, r')" "rd_inv r'" "rdpos r' = rdpos r + n" "storage r' = storage r"
    using ReadBits_ok [OF r(1) _ assms(4) assms(6)] nx by auto
  have "rdpos r' = nbits w'"
    using r'(3) assms(1) arg_cong [OF st', of length]
    by (simp add: in_step_def rdpos_def nbits_def)
  from same_position [OF r'(2) w' this] show ?thesis
    using r' r w' assms(3) by (simp add: in_step_def)
qed

lemma in_step_append:
  assumes "in_step st early w r" "append_bytes bs w = Inr w'" "extended_by w' st"
  shows "\<exists>r'. read_bytes (length bs) r = Inr (bs, r') \<and> in_step st False w' r'"
proof -
  have w: "wr_inv w" "wpos w = bb_size w" and r: "rd_inv r" "storage r = st" "rpos r = bb_size w"
    using assms(1) by (auto simp: in_step_def wr_inv_def)
  note eq = append_bytes_Inr [OF w(2) assms(2)]
  have len: "bb_size w + length bs \<le> length st" using assms(3) eq by (simp add: extended_by_def)
  have "take (length bs) (drop (bb_size w) st) = bs"
    using len extended_by_aligned [OF assms(3)] eq
    by (intro nth_equalityI) (auto simp: nth_append)
  then have "read_bytes (length bs) r = Inr (bs, r\<lparr>rpos := bb_size w + length bs, bitpos := 8\<rparr>)"
    using read_bytes_ok [OF r(1), of "length bs"] len r by simp
  moreover have "rd_inv (r\<lparr>rpos := bb_size w + length bs, bitpos := 8\<rparr>)"
    using r len by (simp add: rd_inv_def)
  ultimately show ?thesis
    using append_bytes_wr_inv [OF w(1) assms(2)] assms(3) r eq by (simp add: in_step_def)
qed

text \<open>
  The one asymmetry of the format:
  \<open>ReadByteSeq\<close> and \<open>read_skip\<close> move to the byte boundary even when nothing is read, while
  \<open>WriteByteSeq 0\<close> leaves the writer inside its byte.
\<close>

lemma in_step_early:
  assumes "in_step st early w r"
  shows "in_step st True w (r\<lparr>bitpos := 8\<rparr>)"
  using assms by (auto simp: in_step_def rd_inv_def)

lemma in_step_skip0:
  assumes "in_step st early w r"
  shows "\<exists>r'. read_skip 0 r = Inr r' \<and> in_step st True w r'"
  using read_skip_ok [of r 0] assms by (auto simp: in_step_def rd_inv_def)

lemma in_step_WriteByteSeq:
  assumes "in_step st early w r" "WriteByteSeq v w = Inr w'" "extended_by w' st"
  shows "\<exists>r'. ReadByteSeq (of_bool (v \<noteq> 0)) r = Inr (v, r') \<and> in_step st True w' r'"
proof (cases "v = 0")
  case True
  then show ?thesis using assms in_step_early [OF assms(1)]
    by (simp add: ReadByteSeq_def WriteByteSeq_def ResetBits_def Let_def)
next
  case False
  then have "append_bytes [v XOR 1] w = Inr w'"
    using assms(2) by (simp add: WriteByteSeq_def append_u8_def)
  from in_step_append [OF in_step_early [OF assms(1)] this assms(3)]
  obtain r' where r': "read_bytes 1 (r\<lparr>bitpos := 8\<rparr>) = Inr ([v XOR 1], r')" "in_step st True w' r'"
    using in_step_mono by auto
  then have "read_u8 (ResetBits r) = Inr (v XOR 1, r')"
    by (simp add: read_u8_def read_word_def ResetBits_def)
  then show ?thesis using False r'(2)
    by (simp add: ReadByteSeq_def ResetBits_def Let_def)
qed

end
