(* ===== verification/Codec.thy ===== *)
theory Codec
  imports ByteStream
begin

text \<open>
  The interface between the byte buffer and the code that builds packets with it.  \<open>appender\<close> is
  what every write operation promises: it succeeds as long as the buffer stays below the
  assertion's limit, keeps the writer's invariant and keeps every bit already written.  \<open>codec\<close>
  pairs a write with the read that undoes it.  The lemmas inside the locales are proved once; the
  interpretations discharge the contract for the operations of \<open>ByteBuffer\<close>.
\<close>

unbundle bit_operations_syntax

section \<open>Fresh buffers\<close>

text \<open>A packet as it arrives: the received bytes, both cursors at their start.\<close>

definition received :: "u8 list \<Rightarrow> byte_buffer" where
  "received st = \<lparr>storage = st, rpos = 0, wpos = length st, bitpos = 8\<rparr>"

lemma wr_inv_empty [simp]: "wr_inv empty_buffer"
  by (simp add: wr_inv_def empty_buffer_def)

lemma in_step_start: "length st < 2 ^ 63 \<Longrightarrow> in_step st False empty_buffer (received st)"
  by (simp add: in_step_def rd_inv_def received_def empty_buffer_def extended_by_def nbits_def wr_inv_def)

section \<open>Appending\<close>

locale appender =
  fixes put :: "byte_buffer \<Rightarrow> bb_error + byte_buffer" and width :: nat
  assumes put_ok: "wr_inv w \<Longrightarrow> bb_size w + width \<le> MAX_BUFFER \<Longrightarrow> \<exists>w'. put w = Inr w'"
    and put_inv: "wr_inv w \<Longrightarrow> put w = Inr w' \<Longrightarrow> wr_inv w' \<and> bb_size w' \<le> bb_size w + width"
    and put_keeps: "wr_inv w \<Longrightarrow> put w = Inr w' \<Longrightarrow> extended_by w' st \<Longrightarrow> extended_by w st"

lemma appender_mono: "appender put n \<Longrightarrow> n \<le> m \<Longrightarrow> appender put m"
  unfolding appender_def by (meson add_left_mono le_trans)

lemma appender_nothing: "appender Inr n"
  by unfold_locales auto

lemma appender_then:
  assumes "appender f n" "appender g m"
  shows "appender (\<lambda>w. ebind (f w) g) (n + m)"
proof
  fix w assume w: "wr_inv w" "bb_size w + (n + m) \<le> MAX_BUFFER"
  then obtain v where v: "f w = Inr v" using appender.put_ok [OF assms(1)] by fastforce
  then have "wr_inv v" "bb_size v + m \<le> MAX_BUFFER"
    using appender.put_inv [OF assms(1) w(1) v] w(2) by auto
  then show "\<exists>w'. ebind (f w) g = Inr w'" using v appender.put_ok [OF assms(2)] by simp
next
  fix w w' assume "wr_inv w" "ebind (f w) g = Inr w'"
  then obtain v where v: "wr_inv w" "f w = Inr v" "g v = Inr w'" by auto
  have "wr_inv v" "bb_size v \<le> bb_size w + n" using appender.put_inv [OF assms(1) v(1,2)] by auto
  then show "wr_inv w' \<and> bb_size w' \<le> bb_size w + (n + m)"
    using appender.put_inv [OF assms(2) _ v(3)] by auto
next
  fix w w' st assume "wr_inv w" "ebind (f w) g = Inr w'" "extended_by w' st"
  then show "extended_by w st"
    using appender.put_inv [OF assms(1)] appender.put_keeps [OF assms(1)] appender.put_keeps [OF assms(2)]
    by blast
qed

text \<open>A write that refines appending \<open>n\<close> bits is an appender; the bits bound the new bytes.\<close>

lemma size_from_bits:
  assumes "wr_inv w" "wr_inv w'" "nbits w' = nbits w + n"
  shows "bb_size w' \<le> bb_size w + (n + 7) div 8"
proof -
  have "1 \<le> bitpos w'" "bitpos w \<le> 8" using assms by (auto simp: wr_inv_def)
  then have "8 * bb_size w' \<le> 8 * bb_size w + n + 7"
    using assms(3) unfolding nbits_def by linarith
  then show ?thesis by linarith
qed

lemma WriteBits_ok:
  fixes v :: "'a::len word"
  assumes "wr_inv b" "nbits b + n \<le> 8 * MAX_BUFFER"
  shows "\<exists>b'. WriteBits v n b = Inr b'"
  using assms
proof (induction v n b rule: WriteBits.induct)
  case (1 v n b)
  show ?case
  proof (cases "n = 0")
    case True
    then show ?thesis by (simp add: WriteBits.simps)
  next
    case False
    have "bitpos b = 8 \<longrightarrow> bb_size b < MAX_BUFFER"
      using "1.prems" False by (auto simp: nbits_def)
    then obtain c where c: "open_byte b = Inr c"
      using open_byte_ok [OF "1.prems"(1)] by (cases "bitpos b = 8") (auto simp: open_byte_def)
    define k where "k = writtenThisCycle n c"
    note oc = open_byte_Inr [OF "1.prems"(1) c]
    have k: "0 < k" "bitpos c + k \<le> 8" "k \<le> n"
      using oc False by (auto simp: k_def writtenThisCycle_def open_inv_def)
    obtain d where d: "WriteBits_cycle v n k c = Inr d"
      using oc by (auto simp: WriteBits_cycle_def or_last_def open_inv_def)
    note cyc = WriteBits_cycle_refines [OF conjunct1 [OF oc] k d]
    have "nbits c = nbits b" using arg_cong [OF conjunct1 [OF conjunct2 [OF oc]], of length] by simp
    moreover have "nbits d = nbits c + k"
      using arg_cong [OF conjunct1 [OF conjunct2 [OF cyc]], of length] by simp
    ultimately have "nbits d + (n - k) \<le> 8 * MAX_BUFFER" using "1.prems"(2) k by simp
    then have "\<exists>b'. WriteBits v (n - k) d = Inr b'"
      using "1.IH" [OF False k_def _ conjunct1 [OF cyc]] k(1) by simp
    then show ?thesis using False c d k by (subst WriteBits.simps) (simp add: k_def [symmetric])
  qed
qed

lemma appender_WriteBit: "appender (WriteBit v) 1"
proof
  fix w assume "wr_inv w" "bb_size w + 1 \<le> MAX_BUFFER"
  then show "\<exists>w'. WriteBit v w = Inr w'" using WriteBit_ok [of w v] by auto
next
  fix w w' assume w: "wr_inv w" "WriteBit v w = Inr w'"
  note r = WriteBit_refines [OF w]
  then have "nbits w' = nbits w + 1" using length_stream [of w'] by simp
  from size_from_bits [OF w(1) conjunct1 [OF r] this] r
  show "wr_inv w' \<and> bb_size w' \<le> bb_size w + 1" by simp
next
  fix w w' st assume "wr_inv w" "WriteBit v w = Inr w'" "extended_by w' st"
  then show "extended_by w st" using WriteBit_refines stream_grows_extended by meson
qed

lemma appender_WriteBits: "appender (WriteBits v n) ((n + 7) div 8)"
proof
  fix w assume w: "wr_inv w" "bb_size w + (n + 7) div 8 \<le> MAX_BUFFER"
  then have "nbits w + n \<le> 8 * MAX_BUFFER" unfolding nbits_def by linarith
  then show "\<exists>w'. WriteBits v n w = Inr w'" using WriteBits_ok [OF w(1)] by blast
next
  fix w w' assume w: "wr_inv w" "WriteBits v n w = Inr w'"
  note r = WriteBits_refines [OF w]
  then have "nbits w' = nbits w + n" using length_stream [of w'] by simp
  from size_from_bits [OF w(1) conjunct1 [OF r] this] r
  show "wr_inv w' \<and> bb_size w' \<le> bb_size w + (n + 7) div 8" by simp
next
  fix w w' st assume "wr_inv w" "WriteBits v n w = Inr w'" "extended_by w' st"
  then show "extended_by w st" using WriteBits_refines stream_grows_extended by meson
qed

lemma appender_append_bytes:
  assumes "bs \<noteq> []"
  shows "appender (append_bytes bs) (length bs)"
proof
  fix w assume "wr_inv w" "bb_size w + length bs \<le> MAX_BUFFER"
  moreover have "0 < length bs" using assms by simp
  ultimately have "bb_size w < MAX_BUFFER" by linarith
  then show "\<exists>w'. append_bytes bs w = Inr w'"
    using append_bytes_ok [of bs w] assms by auto
next
  fix w w' assume w: "wr_inv w" "append_bytes bs w = Inr w'"
  then show "wr_inv w' \<and> bb_size w' \<le> bb_size w + length bs"
    using append_bytes_wr_inv [OF w] append_bytes_Inr [of w bs w'] by (simp add: wr_inv_def)
next
  fix w w' st assume "wr_inv w" "append_bytes bs w = Inr w'" "extended_by w' st"
  then show "extended_by w st" using append_bytes_extended by (auto simp: wr_inv_def)
qed

lemma appender_append_u8: "appender (append_u8 v) 1"
  using appender_append_bytes [of "le_bytes 1 v"] by (simp add: append_u8_def)

lemma appender_append_u16: "appender (append_u16 v) 2"
  using appender_append_bytes [of "le_bytes 2 v"] by (simp add: append_u16_def)

lemma appender_append_u32: "appender (append_u32 v) 4"
  using appender_append_bytes [of "le_bytes 4 v"] by (simp add: append_u32_def)

lemma appender_append_u64: "appender (append_u64 v) 8"
  using appender_append_bytes [of "le_bytes 8 v"] by (simp add: append_u64_def)

lemma appender_WriteByteSeq: "appender (WriteByteSeq v) 1"
  using appender_append_u8 [of "v XOR 1"] appender_nothing [of 1]
  by (cases "v = 0") (simp_all add: WriteByteSeq_def [abs_def])

lemma appender_append_string: "appender (append_string str) (length str + 1)"
proof (cases "str = []")
  case True
  then show ?thesis using appender_append_u8 [of 0] by (simp add: append_string_def [abs_def])
next
  case False
  then show ?thesis using appender_then [OF appender_append_bytes appender_append_u8, of str 0]
    by (simp add: append_string_def [abs_def])
qed

interpretation write_bit: appender "WriteBit v" 1 for v
  by (rule appender_WriteBit)

interpretation write_bits: appender "WriteBits v n" "(n + 7) div 8" for v n
  by (rule appender_WriteBits)

interpretation write_seq: appender "WriteByteSeq v" 1 for v
  by (rule appender_WriteByteSeq)

interpretation write_string: appender "append_string str" "length str + 1" for str
  by (rule appender_append_string)

section \<open>Writing and reading back\<close>

locale codec =
  fixes put :: "'v \<Rightarrow> byte_buffer \<Rightarrow> bb_error + byte_buffer"
    and get :: "byte_buffer \<Rightarrow> bb_error + ('v \<times> byte_buffer)"
    and valid :: "'v \<Rightarrow> bool" and width :: "'v \<Rightarrow> nat"
  assumes put_appends: "valid v \<Longrightarrow> appender (put v) (width v)"
    and get_put: "valid v \<Longrightarrow> in_step st False w r \<Longrightarrow> put v w = Inr w' \<Longrightarrow> extended_by w' st
      \<Longrightarrow> \<exists>r'. get r = Inr (v, r') \<and> in_step st False w' r'"
begin

lemma puts_appends: "list_all valid vs \<Longrightarrow> appender (efold put vs) (sum_list (map width vs))"
proof (induction vs)
  case Nil
  then show ?case using appender_nothing [of 0] by (simp add: appender_def)
next
  case (Cons v vs)
  have "efold put (v # vs) = (\<lambda>w. ebind (put v w) (efold put vs))" by (rule ext) simp
  then show ?case
    using appender_then [OF put_appends [of v] Cons.IH] Cons.prems by simp
qed

lemma gets_puts:
  assumes "list_all valid vs" "in_step st False w r" "efold put vs w = Inr w'" "extended_by w' st"
  shows "\<exists>r'. get_n get (length vs) r = Inr (vs, r') \<and> in_step st False w' r'"
  using assms
proof (induction vs arbitrary: w r)
  case Nil
  then show ?case by simp
next
  case (Cons v vs)
  from Cons.prems obtain u where u: "put v w = Inr u" "efold put vs u = Inr w'" by auto
  have ok: "valid v" "list_all valid vs" using Cons.prems(1) by auto
  have "wr_inv w" using Cons.prems(2) by (simp add: in_step_def)
  then have "wr_inv u" using appender.put_inv [OF put_appends [OF ok(1)]] u(1) by blast
  then have "extended_by u st" using appender.put_keeps [OF puts_appends [OF ok(2)] _ u(2) Cons.prems(4)] by blast
  from get_put [OF ok(1) Cons.prems(2) u(1) this] obtain s where
    s: "get r = Inr (v, s)" "in_step st False u s" by blast
  from Cons.IH [OF ok(2) s(2) u(2) Cons.prems(4)] s(1) show ?case by auto
qed

text \<open>A packet made of such values fits, and reads back value by value to its last byte.\<close>

lemma round_trip:
  assumes "list_all valid vs" "sum_list (map width vs) \<le> MAX_BUFFER"
  shows "\<exists>w r. efold put vs empty_buffer = Inr w \<and>
     get_n get (length vs) (received (storage w)) = Inr (vs, r) \<and> rpos r = bb_size w"
proof -
  note app = puts_appends [OF assms(1)]
  obtain w where w: "efold put vs empty_buffer = Inr w"
    using appender.put_ok [OF app wr_inv_empty] assms(2) by (auto simp: empty_buffer_def)
  have "wr_inv w" "bb_size w \<le> MAX_BUFFER"
    using appender.put_inv [OF app wr_inv_empty w] assms(2) by (auto simp: empty_buffer_def)
  then have "in_step (storage w) False empty_buffer (received (storage w))"
    by (intro in_step_start) (simp_all add: MAX_BUFFER_def)
  from gets_puts [OF assms(1) this w extended_by_refl] w show ?thesis
    by (auto simp: in_step_def)
qed

end

interpretation bit_codec: codec WriteBit ReadBit "\<lambda>_. True" "\<lambda>_. 1"
  by (rule codec.intro) (rule appender_WriteBit, rule in_step_WriteBit)

lemma word_codec:
  assumes "\<And>v. put v = append_bytes (le_bytes n v)" "get = read_word n"
    and "\<And>v :: 'a::len word. le_word (le_bytes n v) = v" "0 < n"
  shows "codec put get (\<lambda>v :: 'a word. True) (\<lambda>_. n)"
proof (rule codec.intro)
  fix v :: "'a word"
  have "le_bytes n v \<noteq> []" using assms(4) by simp
  from appender_append_bytes [OF this] show "appender (put v) n" by (simp add: assms(1) [abs_def])
next
  fix v :: "'a word" and st w r w'
  assume "in_step st False w r" "put v w = Inr w'" "extended_by w' st"
  then show "\<exists>r'. get r = Inr (v, r') \<and> in_step st False w' r'"
    using in_step_append [of st False w r "le_bytes n v" w'] by (auto simp: assms(1-3) read_word_def)
qed

interpretation u8_codec: codec append_u8 read_u8 "\<lambda>_. True" "\<lambda>_. 1"
  by (rule word_codec) (simp_all add: append_u8_def read_u8_def)

interpretation u16_codec: codec append_u16 read_u16 "\<lambda>_. True" "\<lambda>_. 2"
  by (rule word_codec) (simp_all add: append_u16_def read_u16_def)

interpretation u32_codec: codec append_u32 read_u32 "\<lambda>_. True" "\<lambda>_. 4"
  by (rule word_codec) (simp_all add: append_u32_def read_u32_def)

interpretation u64_codec: codec append_u64 read_u64 "\<lambda>_. True" "\<lambda>_. 8"
  by (rule word_codec) (simp_all add: append_u64_def read_u64_def)

text \<open>Two values one after the other.\<close>

definition put_pair ::
  "('a \<Rightarrow> byte_buffer \<Rightarrow> bb_error + byte_buffer) \<Rightarrow> ('b \<Rightarrow> byte_buffer \<Rightarrow> bb_error + byte_buffer)
   \<Rightarrow> 'a \<times> 'b \<Rightarrow> byte_buffer \<Rightarrow> bb_error + byte_buffer" where
  "put_pair p q v b = ebind (p (fst v) b) (q (snd v))"

definition get_pair ::
  "(byte_buffer \<Rightarrow> bb_error + ('a \<times> byte_buffer)) \<Rightarrow> (byte_buffer \<Rightarrow> bb_error + ('b \<times> byte_buffer))
   \<Rightarrow> byte_buffer \<Rightarrow> bb_error + (('a \<times> 'b) \<times> byte_buffer)" where
  "get_pair p q b = ebind (p b) (\<lambda>(x, b). ebind (q b) (\<lambda>(y, b). Inr ((x, y), b)))"

lemma pair_codec:
  assumes "codec p g v n" "codec q h u k"
  shows "codec (put_pair p q) (get_pair g h) (\<lambda>x. v (fst x) \<and> u (snd x)) (\<lambda>x. n (fst x) + k (snd x))"
proof (rule codec.intro)
  fix x assume "v (fst x) \<and> u (snd x)"
  then show "appender (put_pair p q x) (n (fst x) + k (snd x))"
    using appender_then [OF codec.put_appends [OF assms(1)] codec.put_appends [OF assms(2)]]
    by (simp add: put_pair_def [abs_def])
next
  fix x st w r w'
  assume a: "v (fst x) \<and> u (snd x)" "in_step st False w r" "put_pair p q x w = Inr w'" "extended_by w' st"
  from a(3) obtain c where c: "p (fst x) w = Inr c" "q (snd x) c = Inr w'" by (auto simp: put_pair_def)
  have wi: "wr_inv w" using a(2) by (simp add: in_step_def)
  have pv: "v (fst x)" and qu: "u (snd x)" using a(1) by auto
  have ci: "wr_inv c" using appender.put_inv [OF codec.put_appends [OF assms(1) pv] wi c(1)] by blast
  have "extended_by c st" using appender.put_keeps [OF codec.put_appends [OF assms(2) qu] ci c(2) a(4)] .
  from codec.get_put [OF assms(1) pv a(2) c(1) this] obtain s where
    s: "g r = Inr (fst x, s)" "in_step st False c s" by blast
  from codec.get_put [OF assms(2) qu s(2) c(2) a(4)] s(1)
  show "\<exists>r'. get_pair g h r = Inr (x, r') \<and> in_step st False w' r'" by (auto simp: get_pair_def)
qed

text \<open>A value that is followed by another one only when it says so.\<close>

definition put_when ::
  "('a \<Rightarrow> bool) \<Rightarrow> ('a \<Rightarrow> byte_buffer \<Rightarrow> bb_error + byte_buffer) \<Rightarrow> ('b \<Rightarrow> byte_buffer \<Rightarrow> bb_error + byte_buffer)
   \<Rightarrow> 'a \<times> 'b option \<Rightarrow> byte_buffer \<Rightarrow> bb_error + byte_buffer" where
  "put_when c p q v b = ebind (p (fst v) b) (case snd v of None \<Rightarrow> Inr | Some y \<Rightarrow> q y)"

definition get_when ::
  "('a \<Rightarrow> bool) \<Rightarrow> (byte_buffer \<Rightarrow> bb_error + ('a \<times> byte_buffer)) \<Rightarrow> (byte_buffer \<Rightarrow> bb_error + ('b \<times> byte_buffer))
   \<Rightarrow> byte_buffer \<Rightarrow> bb_error + (('a \<times> 'b option) \<times> byte_buffer)" where
  "get_when c p q b = ebind (p b) (\<lambda>(x, b).
     if c x then ebind (q b) (\<lambda>(y, b). Inr ((x, Some y), b)) else Inr ((x, None), b))"

lemma when_codec:
  assumes "codec p g v n" "codec q h u k"
  shows "codec (put_when c p q) (get_when c g h)
     (\<lambda>x. v (fst x) \<and> (case snd x of None \<Rightarrow> \<not> c (fst x) | Some y \<Rightarrow> c (fst x) \<and> u y))
     (\<lambda>x. n (fst x) + (case snd x of None \<Rightarrow> 0 | Some y \<Rightarrow> k y))"
proof (rule codec.intro)
  fix x assume a: "v (fst x) \<and> (case snd x of None \<Rightarrow> \<not> c (fst x) | Some y \<Rightarrow> c (fst x) \<and> u y)"
  have "appender (case snd x of None \<Rightarrow> Inr | Some y \<Rightarrow> q y) (case snd x of None \<Rightarrow> 0 | Some y \<Rightarrow> k y)"
    using a codec.put_appends [OF assms(2)] appender_nothing by (auto split: option.splits)
  then show "appender (put_when c p q x) (n (fst x) + (case snd x of None \<Rightarrow> 0 | Some y \<Rightarrow> k y))"
    using appender_then [OF codec.put_appends [OF assms(1)]] a by (simp add: put_when_def [abs_def])
next
  fix x st w r w'
  assume a: "v (fst x) \<and> (case snd x of None \<Rightarrow> \<not> c (fst x) | Some y \<Rightarrow> c (fst x) \<and> u y)"
    "in_step st False w r" "put_when c p q x w = Inr w'" "extended_by w' st"
  show "\<exists>r'. get_when c g h r = Inr (x, r') \<and> in_step st False w' r'"
  proof (cases "snd x")
    case None
    then have "p (fst x) w = Inr w'" using a(3) by (cases "p (fst x) w") (auto simp: put_when_def)
    with codec.get_put [OF assms(1) conjunct1 [OF a(1)] a(2) _ a(4)] None a(1) show ?thesis
      by (cases x) (auto simp: get_when_def)
  next
    case (Some y)
    then have "put_pair p q (fst x, y) w = Inr w'" using a(3) by (simp add: put_when_def put_pair_def)
    from codec.get_put [OF pair_codec [OF assms] _ a(2) this a(4)] Some a(1)
    obtain r' where "get_pair g h r = Inr ((fst x, y), r')" "in_step st False w' r'" by auto
    then show ?thesis using Some a(1) by (cases x) (auto simp: get_when_def get_pair_def)
  qed
qed

interpretation u32_pair_codec: codec "put_pair append_u32 append_u32" "get_pair read_u32 read_u32"
    "\<lambda>_. True \<and> True" "\<lambda>_. 4 + 4"
  by (rule pair_codec [OF u32_codec.codec_axioms u32_codec.codec_axioms])

text \<open>A bit field of a fixed width.\<close>

lemma bits_codec:
  assumes "n \<le> 32"
  shows "codec (\<lambda>v :: u32. WriteBits v n) (ReadBits n) (\<lambda>v. v < 2 ^ n) (\<lambda>_. (n + 7) div 8)"
proof (rule codec.intro)
  fix v :: u32 show "appender (WriteBits v n) ((n + 7) div 8)" by (rule appender_WriteBits)
next
  fix v :: u32 and st w r w'
  assume a: "v < 2 ^ n" "in_step st False w r" "WriteBits v n w = Inr w'" "extended_by w' st"
  have "\<And>i. n \<le> i \<Longrightarrow> \<not> bit v i" using a(1) not_bit_above by blast
  then show "\<exists>r'. ReadBits n r = Inr (v, r') \<and> in_step st False w' r'"
    using in_step_WriteBits [OF a(2-4) assms refl] by blast
qed

interpretation count_codec: codec "\<lambda>v :: u32. WriteBits v 21" "ReadBits 21" "\<lambda>v. v < 2 ^ 21" "\<lambda>_. (21 + 7) div 8"
  by (rule bits_codec) simp

text \<open>A packet of a header and a list of items reads back as both.\<close>

lemma framed_round_trip:
  assumes "codec ph gh vh nh" "codec p g v n" "vh h" "list_all v vs"
    and "nh h + sum_list (map n vs) \<le> MAX_BUFFER"
  shows "\<exists>w r s. ebind (ph h empty_buffer) (efold p vs) = Inr w \<and> gh (received (storage w)) = Inr (h, r) \<and>
     get_n g (length vs) r = Inr (vs, s) \<and> rpos s = bb_size w"
proof -
  note head = codec.put_appends [OF assms(1,3)] and items = codec.puts_appends [OF assms(2,4)]
  obtain b where b: "ph h empty_buffer = Inr b"
    using appender.put_ok [OF head wr_inv_empty] assms(5) by (auto simp: empty_buffer_def)
  have bi: "wr_inv b" "bb_size b \<le> nh h" using appender.put_inv [OF head wr_inv_empty b] by (auto simp: empty_buffer_def)
  obtain w where w: "efold p vs b = Inr w" using appender.put_ok [OF items bi(1)] bi(2) assms(5) by auto
  have "bb_size w \<le> MAX_BUFFER" using appender.put_inv [OF items bi(1) w] bi(2) assms(5) by simp
  then have start: "in_step (storage w) False empty_buffer (received (storage w))"
    by (intro in_step_start) (simp add: MAX_BUFFER_def)
  have "extended_by b (storage w)" using appender.put_keeps [OF items bi(1) w extended_by_refl] .
  from codec.get_put [OF assms(1,3) start b this] obtain r where
    r: "gh (received (storage w)) = Inr (h, r)" "in_step (storage w) False b r" by blast
  from codec.gets_puts [OF assms(2,4) r(2) w extended_by_refl] r(1) b w show ?thesis
    by (auto simp: in_step_def)
qed

section \<open>Strings\<close>

lemma read_u8_ok:
  assumes "rd_inv b" "rpos b < bb_size b"
  shows "read_u8 b = Inr (storage b ! rpos b, b\<lparr>rpos := rpos b + 1, bitpos := 8\<rparr>)"
proof -
  have "take 1 (drop (rpos b) (storage b)) = [storage b ! rpos b]"
    using assms(2) by (simp add: take_Suc_conv_app_nth flip: Cons_nth_drop_Suc)
  moreover have "le_word [x] = x" for x :: u8 by simp
  ultimately show ?thesis
    using read_bytes_ok [OF assms(1), of 1] assms(2) by (simp add: read_u8_def read_word_def)
qed

text \<open>The reader stops at the terminator and leaves the cursor behind it.\<close>

lemma read_string_ok:
  assumes "rd_inv b" "rpos b + length str < bb_size b" "0 \<notin> set str"
    and "\<And>i. i < length str \<Longrightarrow> storage b ! (rpos b + i) = str ! i"
    and "storage b ! (rpos b + length str) = 0"
  shows "read_string b = Inr (str, b\<lparr>rpos := rpos b + length str + 1, bitpos := 8\<rparr>)"
  using assms
proof (induction str arbitrary: b)
  case Nil
  then show ?case using read_u8_ok [of b] by (subst read_string.simps) simp
next
  case (Cons c str)
  let ?b = "b\<lparr>rpos := rpos b + 1, bitpos := 8\<rparr>"
  have c: "read_u8 b = Inr (c, ?b)" "c \<noteq> 0"
    using read_u8_ok [of b] Cons.prems(1-3) Cons.prems(4) [of 0] by auto
  have "rd_inv ?b" using Cons.prems(1,2) by (simp add: rd_inv_def)
  then have "read_string ?b = Inr (str, ?b\<lparr>rpos := rpos ?b + length str + 1, bitpos := 8\<rparr>)"
    using Cons.prems(2,3,5) Cons.prems(4) [of "Suc _"] by (intro Cons.IH) auto
  then show ?case using c Cons.prems(2) by (subst read_string.simps) simp
qed

lemma append_string_Inr:
  assumes "wpos b = bb_size b" "append_string str b = Inr b'"
  shows "b' = b\<lparr>storage := storage b @ str @ [0], wpos := bb_size b + length str + 1, bitpos := 8\<rparr>"
proof -
  from assms(2) obtain c where c: "(if str \<noteq> [] then append_bytes str b else Inr b) = Inr c"
    "append_bytes [0] c = Inr b'"
    by (auto simp: append_string_def append_u8_def split: if_splits)
  show ?thesis
  proof (cases "str = []")
    case True
    then show ?thesis using c append_bytes_Inr [OF assms(1), of "[0]" b'] by simp
  next
    case False
    then have "append_bytes str b = Inr c" using c(1) by simp
    note eq = append_bytes_Inr [OF assms(1) this]
    then have "wpos c = bb_size c" by simp
    from append_bytes_Inr [OF this c(2)] show ?thesis by (simp add: eq)
  qed
qed

text \<open>What one append put into the buffer is found again in every buffer that extends it.\<close>

lemma appended_nth:
  assumes "extended_by w' st" "bitpos w' = 8" "storage w' = xs @ bs" "i < length bs"
  shows "st ! (length xs + i) = bs ! i"
  using extended_by_aligned [OF assms(1,2), of "length xs + i"] assms(3,4) by (simp add: nth_append)

interpretation string_codec: codec append_string read_string "\<lambda>str. 0 \<notin> set str" "\<lambda>str. length str + 1"
proof (rule codec.intro)
  fix str show "appender (append_string str) (length str + 1)" by (rule appender_append_string)
next
  fix str st w r w'
  assume a: "0 \<notin> set str" "in_step st False w r" "append_string str w = Inr w'" "extended_by w' st"
  have w: "wr_inv w" "wpos w = bb_size w" and r: "rd_inv r" "storage r = st" "rpos r = bb_size w"
    using a(2) by (auto simp: in_step_def wr_inv_def)
  note eq = append_string_Inr [OF w(2) a(3)]
  have n: "st ! (bb_size w + i) = (str @ [0]) ! i" if "i < length (str @ [0])" for i
    using appended_nth [OF a(4), of "storage w" "str @ [0]"] that eq by simp
  have len: "bb_size w + length str < length st" using a(4) eq by (simp add: extended_by_def)
  have "read_string r = Inr (str, r\<lparr>rpos := rpos r + length str + 1, bitpos := 8\<rparr>)"
    using n n [of "length str"] len r a(1) by (intro read_string_ok) (auto simp: nth_append)
  moreover have "in_step st False w' (r\<lparr>rpos := rpos r + length str + 1, bitpos := 8\<rparr>)"
    using appender.put_inv [OF appender_append_string w(1) a(3)] a(4) r len eq
    by (simp add: in_step_def rd_inv_def)
  ultimately show "\<exists>r'. read_string r = Inr (str, r') \<and> in_step st False w' r'" by blast
qed

end
