(* ===== verification/PackedGuid.thy ===== *)
theory PackedGuid
  imports Codec
begin

text \<open>
  The packed form of a guid (\<open>appendPackGUID\<close>, \<open>readPackGUID\<close>): a mask byte whose bit \<open>i\<close> tells
  that byte \<open>i\<close> of the guid is not zero, followed by the non-zero bytes, lowest first.  The loop
  of the writer computes exactly this form, and the reader inverts it: the pair is a \<open>codec\<close>.
\<close>

unbundle bit_operations_syntax

section \<open>The packed form\<close>

fun pack_mask :: "u64 \<Rightarrow> nat \<Rightarrow> u8" where
  "pack_mask g 0 = 0"
| "pack_mask g (Suc i) = pack_mask g i OR (if guid_byte g i \<noteq> 0 then push_bit i 1 else 0)"

fun pack_bytes :: "u64 \<Rightarrow> nat \<Rightarrow> u8 list" where
  "pack_bytes g 0 = []"
| "pack_bytes g (Suc i) = pack_bytes g i @ (if guid_byte g i \<noteq> 0 then [guid_byte g i] else [])"

lemma bit_pack_mask: "i \<le> 8 \<Longrightarrow> bit (pack_mask g i) j \<longleftrightarrow> j < i \<and> guid_byte g j \<noteq> 0"
  by (induction i) (auto simp: bit_or_iff bit_exp_iff less_Suc_eq)

lemma guid_byte_drop: "guid_byte (drop_bit (8 * i) g) j = guid_byte g (i + j)"
  by (simp add: guid_byte_def drop_bit_drop_bit algebra_simps)

lemma guid_byte_low: "guid_byte g 0 = 0 \<longleftrightarrow> g AND 255 = 0"
proof -
  have "guid_byte g 0 = 0 \<longleftrightarrow> (\<forall>j < 8. \<not> bit g j)"
    by (auto simp: bit_eq_iff bit_guid_byte)
  also have "\<dots> \<longleftrightarrow> g AND 255 = 0"
  proof -
    have small: "j < 64" if "j < 8" for j :: nat using that by simp
    show ?thesis unfolding byte_mask bit_eq_iff bit_and_iff bit_mask_iff by (auto dest: small)
  qed
  finally show ?thesis .
qed

text \<open>Above the highest non-zero byte nothing is added.\<close>

lemma pack_done:
  assumes "drop_bit (8 * i) g = 0" "i \<le> k"
  shows "pack_mask g k = pack_mask g i \<and> pack_bytes g k = pack_bytes g i"
  using assms(2)
proof (induction k)
  case (Suc k)
  have "guid_byte g k = 0" if "i \<le> k"
    using guid_byte_drop [of i g "k - i"] assms(1) that by (simp add: guid_byte_def)
  then show ?case using Suc by (cases "i = Suc k") auto
qed simp

lemma pack_loop_spec:
  "i \<le> 8 \<Longrightarrow> pack_loop i (drop_bit (8 * i) g) (pack_mask g i) (pack_bytes g i) =
     (pack_mask g 8, pack_bytes g 8)"
proof (induction "8 - i" arbitrary: i)
  case 0
  then have "i = 8" by simp
  moreover have "drop_bit 64 g = 0" by (rule bit_word_eqI) (auto simp: bit_drop_bit_eq dest: bit_imp_le_length)
  ultimately show ?case by (simp add: pack_loop.simps)
next
  case (Suc n)
  have next_loop: "drop_bit 8 (drop_bit (8 * i) g) = drop_bit (8 * Suc i) g"
    by (simp add: drop_bit_drop_bit add.commute)
  have low: "ucast (drop_bit (8 * i) g) = guid_byte g i" by (simp add: guid_byte_def)
  have zero: "drop_bit (8 * i) g AND 255 = 0 \<longleftrightarrow> guid_byte g i = 0"
    using guid_byte_low [of "drop_bit (8 * i) g"] by (simp add: guid_byte_drop)
  have IH: "pack_loop (Suc i) (drop_bit (8 * Suc i) g) (pack_mask g (Suc i)) (pack_bytes g (Suc i)) =
      (pack_mask g 8, pack_bytes g 8)"
    using Suc by (intro Suc.hyps) auto
  show ?case
  proof (cases "drop_bit (8 * i) g = 0")
    case True
    then show ?thesis using pack_done [OF True Suc.prems] by (simp add: pack_loop.simps)
  next
    case False
    then show ?thesis using IH next_loop low zero
      by (subst pack_loop.simps) (cases "guid_byte g i = 0"; simp del: drop_bit_drop_bit)
  qed
qed

lemma appendPackGUID_eq: "appendPackGUID g = append_bytes (pack_mask g 8 # pack_bytes g 8)"
  using pack_loop_spec [of 0 g] by (simp add: appendPackGUID_def [abs_def])

section \<open>Reading it back\<close>

lemma pack_bytes_prefix: "i \<le> k \<Longrightarrow> \<exists>rest. pack_bytes g k = pack_bytes g i @ rest"
proof (induction k)
  case (Suc k)
  then show ?case by (cases "i = Suc k") (auto split: if_splits)
qed simp

lemma pack_bytes_nth:
  assumes "i < k" "guid_byte g i \<noteq> 0"
  shows "length (pack_bytes g i) < length (pack_bytes g k)"
    and "pack_bytes g k ! length (pack_bytes g i) = guid_byte g i"
  using pack_bytes_prefix [of "Suc i" k g] assms by (auto simp: nth_append)

lemma length_pack_bytes: "length (pack_bytes g k) \<le> k"
  by (induction k) auto

lemma add_guid_byte:
  assumes "i < 8"
  shows "(g AND mask (8 * i)) OR push_bit (i * 8) (ucast (guid_byte g i)) = g AND mask (8 * Suc i)"
  using assms
  by (intro bit_word_eqI)
    (auto simp: bit_or_iff bit_and_iff bit_mask_iff bit_push_bit_iff bit_ucast_iff bit_guid_byte
      mult.commute not_less)

lemma skip_guid_byte:
  assumes "guid_byte g i = 0"
  shows "g AND mask (8 * i) = g AND mask (8 * Suc i)"
proof (rule bit_word_eqI)
  fix n
  have "\<not> bit g n" if "8 * i \<le> n" "n < 8 * Suc i"
    using arg_cong [OF assms, of "\<lambda>b. bit b (n - 8 * i)"] that by (simp add: bit_guid_byte)
  then show "bit (g AND mask (8 * i)) n = bit (g AND mask (8 * Suc i)) n"
    by (auto simp: bit_and_iff bit_mask_iff not_le [symmetric])
qed

lemma unpack_loop_ok:
  assumes "n \<le> 8" "rd_inv b" "bitpos b = 8" "rpos b = q + length (pack_bytes g (8 - n))"
    and "q + length (pack_bytes g 8) \<le> bb_size b"
    and "\<And>k. k < length (pack_bytes g 8) \<Longrightarrow> storage b ! (q + k) = pack_bytes g 8 ! k"
  shows "unpack_loop n (pack_mask g 8) (g AND mask (8 * (8 - n))) b =
     Inr (g, b\<lparr>rpos := q + length (pack_bytes g 8), bitpos := 8\<rparr>)"
  using assms
proof (induction n arbitrary: b)
  case 0
  have "g AND mask 64 = g" by (rule bit_word_eqI) (simp add: bit_and_iff bit_mask_iff)
  then show ?case using 0 by simp
next
  case (Suc n)
  define i where "i = 7 - n"
  have i: "i < 8" "8 - Suc n = i" "8 - n = Suc i" using Suc.prems(1) by (auto simp: i_def)
  have marked: "pack_mask g 8 AND push_bit i 1 \<noteq> 0 \<longleftrightarrow> guid_byte g i \<noteq> 0"
    using bit_pack_mask [of 8 g i] i(1)
    by (simp add: and_exp_eq_0_iff_not_bit)
  show ?case
  proof (cases "guid_byte g i = 0")
    case True
    then have "unpack_loop n (pack_mask g 8) (g AND mask (8 * (8 - n))) b =
        Inr (g, b\<lparr>rpos := q + length (pack_bytes g 8), bitpos := 8\<rparr>)"
      using Suc.prems i by (intro Suc.IH) auto
    then show ?thesis using True marked i skip_guid_byte [OF True]
      by (simp add: i_def [symmetric] Let_def)
  next
    case False
    note at = pack_bytes_nth [OF i(1) False]
    have lt: "rpos b < bb_size b" using Suc.prems(4,5) at(1) i by simp
    have x: "storage b ! rpos b = guid_byte g i"
      using Suc.prems(4) Suc.prems(6) [OF at(1)] at(2) i by simp
    let ?b = "b\<lparr>rpos := rpos b + 1, bitpos := 8\<rparr>"
    have "size_add (rpos b) 1 = rpos b + 1"
      using Suc.prems(2) lt by (intro size_add_small [of _ "bb_size b"]) (auto simp: rd_inv_def)
    moreover have "read_u8 b = Inr (guid_byte g i, ?b)"
      using read_u8_ok [OF Suc.prems(2) lt] x by simp
    moreover have "unpack_loop n (pack_mask g 8) (g AND mask (8 * (8 - n))) ?b =
        Inr (g, ?b\<lparr>rpos := q + length (pack_bytes g 8), bitpos := 8\<rparr>)"
      using Suc.prems i False lt by (intro Suc.IH) (auto simp: rd_inv_def)
    ultimately show ?thesis using False marked i lt add_guid_byte [OF i(1), of g]
      by (simp add: i_def [symmetric] Let_def)
  qed
qed

interpretation guid_codec: codec appendPackGUID readPackGUID "\<lambda>_. True" "\<lambda>_. 9"
proof (rule codec.intro)
  fix g show "appender (appendPackGUID g) 9"
    unfolding appendPackGUID_eq
    using appender_mono [OF appender_append_bytes] length_pack_bytes [of g 8] by simp
next
  fix g st w r w'
  assume a: "in_step st False w r" "appendPackGUID g w = Inr w'" "extended_by w' st"
  let ?bs = "pack_mask g 8 # pack_bytes g 8"
  have w: "wr_inv w" "wpos w = bb_size w" and r: "rd_inv r" "storage r = st" "rpos r = bb_size w"
    using a(1) by (auto simp: in_step_def wr_inv_def)
  have app: "append_bytes ?bs w = Inr w'" using a(2) by (simp add: appendPackGUID_eq)
  note eq = append_bytes_Inr [OF w(2) app]
  have at: "st ! (bb_size w + i) = ?bs ! i" if "i < length ?bs" for i
    using appended_nth [OF a(3), of "storage w" ?bs] that eq by simp
  have len: "bb_size w + length ?bs \<le> length st" using a(3) eq by (simp add: extended_by_def)
  let ?r = "r\<lparr>rpos := bb_size w + 1, bitpos := 8\<rparr>"
  have r': "rd_inv (r\<lparr>bitpos := 8\<rparr>)" "rd_inv ?r" using r len by (auto simp: rd_inv_def)
  have "size_add (rpos r) 1 = bb_size w + 1"
    using r by (subst size_add_small [of _ "bb_size r"]) (auto simp: rd_inv_def)
  moreover have "read_u8 (ResetBits r) = Inr (pack_mask g 8, ?r)"
    using read_u8_ok [OF r'(1)] r len at [of 0] by (simp add: ResetBits_def)
  moreover have "unpack_loop 8 (pack_mask g 8) (g AND mask (8 * (8 - 8))) ?r =
      Inr (g, ?r\<lparr>rpos := bb_size w + 1 + length (pack_bytes g 8), bitpos := 8\<rparr>)"
    using r' len r at [of "Suc _"] by (intro unpack_loop_ok) auto
  ultimately have "readPackGUID r = Inr (g, ?r\<lparr>rpos := bb_size w + 1 + length (pack_bytes g 8), bitpos := 8\<rparr>)"
    using len r by (simp add: readPackGUID_def)
  moreover have "in_step st False w' (?r\<lparr>rpos := bb_size w + 1 + length (pack_bytes g 8), bitpos := 8\<rparr>)"
    using append_bytes_wr_inv [OF w(1) app] a(3) r len eq by (simp add: in_step_def rd_inv_def)
  ultimately show "\<exists>r'. readPackGUID r = Inr (g, r') \<and> in_step st False w' r'" by blast
qed

end
