(* ===== verification/GuidOrder.thy ===== *)
theory GuidOrder
  imports PackedGuid
begin

text \<open>
  The guid transport of hand-written packets: \<open>WriteBitInOrder\<close> sends the presence bit of each
  byte in one order, \<open>WriteBytesSeq\<close> the bytes themselves in another, and the reader mirrors both.
\<close>

unbundle bit_operations_syntax

section \<open>Presence bits\<close>

text \<open>\<open>bits_known is g r\<close>: exactly for the bytes in \<open>is\<close> the reader knows whether they are zero.\<close>

definition bits_known :: "nat set \<Rightarrow> u64 \<Rightarrow> u64 \<Rightarrow> bool" where
  "bits_known is g r \<longleftrightarrow>
     (\<forall>i < 8. guid_byte r i = (if i \<in> is then of_bool (guid_byte g i \<noteq> 0) else 0))"

lemma bits_known_step:
  assumes "bits_known is g r" "i < 8"
  shows "bits_known (insert i is) g (guid_set_byte r i (of_bool (guid_byte g i \<noteq> 0)))"
  using assms by (simp add: bits_known_def guid_byte_set)

lemma bits_in_order_appends:
  assumes "list_all (\<lambda>i. i < 8) order"
  shows "appender (WriteBitInOrder g order) (length order)"
  using assms
proof (induction order)
  case Nil
  then show ?case using appender_nothing [of 0] by (simp add: WriteBitInOrder_def [abs_def] appender_def)
next
  case (Cons i order)
  have "WriteBitInOrder g (i # order) = (\<lambda>w. ebind (WriteBit (guid_byte g i \<noteq> 0) w) (WriteBitInOrder g order))"
    using Cons.prems by (auto simp: WriteBitInOrder_def)
  then show ?case using appender_then [OF appender_WriteBit Cons.IH] Cons.prems by simp
qed

lemma bits_in_order_step:
  assumes "list_all (\<lambda>i. i < 8) order" "in_step st False w b" "bits_known is g r"
    and "WriteBitInOrder g order w = Inr w'" "extended_by w' st"
  shows "\<exists>r' b'. ReadBitInOrder order (r, b) = Inr (r', b') \<and> in_step st False w' b' \<and>
     bits_known (is \<union> set order) g r'"
  using assms
proof (induction order arbitrary: w b r "is")
  case Nil
  then show ?case by (simp add: WriteBitInOrder_def ReadBitInOrder_def)
next
  case (Cons i order)
  then obtain u where u: "WriteBit (guid_byte g i \<noteq> 0) w = Inr u" "WriteBitInOrder g order u = Inr w'"
    by (auto simp: WriteBitInOrder_def)
  have w: "wr_inv w" using Cons.prems(2) by (simp add: in_step_def)
  have "extended_by u st"
    using appender.put_keeps [OF bits_in_order_appends [of order g] _ u(2) Cons.prems(5)]
      write_bit.put_inv [OF w u(1)] Cons.prems(1) by simp
  from in_step_WriteBit [OF Cons.prems(2) u(1) this] obtain c where
    c: "ReadBit b = Inr (guid_byte g i \<noteq> 0, c)" "in_step st False u c" by blast
  from Cons.IH [OF _ c(2) bits_known_step [OF Cons.prems(3), of i] u(2) Cons.prems(5)] Cons.prems(1) c(1)
  show ?case by (simp add: ReadBitInOrder_def)
qed

section \<open>Byte values\<close>

text \<open>\<open>bytes_known is g r\<close>: the bytes in \<open>is\<close> have arrived, of the others the presence bit is known.\<close>

definition bytes_known :: "nat set \<Rightarrow> u64 \<Rightarrow> u64 \<Rightarrow> bool" where
  "bytes_known is g r \<longleftrightarrow>
     (\<forall>i < 8. guid_byte r i = (if i \<in> is then guid_byte g i else of_bool (guid_byte g i \<noteq> 0)))"

lemma bytes_in_order_appends:
  assumes "list_all (\<lambda>i. i < 8) order"
  shows "appender (WriteBytesSeq g order) (length order)"
  using assms
proof (induction order)
  case Nil
  then show ?case using appender_nothing [of 0] by (simp add: WriteBytesSeq_def [abs_def] appender_def)
next
  case (Cons i order)
  have "WriteBytesSeq g (i # order) = (\<lambda>w. ebind (WriteByteSeq (guid_byte g i) w) (WriteBytesSeq g order))"
    using Cons.prems by (auto simp: WriteBytesSeq_def)
  then show ?case using appender_then [OF appender_WriteByteSeq Cons.IH] Cons.prems by simp
qed

lemma bytes_in_order_step:
  assumes "list_all (\<lambda>i. i < 8) order" "distinct order" "set order \<inter> is = {}"
    and "in_step st early w b" "bytes_known is g r"
    and "WriteBytesSeq g order w = Inr w'" "extended_by w' st"
  shows "\<exists>r' b'. ReadBytesSeq order (r, b) = Inr (r', b') \<and> in_step st True w' b' \<and>
     bytes_known (is \<union> set order) g r'"
  using assms
proof (induction order arbitrary: w b r "is" early)
  case Nil
  then show ?case using in_step_mono by (auto simp: WriteBytesSeq_def ReadBytesSeq_def)
next
  case (Cons i order)
  then obtain u where u: "WriteByteSeq (guid_byte g i) w = Inr u" "WriteBytesSeq g order u = Inr w'"
    by (auto simp: WriteBytesSeq_def)
  have w: "wr_inv w" using Cons.prems(4) by (simp add: in_step_def)
  have i: "i < 8" "i \<notin> is" using Cons.prems(1,3) by auto
  have "extended_by u st"
    using appender.put_keeps [OF bytes_in_order_appends [of order g] _ u(2) Cons.prems(7)]
      write_seq.put_inv [OF w u(1)] Cons.prems(1) by simp
  from in_step_WriteByteSeq [OF Cons.prems(4) u(1) this] obtain c where
    c: "ReadByteSeq (of_bool (guid_byte g i \<noteq> 0)) b = Inr (guid_byte g i, c)" "in_step st True u c" by blast
  have mark: "guid_byte r i = of_bool (guid_byte g i \<noteq> 0)"
    using Cons.prems(5) i by (simp add: bytes_known_def)
  have "bytes_known (insert i is) g (guid_set_byte r i (guid_byte g i))"
    using Cons.prems(5) i by (simp add: bytes_known_def guid_byte_set)
  from Cons.IH [OF _ _ _ c(2) this u(2) Cons.prems(7)] Cons.prems(1-3) c(1) mark
  show ?case by (simp add: ReadBytesSeq_def)
qed

text \<open>
  C33: a guid sent with \<open>WriteBitInOrder\<close> and then \<open>WriteBytesSeq\<close>, each in any order of the eight
  byte positions, is read back unchanged by \<open>ReadBitInOrder\<close> and \<open>ReadBytesSeq\<close> with the same two
  orders, starting from an all-zero guid, and the packet is consumed to its last byte.
\<close>

theorem guid_in_order_round_trip:
  assumes "set bits_order = {..<8}" "set bytes_order = {..<8}" "distinct bytes_order"
    and "length bits_order \<le> 64"
  shows "\<exists>u w r b c. WriteBitInOrder g bits_order empty_buffer = Inr u \<and> WriteBytesSeq g bytes_order u = Inr w \<and>
     ReadBitInOrder bits_order (0, received (storage w)) = Inr (r, b) \<and>
     ReadBytesSeq bytes_order (r, b) = Inr (g, c) \<and> rpos c = bb_size w"
proof -
  have all: "list_all (\<lambda>i. i < 8) bits_order" "list_all (\<lambda>i. i < 8) bytes_order"
    using assms(1,2) by (auto simp: list_all_iff)
  have len: "length bytes_order = 8" using assms(2,3) distinct_card by fastforce
  obtain u where u: "WriteBitInOrder g bits_order empty_buffer = Inr u"
    using appender.put_ok [OF bits_in_order_appends [OF all(1)] wr_inv_empty] assms(4)
    by (auto simp: empty_buffer_def MAX_BUFFER_def)
  have ui: "wr_inv u" "bb_size u \<le> 64"
    using appender.put_inv [OF bits_in_order_appends [OF all(1)] wr_inv_empty u] assms(4)
    by (auto simp: empty_buffer_def)
  obtain w where w: "WriteBytesSeq g bytes_order u = Inr w"
    using appender.put_ok [OF bytes_in_order_appends [OF all(2)] ui(1)] ui(2) len
    by (auto simp: MAX_BUFFER_def)
  have wi: "bb_size w \<le> 72"
    using appender.put_inv [OF bytes_in_order_appends [OF all(2)] ui(1) w] ui(2) len by auto
  have ext: "extended_by u (storage w)"
    using appender.put_keeps [OF bytes_in_order_appends [OF all(2)] ui(1) w extended_by_refl] .
  have "in_step (storage w) False empty_buffer (received (storage w))"
    using wi by (intro in_step_start) simp
  from bits_in_order_step [OF all(1) this _ u ext, of "{}" 0]
  obtain r b where r: "ReadBitInOrder bits_order (0, received (storage w)) = Inr (r, b)"
    "in_step (storage w) False u b" "bits_known {..<8} g r"
    using assms(1) by (auto simp: bits_known_def guid_byte_def)
  have "bytes_known {} g r" using r(3) by (simp add: bits_known_def bytes_known_def)
  from bytes_in_order_step [OF all(2) assms(3) _ r(2) this w extended_by_refl]
  obtain g' c where c: "ReadBytesSeq bytes_order (r, b) = Inr (g', c)" "in_step (storage w) True w c"
    "bytes_known {..<8} g g'"
    using assms(2) by auto
  have "g' = g" using c(3) by (intro guid_bytes_eqI) (simp add: bytes_known_def)
  then show ?thesis using u w r(1) c(1,2) by (auto simp: in_step_def)
qed

text \<open>The orders of a real packet.\<close>

theorem guid_in_order_round_trip_witness:
  "\<exists>u w r b c. WriteBitInOrder 0x0600000012003400 [2, 5, 3, 0, 7, 1, 4, 6] empty_buffer = Inr u \<and>
     WriteBytesSeq 0x0600000012003400 [6, 1, 3, 0, 2, 7, 5, 4] u = Inr w \<and>
     ReadBitInOrder [2, 5, 3, 0, 7, 1, 4, 6] (0, received (storage w)) = Inr (r, b) \<and>
     ReadBytesSeq [6, 1, 3, 0, 2, 7, 5, 4] (r, b) = Inr (0x0600000012003400, c) \<and> rpos c = bb_size w"
proof -
  have "set [2, 5, 3, 0, 7, 1, 4, 6] = {..<8 :: nat}" "set [6, 1, 3, 0, 2, 7, 5, 4] = {..<8 :: nat}"
    by (auto simp: lessThan_nat_numeral lessThan_Suc)
  then show ?thesis by (rule guid_in_order_round_trip) simp_all
qed

end
