(* ===== verification/PacketFields.thy ===== *)
theory PacketFields
  imports GuidOrder
begin

text \<open>
  What the byte buffer promises to the code that builds and parses packets, stated on the
  operations themselves: writes append to the bit stream, byte values start on a byte boundary,
  fields are read back as they were written, and a read past the end throws.
\<close>

unbundle bit_operations_syntax

section \<open>Writing appends to the stream\<close>

text \<open>
  \<open>WriteBits(value, n)\<close> on a well-formed buffer below the size limit succeeds, keeps the buffer
  well-formed, and appends exactly the low \<open>n\<close> bits of the value to the bit stream, most significant
  bit first, wherever in a byte the stream currently ends.
\<close>

lemma write_bits_appends:
  fixes v :: "'a::len word"
  assumes "wr_inv b" "nbits b + n \<le> 8 * MAX_BUFFER"
  shows "\<exists>b'. WriteBits v n b = Inr b' \<and> wr_inv b' \<and> stream b' = stream b @ msb_bits n v"
  using WriteBits_ok [OF assms, of v] WriteBits_refines [OF assms(1)] by blast

definition three_bits :: byte_buffer where
  "three_bits = \<lparr>storage = [0xA0], rpos = 0, wpos = 1, bitpos = 3\<rparr>"

lemma three_bits_inv: "wr_inv three_bits"
  by (auto simp: wr_inv_def three_bits_def less_Suc_eq numeral_eq_Suc)

text \<open>
  Appending a 32-bit value closes the byte that is being filled with bits (the unused bits
  stay zero), and puts the four bytes of the value, lowest first, behind it.
\<close>

lemma append_u32_appends:
  assumes "wr_inv b" "bb_size b < MAX_BUFFER"
  shows "\<exists>b'. append_u32 v b = Inr b' \<and> wr_inv b' \<and>
     stream b' = pad8 (stream b) @ byte_bits [ucast v, ucast (drop_bit 8 v), ucast (drop_bit 16 v), ucast (drop_bit 24 v)]"
proof -
  have le: "le_bytes 4 v = [ucast v, ucast (drop_bit 8 v), ucast (drop_bit 16 v), ucast (drop_bit 24 v)]"
    by (simp add: numeral_eq_Suc drop_bit_drop_bit)
  obtain b' where "append_bytes (le_bytes 4 v) b = Inr b'"
    using append_bytes_ok [of "le_bytes 4 v" b] assms(2) by auto
  then show ?thesis
    using append_bytes_wr_inv [OF assms(1)] append_bytes_stream [OF assms(1)] by (simp add: append_u32_def le)
qed

section \<open>Reading back\<close>

text \<open>
  A field of up to 32 bits written with \<open>WriteBits\<close> after any number of single bits, so at any
  offset inside a byte, is read back by \<open>ReadBits\<close> after reading those bits.
\<close>

lemma bit_field_round_trip:
  fixes v :: u32
  assumes "n \<le> 32" "v < 2 ^ n \<or> n = 32" "length bs \<le> 1000"
  shows "\<exists>u w r s. efold WriteBit bs empty_buffer = Inr u \<and> WriteBits v n u = Inr w \<and>
     get_n ReadBit (length bs) (received (storage w)) = Inr (bs, r) \<and> ReadBits n r = Inr (v, s) \<and>
     rpos s = bb_size w \<and> bitpos s = bitpos w"
proof -
  have ok: "list_all (\<lambda>_. True) bs" by (simp add: list_all_iff)
  note app = bit_codec.puts_appends [OF ok]
  obtain u where u: "efold WriteBit bs empty_buffer = Inr u"
    using appender.put_ok [OF app wr_inv_empty] assms(3)
    by (auto simp: empty_buffer_def MAX_BUFFER_def sum_list_triv)
  have ui: "wr_inv u" "bb_size u \<le> 1000"
    using appender.put_inv [OF app wr_inv_empty u] assms(3) by (auto simp: empty_buffer_def sum_list_triv)
  have n7: "(n + 7) div 8 \<le> 4" using assms(1) by linarith
  obtain w where w: "WriteBits v n u = Inr w"
    using write_bits.put_ok [OF ui(1), of n v] ui(2) n7 by (auto simp: MAX_BUFFER_def)
  have wi: "bb_size w \<le> 1004" using write_bits.put_inv [OF ui(1) w] ui(2) n7 by simp
  have "in_step (storage w) False empty_buffer (received (storage w))"
    using wi by (intro in_step_start) simp
  from bit_codec.gets_puts [OF ok this u write_bits.put_keeps [OF ui(1) w extended_by_refl]]
  obtain r where r: "get_n ReadBit (length bs) (received (storage w)) = Inr (bs, r)"
    "in_step (storage w) False u r" by blast
  have "\<not> bit v i" if "n \<le> i" for i
    using assms(2) not_bit_above [of v n i] that bit_imp_le_length [of v i] by auto
  from in_step_WriteBits [OF r(2) w extended_by_refl assms(1) refl this] obtain s where
    "ReadBits n r = Inr (v, s)" "in_step (storage w) False w s" by blast
  then show ?thesis using u w r(1) by (auto simp: in_step_def)
qed

text \<open>
  Any list of 32-bit values that fits the buffer is written without an error and read back
  value by value, to the last byte.
\<close>

lemma u32_round_trip:
  assumes "4 * length vs \<le> MAX_BUFFER"
  shows "\<exists>w r. efold append_u32 vs empty_buffer = Inr w \<and>
     get_n read_u32 (length vs) (received (storage w)) = Inr (vs, r) \<and> rpos r = bb_size w"
  by (rule u32_codec.round_trip) (use assms in \<open>simp_all add: list_all_iff sum_list_triv\<close>)

text \<open>
  Any list of strings without embedded zero bytes is read back string by string: the zero
  terminator of one string never runs into the next, empty strings included.
\<close>

lemma string_round_trip:
  assumes "list_all (\<lambda>str. 0 \<notin> set str) strs" "sum_list (map (\<lambda>str. length str + 1) strs) \<le> MAX_BUFFER"
  shows "\<exists>w r. efold append_string strs empty_buffer = Inr w \<and>
     get_n read_string (length strs) (received (storage w)) = Inr (strs, r) \<and> rpos r = bb_size w"
  by (rule string_codec.round_trip [OF assms])

text \<open>
  C32: any list of guids written with \<open>appendPackGUID\<close> is read back by \<open>readPackGUID\<close>; every packed
  guid takes at most nine bytes.
\<close>

theorem packed_guid_round_trip:
  assumes "9 * length gs \<le> MAX_BUFFER"
  shows "\<exists>w r. efold appendPackGUID gs empty_buffer = Inr w \<and> bb_size w \<le> 9 * length gs \<and>
     get_n readPackGUID (length gs) (received (storage w)) = Inr (gs, r) \<and> rpos r = bb_size w"
proof -
  have ok: "list_all (\<lambda>_. True) gs" by (simp add: list_all_iff)
  have "sum_list (map (\<lambda>_. 9) gs) \<le> MAX_BUFFER" using assms by (simp add: sum_list_triv)
  from guid_codec.round_trip [OF ok this] obtain w r where
    w: "efold appendPackGUID gs empty_buffer = Inr w"
    "get_n readPackGUID (length gs) (received (storage w)) = Inr (gs, r)" "rpos r = bb_size w" by blast
  have "bb_size w \<le> 9 * length gs"
    using appender.put_inv [OF guid_codec.puts_appends [OF ok] wr_inv_empty w(1)]
    by (simp add: sum_list_triv empty_buffer_def)
  then show ?thesis using w by blast
qed

theorem packed_guid_round_trip_witness:
  "\<exists>w r. efold appendPackGUID [0, 0x0600000012003400] empty_buffer = Inr w \<and>
     bb_size w \<le> 9 * length [0, 0x0600000012003400 :: u64] \<and>
     get_n readPackGUID (length [0, 0x0600000012003400 :: u64]) (received (storage w)) =
       Inr ([0, 0x0600000012003400], r) \<and> rpos r = bb_size w"
  by (rule packed_guid_round_trip) (simp add: MAX_BUFFER_def)

section \<open>Errors\<close>

text \<open>
  A read of \<open>n\<close> bytes that would go past the end of the packet throws the position exception
  for the current position, and so does \<open>ReadBit\<close> at the end of the packet; a read that fits never
  throws and moves the cursor by \<open>n\<close>.
\<close>

lemma read_past_end:
  assumes "rd_inv b" "n < 2 ^ 63"
  shows "(if rpos b + n \<le> bb_size b
      then read_bytes n b = Inr (take n (drop (rpos b) (storage b)), b\<lparr>rpos := rpos b + n, bitpos := 8\<rparr>)
      else read_bytes n b = Inl (PositionException False (rpos b) n (bb_size b))) \<and>
     (rpos b = bb_size b \<and> bitpos b = 8 \<longrightarrow>
        ReadBit b = Inl (PositionException False (bb_size b) 1 (bb_size b)))"
  using read_bytes_ok [OF assms(1)] read_bytes_overrun [OF assms(1) _ assms(2)] enter_byte_overrun [OF assms(1)]
  by (simp add: ReadBit_def rdpos_def)

end
