(* ===== verification/Float32.thy ===== *)
theory Float32
  imports Prelude
begin

text \<open>
  IEEE 754 single precision, as the server's \<open>float\<close>: a value is its 32-bit pattern.  Every finite
  single is an integer multiple of \<open>2 ^ -149\<close>, so \<open>f32_int\<close> reads a pattern as that integer and the
  comparisons are comparisons of integers (an infinity reads as \<open>2 ^ 277\<close>, above every finite
  value).  \<open>f32_round\<close> rounds an exact result to nearest, ties to even.  A result that is not a number
  is the quiet NaN \<open>0x7FC00000\<close>; payloads are not modelled.
\<close>

unbundle bit_operations_syntax

type_synonym f32 = u32

definition f32_sign :: "f32 \<Rightarrow> bool" where
  "f32_sign w = bit w 31"

definition f32_mag :: "f32 \<Rightarrow> nat" where
  "f32_mag w = unat (w AND 0x7FFFFFFF)"

definition f32_nan :: "f32 \<Rightarrow> bool" where
  "f32_nan w \<longleftrightarrow> f32_mag w > 0x7F800000"

definition f32_inf :: "f32 \<Rightarrow> bool" where
  "f32_inf w \<longleftrightarrow> f32_mag w = 0x7F800000"

text \<open>The magnitude in units of \<open>2 ^ -149\<close>; the exponent field is \<open>m div 2 ^ 23\<close>.\<close>

definition f32_units :: "nat \<Rightarrow> nat" where
  "f32_units m =
     (if m div 2 ^ 23 = 0 then m else (2 ^ 23 + m mod 2 ^ 23) * 2 ^ (m div 2 ^ 23 - 1))"

definition f32_int :: "f32 \<Rightarrow> int" where
  "f32_int w = (if f32_sign w then - int (f32_units (f32_mag w)) else int (f32_units (f32_mag w)))"

definition f32_lt :: "f32 \<Rightarrow> f32 \<Rightarrow> bool" where
  "f32_lt a b \<longleftrightarrow> \<not> f32_nan a \<and> \<not> f32_nan b \<and> f32_int a < f32_int b"

definition f32_le :: "f32 \<Rightarrow> f32 \<Rightarrow> bool" where
  "f32_le a b \<longleftrightarrow> \<not> f32_nan a \<and> \<not> f32_nan b \<and> f32_int a \<le> f32_int b"

definition f32_eq :: "f32 \<Rightarrow> f32 \<Rightarrow> bool" where
  "f32_eq a b \<longleftrightarrow> \<not> f32_nan a \<and> \<not> f32_nan b \<and> f32_int a = f32_int b"

definition f32_neg :: "f32 \<Rightarrow> f32" where
  "f32_neg w = w XOR 0x80000000"

definition f32_qnan :: f32 where
  "f32_qnan = 0x7FC00000"

text \<open>
  Rounding the magnitude \<open>n * 2 ^ -149\<close>: \<open>k\<close> low bits are dropped so that 24 significant bits are
  left; the pattern of \<open>q * 2 ^ k\<close> is \<open>k * 2 ^ 23 + q\<close>, also when rounding carries into the exponent.
\<close>

fun bit_length :: "nat \<Rightarrow> nat" where
  "bit_length n = (if n = 0 then 0 else Suc (bit_length (n div 2)))"

declare bit_length.simps [simp del]

definition round_half_even :: "nat \<Rightarrow> nat \<Rightarrow> nat" where
  "round_half_even n k =
     (let q = n div 2 ^ k; r = n mod 2 ^ k; half = 2 ^ k in
      if 2 * r > half \<or> (2 * r = half \<and> odd q) then q + 1 else q)"

definition f32_round_mag :: "nat \<Rightarrow> nat" where
  "f32_round_mag n =
     (let k = bit_length n - 24 in min 0x7F800000 (k * 2 ^ 23 + round_half_even n k))"

definition f32_round :: "bool \<Rightarrow> nat \<Rightarrow> f32" where
  "f32_round s n = of_nat (f32_round_mag n) OR (if s then 0x80000000 else 0)"

definition f32_add :: "f32 \<Rightarrow> f32 \<Rightarrow> f32" where
  "f32_add a b =
     (if f32_nan a \<or> f32_nan b \<or> (f32_inf a \<and> f32_inf b \<and> f32_sign a \<noteq> f32_sign b) then f32_qnan
      else if f32_inf a then a else if f32_inf b then b
      else
        let s = f32_int a + f32_int b in
        if s = 0 then (if f32_sign a \<and> f32_sign b then 0x80000000 else 0)
        else f32_round (s < 0) (nat \<bar>s\<bar>))"

text \<open>\<open>fmod\<close> is exact: the remainder of the truncated division, with the sign of the dividend.\<close>

definition f32_fmod :: "f32 \<Rightarrow> f32 \<Rightarrow> f32" where
  "f32_fmod a b =
     (if f32_nan a \<or> f32_nan b \<or> f32_inf a \<or> f32_int b = 0 then f32_qnan
      else if f32_inf b then a
      else f32_round (f32_sign a) (f32_units (f32_mag a) mod f32_units (f32_mag b)))"

text \<open>
  Products are multiples of \<open>2 ^ -298\<close>: at least 149 low bits are dropped, more when more than 24
  significant bits are left.
\<close>

definition f32_mul :: "f32 \<Rightarrow> f32 \<Rightarrow> f32" where
  "f32_mul a b =
     (let s = (if f32_sign a \<noteq> f32_sign b then 0x80000000 else 0) in
      if f32_nan a \<or> f32_nan b \<or> (f32_inf a \<and> f32_int b = 0) \<or> (f32_int a = 0 \<and> f32_inf b) then f32_qnan
      else if f32_inf a \<or> f32_inf b then 0x7F800000 OR s
      else
        let n = f32_units (f32_mag a) * f32_units (f32_mag b); k = max 149 (bit_length n - 24) in
        of_nat (min 0x7F800000 ((k - 149) * 2 ^ 23 + round_half_even n k)) OR s)"

text \<open>
  Conversions: \<open>float(n)\<close>, \<open>int32(floor(x))\<close> and \<open>int32(x)\<close>, which truncates.  A value outside
  \<open>int32\<close> would be undefined behaviour of the C++ conversion.
\<close>

definition f32_of_int :: "int \<Rightarrow> f32" where
  "f32_of_int n = (if n = 0 then 0 else f32_round (n < 0) (nat \<bar>n\<bar> * 2 ^ 149))"

definition f32_floor :: "f32 \<Rightarrow> int" where
  "f32_floor x = f32_int x div 2 ^ 149"

definition f32_trunc :: "f32 \<Rightarrow> int" where
  "f32_trunc x = (if f32_int x < 0 then - (- f32_int x div 2 ^ 149) else f32_int x div 2 ^ 149)"

section \<open>Facts\<close>

lemma f32_zero [simp]: "f32_int 0 = 0" "\<not> f32_nan 0" "f32_mag 0 = 0"
  by (simp_all add: f32_int_def f32_mag_def f32_units_def f32_nan_def)

lemma f32_units_eq_0 [simp]: "f32_units m = 0 \<longleftrightarrow> m = 0"
  by (auto simp: f32_units_def)

lemma f32_units_0 [simp]: "f32_units 0 = 0"
  by simp

text \<open>A single equals zero exactly when its pattern is one of the two zeros.\<close>

lemma f32_eq_zero_iff: "f32_eq w 0 \<longleftrightarrow> w = 0 \<or> w = 0x80000000"
proof -
  have "f32_eq w 0 \<longleftrightarrow> w AND 0x7FFFFFFF = 0"
    by (auto simp: f32_eq_def f32_int_def f32_mag_def f32_nan_def unat_eq_zero)
  also have "\<dots> \<longleftrightarrow> w = 0 \<or> w = 0x80000000"
  proof
    assume z: "w AND 0x7FFFFFFF = 0"
    have m: "(0x7FFFFFFF :: u32) = mask 31" by (simp add: mask_eq_exp_minus_1)
    have lo: "\<not> bit w i" if "i < 31" for i
      using arg_cong [OF z, of "\<lambda>x. bit x i"] that by (simp add: m bit_and_iff bit_mask_iff)
    have top: "bit w i \<longleftrightarrow> i = 31 \<and> bit w 31" for i
      using lo [of i] bit_imp_le_length [of w i] by (cases "i < 31"; cases "i = 31") auto
    show "w = 0 \<or> w = 0x80000000"
    proof (cases "bit w 31")
      case True
      have "bit w i = bit (push_bit 31 1 :: u32) i" for i
        unfolding bit_push_bit_iff bit_1_iff using True top [of i] by auto
      then have "w = push_bit 31 1" by (intro bit_word_eqI)
      then show ?thesis by simp
    next
      case False
      then have "\<not> bit w i" for i using top [of i] by blast
      then have "w = 0" by (intro bit_word_eqI) simp
      then show ?thesis by simp
    qed
  qed auto
  finally show ?thesis .
qed

end
