(* ===== verification/MovementTables.thy ===== *)
theory MovementTables
  imports Prelude
begin

text \<open>
  The data of \<^verbatim>\<open>src/server/game/Movement/MovementStructures.h\<close> and
  \<^verbatim>\<open>MovementStructures.cpp\<close>: the element type, the element sequence of every opcode that
  \<open>GetMovementStatusElementsSequence\<close> answers, and that function.  \<open>MSEHasGuidByte B3\<close> stands for the
  enumerator \<open>MSEHasGuidByte3\<close>, and likewise for the other numbered families.  The arrays no opcode
  refers to are dead data and have no counterpart.  The opcode numbers are those of
  \<^verbatim>\<open>src/server/game/Server/Protocol/Opcodes.h\<close>.
\<close>

datatype byte_index = B0 | B1 | B2 | B3 | B4 | B5 | B6 | B7

primrec byte_no :: "byte_index \<Rightarrow> nat" where
  "byte_no B0 = 0"
| "byte_no B1 = 1"
| "byte_no B2 = 2"
| "byte_no B3 = 3"
| "byte_no B4 = 4"
| "byte_no B5 = 5"
| "byte_no B6 = 6"
| "byte_no B7 = 7"

datatype mse =
    MSEHasGuidByte byte_index
  | MSEHasMovementFlags | MSEHasMovementFlags2 | MSEHasTimestamp | MSEHasOrientation
  | MSEHasTransportData
  | MSEHasTransportGuidByte byte_index
  | MSEHasTransportTime2 | MSEHasTransportTime3 | MSEHasPitch | MSEHasFallData
  | MSEHasFallDirection | MSEHasSplineElevation | MSEHasSpline | MSEHasUnkTime
  | MSEGuidByte byte_index
  | MSEMovementFlags | MSEMovementFlags2 | MSETimestamp
  | MSEPositionX | MSEPositionY | MSEPositionZ | MSEOrientation
  | MSETransportGuidByte byte_index
  | MSETransportPositionX | MSETransportPositionY | MSETransportPositionZ | MSETransportOrientation
  | MSETransportSeat | MSETransportTime | MSETransportTime2 | MSETransportTime3
  | MSEPitch | MSEFallTime | MSEFallVerticalSpeed | MSEFallCosAngle | MSEFallSinAngle
  | MSEFallHorizontalSpeed | MSESplineElevation
  | MSERemoveMovementForcesCount | MSEMovementForcesId | MSEUnkTime | MSECounter
  | MSEGenericDword byte_index
  | MSEGeneric2bits0
  | MSEZeroBit | MSEOneBit | MSEEnd | MSEExtraElement | MSEExtraFloat | MSEExtraInt8

section \<open>Element sequences\<close>

definition PlayerMove :: "mse list" where
  "PlayerMove = [
      MSEHasMovementFlags, MSEMovementFlags, MSEHasSplineElevation, MSEHasGuidByte B6,
      MSEOneBit, MSEHasGuidByte B5, MSEHasGuidByte B1, MSEZeroBit, MSEZeroBit,
      MSEHasGuidByte B4, MSEHasGuidByte B0, MSEHasOrientation, MSEHasMovementFlags2,
      MSEHasPitch, MSEMovementFlags2, MSEHasGuidByte B7, MSERemoveMovementForcesCount,
      MSEHasGuidByte B2, MSEHasFallData, MSEHasTransportData, MSEHasTransportGuidByte B6,
      MSEHasTransportGuidByte B3, MSEHasTransportGuidByte B0, MSEHasTransportGuidByte B5,
      MSEHasTransportTime2, MSEHasTransportGuidByte B7, MSEHasTransportGuidByte B2,
      MSEHasTransportTime3, MSEHasTransportGuidByte B1, MSEHasTransportGuidByte B4,
      MSEHasFallDirection, MSEZeroBit, MSEHasGuidByte B3, MSEHasTimestamp, MSETransportTime2,
      MSETransportPositionX, MSETransportGuidByte B6, MSETransportOrientation,
      MSETransportPositionZ, MSETransportTime3, MSETransportGuidByte B0, MSETransportTime,
      MSETransportGuidByte B7, MSETransportGuidByte B2, MSETransportSeat,
      MSETransportGuidByte B1, MSETransportGuidByte B3, MSETransportGuidByte B5,
      MSETransportPositionY, MSETransportGuidByte B4, MSEGuidByte B3, MSEPitch, MSEGuidByte B6,
      MSEPositionX, MSEGuidByte B4, MSEMovementForcesId, MSEFallCosAngle, MSEFallSinAngle,
      MSEFallHorizontalSpeed, MSEFallVerticalSpeed, MSEFallTime, MSEPositionY,
      MSESplineElevation, MSETimestamp, MSEGuidByte B1, MSEGuidByte B2, MSEGuidByte B5,
      MSEGuidByte B0, MSEPositionZ, MSEGuidByte B7, MSEOrientation, MSEEnd]"

definition SetCanFly :: "mse list" where
  "SetCanFly = [
      MSEPositionY, MSEPositionX, MSEPositionZ, MSEHasGuidByte B7, MSEZeroBit, MSEOneBit,
      MSEHasGuidByte B5, MSEZeroBit, MSEHasMovementFlags, MSERemoveMovementForcesCount,
      MSEHasGuidByte B2, MSEHasTransportData, MSEHasTimestamp, MSEHasGuidByte B6,
      MSEHasFallData, MSEHasPitch, MSEHasGuidByte B1, MSEHasGuidByte B3, MSEHasSplineElevation,
      MSEHasGuidByte B0, MSEHasOrientation, MSEHasGuidByte B4, MSEZeroBit,
      MSEHasMovementFlags2, MSEMovementFlags, MSEHasTransportGuidByte B6,
      MSEHasTransportGuidByte B0, MSEHasTransportGuidByte B4, MSEHasTransportGuidByte B5,
      MSEHasTransportGuidByte B7, MSEHasTransportTime2, MSEHasTransportGuidByte B2,
      MSEHasTransportGuidByte B3, MSEHasTransportTime3, MSEHasTransportGuidByte B1,
      MSEHasFallDirection, MSEMovementFlags2, MSEGuidByte B1, MSEGuidByte B0,
      MSEMovementForcesId, MSEGuidByte B7, MSEGuidByte B6, MSEGuidByte B4, MSEGuidByte B3,
      MSEGuidByte B5, MSEGuidByte B2, MSEPitch, MSETransportGuidByte B3, MSETransportTime2,
      MSETransportPositionY, MSETransportGuidByte B7, MSETransportGuidByte B2,
      MSETransportPositionX, MSETransportSeat, MSETransportTime3, MSETransportGuidByte B6,
      MSETransportPositionZ, MSETransportTime, MSETransportGuidByte B5,
      MSETransportGuidByte B4, MSETransportGuidByte B0, MSETransportGuidByte B1,
      MSETransportOrientation, MSEFallVerticalSpeed, MSEFallHorizontalSpeed, MSEFallSinAngle,
      MSEFallCosAngle, MSEFallTime, MSESplineElevation, MSETimestamp, MSEOrientation, MSEEnd]"

definition MovementFallLand :: "mse list" where
  "MovementFallLand = [
      MSEPositionZ, MSEPositionX, MSEPositionY, MSEHasTimestamp, MSEHasGuidByte B6,
      MSEHasFallData, MSEHasGuidByte B4, MSEHasGuidByte B0, MSEHasUnkTime, MSEHasMovementFlags,
      MSEZeroBit, MSEHasPitch, MSEZeroBit, MSEZeroBit, MSEHasMovementFlags2, MSEHasGuidByte B2,
      MSEHasGuidByte B5, MSEHasGuidByte B3, MSEHasSplineElevation, MSEHasGuidByte B1,
      MSEHasTransportData, MSEHasGuidByte B7, MSEHasOrientation, MSERemoveMovementForcesCount,
      MSEMovementFlags, MSEHasTransportGuidByte B2, MSEHasTransportGuidByte B5,
      MSEHasTransportTime2, MSEHasTransportGuidByte B1, MSEHasTransportGuidByte B4,
      MSEHasTransportGuidByte B7, MSEHasTransportGuidByte B6, MSEHasTransportGuidByte B3,
      MSEHasTransportGuidByte B0, MSEHasTransportTime3, MSEMovementFlags2, MSEHasFallDirection,
      MSEGuidByte B4, MSEGuidByte B0, MSEGuidByte B7, MSEGuidByte B6, MSEGuidByte B2,
      MSEGuidByte B5, MSEGuidByte B1, MSEMovementForcesId, MSEGuidByte B3,
      MSEFallHorizontalSpeed, MSEFallSinAngle, MSEFallCosAngle, MSEFallTime,
      MSEFallVerticalSpeed, MSETransportTime2, MSETransportGuidByte B5, MSETransportTime3,
      MSETransportGuidByte B3, MSETransportGuidByte B7, MSETransportTime,
      MSETransportGuidByte B2, MSETransportGuidByte B1, MSETransportOrientation,
      MSETransportGuidByte B6, MSETransportPositionY, MSETransportSeat,
      MSETransportGuidByte B0, MSETransportPositionX, MSETransportGuidByte B4,
      MSETransportPositionZ, MSEOrientation, MSEPitch, MSESplineElevation, MSETimestamp,
      MSEUnkTime, MSEEnd]"

definition MovementHeartBeat :: "mse list" where
  "MovementHeartBeat = [
      MSEPositionZ, MSEPositionX, MSEPositionY, MSEHasGuidByte B4, MSEHasGuidByte B7,
      MSEHasUnkTime, MSEHasGuidByte B1, MSEHasFallData, MSEHasMovementFlags2,
      MSEHasGuidByte B3, MSEZeroBit, MSEHasMovementFlags, MSEZeroBit, MSEZeroBit,
      MSEHasGuidByte B5, MSEHasGuidByte B0, MSEHasGuidByte B6, MSEHasTimestamp,
      MSEHasTransportData, MSEHasGuidByte B2, MSERemoveMovementForcesCount, MSEHasPitch,
      MSEHasSplineElevation, MSEHasOrientation, MSEHasTransportGuidByte B7,
      MSEHasTransportTime3, MSEHasTransportGuidByte B6, MSEHasTransportTime2,
      MSEHasTransportGuidByte B1, MSEHasTransportGuidByte B0, MSEHasTransportGuidByte B2,
      MSEHasTransportGuidByte B4, MSEHasTransportGuidByte B5, MSEHasTransportGuidByte B3,
      MSEMovementFlags2, MSEMovementFlags, MSEHasFallDirection, MSEGuidByte B1, MSEGuidByte B3,
      MSEGuidByte B7, MSEGuidByte B4, MSEGuidByte B5, MSEGuidByte B0, MSEGuidByte B6,
      MSEMovementForcesId, MSEGuidByte B2, MSEUnkTime, MSEFallHorizontalSpeed, MSEFallSinAngle,
      MSEFallCosAngle, MSEFallTime, MSEFallVerticalSpeed, MSETransportTime3,
      MSETransportGuidByte B3, MSETransportTime, MSETransportGuidByte B1,
      MSETransportPositionZ, MSETransportGuidByte B2, MSETransportTime2,
      MSETransportOrientation, MSETransportPositionY, MSETransportPositionX,
      MSETransportGuidByte B0, MSETransportGuidByte B6, MSETransportGuidByte B7,
      MSETransportGuidByte B4, MSETransportSeat, MSETransportGuidByte B5, MSEPitch,
      MSEOrientation, MSETimestamp, MSESplineElevation, MSEEnd]"

definition MovementJump :: "mse list" where
  "MovementJump = [
      MSEPositionY, MSEPositionX, MSEPositionZ, MSEHasPitch, MSEHasOrientation,
      MSEHasGuidByte B7, MSERemoveMovementForcesCount, MSEZeroBit, MSEHasMovementFlags2,
      MSEHasUnkTime, MSEHasGuidByte B4, MSEHasGuidByte B0, MSEHasTransportData,
      MSEHasMovementFlags, MSEHasGuidByte B1, MSEHasGuidByte B2, MSEZeroBit, MSEHasTimestamp,
      MSEZeroBit, MSEHasGuidByte B5, MSEHasGuidByte B6, MSEHasSplineElevation,
      MSEHasGuidByte B3, MSEHasFallData, MSEMovementFlags2, MSEHasFallDirection,
      MSEHasTransportGuidByte B5, MSEHasTransportGuidByte B2, MSEHasTransportGuidByte B7,
      MSEHasTransportGuidByte B3, MSEHasTransportGuidByte B6, MSEHasTransportTime2,
      MSEHasTransportGuidByte B0, MSEHasTransportGuidByte B4, MSEHasTransportTime3,
      MSEHasTransportGuidByte B1, MSEMovementFlags, MSEGuidByte B2, MSEGuidByte B3,
      MSEGuidByte B5, MSEGuidByte B6, MSEGuidByte B0, MSEGuidByte B4, MSEGuidByte B1,
      MSEGuidByte B7, MSEMovementForcesId, MSETransportTime3, MSETransportGuidByte B4,
      MSETransportGuidByte B0, MSETransportGuidByte B5, MSETransportTime2,
      MSETransportPositionX, MSETransportSeat, MSETransportOrientation, MSETransportPositionY,
      MSETransportGuidByte B7, MSETransportGuidByte B1, MSETransportGuidByte B3,
      MSETransportGuidByte B2, MSETransportPositionZ, MSETransportGuidByte B6,
      MSETransportTime, MSESplineElevation, MSEFallCosAngle, MSEFallSinAngle,
      MSEFallHorizontalSpeed, MSEFallTime, MSEFallVerticalSpeed, MSETimestamp, MSEOrientation,
      MSEUnkTime, MSEPitch, MSEEnd]"

definition MovementSetFacing :: "mse list" where
  "MovementSetFacing = [
      MSEPositionY, MSEPositionX, MSEPositionZ, MSEHasGuidByte B4, MSEHasTransportData,
      MSEZeroBit, MSEHasMovementFlags, MSEHasGuidByte B7, MSEHasGuidByte B6, MSEHasTimestamp,
      MSEHasFallData, MSEHasOrientation, MSEHasGuidByte B0, MSEHasMovementFlags2,
      MSEHasGuidByte B1, MSEZeroBit, MSEHasPitch, MSEHasSplineElevation, MSEHasGuidByte B2,
      MSEZeroBit, MSEHasGuidByte B3, MSERemoveMovementForcesCount, MSEHasGuidByte B5,
      MSEHasUnkTime, MSEHasTransportGuidByte B6, MSEHasTransportGuidByte B1,
      MSEHasTransportTime2, MSEHasTransportTime3, MSEHasTransportGuidByte B7,
      MSEHasTransportGuidByte B3, MSEHasTransportGuidByte B5, MSEHasTransportGuidByte B4,
      MSEHasTransportGuidByte B2, MSEHasTransportGuidByte B0, MSEHasFallDirection,
      MSEMovementFlags2, MSEMovementFlags, MSEGuidByte B2, MSEMovementForcesId, MSEGuidByte B1,
      MSEGuidByte B6, MSEGuidByte B7, MSEGuidByte B0, MSEGuidByte B5, MSEGuidByte B3,
      MSEGuidByte B4, MSETransportGuidByte B4, MSETransportSeat, MSETransportGuidByte B6,
      MSETransportGuidByte B7, MSETransportGuidByte B1, MSETransportGuidByte B0,
      MSETransportGuidByte B5, MSETransportGuidByte B2, MSETransportTime2,
      MSETransportOrientation, MSETransportPositionZ, MSETransportTime3,
      MSETransportGuidByte B3, MSETransportTime, MSETransportPositionX, MSETransportPositionY,
      MSEFallSinAngle, MSEFallCosAngle, MSEFallHorizontalSpeed, MSEFallVerticalSpeed,
      MSEFallTime, MSESplineElevation, MSEPitch, MSETimestamp, MSEUnkTime, MSEOrientation,
      MSEEnd]"

definition MovementSetPitch :: "mse list" where
  "MovementSetPitch = [
      MSEMovementForcesId, MSEPositionX, MSEPositionZ, MSEPositionY, MSEHasTimestamp,
      MSEHasMovementFlags2, MSERemoveMovementForcesCount, MSEHasGuidByte B4, MSEHasOrientation,
      MSEHasGuidByte B7, MSEHasMovementFlags, MSEHasGuidByte B3, MSEHasFallData,
      MSEHasSplineElevation, MSEHasGuidByte B0, MSEHasGuidByte B5, MSEHasGuidByte B2,
      MSEHasUnkTime, MSEZeroBit, MSEHasGuidByte B6, MSEHasPitch, MSEZeroBit, MSEHasGuidByte B1,
      MSEHasTransportData, MSEZeroBit, MSEMovementFlags2, MSEHasTransportTime3,
      MSEHasTransportGuidByte B7, MSEHasTransportGuidByte B2, MSEHasTransportGuidByte B1,
      MSEHasTransportGuidByte B0, MSEHasTransportGuidByte B3, MSEHasTransportGuidByte B6,
      MSEHasTransportGuidByte B5, MSEHasTransportGuidByte B4, MSEHasTransportTime2,
      MSEHasFallDirection, MSEMovementFlags, MSEGuidByte B5, MSEGuidByte B2, MSEGuidByte B0,
      MSEGuidByte B1, MSEGuidByte B6, MSEGuidByte B7, MSEGuidByte B4, MSEGuidByte B3,
      MSETransportGuidByte B2, MSETransportTime2, MSETransportGuidByte B0,
      MSETransportGuidByte B3, MSETransportGuidByte B5, MSETransportGuidByte B6,
      MSETransportTime, MSETransportGuidByte B7, MSETransportPositionZ, MSETransportPositionY,
      MSETransportPositionX, MSETransportSeat, MSETransportGuidByte B1, MSETransportTime3,
      MSETransportGuidByte B4, MSETransportOrientation, MSEFallCosAngle, MSEFallSinAngle,
      MSEFallHorizontalSpeed, MSEFallVerticalSpeed, MSEFallTime, MSEUnkTime, MSETimestamp,
      MSESplineElevation, MSEPitch, MSEOrientation, MSEEnd]"

definition MovementStartBackward :: "mse list" where
  "MovementStartBackward = [
      MSEPositionY, MSEPositionZ, MSEPositionX, MSERemoveMovementForcesCount,
      MSEHasMovementFlags2, MSEHasPitch, MSEHasGuidByte B1, MSEZeroBit, MSEHasGuidByte B3,
      MSEHasOrientation, MSEHasFallData, MSEHasGuidByte B7, MSEZeroBit, MSEHasGuidByte B2,
      MSEHasSplineElevation, MSEHasGuidByte B4, MSEHasUnkTime, MSEZeroBit, MSEHasMovementFlags,
      MSEHasGuidByte B0, MSEHasTimestamp, MSEHasTransportData, MSEHasGuidByte B6,
      MSEHasGuidByte B5, MSEHasTransportGuidByte B3, MSEHasTransportGuidByte B5,
      MSEHasTransportGuidByte B4, MSEHasTransportTime3, MSEHasTransportGuidByte B2,
      MSEHasTransportGuidByte B6, MSEHasTransportGuidByte B1, MSEHasTransportTime2,
      MSEHasTransportGuidByte B7, MSEHasTransportGuidByte B0, MSEHasFallDirection,
      MSEMovementFlags2, MSEMovementFlags, MSEGuidByte B7, MSEGuidByte B5, MSEGuidByte B6,
      MSEGuidByte B0, MSEGuidByte B2, MSEGuidByte B3, MSEMovementForcesId, MSEGuidByte B1,
      MSEGuidByte B4, MSETransportGuidByte B7, MSETransportTime2, MSETransportGuidByte B3,
      MSETransportSeat, MSETransportGuidByte B4, MSETransportPositionY,
      MSETransportGuidByte B5, MSETransportGuidByte B2, MSETransportGuidByte B1,
      MSETransportPositionZ, MSETransportGuidByte B0, MSETransportOrientation,
      MSETransportGuidByte B6, MSETransportPositionX, MSETransportTime, MSETransportTime3,
      MSEPitch, MSEFallTime, MSEFallHorizontalSpeed, MSEFallCosAngle, MSEFallSinAngle,
      MSEFallVerticalSpeed, MSEOrientation, MSETimestamp, MSEUnkTime, MSESplineElevation,
      MSEEnd]"

definition MovementStartForward :: "mse list" where
  "MovementStartForward = [
      MSEPositionY, MSEPositionZ, MSEPositionX, MSEHasOrientation, MSEZeroBit,
      MSEHasGuidByte B4, MSEHasMovementFlags, MSEHasGuidByte B3, MSEHasPitch,
      MSEHasTransportData, MSEHasGuidByte B7, MSEHasSplineElevation, MSEHasFallData,
      MSEHasGuidByte B2, MSEHasMovementFlags2, MSEHasGuidByte B6, MSEZeroBit, MSEZeroBit,
      MSEHasGuidByte B0, MSEHasUnkTime, MSEHasGuidByte B5, MSEHasTimestamp,
      MSERemoveMovementForcesCount, MSEHasGuidByte B1, MSEHasTransportGuidByte B7,
      MSEHasTransportGuidByte B2, MSEHasTransportGuidByte B5, MSEHasTransportGuidByte B3,
      MSEHasTransportTime2, MSEHasTransportGuidByte B0, MSEHasTransportTime3,
      MSEHasTransportGuidByte B4, MSEHasTransportGuidByte B1, MSEHasTransportGuidByte B6,
      MSEHasFallDirection, MSEMovementFlags, MSEMovementFlags2, MSEGuidByte B4, MSEGuidByte B3,
      MSEGuidByte B5, MSEGuidByte B7, MSEGuidByte B1, MSEGuidByte B0, MSEGuidByte B2,
      MSEGuidByte B6, MSEMovementForcesId, MSETransportGuidByte B5, MSETransportPositionZ,
      MSETransportTime3, MSETransportPositionX, MSETransportGuidByte B7, MSETransportPositionY,
      MSETransportGuidByte B3, MSETransportGuidByte B6, MSETransportGuidByte B4,
      MSETransportTime2, MSETransportTime, MSETransportGuidByte B0, MSETransportOrientation,
      MSETransportSeat, MSETransportGuidByte B2, MSETransportGuidByte B1, MSESplineElevation,
      MSEFallHorizontalSpeed, MSEFallCosAngle, MSEFallSinAngle, MSEFallTime,
      MSEFallVerticalSpeed, MSEOrientation, MSEPitch, MSETimestamp, MSEUnkTime, MSEEnd]"

definition MovementStartStrafeLeft :: "mse list" where
  "MovementStartStrafeLeft = [
      MSEPositionZ, MSEPositionY, MSEPositionX, MSEHasUnkTime, MSEHasMovementFlags,
      MSEHasGuidByte B2, MSEHasTimestamp, MSEZeroBit, MSEHasFallData, MSEHasGuidByte B0,
      MSEHasOrientation, MSEHasGuidByte B6, MSERemoveMovementForcesCount, MSEHasGuidByte B5,
      MSEZeroBit, MSEHasGuidByte B1, MSEHasTransportData, MSEHasGuidByte B4,
      MSEHasMovementFlags2, MSEZeroBit, MSEHasSplineElevation, MSEHasGuidByte B7, MSEHasPitch,
      MSEHasGuidByte B3, MSEMovementFlags, MSEHasTransportGuidByte B2,
      MSEHasTransportGuidByte B1, MSEHasTransportGuidByte B3, MSEHasTransportTime3,
      MSEHasTransportTime2, MSEHasTransportGuidByte B4, MSEHasTransportGuidByte B0,
      MSEHasTransportGuidByte B5, MSEHasTransportGuidByte B7, MSEHasTransportGuidByte B6,
      MSEHasFallDirection, MSEMovementFlags2, MSEGuidByte B6, MSEGuidByte B4, MSEGuidByte B7,
      MSEGuidByte B2, MSEGuidByte B1, MSEGuidByte B5, MSEGuidByte B3, MSEMovementForcesId,
      MSEGuidByte B0, MSETimestamp, MSETransportGuidByte B7, MSETransportTime2,
      MSETransportGuidByte B6, MSETransportGuidByte B3, MSETransportTime,
      MSETransportPositionY, MSETransportGuidByte B4, MSETransportGuidByte B5,
      MSETransportPositionZ, MSETransportOrientation, MSETransportGuidByte B1,
      MSETransportGuidByte B0, MSETransportPositionX, MSETransportGuidByte B2,
      MSETransportTime3, MSETransportSeat, MSEFallHorizontalSpeed, MSEFallSinAngle,
      MSEFallCosAngle, MSEFallVerticalSpeed, MSEFallTime, MSEOrientation, MSEPitch, MSEUnkTime,
      MSESplineElevation, MSEEnd]"

definition MovementStartStrafeRight :: "mse list" where
  "MovementStartStrafeRight = [
      MSEPositionX, MSEPositionZ, MSEPositionY, MSEHasTransportData, MSEHasGuidByte B0,
      MSEHasSplineElevation, MSEHasPitch, MSERemoveMovementForcesCount, MSEHasTimestamp,
      MSEHasGuidByte B3, MSEHasGuidByte B6, MSEZeroBit, MSEZeroBit, MSEHasMovementFlags2,
      MSEHasOrientation, MSEZeroBit, MSEHasGuidByte B7, MSEHasUnkTime, MSEHasGuidByte B4,
      MSEHasGuidByte B5, MSEHasGuidByte B2, MSEHasMovementFlags, MSEHasFallData,
      MSEHasGuidByte B1, MSEMovementFlags2, MSEHasTransportTime3, MSEHasTransportGuidByte B7,
      MSEHasTransportGuidByte B1, MSEHasTransportGuidByte B0, MSEHasTransportGuidByte B2,
      MSEHasTransportGuidByte B5, MSEHasTransportGuidByte B4, MSEHasTransportGuidByte B6,
      MSEHasTransportGuidByte B3, MSEHasTransportTime2, MSEHasFallDirection, MSEMovementFlags,
      MSEGuidByte B5, MSEGuidByte B3, MSEMovementForcesId, MSEGuidByte B4, MSEGuidByte B0,
      MSEGuidByte B6, MSEGuidByte B2, MSEGuidByte B7, MSEGuidByte B1, MSETransportGuidByte B1,
      MSETransportTime3, MSETransportSeat, MSETransportPositionY, MSETransportGuidByte B4,
      MSETransportPositionZ, MSETransportTime2, MSETransportGuidByte B6, MSETransportTime,
      MSETransportGuidByte B0, MSETransportGuidByte B7, MSETransportGuidByte B3,
      MSETransportPositionX, MSETransportOrientation, MSETransportGuidByte B2,
      MSETransportGuidByte B5, MSEFallHorizontalSpeed, MSEFallSinAngle, MSEFallCosAngle,
      MSEFallVerticalSpeed, MSEFallTime, MSEOrientation, MSEUnkTime, MSEPitch, MSETimestamp,
      MSESplineElevation, MSEEnd]"

definition MovementStartTurnLeft :: "mse list" where
  "MovementStartTurnLeft = [
      MSEPositionY, MSEPositionX, MSEPositionZ, MSEHasGuidByte B6,
      MSERemoveMovementForcesCount, MSEZeroBit, MSEHasUnkTime, MSEHasGuidByte B4,
      MSEHasGuidByte B3, MSEHasOrientation, MSEHasGuidByte B0, MSEHasGuidByte B1,
      MSEHasSplineElevation, MSEHasMovementFlags, MSEHasMovementFlags2, MSEHasFallData,
      MSEHasTransportData, MSEHasPitch, MSEHasGuidByte B5, MSEZeroBit, MSEHasTimestamp,
      MSEZeroBit, MSEHasGuidByte B7, MSEHasGuidByte B2, MSEHasFallDirection,
      MSEHasTransportTime2, MSEHasTransportGuidByte B6, MSEHasTransportGuidByte B5,
      MSEHasTransportTime3, MSEHasTransportGuidByte B0, MSEHasTransportGuidByte B3,
      MSEHasTransportGuidByte B7, MSEHasTransportGuidByte B4, MSEHasTransportGuidByte B2,
      MSEHasTransportGuidByte B1, MSEMovementFlags, MSEMovementFlags2, MSEMovementForcesId,
      MSEGuidByte B6, MSEGuidByte B3, MSEGuidByte B1, MSEGuidByte B7, MSEGuidByte B0,
      MSEGuidByte B4, MSEGuidByte B5, MSEGuidByte B2, MSETransportPositionX,
      MSETransportGuidByte B0, MSETransportPositionY, MSETransportTime2,
      MSETransportGuidByte B7, MSETransportTime3, MSETransportGuidByte B4,
      MSETransportGuidByte B1, MSETransportGuidByte B3, MSETransportPositionZ,
      MSETransportOrientation, MSETransportSeat, MSETransportGuidByte B5,
      MSETransportGuidByte B6, MSETransportGuidByte B2, MSETransportTime, MSEPitch, MSEUnkTime,
      MSEFallHorizontalSpeed, MSEFallSinAngle, MSEFallCosAngle, MSEFallTime,
      MSEFallVerticalSpeed, MSEOrientation, MSETimestamp, MSESplineElevation, MSEEnd]"

definition MovementStartTurnRight :: "mse list" where
  "MovementStartTurnRight = [
      MSEPositionX, MSEPositionZ, MSEPositionY, MSEHasUnkTime, MSEHasFallData,
      MSEHasMovementFlags, MSEHasGuidByte B3, MSEHasMovementFlags2, MSEHasGuidByte B1,
      MSEHasGuidByte B2, MSEZeroBit, MSEHasGuidByte B5, MSEHasOrientation, MSEHasGuidByte B0,
      MSERemoveMovementForcesCount, MSEZeroBit, MSEHasTimestamp, MSEHasGuidByte B6,
      MSEHasGuidByte B7, MSEHasTransportData, MSEZeroBit, MSEHasPitch, MSEHasGuidByte B4,
      MSEHasSplineElevation, MSEHasTransportGuidByte B5, MSEHasTransportGuidByte B2,
      MSEHasTransportGuidByte B4, MSEHasTransportTime2, MSEHasTransportGuidByte B6,
      MSEHasTransportGuidByte B3, MSEHasTransportTime3, MSEHasTransportGuidByte B7,
      MSEHasTransportGuidByte B0, MSEHasTransportGuidByte B1, MSEHasFallDirection,
      MSEMovementFlags, MSEMovementFlags2, MSEGuidByte B2, MSEGuidByte B5, MSEGuidByte B4,
      MSEGuidByte B6, MSEGuidByte B1, MSEGuidByte B3, MSEGuidByte B7, MSEGuidByte B0,
      MSEMovementForcesId, MSETimestamp, MSEOrientation, MSETransportTime3,
      MSETransportGuidByte B6, MSETransportPositionY, MSETransportSeat,
      MSETransportGuidByte B4, MSETransportTime, MSETransportPositionZ,
      MSETransportGuidByte B7, MSETransportGuidByte B1, MSETransportGuidByte B3,
      MSETransportOrientation, MSETransportPositionX, MSETransportGuidByte B0,
      MSETransportTime2, MSETransportGuidByte B2, MSETransportGuidByte B5, MSEFallCosAngle,
      MSEFallSinAngle, MSEFallHorizontalSpeed, MSEFallTime, MSEFallVerticalSpeed, MSEUnkTime,
      MSEPitch, MSESplineElevation, MSEEnd]"

definition MovementStop :: "mse list" where
  "MovementStop = [
      MSEPositionX, MSEPositionY, MSEPositionZ, MSEHasGuidByte B1, MSEHasFallData,
      MSEHasMovementFlags2, MSEZeroBit, MSERemoveMovementForcesCount, MSEZeroBit,
      MSEHasMovementFlags, MSEHasGuidByte B6, MSEHasTimestamp, MSEHasGuidByte B3, MSEZeroBit,
      MSEHasGuidByte B4, MSEHasGuidByte B0, MSEHasSplineElevation, MSEHasGuidByte B2,
      MSEHasUnkTime, MSEHasTransportData, MSEHasPitch, MSEHasGuidByte B5, MSEHasOrientation,
      MSEHasGuidByte B7, MSEMovementFlags, MSEHasTransportGuidByte B3, MSEHasTransportTime2,
      MSEHasTransportGuidByte B2, MSEHasTransportGuidByte B5, MSEHasTransportGuidByte B6,
      MSEHasTransportTime3, MSEHasTransportGuidByte B7, MSEHasTransportGuidByte B1,
      MSEHasTransportGuidByte B4, MSEHasTransportGuidByte B0, MSEMovementFlags2,
      MSEHasFallDirection, MSEGuidByte B1, MSEGuidByte B6, MSEGuidByte B5, MSEGuidByte B3,
      MSEMovementForcesId, MSEGuidByte B7, MSEGuidByte B2, MSEGuidByte B4, MSEGuidByte B0,
      MSETransportGuidByte B2, MSETransportTime, MSETransportGuidByte B0,
      MSETransportGuidByte B7, MSETransportGuidByte B5, MSETransportGuidByte B1,
      MSETransportTime3, MSETransportSeat, MSETransportPositionY, MSETransportGuidByte B6,
      MSETransportTime2, MSETransportGuidByte B3, MSETransportOrientation,
      MSETransportPositionX, MSETransportGuidByte B4, MSETransportPositionZ,
      MSEFallHorizontalSpeed, MSEFallSinAngle, MSEFallCosAngle, MSEFallVerticalSpeed,
      MSEFallTime, MSETimestamp, MSEOrientation, MSEPitch, MSESplineElevation, MSEUnkTime,
      MSEEnd]"

definition MovementStopStrafe :: "mse list" where
  "MovementStopStrafe = [
      MSEPositionX, MSEPositionY, MSEPositionZ, MSEHasGuidByte B2, MSEHasGuidByte B0,
      MSEHasMovementFlags, MSEHasGuidByte B7, MSEHasFallData, MSEHasGuidByte B6, MSEZeroBit,
      MSEHasMovementFlags2, MSEZeroBit, MSEHasUnkTime, MSEZeroBit, MSEHasGuidByte B5,
      MSEHasTransportData, MSEHasPitch, MSEHasOrientation, MSERemoveMovementForcesCount,
      MSEHasGuidByte B3, MSEHasSplineElevation, MSEHasTimestamp, MSEHasGuidByte B4,
      MSEHasGuidByte B1, MSEHasTransportTime2, MSEHasTransportGuidByte B2,
      MSEHasTransportGuidByte B0, MSEHasTransportTime3, MSEHasTransportGuidByte B4,
      MSEHasTransportGuidByte B5, MSEHasTransportGuidByte B3, MSEHasTransportGuidByte B7,
      MSEHasTransportGuidByte B6, MSEHasTransportGuidByte B1, MSEMovementFlags2,
      MSEMovementFlags, MSEHasFallDirection, MSEGuidByte B6, MSEGuidByte B7, MSEGuidByte B4,
      MSEGuidByte B1, MSEGuidByte B5, MSEGuidByte B0, MSEGuidByte B2, MSEGuidByte B3,
      MSEMovementForcesId, MSETransportTime, MSETransportGuidByte B2, MSETransportPositionX,
      MSETransportTime3, MSETransportGuidByte B3, MSETransportGuidByte B4,
      MSETransportPositionY, MSETransportGuidByte B7, MSETransportSeat,
      MSETransportGuidByte B6, MSETransportOrientation, MSETransportGuidByte B1,
      MSETransportTime2, MSETransportPositionZ, MSETransportGuidByte B5,
      MSETransportGuidByte B0, MSEPitch, MSEFallSinAngle, MSEFallCosAngle,
      MSEFallHorizontalSpeed, MSEFallVerticalSpeed, MSEFallTime, MSETimestamp, MSEOrientation,
      MSESplineElevation, MSEUnkTime, MSEEnd]"

definition MovementStopTurn :: "mse list" where
  "MovementStopTurn = [
      MSEPositionX, MSEPositionY, MSEPositionZ, MSEHasGuidByte B3, MSEHasSplineElevation,
      MSEHasGuidByte B7, MSEHasGuidByte B6, MSEHasMovementFlags2, MSEHasGuidByte B4,
      MSEHasGuidByte B0, MSEHasUnkTime, MSEHasTimestamp, MSEZeroBit,
      MSERemoveMovementForcesCount, MSEHasMovementFlags, MSEHasOrientation, MSEHasGuidByte B2,
      MSEZeroBit, MSEHasGuidByte B1, MSEHasGuidByte B5, MSEHasTransportData, MSEZeroBit,
      MSEHasPitch, MSEHasFallData, MSEHasTransportGuidByte B5, MSEHasTransportGuidByte B2,
      MSEHasTransportGuidByte B3, MSEHasTransportGuidByte B0, MSEHasTransportGuidByte B7,
      MSEHasTransportGuidByte B1, MSEHasTransportGuidByte B4, MSEHasTransportGuidByte B6,
      MSEHasTransportTime3, MSEHasTransportTime2, MSEHasFallDirection, MSEMovementFlags,
      MSEMovementFlags2, MSEGuidByte B1, MSEMovementForcesId, MSEGuidByte B5, MSEGuidByte B4,
      MSEGuidByte B0, MSEGuidByte B2, MSEGuidByte B7, MSEGuidByte B6, MSEGuidByte B3,
      MSETransportPositionX, MSETransportGuidByte B4, MSETransportGuidByte B6,
      MSETransportGuidByte B3, MSETransportGuidByte B1, MSETransportTime3,
      MSETransportPositionZ, MSETransportPositionY, MSETransportSeat, MSETransportGuidByte B5,
      MSETransportGuidByte B2, MSETransportTime2, MSETransportTime, MSETransportOrientation,
      MSETransportGuidByte B7, MSETransportGuidByte B0, MSEUnkTime, MSEOrientation, MSEPitch,
      MSESplineElevation, MSEFallCosAngle, MSEFallHorizontalSpeed, MSEFallSinAngle,
      MSEFallVerticalSpeed, MSEFallTime, MSETimestamp, MSEEnd]"

definition MovementStartAscend :: "mse list" where
  "MovementStartAscend = [
      MSEPositionX, MSEPositionZ, MSEPositionY, MSEHasGuidByte B7, MSEHasMovementFlags,
      MSEZeroBit, MSEHasGuidByte B2, MSEHasTimestamp, MSEHasGuidByte B3, MSEZeroBit,
      MSEHasGuidByte B4, MSEHasOrientation, MSERemoveMovementForcesCount, MSEHasGuidByte B0,
      MSEHasSplineElevation, MSEHasMovementFlags2, MSEHasGuidByte B5, MSEHasTransportData,
      MSEHasFallData, MSEHasGuidByte B1, MSEHasGuidByte B6, MSEZeroBit, MSEHasUnkTime,
      MSEHasPitch, MSEMovementFlags2, MSEHasTransportTime3, MSEHasTransportGuidByte B2,
      MSEHasTransportGuidByte B7, MSEHasTransportGuidByte B4, MSEHasTransportGuidByte B0,
      MSEHasTransportGuidByte B6, MSEHasTransportTime2, MSEHasTransportGuidByte B3,
      MSEHasTransportGuidByte B5, MSEHasTransportGuidByte B1, MSEMovementFlags,
      MSEHasFallDirection, MSEGuidByte B0, MSEGuidByte B2, MSEGuidByte B4, MSEMovementForcesId,
      MSEGuidByte B3, MSEGuidByte B1, MSEGuidByte B7, MSEGuidByte B5, MSEGuidByte B6,
      MSEFallTime, MSEFallHorizontalSpeed, MSEFallSinAngle, MSEFallCosAngle,
      MSEFallVerticalSpeed, MSETransportPositionZ, MSETransportSeat, MSETransportGuidByte B7,
      MSETransportGuidByte B0, MSETransportGuidByte B5, MSETransportGuidByte B4,
      MSETransportPositionX, MSETransportTime2, MSETransportGuidByte B1,
      MSETransportGuidByte B3, MSETransportTime3, MSETransportOrientation,
      MSETransportPositionY, MSETransportTime, MSETransportGuidByte B6,
      MSETransportGuidByte B2, MSESplineElevation, MSEUnkTime, MSETimestamp, MSEPitch,
      MSEOrientation, MSEEnd]"

definition MovementStartDescend :: "mse list" where
  "MovementStartDescend = [
      MSEPositionY, MSEPositionZ, MSEPositionX, MSEZeroBit, MSEHasGuidByte B1, MSEHasPitch,
      MSERemoveMovementForcesCount, MSEHasGuidByte B6, MSEZeroBit, MSEHasMovementFlags,
      MSEHasUnkTime, MSEHasMovementFlags2, MSEHasGuidByte B7, MSEZeroBit, MSEHasGuidByte B0,
      MSEHasGuidByte B3, MSEHasTimestamp, MSEHasOrientation, MSEHasTransportData,
      MSEHasSplineElevation, MSEHasFallData, MSEHasGuidByte B4, MSEHasGuidByte B2,
      MSEHasGuidByte B5, MSEHasTransportGuidByte B4, MSEHasTransportGuidByte B7,
      MSEHasTransportGuidByte B1, MSEHasTransportGuidByte B5, MSEHasTransportGuidByte B3,
      MSEHasTransportGuidByte B2, MSEHasTransportTime2, MSEHasTransportGuidByte B0,
      MSEHasTransportGuidByte B6, MSEHasTransportTime3, MSEHasFallDirection, MSEMovementFlags2,
      MSEMovementFlags, MSEGuidByte B3, MSEGuidByte B5, MSEGuidByte B6, MSEGuidByte B1,
      MSEGuidByte B7, MSEGuidByte B0, MSEGuidByte B4, MSEMovementForcesId, MSEGuidByte B2,
      MSETransportTime, MSETransportPositionX, MSETransportPositionY, MSETransportOrientation,
      MSETransportTime2, MSETransportPositionZ, MSETransportSeat, MSETransportGuidByte B0,
      MSETransportGuidByte B3, MSETransportGuidByte B1, MSETransportGuidByte B7,
      MSETransportGuidByte B2, MSETransportGuidByte B6, MSETransportGuidByte B4,
      MSETransportTime3, MSETransportGuidByte B5, MSEUnkTime, MSESplineElevation,
      MSEFallVerticalSpeed, MSEFallHorizontalSpeed, MSEFallSinAngle, MSEFallCosAngle,
      MSEFallTime, MSEPitch, MSEOrientation, MSETimestamp, MSEEnd]"

definition MovementStartSwim :: "mse list" where
  "MovementStartSwim = [
      MSEPositionX, MSEPositionZ, MSEPositionY, MSEHasGuidByte B3, MSEHasTimestamp,
      MSEHasGuidByte B7, MSEHasGuidByte B4, MSEZeroBit, MSEHasGuidByte B5, MSEHasGuidByte B0,
      MSEHasMovementFlags, MSEHasSplineElevation, MSEHasPitch, MSEHasFallData,
      MSEHasMovementFlags2, MSEHasTransportData, MSEHasGuidByte B2, MSEHasGuidByte B6,
      MSEHasUnkTime, MSERemoveMovementForcesCount, MSEZeroBit, MSEHasOrientation, MSEZeroBit,
      MSEHasGuidByte B1, MSEHasTransportGuidByte B5, MSEHasTransportTime2,
      MSEHasTransportGuidByte B0, MSEHasTransportGuidByte B3, MSEHasTransportGuidByte B4,
      MSEHasTransportGuidByte B6, MSEHasTransportGuidByte B2, MSEHasTransportGuidByte B7,
      MSEHasTransportTime3, MSEHasTransportGuidByte B1, MSEMovementFlags, MSEHasFallDirection,
      MSEMovementFlags2, MSEMovementForcesId, MSEGuidByte B5, MSEGuidByte B2, MSEGuidByte B7,
      MSEGuidByte B0, MSEGuidByte B4, MSEGuidByte B1, MSEGuidByte B6, MSEGuidByte B3,
      MSETransportGuidByte B7, MSETransportPositionZ, MSETransportOrientation,
      MSETransportGuidByte B2, MSETransportPositionX, MSETransportTime2, MSETransportTime,
      MSETransportTime3, MSETransportGuidByte B3, MSETransportSeat, MSETransportGuidByte B4,
      MSETransportGuidByte B1, MSETransportGuidByte B0, MSETransportGuidByte B5,
      MSETransportPositionY, MSETransportGuidByte B6, MSEOrientation, MSEFallCosAngle,
      MSEFallSinAngle, MSEFallHorizontalSpeed, MSEFallVerticalSpeed, MSEFallTime,
      MSESplineElevation, MSETimestamp, MSEUnkTime, MSEPitch, MSEEnd]"

definition MovementStopSwim :: "mse list" where
  "MovementStopSwim = [
      MSEPositionZ, MSEPositionY, MSEPositionX, MSEZeroBit, MSEHasOrientation,
      MSEHasGuidByte B3, MSEHasFallData, MSEHasTransportData, MSEHasGuidByte B7, MSEZeroBit,
      MSEHasGuidByte B6, MSEHasGuidByte B1, MSEZeroBit, MSEHasSplineElevation,
      MSEHasGuidByte B4, MSEHasGuidByte B0, MSEHasUnkTime, MSEHasGuidByte B5, MSEHasPitch,
      MSERemoveMovementForcesCount, MSEHasMovementFlags2, MSEHasMovementFlags,
      MSEHasGuidByte B2, MSEHasTimestamp, MSEMovementFlags, MSEHasTransportGuidByte B0,
      MSEHasTransportGuidByte B4, MSEHasTransportGuidByte B2, MSEHasTransportGuidByte B3,
      MSEHasTransportGuidByte B7, MSEHasTransportGuidByte B6, MSEHasTransportTime2,
      MSEHasTransportGuidByte B5, MSEHasTransportGuidByte B1, MSEHasTransportTime3,
      MSEHasFallDirection, MSEMovementFlags2, MSEMovementForcesId, MSEGuidByte B4,
      MSEGuidByte B1, MSEGuidByte B5, MSEGuidByte B3, MSEGuidByte B2, MSEGuidByte B0,
      MSEGuidByte B6, MSEGuidByte B7, MSEFallSinAngle, MSEFallHorizontalSpeed, MSEFallCosAngle,
      MSEFallVerticalSpeed, MSEFallTime, MSETransportGuidByte B0, MSETransportGuidByte B5,
      MSETransportPositionY, MSETransportGuidByte B2, MSETransportPositionX, MSETransportTime,
      MSETransportGuidByte B6, MSETransportGuidByte B1, MSETransportTime3,
      MSETransportGuidByte B4, MSETransportGuidByte B7, MSETransportPositionZ,
      MSETransportSeat, MSETransportGuidByte B3, MSETransportOrientation, MSETransportTime2,
      MSEUnkTime, MSETimestamp, MSESplineElevation, MSEOrientation, MSEPitch, MSEEnd]"

definition MovementStopAscend :: "mse list" where
  "MovementStopAscend = [
      MSEPositionZ, MSEPositionX, MSEPositionY, MSEHasPitch, MSEHasGuidByte B7,
      MSEHasMovementFlags2, MSEHasTimestamp, MSEHasFallData, MSEHasUnkTime, MSEHasGuidByte B0,
      MSEZeroBit, MSEHasGuidByte B2, MSEHasTransportData, MSEZeroBit, MSEHasGuidByte B5,
      MSEHasGuidByte B4, MSEZeroBit, MSEHasGuidByte B1, MSEHasMovementFlags, MSEHasGuidByte B6,
      MSERemoveMovementForcesCount, MSEHasSplineElevation, MSEHasGuidByte B3,
      MSEHasOrientation, MSEHasTransportGuidByte B2, MSEHasTransportGuidByte B7,
      MSEHasTransportTime3, MSEHasTransportGuidByte B6, MSEHasTransportGuidByte B0,
      MSEHasTransportGuidByte B5, MSEHasTransportGuidByte B3, MSEHasTransportGuidByte B1,
      MSEHasTransportTime2, MSEHasTransportGuidByte B4, MSEHasFallDirection, MSEMovementFlags2,
      MSEMovementFlags, MSEGuidByte B2, MSEGuidByte B0, MSEGuidByte B3, MSEGuidByte B7,
      MSEGuidByte B1, MSEGuidByte B6, MSEGuidByte B4, MSEMovementForcesId, MSEGuidByte B5,
      MSESplineElevation, MSETransportOrientation, MSETransportPositionZ, MSETransportTime2,
      MSETransportSeat, MSETransportTime, MSETransportGuidByte B6, MSETransportPositionY,
      MSETransportGuidByte B5, MSETransportPositionX, MSETransportGuidByte B4,
      MSETransportGuidByte B3, MSETransportGuidByte B7, MSETransportTime3,
      MSETransportGuidByte B0, MSETransportGuidByte B2, MSETransportGuidByte B1,
      MSEOrientation, MSEPitch, MSEFallCosAngle, MSEFallHorizontalSpeed, MSEFallSinAngle,
      MSEFallTime, MSEFallVerticalSpeed, MSETimestamp, MSEUnkTime, MSEEnd]"

definition MovementStopPitch :: "mse list" where
  "MovementStopPitch = [
      MSEPositionZ, MSEPositionX, MSEPositionY, MSEHasFallData, MSEHasGuidByte B6,
      MSERemoveMovementForcesCount, MSEHasGuidByte B5, MSEZeroBit, MSEHasGuidByte B7,
      MSEHasGuidByte B3, MSEHasMovementFlags2, MSEHasPitch, MSEZeroBit, MSEHasOrientation,
      MSEZeroBit, MSEHasGuidByte B4, MSEHasGuidByte B2, MSEHasMovementFlags, MSEHasUnkTime,
      MSEHasTransportData, MSEHasGuidByte B0, MSEHasGuidByte B1, MSEHasSplineElevation,
      MSEHasTimestamp, MSEMovementFlags, MSEHasTransportGuidByte B2,
      MSEHasTransportGuidByte B3, MSEHasTransportGuidByte B5, MSEHasTransportGuidByte B6,
      MSEHasTransportGuidByte B0, MSEHasTransportTime2, MSEHasTransportGuidByte B1,
      MSEHasTransportGuidByte B7, MSEHasTransportGuidByte B4, MSEHasTransportTime3,
      MSEHasFallDirection, MSEMovementFlags2, MSEGuidByte B3, MSEGuidByte B4, MSEGuidByte B5,
      MSEGuidByte B0, MSEGuidByte B1, MSEGuidByte B7, MSEMovementForcesId, MSEGuidByte B2,
      MSEGuidByte B6, MSETransportGuidByte B2, MSETransportGuidByte B7,
      MSETransportGuidByte B6, MSETransportGuidByte B3, MSETransportSeat,
      MSETransportGuidByte B5, MSETransportTime, MSETransportPositionX,
      MSETransportGuidByte B4, MSETransportPositionZ, MSETransportTime3, MSETransportPositionY,
      MSETransportGuidByte B1, MSETransportOrientation, MSETransportTime2,
      MSETransportGuidByte B0, MSEUnkTime, MSEFallTime, MSEFallCosAngle,
      MSEFallHorizontalSpeed, MSEFallSinAngle, MSEFallVerticalSpeed, MSESplineElevation,
      MSEOrientation, MSETimestamp, MSEPitch, MSEEnd]"

definition MovementStartPitchDown :: "mse list" where
  "MovementStartPitchDown = [
      MSEPositionY, MSEPositionX, MSEPositionZ, MSEZeroBit, MSEHasGuidByte B2, MSEZeroBit,
      MSEHasPitch, MSEHasTransportData, MSEHasGuidByte B3, MSEHasGuidByte B1,
      MSEHasGuidByte B5, MSEHasGuidByte B4, MSEHasTimestamp, MSEHasMovementFlags,
      MSEHasGuidByte B7, MSEHasOrientation, MSEZeroBit, MSEHasFallData, MSEHasMovementFlags2,
      MSEHasUnkTime, MSERemoveMovementForcesCount, MSEHasGuidByte B0, MSEHasSplineElevation,
      MSEHasGuidByte B6, MSEHasTransportGuidByte B6, MSEHasTransportTime3,
      MSEHasTransportGuidByte B7, MSEHasTransportGuidByte B2, MSEHasTransportGuidByte B5,
      MSEHasTransportGuidByte B3, MSEHasTransportGuidByte B1, MSEHasTransportTime2,
      MSEHasTransportGuidByte B0, MSEHasTransportGuidByte B4, MSEHasFallDirection,
      MSEMovementFlags2, MSEMovementFlags, MSEGuidByte B0, MSEGuidByte B2, MSEGuidByte B4,
      MSEGuidByte B1, MSEGuidByte B7, MSEMovementForcesId, MSEGuidByte B6, MSEGuidByte B3,
      MSEGuidByte B5, MSEFallCosAngle, MSEFallHorizontalSpeed, MSEFallSinAngle,
      MSEFallVerticalSpeed, MSEFallTime, MSETransportGuidByte B4, MSETransportSeat,
      MSETransportGuidByte B5, MSETransportPositionZ, MSETransportGuidByte B6,
      MSETransportGuidByte B1, MSETransportPositionX, MSETransportTime2,
      MSETransportGuidByte B0, MSETransportOrientation, MSETransportTime,
      MSETransportGuidByte B7, MSETransportPositionY, MSETransportGuidByte B2,
      MSETransportTime3, MSETransportGuidByte B3, MSEUnkTime, MSESplineElevation,
      MSEOrientation, MSETimestamp, MSEPitch, MSEEnd]"

definition MovementStartPitchUp :: "mse list" where
  "MovementStartPitchUp = [
      MSEPositionZ, MSEPositionY, MSEPositionX, MSEZeroBit, MSEHasGuidByte B5, MSEHasPitch,
      MSERemoveMovementForcesCount, MSEZeroBit, MSEHasGuidByte B7, MSEHasGuidByte B1,
      MSEHasSplineElevation, MSEHasTimestamp, MSEHasMovementFlags, MSEHasMovementFlags2,
      MSEHasUnkTime, MSEHasFallData, MSEZeroBit, MSEHasGuidByte B6, MSEHasGuidByte B2,
      MSEHasGuidByte B3, MSEHasOrientation, MSEHasTransportData, MSEHasGuidByte B4,
      MSEHasGuidByte B0, MSEHasTransportGuidByte B3, MSEHasTransportGuidByte B7,
      MSEHasTransportGuidByte B4, MSEHasTransportTime2, MSEHasTransportTime3,
      MSEHasTransportGuidByte B6, MSEHasTransportGuidByte B2, MSEHasTransportGuidByte B1,
      MSEHasTransportGuidByte B0, MSEHasTransportGuidByte B5, MSEMovementFlags2,
      MSEMovementFlags, MSEHasFallDirection, MSEGuidByte B4, MSEGuidByte B7, MSEGuidByte B3,
      MSEGuidByte B2, MSEGuidByte B5, MSEGuidByte B1, MSEGuidByte B0, MSEMovementForcesId,
      MSEGuidByte B6, MSETransportPositionX, MSETransportGuidByte B7, MSETransportTime2,
      MSETransportGuidByte B4, MSETransportGuidByte B1, MSETransportGuidByte B6,
      MSETransportGuidByte B3, MSETransportGuidByte B0, MSETransportGuidByte B5,
      MSETransportPositionZ, MSETransportGuidByte B2, MSETransportTime3, MSETransportPositionY,
      MSETransportOrientation, MSETransportTime, MSETransportSeat, MSEFallCosAngle,
      MSEFallHorizontalSpeed, MSEFallSinAngle, MSEFallTime, MSEFallVerticalSpeed,
      MSESplineElevation, MSEPitch, MSEOrientation, MSETimestamp, MSEUnkTime, MSEEnd]"

definition MoveChngTransport :: "mse list" where
  "MoveChngTransport = [
      MSEPositionY, MSEPositionZ, MSEPositionX, MSEHasSpline, MSEHasUnkTime, MSEHasGuidByte B7,
      MSEHasGuidByte B6, MSEHasPitch, MSEHasTimestamp, MSEHasTransportData, MSEHasGuidByte B4,
      MSEHasFallData, MSEHasGuidByte B1, MSEHasOrientation, MSEHasGuidByte B0,
      MSEHasGuidByte B2, MSEZeroBit, MSEHasGuidByte B5, MSEHasMovementFlags, MSEHasGuidByte B3,
      MSEHasSplineElevation, MSEZeroBit, MSEHasMovementFlags2, MSERemoveMovementForcesCount,
      MSEHasTransportGuidByte B6, MSEHasTransportGuidByte B1, MSEHasTransportGuidByte B2,
      MSEHasTransportGuidByte B7, MSEHasTransportGuidByte B5, MSEHasTransportGuidByte B3,
      MSEHasTransportTime2, MSEHasTransportTime3, MSEHasTransportGuidByte B4,
      MSEHasTransportGuidByte B0, MSEHasFallDirection, MSEMovementFlags2, MSEMovementFlags,
      MSEGuidByte B5, MSEMovementForcesId, MSEGuidByte B4, MSEGuidByte B6, MSEGuidByte B7,
      MSEGuidByte B2, MSEGuidByte B1, MSEGuidByte B3, MSEGuidByte B0, MSETransportOrientation,
      MSETransportGuidByte B3, MSETransportGuidByte B4, MSETransportPositionZ,
      MSETransportGuidByte B1, MSETransportGuidByte B7, MSETransportTime2,
      MSETransportGuidByte B2, MSETransportSeat, MSETransportGuidByte B0,
      MSETransportGuidByte B5, MSETransportTime3, MSETransportPositionY, MSETransportPositionX,
      MSETransportTime, MSETransportGuidByte B6, MSEFallHorizontalSpeed, MSEFallCosAngle,
      MSEFallSinAngle, MSEFallVerticalSpeed, MSEFallTime, MSEPitch, MSESplineElevation,
      MSEOrientation, MSEUnkTime, MSETimestamp, MSEEnd]"

definition DismissControlledVehicle :: "mse list" where
  "DismissControlledVehicle = [
      MSEPositionY, MSEPositionZ, MSEPositionX, MSEZeroBit, MSEHasUnkTime, MSEHasMovementFlags,
      MSEHasGuidByte B5, MSEHasGuidByte B2, MSEHasTimestamp, MSERemoveMovementForcesCount,
      MSEHasPitch, MSEHasGuidByte B4, MSEZeroBit, MSEHasGuidByte B0, MSEHasSplineElevation,
      MSEHasGuidByte B7, MSEHasGuidByte B3, MSEHasGuidByte B6, MSEHasSpline,
      MSEHasTransportData, MSEHasGuidByte B1, MSEHasFallData, MSEHasOrientation,
      MSEHasMovementFlags2, MSEHasTransportTime2, MSEHasTransportGuidByte B4,
      MSEHasTransportTime3, MSEHasTransportGuidByte B6, MSEHasTransportGuidByte B0,
      MSEHasTransportGuidByte B7, MSEHasTransportGuidByte B5, MSEHasTransportGuidByte B3,
      MSEHasTransportGuidByte B2, MSEHasTransportGuidByte B1, MSEHasFallDirection,
      MSEMovementFlags2, MSEMovementFlags, MSEGuidByte B5, MSEMovementForcesId, MSEGuidByte B7,
      MSEGuidByte B0, MSEGuidByte B6, MSEGuidByte B3, MSEGuidByte B2, MSEGuidByte B4,
      MSEGuidByte B1, MSETransportGuidByte B1, MSETransportGuidByte B5, MSETransportTime3,
      MSETransportGuidByte B0, MSETransportPositionX, MSETransportOrientation,
      MSETransportGuidByte B3, MSETransportGuidByte B2, MSETransportTime2, MSETransportTime,
      MSETransportGuidByte B4, MSETransportPositionY, MSETransportPositionZ,
      MSETransportGuidByte B6, MSETransportSeat, MSETransportGuidByte B7, MSETimestamp,
      MSEFallCosAngle, MSEFallSinAngle, MSEFallHorizontalSpeed, MSEFallVerticalSpeed,
      MSEFallTime, MSEPitch, MSEUnkTime, MSEOrientation, MSESplineElevation, MSEEnd]"

definition MovementSetCollisionHeightAck :: "mse list" where
  "MovementSetCollisionHeightAck = [
      MSEPositionX, MSEGenericDword B0, MSEGenericDword B1, MSECounter, MSEPositionZ,
      MSEPositionY, MSEHasUnkTime, MSEZeroBit, MSEHasMovementFlags, MSEZeroBit, MSEHasFallData,
      MSEHasTimestamp, MSEHasGuidByte B4, MSEHasPitch, MSEHasSpline, MSEHasGuidByte B0,
      MSEHasGuidByte B5, MSEHasSplineElevation, MSEHasGuidByte B3, MSEHasOrientation,
      MSEHasGuidByte B2, MSERemoveMovementForcesCount, MSEGeneric2bits0, MSEHasGuidByte B1,
      MSEHasGuidByte B6, MSEHasMovementFlags2, MSEHasTransportData, MSEHasGuidByte B7,
      MSEHasTransportGuidByte B0, MSEHasTransportGuidByte B7, MSEHasTransportGuidByte B4,
      MSEHasTransportTime3, MSEHasTransportGuidByte B1, MSEHasTransportGuidByte B6,
      MSEHasTransportGuidByte B3, MSEHasTransportGuidByte B2, MSEHasTransportGuidByte B5,
      MSEHasTransportTime2, MSEHasFallDirection, MSEMovementFlags, MSEMovementFlags2,
      MSEGuidByte B2, MSEGuidByte B5, MSEGuidByte B6, MSEGuidByte B7, MSEGuidByte B3,
      MSEGuidByte B1, MSEMovementForcesId, MSEGuidByte B4, MSEGuidByte B0,
      MSETransportGuidByte B1, MSETransportTime3, MSETransportPositionZ, MSETransportPositionY,
      MSETransportSeat, MSETransportGuidByte B7, MSETransportGuidByte B6,
      MSETransportGuidByte B3, MSETransportOrientation, MSETransportPositionX,
      MSETransportGuidByte B5, MSETransportTime2, MSETransportGuidByte B0,
      MSETransportGuidByte B4, MSETransportTime, MSETransportGuidByte B2, MSEFallVerticalSpeed,
      MSEFallTime, MSEFallCosAngle, MSEFallSinAngle, MSEFallHorizontalSpeed, MSETimestamp,
      MSESplineElevation, MSEOrientation, MSEUnkTime, MSEPitch, MSEEnd]"

definition MovementSetCanFlyAck :: "mse list" where
  "MovementSetCanFlyAck = [
      MSEPositionY, MSEPositionX, MSEPositionZ, MSECounter, MSEHasPitch, MSEHasGuidByte B1,
      MSEHasGuidByte B2, MSEHasUnkTime, MSEHasOrientation, MSEHasGuidByte B6,
      MSEHasMovementFlags, MSEHasTimestamp, MSEHasGuidByte B0, MSEHasMovementFlags2,
      MSERemoveMovementForcesCount, MSEZeroBit, MSEHasGuidByte B4, MSEHasTransportData,
      MSEHasSpline, MSEHasGuidByte B3, MSEHasGuidByte B5, MSEHasSplineElevation,
      MSEHasGuidByte B7, MSEHasFallData, MSEZeroBit, MSEMovementFlags2,
      MSEHasTransportGuidByte B3, MSEHasTransportGuidByte B1, MSEHasTransportGuidByte B4,
      MSEHasTransportGuidByte B7, MSEHasTransportTime3, MSEHasTransportGuidByte B0,
      MSEHasTransportGuidByte B2, MSEHasTransportGuidByte B6, MSEHasTransportTime2,
      MSEHasTransportGuidByte B5, MSEHasFallDirection, MSEMovementFlags, MSEGuidByte B3,
      MSEGuidByte B2, MSEGuidByte B1, MSEGuidByte B4, MSEGuidByte B5, MSEMovementForcesId,
      MSEGuidByte B7, MSEGuidByte B0, MSEGuidByte B6, MSETransportOrientation,
      MSETransportTime, MSETransportPositionY, MSETransportGuidByte B6, MSETransportTime3,
      MSETransportSeat, MSETransportGuidByte B3, MSETransportGuidByte B1,
      MSETransportGuidByte B0, MSETransportGuidByte B2, MSETransportTime2,
      MSETransportGuidByte B5, MSETransportPositionX, MSETransportGuidByte B4,
      MSETransportPositionZ, MSETransportGuidByte B7, MSEFallTime, MSEFallHorizontalSpeed,
      MSEFallCosAngle, MSEFallSinAngle, MSEFallVerticalSpeed, MSETimestamp, MSEOrientation,
      MSESplineElevation, MSEPitch, MSEUnkTime, MSEEnd]"

definition ForceMoveRootAck :: "mse list" where
  "ForceMoveRootAck = [
      MSEPositionY, MSEPositionX, MSEPositionZ, MSECounter, MSEZeroBit, MSEHasUnkTime,
      MSEHasGuidByte B4, MSEHasOrientation, MSEHasFallData, MSEZeroBit, MSEHasGuidByte B2,
      MSEHasTimestamp, MSEHasSpline, MSEHasGuidByte B0, MSERemoveMovementForcesCount,
      MSEHasMovementFlags, MSEHasMovementFlags2, MSEHasSplineElevation, MSEHasGuidByte B6,
      MSEHasPitch, MSEHasGuidByte B7, MSEHasTransportData, MSEHasGuidByte B5,
      MSEHasGuidByte B1, MSEHasGuidByte B3, MSEHasTransportTime3, MSEHasTransportGuidByte B5,
      MSEHasTransportGuidByte B7, MSEHasTransportGuidByte B3, MSEHasTransportGuidByte B1,
      MSEHasTransportGuidByte B4, MSEHasTransportGuidByte B6, MSEHasTransportTime2,
      MSEHasTransportGuidByte B2, MSEHasTransportGuidByte B0, MSEMovementFlags,
      MSEMovementFlags2, MSEHasFallDirection, MSEGuidByte B4, MSEGuidByte B1, MSEGuidByte B2,
      MSEGuidByte B5, MSEGuidByte B0, MSEGuidByte B6, MSEGuidByte B7, MSEGuidByte B3,
      MSEMovementForcesId, MSETransportTime, MSETransportGuidByte B3, MSETransportTime3,
      MSETransportGuidByte B5, MSETransportGuidByte B4, MSETransportPositionY,
      MSETransportPositionZ, MSETransportTime2, MSETransportPositionX, MSETransportGuidByte B0,
      MSETransportGuidByte B6, MSETransportGuidByte B2, MSETransportGuidByte B7,
      MSETransportSeat, MSETransportOrientation, MSETransportGuidByte B1, MSEFallTime,
      MSEFallSinAngle, MSEFallHorizontalSpeed, MSEFallCosAngle, MSEFallVerticalSpeed,
      MSETimestamp, MSESplineElevation, MSEUnkTime, MSEPitch, MSEOrientation, MSEEnd]"

definition ForceMoveUnrootAck :: "mse list" where
  "ForceMoveUnrootAck = [
      MSEPositionY, MSECounter, MSEPositionX, MSEPositionZ, MSEHasOrientation,
      MSEHasGuidByte B0, MSERemoveMovementForcesCount, MSEHasTimestamp, MSEHasSplineElevation,
      MSEHasGuidByte B2, MSEHasGuidByte B3, MSEHasGuidByte B7, MSEZeroBit, MSEHasPitch,
      MSEHasMovementFlags, MSEHasGuidByte B1, MSEZeroBit, MSEHasFallData, MSEHasGuidByte B5,
      MSEHasGuidByte B6, MSEHasGuidByte B4, MSEHasSpline, MSEHasTransportData, MSEHasUnkTime,
      MSEHasMovementFlags2, MSEHasTransportTime2, MSEHasTransportGuidByte B1,
      MSEHasTransportGuidByte B4, MSEHasTransportGuidByte B5, MSEHasTransportGuidByte B2,
      MSEHasTransportGuidByte B7, MSEHasTransportGuidByte B6, MSEHasTransportGuidByte B0,
      MSEHasTransportGuidByte B3, MSEHasTransportTime3, MSEMovementFlags, MSEMovementFlags2,
      MSEHasFallDirection, MSEGuidByte B4, MSEMovementForcesId, MSEGuidByte B2, MSEGuidByte B7,
      MSEGuidByte B0, MSEGuidByte B3, MSEGuidByte B5, MSEGuidByte B1, MSEGuidByte B6,
      MSETransportTime3, MSETransportGuidByte B6, MSETransportPositionY,
      MSETransportGuidByte B7, MSETransportOrientation, MSETransportTime, MSETransportSeat,
      MSETransportPositionZ, MSETransportGuidByte B4, MSETransportGuidByte B0,
      MSETransportTime2, MSETransportGuidByte B2, MSETransportGuidByte B5,
      MSETransportGuidByte B1, MSETransportGuidByte B3, MSETransportPositionX,
      MSEFallHorizontalSpeed, MSEFallCosAngle, MSEFallSinAngle, MSEFallVerticalSpeed,
      MSEFallTime, MSEUnkTime, MSESplineElevation, MSEPitch, MSEOrientation, MSETimestamp,
      MSEEnd]"

definition MovementKnockBackAck :: "mse list" where
  "MovementKnockBackAck = [
      MSEPositionX, MSEPositionY, MSEPositionZ, MSEExtraElement, MSEHasGuidByte B2, MSEZeroBit,
      MSEHasGuidByte B7, MSEHasOrientation, MSEHasGuidByte B4, MSEHasTimestamp, MSEHasFallData,
      MSEZeroBit, MSEHasGuidByte B0, MSEHasTransportData, MSEHasGuidByte B5,
      MSERemoveMovementForcesCount, MSEHasGuidByte B3, MSEHasMovementFlags,
      MSEHasMovementFlags2, MSEHasPitch, MSEHasGuidByte B6, MSEZeroBit, MSEHasGuidByte B1,
      MSEHasSplineElevation, MSEHasUnkTime, MSEHasFallDirection, MSEHasTransportGuidByte B7,
      MSEHasTransportTime2, MSEHasTransportGuidByte B6, MSEHasTransportGuidByte B5,
      MSEHasTransportGuidByte B0, MSEHasTransportGuidByte B2, MSEHasTransportGuidByte B4,
      MSEHasTransportGuidByte B1, MSEHasTransportGuidByte B3, MSEHasTransportTime3,
      MSEMovementFlags2, MSEMovementFlags, MSEGuidByte B0, MSEGuidByte B5, MSEMovementForcesId,
      MSEGuidByte B6, MSEGuidByte B1, MSEGuidByte B4, MSEGuidByte B2, MSEGuidByte B3,
      MSEGuidByte B7, MSEFallTime, MSEFallHorizontalSpeed, MSEFallCosAngle, MSEFallSinAngle,
      MSEFallVerticalSpeed, MSETransportTime, MSETransportOrientation, MSETransportGuidByte B3,
      MSETransportPositionZ, MSETransportGuidByte B2, MSETransportPositionX, MSETransportSeat,
      MSETransportPositionY, MSETransportTime3, MSETransportGuidByte B1,
      MSETransportGuidByte B6, MSETransportGuidByte B7, MSETransportTime2,
      MSETransportGuidByte B5, MSETransportGuidByte B0, MSETransportGuidByte B4,
      MSEOrientation, MSEUnkTime, MSEPitch, MSESplineElevation, MSETimestamp, MSEEnd]"

definition MovementUpdateKnockBack :: "mse list" where
  "MovementUpdateKnockBack = [
      MSEPositionX, MSEPositionY, MSEPositionZ, MSEHasTimestamp, MSEHasGuidByte B4, MSEZeroBit,
      MSEHasPitch, MSEZeroBit, MSERemoveMovementForcesCount, MSEHasMovementFlags,
      MSEHasGuidByte B3, MSEHasFallData, MSEZeroBit, MSEHasFallDirection, MSEHasMovementFlags2,
      MSEHasSplineElevation, MSEHasOrientation, MSEHasGuidByte B1, MSEMovementFlags2,
      MSEHasUnkTime, MSEHasGuidByte B7, MSEHasTransportData, MSEHasTransportGuidByte B6,
      MSEHasTransportGuidByte B4, MSEHasTransportGuidByte B7, MSEHasTransportGuidByte B2,
      MSEHasTransportGuidByte B3, MSEHasTransportGuidByte B0, MSEHasTransportTime3,
      MSEHasTransportTime2, MSEHasTransportGuidByte B5, MSEHasTransportGuidByte B1,
      MSEHasGuidByte B2, MSEMovementFlags, MSEHasGuidByte B0, MSEHasGuidByte B6,
      MSEHasGuidByte B5, MSETransportPositionX, MSETransportGuidByte B3, MSETransportTime,
      MSETransportTime3, MSETransportGuidByte B5, MSETransportGuidByte B4, MSETransportTime2,
      MSETransportGuidByte B1, MSETransportPositionZ, MSETransportGuidByte B2,
      MSETransportGuidByte B0, MSETransportOrientation, MSETransportGuidByte B7,
      MSETransportGuidByte B6, MSETransportPositionY, MSETransportSeat, MSESplineElevation,
      MSEPitch, MSEMovementForcesId, MSEFallHorizontalSpeed, MSEFallCosAngle, MSEFallSinAngle,
      MSEFallVerticalSpeed, MSEFallTime, MSEOrientation, MSEGuidByte B5, MSEUnkTime,
      MSEGuidByte B1, MSEGuidByte B2, MSEGuidByte B4, MSEGuidByte B7, MSEGuidByte B6,
      MSETimestamp, MSEGuidByte B3, MSEGuidByte B0, MSEEnd]"

definition SplineMoveSetWalkSpeed :: "mse list" where
  "SplineMoveSetWalkSpeed = [
      MSEHasGuidByte B6, MSEHasGuidByte B7, MSEHasGuidByte B5, MSEHasGuidByte B4,
      MSEHasGuidByte B3, MSEHasGuidByte B0, MSEHasGuidByte B1, MSEHasGuidByte B2,
      MSEGuidByte B3, MSEGuidByte B0, MSEGuidByte B6, MSEGuidByte B4, MSEGuidByte B2,
      MSEGuidByte B5, MSEExtraElement, MSEGuidByte B1, MSEGuidByte B7, MSEEnd]"

definition SplineMoveSetRunSpeed :: "mse list" where
  "SplineMoveSetRunSpeed = [
      MSEHasGuidByte B2, MSEHasGuidByte B7, MSEHasGuidByte B3, MSEHasGuidByte B5,
      MSEHasGuidByte B4, MSEHasGuidByte B1, MSEHasGuidByte B6, MSEHasGuidByte B0,
      MSEGuidByte B6, MSEGuidByte B7, MSEGuidByte B3, MSEExtraElement, MSEGuidByte B4,
      MSEGuidByte B0, MSEGuidByte B2, MSEGuidByte B1, MSEGuidByte B5, MSEEnd]"

definition SplineMoveSetRunBackSpeed :: "mse list" where
  "SplineMoveSetRunBackSpeed = [
      MSEHasGuidByte B5, MSEHasGuidByte B0, MSEHasGuidByte B7, MSEHasGuidByte B2,
      MSEHasGuidByte B6, MSEHasGuidByte B1, MSEHasGuidByte B4, MSEHasGuidByte B3,
      MSEGuidByte B6, MSEExtraElement, MSEGuidByte B4, MSEGuidByte B2, MSEGuidByte B3,
      MSEGuidByte B7, MSEGuidByte B1, MSEGuidByte B5, MSEGuidByte B0, MSEEnd]"

definition SplineMoveSetSwimSpeed :: "mse list" where
  "SplineMoveSetSwimSpeed = [
      MSEHasGuidByte B6, MSEHasGuidByte B4, MSEHasGuidByte B5, MSEHasGuidByte B0,
      MSEHasGuidByte B3, MSEHasGuidByte B2, MSEHasGuidByte B7, MSEHasGuidByte B1,
      MSEGuidByte B3, MSEGuidByte B0, MSEGuidByte B1, MSEGuidByte B6, MSEGuidByte B5,
      MSEGuidByte B4, MSEExtraElement, MSEGuidByte B7, MSEGuidByte B2, MSEEnd]"

definition SplineMoveSetSwimBackSpeed :: "mse list" where
  "SplineMoveSetSwimBackSpeed = [
      MSEHasGuidByte B4, MSEHasGuidByte B3, MSEHasGuidByte B5, MSEHasGuidByte B1,
      MSEHasGuidByte B2, MSEHasGuidByte B6, MSEHasGuidByte B0, MSEHasGuidByte B7,
      MSEGuidByte B5, MSEGuidByte B3, MSEGuidByte B0, MSEGuidByte B2, MSEExtraElement,
      MSEGuidByte B7, MSEGuidByte B4, MSEGuidByte B1, MSEGuidByte B6, MSEEnd]"

definition SplineMoveSetTurnRate :: "mse list" where
  "SplineMoveSetTurnRate = [
      MSEHasGuidByte B7, MSEHasGuidByte B2, MSEHasGuidByte B1, MSEHasGuidByte B0,
      MSEHasGuidByte B5, MSEHasGuidByte B6, MSEHasGuidByte B3, MSEHasGuidByte B4,
      MSEGuidByte B4, MSEGuidByte B1, MSEGuidByte B6, MSEGuidByte B2, MSEGuidByte B0,
      MSEExtraElement, MSEGuidByte B7, MSEGuidByte B3, MSEGuidByte B5, MSEEnd]"

definition SplineMoveSetFlightSpeed :: "mse list" where
  "SplineMoveSetFlightSpeed = [
      MSEHasGuidByte B2, MSEHasGuidByte B7, MSEHasGuidByte B0, MSEHasGuidByte B5,
      MSEHasGuidByte B6, MSEHasGuidByte B3, MSEHasGuidByte B4, MSEHasGuidByte B1,
      MSEGuidByte B3, MSEGuidByte B4, MSEGuidByte B6, MSEGuidByte B2, MSEGuidByte B1,
      MSEGuidByte B7, MSEExtraElement, MSEGuidByte B0, MSEGuidByte B5, MSEEnd]"

definition SplineMoveSetFlightBackSpeed :: "mse list" where
  "SplineMoveSetFlightBackSpeed = [
      MSEHasGuidByte B0, MSEHasGuidByte B4, MSEHasGuidByte B3, MSEHasGuidByte B6,
      MSEHasGuidByte B1, MSEHasGuidByte B7, MSEHasGuidByte B2, MSEHasGuidByte B5,
      MSEExtraElement, MSEGuidByte B2, MSEGuidByte B5, MSEGuidByte B4, MSEGuidByte B0,
      MSEGuidByte B3, MSEGuidByte B7, MSEGuidByte B1, MSEGuidByte B6, MSEEnd]"

definition SplineMoveSetPitchRate :: "mse list" where
  "SplineMoveSetPitchRate = [
      MSEExtraElement, MSEHasGuidByte B5, MSEHasGuidByte B3, MSEHasGuidByte B4,
      MSEHasGuidByte B2, MSEHasGuidByte B6, MSEHasGuidByte B1, MSEHasGuidByte B0,
      MSEHasGuidByte B7, MSEGuidByte B2, MSEGuidByte B3, MSEGuidByte B4, MSEGuidByte B6,
      MSEGuidByte B1, MSEGuidByte B7, MSEGuidByte B0, MSEGuidByte B5, MSEEnd]"

definition MoveSetWalkSpeed :: "mse list" where
  "MoveSetWalkSpeed = [
      MSEHasGuidByte B1, MSEHasGuidByte B0, MSEHasGuidByte B6, MSEHasGuidByte B3,
      MSEHasGuidByte B5, MSEHasGuidByte B4, MSEHasGuidByte B7, MSEHasGuidByte B2,
      MSEExtraElement, MSEGuidByte B6, MSEGuidByte B1, MSEGuidByte B5, MSECounter,
      MSEGuidByte B2, MSEGuidByte B4, MSEGuidByte B3, MSEGuidByte B0, MSEGuidByte B7, MSEEnd]"

definition MoveSetRunSpeed :: "mse list" where
  "MoveSetRunSpeed = [
      MSEHasGuidByte B1, MSEHasGuidByte B5, MSEHasGuidByte B2, MSEHasGuidByte B0,
      MSEHasGuidByte B4, MSEHasGuidByte B3, MSEHasGuidByte B7, MSEHasGuidByte B6,
      MSEGuidByte B3, MSEGuidByte B2, MSEGuidByte B6, MSEGuidByte B0, MSECounter,
      MSEGuidByte B5, MSEExtraElement, MSEGuidByte B7, MSEGuidByte B4, MSEGuidByte B1, MSEEnd]"

definition MoveSetRunBackSpeed :: "mse list" where
  "MoveSetRunBackSpeed = [
      MSEHasGuidByte B7, MSEHasGuidByte B2, MSEHasGuidByte B6, MSEHasGuidByte B1,
      MSEHasGuidByte B5, MSEHasGuidByte B0, MSEHasGuidByte B3, MSEHasGuidByte B4,
      MSEGuidByte B3, MSEExtraElement, MSEGuidByte B2, MSEGuidByte B5, MSEGuidByte B7,
      MSEGuidByte B0, MSEGuidByte B6, MSECounter, MSEGuidByte B1, MSEGuidByte B4, MSEEnd]"

definition MoveSetSwimSpeed :: "mse list" where
  "MoveSetSwimSpeed = [
      MSEExtraElement, MSECounter, MSEHasGuidByte B4, MSEHasGuidByte B7, MSEHasGuidByte B6,
      MSEHasGuidByte B3, MSEHasGuidByte B5, MSEHasGuidByte B2, MSEHasGuidByte B0,
      MSEHasGuidByte B1, MSEGuidByte B1, MSEGuidByte B6, MSEGuidByte B5, MSEGuidByte B2,
      MSEGuidByte B0, MSEGuidByte B3, MSEGuidByte B4, MSEGuidByte B7, MSEEnd]"

definition MoveSetSwimBackSpeed :: "mse list" where
  "MoveSetSwimBackSpeed = [
      MSECounter, MSEExtraElement, MSEHasGuidByte B2, MSEHasGuidByte B0, MSEHasGuidByte B3,
      MSEHasGuidByte B5, MSEHasGuidByte B4, MSEHasGuidByte B7, MSEHasGuidByte B1,
      MSEHasGuidByte B6, MSEGuidByte B3, MSEGuidByte B4, MSEGuidByte B0, MSEGuidByte B5,
      MSEGuidByte B6, MSEGuidByte B2, MSEGuidByte B1, MSEGuidByte B7, MSEEnd]"

definition MoveSetTurnRate :: "mse list" where
  "MoveSetTurnRate = [
      MSEHasGuidByte B0, MSEHasGuidByte B1, MSEHasGuidByte B4, MSEHasGuidByte B3,
      MSEHasGuidByte B5, MSEHasGuidByte B2, MSEHasGuidByte B7, MSEHasGuidByte B6,
      MSEGuidByte B6, MSEExtraElement, MSEGuidByte B5, MSEGuidByte B7, MSEGuidByte B2,
      MSEGuidByte B3, MSECounter, MSEGuidByte B0, MSEGuidByte B1, MSEGuidByte B4, MSEEnd]"

definition MoveSetFlightSpeed :: "mse list" where
  "MoveSetFlightSpeed = [
      MSEHasGuidByte B2, MSEHasGuidByte B1, MSEHasGuidByte B6, MSEHasGuidByte B5,
      MSEHasGuidByte B7, MSEHasGuidByte B3, MSEHasGuidByte B0, MSEHasGuidByte B4,
      MSEGuidByte B7, MSEGuidByte B4, MSEGuidByte B3, MSECounter, MSEGuidByte B5,
      MSEExtraElement, MSEGuidByte B6, MSEGuidByte B2, MSEGuidByte B0, MSEGuidByte B1, MSEEnd]"

definition MoveSetFlightBackSpeed :: "mse list" where
  "MoveSetFlightBackSpeed = [
      MSEHasGuidByte B3, MSEHasGuidByte B5, MSEHasGuidByte B4, MSEHasGuidByte B0,
      MSEHasGuidByte B6, MSEHasGuidByte B2, MSEHasGuidByte B1, MSEHasGuidByte B7,
      MSEGuidByte B4, MSEExtraElement, MSEGuidByte B0, MSECounter, MSEGuidByte B2,
      MSEGuidByte B3, MSEGuidByte B1, MSEGuidByte B6, MSEGuidByte B5, MSEGuidByte B7, MSEEnd]"

definition MoveSetPitchRate :: "mse list" where
  "MoveSetPitchRate = [
      MSEHasGuidByte B3, MSEHasGuidByte B5, MSEHasGuidByte B2, MSEHasGuidByte B1,
      MSEHasGuidByte B6, MSEHasGuidByte B0, MSEHasGuidByte B7, MSEHasGuidByte B4,
      MSEGuidByte B6, MSEGuidByte B4, MSEGuidByte B5, MSEGuidByte B7, MSEGuidByte B1,
      MSEExtraElement, MSECounter, MSEGuidByte B2, MSEGuidByte B3, MSEGuidByte B0, MSEEnd]"

definition SplineMoveSetWalkMode :: "mse list" where
  "SplineMoveSetWalkMode = [
      MSEHasGuidByte B0, MSEHasGuidByte B2, MSEHasGuidByte B4, MSEHasGuidByte B3,
      MSEHasGuidByte B7, MSEHasGuidByte B5, MSEHasGuidByte B1, MSEHasGuidByte B2,
      MSEGuidByte B5, MSEGuidByte B3, MSEGuidByte B7, MSEGuidByte B1, MSEGuidByte B4,
      MSEGuidByte B0, MSEGuidByte B6, MSEGuidByte B2, MSEEnd]"

definition SplineMoveSetRunMode :: "mse list" where
  "SplineMoveSetRunMode = [
      MSEHasGuidByte B0, MSEHasGuidByte B5, MSEHasGuidByte B4, MSEHasGuidByte B3,
      MSEHasGuidByte B7, MSEHasGuidByte B1, MSEHasGuidByte B6, MSEHasGuidByte B2,
      MSEGuidByte B3, MSEGuidByte B7, MSEGuidByte B2, MSEGuidByte B0, MSEGuidByte B6,
      MSEGuidByte B5, MSEGuidByte B1, MSEGuidByte B4, MSEEnd]"

definition SplineMoveSetHover :: "mse list" where
  "SplineMoveSetHover = [
      MSEHasGuidByte B5, MSEHasGuidByte B6, MSEHasGuidByte B2, MSEHasGuidByte B7,
      MSEHasGuidByte B4, MSEHasGuidByte B1, MSEHasGuidByte B0, MSEHasGuidByte B3,
      MSEGuidByte B3, MSEGuidByte B4, MSEGuidByte B0, MSEGuidByte B2, MSEGuidByte B1,
      MSEGuidByte B7, MSEGuidByte B6, MSEGuidByte B5, MSEEnd]"

definition SplineMoveUnsetHover :: "mse list" where
  "SplineMoveUnsetHover = [
      MSEHasGuidByte B0, MSEHasGuidByte B2, MSEHasGuidByte B7, MSEHasGuidByte B3,
      MSEHasGuidByte B5, MSEHasGuidByte B6, MSEHasGuidByte B1, MSEHasGuidByte B4,
      MSEGuidByte B2, MSEGuidByte B5, MSEGuidByte B0, MSEGuidByte B6, MSEGuidByte B3,
      MSEGuidByte B7, MSEGuidByte B1, MSEGuidByte B4, MSEEnd]"

definition SplineMoveSetFlying :: "mse list" where
  "SplineMoveSetFlying = [
      MSEHasGuidByte B4, MSEHasGuidByte B2, MSEHasGuidByte B5, MSEHasGuidByte B6,
      MSEHasGuidByte B0, MSEHasGuidByte B3, MSEHasGuidByte B1, MSEHasGuidByte B7,
      MSEGuidByte B6, MSEGuidByte B5, MSEGuidByte B2, MSEGuidByte B3, MSEGuidByte B7,
      MSEGuidByte B0, MSEGuidByte B4, MSEGuidByte B1, MSEEnd]"

definition SplineMoveUnsetFlying :: "mse list" where
  "SplineMoveUnsetFlying = [
      MSEHasGuidByte B5, MSEHasGuidByte B3, MSEHasGuidByte B4, MSEHasGuidByte B0,
      MSEHasGuidByte B2, MSEHasGuidByte B6, MSEHasGuidByte B1, MSEHasGuidByte B7,
      MSEGuidByte B5, MSEGuidByte B4, MSEGuidByte B3, MSEGuidByte B1, MSEGuidByte B7,
      MSEGuidByte B0, MSEGuidByte B2, MSEGuidByte B6, MSEEnd]"

definition SplineMoveSetWaterWalk :: "mse list" where
  "SplineMoveSetWaterWalk = [
      MSEHasGuidByte B5, MSEHasGuidByte B1, MSEHasGuidByte B3, MSEHasGuidByte B0,
      MSEHasGuidByte B4, MSEHasGuidByte B6, MSEHasGuidByte B7, MSEHasGuidByte B2,
      MSEGuidByte B3, MSEGuidByte B7, MSEGuidByte B1, MSEGuidByte B4, MSEGuidByte B5,
      MSEGuidByte B2, MSEGuidByte B0, MSEGuidByte B6, MSEEnd]"

definition SplineMoveSetLandWalk :: "mse list" where
  "SplineMoveSetLandWalk = [
      MSEHasGuidByte B6, MSEHasGuidByte B3, MSEHasGuidByte B4, MSEHasGuidByte B0,
      MSEHasGuidByte B5, MSEHasGuidByte B1, MSEHasGuidByte B7, MSEHasGuidByte B2,
      MSEGuidByte B6, MSEGuidByte B0, MSEGuidByte B4, MSEGuidByte B7, MSEGuidByte B2,
      MSEGuidByte B3, MSEGuidByte B1, MSEGuidByte B5, MSEEnd]"

definition SplineMoveSetFeatherFall :: "mse list" where
  "SplineMoveSetFeatherFall = [
      MSEHasGuidByte B6, MSEHasGuidByte B7, MSEHasGuidByte B0, MSEHasGuidByte B2,
      MSEHasGuidByte B3, MSEHasGuidByte B1, MSEHasGuidByte B5, MSEHasGuidByte B4,
      MSEGuidByte B2, MSEGuidByte B5, MSEGuidByte B6, MSEGuidByte B4, MSEGuidByte B3,
      MSEGuidByte B0, MSEGuidByte B1, MSEGuidByte B7, MSEEnd]"

definition SplineMoveSetNormalFall :: "mse list" where
  "SplineMoveSetNormalFall = [
      MSEHasGuidByte B4, MSEHasGuidByte B0, MSEHasGuidByte B1, MSEHasGuidByte B3,
      MSEHasGuidByte B2, MSEHasGuidByte B5, MSEHasGuidByte B6, MSEHasGuidByte B7,
      MSEGuidByte B3, MSEGuidByte B1, MSEGuidByte B4, MSEGuidByte B2, MSEGuidByte B7,
      MSEGuidByte B6, MSEGuidByte B5, MSEGuidByte B0, MSEEnd]"

definition SplineMoveRoot :: "mse list" where
  "SplineMoveRoot = [
      MSEHasGuidByte B4, MSEHasGuidByte B3, MSEHasGuidByte B5, MSEHasGuidByte B6,
      MSEHasGuidByte B2, MSEHasGuidByte B1, MSEHasGuidByte B0, MSEHasGuidByte B7,
      MSEGuidByte B2, MSEGuidByte B0, MSEGuidByte B3, MSEGuidByte B7, MSEGuidByte B4,
      MSEGuidByte B1, MSEGuidByte B5, MSEGuidByte B6, MSEEnd]"

definition SplineMoveUnroot :: "mse list" where
  "SplineMoveUnroot = [
      MSEHasGuidByte B7, MSEHasGuidByte B4, MSEHasGuidByte B6, MSEHasGuidByte B2,
      MSEHasGuidByte B0, MSEHasGuidByte B1, MSEHasGuidByte B3, MSEHasGuidByte B5,
      MSEGuidByte B4, MSEGuidByte B2, MSEGuidByte B6, MSEGuidByte B0, MSEGuidByte B5,
      MSEGuidByte B3, MSEGuidByte B7, MSEGuidByte B1, MSEEnd]"

definition MoveSetCanFly :: "mse list" where
  "MoveSetCanFly = [
      MSEHasGuidByte B4, MSEHasGuidByte B2, MSEHasGuidByte B3, MSEHasGuidByte B0,
      MSEHasGuidByte B5, MSEHasGuidByte B1, MSEHasGuidByte B7, MSEHasGuidByte B6,
      MSEGuidByte B0, MSEGuidByte B5, MSECounter, MSEGuidByte B2, MSEGuidByte B1,
      MSEGuidByte B6, MSEGuidByte B3, MSEGuidByte B4, MSEGuidByte B7, MSEEnd]"

definition MoveUnsetCanFly :: "mse list" where
  "MoveUnsetCanFly = [
      MSEHasGuidByte B5, MSEHasGuidByte B3, MSEHasGuidByte B2, MSEHasGuidByte B4,
      MSEHasGuidByte B7, MSEHasGuidByte B1, MSEHasGuidByte B0, MSEHasGuidByte B6,
      MSEGuidByte B4, MSEGuidByte B5, MSECounter, MSEGuidByte B1, MSEGuidByte B3,
      MSEGuidByte B7, MSEGuidByte B2, MSEGuidByte B6, MSEGuidByte B0, MSEEnd]"

definition MoveSetHover :: "mse list" where
  "MoveSetHover = [
      MSEHasGuidByte B1, MSEHasGuidByte B3, MSEHasGuidByte B0, MSEHasGuidByte B5,
      MSEHasGuidByte B7, MSEHasGuidByte B4, MSEHasGuidByte B6, MSEHasGuidByte B2, MSECounter,
      MSEGuidByte B5, MSEGuidByte B1, MSEGuidByte B6, MSEGuidByte B3, MSEGuidByte B4,
      MSEGuidByte B7, MSEGuidByte B0, MSEGuidByte B2, MSEEnd]"

definition MoveUnsetHover :: "mse list" where
  "MoveUnsetHover = [
      MSEHasGuidByte B5, MSEHasGuidByte B3, MSEHasGuidByte B7, MSEHasGuidByte B0,
      MSEHasGuidByte B6, MSEHasGuidByte B4, MSEHasGuidByte B1, MSEHasGuidByte B2,
      MSEGuidByte B2, MSEGuidByte B7, MSEGuidByte B3, MSECounter, MSEGuidByte B0,
      MSEGuidByte B4, MSEGuidByte B6, MSEGuidByte B1, MSEGuidByte B5, MSEEnd]"

definition MoveWaterWalk :: "mse list" where
  "MoveWaterWalk = [
      MSEHasGuidByte B2, MSEHasGuidByte B3, MSEHasGuidByte B7, MSEHasGuidByte B6,
      MSEHasGuidByte B4, MSEHasGuidByte B1, MSEHasGuidByte B5, MSEHasGuidByte B0,
      MSEGuidByte B2, MSEGuidByte B6, MSEGuidByte B0, MSEGuidByte B7, MSEGuidByte B5,
      MSEGuidByte B3, MSEGuidByte B4, MSECounter, MSEGuidByte B1, MSEEnd]"

definition MoveLandWalk :: "mse list" where
  "MoveLandWalk = [
      MSEHasGuidByte B7, MSEHasGuidByte B5, MSEHasGuidByte B1, MSEHasGuidByte B3,
      MSEHasGuidByte B2, MSEHasGuidByte B0, MSEHasGuidByte B6, MSEHasGuidByte B4,
      MSEGuidByte B6, MSEGuidByte B5, MSEGuidByte B1, MSEGuidByte B0, MSEGuidByte B7,
      MSEGuidByte B3, MSEGuidByte B2, MSEGuidByte B4, MSECounter, MSEEnd]"

definition MoveFeatherFall :: "mse list" where
  "MoveFeatherFall = [
      MSECounter, MSEHasGuidByte B0, MSEHasGuidByte B5, MSEHasGuidByte B3, MSEHasGuidByte B4,
      MSEHasGuidByte B1, MSEHasGuidByte B7, MSEHasGuidByte B6, MSEHasGuidByte B2,
      MSEGuidByte B2, MSEGuidByte B5, MSEGuidByte B4, MSEGuidByte B0, MSEGuidByte B1,
      MSEGuidByte B6, MSEGuidByte B3, MSEGuidByte B7, MSEEnd]"

definition MoveNormalFall :: "mse list" where
  "MoveNormalFall = [
      MSEHasGuidByte B7, MSEHasGuidByte B4, MSEHasGuidByte B2, MSEHasGuidByte B0,
      MSEHasGuidByte B3, MSEHasGuidByte B5, MSEHasGuidByte B1, MSEHasGuidByte B6,
      MSEGuidByte B4, MSEGuidByte B0, MSECounter, MSEGuidByte B2, MSEGuidByte B1,
      MSEGuidByte B5, MSEGuidByte B7, MSEGuidByte B3, MSEGuidByte B6, MSEEnd]"

definition MoveRoot :: "mse list" where
  "MoveRoot = [
      MSEHasGuidByte B5, MSEHasGuidByte B3, MSEHasGuidByte B6, MSEHasGuidByte B0,
      MSEHasGuidByte B1, MSEHasGuidByte B4, MSEHasGuidByte B2, MSEHasGuidByte B7,
      MSEGuidByte B1, MSEGuidByte B2, MSEGuidByte B6, MSEGuidByte B4, MSEGuidByte B3,
      MSEGuidByte B5, MSECounter, MSEGuidByte B7, MSEGuidByte B0, MSEEnd]"

definition MoveUnroot :: "mse list" where
  "MoveUnroot = [
      MSEHasGuidByte B0, MSEHasGuidByte B6, MSEHasGuidByte B4, MSEHasGuidByte B1,
      MSEHasGuidByte B2, MSEHasGuidByte B3, MSEHasGuidByte B7, MSEHasGuidByte B5,
      MSEGuidByte B1, MSEGuidByte B0, MSEGuidByte B3, MSEGuidByte B6, MSEGuidByte B4,
      MSECounter, MSEGuidByte B5, MSEGuidByte B7, MSEGuidByte B2, MSEEnd]"

section \<open>Opcodes\<close>

definition CMSG_MOVE_FALL_LAND :: u16 where
  "CMSG_MOVE_FALL_LAND = 0x055B"

definition CMSG_MOVE_HEARTBEAT :: u16 where
  "CMSG_MOVE_HEARTBEAT = 0x017B"

definition CMSG_MOVE_JUMP :: u16 where
  "CMSG_MOVE_JUMP = 0x0438"

definition CMSG_MOVE_SET_FACING :: u16 where
  "CMSG_MOVE_SET_FACING = 0x005A"

definition CMSG_MOVE_SET_PITCH :: u16 where
  "CMSG_MOVE_SET_PITCH = 0x047A"

definition CMSG_MOVE_START_ASCEND :: u16 where
  "CMSG_MOVE_START_ASCEND = 0x0430"

definition CMSG_MOVE_START_BACKWARD :: u16 where
  "CMSG_MOVE_START_BACKWARD = 0x0459"

definition CMSG_MOVE_START_DESCEND :: u16 where
  "CMSG_MOVE_START_DESCEND = 0x0132"

definition CMSG_MOVE_START_FORWARD :: u16 where
  "CMSG_MOVE_START_FORWARD = 0x041B"

definition CMSG_MOVE_START_PITCH_DOWN :: u16 where
  "CMSG_MOVE_START_PITCH_DOWN = 0x093B"

definition CMSG_MOVE_START_PITCH_UP :: u16 where
  "CMSG_MOVE_START_PITCH_UP = 0x0079"

definition CMSG_MOVE_START_STRAFE_LEFT :: u16 where
  "CMSG_MOVE_START_STRAFE_LEFT = 0x0873"

definition CMSG_MOVE_START_STRAFE_RIGHT :: u16 where
  "CMSG_MOVE_START_STRAFE_RIGHT = 0x0C12"

definition CMSG_MOVE_START_SWIM :: u16 where
  "CMSG_MOVE_START_SWIM = 0x0871"

definition CMSG_MOVE_START_TURN_LEFT :: u16 where
  "CMSG_MOVE_START_TURN_LEFT = 0x011B"

definition CMSG_MOVE_START_TURN_RIGHT :: u16 where
  "CMSG_MOVE_START_TURN_RIGHT = 0x0411"

definition CMSG_MOVE_STOP :: u16 where
  "CMSG_MOVE_STOP = 0x0570"

definition CMSG_MOVE_STOP_ASCEND :: u16 where
  "CMSG_MOVE_STOP_ASCEND = 0x0012"

definition CMSG_MOVE_STOP_PITCH :: u16 where
  "CMSG_MOVE_STOP_PITCH = 0x0071"

definition CMSG_MOVE_STOP_STRAFE :: u16 where
  "CMSG_MOVE_STOP_STRAFE = 0x0171"

definition CMSG_MOVE_STOP_SWIM :: u16 where
  "CMSG_MOVE_STOP_SWIM = 0x0578"

definition CMSG_MOVE_STOP_TURN :: u16 where
  "CMSG_MOVE_STOP_TURN = 0x0530"

definition SMSG_MOVE_UPDATE :: u16 where
  "SMSG_MOVE_UPDATE = 0x1CB2"

definition CMSG_MOVE_CHNG_TRANSPORT :: u16 where
  "CMSG_MOVE_CHNG_TRANSPORT = 0x52"

definition CMSG_DISMISS_CONTROLLED_VEHICLE :: u16 where
  "CMSG_DISMISS_CONTROLLED_VEHICLE = 0x979"

definition CMSG_FORCE_MOVE_ROOT_ACK :: u16 where
  "CMSG_FORCE_MOVE_ROOT_ACK = 0x118"

definition CMSG_FORCE_MOVE_UNROOT_ACK :: u16 where
  "CMSG_FORCE_MOVE_UNROOT_ACK = 0x458"

definition CMSG_MOVE_KNOCK_BACK_ACK :: u16 where
  "CMSG_MOVE_KNOCK_BACK_ACK = 0x53A"

definition CMSG_MOVE_SET_CAN_FLY_ACK :: u16 where
  "CMSG_MOVE_SET_CAN_FLY_ACK = 0x952"

definition CMSG_MOVE_SET_COLLISION_HEIGHT_ACK :: u16 where
  "CMSG_MOVE_SET_COLLISION_HEIGHT_ACK = 0x31"

definition SMSG_MOVE_UPDATE_KNOCK_BACK :: u16 where
  "SMSG_MOVE_UPDATE_KNOCK_BACK = 0x18A3"

definition SMSG_SPLINE_MOVE_SET_WALK_SPEED :: u16 where
  "SMSG_SPLINE_MOVE_SET_WALK_SPEED = 0x155"

definition SMSG_SPLINE_MOVE_SET_RUN_SPEED :: u16 where
  "SMSG_SPLINE_MOVE_SET_RUN_SPEED = 0x1A90"

definition SMSG_SPLINE_MOVE_SET_RUN_BACK_SPEED :: u16 where
  "SMSG_SPLINE_MOVE_SET_RUN_BACK_SPEED = 0x9B8"

definition SMSG_SPLINE_MOVE_SET_SWIM_SPEED :: u16 where
  "SMSG_SPLINE_MOVE_SET_SWIM_SPEED = 0x254"

definition SMSG_SPLINE_MOVE_SET_SWIM_BACK_SPEED :: u16 where
  "SMSG_SPLINE_MOVE_SET_SWIM_BACK_SPEED = 0x1393"

definition SMSG_SPLINE_MOVE_SET_TURN_RATE :: u16 where
  "SMSG_SPLINE_MOVE_SET_TURN_RATE = 0xDAB"

definition SMSG_SPLINE_MOVE_SET_FLIGHT_SPEED :: u16 where
  "SMSG_SPLINE_MOVE_SET_FLIGHT_SPEED = 0x1AD3"

definition SMSG_SPLINE_MOVE_SET_FLIGHT_BACK_SPEED :: u16 where
  "SMSG_SPLINE_MOVE_SET_FLIGHT_BACK_SPEED = 0x1AA"

definition SMSG_SPLINE_MOVE_SET_PITCH_RATE :: u16 where
  "SMSG_SPLINE_MOVE_SET_PITCH_RATE = 0x175"

definition SMSG_MOVE_SET_WALK_SPEED :: u16 where
  "SMSG_MOVE_SET_WALK_SPEED = 0x00A0"

definition SMSG_MOVE_SET_RUN_SPEED :: u16 where
  "SMSG_MOVE_SET_RUN_SPEED = 0x1B9B"

definition SMSG_MOVE_SET_RUN_BACK_SPEED :: u16 where
  "SMSG_MOVE_SET_RUN_BACK_SPEED = 0xD93"

definition SMSG_MOVE_SET_SWIM_SPEED :: u16 where
  "SMSG_MOVE_SET_SWIM_SPEED = 0x01D4"

definition SMSG_MOVE_SET_SWIM_BACK_SPEED :: u16 where
  "SMSG_MOVE_SET_SWIM_BACK_SPEED = 0x15D"

definition SMSG_MOVE_SET_TURN_RATE :: u16 where
  "SMSG_MOVE_SET_TURN_RATE = 0x1DB0"

definition SMSG_MOVE_SET_FLIGHT_SPEED :: u16 where
  "SMSG_MOVE_SET_FLIGHT_SPEED = 0x02DC"

definition SMSG_MOVE_SET_FLIGHT_BACK_SPEED :: u16 where
  "SMSG_MOVE_SET_FLIGHT_BACK_SPEED = 0x13D2"

definition SMSG_MOVE_SET_PITCH_RATE :: u16 where
  "SMSG_MOVE_SET_PITCH_RATE = 0x138B"

definition SMSG_SPLINE_MOVE_SET_WALK_MODE :: u16 where
  "SMSG_SPLINE_MOVE_SET_WALK_MODE = 0x1FE"

definition SMSG_SPLINE_MOVE_SET_RUN_MODE :: u16 where
  "SMSG_SPLINE_MOVE_SET_RUN_MODE = 0x1CB9"

definition SMSG_SPLINE_MOVE_SET_HOVER :: u16 where
  "SMSG_SPLINE_MOVE_SET_HOVER = 0x1C10"

definition SMSG_SPLINE_MOVE_UNSET_HOVER :: u16 where
  "SMSG_SPLINE_MOVE_UNSET_HOVER = 0x76"

definition CMSG_MOVE_SET_FLY :: u16 where
  "CMSG_MOVE_SET_FLY = 0x551"

definition SMSG_SPLINE_MOVE_SET_FLYING :: u16 where
  "SMSG_SPLINE_MOVE_SET_FLYING = 0x1A83"

definition SMSG_SPLINE_MOVE_UNSET_FLYING :: u16 where
  "SMSG_SPLINE_MOVE_UNSET_FLYING = 0x1798"

definition SMSG_SPLINE_MOVE_SET_WATER_WALK :: u16 where
  "SMSG_SPLINE_MOVE_SET_WATER_WALK = 0xDB3"

definition SMSG_SPLINE_MOVE_SET_LAND_WALK :: u16 where
  "SMSG_SPLINE_MOVE_SET_LAND_WALK = 0x17C1"

definition SMSG_SPLINE_MOVE_SET_FEATHER_FALL :: u16 where
  "SMSG_SPLINE_MOVE_SET_FEATHER_FALL = 0x1032"

definition SMSG_SPLINE_MOVE_SET_NORMAL_FALL :: u16 where
  "SMSG_SPLINE_MOVE_SET_NORMAL_FALL = 0x998"

definition SMSG_SPLINE_MOVE_ROOT :: u16 where
  "SMSG_SPLINE_MOVE_ROOT = 0x1EC3"

definition SMSG_SPLINE_MOVE_UNROOT :: u16 where
  "SMSG_SPLINE_MOVE_UNROOT = 0x1698"

definition SMSG_MOVE_SET_CAN_FLY :: u16 where
  "SMSG_MOVE_SET_CAN_FLY = 0x01F4"

definition SMSG_MOVE_UNSET_CAN_FLY :: u16 where
  "SMSG_MOVE_UNSET_CAN_FLY = 0x1D81"

definition SMSG_MOVE_SET_HOVER :: u16 where
  "SMSG_MOVE_SET_HOVER = 0x1D50"

definition SMSG_MOVE_UNSET_HOVER :: u16 where
  "SMSG_MOVE_UNSET_HOVER = 0x1AC0"

definition SMSG_MOVE_WATER_WALK :: u16 where
  "SMSG_MOVE_WATER_WALK = 0x1290"

definition SMSG_MOVE_LAND_WALK :: u16 where
  "SMSG_MOVE_LAND_WALK = 0x1E9B"

definition SMSG_MOVE_FEATHER_FALL :: u16 where
  "SMSG_MOVE_FEATHER_FALL = 0x16D2"

definition SMSG_MOVE_NORMAL_FALL :: u16 where
  "SMSG_MOVE_NORMAL_FALL = 0xD89"

definition SMSG_MOVE_ROOT :: u16 where
  "SMSG_MOVE_ROOT = 0x198B"

definition SMSG_MOVE_UNROOT :: u16 where
  "SMSG_MOVE_UNROOT = 0x1D8A"

definition GetMovementStatusElementsSequence :: "u16 \<Rightarrow> mse list option" where
  "GetMovementStatusElementsSequence opcode =
     (if opcode = CMSG_MOVE_FALL_LAND then Some MovementFallLand
      else if opcode = CMSG_MOVE_HEARTBEAT then Some MovementHeartBeat
      else if opcode = CMSG_MOVE_JUMP then Some MovementJump
      else if opcode = CMSG_MOVE_SET_FACING then Some MovementSetFacing
      else if opcode = CMSG_MOVE_SET_PITCH then Some MovementSetPitch
      else if opcode = CMSG_MOVE_START_ASCEND then Some MovementStartAscend
      else if opcode = CMSG_MOVE_START_BACKWARD then Some MovementStartBackward
      else if opcode = CMSG_MOVE_START_DESCEND then Some MovementStartDescend
      else if opcode = CMSG_MOVE_START_FORWARD then Some MovementStartForward
      else if opcode = CMSG_MOVE_START_PITCH_DOWN then Some MovementStartPitchDown
      else if opcode = CMSG_MOVE_START_PITCH_UP then Some MovementStartPitchUp
      else if opcode = CMSG_MOVE_START_STRAFE_LEFT then Some MovementStartStrafeLeft
      else if opcode = CMSG_MOVE_START_STRAFE_RIGHT then Some MovementStartStrafeRight
      else if opcode = CMSG_MOVE_START_SWIM then Some MovementStartSwim
      else if opcode = CMSG_MOVE_START_TURN_LEFT then Some MovementStartTurnLeft
      else if opcode = CMSG_MOVE_START_TURN_RIGHT then Some MovementStartTurnRight
      else if opcode = CMSG_MOVE_STOP then Some MovementStop
      else if opcode = CMSG_MOVE_STOP_ASCEND then Some MovementStopAscend
      else if opcode = CMSG_MOVE_STOP_PITCH then Some MovementStopPitch
      else if opcode = CMSG_MOVE_STOP_STRAFE then Some MovementStopStrafe
      else if opcode = CMSG_MOVE_STOP_SWIM then Some MovementStopSwim
      else if opcode = CMSG_MOVE_STOP_TURN then Some MovementStopTurn
      else if opcode = SMSG_MOVE_UPDATE then Some PlayerMove
      else if opcode = CMSG_MOVE_CHNG_TRANSPORT then Some MoveChngTransport
      else if opcode = CMSG_DISMISS_CONTROLLED_VEHICLE then Some DismissControlledVehicle
      else if opcode = CMSG_FORCE_MOVE_ROOT_ACK then Some ForceMoveRootAck
      else if opcode = CMSG_FORCE_MOVE_UNROOT_ACK then Some ForceMoveUnrootAck
      else if opcode = CMSG_MOVE_KNOCK_BACK_ACK then Some MovementKnockBackAck
      else if opcode = CMSG_MOVE_SET_CAN_FLY_ACK then Some MovementSetCanFlyAck
      else if opcode = CMSG_MOVE_SET_COLLISION_HEIGHT_ACK then Some MovementSetCollisionHeightAck
      else if opcode = SMSG_MOVE_UPDATE_KNOCK_BACK then Some MovementUpdateKnockBack
      else if opcode = SMSG_SPLINE_MOVE_SET_WALK_SPEED then Some SplineMoveSetWalkSpeed
      else if opcode = SMSG_SPLINE_MOVE_SET_RUN_SPEED then Some SplineMoveSetRunSpeed
      else if opcode = SMSG_SPLINE_MOVE_SET_RUN_BACK_SPEED then Some SplineMoveSetRunBackSpeed
      else if opcode = SMSG_SPLINE_MOVE_SET_SWIM_SPEED then Some SplineMoveSetSwimSpeed
      else if opcode = SMSG_SPLINE_MOVE_SET_SWIM_BACK_SPEED then Some SplineMoveSetSwimBackSpeed
      else if opcode = SMSG_SPLINE_MOVE_SET_TURN_RATE then Some SplineMoveSetTurnRate
      else if opcode = SMSG_SPLINE_MOVE_SET_FLIGHT_SPEED then Some SplineMoveSetFlightSpeed
      else if opcode = SMSG_SPLINE_MOVE_SET_FLIGHT_BACK_SPEED then Some SplineMoveSetFlightBackSpeed
      else if opcode = SMSG_SPLINE_MOVE_SET_PITCH_RATE then Some SplineMoveSetPitchRate
      else if opcode = SMSG_MOVE_SET_WALK_SPEED then Some MoveSetWalkSpeed
      else if opcode = SMSG_MOVE_SET_RUN_SPEED then Some MoveSetRunSpeed
      else if opcode = SMSG_MOVE_SET_RUN_BACK_SPEED then Some MoveSetRunBackSpeed
      else if opcode = SMSG_MOVE_SET_SWIM_SPEED then Some MoveSetSwimSpeed
      else if opcode = SMSG_MOVE_SET_SWIM_BACK_SPEED then Some MoveSetSwimBackSpeed
      else if opcode = SMSG_MOVE_SET_TURN_RATE then Some MoveSetTurnRate
      else if opcode = SMSG_MOVE_SET_FLIGHT_SPEED then Some MoveSetFlightSpeed
      else if opcode = SMSG_MOVE_SET_FLIGHT_BACK_SPEED then Some MoveSetFlightBackSpeed
      else if opcode = SMSG_MOVE_SET_PITCH_RATE then Some MoveSetPitchRate
      else if opcode = SMSG_SPLINE_MOVE_SET_WALK_MODE then Some SplineMoveSetWalkMode
      else if opcode = SMSG_SPLINE_MOVE_SET_RUN_MODE then Some SplineMoveSetRunMode
      else if opcode = SMSG_SPLINE_MOVE_SET_HOVER then Some SplineMoveSetHover
      else if opcode = SMSG_SPLINE_MOVE_UNSET_HOVER then Some SplineMoveUnsetHover
      else if opcode = CMSG_MOVE_SET_FLY then Some SetCanFly
      else if opcode = SMSG_SPLINE_MOVE_SET_FLYING then Some SplineMoveSetFlying
      else if opcode = SMSG_SPLINE_MOVE_UNSET_FLYING then Some SplineMoveUnsetFlying
      else if opcode = SMSG_SPLINE_MOVE_SET_WATER_WALK then Some SplineMoveSetWaterWalk
      else if opcode = SMSG_SPLINE_MOVE_SET_LAND_WALK then Some SplineMoveSetLandWalk
      else if opcode = SMSG_SPLINE_MOVE_SET_FEATHER_FALL then Some SplineMoveSetFeatherFall
      else if opcode = SMSG_SPLINE_MOVE_SET_NORMAL_FALL then Some SplineMoveSetNormalFall
      else if opcode = SMSG_SPLINE_MOVE_ROOT then Some SplineMoveRoot
      else if opcode = SMSG_SPLINE_MOVE_UNROOT then Some SplineMoveUnroot
      else if opcode = SMSG_MOVE_SET_CAN_FLY then Some MoveSetCanFly
      else if opcode = SMSG_MOVE_UNSET_CAN_FLY then Some MoveUnsetCanFly
      else if opcode = SMSG_MOVE_SET_HOVER then Some MoveSetHover
      else if opcode = SMSG_MOVE_UNSET_HOVER then Some MoveUnsetHover
      else if opcode = SMSG_MOVE_WATER_WALK then Some MoveWaterWalk
      else if opcode = SMSG_MOVE_LAND_WALK then Some MoveLandWalk
      else if opcode = SMSG_MOVE_FEATHER_FALL then Some MoveFeatherFall
      else if opcode = SMSG_MOVE_NORMAL_FALL then Some MoveNormalFall
      else if opcode = SMSG_MOVE_ROOT then Some MoveRoot
      else if opcode = SMSG_MOVE_UNROOT then Some MoveUnroot
      else None)"

lemmas opcode_defs =
  CMSG_MOVE_FALL_LAND_def CMSG_MOVE_HEARTBEAT_def CMSG_MOVE_JUMP_def
  CMSG_MOVE_SET_FACING_def CMSG_MOVE_SET_PITCH_def CMSG_MOVE_START_ASCEND_def
  CMSG_MOVE_START_BACKWARD_def CMSG_MOVE_START_DESCEND_def CMSG_MOVE_START_FORWARD_def
  CMSG_MOVE_START_PITCH_DOWN_def CMSG_MOVE_START_PITCH_UP_def
  CMSG_MOVE_START_STRAFE_LEFT_def CMSG_MOVE_START_STRAFE_RIGHT_def CMSG_MOVE_START_SWIM_def
  CMSG_MOVE_START_TURN_LEFT_def CMSG_MOVE_START_TURN_RIGHT_def CMSG_MOVE_STOP_def
  CMSG_MOVE_STOP_ASCEND_def CMSG_MOVE_STOP_PITCH_def CMSG_MOVE_STOP_STRAFE_def
  CMSG_MOVE_STOP_SWIM_def CMSG_MOVE_STOP_TURN_def SMSG_MOVE_UPDATE_def
  CMSG_MOVE_CHNG_TRANSPORT_def CMSG_DISMISS_CONTROLLED_VEHICLE_def
  CMSG_FORCE_MOVE_ROOT_ACK_def CMSG_FORCE_MOVE_UNROOT_ACK_def CMSG_MOVE_KNOCK_BACK_ACK_def
  CMSG_MOVE_SET_CAN_FLY_ACK_def CMSG_MOVE_SET_COLLISION_HEIGHT_ACK_def
  SMSG_MOVE_UPDATE_KNOCK_BACK_def SMSG_SPLINE_MOVE_SET_WALK_SPEED_def
  SMSG_SPLINE_MOVE_SET_RUN_SPEED_def SMSG_SPLINE_MOVE_SET_RUN_BACK_SPEED_def
  SMSG_SPLINE_MOVE_SET_SWIM_SPEED_def SMSG_SPLINE_MOVE_SET_SWIM_BACK_SPEED_def
  SMSG_SPLINE_MOVE_SET_TURN_RATE_def SMSG_SPLINE_MOVE_SET_FLIGHT_SPEED_def
  SMSG_SPLINE_MOVE_SET_FLIGHT_BACK_SPEED_def SMSG_SPLINE_MOVE_SET_PITCH_RATE_def
  SMSG_MOVE_SET_WALK_SPEED_def SMSG_MOVE_SET_RUN_SPEED_def SMSG_MOVE_SET_RUN_BACK_SPEED_def
  SMSG_MOVE_SET_SWIM_SPEED_def SMSG_MOVE_SET_SWIM_BACK_SPEED_def SMSG_MOVE_SET_TURN_RATE_def
  SMSG_MOVE_SET_FLIGHT_SPEED_def SMSG_MOVE_SET_FLIGHT_BACK_SPEED_def
  SMSG_MOVE_SET_PITCH_RATE_def SMSG_SPLINE_MOVE_SET_WALK_MODE_def
  SMSG_SPLINE_MOVE_SET_RUN_MODE_def SMSG_SPLINE_MOVE_SET_HOVER_def
  SMSG_SPLINE_MOVE_UNSET_HOVER_def CMSG_MOVE_SET_FLY_def SMSG_SPLINE_MOVE_SET_FLYING_def
  SMSG_SPLINE_MOVE_UNSET_FLYING_def SMSG_SPLINE_MOVE_SET_WATER_WALK_def
  SMSG_SPLINE_MOVE_SET_LAND_WALK_def SMSG_SPLINE_MOVE_SET_FEATHER_FALL_def
  SMSG_SPLINE_MOVE_SET_NORMAL_FALL_def SMSG_SPLINE_MOVE_ROOT_def SMSG_SPLINE_MOVE_UNROOT_def
  SMSG_MOVE_SET_CAN_FLY_def SMSG_MOVE_UNSET_CAN_FLY_def SMSG_MOVE_SET_HOVER_def
  SMSG_MOVE_UNSET_HOVER_def SMSG_MOVE_WATER_WALK_def SMSG_MOVE_LAND_WALK_def
  SMSG_MOVE_FEATHER_FALL_def SMSG_MOVE_NORMAL_FALL_def SMSG_MOVE_ROOT_def
  SMSG_MOVE_UNROOT_def

lemmas sequence_defs =
  PlayerMove_def SetCanFly_def MovementFallLand_def MovementHeartBeat_def MovementJump_def
  MovementSetFacing_def MovementSetPitch_def MovementStartBackward_def
  MovementStartForward_def MovementStartStrafeLeft_def MovementStartStrafeRight_def
  MovementStartTurnLeft_def MovementStartTurnRight_def MovementStop_def
  MovementStopStrafe_def MovementStopTurn_def MovementStartAscend_def
  MovementStartDescend_def MovementStartSwim_def MovementStopSwim_def
  MovementStopAscend_def MovementStopPitch_def MovementStartPitchDown_def
  MovementStartPitchUp_def MoveChngTransport_def DismissControlledVehicle_def
  MovementSetCollisionHeightAck_def MovementSetCanFlyAck_def ForceMoveRootAck_def
  ForceMoveUnrootAck_def MovementKnockBackAck_def MovementUpdateKnockBack_def
  SplineMoveSetWalkSpeed_def SplineMoveSetRunSpeed_def SplineMoveSetRunBackSpeed_def
  SplineMoveSetSwimSpeed_def SplineMoveSetSwimBackSpeed_def SplineMoveSetTurnRate_def
  SplineMoveSetFlightSpeed_def SplineMoveSetFlightBackSpeed_def SplineMoveSetPitchRate_def
  MoveSetWalkSpeed_def MoveSetRunSpeed_def MoveSetRunBackSpeed_def MoveSetSwimSpeed_def
  MoveSetSwimBackSpeed_def MoveSetTurnRate_def MoveSetFlightSpeed_def
  MoveSetFlightBackSpeed_def MoveSetPitchRate_def SplineMoveSetWalkMode_def
  SplineMoveSetRunMode_def SplineMoveSetHover_def SplineMoveUnsetHover_def
  SplineMoveSetFlying_def SplineMoveUnsetFlying_def SplineMoveSetWaterWalk_def
  SplineMoveSetLandWalk_def SplineMoveSetFeatherFall_def SplineMoveSetNormalFall_def
  SplineMoveRoot_def SplineMoveUnroot_def MoveSetCanFly_def MoveUnsetCanFly_def
  MoveSetHover_def MoveUnsetHover_def MoveWaterWalk_def MoveLandWalk_def
  MoveFeatherFall_def MoveNormalFall_def MoveRoot_def MoveUnroot_def

end
