(* ===== verification/MovementInfo.thy ===== *)
theory MovementInfo
  imports ByteBuffer Float32 MovementTables
begin

text \<open>
  The movement protocol: \<open>MovementInfo\<close> and \<open>Position\<close>
  (\<^verbatim>\<open>src/server/game/Entities/Object/Object.h\<close>), the two table interpreters
  \<open>Unit::ReadMovementInfo\<close> and \<open>Unit::WriteMovementInfo\<close>
  (\<^verbatim>\<open>src/server/game/Entities/Unit/Unit.cpp\<close>) and \<open>ExtraMovementStatusElement\<close>
  (\<^verbatim>\<open>src/server/game/Movement/MovementStructures.cpp\<close>).

  A \<open>float\<close> is its 32-bit pattern, so the unions \<open>{pitch, HavePitch}\<close> and
  \<open>{splineElevation, HaveSplineElevation}\<close> are single words.  \<open>int8\<close> fields are bytes.
  \<open>G3D::fuzzyNe(x, 0.0f)\<close> belongs to the vendored G3D library and is the parameter \<open>fuzzyNe0\<close>.
  A null \<open>extras\<close> pointer is \<open>None\<close>.  Logging has no counterpart.
\<close>

unbundle bit_operations_syntax

section \<open>State\<close>

record position =
  m_positionX :: f32
  m_positionY :: f32
  m_positionZ :: f32
  m_orientation :: f32

record transport_info =
  t_guid :: u64
  t_pos :: position
  t_seat :: u8
  t_time :: u32
  t_time2 :: u32
  t_time3 :: u32

record jump_info =
  zspeed :: f32
  sinAngle :: f32
  cosAngle :: f32
  xyspeed :: f32

record movement_info =
  mi_guid :: u64
  mi_flags :: u32
  mi_flags2 :: u16
  mi_pos :: position
  mi_time :: u32
  mi_transport :: transport_info
  mi_pitch :: u32
  mi_fallTime :: u32
  mi_jump :: jump_info
  mi_splineElevation :: u32
  mi_Alive32 :: u32
  hasFallData :: bool
  hasFallDirection :: bool
  has_t_time2 :: bool
  has_t_time3 :: bool

definition zero_position :: position where
  "zero_position = \<lparr>m_positionX = 0, m_positionY = 0, m_positionZ = 0, m_orientation = 0\<rparr>"

text \<open>The constructor of \<open>MovementInfo\<close>; \<open>transport.Reset\<close> sets the seat to \<open>-1\<close>.\<close>

definition new_movement_info :: movement_info where
  "new_movement_info =
     \<lparr>mi_guid = 0, mi_flags = 0, mi_flags2 = 0, mi_pos = zero_position, mi_time = 0,
      mi_transport = \<lparr>t_guid = 0, t_pos = zero_position, t_seat = -1, t_time = 0, t_time2 = 0,
        t_time3 = 0\<rparr>,
      mi_pitch = 0, mi_fallTime = 0,
      mi_jump = \<lparr>zspeed = 0, sinAngle = 0, cosAngle = 0, xyspeed = 0\<rparr>,
      mi_splineElevation = 0, mi_Alive32 = 0,
      hasFallData = False, hasFallDirection = False, has_t_time2 = False, has_t_time3 = False\<rparr>"

definition HaveOrientation :: "position \<Rightarrow> bool" where
  "HaveOrientation p \<longleftrightarrow> \<not> f32_eq (m_orientation p) 0"

text \<open>\<open>6.2831864f\<close> and \<open>2.0f * static_cast<float>(M_PI)\<close>; \<open>o * -1\<close> flips the sign.\<close>

definition NormalizeOrientation :: "f32 \<Rightarrow> f32" where
  "NormalizeOrientation o' =
     (if f32_le 0 o' \<and> f32_lt o' 0x40C90FDD then o'
      else if f32_lt o' 0
      then f32_add (f32_neg (f32_fmod (f32_neg o') 0x40C90FDB)) 0x40C90FDB
      else f32_fmod o' 0x40C90FDB)"

definition SetOrientation :: "f32 \<Rightarrow> position \<Rightarrow> position" where
  "SetOrientation o' p = p\<lparr>m_orientation := NormalizeOrientation o'\<rparr>"

definition MOVEMENTFLAG_SPLINE_ELEVATION :: u32 where
  "MOVEMENTFLAG_SPLINE_ELEVATION = 0x02000000"

definition AddMovementFlag :: "u32 \<Rightarrow> movement_info \<Rightarrow> movement_info" where
  "AddMovementFlag flag mi = mi\<lparr>mi_flags := mi_flags mi OR flag\<rparr>"

record extra_element =
  x_elements :: "mse list"
  x_index :: nat
  x_guid :: u64
  x_floatData :: f32
  x_byteData :: u8

definition ResetIndex :: "extra_element \<Rightarrow> extra_element" where
  "ResetIndex x = x\<lparr>x_index := 0\<rparr>"

section \<open>ExtraMovementStatusElement\<close>

text \<open>\<open>_elements[_index++]\<close>\<close>

definition next_element :: "extra_element \<Rightarrow> bb_error + (mse \<times> extra_element)" where
  "next_element x =
     (if x_index x < length (x_elements x)
      then Inr (x_elements x ! x_index x, x\<lparr>x_index := x_index x + 1\<rparr>)
      else Inl OutOfBounds)"

definition ReadNextElement ::
  "extra_element \<Rightarrow> byte_buffer \<Rightarrow> bb_error + (extra_element \<times> byte_buffer)" where
  "ReadNextElement x packet =
     ebind (next_element x) (\<lambda>(element, x).
       case element of
         MSEHasGuidByte i \<Rightarrow>
           ebind (ReadBit packet) (\<lambda>(v, packet).
             Inr (x\<lparr>x_guid := guid_set_byte (x_guid x) (byte_no i) (of_bool v)\<rparr>, packet))
       | MSEGuidByte i \<Rightarrow>
           ebind (ReadByteSeq (guid_byte (x_guid x) (byte_no i)) packet) (\<lambda>(v, packet).
             Inr (x\<lparr>x_guid := guid_set_byte (x_guid x) (byte_no i) v\<rparr>, packet))
       | MSEExtraFloat \<Rightarrow>
           ebind (read_u32 packet) (\<lambda>(v, packet). Inr (x\<lparr>x_floatData := v\<rparr>, packet))
       | MSEExtraInt8 \<Rightarrow>
           ebind (read_u8 packet) (\<lambda>(v, packet). Inr (x\<lparr>x_byteData := v\<rparr>, packet))
       | _ \<Rightarrow> Inl AssertFailed)"

definition WriteNextElement ::
  "extra_element \<Rightarrow> byte_buffer \<Rightarrow> bb_error + (extra_element \<times> byte_buffer)" where
  "WriteNextElement x packet =
     ebind (next_element x) (\<lambda>(element, x).
       case element of
         MSEHasGuidByte i \<Rightarrow>
           ebind (WriteBit (guid_byte (x_guid x) (byte_no i) \<noteq> 0) packet) (\<lambda>packet. Inr (x, packet))
       | MSEGuidByte i \<Rightarrow>
           ebind (WriteByteSeq (guid_byte (x_guid x) (byte_no i)) packet) (\<lambda>packet. Inr (x, packet))
       | MSEExtraFloat \<Rightarrow> ebind (append_u32 (x_floatData x) packet) (\<lambda>packet. Inr (x, packet))
       | MSEExtraInt8 \<Rightarrow> ebind (append_u8 (x_byteData x) packet) (\<lambda>packet. Inr (x, packet))
       | _ \<Rightarrow> Inl AssertFailed)"

section \<open>ReadMovementInfo\<close>

text \<open>The local variables of the function, the packet and the two structures it fills.\<close>

record read_state =
  rs_data :: byte_buffer
  rs_mi :: movement_info
  rs_guid :: u64
  rs_tguid :: u64
  rs_hasTransportData :: bool
  rs_hasSpline :: bool
  rs_bitcounterLoop :: u32
  rs_extras :: "extra_element option"

definition rd_bit :: "(bool \<Rightarrow> read_state \<Rightarrow> read_state) \<Rightarrow> read_state \<Rightarrow> bb_error + read_state" where
  "rd_bit f s = ebind (ReadBit (rs_data s)) (\<lambda>(v, d). Inr (f v (s\<lparr>rs_data := d\<rparr>)))"

definition rd_bits :: "nat \<Rightarrow> (u32 \<Rightarrow> read_state \<Rightarrow> read_state) \<Rightarrow> read_state \<Rightarrow> bb_error + read_state" where
  "rd_bits n f s = ebind (ReadBits n (rs_data s)) (\<lambda>(v, d). Inr (f v (s\<lparr>rs_data := d\<rparr>)))"

definition rd_u32 :: "(u32 \<Rightarrow> read_state \<Rightarrow> read_state) \<Rightarrow> read_state \<Rightarrow> bb_error + read_state" where
  "rd_u32 f s = ebind (read_u32 (rs_data s)) (\<lambda>(v, d). Inr (f v (s\<lparr>rs_data := d\<rparr>)))"

definition rd_u8 :: "(u8 \<Rightarrow> read_state \<Rightarrow> read_state) \<Rightarrow> read_state \<Rightarrow> bb_error + read_state" where
  "rd_u8 f s = ebind (read_u8 (rs_data s)) (\<lambda>(v, d). Inr (f v (s\<lparr>rs_data := d\<rparr>)))"

definition rd_seq :: "u8 \<Rightarrow> (u8 \<Rightarrow> read_state \<Rightarrow> read_state) \<Rightarrow> read_state \<Rightarrow> bb_error + read_state" where
  "rd_seq x f s = ebind (ReadByteSeq x (rs_data s)) (\<lambda>(v, d). Inr (f v (s\<lparr>rs_data := d\<rparr>)))"

definition rd_skip :: "nat \<Rightarrow> read_state \<Rightarrow> bb_error + read_state" where
  "rd_skip n s = ebind (read_skip n (rs_data s)) (\<lambda>d. Inr (s\<lparr>rs_data := d\<rparr>))"

text \<open>Assignments to the fields of \<open>*mi\<close>.\<close>

definition set_mi :: "(movement_info \<Rightarrow> movement_info) \<Rightarrow> read_state \<Rightarrow> read_state" where
  "set_mi f s = s\<lparr>rs_mi := f (rs_mi s)\<rparr>"

definition set_pos :: "(position \<Rightarrow> position) \<Rightarrow> read_state \<Rightarrow> read_state" where
  "set_pos f = set_mi (\<lambda>mi. mi\<lparr>mi_pos := f (mi_pos mi)\<rparr>)"

definition set_transport :: "(transport_info \<Rightarrow> transport_info) \<Rightarrow> read_state \<Rightarrow> read_state" where
  "set_transport f = set_mi (\<lambda>mi. mi\<lparr>mi_transport := f (mi_transport mi)\<rparr>)"

definition set_tpos :: "(position \<Rightarrow> position) \<Rightarrow> read_state \<Rightarrow> read_state" where
  "set_tpos f = set_transport (\<lambda>t. t\<lparr>t_pos := f (t_pos t)\<rparr>)"

definition set_jump :: "(jump_info \<Rightarrow> jump_info) \<Rightarrow> read_state \<Rightarrow> read_state" where
  "set_jump f = set_mi (\<lambda>mi. mi\<lparr>mi_jump := f (mi_jump mi)\<rparr>)"

text \<open>The body of the loop for one element.\<close>

fun read_element :: "mse \<Rightarrow> read_state \<Rightarrow> bb_error + read_state" where
  "read_element (MSEHasGuidByte i) s =
     rd_bit (\<lambda>v s. s\<lparr>rs_guid := guid_set_byte (rs_guid s) (byte_no i) (of_bool v)\<rparr>) s"
| "read_element (MSEHasTransportGuidByte i) s =
     (if rs_hasTransportData s
      then rd_bit (\<lambda>v s. s\<lparr>rs_tguid := guid_set_byte (rs_tguid s) (byte_no i) (of_bool v)\<rparr>) s
      else Inr s)"
| "read_element (MSEGuidByte i) s =
     rd_seq (guid_byte (rs_guid s) (byte_no i))
       (\<lambda>v s. s\<lparr>rs_guid := guid_set_byte (rs_guid s) (byte_no i) v\<rparr>) s"
| "read_element (MSETransportGuidByte i) s =
     (if rs_hasTransportData s
      then rd_seq (guid_byte (rs_tguid s) (byte_no i))
             (\<lambda>v s. s\<lparr>rs_tguid := guid_set_byte (rs_tguid s) (byte_no i) v\<rparr>) s
      else Inr s)"
| "read_element (MSEGenericDword i) s = rd_skip 4 s"
| "read_element MSEExtraElement s =
     (case rs_extras s of
        None \<Rightarrow> Inl OutOfBounds
      | Some x \<Rightarrow> ebind (ReadNextElement x (rs_data s)) (\<lambda>(x, d).
                    Inr (s\<lparr>rs_extras := Some x, rs_data := d\<rparr>)))"
| "read_element MSEGeneric2bits0 s = rd_bits 2 (\<lambda>v s. s) s"
| "read_element MSERemoveMovementForcesCount s = rd_bits 22 (\<lambda>v s. s\<lparr>rs_bitcounterLoop := v\<rparr>) s"
| "read_element MSEMovementForcesId s = rd_skip (unat (rs_bitcounterLoop s) * 4) s"
| "read_element MSEHasMovementFlags s =
     rd_bit (\<lambda>v. set_mi (\<lambda>mi. mi\<lparr>mi_flags := of_bool (\<not> v)\<rparr>)) s"
| "read_element MSEHasMovementFlags2 s =
     rd_bit (\<lambda>v. set_mi (\<lambda>mi. mi\<lparr>mi_flags2 := of_bool (\<not> v)\<rparr>)) s"
| "read_element MSEHasTimestamp s =
     rd_bit (\<lambda>v. set_mi (\<lambda>mi. mi\<lparr>mi_time := of_bool (\<not> v)\<rparr>)) s"
| "read_element MSEHasOrientation s =
     rd_bit (\<lambda>v. set_pos (\<lambda>p. p\<lparr>m_orientation := (if \<not> v then 0x3F800000 else 0)\<rparr>)) s"
| "read_element MSEHasTransportData s = rd_bit (\<lambda>v s. s\<lparr>rs_hasTransportData := v\<rparr>) s"
| "read_element MSEHasTransportTime2 s =
     (if rs_hasTransportData s then rd_bit (\<lambda>v. set_mi (\<lambda>mi. mi\<lparr>has_t_time2 := v\<rparr>)) s else Inr s)"
| "read_element MSEHasTransportTime3 s =
     (if rs_hasTransportData s then rd_bit (\<lambda>v. set_mi (\<lambda>mi. mi\<lparr>has_t_time3 := v\<rparr>)) s else Inr s)"
| "read_element MSEHasPitch s =
     rd_bit (\<lambda>v. set_mi (\<lambda>mi. mi\<lparr>mi_pitch := of_bool (\<not> v)\<rparr>)) s"
| "read_element MSEHasFallData s = rd_bit (\<lambda>v. set_mi (\<lambda>mi. mi\<lparr>hasFallData := v\<rparr>)) s"
| "read_element MSEHasFallDirection s =
     (if hasFallData (rs_mi s)
      then rd_bit (\<lambda>v. set_mi (\<lambda>mi. mi\<lparr>hasFallDirection := v\<rparr>)) s else Inr s)"
| "read_element MSEHasSplineElevation s =
     rd_bit (\<lambda>v. set_mi (\<lambda>mi. mi\<lparr>mi_splineElevation := of_bool (\<not> v)\<rparr>)) s"
| "read_element MSEHasSpline s = rd_bit (\<lambda>v s. s\<lparr>rs_hasSpline := v\<rparr>) s"
| "read_element MSEMovementFlags s =
     (if mi_flags (rs_mi s) \<noteq> 0 then rd_bits 30 (\<lambda>v. set_mi (\<lambda>mi. mi\<lparr>mi_flags := v\<rparr>)) s else Inr s)"
| "read_element MSEMovementFlags2 s =
     (if mi_flags2 (rs_mi s) \<noteq> 0
      then rd_bits 13 (\<lambda>v. set_mi (\<lambda>mi. mi\<lparr>mi_flags2 := ucast v\<rparr>)) s else Inr s)"
| "read_element MSETimestamp s =
     (if mi_time (rs_mi s) \<noteq> 0 then rd_u32 (\<lambda>v. set_mi (\<lambda>mi. mi\<lparr>mi_time := v\<rparr>)) s else Inr s)"
| "read_element MSEPositionX s = rd_u32 (\<lambda>v. set_pos (\<lambda>p. p\<lparr>m_positionX := v\<rparr>)) s"
| "read_element MSEPositionY s = rd_u32 (\<lambda>v. set_pos (\<lambda>p. p\<lparr>m_positionY := v\<rparr>)) s"
| "read_element MSEPositionZ s = rd_u32 (\<lambda>v. set_pos (\<lambda>p. p\<lparr>m_positionZ := v\<rparr>)) s"
| "read_element MSEOrientation s =
     (if \<not> f32_eq (m_orientation (mi_pos (rs_mi s))) 0
      then rd_u32 (\<lambda>v. set_pos (SetOrientation v)) s else Inr s)"
| "read_element MSETransportPositionX s =
     (if rs_hasTransportData s then rd_u32 (\<lambda>v. set_tpos (\<lambda>p. p\<lparr>m_positionX := v\<rparr>)) s else Inr s)"
| "read_element MSETransportPositionY s =
     (if rs_hasTransportData s then rd_u32 (\<lambda>v. set_tpos (\<lambda>p. p\<lparr>m_positionY := v\<rparr>)) s else Inr s)"
| "read_element MSETransportPositionZ s =
     (if rs_hasTransportData s then rd_u32 (\<lambda>v. set_tpos (\<lambda>p. p\<lparr>m_positionZ := v\<rparr>)) s else Inr s)"
| "read_element MSETransportOrientation s =
     (if rs_hasTransportData s then rd_u32 (\<lambda>v. set_tpos (SetOrientation v)) s else Inr s)"
| "read_element MSETransportSeat s =
     (if rs_hasTransportData s then rd_u8 (\<lambda>v. set_transport (\<lambda>t. t\<lparr>t_seat := v\<rparr>)) s else Inr s)"
| "read_element MSETransportTime s =
     (if rs_hasTransportData s then rd_u32 (\<lambda>v. set_transport (\<lambda>t. t\<lparr>t_time := v\<rparr>)) s else Inr s)"
| "read_element MSETransportTime2 s =
     (if rs_hasTransportData s \<and> has_t_time2 (rs_mi s)
      then rd_u32 (\<lambda>v. set_transport (\<lambda>t. t\<lparr>t_time2 := v\<rparr>)) s else Inr s)"
| "read_element MSETransportTime3 s =
     (if rs_hasTransportData s \<and> has_t_time3 (rs_mi s)
      then rd_u32 (\<lambda>v. set_transport (\<lambda>t. t\<lparr>t_time3 := v\<rparr>)) s else Inr s)"
| "read_element MSEPitch s =
     (if mi_pitch (rs_mi s) \<noteq> 0 then rd_u32 (\<lambda>v. set_mi (\<lambda>mi. mi\<lparr>mi_pitch := v\<rparr>)) s else Inr s)"
| "read_element MSEFallTime s =
     (if hasFallData (rs_mi s)
      then rd_u32 (\<lambda>v. set_mi (\<lambda>mi. mi\<lparr>mi_fallTime := v\<rparr>)) s else Inr s)"
| "read_element MSEFallVerticalSpeed s =
     (if hasFallData (rs_mi s) then rd_u32 (\<lambda>v. set_jump (\<lambda>j. j\<lparr>zspeed := v\<rparr>)) s else Inr s)"
| "read_element MSEFallCosAngle s =
     (if hasFallData (rs_mi s) \<and> hasFallDirection (rs_mi s)
      then rd_u32 (\<lambda>v. set_jump (\<lambda>j. j\<lparr>cosAngle := v\<rparr>)) s else Inr s)"
| "read_element MSEFallSinAngle s =
     (if hasFallData (rs_mi s) \<and> hasFallDirection (rs_mi s)
      then rd_u32 (\<lambda>v. set_jump (\<lambda>j. j\<lparr>sinAngle := v\<rparr>)) s else Inr s)"
| "read_element MSEFallHorizontalSpeed s =
     (if hasFallData (rs_mi s) \<and> hasFallDirection (rs_mi s)
      then rd_u32 (\<lambda>v. set_jump (\<lambda>j. j\<lparr>xyspeed := v\<rparr>)) s else Inr s)"
| "read_element MSESplineElevation s =
     (if mi_splineElevation (rs_mi s) \<noteq> 0
      then rd_u32 (\<lambda>v. set_mi (\<lambda>mi. mi\<lparr>mi_splineElevation := v\<rparr>)) s else Inr s)"
| "read_element MSEZeroBit s = rd_bit (\<lambda>v s. s) s"
| "read_element MSEOneBit s = rd_bit (\<lambda>v s. s) s"
| "read_element MSEHasUnkTime s =
     rd_bit (\<lambda>v. set_mi (\<lambda>mi. mi\<lparr>mi_Alive32 := of_bool (\<not> v)\<rparr>)) s"
| "read_element MSEUnkTime s =
     (if mi_Alive32 (rs_mi s) \<noteq> 0
      then rd_u32 (\<lambda>v. set_mi (\<lambda>mi. mi\<lparr>mi_Alive32 := v\<rparr>)) s else Inr s)"
| "read_element MSECounter s = rd_skip 4 s"
| "read_element MSEEnd s = Inl AssertFailed"
| "read_element MSEExtraFloat s = Inl AssertFailed"
| "read_element MSEExtraInt8 s = Inl AssertFailed"

text \<open>The loop stops at \<open>MSEEnd\<close>; a sequence without one would be read past its end.\<close>

fun read_sequence :: "mse list \<Rightarrow> read_state \<Rightarrow> bb_error + read_state" where
  "read_sequence [] s = Inl OutOfBounds"
| "read_sequence (e # es) s =
     (if e = MSEEnd then Inr s else ebind (read_element e s) (read_sequence es))"

definition ReadMovementInfo ::
  "(f32 \<Rightarrow> bool) \<Rightarrow> u16 \<Rightarrow> byte_buffer \<Rightarrow> movement_info \<Rightarrow> extra_element option
   \<Rightarrow> bb_error + (byte_buffer \<times> movement_info \<times> extra_element option)" where
  "ReadMovementInfo fuzzyNe0 opcode data mi extras =
     (case GetMovementStatusElementsSequence opcode of
        None \<Rightarrow> Inr (data, mi, extras)
      | Some sequence \<Rightarrow>
          ebind (read_sequence sequence
                   \<lparr>rs_data = data, rs_mi = mi, rs_guid = 0, rs_tguid = 0,
                    rs_hasTransportData = False, rs_hasSpline = False, rs_bitcounterLoop = 0,
                    rs_extras = extras\<rparr>)
            (\<lambda>s. let mi = (rs_mi s)\<lparr>mi_guid := rs_guid s,
                            mi_transport := (mi_transport (rs_mi s))\<lparr>t_guid := rs_tguid s\<rparr>\<rparr>
                 in Inr (rs_data s,
                         if fuzzyNe0 (mi_splineElevation mi)
                         then AddMovementFlag MOVEMENTFLAG_SPLINE_ELEVATION mi else mi,
                         rs_extras s)))"

section \<open>WriteMovementInfo\<close>

type_synonym write_state = "byte_buffer \<times> extra_element option"

definition wr :: "(byte_buffer \<Rightarrow> bb_error + byte_buffer) \<Rightarrow> write_state \<Rightarrow> bb_error + write_state" where
  "wr f s = ebind (f (fst s)) (\<lambda>d. Inr (d, snd s))"

definition wr_if ::
  "bool \<Rightarrow> (byte_buffer \<Rightarrow> bb_error + byte_buffer) \<Rightarrow> write_state \<Rightarrow> bb_error + write_state" where
  "wr_if c f s = (if c then wr f s else Inr s)"

definition hasMovementFlags :: "movement_info \<Rightarrow> bool" where
  "hasMovementFlags mi \<longleftrightarrow> mi_flags mi \<noteq> 0"

definition hasMovementFlags2 :: "movement_info \<Rightarrow> bool" where
  "hasMovementFlags2 mi \<longleftrightarrow> mi_flags2 mi \<noteq> 0"

definition hasTransportData :: "movement_info \<Rightarrow> bool" where
  "hasTransportData mi \<longleftrightarrow> t_guid (mi_transport mi) \<noteq> 0"

text \<open>The body of the loop for one element; the elements without a case assert.\<close>

fun write_element :: "movement_info \<Rightarrow> mse \<Rightarrow> write_state \<Rightarrow> bb_error + write_state" where
  "write_element mi (MSEHasGuidByte i) s = wr (WriteBit (guid_byte (mi_guid mi) (byte_no i) \<noteq> 0)) s"
| "write_element mi (MSEHasTransportGuidByte i) s =
     wr_if (hasTransportData mi)
       (WriteBit (guid_byte (t_guid (mi_transport mi)) (byte_no i) \<noteq> 0)) s"
| "write_element mi (MSEGuidByte i) s = wr (WriteByteSeq (guid_byte (mi_guid mi) (byte_no i))) s"
| "write_element mi (MSETransportGuidByte i) s =
     wr_if (hasTransportData mi) (WriteByteSeq (guid_byte (t_guid (mi_transport mi)) (byte_no i))) s"
| "write_element mi MSEExtraElement s =
     (case snd s of
        None \<Rightarrow> Inl OutOfBounds
      | Some x \<Rightarrow> ebind (WriteNextElement x (fst s)) (\<lambda>(x, d). Inr (d, Some x)))"
| "write_element mi MSERemoveMovementForcesCount s = wr (WriteBits (0 :: u32) 22) s"
| "write_element mi MSEMovementForcesId s = Inr s"
| "write_element mi MSECounter s = wr (append_u32 0) s"
| "write_element mi MSEHasMovementFlags s = wr (WriteBit (\<not> hasMovementFlags mi)) s"
| "write_element mi MSEHasMovementFlags2 s = wr (WriteBit (\<not> hasMovementFlags2 mi)) s"
| "write_element mi MSEHasTimestamp s = wr (WriteBit (mi_time mi = 0)) s"
| "write_element mi MSEHasOrientation s = wr (WriteBit (\<not> HaveOrientation (mi_pos mi))) s"
| "write_element mi MSEHasTransportData s = wr (WriteBit (hasTransportData mi)) s"
| "write_element mi MSEHasTransportTime2 s = wr_if (hasTransportData mi) (WriteBit (has_t_time2 mi)) s"
| "write_element mi MSEHasTransportTime3 s = wr_if (hasTransportData mi) (WriteBit (has_t_time3 mi)) s"
| "write_element mi MSEHasPitch s = wr (WriteBit (mi_pitch mi = 0)) s"
| "write_element mi MSEHasFallData s = wr (WriteBit (hasFallData mi)) s"
| "write_element mi MSEHasFallDirection s = wr_if (hasFallData mi) (WriteBit (hasFallDirection mi)) s"
| "write_element mi MSEHasSplineElevation s = wr (WriteBit (mi_splineElevation mi = 0)) s"
| "write_element mi MSEHasSpline s = wr (WriteBit False) s"
| "write_element mi MSEMovementFlags s = wr_if (hasMovementFlags mi) (WriteBits (mi_flags mi) 30) s"
| "write_element mi MSEMovementFlags2 s = wr_if (hasMovementFlags2 mi) (WriteBits (mi_flags2 mi) 13) s"
| "write_element mi MSETimestamp s = wr_if (mi_time mi \<noteq> 0) (append_u32 (mi_time mi)) s"
| "write_element mi MSEPositionX s = wr (append_u32 (m_positionX (mi_pos mi))) s"
| "write_element mi MSEPositionY s = wr (append_u32 (m_positionY (mi_pos mi))) s"
| "write_element mi MSEPositionZ s = wr (append_u32 (m_positionZ (mi_pos mi))) s"
| "write_element mi MSEOrientation s =
     wr_if (HaveOrientation (mi_pos mi)) (append_u32 (m_orientation (mi_pos mi))) s"
| "write_element mi MSETransportPositionX s =
     wr_if (hasTransportData mi) (append_u32 (m_positionX (t_pos (mi_transport mi)))) s"
| "write_element mi MSETransportPositionY s =
     wr_if (hasTransportData mi) (append_u32 (m_positionY (t_pos (mi_transport mi)))) s"
| "write_element mi MSETransportPositionZ s =
     wr_if (hasTransportData mi) (append_u32 (m_positionZ (t_pos (mi_transport mi)))) s"
| "write_element mi MSETransportOrientation s =
     wr_if (hasTransportData mi) (append_u32 (m_orientation (t_pos (mi_transport mi)))) s"
| "write_element mi MSETransportSeat s =
     wr_if (hasTransportData mi) (append_u8 (t_seat (mi_transport mi))) s"
| "write_element mi MSETransportTime s =
     wr_if (hasTransportData mi) (append_u32 (t_time (mi_transport mi))) s"
| "write_element mi MSETransportTime2 s =
     wr_if (hasTransportData mi \<and> has_t_time2 mi) (append_u32 (t_time2 (mi_transport mi))) s"
| "write_element mi MSETransportTime3 s =
     wr_if (hasTransportData mi \<and> has_t_time3 mi) (append_u32 (t_time3 (mi_transport mi))) s"
| "write_element mi MSEPitch s = wr_if (mi_pitch mi \<noteq> 0) (append_u32 (mi_pitch mi)) s"
| "write_element mi MSEFallTime s = wr_if (hasFallData mi) (append_u32 (mi_fallTime mi)) s"
| "write_element mi MSEFallVerticalSpeed s = wr_if (hasFallData mi) (append_u32 (zspeed (mi_jump mi))) s"
| "write_element mi MSEFallCosAngle s =
     wr_if (hasFallData mi \<and> hasFallDirection mi) (append_u32 (cosAngle (mi_jump mi))) s"
| "write_element mi MSEFallSinAngle s =
     wr_if (hasFallData mi \<and> hasFallDirection mi) (append_u32 (sinAngle (mi_jump mi))) s"
| "write_element mi MSEFallHorizontalSpeed s =
     wr_if (hasFallData mi \<and> hasFallDirection mi) (append_u32 (xyspeed (mi_jump mi))) s"
| "write_element mi MSESplineElevation s =
     wr_if (mi_splineElevation mi \<noteq> 0) (append_u32 (mi_splineElevation mi)) s"
| "write_element mi MSEZeroBit s = wr (WriteBit False) s"
| "write_element mi MSEOneBit s = wr (WriteBit True) s"
| "write_element mi MSEHasUnkTime s = wr (WriteBit (mi_Alive32 mi = 0)) s"
| "write_element mi MSEUnkTime s = wr_if (mi_Alive32 mi \<noteq> 0) (append_u32 (mi_Alive32 mi)) s"
| "write_element mi (MSEGenericDword i) s = Inl AssertFailed"
| "write_element mi MSEGeneric2bits0 s = Inl AssertFailed"
| "write_element mi MSEEnd s = Inl AssertFailed"
| "write_element mi MSEExtraFloat s = Inl AssertFailed"
| "write_element mi MSEExtraInt8 s = Inl AssertFailed"

fun write_sequence :: "movement_info \<Rightarrow> mse list \<Rightarrow> write_state \<Rightarrow> bb_error + write_state" where
  "write_sequence mi [] s = Inl OutOfBounds"
| "write_sequence mi (e # es) s =
     (if e = MSEEnd then Inr s else ebind (write_element mi e s) (write_sequence mi es))"

definition WriteMovementInfo ::
  "movement_info \<Rightarrow> u16 \<Rightarrow> write_state \<Rightarrow> bb_error + write_state" where
  "WriteMovementInfo mi opcode s =
     (case GetMovementStatusElementsSequence opcode of
        None \<Rightarrow> Inr s
      | Some sequence \<Rightarrow> write_sequence mi sequence s)"

text \<open>
  \<open>PacketSender::Send\<close>: the packets handed to \<open>SendMessageToSet\<close> and to \<open>SendDirectMessage\<close>,
  as \<open>(opcode, bytes)\<close>.  \<open>NULL_OPCODE\<close> is 0.  \<open>Initialize\<close> clears the packet, and the extra
  elements are rewound before the second packet.
\<close>

definition NULL_OPCODE :: u16 where
  "NULL_OPCODE = 0"

definition PacketSender_Send ::
  "movement_info \<Rightarrow> bool \<Rightarrow> u16 \<Rightarrow> u16 \<Rightarrow> extra_element option
   \<Rightarrow> bb_error + ((u16 \<times> u8 list) option \<times> (u16 \<times> u8 list) option)" where
  "PacketSender_Send mi isPlayer broadcast self extras =
     (if broadcast = NULL_OPCODE \<and> self = NULL_OPCODE then Inl AssertFailed
      else
        ebind (if broadcast \<noteq> NULL_OPCODE
               then ebind (WriteMovementInfo mi broadcast (empty_buffer, extras)) (\<lambda>(d, x).
                      Inr (Some (broadcast, storage d), x))
               else Inr (None, extras))
          (\<lambda>(toSet, extras).
            ebind (if self \<noteq> NULL_OPCODE \<and> isPlayer
                   then ebind (WriteMovementInfo mi self (empty_buffer, map_option ResetIndex extras))
                          (\<lambda>(d, x). Inr (Some (self, storage d)))
                   else Inr None)
              (\<lambda>direct. Inr (toSet, direct))))"

end
