(* ===== verification/MovementSteps.thy ===== *)
theory MovementSteps
  imports Codec MovementInfo
begin

text \<open>
  Correctness of the movement protocol.  \<open>sequence_ok\<close> is an executable check of an element
  sequence; the main result is that for every sequence that passes it the two interpreters are
  inverse to each other: reading a packet \<open>WriteMovementInfo\<close> produced consumes it to the last
  byte and reconstructs exactly the fields the sequence carries (\<open>mi_after\<close>).
\<close>

unbundle bit_operations_syntax

section \<open>Checking a sequence\<close>

text \<open>
  How an element touches the packet.  \<open>Bits\<close>: bits on both sides.  \<open>Bytes\<close>: always whole bytes.
  \<open>MaybeBytes\<close>: whole bytes or nothing, on both sides alike.  \<open>Boundary\<close>: the reader moves to the
  byte boundary even when the writer wrote nothing.  \<open>NotWritten\<close>: the writer has no case for it.
\<close>

datatype kind = Bits | Bytes | MaybeBytes | Boundary | NotWritten

fun mse_kind :: "mse \<Rightarrow> kind" where
  "mse_kind (MSEGuidByte i) = Boundary"
| "mse_kind (MSETransportGuidByte i) = Boundary"
| "mse_kind MSEMovementForcesId = Boundary"
| "mse_kind MSEPositionX = Bytes"
| "mse_kind MSEPositionY = Bytes"
| "mse_kind MSEPositionZ = Bytes"
| "mse_kind MSECounter = Bytes"
| "mse_kind MSEExtraElement = Bytes"
| "mse_kind MSETimestamp = MaybeBytes"
| "mse_kind MSEOrientation = MaybeBytes"
| "mse_kind MSETransportPositionX = MaybeBytes"
| "mse_kind MSETransportPositionY = MaybeBytes"
| "mse_kind MSETransportPositionZ = MaybeBytes"
| "mse_kind MSETransportOrientation = MaybeBytes"
| "mse_kind MSETransportSeat = MaybeBytes"
| "mse_kind MSETransportTime = MaybeBytes"
| "mse_kind MSETransportTime2 = MaybeBytes"
| "mse_kind MSETransportTime3 = MaybeBytes"
| "mse_kind MSEPitch = MaybeBytes"
| "mse_kind MSEFallTime = MaybeBytes"
| "mse_kind MSEFallVerticalSpeed = MaybeBytes"
| "mse_kind MSEFallCosAngle = MaybeBytes"
| "mse_kind MSEFallSinAngle = MaybeBytes"
| "mse_kind MSEFallHorizontalSpeed = MaybeBytes"
| "mse_kind MSESplineElevation = MaybeBytes"
| "mse_kind MSEUnkTime = MaybeBytes"
| "mse_kind (MSEGenericDword i) = NotWritten"
| "mse_kind MSEGeneric2bits0 = NotWritten"
| "mse_kind MSEExtraFloat = NotWritten"
| "mse_kind MSEExtraInt8 = NotWritten"
| "mse_kind MSEEnd = NotWritten"
| "mse_kind _ = Bits"

text \<open>The elements whose value must be known before this one is processed.\<close>

fun mse_requires :: "mse \<Rightarrow> mse list" where
  "mse_requires (MSEGuidByte i) = [MSEHasGuidByte i]"
| "mse_requires (MSEHasTransportGuidByte i) = [MSEHasTransportData]"
| "mse_requires (MSETransportGuidByte i) = [MSEHasTransportData, MSEHasTransportGuidByte i]"
| "mse_requires MSEHasTransportTime2 = [MSEHasTransportData]"
| "mse_requires MSEHasTransportTime3 = [MSEHasTransportData]"
| "mse_requires MSETransportTime2 = [MSEHasTransportData, MSEHasTransportTime2]"
| "mse_requires MSETransportTime3 = [MSEHasTransportData, MSEHasTransportTime3]"
| "mse_requires MSETransportPositionX = [MSEHasTransportData]"
| "mse_requires MSETransportPositionY = [MSEHasTransportData]"
| "mse_requires MSETransportPositionZ = [MSEHasTransportData]"
| "mse_requires MSETransportOrientation = [MSEHasTransportData]"
| "mse_requires MSETransportSeat = [MSEHasTransportData]"
| "mse_requires MSETransportTime = [MSEHasTransportData]"
| "mse_requires MSEHasFallDirection = [MSEHasFallData]"
| "mse_requires MSEFallTime = [MSEHasFallData]"
| "mse_requires MSEFallVerticalSpeed = [MSEHasFallData]"
| "mse_requires MSEFallCosAngle = [MSEHasFallData, MSEHasFallDirection]"
| "mse_requires MSEFallSinAngle = [MSEHasFallData, MSEHasFallDirection]"
| "mse_requires MSEFallHorizontalSpeed = [MSEHasFallData, MSEHasFallDirection]"
| "mse_requires MSEMovementFlags = [MSEHasMovementFlags]"
| "mse_requires MSEMovementFlags2 = [MSEHasMovementFlags2]"
| "mse_requires MSETimestamp = [MSEHasTimestamp]"
| "mse_requires MSEOrientation = [MSEHasOrientation]"
| "mse_requires MSEPitch = [MSEHasPitch]"
| "mse_requires MSESplineElevation = [MSEHasSplineElevation]"
| "mse_requires MSEUnkTime = [MSEHasUnkTime]"
| "mse_requires MSEMovementForcesId = [MSERemoveMovementForcesCount]"
| "mse_requires _ = []"

fun mse_repeatable :: "mse \<Rightarrow> bool" where
  "mse_repeatable MSEZeroBit = True"
| "mse_repeatable MSEOneBit = True"
| "mse_repeatable _ = False"

text \<open>\<open>early\<close>: the reader may already be at a byte boundary the writer has not reached.\<close>

fun next_early :: "kind \<Rightarrow> bool \<Rightarrow> bool" where
  "next_early Bits early = False"
| "next_early Bytes early = False"
| "next_early MaybeBytes early = early"
| "next_early Boundary early = True"
| "next_early NotWritten early = early"

definition element_ok :: "mse list \<Rightarrow> bool \<Rightarrow> mse \<Rightarrow> bool" where
  "element_ok seen early e \<longleftrightarrow>
     list_all (\<lambda>p. List.member seen p) (mse_requires e) \<and>
     (mse_repeatable e \<or> \<not> List.member seen e) \<and>
     mse_kind e \<noteq> NotWritten \<and> (mse_kind e = Bits \<longrightarrow> \<not> early)"

fun check_from :: "mse list \<Rightarrow> bool \<Rightarrow> mse list \<Rightarrow> bool" where
  "check_from seen early [] = False"
| "check_from seen early (e # es) =
     (if e = MSEEnd then es = []
      else element_ok seen early e \<and> check_from (e # seen) (next_early (mse_kind e) early) es)"

definition sequence_ok :: "mse list \<Rightarrow> bool" where
  "sequence_ok es = check_from [] False es"

section \<open>What the reader knows\<close>

definition or_marker :: "bool \<Rightarrow> bool \<Rightarrow> 'a::len word \<Rightarrow> 'a word \<Rightarrow> 'a word" where
  "or_marker known marked v old = (if known then v else if marked then of_bool (v \<noteq> 0) else old)"

definition if_sent :: "bool \<Rightarrow> 'a \<Rightarrow> 'a \<Rightarrow> 'a" where
  "if_sent c new old = (if c then new else old)"

definition mi_after :: "mse list \<Rightarrow> movement_info \<Rightarrow> movement_info \<Rightarrow> movement_info" where
  "mi_after seen m old =
     (let P = (\<lambda>e. e \<in> set seen);
          T = (\<lambda>e. e \<in> set seen \<and> hasTransportData m);
          F = (\<lambda>e. e \<in> set seen \<and> hasFallData m);
          D = (\<lambda>e. e \<in> set seen \<and> hasFallData m \<and> hasFallDirection m)
      in
      \<lparr>mi_guid = mi_guid old,
       mi_flags = or_marker (P MSEMovementFlags) (P MSEHasMovementFlags) (mi_flags m) (mi_flags old),
       mi_flags2 = or_marker (P MSEMovementFlags2) (P MSEHasMovementFlags2) (mi_flags2 m) (mi_flags2 old),
       mi_pos =
         \<lparr>m_positionX = (if P MSEPositionX then m_positionX (mi_pos m) else m_positionX (mi_pos old)),
          m_positionY = (if P MSEPositionY then m_positionY (mi_pos m) else m_positionY (mi_pos old)),
          m_positionZ = (if P MSEPositionZ then m_positionZ (mi_pos m) else m_positionZ (mi_pos old)),
          m_orientation =
            (if P MSEHasOrientation
             then if HaveOrientation (mi_pos m)
                  then if P MSEOrientation then NormalizeOrientation (m_orientation (mi_pos m))
                       else 0x3F800000
                  else 0
             else m_orientation (mi_pos old))\<rparr>,
       mi_time = or_marker (P MSETimestamp) (P MSEHasTimestamp) (mi_time m) (mi_time old),
       mi_transport =
         (let n = mi_transport m; t = mi_transport old in
          \<lparr>t_guid = t_guid t,
           t_pos =
             \<lparr>m_positionX = if_sent (T MSETransportPositionX) (m_positionX (t_pos n)) (m_positionX (t_pos t)),
              m_positionY = if_sent (T MSETransportPositionY) (m_positionY (t_pos n)) (m_positionY (t_pos t)),
              m_positionZ = if_sent (T MSETransportPositionZ) (m_positionZ (t_pos n)) (m_positionZ (t_pos t)),
              m_orientation = if_sent (T MSETransportOrientation)
                (NormalizeOrientation (m_orientation (t_pos n))) (m_orientation (t_pos t))\<rparr>,
           t_seat = if_sent (T MSETransportSeat) (t_seat n) (t_seat t),
           t_time = if_sent (T MSETransportTime) (t_time n) (t_time t),
           t_time2 = if_sent (T MSETransportTime2 \<and> has_t_time2 m) (t_time2 n) (t_time2 t),
           t_time3 = if_sent (T MSETransportTime3 \<and> has_t_time3 m) (t_time3 n) (t_time3 t)\<rparr>),
       mi_pitch = or_marker (P MSEPitch) (P MSEHasPitch) (mi_pitch m) (mi_pitch old),
       mi_fallTime = if_sent (F MSEFallTime) (mi_fallTime m) (mi_fallTime old),
       mi_jump =
         \<lparr>zspeed = if_sent (F MSEFallVerticalSpeed) (zspeed (mi_jump m)) (zspeed (mi_jump old)),
          sinAngle = if_sent (D MSEFallSinAngle) (sinAngle (mi_jump m)) (sinAngle (mi_jump old)),
          cosAngle = if_sent (D MSEFallCosAngle) (cosAngle (mi_jump m)) (cosAngle (mi_jump old)),
          xyspeed = if_sent (D MSEFallHorizontalSpeed) (xyspeed (mi_jump m)) (xyspeed (mi_jump old))\<rparr>,
       mi_splineElevation =
         or_marker (P MSESplineElevation) (P MSEHasSplineElevation) (mi_splineElevation m)
           (mi_splineElevation old),
       mi_Alive32 = or_marker (P MSEUnkTime) (P MSEHasUnkTime) (mi_Alive32 m) (mi_Alive32 old),
       hasFallData = (if P MSEHasFallData then hasFallData m else hasFallData old),
       hasFallDirection = if_sent (F MSEHasFallDirection) (hasFallDirection m) (hasFallDirection old),
       has_t_time2 = if_sent (T MSEHasTransportTime2) (has_t_time2 m) (has_t_time2 old),
       has_t_time3 = if_sent (T MSEHasTransportTime3) (has_t_time3 m) (has_t_time3 old)\<rparr>)"

text \<open>A guid being read: known bytes, bytes of which only the presence bit is known, the rest zero.\<close>

definition guid_after ::
  "(byte_index \<Rightarrow> mse) \<Rightarrow> (byte_index \<Rightarrow> mse) \<Rightarrow> mse list \<Rightarrow> u64 \<Rightarrow> u64 \<Rightarrow> bool" where
  "guid_after has val seen g r \<longleftrightarrow>
     (\<forall>i. guid_byte r (byte_no i) =
        or_marker (val i \<in> set seen) (has i \<in> set seen) (guid_byte g (byte_no i)) 0)"

definition extra_after :: "mse list \<Rightarrow> extra_element option \<Rightarrow> extra_element option \<Rightarrow> extra_element option" where
  "extra_after seen xw xr =
     (if MSEExtraElement \<in> set seen
      then map_option (\<lambda>r. r\<lparr>x_index := 1, x_floatData := x_floatData (the xw)\<rparr>) xr else xr)"

definition extra_written :: "mse list \<Rightarrow> extra_element option \<Rightarrow> extra_element option" where
  "extra_written seen xw =
     (if MSEExtraElement \<in> set seen then map_option (\<lambda>r. r\<lparr>x_index := 1\<rparr>) xw else xw)"

text \<open>The extra elements in use: one \<open>MSEExtraFloat\<close>, from the start.\<close>

definition float_extra :: "extra_element option \<Rightarrow> bool" where
  "float_extra x \<longleftrightarrow> (\<exists>r. x = Some r \<and> x_elements r = [MSEExtraFloat] \<and> x_index r = 0)"

definition reads_as ::
  "mse list \<Rightarrow> movement_info \<Rightarrow> extra_element option \<Rightarrow> movement_info \<Rightarrow> extra_element option
   \<Rightarrow> read_state \<Rightarrow> bool" where
  "reads_as seen m xw old xr s \<longleftrightarrow>
     rs_mi s = mi_after seen m old \<and>
     guid_after MSEHasGuidByte MSEGuidByte seen (mi_guid m) (rs_guid s) \<and>
     guid_after MSEHasTransportGuidByte MSETransportGuidByte seen (t_guid (mi_transport m)) (rs_tguid s) \<and>
     rs_hasTransportData s = (MSEHasTransportData \<in> set seen \<and> hasTransportData m) \<and>
     rs_bitcounterLoop s = 0 \<and>
     rs_extras s = extra_after seen xw xr"

text \<open>The flag words fit the number of bits they are sent in.\<close>

definition sendable :: "movement_info \<Rightarrow> bool" where
  "sendable m \<longleftrightarrow> mi_flags m < 2 ^ 30 \<and> mi_flags2 m < 2 ^ 13"

section \<open>Guid bytes\<close>

lemma byte_no_less [simp]: "byte_no i < 8"
  by (cases i) simp_all

lemma byte_no_inj [simp]: "byte_no i = byte_no j \<longleftrightarrow> i = j"
  by (cases i; cases j) simp_all

lemma byte_index_ex: "i < 8 \<Longrightarrow> \<exists>b. byte_no b = i"
  by (cases "i = 0 \<or> i = 1 \<or> i = 2 \<or> i = 3"; cases "i = 4 \<or> i = 5 \<or> i = 6")
    (auto intro: exI [of _ B0] exI [of _ B1] exI [of _ B2] exI [of _ B3] exI [of _ B4]
      exI [of _ B5] exI [of _ B6] exI [of _ B7] byte_no.simps)

lemma guid_eqI:
  assumes "\<And>i. guid_byte g (byte_no i) = guid_byte h (byte_no i)"
  shows "g = h"
  using assms byte_index_ex by (metis guid_bytes_eqI)

section \<open>One element\<close>

text \<open>
  \<open>simulates st early w R res\<close>: the reader's step \<open>res\<close> succeeds, stays in step with the writer at
  \<open>w\<close>, and leaves a state that satisfies \<open>R\<close>.
\<close>

definition simulates ::
  "u8 list \<Rightarrow> bool \<Rightarrow> byte_buffer \<Rightarrow> (read_state \<Rightarrow> bool) \<Rightarrow> bb_error + read_state \<Rightarrow> bool" where
  "simulates st early w R res \<longleftrightarrow>
     (\<exists>s'. res = Inr s' \<and> in_step st early w (rs_data s') \<and> R s')"

lemma sim_bit:
  assumes "in_step st False w (rs_data s)" "wr (WriteBit v) (w, x) = Inr (w', x')" "extended_by w' st"
    and "\<And>d. rs_data (f v (s\<lparr>rs_data := d\<rparr>)) = d" "\<And>d. x' = x \<Longrightarrow> R (f v (s\<lparr>rs_data := d\<rparr>))"
  shows "simulates st False w' R (rd_bit f s)"
proof -
  have "WriteBit v w = Inr w'" "x' = x" using assms(2) by (auto simp: wr_def)
  from in_step_WriteBit [OF assms(1) this(1) assms(3)] obtain r' where
    "ReadBit (rs_data s) = Inr (v, r')" "in_step st False w' r'" by blast
  then show ?thesis using assms(4,5) \<open>x' = x\<close> by (simp add: simulates_def rd_bit_def)
qed

lemma sim_bits:
  fixes v :: "'a::len word"
  assumes "in_step st False w (rs_data s)" "wr (WriteBits v n) (w, x) = Inr (w', x')" "extended_by w' st"
    and "n \<le> 32" "\<And>i. i < n \<Longrightarrow> bit u i = bit v i" "\<And>i. n \<le> i \<Longrightarrow> \<not> bit u i"
    and "\<And>d. rs_data (f u (s\<lparr>rs_data := d\<rparr>)) = d" "\<And>d. x' = x \<Longrightarrow> R (f u (s\<lparr>rs_data := d\<rparr>))"
  shows "simulates st False w' R (rd_bits n f s)"
proof -
  have "WriteBits v n w = Inr w'" "x' = x" using assms(2) by (auto simp: wr_def)
  from in_step_WriteBits [OF assms(1) this(1) assms(3-6)] obtain r' where
    "ReadBits n (rs_data s) = Inr (u, r')" "in_step st False w' r'" by blast
  then show ?thesis using assms(7,8) \<open>x' = x\<close> by (simp add: simulates_def rd_bits_def)
qed

lemma sim_u32:
  assumes "in_step st early w (rs_data s)" "wr (append_u32 v) (w, x) = Inr (w', x')" "extended_by w' st"
    and "\<And>d. rs_data (f v (s\<lparr>rs_data := d\<rparr>)) = d" "\<And>d. x' = x \<Longrightarrow> R (f v (s\<lparr>rs_data := d\<rparr>))"
  shows "simulates st e' w' R (rd_u32 f s)"
proof -
  have "append_bytes (le_bytes 4 v) w = Inr w'" "x' = x"
    using assms(2) by (auto simp: wr_def append_u32_def)
  from in_step_append [OF assms(1) this(1) assms(3)] obtain r' where
    r': "read_bytes 4 (rs_data s) = Inr (le_bytes 4 v, r')" "in_step st e' w' r'"
    using in_step_mono by auto
  then have "read_u32 (rs_data s) = Inr (v, r')" by (simp add: read_u32_def read_word_def)
  then show ?thesis using assms(4,5) r' \<open>x' = x\<close> by (simp add: simulates_def rd_u32_def)
qed

lemma sim_u8:
  assumes "in_step st early w (rs_data s)" "wr (append_u8 v) (w, x) = Inr (w', x')" "extended_by w' st"
    and "\<And>d. rs_data (f v (s\<lparr>rs_data := d\<rparr>)) = d" "\<And>d. x' = x \<Longrightarrow> R (f v (s\<lparr>rs_data := d\<rparr>))"
  shows "simulates st e' w' R (rd_u8 f s)"
proof -
  have "append_bytes (le_bytes 1 v) w = Inr w'" "x' = x"
    using assms(2) by (auto simp: wr_def append_u8_def)
  from in_step_append [OF assms(1) this(1) assms(3)] obtain r' where
    r': "read_bytes 1 (rs_data s) = Inr (le_bytes 1 v, r')" "in_step st e' w' r'"
    using in_step_mono by auto
  then have "read_u8 (rs_data s) = Inr (v, r')"
    by (simp add: read_u8_def read_word_def flip: One_nat_def)
  then show ?thesis using assms(4,5) r' \<open>x' = x\<close> by (simp add: simulates_def rd_u8_def)
qed

lemma sim_skip4:
  assumes "in_step st early w (rs_data s)" "wr (append_u32 v) (w, x) = Inr (w', x')" "extended_by w' st"
    and "\<And>d. x' = x \<Longrightarrow> R (s\<lparr>rs_data := d\<rparr>)"
  shows "simulates st e' w' R (rd_skip 4 s)"
proof -
  have "append_bytes (le_bytes 4 v) w = Inr w'" "x' = x"
    using assms(2) by (auto simp: wr_def append_u32_def)
  from in_step_append [OF assms(1) this(1) assms(3)] obtain r' where
    r': "read_bytes 4 (rs_data s) = Inr (le_bytes 4 v, r')" "in_step st e' w' r'"
    using in_step_mono by auto
  moreover have "size_add (rpos (rs_data s)) 4 = rpos (rs_data s) + 4"
    using assms(1) by (intro size_add_small [of _ "bb_size (rs_data s)"]) (auto simp: in_step_def rd_inv_def)
  ultimately have "read_skip 4 (rs_data s) = Inr r'"
    by (auto simp: read_bytes_def read_skip_def ResetBits_def Let_def split: if_splits)
  then show ?thesis using assms(4) r' \<open>x' = x\<close> by (simp add: simulates_def rd_skip_def)
qed

lemma sim_seq:
  assumes "in_step st early w (rs_data s)" "wr (WriteByteSeq v) (w, x) = Inr (w', x')" "extended_by w' st"
    and "b = of_bool (v \<noteq> 0)"
    and "\<And>d. rs_data (f v (s\<lparr>rs_data := d\<rparr>)) = d" "\<And>d. x' = x \<Longrightarrow> R (f v (s\<lparr>rs_data := d\<rparr>))"
  shows "simulates st True w' R (rd_seq b f s)"
proof -
  have "WriteByteSeq v w = Inr w'" "x' = x" using assms(2) by (auto simp: wr_def)
  from in_step_WriteByteSeq [OF assms(1) this(1) assms(3)] obtain r' where
    "ReadByteSeq b (rs_data s) = Inr (v, r')" "in_step st True w' r'" using assms(4) by blast
  then show ?thesis using assms(5,6) \<open>x' = x\<close> by (simp add: simulates_def rd_seq_def)
qed

lemma sim_skip0:
  assumes "in_step st early w (rs_data s)" "\<And>d. R (s\<lparr>rs_data := d\<rparr>)" "n = 0"
  shows "simulates st True w R (rd_skip n s)"
  using in_step_skip0 [OF assms(1)] assms(2,3) by (auto simp: simulates_def rd_skip_def)

lemma sim_none:
  assumes "in_step st early w (rs_data s)" "early \<longrightarrow> e'" "R s"
  shows "simulates st e' w R (Inr s)"
  using assms in_step_mono by (auto simp: simulates_def)

text \<open>What the reader learned does not depend on its cursor.\<close>

lemma reads_as_data [simp]: "reads_as seen m xw old xr (s\<lparr>rs_data := d\<rparr>) = reads_as seen m xw old xr s"
  by (simp add: reads_as_def)

lemma or_marker_cong:
  "or_marker True q v old = v" "or_marker False True v old = of_bool (v \<noteq> 0)"
  "or_marker False False v old = old"
  by (simp_all add: or_marker_def)

lemma of_bool_eq_0_word [simp]: "(of_bool b :: 'a::len word) = 0 \<longleftrightarrow> \<not> b"
  by simp

lemma set_mi_simps [simp]:
  "rs_data (set_mi f s) = rs_data s" "rs_mi (set_mi f s) = f (rs_mi s)"
  "rs_guid (set_mi f s) = rs_guid s" "rs_tguid (set_mi f s) = rs_tguid s"
  "rs_hasTransportData (set_mi f s) = rs_hasTransportData s"
  "rs_bitcounterLoop (set_mi f s) = rs_bitcounterLoop s" "rs_extras (set_mi f s) = rs_extras s"
  by (simp_all add: set_mi_def)

lemmas set_defs = set_pos_def set_transport_def set_tpos_def set_jump_def

lemma f32_one_not_zero [simp]: "\<not> f32_eq 0x3F800000 0"
  by (simp add: f32_eq_zero_iff)

lemma f32_zero_eq_zero [simp]: "f32_eq 0 0"
  by (simp add: f32_eq_zero_iff)

lemma guid_after_Cons:
  assumes "guid_after has val seen g r"
    and "\<And>i. has i \<noteq> e" "\<And>i. val i \<noteq> e"
  shows "guid_after has val (e # seen) g r"
  using assms by (auto simp: guid_after_def or_marker_def)

lemma guid_after_has:
  assumes "guid_after has val seen g r" "has j \<notin> set seen" "val j \<notin> set seen"
    and "\<And>i i'. has i = has i' \<longleftrightarrow> i = i'" "\<And>i i'. val i \<noteq> has i'"
    and "b = (guid_byte g (byte_no j) \<noteq> 0)"
  shows "guid_after has val (has j # seen) g (guid_set_byte r (byte_no j) (of_bool b))"
  using assms by (auto simp: guid_after_def guid_byte_set or_marker_def)

lemma guid_after_val:
  assumes "guid_after has val seen g r"
    and "\<And>i i'. val i = val i' \<longleftrightarrow> i = i'" "\<And>i i'. has i \<noteq> val i'"
  shows "guid_after has val (val j # seen) g (guid_set_byte r (byte_no j) (guid_byte g (byte_no j)))"
  using assms by (auto simp: guid_after_def guid_byte_set or_marker_def)

lemma guid_after_marker:
  assumes "guid_after has val seen g r" "has j \<in> set seen" "val j \<notin> set seen"
  shows "guid_byte r (byte_no j) = of_bool (guid_byte g (byte_no j) \<noteq> 0)"
  using assms by (auto simp: guid_after_def or_marker_def)

text \<open>A transport guid of zero stays zero although its bits are never sent.\<close>

lemma guid_after_zero:
  assumes "guid_after has val seen 0 r"
  shows "guid_after has val (e # seen) 0 r"
proof -
  have "guid_byte 0 i = 0" for i by (simp add: guid_byte_def)
  then show ?thesis using assms by (simp add: guid_after_def or_marker_def split: if_splits)
qed

lemma mi_after_sel [simp]:
  "mi_flags (mi_after seen m old) = or_marker (MSEMovementFlags \<in> set seen)
     (MSEHasMovementFlags \<in> set seen) (mi_flags m) (mi_flags old)"
  "mi_flags2 (mi_after seen m old) = or_marker (MSEMovementFlags2 \<in> set seen)
     (MSEHasMovementFlags2 \<in> set seen) (mi_flags2 m) (mi_flags2 old)"
  "mi_time (mi_after seen m old) = or_marker (MSETimestamp \<in> set seen)
     (MSEHasTimestamp \<in> set seen) (mi_time m) (mi_time old)"
  "mi_pitch (mi_after seen m old) = or_marker (MSEPitch \<in> set seen)
     (MSEHasPitch \<in> set seen) (mi_pitch m) (mi_pitch old)"
  "mi_splineElevation (mi_after seen m old) = or_marker (MSESplineElevation \<in> set seen)
     (MSEHasSplineElevation \<in> set seen) (mi_splineElevation m) (mi_splineElevation old)"
  "mi_Alive32 (mi_after seen m old) = or_marker (MSEUnkTime \<in> set seen)
     (MSEHasUnkTime \<in> set seen) (mi_Alive32 m) (mi_Alive32 old)"
  "hasFallData (mi_after seen m old) = (if MSEHasFallData \<in> set seen then hasFallData m else hasFallData old)"
  "hasFallDirection (mi_after seen m old) =
     (if MSEHasFallDirection \<in> set seen \<and> hasFallData m then hasFallDirection m else hasFallDirection old)"
  "has_t_time2 (mi_after seen m old) =
     (if MSEHasTransportTime2 \<in> set seen \<and> hasTransportData m then has_t_time2 m else has_t_time2 old)"
  "has_t_time3 (mi_after seen m old) =
     (if MSEHasTransportTime3 \<in> set seen \<and> hasTransportData m then has_t_time3 m else has_t_time3 old)"
  "m_orientation (mi_pos (mi_after seen m old)) =
     (if MSEHasOrientation \<in> set seen
      then if HaveOrientation (mi_pos m)
           then if MSEOrientation \<in> set seen then NormalizeOrientation (m_orientation (mi_pos m)) else 0x3F800000
           else 0
      else m_orientation (mi_pos old))"
  by (simp_all add: mi_after_def Let_def if_sent_def)

lemmas mi_after_simps = mi_after_def Let_def if_sent_def SetOrientation_def hasMovementFlags_def
  hasMovementFlags2_def

lemmas step_simps = reads_as_def element_ok_def wr_if_def or_marker_def set_defs extra_after_def
  extra_written_def SetOrientation_def

text \<open>Everything seen has its prerequisites seen, so a marker not yet seen has no value seen.\<close>

definition closed :: "mse list \<Rightarrow> bool" where
  "closed seen \<longleftrightarrow> (\<forall>v \<in> set seen. set (mse_requires v) \<subseteq> set seen)"

lemma closed_Cons: "closed seen \<Longrightarrow> element_ok seen early e \<Longrightarrow> closed (e # seen)"
  by (auto simp: closed_def element_ok_def list_all_iff)

lemma value_not_seen:
  "closed seen \<Longrightarrow> element_ok seen early e \<Longrightarrow> \<not> mse_repeatable e \<Longrightarrow> e \<in> set (mse_requires v)
   \<Longrightarrow> v \<notin> set seen"
  by (auto simp: closed_def element_ok_def)

definition carries ::
  "mse list \<Rightarrow> movement_info \<Rightarrow> extra_element option \<Rightarrow> movement_info \<Rightarrow> extra_element option
   \<Rightarrow> extra_element option \<Rightarrow> read_state \<Rightarrow> bool" where
  "carries seen m xw old xr x' =
     (\<lambda>s'. reads_as seen m xw old xr s' \<and> x' = extra_written seen xw)"

lemmas step_defs = step_simps carries_def hasMovementFlags_def hasMovementFlags2_def

lemma element_step_has_guid:
  assumes "in_step st early w (rs_data s)" "reads_as seen m xw old xr s"
    and "element_ok seen early e" "closed seen" "extended_by w' st"
    and "write_element m e (w, extra_written seen xw) = Inr (w', x')"
    and "e = MSEHasGuidByte i"
  shows "simulates st (next_early (mse_kind e) early) w' (carries (e # seen) m xw old xr x') (read_element e s)"
proof -
  have val: "MSEGuidByte i \<notin> set seen" and new: "MSEHasGuidByte i \<notin> set seen"
    using value_not_seen [OF assms(4,3), of "MSEGuidByte i"] assms(3,7) by (auto simp: element_ok_def)
  have "guid_after MSEHasGuidByte MSEGuidByte seen (mi_guid m) (rs_guid s)"
    using assms(2) by (simp add: reads_as_def)
  note g = guid_after_has [OF this new val]
  show ?thesis using assms val
    by (simp add: step_defs split: if_splits)
      ((rule sim_bit, assumption+); simp add: mi_after_simps guid_after_Cons g)+
qed

lemma element_step_has_tguid:
  assumes "in_step st early w (rs_data s)" "reads_as seen m xw old xr s"
    and "element_ok seen early e" "closed seen" "extended_by w' st"
    and "write_element m e (w, extra_written seen xw) = Inr (w', x')"
    and "e = MSEHasTransportGuidByte i"
  shows "simulates st (next_early (mse_kind e) early) w' (carries (e # seen) m xw old xr x') (read_element e s)"
proof -
  have val: "MSETransportGuidByte i \<notin> set seen" and new: "MSEHasTransportGuidByte i \<notin> set seen"
    using value_not_seen [OF assms(4,3), of "MSETransportGuidByte i"] assms(3,7) by (auto simp: element_ok_def)
  have g0: "guid_after MSEHasTransportGuidByte MSETransportGuidByte seen (t_guid (mi_transport m)) (rs_tguid s)"
    using assms(2) by (simp add: reads_as_def)
  note g = guid_after_has [OF g0 new val]
  have z: "\<not> hasTransportData m \<Longrightarrow> guid_after MSEHasTransportGuidByte MSETransportGuidByte
      (e # seen) (t_guid (mi_transport m)) (rs_tguid s)"
    using guid_after_zero g0 by (simp add: hasTransportData_def)
  show ?thesis using assms val z
    by (simp add: step_defs split: if_splits)
      ((rule sim_bit sim_none, assumption, assumption?, assumption?); simp add: mi_after_simps guid_after_Cons g)+
qed

lemma element_step_guid:
  assumes "in_step st early w (rs_data s)" "reads_as seen m xw old xr s"
    and "element_ok seen early e" "closed seen" "extended_by w' st"
    and "write_element m e (w, extra_written seen xw) = Inr (w', x')"
    and "e = MSEGuidByte i"
  shows "simulates st (next_early (mse_kind e) early) w' (carries (e # seen) m xw old xr x') (read_element e s)"
proof -
  have g0: "guid_after MSEHasGuidByte MSEGuidByte seen (mi_guid m) (rs_guid s)"
    using assms(2) by (simp add: reads_as_def)
  note g = guid_after_val [OF g0, of i]
  have "MSEHasGuidByte i \<in> set seen" "MSEGuidByte i \<notin> set seen"
    using assms(3,7) by (auto simp: element_ok_def)
  note mark = guid_after_marker [OF g0 this]
  show ?thesis using assms
    by (simp add: step_defs split: if_splits)
      ((rule sim_seq, assumption+); simp add: mi_after_simps guid_after_Cons g mark)+
qed

lemma element_step_tguid:
  assumes "in_step st early w (rs_data s)" "reads_as seen m xw old xr s"
    and "element_ok seen early e" "closed seen" "extended_by w' st"
    and "write_element m e (w, extra_written seen xw) = Inr (w', x')"
    and "e = MSETransportGuidByte i"
  shows "simulates st (next_early (mse_kind e) early) w' (carries (e # seen) m xw old xr x') (read_element e s)"
proof -
  have g0: "guid_after MSEHasTransportGuidByte MSETransportGuidByte seen (t_guid (mi_transport m)) (rs_tguid s)"
    using assms(2) by (simp add: reads_as_def)
  note g = guid_after_val [OF g0, of i]
  have "MSEHasTransportGuidByte i \<in> set seen" "MSETransportGuidByte i \<notin> set seen"
    using assms(3,7) by (auto simp: element_ok_def)
  note mark = guid_after_marker [OF g0 this]
  have z: "\<not> hasTransportData m \<Longrightarrow> guid_after MSEHasTransportGuidByte MSETransportGuidByte
      (e # seen) (t_guid (mi_transport m)) (rs_tguid s)"
    using guid_after_zero g0 by (simp add: hasTransportData_def)
  show ?thesis
  proof (cases "hasTransportData m")
    case True
    then show ?thesis using assms
      by (simp add: step_defs split: if_splits)
        ((rule sim_seq, assumption+); simp add: mi_after_simps guid_after_Cons g mark)+
  next
    case False
    then show ?thesis using assms z
      by (simp add: step_defs split: if_splits)
        ((rule sim_none, assumption); simp add: mi_after_simps guid_after_Cons)+
  qed
qed

lemma element_step_flags:
  assumes "in_step st early w (rs_data s)" "reads_as seen m xw old xr s"
    and "element_ok seen early e" "closed seen" "extended_by w' st"
    and "write_element m e (w, extra_written seen xw) = Inr (w', x')"
    and "e = MSEMovementFlags" "sendable m"
  shows "simulates st (next_early (mse_kind e) early) w' (carries (e # seen) m xw old xr x') (read_element e s)"
proof -
  have above: "\<And>i. 30 \<le> i \<Longrightarrow> \<not> bit (mi_flags m) i"
    using assms(8) not_bit_above [of "mi_flags m" 30] by (simp add: sendable_def)
  show ?thesis using assms
    by (simp add: step_defs split: if_splits)
      ((rule sim_bits [where u = "mi_flags m"] sim_none, assumption, assumption?, assumption?);
       simp add: mi_after_simps or_marker_def guid_after_Cons above)+
qed

lemma element_step_flags2:
  assumes "in_step st early w (rs_data s)" "reads_as seen m xw old xr s"
    and "element_ok seen early e" "closed seen" "extended_by w' st"
    and "write_element m e (w, extra_written seen xw) = Inr (w', x')"
    and "e = MSEMovementFlags2" "sendable m"
  shows "simulates st (next_early (mse_kind e) early) w' (carries (e # seen) m xw old xr x') (read_element e s)"
proof -
  have above: "\<And>i. 13 \<le> i \<Longrightarrow> \<not> bit (ucast (mi_flags2 m) :: u32) i"
    using assms(8) not_bit_above [of "mi_flags2 m" 13] by (simp add: sendable_def bit_ucast_iff)
  have same: "\<And>i. i < 13 \<Longrightarrow> bit (ucast (mi_flags2 m) :: u32) i = bit (mi_flags2 m) i"
    by (simp add: bit_ucast_iff)
  have down_up: "ucast (ucast (mi_flags2 m) :: u32) = mi_flags2 m"
    by (rule bit_word_eqI) (simp add: bit_ucast_iff)
  show ?thesis using assms
    by (simp add: step_defs split: if_splits)
      ((rule sim_bits [where u = "ucast (mi_flags2 m)"] sim_none, assumption, assumption?, assumption?);
       simp add: mi_after_simps or_marker_def guid_after_Cons above same down_up)+
qed

lemma element_step_fall_direction:
  assumes "in_step st early w (rs_data s)" "reads_as seen m xw old xr s"
    and "element_ok seen early e" "closed seen" "extended_by w' st"
    and "write_element m e (w, extra_written seen xw) = Inr (w', x')"
    and "e \<in> {MSEFallCosAngle, MSEFallSinAngle, MSEFallHorizontalSpeed}"
  shows "simulates st (next_early (mse_kind e) early) w' (carries (e # seen) m xw old xr x') (read_element e s)"
proof -
  consider "hasFallData m" "hasFallDirection m" | "\<not> hasFallData m" | "hasFallData m" "\<not> hasFallDirection m" by blast
  then show ?thesis
  proof cases
    case 1
    then show ?thesis using assms
      by (elim insertE emptyE; simp add: step_defs split: if_splits)
        ((rule sim_u32, assumption+); simp add: mi_after_simps guid_after_Cons)+
  next
    case 2
    then show ?thesis using assms
      by (elim insertE emptyE; simp add: step_defs split: if_splits)
        ((rule sim_none, assumption); simp add: mi_after_simps guid_after_Cons)+
  next
    case 3
    then show ?thesis using assms
      by (elim insertE emptyE; simp add: step_defs split: if_splits)
        ((rule sim_none, assumption); simp add: mi_after_simps guid_after_Cons)+
  qed
qed

lemma element_step_transport_time2:
  assumes "in_step st early w (rs_data s)" "reads_as seen m xw old xr s"
    and "element_ok seen early e" "closed seen" "extended_by w' st"
    and "write_element m e (w, extra_written seen xw) = Inr (w', x')"
    and "e \<in> {MSETransportTime2}"
  shows "simulates st (next_early (mse_kind e) early) w' (carries (e # seen) m xw old xr x') (read_element e s)"
proof -
  consider "hasTransportData m" "has_t_time2 m" | "\<not> hasTransportData m" | "hasTransportData m" "\<not> has_t_time2 m" by blast
  then show ?thesis
  proof cases
    case 1
    then show ?thesis using assms
      by (elim insertE emptyE; simp add: step_defs split: if_splits)
        ((rule sim_u32, assumption+); simp add: mi_after_simps guid_after_Cons)+
  next
    case 2
    then show ?thesis using assms
      by (elim insertE emptyE; simp add: step_defs split: if_splits)
        ((rule sim_none, assumption); simp add: mi_after_simps guid_after_Cons)+
  next
    case 3
    then show ?thesis using assms
      by (elim insertE emptyE; simp add: step_defs split: if_splits)
        ((rule sim_none, assumption); simp add: mi_after_simps guid_after_Cons)+
  qed
qed

lemma element_step_transport_time3:
  assumes "in_step st early w (rs_data s)" "reads_as seen m xw old xr s"
    and "element_ok seen early e" "closed seen" "extended_by w' st"
    and "write_element m e (w, extra_written seen xw) = Inr (w', x')"
    and "e \<in> {MSETransportTime3}"
  shows "simulates st (next_early (mse_kind e) early) w' (carries (e # seen) m xw old xr x') (read_element e s)"
proof -
  consider "hasTransportData m" "has_t_time3 m" | "\<not> hasTransportData m" | "hasTransportData m" "\<not> has_t_time3 m" by blast
  then show ?thesis
  proof cases
    case 1
    then show ?thesis using assms
      by (elim insertE emptyE; simp add: step_defs split: if_splits)
        ((rule sim_u32, assumption+); simp add: mi_after_simps guid_after_Cons)+
  next
    case 2
    then show ?thesis using assms
      by (elim insertE emptyE; simp add: step_defs split: if_splits)
        ((rule sim_none, assumption); simp add: mi_after_simps guid_after_Cons)+
  next
    case 3
    then show ?thesis using assms
      by (elim insertE emptyE; simp add: step_defs split: if_splits)
        ((rule sim_none, assumption); simp add: mi_after_simps guid_after_Cons)+
  qed
qed

lemma element_step_markers:
  assumes "in_step st early w (rs_data s)" "reads_as seen m xw old xr s"
    and "element_ok seen early e" "closed seen" "extended_by w' st"
    and "write_element m e (w, extra_written seen xw) = Inr (w', x')"
    and "e \<in> {MSEHasMovementFlags, MSEHasMovementFlags2, MSEHasTimestamp, MSEHasPitch,
      MSEHasSplineElevation, MSEHasUnkTime}"
  shows "simulates st (next_early (mse_kind e) early) w' (carries (e # seen) m xw old xr x') (read_element e s)"
proof -
  note unseen = value_not_seen [OF assms(4,3)]
  show ?thesis using assms unseen [of MSEMovementFlags] unseen [of MSEMovementFlags2] unseen [of MSETimestamp] unseen [of MSEPitch] unseen [of MSESplineElevation] unseen [of MSEUnkTime]
    by (elim insertE emptyE; simp add: step_defs split: if_splits)
      ((intro conjI impI)?; (rule sim_bit, assumption, assumption?, assumption?);
       simp add: mi_after_simps or_marker_def guid_after_Cons)+
qed

lemma element_step_has_orientation:
  assumes "in_step st early w (rs_data s)" "reads_as seen m xw old xr s"
    and "element_ok seen early e" "closed seen" "extended_by w' st"
    and "write_element m e (w, extra_written seen xw) = Inr (w', x')"
    and "e \<in> {MSEHasOrientation}"
  shows "simulates st (next_early (mse_kind e) early) w' (carries (e # seen) m xw old xr x') (read_element e s)"
proof -
  note unseen = value_not_seen [OF assms(4,3)]
  show ?thesis using assms unseen [of MSEOrientation]
    by (elim insertE emptyE; simp add: step_defs split: if_splits)
      ((intro conjI impI)?; (rule sim_bit, assumption, assumption?, assumption?);
       simp add: mi_after_simps or_marker_def guid_after_Cons)+
qed

lemma element_step_bits:
  assumes "in_step st early w (rs_data s)" "reads_as seen m xw old xr s"
    and "element_ok seen early e" "closed seen" "extended_by w' st"
    and "write_element m e (w, extra_written seen xw) = Inr (w', x')"
    and "e \<in> {MSEHasTransportData, MSEHasFallData, MSEHasSpline, MSEZeroBit,
      MSEOneBit}"
  shows "simulates st (next_early (mse_kind e) early) w' (carries (e # seen) m xw old xr x') (read_element e s)"
proof -
  note unseen = value_not_seen [OF assms(4,3)]
  show ?thesis using assms unseen [of MSEHasFallDirection]
    by (elim insertE emptyE; simp add: step_defs split: if_splits)
      ((intro conjI impI)?; (rule sim_bit, assumption, assumption?, assumption?);
       simp add: mi_after_simps or_marker_def guid_after_Cons)+
qed

lemma element_step_optional_bits:
  assumes "in_step st early w (rs_data s)" "reads_as seen m xw old xr s"
    and "element_ok seen early e" "closed seen" "extended_by w' st"
    and "write_element m e (w, extra_written seen xw) = Inr (w', x')"
    and "e \<in> {MSEHasTransportTime2, MSEHasTransportTime3, MSEHasFallDirection}"
  shows "simulates st (next_early (mse_kind e) early) w' (carries (e # seen) m xw old xr x') (read_element e s)"
  using assms
  by (elim insertE emptyE; simp add: step_defs split: if_splits)
    ((intro conjI impI)?; (rule sim_bit sim_none, assumption, assumption?, assumption?);
     simp add: mi_after_simps or_marker_def guid_after_Cons)+

lemma element_step_marked_values:
  assumes "in_step st early w (rs_data s)" "reads_as seen m xw old xr s"
    and "element_ok seen early e" "closed seen" "extended_by w' st"
    and "write_element m e (w, extra_written seen xw) = Inr (w', x')"
    and "e \<in> {MSETimestamp, MSEPitch, MSESplineElevation, MSEUnkTime}"
  shows "simulates st (next_early (mse_kind e) early) w' (carries (e # seen) m xw old xr x') (read_element e s)"
  using assms
  by (elim insertE emptyE; simp add: step_defs split: if_splits)
    ((intro conjI impI)?; (rule sim_u32 sim_none, assumption, assumption?, assumption?);
     simp add: mi_after_simps or_marker_def guid_after_Cons)+

lemma element_step_orientation:
  assumes "in_step st early w (rs_data s)" "reads_as seen m xw old xr s"
    and "element_ok seen early e" "closed seen" "extended_by w' st"
    and "write_element m e (w, extra_written seen xw) = Inr (w', x')"
    and "e \<in> {MSEOrientation}"
  shows "simulates st (next_early (mse_kind e) early) w' (carries (e # seen) m xw old xr x') (read_element e s)"
  using assms
  by (elim insertE emptyE; simp add: step_defs split: if_splits)
    ((intro conjI impI)?; (rule sim_u32 sim_none, assumption, assumption?, assumption?);
     simp add: mi_after_simps or_marker_def guid_after_Cons)+

lemma element_step_position:
  assumes "in_step st early w (rs_data s)" "reads_as seen m xw old xr s"
    and "element_ok seen early e" "closed seen" "extended_by w' st"
    and "write_element m e (w, extra_written seen xw) = Inr (w', x')"
    and "e \<in> {MSEPositionX, MSEPositionY, MSEPositionZ}"
  shows "simulates st (next_early (mse_kind e) early) w' (carries (e # seen) m xw old xr x') (read_element e s)"
  using assms
  by (elim insertE emptyE; simp add: step_defs split: if_splits)
    ((intro conjI impI)?; (rule sim_u32, assumption, assumption?, assumption?);
     simp add: mi_after_simps or_marker_def guid_after_Cons)+

lemma element_step_transport_position:
  assumes "in_step st early w (rs_data s)" "reads_as seen m xw old xr s"
    and "element_ok seen early e" "closed seen" "extended_by w' st"
    and "write_element m e (w, extra_written seen xw) = Inr (w', x')"
    and "e \<in> {MSETransportPositionX, MSETransportPositionY, MSETransportPositionZ, MSETransportOrientation}"
  shows "simulates st (next_early (mse_kind e) early) w' (carries (e # seen) m xw old xr x') (read_element e s)"
  using assms
  by (elim insertE emptyE; simp add: step_defs split: if_splits)
    ((intro conjI impI)?; (rule sim_u32 sim_none, assumption, assumption?, assumption?);
     simp add: mi_after_simps or_marker_def guid_after_Cons)+

lemma element_step_optional_values:
  assumes "in_step st early w (rs_data s)" "reads_as seen m xw old xr s"
    and "element_ok seen early e" "closed seen" "extended_by w' st"
    and "write_element m e (w, extra_written seen xw) = Inr (w', x')"
    and "e \<in> {MSETransportSeat, MSETransportTime, MSEFallTime, MSEFallVerticalSpeed}"
  shows "simulates st (next_early (mse_kind e) early) w' (carries (e # seen) m xw old xr x') (read_element e s)"
  using assms
  by (elim insertE emptyE; simp add: step_defs split: if_splits)
    ((intro conjI impI)?; (rule sim_u32 sim_u8 sim_none, assumption, assumption?, assumption?);
     simp add: mi_after_simps or_marker_def guid_after_Cons)+

lemma element_step_forces:
  assumes "in_step st early w (rs_data s)" "reads_as seen m xw old xr s"
    and "element_ok seen early e" "closed seen" "extended_by w' st"
    and "write_element m e (w, extra_written seen xw) = Inr (w', x')"
    and "e \<in> {MSERemoveMovementForcesCount, MSEMovementForcesId, MSECounter}"
  shows "simulates st (next_early (mse_kind e) early) w' (carries (e # seen) m xw old xr x') (read_element e s)"
  using assms
  by (elim insertE emptyE; simp add: step_defs split: if_splits)
    ((intro conjI impI)?; (rule sim_bits sim_skip4 sim_skip0, assumption, assumption?, assumption?);
     simp add: mi_after_simps or_marker_def guid_after_Cons)+

lemma element_step_extra:
  assumes "in_step st early w (rs_data s)" "reads_as seen m xw old xr s"
    and "element_ok seen early e" "closed seen" "extended_by w' st"
    and "write_element m e (w, extra_written seen xw) = Inr (w', x')"
    and "e = MSEExtraElement" "float_extra xw" "float_extra xr"
  shows "simulates st (next_early (mse_kind e) early) w' (carries (e # seen) m xw old xr x') (read_element e s)"
proof -
  from assms(8,9) obtain r q where
    r: "xw = Some r" "x_elements r = [MSEExtraFloat]" "x_index r = 0" and
    q: "xr = Some q" "x_elements q = [MSEExtraFloat]" "x_index q = 0" by (auto simp: float_extra_def)
  have new: "MSEExtraElement \<notin> set seen" using assms(3,7) by (simp add: element_ok_def)
  have s: "rs_extras s = Some q" using assms(2) q new by (simp add: step_simps)
  have "append_bytes (le_bytes 4 (x_floatData r)) w = Inr w'" and x': "x' = Some (r\<lparr>x_index := 1\<rparr>)"
    using assms(6,7) new r by (auto simp: extra_written_def WriteNextElement_def next_element_def append_u32_def)
  from in_step_append [OF assms(1) this(1) assms(5)] obtain d where
    d: "read_bytes 4 (rs_data s) = Inr (le_bytes 4 (x_floatData r), d)" "in_step st False w' d" by auto
  then have "read_u32 (rs_data s) = Inr (x_floatData r, d)"
    by (simp add: read_u32_def read_word_def)
  then show ?thesis using assms(2,7) d s q r x' new
    by (simp add: simulates_def ReadNextElement_def next_element_def step_defs mi_after_simps guid_after_Cons)
qed

text \<open>Every element the check admits keeps reader and writer in step.\<close>

lemmas element_steps = element_step_has_guid element_step_has_tguid element_step_guid element_step_tguid
  element_step_flags element_step_flags2 element_step_fall_direction element_step_transport_time2
  element_step_transport_time3 element_step_markers element_step_has_orientation element_step_bits
  element_step_optional_bits element_step_marked_values element_step_orientation element_step_position
  element_step_transport_position element_step_optional_values element_step_forces

lemma element_step:
  assumes "in_step st early w (rs_data s)" "reads_as seen m xw old xr s"
    and "element_ok seen early e" "closed seen" "extended_by w' st"
    and "write_element m e (w, extra_written seen xw) = Inr (w', x')"
    and "sendable m" "e = MSEExtraElement \<longrightarrow> float_extra xw \<and> float_extra xr"
  shows "simulates st (next_early (mse_kind e) early) w' (carries (e # seen) m xw old xr x') (read_element e s)"
proof (cases "e = MSEExtraElement")
  case True
  then show ?thesis using element_step_extra [OF assms(1-6)] assms(8) by blast
next
  case False
  note steps = element_steps [OF assms(1-6)]
  have "mse_kind e \<noteq> NotWritten" using assms(3) by (simp add: element_ok_def)
  then show ?thesis using False assms(7)
    by (cases e) (((rule steps; simp); fail) | (simp; fail))+
qed

end
