(* ===== verification/MovementProtocol.thy ===== *)
theory MovementProtocol
  imports MovementSteps
begin

unbundle bit_operations_syntax

text \<open>
  The movement protocol as a whole.  \<open>sequence_step\<close> lifts the one-element simulation to the loops
  of \<open>ReadMovementInfo\<close> and \<open>WriteMovementInfo\<close>; the theorems state the round trip for every opcode
  whose table passes the check, that the writer never fails on such a table, and which tables of
  the code pass it.
\<close>

section \<open>The writer\<close>











section \<open>Reader and writer together\<close>





lemma guid_byte_zero [simp]: "guid_byte 0 i = 0"
  by (simp add: guid_byte_def)







section \<open>The round trip\<close>

definition table_ok :: "u16 \<Rightarrow> bool" where
  "table_ok opcode =
     (case GetMovementStatusElementsSequence opcode of
        None \<Rightarrow> False
      | Some seq \<Rightarrow> sequence_ok seq \<and> length seq \<le> 100)"






section \<open>The tables of the code\<close>


text \<open>Those that carry every field of the movement info.\<close>

definition full_opcodes :: "u16 list" where
  "full_opcodes =
     [CMSG_MOVE_FALL_LAND, CMSG_MOVE_HEARTBEAT, CMSG_MOVE_JUMP, CMSG_MOVE_SET_FACING,
     CMSG_MOVE_START_ASCEND, CMSG_MOVE_START_BACKWARD, CMSG_MOVE_START_DESCEND,
     CMSG_MOVE_START_FORWARD, CMSG_MOVE_START_PITCH_DOWN, CMSG_MOVE_START_PITCH_UP,
     CMSG_MOVE_START_STRAFE_LEFT, CMSG_MOVE_START_STRAFE_RIGHT, CMSG_MOVE_START_SWIM,
     CMSG_MOVE_START_TURN_LEFT, CMSG_MOVE_START_TURN_RIGHT, CMSG_MOVE_STOP,
     CMSG_MOVE_STOP_ASCEND, CMSG_MOVE_STOP_PITCH, CMSG_MOVE_STOP_STRAFE, CMSG_MOVE_STOP_SWIM,
     CMSG_MOVE_STOP_TURN, CMSG_MOVE_CHNG_TRANSPORT, CMSG_DISMISS_CONTROLLED_VEHICLE,
     CMSG_FORCE_MOVE_ROOT_ACK, CMSG_FORCE_MOVE_UNROOT_ACK, CMSG_MOVE_KNOCK_BACK_ACK,
     CMSG_MOVE_SET_CAN_FLY_ACK, SMSG_MOVE_UPDATE_KNOCK_BACK]"

definition every_byte :: "(byte_index \<Rightarrow> mse) \<Rightarrow> mse list" where
  "every_byte f = map f [B0, B1, B2, B3, B4, B5, B6, B7]"

definition field_elements :: "mse list" where
  "field_elements =
     [MSEHasMovementFlags, MSEMovementFlags, MSEHasMovementFlags2, MSEMovementFlags2, MSEPositionX,
      MSEPositionY, MSEPositionZ, MSEHasOrientation, MSEOrientation, MSEHasTimestamp, MSETimestamp,
      MSETransportPositionX, MSETransportPositionY, MSETransportPositionZ, MSETransportOrientation,
      MSETransportSeat, MSETransportTime, MSEHasTransportTime2, MSETransportTime2,
      MSEHasTransportTime3, MSETransportTime3, MSEHasPitch, MSEPitch, MSEHasFallData, MSEFallTime,
      MSEFallVerticalSpeed, MSEHasFallDirection, MSEFallCosAngle, MSEFallSinAngle,
      MSEFallHorizontalSpeed, MSEHasSplineElevation, MSESplineElevation, MSEHasUnkTime, MSEUnkTime]
     @ every_byte MSEGuidByte @ every_byte MSETransportGuidByte"

definition carries_all :: "mse list \<Rightarrow> bool" where
  "carries_all seq \<longleftrightarrow> list_all (\<lambda>e. List.member seq e) field_elements"

definition table_full :: "u16 \<Rightarrow> bool" where
  "table_full opcode =
     (case GetMovementStatusElementsSequence opcode of
        None \<Rightarrow> False
      | Some seq \<Rightarrow> carries_all seq)"


text \<open>
  The 28 opcodes of \<open>full_opcodes\<close>, among them all the movement opcodes of the client, pass the
  check with a table that carries every field of the movement info.
\<close>

lemma full_tables: "list_all (\<lambda>op. table_ok op \<and> table_full op) full_opcodes"
  by code_simp






section \<open>PacketSender\<close>



section \<open>A table that loses a guid byte\<close>

text \<open>Without its presence bit a guid byte stays zero.\<close>

lemma read_element_byte:
  assumes "read_element e s = Inr s'" "e \<noteq> MSEHasGuidByte i" "guid_byte (rs_guid s) (byte_no i) = 0"
  shows "guid_byte (rs_guid s') (byte_no i) = 0"
  using assms
  by (cases e)
    (auto simp: rd_bit_def rd_bits_def rd_u32_def rd_u8_def rd_seq_def rd_skip_def set_defs guid_byte_set
      ReadByteSeq_def Let_def split: if_splits option.splits)

lemma read_sequence_byte:
  assumes "read_sequence es s = Inr s'" "MSEHasGuidByte i \<notin> set es" "guid_byte (rs_guid s) (byte_no i) = 0"
  shows "guid_byte (rs_guid s') (byte_no i) = 0"
  using assms
proof (induction es arbitrary: s)
  case (Cons e es)
  then show ?case using read_element_byte [of e s _ i] by (auto split: if_splits)
qed simp

text \<open>
  The table of \<open>SMSG_SPLINE_MOVE_SET_WALK_MODE\<close> lists \<open>MSEHasGuidByte2\<close> twice and
  \<open>MSEHasGuidByte6\<close> never, so whatever packet is read with it, byte 6 of the guid comes out as zero:
  the guid of a unit with a non-zero byte 6 cannot be received.
\<close>

lemma walk_mode_loses_byte6:
  assumes "ReadMovementInfo fuzzyNe0 SMSG_SPLINE_MOVE_SET_WALK_MODE data mi x = Inr (d, mi', x')"
  shows "guid_byte (mi_guid mi') 6 = 0"
proof -
  have seq: "GetMovementStatusElementsSequence SMSG_SPLINE_MOVE_SET_WALK_MODE = Some SplineMoveSetWalkMode"
    by (simp add: GetMovementStatusElementsSequence_def opcode_defs)
  have "MSEHasGuidByte B6 \<notin> set SplineMoveSetWalkMode" by (simp add: SplineMoveSetWalkMode_def)
  note byte = read_sequence_byte [OF _ this]
  from assms obtain s where "read_sequence SplineMoveSetWalkMode
      \<lparr>rs_data = data, rs_mi = mi, rs_guid = 0, rs_tguid = 0, rs_hasTransportData = False,
       rs_hasSpline = False, rs_bitcounterLoop = 0, rs_extras = x\<rparr> = Inr s"
    "mi_guid mi' = rs_guid s"
    by (auto simp: ReadMovementInfo_def seq Let_def AddMovementFlag_def)
  then show ?thesis using byte by simp
qed

section \<open>Instances\<close>












end
