(* ===== verification/Timer.thy ===== *)
theory Timer
  imports Prelude
begin

text \<open>
  Model of \<^verbatim>\<open>src/server/shared/Utilities/Timer.h\<close>: the wrap-around difference of millisecond
  clocks and the four timers every manager of the server ticks with.

  \<open>time_t\<close> is a signed 64-bit count of milliseconds; the sums stay far below its range (an overflow
  would be undefined behaviour), so it is \<open>int\<close>.  \<open>TimeTrackerSmall\<close> and \<open>PeriodicTimer\<close> mix \<open>int32\<close>
  and \<open>uint32\<close>: they are 32-bit words, read as signed where the code compares them.
\<close>

unbundle bit_operations_syntax

section \<open>Clock differences\<close>

definition getMSTimeDiff :: "u32 \<Rightarrow> u32 \<Rightarrow> u32" where
  "getMSTimeDiff oldMSTime newMSTime =
     (if oldMSTime > newMSTime then (0xFFFFFFFF - oldMSTime) + newMSTime else newMSTime - oldMSTime)"

text \<open>
  While the millisecond clock has not wrapped since the old reading, \<open>getMSTimeDiff\<close> is the
  elapsed time; once it has wrapped it is one millisecond less than the elapsed time (the
  difference modulo \<open>2 ^ 32\<close>).
\<close>

lemma ms_time_diff_wrap:
  "getMSTimeDiff old new = (if old \<le> new then new - old else new - old - 1)"
proof -
  have "(0xFFFFFFFF :: u32) = - 1" by simp
  then show ?thesis by (auto simp: getMSTimeDiff_def)
qed

section \<open>IntervalTimer\<close>

record interval_timer =
  it_interval :: int
  it_current :: int

definition IntervalTimer :: interval_timer where
  "IntervalTimer = \<lparr>it_interval = 0, it_current = 0\<rparr>"

definition it_Update :: "int \<Rightarrow> interval_timer \<Rightarrow> interval_timer" where
  "it_Update diff t = (let c = it_current t + diff in t\<lparr>it_current := (if c < 0 then 0 else c)\<rparr>)"

definition it_Passed :: "interval_timer \<Rightarrow> bool" where
  "it_Passed t \<longleftrightarrow> it_current t \<ge> it_interval t"

definition it_Reset :: "interval_timer \<Rightarrow> interval_timer" where
  "it_Reset t = (if it_current t \<ge> it_interval t then t\<lparr>it_current := it_current t - it_interval t\<rparr> else t)"

definition it_SetCurrent :: "int \<Rightarrow> interval_timer \<Rightarrow> interval_timer" where
  "it_SetCurrent current t = t\<lparr>it_current := current\<rparr>"

definition it_SetInterval :: "int \<Rightarrow> interval_timer \<Rightarrow> interval_timer" where
  "it_SetInterval interval t = t\<lparr>it_interval := interval\<rparr>"

text \<open>How the managers use it: update by the tick, and when it passed, reset it and do the work.\<close>

definition it_tick :: "int \<Rightarrow> nat \<times> interval_timer \<Rightarrow> nat \<times> interval_timer" where
  "it_tick diff s =
     (let t = it_Update diff (snd s) in
      if it_Passed t then (fst s + 1, it_Reset t) else (fst s, t))"

lemma it_tick_step:
  assumes "0 \<le> diff" "0 \<le> it_current t"
  shows "it_interval (snd (it_tick diff (n, t))) = it_interval t"
    and "0 \<le> it_current (snd (it_tick diff (n, t)))"
    and "int (fst (it_tick diff (n, t))) * it_interval t + it_current (snd (it_tick diff (n, t))) =
      int n * it_interval t + it_current t + diff"
  using assms by (auto simp: it_tick_def it_Update_def it_Passed_def it_Reset_def Let_def algebra_simps)

text \<open>
  Over any series of non-negative ticks an \<open>IntervalTimer\<close> loses no time: the number of times it
  fired times its interval, plus what it still holds, is the time it held at the start plus the sum
  of the ticks.
\<close>

lemma interval_timer_conserves:
  assumes "list_all (\<lambda>d. 0 \<le> d) diffs" "0 \<le> it_current t"
  shows "int (fst (fold it_tick diffs (0, t))) * it_interval t + it_current (snd (fold it_tick diffs (0, t))) =
     it_current t + sum_list diffs"
proof -
  have "it_interval (snd (fold it_tick diffs (n, t))) = it_interval t \<and>
      int (fst (fold it_tick diffs (n, t))) * it_interval t + it_current (snd (fold it_tick diffs (n, t))) =
      int n * it_interval t + it_current t + sum_list diffs" for n
    using assms
  proof (induction diffs arbitrary: n t)
    case (Cons d diffs)
    obtain m u where mu: "it_tick d (n, t) = (m, u)" by (cases "it_tick d (n, t)")
    note step = it_tick_step [of d t n, unfolded mu]
    show ?case using Cons.IH [of u m] Cons.prems step mu by simp
  qed simp
  from this [of 0] show ?thesis by simp
qed

section \<open>TimeTracker\<close>

record time_tracker =
  i_expiryTime :: int

definition tt_Update :: "int \<Rightarrow> time_tracker \<Rightarrow> time_tracker" where
  "tt_Update diff t = t\<lparr>i_expiryTime := i_expiryTime t - diff\<rparr>"

definition tt_Passed :: "time_tracker \<Rightarrow> bool" where
  "tt_Passed t \<longleftrightarrow> i_expiryTime t \<le> 0"

definition tt_Reset :: "int \<Rightarrow> time_tracker \<Rightarrow> time_tracker" where
  "tt_Reset interval t = t\<lparr>i_expiryTime := interval\<rparr>"

section \<open>TimeTrackerSmall\<close>

record time_tracker_small =
  tts_expiryTime :: u32

definition TimeTrackerSmall :: "u32 \<Rightarrow> time_tracker_small" where
  "TimeTrackerSmall expiry = \<lparr>tts_expiryTime = expiry\<rparr>"

definition tts_Update :: "u32 \<Rightarrow> time_tracker_small \<Rightarrow> time_tracker_small" where
  "tts_Update diff t = t\<lparr>tts_expiryTime := tts_expiryTime t - diff\<rparr>"

definition tts_Passed :: "time_tracker_small \<Rightarrow> bool" where
  "tts_Passed t \<longleftrightarrow> sint (tts_expiryTime t) \<le> 0"

definition tts_Reset :: "u32 \<Rightarrow> time_tracker_small \<Rightarrow> time_tracker_small" where
  "tts_Reset interval t = t\<lparr>tts_expiryTime := interval\<rparr>"

section \<open>PeriodicTimer\<close>

record periodic_timer =
  i_period :: u32
  i_expireTime :: u32

definition PeriodicTimer :: "u32 \<Rightarrow> u32 \<Rightarrow> periodic_timer" where
  "PeriodicTimer period start_time = \<lparr>i_period = period, i_expireTime = start_time\<rparr>"

text \<open>\<open>i_expireTime -= diff\<close> and \<open>i_expireTime += ...\<close> are computed unsigned and stored signed.\<close>

definition pt_Update :: "u32 \<Rightarrow> periodic_timer \<Rightarrow> bool \<times> periodic_timer" where
  "pt_Update diff t =
     (let t = t\<lparr>i_expireTime := i_expireTime t - diff\<rparr> in
      if sint (i_expireTime t) > 0 then (False, t)
      else (True, t\<lparr>i_expireTime := i_expireTime t + (if sint (i_period t) > sint diff then i_period t else diff)\<rparr>))"

definition pt_SetPeriodic :: "u32 \<Rightarrow> u32 \<Rightarrow> periodic_timer \<Rightarrow> periodic_timer" where
  "pt_SetPeriodic period start_time t = t\<lparr>i_expireTime := start_time, i_period := period\<rparr>"

definition TUpdate :: "u32 \<Rightarrow> periodic_timer \<Rightarrow> periodic_timer" where
  "TUpdate diff t = t\<lparr>i_expireTime := i_expireTime t - diff\<rparr>"

definition TPassed :: "periodic_timer \<Rightarrow> bool" where
  "TPassed t \<longleftrightarrow> sint (i_expireTime t) \<le> 0"

definition TReset :: "u32 \<Rightarrow> u32 \<Rightarrow> periodic_timer \<Rightarrow> periodic_timer" where
  "TReset diff period t =
     t\<lparr>i_expireTime := i_expireTime t + (if sint period > sint diff then period else diff)\<rparr>"

text \<open>Signed reading of a sum and a difference that stay in range.\<close>

lemma sint_range: "(- (2 ^ 31) :: int) \<le> sint (w :: u32)" "sint (w :: u32) < 2 ^ 31"
  using sint_greater_eq [of w] sint_less [of w] by simp_all

lemma sint_add_small:
  fixes a b :: u32
  assumes "- (2 ^ 31) \<le> sint a + sint b" "sint a + sint b < 2 ^ 31"
  shows "sint (a + b) = sint a + sint b"
  using assms by (simp add: sint_word_ariths signed_take_bit_int_eq_self)

lemma sint_diff_small:
  fixes a b :: u32
  assumes "- (2 ^ 31) \<le> sint a - sint b" "sint a - sint b < 2 ^ 31"
  shows "sint (a - b) = sint a - sint b"
  using assms by (simp add: sint_word_ariths signed_take_bit_int_eq_self)

text \<open>
  A \<open>PeriodicTimer\<close> with a positive remaining time keeps it positive under every tick of less
  than \<open>2 ^ 30\<close> milliseconds: it fires exactly when the tick reaches the remaining time, and
  then the next expiry is a period later, or the length of the tick when that is longer.
\<close>

lemma periodic_timer_spec:
  assumes "0 < sint (i_expireTime t)" "sint (i_expireTime t) < 2 ^ 30"
    and "0 \<le> sint diff" "sint diff < 2 ^ 30" "sint (i_period t) < 2 ^ 30"
  shows "(fst (pt_Update diff t) \<longleftrightarrow> sint (i_expireTime t) \<le> sint diff) \<and>
     sint (i_expireTime (snd (pt_Update diff t))) =
      (if sint (i_expireTime t) \<le> sint diff
       then sint (i_expireTime t) - sint diff + max (sint (i_period t)) (sint diff)
       else sint (i_expireTime t) - sint diff) \<and>
     0 < sint (i_expireTime (snd (pt_Update diff t)))"
proof -
  have d: "sint (i_expireTime t - diff) = sint (i_expireTime t) - sint diff"
    using assms by (intro sint_diff_small) auto
  define p where "p = (if sint (i_period t) > sint diff then i_period t else diff)"
  have p: "sint p = max (sint (i_period t)) (sint diff)" by (simp add: p_def max_def)
  have s: "sint (i_expireTime t - diff + p) = sint (i_expireTime t) - sint diff + sint p"
    if "sint (i_expireTime t) \<le> sint diff"
    using assms that p by (subst sint_add_small) (auto simp: d)
  have u: "pt_Update diff t =
      (if sint (i_expireTime t) \<le> sint diff then (True, t\<lparr>i_expireTime := i_expireTime t - diff + p\<rparr>)
       else (False, t\<lparr>i_expireTime := i_expireTime t - diff\<rparr>))"
    by (simp add: pt_Update_def Let_def d p_def)
  have "0 < sint (i_expireTime t) - sint diff + max (sint (i_period t)) (sint diff)"
    using assms(1) by linarith
  then show ?thesis using assms s p d by (simp add: u)
qed

end
