(* ===== verification/EventProcessor.thy ===== *)
theory EventProcessor
  imports Prelude "HOL-Library.Multiset"
begin

text \<open>
  Model of \<^verbatim>\<open>src/server/shared/Utilities/EventProcessor.h\<close> and \<^verbatim>\<open>EventProcessor.cpp\<close>: the queue
  of delayed events every world object owns.

  The virtual methods of \<open>BasicEvent\<close> belong to its subclasses.  \<open>Execute\<close> is the argument
  \<open>execute\<close> of the definitions: it sees and may change the state \<open>'s\<close> of its subclass and the
  processor.  \<open>IsDeletable\<close> is the argument \<open>deletable\<close>.  Calls of \<open>Execute\<close> and \<open>Abort\<close> and every
  \<open>delete\<close> are recorded in a log, in the order in which they happen.  An event object is
  identified by \<open>ev_id\<close>, which stands for its address.

  The main loop of \<open>Update\<close> runs as long as an event is due, and an event may re-add itself, so the
  loop is a partial function; \<open>event_handler\<close> is the contract under which it terminates.
\<close>

section \<open>State\<close>

record event =
  ev_id :: nat
  to_Abort :: bool
  m_addTime :: u64
  m_execTime :: u64

type_synonym event_list = "(u64 \<times> event) list"

record event_processor =
  m_time :: u64
  m_events :: event_list
  m_aborting :: bool

datatype event_action = Executed event | Aborted event | Deleted event

type_synonym 's handler =
  "event \<Rightarrow> u64 \<Rightarrow> u32 \<Rightarrow> 's \<times> event_processor \<Rightarrow> bool \<times> 's \<times> event_processor"

definition new_processor :: event_processor where
  "new_processor = \<lparr>m_time = 0, m_events = [], m_aborting = False\<rparr>"

section \<open>Operations\<close>

text \<open>\<open>std::multimap::insert\<close>: behind the last element whose key is not greater.\<close>

fun multimap_insert :: "u64 \<Rightarrow> event \<Rightarrow> event_list \<Rightarrow> event_list" where
  "multimap_insert k v [] = [(k, v)]"
| "multimap_insert k v (x # xs) = (if k < fst x then (k, v) # x # xs else x # multimap_insert k v xs)"

definition AddEvent :: "event \<Rightarrow> u64 \<Rightarrow> bool \<Rightarrow> event_processor \<Rightarrow> event_processor" where
  "AddEvent Event e_time set_addtime ep =
     (let Event = (if set_addtime then Event\<lparr>m_addTime := m_time ep\<rparr> else Event);
          Event = Event\<lparr>m_execTime := e_time\<rparr>
      in ep\<lparr>m_events := multimap_insert e_time Event (m_events ep)\<rparr>)"

definition CalculateTime :: "u64 \<Rightarrow> event_processor \<Rightarrow> u64" where
  "CalculateTime t_offset ep = m_time ep + t_offset"

text \<open>The lambdas \<open>b\<close>, \<open>c\<close> and \<open>d\<close> of \<open>Update\<close>, for an event already removed from the queue.\<close>

definition process_event ::
  "'s handler \<Rightarrow> u32 \<Rightarrow> event \<Rightarrow> 's \<times> event_processor \<Rightarrow> event_action list \<times> 's \<times> event_processor" where
  "process_event execute p_time Event st =
     (if \<not> to_Abort Event
      then case execute Event (m_time (snd st)) p_time st of
             (finished, st) \<Rightarrow> ((if finished then [Executed Event, Deleted Event] else [Executed Event]), st)
      else ([Aborted Event, Deleted Event], st))"

text \<open>The lambda \<open>a\<close>: the main event loop.\<close>

partial_function (option) event_loop ::
  "'s handler \<Rightarrow> u32 \<Rightarrow> 's \<times> event_processor \<Rightarrow> (event_action list \<times> 's \<times> event_processor) option" where
  "event_loop execute p_time st =
     (case m_events (snd st) of
        [] \<Rightarrow> Some ([], st)
      | x # rest \<Rightarrow>
          if fst x \<le> m_time (snd st)
          then (case process_event execute p_time (snd x) (fst st, (snd st)\<lparr>m_events := rest\<rparr>) of
                  (acts, st') \<Rightarrow>
                    Option.bind (event_loop execute p_time st') (\<lambda>(log, st''). Some (acts @ log, st'')))
          else Some ([], st))"

definition ep_Update ::
  "'s handler \<Rightarrow> u32 \<Rightarrow> 's \<times> event_processor \<Rightarrow> (event_action list \<times> 's \<times> event_processor) option" where
  "ep_Update execute p_time st =
     event_loop execute p_time (fst st, (snd st)\<lparr>m_time := m_time (snd st) + ucast p_time\<rparr>)"

text \<open>The loop of \<open>KillAllEvents\<close>; the erased elements are left out of the second component.\<close>

fun kill_loop :: "(event \<Rightarrow> bool) \<Rightarrow> bool \<Rightarrow> event_list \<Rightarrow> event_action list \<times> event_list" where
  "kill_loop deletable force [] = ([], [])"
| "kill_loop deletable force (x # xs) =
     (let Event = (snd x)\<lparr>to_Abort := True\<rparr>; (log, kept) = kill_loop deletable force xs in
      if force \<or> deletable Event
      then (Aborted Event # Deleted Event # log, if \<not> force then kept else (fst x, Event) # kept)
      else (Aborted Event # log, (fst x, Event) # kept))"

definition KillAllEvents ::
  "(event \<Rightarrow> bool) \<Rightarrow> bool \<Rightarrow> event_processor \<Rightarrow> event_action list \<times> event_processor" where
  "KillAllEvents deletable force ep =
     (let ep = ep\<lparr>m_aborting := True\<rparr>; (log, events) = kill_loop deletable force (m_events ep) in
      (log, ep\<lparr>m_events := (if force then [] else events)\<rparr>))"

text \<open>\<open>BasicEvent::Execute\<close>: nothing happens and the event is deleted.\<close>

definition BasicEvent_Execute :: "'s handler" where
  "BasicEvent_Execute Event e_time p_time st = (True, st)"

section \<open>The queue\<close>

abbreviation ordered :: "event_list \<Rightarrow> bool" where
  "ordered xs \<equiv> sorted (map fst xs)"

abbreviation ids :: "event_list \<Rightarrow> nat multiset" where
  "ids xs \<equiv> image_mset (\<lambda>x. ev_id (snd x)) (mset xs)"

lemma set_multimap_insert [simp]: "set (multimap_insert k v xs) = insert (k, v) (set xs)"
  by (induction xs) auto

lemma mset_multimap_insert [simp]: "mset (multimap_insert k v xs) = add_mset (k, v) (mset xs)"
  by (induction xs) auto

lemma ordered_multimap_insert [simp]: "ordered xs \<Longrightarrow> ordered (multimap_insert k v xs)"
  by (induction xs) (auto simp: image_iff)

text \<open>The insertion point: behind all keys that are not greater, so equal keys keep their order.\<close>

lemma multimap_insert_append:
  "list_all (\<lambda>x. fst x \<le> k) xs \<Longrightarrow> multimap_insert k v (xs @ ys) = xs @ multimap_insert k v ys"
  by (induction xs) auto

lemma multimap_insert_front:
  "list_all (\<lambda>x. k < fst x) ys \<Longrightarrow> multimap_insert k v ys = (k, v) # ys"
  by (cases ys) auto

text \<open>The events that are due at time \<open>t\<close>, and the others.\<close>

definition due :: "u64 \<Rightarrow> event_list \<Rightarrow> event_list" where
  "due t xs = takeWhile (\<lambda>x. fst x \<le> t) xs"

definition pending :: "u64 \<Rightarrow> event_list \<Rightarrow> event_list" where
  "pending t xs = dropWhile (\<lambda>x. fst x \<le> t) xs"

lemma due_pending: "due t xs @ pending t xs = xs"
  by (simp add: due_def pending_def)

lemma due_Cons: "due t (x # xs) = (if fst x \<le> t then x # due t xs else [])"
  "pending t (x # xs) = (if fst x \<le> t then pending t xs else x # xs)"
  by (simp_all add: due_def pending_def)

lemma due_insert:
  assumes "t < k"
  shows "due t (multimap_insert k v xs) = due t xs"
    "pending t (multimap_insert k v xs) = multimap_insert k v (pending t xs)"
  using assms by (induction xs) (auto simp: due_def pending_def)

lemma pending_later: "ordered xs \<Longrightarrow> x \<in> set (pending t xs) \<Longrightarrow> t < fst x"
  by (induction xs) (auto simp: pending_def split: if_splits)

section \<open>What a log says\<close>

text \<open>The events a log handled, in order, with whether they were executed or aborted.\<close>

fun handled :: "event_action list \<Rightarrow> (bool \<times> event) list" where
  "handled [] = []"
| "handled (Executed e # log) = (True, e) # handled log"
| "handled (Aborted e # log) = (False, e) # handled log"
| "handled (Deleted e # log) = handled log"

fun deleted :: "event_action list \<Rightarrow> nat multiset" where
  "deleted [] = {#}"
| "deleted (Deleted e # log) = add_mset (ev_id e) (deleted log)"
| "deleted (a # log) = deleted log"

lemma handled_append [simp]: "handled (xs @ ys) = handled xs @ handled ys"
  by (induction xs rule: handled.induct) auto

lemma deleted_append [simp]: "deleted (xs @ ys) = deleted xs + deleted ys"
  by (induction xs rule: deleted.induct) auto

section \<open>The contract of a handler\<close>

text \<open>
  What \<open>Execute\<close> must do for the loop to be well behaved: either it reports the event as finished
  and leaves the queue alone, or it re-adds the same event at a strictly later time.
  \<open>world_ok t\<close> is an invariant of the subclass state at time \<open>t\<close>.  The bound keeps the 64-bit
  millisecond clock away from its wrap-around.
\<close>

definition clock_ok :: "event_processor \<Rightarrow> bool" where
  "clock_ok ep \<longleftrightarrow> m_time ep < 2 ^ 62"

locale event_handler =
  fixes execute :: "'s handler" and world_ok :: "u64 \<Rightarrow> 's \<Rightarrow> bool"
  assumes rearm: "world_ok (m_time ep) s \<Longrightarrow> clock_ok ep \<Longrightarrow>
    execute ev (m_time ep) p (s, ep) = (d, s', ep') \<Longrightarrow>
    world_ok (m_time ep) s' \<and>
    (if d then ep' = ep
     else \<exists>k e. m_time ep < k \<and> ev_id e = ev_id ev \<and>
       ep' = ep\<lparr>m_events := multimap_insert k e (m_events ep)\<rparr>)"
begin

text \<open>Handling one event: the other due events stay, no event is lost or duplicated.\<close>

lemma process_event_step:
  assumes "world_ok (m_time ep) s" "clock_ok ep" "process_event execute p ev (s, ep) = (acts, s', ep')"
  shows "world_ok (m_time ep) s' \<and> m_time ep' = m_time ep \<and>
    handled acts = [(\<not> to_Abort ev, ev)] \<and>
    due (m_time ep) (m_events ep') = due (m_time ep) (m_events ep) \<and>
    (ordered (m_events ep) \<longrightarrow> ordered (m_events ep')) \<and>
    add_mset (ev_id ev) (ids (m_events ep)) = ids (m_events ep') + deleted acts"
proof (cases "to_Abort ev")
  case True
  then show ?thesis using assms by (auto simp: process_event_def)
next
  case False
  obtain d t ep2 where e: "execute ev (m_time ep) p (s, ep) = (d, t, ep2)"
    by (cases "execute ev (m_time ep) p (s, ep)")
  note r = rearm [OF assms(1,2) e]
  have "acts = (if d then [Executed ev, Deleted ev] else [Executed ev])" "s' = t" "ep' = ep2"
    using assms(3) False e by (auto simp: process_event_def)
  then show ?thesis using r False by (auto simp: due_insert split: if_splits)
qed

lemma loop_spec:
  assumes "world_ok (m_time ep) s" "clock_ok ep" "ordered (m_events ep)"
  shows "\<exists>log s' ep'. event_loop execute p (s, ep) = Some (log, s', ep') \<and>
    world_ok (m_time ep) s' \<and> m_time ep' = m_time ep \<and> ordered (m_events ep') \<and>
    due (m_time ep) (m_events ep') = [] \<and>
    handled log = map (\<lambda>x. (\<not> to_Abort (snd x), snd x)) (due (m_time ep) (m_events ep)) \<and>
    ids (m_events ep) = ids (m_events ep') + deleted log"
  using assms
proof (induction "due (m_time ep) (m_events ep)" arbitrary: s ep)
  case Nil
  have "event_loop execute p (s, ep) = Some ([], s, ep)"
    using Nil.hyps by (subst event_loop.simps) (auto simp: due_def split: list.splits if_splits)
  then show ?case using Nil by auto
next
  case (Cons x ds)
  then obtain rest where x: "m_events ep = x # rest" "fst x \<le> m_time ep" "due (m_time ep) rest = ds"
    by (cases "m_events ep") (auto simp: due_def split: if_splits)
  let ?ep = "ep\<lparr>m_events := rest\<rparr>"
  obtain acts s1 ep1 where a: "process_event execute p (snd x) (s, ?ep) = (acts, s1, ep1)"
    by (cases "process_event execute p (snd x) (s, ?ep)")
  have "world_ok (m_time ?ep) s" "clock_ok ?ep" using Cons.prems by (auto simp: clock_ok_def)
  note st = process_event_step [OF this a]
  have "ds = due (m_time ep1) (m_events ep1)" "world_ok (m_time ep1) s1" "clock_ok ep1" "ordered (m_events ep1)"
    using st x Cons.prems(2,3) by (auto simp: clock_ok_def)
  from Cons.hyps(1) [OF this] obtain log s' ep' where l: "event_loop execute p (s1, ep1) = Some (log, s', ep')"
    "world_ok (m_time ep1) s'" "m_time ep' = m_time ep1" "ordered (m_events ep')"
    "due (m_time ep1) (m_events ep') = []"
    "handled log = map (\<lambda>x. (\<not> to_Abort (snd x), snd x)) (due (m_time ep1) (m_events ep1))"
    "ids (m_events ep1) = ids (m_events ep') + deleted log" by blast
  have "event_loop execute p (s, ep) = Some (acts @ log, s', ep')"
    using x(1,2) a l(1) by (subst event_loop.simps) simp
  then show ?case using l st x by (auto simp: due_Cons)
qed

lemma update_spec:
  assumes "world_ok (m_time ep + ucast p) s" "m_time ep + ucast p < 2 ^ 62" "ordered (m_events ep)"
  shows "\<exists>log s' ep'. ep_Update execute p (s, ep) = Some (log, s', ep') \<and>
    world_ok (m_time ep') s' \<and> m_time ep' = m_time ep + ucast p \<and> ordered (m_events ep') \<and>
    (\<forall>x \<in> set (m_events ep'). m_time ep' < fst x) \<and>
    handled log = map (\<lambda>x. (\<not> to_Abort (snd x), snd x)) (due (m_time ep') (m_events ep)) \<and>
    ids (m_events ep) = ids (m_events ep') + deleted log"
proof -
  let ?ep = "ep\<lparr>m_time := m_time ep + ucast p\<rparr>"
  have "world_ok (m_time ?ep) s" "clock_ok ?ep" "ordered (m_events ?ep)"
    using assms by (auto simp: clock_ok_def)
  from loop_spec [OF this] obtain log s' ep' where l: "event_loop execute p (s, ?ep) = Some (log, s', ep')"
    "world_ok (m_time ?ep) s'" "m_time ep' = m_time ?ep" "ordered (m_events ep')"
    "due (m_time ?ep) (m_events ep') = []"
    "handled log = map (\<lambda>x. (\<not> to_Abort (snd x), snd x)) (due (m_time ?ep) (m_events ?ep))"
    "ids (m_events ?ep) = ids (m_events ep') + deleted log" by blast
  have "pending (m_time ep') (m_events ep') = m_events ep'"
    using l(3,5) due_pending [of "m_time ep'" "m_events ep'"] by simp
  then have "\<forall>x \<in> set (m_events ep'). m_time ep' < fst x" using pending_later [OF l(4), of _ "m_time ep'"] by auto
  then show ?thesis using l by (auto simp: ep_Update_def)
qed

end

interpretation basic: event_handler BasicEvent_Execute "\<lambda>_ _. True"
  by unfold_locales (auto simp: BasicEvent_Execute_def)

section \<open>Killing all events\<close>

lemma kill_loop_spec:
  "kill_loop deletable force xs = (log, kept) \<Longrightarrow>
     handled log = map (\<lambda>x. (False, (snd x)\<lparr>to_Abort := True\<rparr>)) xs \<and>
     (\<not> force \<longrightarrow> kept = filter (\<lambda>x. \<not> deletable (snd x)) (map (\<lambda>x. (fst x, (snd x)\<lparr>to_Abort := True\<rparr>)) xs) \<and>
        ids xs = ids kept + deleted log) \<and>
     (force \<longrightarrow> deleted log = ids xs)"
  by (induction xs arbitrary: log kept) (auto simp: Let_def split: prod.splits if_splits)

definition two_events :: event_processor where
  "two_events = \<lparr>m_time = 5,
     m_events = [(10, \<lparr>ev_id = 1, to_Abort = False, m_addTime = 0, m_execTime = 10\<rparr>),
                 (20, \<lparr>ev_id = 2, to_Abort = False, m_addTime = 0, m_execTime = 20\<rparr>)],
     m_aborting = False\<rparr>"

text \<open>
  \<open>KillAllEvents\<close> calls \<open>Abort\<close> once for every queued event, in queue order; with \<open>force\<close> the queue is
  empty afterwards and every event has been deleted; without it exactly the events that are not
  deletable stay, all marked to be aborted, in their order and under their keys, and every other
  event has been deleted exactly once.
\<close>

lemma kill_all_events_spec:
  assumes "KillAllEvents deletable force ep = (log, ep')"
  shows "handled log = map (\<lambda>x. (False, (snd x)\<lparr>to_Abort := True\<rparr>)) (m_events ep) \<and>
     m_events ep' =
       (if force then []
        else filter (\<lambda>x. \<not> deletable (snd x)) (map (\<lambda>x. (fst x, (snd x)\<lparr>to_Abort := True\<rparr>)) (m_events ep))) \<and>
     ids (m_events ep) = ids (m_events ep') + deleted log \<and> m_time ep' = m_time ep \<and> m_aborting ep'"
proof -
  obtain l kept where k: "kill_loop deletable force (m_events ep) = (l, kept)"
    by (cases "kill_loop deletable force (m_events ep)")
  have "log = l" "ep' = ep\<lparr>m_aborting := True, m_events := (if force then [] else kept)\<rparr>"
    using assms k by (auto simp: KillAllEvents_def Let_def)
  then show ?thesis using kill_loop_spec [OF k] by auto
qed

text \<open>
  The flag \<open>m_aborting\<close>, set to prevent event insertions, does not prevent them: an event added to
  a processor after \<open>KillAllEvents(true)\<close> is queued like any other, and is its only event.
\<close>

lemma add_event_while_aborting:
  assumes "KillAllEvents deletable True ep = (log, ep')"
  shows "m_aborting (AddEvent ev t b ep') \<and> map fst (m_events (AddEvent ev t b ep')) = [t] \<and>
     ids (m_events (AddEvent ev t b ep')) = {#ev_id ev#}"
  using assms by (auto simp: KillAllEvents_def AddEvent_def Let_def split: prod.splits)

text \<open>
  \<open>AddEvent\<close> keeps the queue ordered by time; the new event is placed behind all events planned
  for the same or an earlier moment and before all later ones, so events of the same moment run
  in the order in which they were added.
\<close>

lemma add_event_fifo:
  assumes "ordered (m_events ep)"
  shows "ordered (m_events (AddEvent ev t b ep)) \<and>
     (\<exists>e. ev_id e = ev_id ev \<and> m_execTime e = t \<and> to_Abort e = to_Abort ev \<and>
        m_events (AddEvent ev t b ep) = due t (m_events ep) @ (t, e) # pending t (m_events ep))"
proof -
  define e where "e = (if b then ev\<lparr>m_addTime := m_time ep\<rparr> else ev)\<lparr>m_execTime := t\<rparr>"
  have "multimap_insert t e (m_events ep) = due t (m_events ep) @ (t, e) # pending t (m_events ep)"
  proof -
    have "list_all (\<lambda>x. fst x \<le> t) (due t (m_events ep))"
      by (auto simp: list_all_iff due_def dest: set_takeWhileD)
    moreover have "list_all (\<lambda>x. t < fst x) (pending t (m_events ep))"
      using pending_later [OF assms] by (auto simp: list_all_iff)
    ultimately show ?thesis
      using multimap_insert_append [of t "due t (m_events ep)" e "pending t (m_events ep)"]
      by (simp add: due_pending multimap_insert_front)
  qed
  moreover have "m_events (AddEvent ev t b ep) = multimap_insert t e (m_events ep)"
    by (simp add: AddEvent_def Let_def e_def)
  moreover have "ev_id e = ev_id ev" "m_execTime e = t" "to_Abort e = to_Abort ev" by (simp_all add: e_def)
  ultimately show ?thesis using ordered_multimap_insert [OF assms] by metis
qed

end
