(* ===== verification/SpellEvent.thy ===== *)
theory SpellEvent
  imports EventProcessor
begin

text \<open>
  \<open>SpellEvent\<close> (\<^verbatim>\<open>src/server/game/Spells/Spell.cpp\<close>): the event that drives a cast spell, and
  \<open>Spell::handle_delayed\<close>, which hits the targets of a travelling spell one after the other.

  A spell is reduced to what decides its scheduling: its state, the delay bookkeeping and, for each
  unit and game object target, when it is reached and whether it has been processed.  What a hit does
  to its target, script hooks and spell modifiers are not modelled.  \<open>Spell::update\<close>, the cast-time
  state machine, is the argument \<open>update\<close>.  The state of the handler is the spell of each event.
\<close>

section \<open>State\<close>

datatype spell_state =
    SPELL_STATE_NULL
  | SPELL_STATE_PREPARING
  | SPELL_STATE_CASTING
  | SPELL_STATE_FINISHED
  | SPELL_STATE_IDLE
  | SPELL_STATE_DELAYED

record target_info =
  timeDelay :: u64
  processed :: bool

record spell =
  m_spellState :: spell_state
  m_delayStart :: u64
  m_delayMoment :: u64
  m_hasDst :: bool
  m_immediateHandled :: bool
  m_UniqueTargetInfo :: "target_info list"
  m_UniqueGOTargetInfo :: "target_info list"
  m_referencedFromCurrentSpell :: bool
  m_executedCurrently :: bool

type_synonym spells = "nat \<Rightarrow> spell"

definition Spell_IsDeletable :: "spell \<Rightarrow> bool" where
  "Spell_IsDeletable sp \<longleftrightarrow> \<not> m_referencedFromCurrentSpell sp \<and> \<not> m_executedCurrently sp"

section \<open>Spell::handle_delayed\<close>

text \<open>
  The first loop, over the unit targets: \<open>next_time\<close> is threaded through.  \<open>DoAllEffectOnTarget\<close>
  marks the target as processed.
\<close>

fun hit_targets :: "bool \<Rightarrow> u64 \<Rightarrow> u64 \<Rightarrow> target_info list \<Rightarrow> u64 \<times> target_info list" where
  "hit_targets single_missile t_offset next_time [] = (next_time, [])"
| "hit_targets single_missile t_offset next_time (ihit # rest) =
     (if \<not> processed ihit
      then if single_missile \<or> timeDelay ihit \<le> t_offset
           then (case hit_targets single_missile t_offset next_time rest of
                   (n, rest) \<Rightarrow> (n, ihit\<lparr>timeDelay := t_offset, processed := True\<rparr> # rest))
           else (case hit_targets single_missile t_offset
                        (if next_time = 0 \<or> timeDelay ihit < next_time then timeDelay ihit else next_time) rest of
                   (n, rest) \<Rightarrow> (n, ihit # rest))
      else (case hit_targets single_missile t_offset next_time rest of (n, rest) \<Rightarrow> (n, ihit # rest)))"

text \<open>The second loop, over the game object targets, which keep their delay.\<close>

fun hit_go_targets :: "bool \<Rightarrow> u64 \<Rightarrow> u64 \<Rightarrow> target_info list \<Rightarrow> u64 \<times> target_info list" where
  "hit_go_targets single_missile t_offset next_time [] = (next_time, [])"
| "hit_go_targets single_missile t_offset next_time (ighit # rest) =
     (if \<not> processed ighit
      then if single_missile \<or> timeDelay ighit \<le> t_offset
           then (case hit_go_targets single_missile t_offset next_time rest of
                   (n, rest) \<Rightarrow> (n, ighit\<lparr>processed := True\<rparr> # rest))
           else (case hit_go_targets single_missile t_offset
                        (if next_time = 0 \<or> timeDelay ighit < next_time then timeDelay ighit else next_time) rest of
                   (n, rest) \<Rightarrow> (n, ighit # rest))
      else (case hit_go_targets single_missile t_offset next_time rest of (n, rest) \<Rightarrow> (n, ighit # rest)))"

definition handle_delayed :: "u64 \<Rightarrow> spell \<Rightarrow> u64 \<times> spell" where
  "handle_delayed t_offset sp =
     (let sp = sp\<lparr>m_immediateHandled := True\<rparr>;
          single_missile = m_hasDst sp;
          (next_time, units) = hit_targets single_missile t_offset 0 (m_UniqueTargetInfo sp);
          (next_time, gos) = hit_go_targets single_missile t_offset next_time (m_UniqueGOTargetInfo sp);
          sp = sp\<lparr>m_UniqueTargetInfo := units, m_UniqueGOTargetInfo := gos\<rparr>
      in if next_time = 0 then (0, sp\<lparr>m_spellState := SPELL_STATE_FINISHED\<rparr>) else (next_time, sp))"

section \<open>SpellEvent\<close>


definition SpellEvent_IsDeletable :: "spells \<Rightarrow> event \<Rightarrow> bool" where
  "SpellEvent_IsDeletable world Event = Spell_IsDeletable (world (ev_id Event))"

section \<open>Delayed hits\<close>

text \<open>A target still to come: not processed, not reached at the offset.\<close>

definition outstanding :: "bool \<Rightarrow> u64 \<Rightarrow> target_info \<Rightarrow> bool" where
  "outstanding single_missile t_offset h \<longleftrightarrow>
     \<not> processed h \<and> \<not> (single_missile \<or> timeDelay h \<le> t_offset)"

text \<open>\<open>next_time\<close> as a minimum, where 0 stands for none.\<close>

definition min_delay :: "u64 \<Rightarrow> u64 list \<Rightarrow> u64" where
  "min_delay n ds = fold (\<lambda>d n. if n = 0 \<or> d < n then d else n) ds n"

lemma hit_targets_spec:
  "hit_targets m t n hs =
     (min_delay n (map timeDelay (filter (outstanding m t) hs)),
      map (\<lambda>h. if \<not> processed h \<and> \<not> outstanding m t h then h\<lparr>timeDelay := t, processed := True\<rparr> else h) hs)"
  by (induction m t n hs rule: hit_targets.induct) (auto simp: outstanding_def min_delay_def)

lemma hit_go_targets_spec:
  "hit_go_targets m t n hs =
     (min_delay n (map timeDelay (filter (outstanding m t) hs)),
      map (\<lambda>h. if \<not> processed h \<and> \<not> outstanding m t h then h\<lparr>processed := True\<rparr> else h) hs)"
  by (induction m t n hs rule: hit_go_targets.induct) (auto simp: outstanding_def min_delay_def)

lemma min_delay_append: "min_delay (min_delay n xs) ys = min_delay n (xs @ ys)"
  by (simp add: min_delay_def)

lemma min_delay_spec:
  assumes "list_all (\<lambda>d. 0 < d) ds"
  shows "(min_delay n ds = 0 \<longleftrightarrow> n = 0 \<and> ds = []) \<and>
    (\<forall>d \<in> set ds. min_delay n ds \<le> d) \<and> (n \<noteq> 0 \<longrightarrow> min_delay n ds \<le> n) \<and>
    (min_delay n ds \<in> set ds \<or> min_delay n ds = n)"
  using assms
proof (induction ds arbitrary: n)
  case (Cons d ds)
  let ?n = "if n = 0 \<or> d < n then d else n"
  have "min_delay n (d # ds) = min_delay ?n ds" by (simp add: min_delay_def)
  moreover have "0 < d" "?n \<noteq> 0" using Cons.prems by (auto simp: word_neq_0_conv)
  ultimately show ?case using Cons.IH [of ?n] Cons.prems
    by (auto simp: not_less split: if_splits intro: order_trans)
qed (simp add: min_delay_def)

text \<open>The delays of the targets that are still to come.\<close>

definition waiting :: "u64 \<Rightarrow> spell \<Rightarrow> u64 list" where
  "waiting t sp = map timeDelay (filter (outstanding (m_hasDst sp) t) (m_UniqueTargetInfo sp @ m_UniqueGOTargetInfo sp))"

lemma waiting_later: "d \<in> set (waiting t sp) \<Longrightarrow> t < d"
  by (auto simp: waiting_def outstanding_def)

lemma handle_delayed_eq:
  "handle_delayed t sp =
     (let n = min_delay 0 (waiting t sp);
          m = m_hasDst sp;
          sp' = sp\<lparr>m_immediateHandled := True,
            m_UniqueTargetInfo := map (\<lambda>h. if \<not> processed h \<and> \<not> outstanding m t h
              then h\<lparr>timeDelay := t, processed := True\<rparr> else h) (m_UniqueTargetInfo sp),
            m_UniqueGOTargetInfo := map (\<lambda>h. if \<not> processed h \<and> \<not> outstanding m t h
              then h\<lparr>processed := True\<rparr> else h) (m_UniqueGOTargetInfo sp)\<rparr>
      in if n = 0 then (0, sp'\<lparr>m_spellState := SPELL_STATE_FINISHED\<rparr>) else (n, sp'))"
  by (simp add: handle_delayed_def hit_targets_spec hit_go_targets_spec min_delay_append waiting_def Let_def)

lemma handle_delayed_result:
  "fst (handle_delayed t sp) = min_delay 0 (waiting t sp)"
  by (simp add: handle_delayed_eq Let_def)

lemma waiting_min:
  "(min_delay 0 (waiting t sp) = 0 \<longleftrightarrow> waiting t sp = []) \<and>
   (\<forall>d \<in> set (waiting t sp). min_delay 0 (waiting t sp) \<le> d) \<and>
   (waiting t sp \<noteq> [] \<longrightarrow> min_delay 0 (waiting t sp) \<in> set (waiting t sp))"
proof -
  have pos: "list_all (\<lambda>d. 0 < d) (waiting t sp)"
    using waiting_later [of _ t sp] by (auto simp: list_all_iff intro: le_less_trans [of _ t])
  from min_delay_spec [OF this, of 0] show ?thesis by auto
qed

text \<open>
  \<open>handle_delayed\<close> at offset \<open>t\<close> processes exactly the targets that were already processed or are
  reached by then (all of them when the missile has a destination).  It returns 0 and finishes the
  spell exactly when no target is left; otherwise it leaves the state as it is and returns the
  earliest moment at which one of the remaining targets is reached, which is later than \<open>t\<close>.
\<close>

lemma handle_delayed_spec:
  assumes "handle_delayed t sp = (n, sp')"
  shows "map processed (m_UniqueTargetInfo sp' @ m_UniqueGOTargetInfo sp') =
       map (\<lambda>h. processed h \<or> m_hasDst sp \<or> timeDelay h \<le> t) (m_UniqueTargetInfo sp @ m_UniqueGOTargetInfo sp) \<and>
     (if waiting t sp = []
      then n = 0 \<and> m_spellState sp' = SPELL_STATE_FINISHED \<and>
        list_all processed (m_UniqueTargetInfo sp' @ m_UniqueGOTargetInfo sp')
      else t < n \<and> n \<in> set (waiting t sp) \<and> list_all (\<lambda>d. n \<le> d) (waiting t sp) \<and>
        m_spellState sp' = m_spellState sp)"
proof -
  note mw = waiting_min [of t sp]
  have p: "map processed (m_UniqueTargetInfo sp' @ m_UniqueGOTargetInfo sp') =
      map (\<lambda>h. processed h \<or> m_hasDst sp \<or> timeDelay h \<le> t) (m_UniqueTargetInfo sp @ m_UniqueGOTargetInfo sp)"
    using assms by (auto simp: handle_delayed_eq Let_def outstanding_def split: if_splits)
  show ?thesis
  proof (cases "waiting t sp = []")
    case True
    have "list_all processed (m_UniqueTargetInfo sp' @ m_UniqueGOTargetInfo sp') =
        list_all (\<lambda>b. b) (map processed (m_UniqueTargetInfo sp' @ m_UniqueGOTargetInfo sp'))"
      by (auto simp: list_all_iff)
    also have "\<dots>" unfolding p using True
      by (auto simp: waiting_def filter_empty_conv outstanding_def list_all_iff)
    finally show ?thesis using True p assms mw by (auto simp: handle_delayed_eq Let_def)
  next
    case False
    then have n: "n = min_delay 0 (waiting t sp)" "min_delay 0 (waiting t sp) \<noteq> 0"
      using assms mw handle_delayed_result [of t sp] by auto
    have "m_spellState sp' = m_spellState sp" using assms n(2) by (auto simp: handle_delayed_eq Let_def)
    moreover have "n \<in> set (waiting t sp)" "list_all (\<lambda>d. n \<le> d) (waiting t sp)"
      using n mw False by (auto simp: list_all_iff)
    ultimately show ?thesis using False p waiting_later [of n t sp] by simp
  qed
qed


section \<open>Spell events keep the contract\<close>


















end
