(* ===== verification/StdMap.thy ===== *)
theory StdMap
  imports Prelude
begin

text \<open>
  \<open>std::map\<close> as the managers of the server use it: an association list with strictly ascending
  keys, so that iteration visits the elements in key order.  \<open>keyed_store\<close> is the interface the
  managers rely on; its lemmas about counting the elements with a property are what their
  counters are proved with.
\<close>

section \<open>Operations\<close>

type_synonym ('k, 'v) std_map = "('k \<times> 'v) list"

definition map_find :: "'k \<Rightarrow> ('k, 'v) std_map \<Rightarrow> 'v option" where
  "map_find k m = map_of m k"

text \<open>\<open>m[k] = v\<close>\<close>

fun map_set :: "'k::linorder \<Rightarrow> 'v \<Rightarrow> ('k, 'v) std_map \<Rightarrow> ('k, 'v) std_map" where
  "map_set k v [] = [(k, v)]"
| "map_set k v (x # xs) =
     (if k < fst x then (k, v) # x # xs
      else if k = fst x then (k, v) # xs
      else x # map_set k v xs)"

definition map_erase :: "'k \<Rightarrow> ('k, 'v) std_map \<Rightarrow> ('k, 'v) std_map" where
  "map_erase k m = filter (\<lambda>x. fst x \<noteq> k) m"

definition map_ok :: "('k::linorder, 'v) std_map \<Rightarrow> bool" where
  "map_ok m \<longleftrightarrow> sorted_wrt (<) (map fst m)"

section \<open>The interface\<close>

locale keyed_store =
  fixes find :: "'k \<Rightarrow> 'm \<Rightarrow> 'v option"
    and store :: "'k \<Rightarrow> 'v \<Rightarrow> 'm \<Rightarrow> 'm"
    and erase :: "'k \<Rightarrow> 'm \<Rightarrow> 'm"
    and entries :: "'m \<Rightarrow> ('k \<times> 'v) set"
    and ok :: "'m \<Rightarrow> bool"
  assumes find_store: "ok m \<Longrightarrow> find j (store k v m) = (if j = k then Some v else find j m)"
    and ok_store: "ok m \<Longrightarrow> ok (store k v m)"
    and find_erase: "ok m \<Longrightarrow> find j (erase k m) = (if j = k then None else find j m)"
    and ok_erase: "ok m \<Longrightarrow> ok (erase k m)"
    and entries_iff: "ok m \<Longrightarrow> (k, v) \<in> entries m \<longleftrightarrow> find k m = Some v"
    and finite_entries: "finite (entries m)"
begin

lemma entries_store:
  assumes "ok m"
  shows "entries (store k v m) = insert (k, v) {e \<in> entries m. fst e \<noteq> k}"
  using entries_iff [OF assms] entries_iff [OF ok_store [OF assms]]
  by (auto simp: find_store [OF assms] split: if_splits)

text \<open>Replacing a value changes a count by what the old and the new value contribute.\<close>

lemma count_store:
  assumes "ok m"
  shows "card {e \<in> entries (store k v m). P e} + of_bool (\<exists>u. find k m = Some u \<and> P (k, u)) =
    card {e \<in> entries m. P e} + of_bool (P (k, v))"
proof -
  let ?rest = "{e \<in> entries m. fst e \<noteq> k \<and> P e}"
  have fin: "finite ?rest" using finite_entries by simp
  have "{e \<in> entries (store k v m). P e} = (if P (k, v) then insert (k, v) ?rest else ?rest)"
    using entries_store [OF assms] by auto
  then have new: "card {e \<in> entries (store k v m). P e} = card ?rest + of_bool (P (k, v))"
    using fin by (auto simp: card_insert_if)
  have "{e \<in> entries m. P e} = {e. e \<in> entries m \<and> fst e = k \<and> P e} \<union> ?rest" by auto
  moreover have "{e. e \<in> entries m \<and> fst e = k \<and> P e} =
      (case find k m of None \<Rightarrow> {} | Some u \<Rightarrow> if P (k, u) then {(k, u)} else {})"
    using entries_iff [OF assms] by (auto split: option.splits)
  ultimately have "card {e \<in> entries m. P e} = card ?rest + of_bool (\<exists>u. find k m = Some u \<and> P (k, u))"
    using fin by (auto simp: card_insert_if split: option.splits)
  then show ?thesis using new by simp
qed

text \<open>The same for a counter kept modulo a power of two.\<close>

lemma counter_store:
  assumes "ok m" "c = (of_nat (card {e \<in> entries m. P e}) :: 'a::len word)"
  shows "of_nat (card {e \<in> entries (store k v m). P e}) =
    c - of_bool (\<exists>u. find k m = Some u \<and> P (k, u)) + of_bool (P (k, v))"
proof -
  have "(of_nat (card {e \<in> entries (store k v m). P e} + of_bool (\<exists>u. find k m = Some u \<and> P (k, u))) :: 'a word) =
      of_nat (card {e \<in> entries m. P e} + of_bool (P (k, v)))"
    unfolding count_store [OF assms(1)] ..
  then show ?thesis unfolding assms(2) by (simp add: algebra_simps split: if_splits)
qed

lemma ids_unique: "ok m \<Longrightarrow> (k, u) \<in> entries m \<Longrightarrow> (k, v) \<in> entries m \<Longrightarrow> u = v"
  by (simp add: entries_iff)

text \<open>Erasing a key takes away what its value contributed.\<close>

lemma counter_erase:
  assumes "ok m" "c = (of_nat (card {e \<in> entries m. P e}) :: 'a::len word)"
  shows "of_nat (card {e \<in> entries (erase k m). P e}) = c - of_bool (\<exists>u. find k m = Some u \<and> P (k, u))"
proof -
  let ?rest = "{e \<in> entries (erase k m). P e}"
  have fin: "finite ?rest" using finite_entries by simp
  have mem: "e \<in> entries (erase k m) \<longleftrightarrow> e \<in> entries m \<and> fst e \<noteq> k" for e
    using entries_iff [OF assms(1)] entries_iff [OF ok_erase [OF assms(1)]] find_erase [OF assms(1)] by (cases e) auto
  show ?thesis
  proof (cases "\<exists>u. find k m = Some u \<and> P (k, u)")
    case True
    then obtain u where u: "(k, u) \<in> entries m" "P (k, u)" using entries_iff [OF assms(1)] by auto
    have "e \<in> entries m \<and> P e \<longleftrightarrow> e = (k, u) \<or> e \<in> entries (erase k m) \<and> P e" for e
    proof (cases "fst e = k")
      case True
      then show ?thesis using u mem [of e] ids_unique [OF assms(1) u(1), of "snd e"] by (cases e) auto
    next
      case False
      then show ?thesis using mem [of e] by auto
    qed
    then have "{e \<in> entries m. P e} = insert (k, u) ?rest" by auto
    moreover have "(k, u) \<notin> ?rest" using mem by auto
    ultimately show ?thesis using assms(2) True fin by simp
  next
    case False
    then have "?rest = {e \<in> entries m. P e}" using mem entries_iff [OF assms(1)] by auto
    then show ?thesis using assms(2) False by simp
  qed
qed

text \<open>The same for a sum over the entries.\<close>

lemma entries_split:
  assumes "ok m"
  shows "(\<Sum>e \<in> entries m. f e :: nat) =
     (\<Sum>e \<in> {e \<in> entries m. fst e \<noteq> k}. f e) + (case find k m of None \<Rightarrow> 0 | Some u \<Rightarrow> f (k, u))"
proof -
  let ?rest = "{e \<in> entries m. fst e \<noteq> k}"
  have split: "entries m = (case find k m of None \<Rightarrow> ?rest | Some u \<Rightarrow> insert (k, u) ?rest)"
  proof (rule set_eqI)
    fix e
    show "e \<in> entries m \<longleftrightarrow> e \<in> (case find k m of None \<Rightarrow> ?rest | Some u \<Rightarrow> insert (k, u) ?rest)"
      using entries_iff [OF assms, of k "snd e"] by (cases e) (auto split: option.splits simp: entries_iff [OF assms])
  qed
  have "(\<Sum>e \<in> insert (k, u) ?rest. f e) = f (k, u) + (\<Sum>e \<in> ?rest. f e)" for u
    using finite_entries by (subst sum.insert) auto
  then show ?thesis by (subst split) (auto split: option.splits)
qed

lemma sum_store:
  assumes "ok m"
  shows "(\<Sum>e \<in> entries (store k v m). f e) + (case find k m of None \<Rightarrow> 0 | Some u \<Rightarrow> f (k, u)) =
     (\<Sum>e \<in> entries m. f e) + (f (k, v) :: nat)"
proof -
  have "{e \<in> entries (store k v m). fst e \<noteq> k} = {e \<in> entries m. fst e \<noteq> k}"
    using entries_store [OF assms] by auto
  then show ?thesis
    using entries_split [OF ok_store [OF assms], where f = f and k = k] entries_split [OF assms, where f = f and k = k]
    by (simp add: find_store [OF assms])
qed

lemma sum_erase:
  assumes "ok m"
  shows "(\<Sum>e \<in> entries (erase k m). f e) + (case find k m of None \<Rightarrow> 0 | Some u \<Rightarrow> f (k, u)) = (\<Sum>e \<in> entries m. f e :: nat)"
proof -
  have "e \<in> entries (erase k m) \<longleftrightarrow> e \<in> entries m \<and> fst e \<noteq> k" for e
    using entries_iff [OF assms] entries_iff [OF ok_erase [OF assms]] find_erase [OF assms] by (cases e) auto
  then have "entries (erase k m) = {e \<in> entries m. fst e \<noteq> k}" by auto
  then show ?thesis using entries_split [OF assms, where f = f and k = k] by simp
qed

end

section \<open>The map implements the interface\<close>

lemma fst_map_set: "fst ` set (map_set k v m) = insert k (fst ` set m)"
  by (induction m) auto

lemma map_ok_set: "map_ok m \<Longrightarrow> map_ok (map_set k v m)"
proof (induction m)
  case (Cons x xs)
  then show ?case using fst_map_set [of k v xs] by (auto simp: map_ok_def)
qed (simp add: map_ok_def)

lemma map_ok_distinct: "map_ok m \<Longrightarrow> distinct (map fst m)"
  by (simp add: map_ok_def strict_sorted_iff)

lemma map_find_set: "map_ok m \<Longrightarrow> map_find j (map_set k v m) = (if j = k then Some v else map_find j m)"
  by (induction m) (auto simp: map_find_def map_ok_def)

lemma map_set_overwrite: "map_set k v (map_set k u m) = map_set k v m"
  by (induction m) auto

lemma map_ok_erase: "map_ok m \<Longrightarrow> map_ok (map_erase k m)"
  by (simp add: map_ok_def map_erase_def sorted_wrt_filter sorted_wrt_map)

lemma map_find_erase: "map_find j (map_erase k m) = (if j = k then None else map_find j m)"
  by (induction m) (auto simp: map_find_def map_erase_def)

interpretation std_map: keyed_store map_find map_set map_erase set map_ok
proof
  fix m :: "('a::linorder \<times> 'b) list" and k v assume "map_ok m"
  then show "(k, v) \<in> set m \<longleftrightarrow> map_find k m = Some v"
    using map_ok_distinct [of m] by (simp add: map_find_def)
qed (auto simp: map_find_set map_ok_set map_find_erase map_ok_erase)

end
