(* ===== verification/Reputation.thy ===== *)
theory Reputation
  imports StdMap Float32 PacketFields
begin

text \<open>
  Model of \<^verbatim>\<open>src/server/game/Reputation/ReputationMgr.cpp\<close> and \<^verbatim>\<open>ReputationMgr.h\<close>: a player's
  standing with every faction, the flags shown in the client, the counters of visible, honored,
  revered and exalted factions, spillover to related factions, and the packets and database rows
  produced from them.

  The environment record holds what the manager reads from elsewhere: the player's race and class,
  the faction tables, the spillover templates, the configured rates and the script hook that may
  change a standing.  \<open>int32\<close> values are \<open>int\<close> (standings are clamped to
  \<open>-42000 .. 42999\<close>); rates are single-precision patterns.  A packet handed to the player is the
  byte buffer that was built.  Calls back into \<open>Player\<close> (achievements, quest updates) and logging
  are not modelled.
\<close>

unbundle bit_operations_syntax

section \<open>Ranks\<close>

datatype reputation_rank =
    REP_HATED | REP_HOSTILE | REP_UNFRIENDLY | REP_NEUTRAL
  | REP_FRIENDLY | REP_HONORED | REP_REVERED | REP_EXALTED

primrec rank_no :: "reputation_rank \<Rightarrow> nat" where
  "rank_no REP_HATED = 0"
| "rank_no REP_HOSTILE = 1"
| "rank_no REP_UNFRIENDLY = 2"
| "rank_no REP_NEUTRAL = 3"
| "rank_no REP_FRIENDLY = 4"
| "rank_no REP_HONORED = 5"
| "rank_no REP_REVERED = 6"
| "rank_no REP_EXALTED = 7"

instantiation reputation_rank :: linorder
begin

definition less_eq_reputation_rank :: "reputation_rank \<Rightarrow> reputation_rank \<Rightarrow> bool" where
  "less_eq_reputation_rank a b \<longleftrightarrow> rank_no a \<le> rank_no b"

definition less_reputation_rank :: "reputation_rank \<Rightarrow> reputation_rank \<Rightarrow> bool" where
  "less_reputation_rank a b \<longleftrightarrow> rank_no a < rank_no b"

instance
proof
  fix a b :: reputation_rank
  show "a \<le> b \<Longrightarrow> b \<le> a \<Longrightarrow> a = b"
    by (cases a; cases b) (simp_all add: less_eq_reputation_rank_def)
qed (auto simp: less_eq_reputation_rank_def less_reputation_rank_def)

end

text \<open>\<open>PointsInRank\<close> and \<open>ReputationToRank\<close>; \<open>i\<close> counts the ranks still to try, highest first.\<close>

definition PointsInRank :: "int list" where
  "PointsInRank = [36000, 3000, 3000, 3000, 6000, 12000, 21000, 1000]"

definition Reputation_Cap :: int where
  "Reputation_Cap = 42999"

definition Reputation_Bottom :: int where
  "Reputation_Bottom = -42000"

definition rank_of_no :: "nat \<Rightarrow> reputation_rank" where
  "rank_of_no i = [REP_HATED, REP_HOSTILE, REP_UNFRIENDLY, REP_NEUTRAL,
     REP_FRIENDLY, REP_HONORED, REP_REVERED, REP_EXALTED] ! i"

fun rank_loop :: "int \<Rightarrow> int \<Rightarrow> nat \<Rightarrow> reputation_rank" where
  "rank_loop standing limit 0 = REP_HATED"
| "rank_loop standing limit (Suc i) =
     (let limit = limit - PointsInRank ! i in
      if standing \<ge> limit then rank_of_no i else rank_loop standing limit i)"

definition ReputationToRank :: "int \<Rightarrow> reputation_rank" where
  "ReputationToRank standing = rank_loop standing (Reputation_Cap + 1) 8"

section \<open>State\<close>

definition FACTION_FLAG_VISIBLE :: u8 where "FACTION_FLAG_VISIBLE = 0x01"
definition FACTION_FLAG_AT_WAR :: u8 where "FACTION_FLAG_AT_WAR = 0x02"
definition FACTION_FLAG_HIDDEN :: u8 where "FACTION_FLAG_HIDDEN = 0x04"
definition FACTION_FLAG_INVISIBLE_FORCED :: u8 where "FACTION_FLAG_INVISIBLE_FORCED = 0x08"
definition FACTION_FLAG_PEACE_FORCED :: u8 where "FACTION_FLAG_PEACE_FORCED = 0x10"
definition FACTION_FLAG_INACTIVE :: u8 where "FACTION_FLAG_INACTIVE = 0x20"
definition FACTION_FLAG_SPECIAL :: u8 where "FACTION_FLAG_SPECIAL = 0x80"

lemmas flag_defs = FACTION_FLAG_VISIBLE_def FACTION_FLAG_AT_WAR_def FACTION_FLAG_HIDDEN_def
  FACTION_FLAG_INVISIBLE_FORCED_def FACTION_FLAG_PEACE_FORCED_def FACTION_FLAG_INACTIVE_def
  FACTION_FLAG_SPECIAL_def

abbreviation has_flag :: "u8 \<Rightarrow> u8 \<Rightarrow> bool" where
  "has_flag flags f \<equiv> flags AND f \<noteq> 0"

record faction_state =
  fs_ID :: u32
  fs_ReputationListID :: u32
  fs_Standing :: int
  fs_Flags :: u8
  fs_needSend :: bool
  fs_needSave :: bool

record faction_entry =
  fe_ID :: u32
  fe_reputationListID :: int
  fe_BaseRepRaceMask :: "u32 list"
  fe_BaseRepClassMask :: "u32 list"
  fe_BaseRepValue :: "int list"
  fe_ReputationFlags :: "u32 list"
  fe_team :: u32
  fe_spilloverRateIn :: f32
  fe_spilloverRateOut :: f32
  fe_spilloverMaxRankIn :: u32

text \<open>One slot of \<open>RepSpilloverTemplate\<close>: faction, rate and highest rank.\<close>

type_synonym spill_slot = "u32 \<times> f32 \<times> u32"

record rep_env =
  env_raceMask :: u32
  env_classMask :: u32
  env_LookupEntry :: "u32 \<Rightarrow> faction_entry option"
  env_GetNumRows :: nat
  env_FactionTeamList :: "u32 \<Rightarrow> u32 list option"
  env_RepSpilloverTemplate :: "u32 \<Rightarrow> spill_slot list option"
  env_ReputationGain :: f32
  env_IsPremium :: bool
  env_ReputationGainPremium :: f32
  env_ReputationModifier :: "u32 \<Rightarrow> bool"
  env_OnReputationChange :: "u32 \<Rightarrow> int \<Rightarrow> bool \<Rightarrow> int"

record rep_mgr =
  rm_factions :: "(u32, faction_state) std_map"
  rm_forcedReactions :: "(u32, reputation_rank) std_map"
  rm_visible :: u8
  rm_honored :: u8
  rm_revered :: u8
  rm_exalted :: u8
  rm_sendFactionIncreased :: bool

definition new_rep_mgr :: rep_mgr where
  "new_rep_mgr = \<lparr>rm_factions = [], rm_forcedReactions = [], rm_visible = 0, rm_honored = 0,
     rm_revered = 0, rm_exalted = 0, rm_sendFactionIncreased = False\<rparr>"

section \<open>Accessors\<close>

abbreviation list_id :: "faction_entry \<Rightarrow> u32" where
  "list_id e \<equiv> word_of_int (fe_reputationListID e)"

definition CanHaveReputation :: "faction_entry \<Rightarrow> bool" where
  "CanHaveReputation e \<longleftrightarrow> fe_reputationListID e \<ge> 0"

definition GetState :: "rep_mgr \<Rightarrow> faction_entry \<Rightarrow> faction_state option" where
  "GetState m e = (if CanHaveReputation e then map_find (list_id e) (rm_factions m) else None)"

text \<open>The loop shared by \<open>GetBaseReputation\<close> and \<open>GetDefaultStateFlags\<close>: the first matching slot.\<close>

definition slot_matches :: "rep_env \<Rightarrow> faction_entry \<Rightarrow> nat \<Rightarrow> bool" where
  "slot_matches env e i \<longleftrightarrow>
     (let race = fe_BaseRepRaceMask e ! i; cls = fe_BaseRepClassMask e ! i in
      (race AND env_raceMask env \<noteq> 0 \<or> (race = 0 \<and> cls \<noteq> 0)) \<and>
      (cls AND env_classMask env \<noteq> 0 \<or> cls = 0))"

definition base_slot :: "rep_env \<Rightarrow> faction_entry \<Rightarrow> nat option" where
  "base_slot env e = List.find (slot_matches env e) [0..<4]"

definition GetBaseReputation :: "rep_env \<Rightarrow> faction_entry \<Rightarrow> int" where
  "GetBaseReputation env e = (case base_slot env e of None \<Rightarrow> 0 | Some i \<Rightarrow> fe_BaseRepValue e ! i)"

definition GetDefaultStateFlags :: "rep_env \<Rightarrow> faction_entry \<Rightarrow> u32" where
  "GetDefaultStateFlags env e = (case base_slot env e of None \<Rightarrow> 0 | Some i \<Rightarrow> fe_ReputationFlags e ! i)"

definition GetReputation :: "rep_env \<Rightarrow> rep_mgr \<Rightarrow> faction_entry option \<Rightarrow> int" where
  "GetReputation env m e =
     (case e of
        None \<Rightarrow> 0
      | Some e \<Rightarrow> (case GetState m e of None \<Rightarrow> 0 | Some st \<Rightarrow> GetBaseReputation env e + fs_Standing st))"

definition GetRank :: "rep_env \<Rightarrow> rep_mgr \<Rightarrow> faction_entry option \<Rightarrow> reputation_rank" where
  "GetRank env m e = ReputationToRank (GetReputation env m e)"

definition GetBaseRank :: "rep_env \<Rightarrow> faction_entry \<Rightarrow> reputation_rank" where
  "GetBaseRank env e = ReputationToRank (GetBaseReputation env e)"

definition IsAtWar :: "rep_mgr \<Rightarrow> faction_entry option \<Rightarrow> bool" where
  "IsAtWar m e =
     (case e of
        None \<Rightarrow> False
      | Some e \<Rightarrow> (case GetState m e of None \<Rightarrow> False | Some st \<Rightarrow> has_flag (fs_Flags st) FACTION_FLAG_AT_WAR))"

text \<open>The overloads that take a faction id.\<close>

definition GetReputation_id :: "rep_env \<Rightarrow> rep_mgr \<Rightarrow> u32 \<Rightarrow> int" where
  "GetReputation_id env m faction_id = GetReputation env m (env_LookupEntry env faction_id)"

definition IsAtWar_id :: "rep_env \<Rightarrow> rep_mgr \<Rightarrow> u32 \<Rightarrow> bool" where
  "IsAtWar_id env m faction_id = IsAtWar m (env_LookupEntry env faction_id)"

definition GetReputationRank :: "rep_env \<Rightarrow> rep_mgr \<Rightarrow> u32 \<Rightarrow> reputation_rank" where
  "GetReputationRank env m faction = GetRank env m (env_LookupEntry env faction)"

definition ApplyForceReaction :: "u32 \<Rightarrow> reputation_rank \<Rightarrow> bool \<Rightarrow> rep_mgr \<Rightarrow> rep_mgr" where
  "ApplyForceReaction faction_id rank apply' m =
     m\<lparr>rm_forcedReactions :=
        (if apply' then map_set faction_id rank (rm_forcedReactions m)
         else map_erase faction_id (rm_forcedReactions m))\<rparr>"

definition GetForcedRankIfAny :: "rep_mgr \<Rightarrow> u32 \<Rightarrow> reputation_rank option" where
  "GetForcedRankIfAny m faction = map_find faction (rm_forcedReactions m)"

section \<open>Flags\<close>

text \<open>The private overloads work on a \<open>FactionState\<close>; \<open>SetVisible\<close> also counts.\<close>

definition SetVisible_state :: "faction_state \<Rightarrow> rep_mgr \<Rightarrow> faction_state \<times> rep_mgr" where
  "SetVisible_state st m =
     (if has_flag (fs_Flags st) (FACTION_FLAG_INVISIBLE_FORCED OR FACTION_FLAG_HIDDEN) \<and>
         \<not> has_flag (fs_Flags st) FACTION_FLAG_SPECIAL
      then (st, m)
      else if has_flag (fs_Flags st) FACTION_FLAG_VISIBLE then (st, m)
      else (st\<lparr>fs_Flags := fs_Flags st OR FACTION_FLAG_VISIBLE, fs_needSend := True, fs_needSave := True\<rparr>,
            m\<lparr>rm_visible := rm_visible m + 1\<rparr>))"

definition SetAtWar_state :: "bool \<Rightarrow> faction_state \<Rightarrow> faction_state" where
  "SetAtWar_state atWar st =
     (if atWar \<and> has_flag (fs_Flags st) FACTION_FLAG_PEACE_FORCED then st
      else if has_flag (fs_Flags st) FACTION_FLAG_AT_WAR = atWar then st
      else st\<lparr>fs_Flags := (if atWar then fs_Flags st OR FACTION_FLAG_AT_WAR
                           else fs_Flags st AND NOT FACTION_FLAG_AT_WAR),
              fs_needSend := True, fs_needSave := True\<rparr>)"

definition SetInactive_state :: "bool \<Rightarrow> faction_state \<Rightarrow> faction_state" where
  "SetInactive_state inactive st =
     (if inactive \<and> (has_flag (fs_Flags st) (FACTION_FLAG_INVISIBLE_FORCED OR FACTION_FLAG_HIDDEN) \<or>
         \<not> has_flag (fs_Flags st) FACTION_FLAG_VISIBLE) then st
      else if has_flag (fs_Flags st) FACTION_FLAG_INACTIVE = inactive then st
      else st\<lparr>fs_Flags := (if inactive then fs_Flags st OR FACTION_FLAG_INACTIVE
                           else fs_Flags st AND NOT FACTION_FLAG_INACTIVE),
              fs_needSend := True, fs_needSave := True\<rparr>)"

definition put_state :: "u32 \<Rightarrow> faction_state \<times> rep_mgr \<Rightarrow> rep_mgr" where
  "put_state k p = (snd p)\<lparr>rm_factions := map_set k (fst p) (rm_factions (snd p))\<rparr>"

definition SetVisible :: "faction_entry \<Rightarrow> rep_mgr \<Rightarrow> rep_mgr" where
  "SetVisible e m =
     (if fe_reputationListID e < 0 then m
      else case map_find (list_id e) (rm_factions m) of
             None \<Rightarrow> m
           | Some st \<Rightarrow> put_state (list_id e) (SetVisible_state st m))"

text \<open>The overload for a faction template: \<open>faction\<close> is the template's faction id.\<close>

definition SetVisible_template :: "rep_env \<Rightarrow> u32 \<Rightarrow> rep_mgr \<Rightarrow> rep_mgr" where
  "SetVisible_template env faction m =
     (if faction = 0 then m
      else case env_LookupEntry env faction of
             None \<Rightarrow> m
           | Some e \<Rightarrow>
               if fe_BaseRepRaceMask e ! 1 AND env_raceMask env \<noteq> 0 \<and> fe_BaseRepValue e ! 1 = Reputation_Bottom
               then m else SetVisible e m)"

definition SetAtWar :: "u32 \<Rightarrow> bool \<Rightarrow> rep_mgr \<Rightarrow> rep_mgr" where
  "SetAtWar repListID on m =
     (case map_find repListID (rm_factions m) of
        None \<Rightarrow> m
      | Some st \<Rightarrow>
          if has_flag (fs_Flags st) (FACTION_FLAG_INVISIBLE_FORCED OR FACTION_FLAG_HIDDEN) then m
          else put_state repListID (SetAtWar_state on st, m))"

definition SetInactive :: "u32 \<Rightarrow> bool \<Rightarrow> rep_mgr \<Rightarrow> rep_mgr" where
  "SetInactive repListID on m =
     (case map_find repListID (rm_factions m) of
        None \<Rightarrow> m
      | Some st \<Rightarrow> put_state repListID (SetInactive_state on st, m))"

section \<open>Standing\<close>

definition UpdateRankCounters :: "reputation_rank \<Rightarrow> reputation_rank \<Rightarrow> rep_mgr \<Rightarrow> rep_mgr" where
  "UpdateRankCounters old_rank new_rank m =
     (let m = m\<lparr>rm_exalted := rm_exalted m - of_bool (old_rank \<ge> REP_EXALTED),
                rm_revered := rm_revered m - of_bool (old_rank \<ge> REP_REVERED),
                rm_honored := rm_honored m - of_bool (old_rank \<ge> REP_HONORED)\<rparr>
      in m\<lparr>rm_exalted := rm_exalted m + of_bool (new_rank \<ge> REP_EXALTED),
           rm_revered := rm_revered m + of_bool (new_rank \<ge> REP_REVERED),
           rm_honored := rm_honored m + of_bool (new_rank \<ge> REP_HONORED)\<rparr>)"

text \<open>\<open>int32(floor((float)standing * rate + 0.5f))\<close>\<close>

definition scaled :: "f32 \<Rightarrow> int \<Rightarrow> int" where
  "scaled rate standing = f32_floor (f32_add (f32_mul (f32_of_int standing) rate) 0x3F000000)"

definition gained :: "rep_env \<Rightarrow> int \<Rightarrow> int" where
  "gained env standing =
     (let standing = scaled (env_ReputationGain env) standing in
      if env_IsPremium env then scaled (env_ReputationGainPremium env) standing else standing)"

definition clamp_standing :: "int \<Rightarrow> int" where
  "clamp_standing standing =
     (if standing > Reputation_Cap then Reputation_Cap
      else if standing < Reputation_Bottom then Reputation_Bottom else standing)"

definition SetOneFactionReputation ::
  "rep_env \<Rightarrow> faction_entry \<Rightarrow> int \<Rightarrow> bool \<Rightarrow> rep_mgr \<Rightarrow> bool \<times> rep_mgr" where
  "SetOneFactionReputation env e standing incremental m =
     (case map_find (list_id e) (rm_factions m) of
        None \<Rightarrow> (False, m)
      | Some st \<Rightarrow>
          let BaseRep = GetBaseReputation env e;
              standing = (if incremental then gained env standing + (fs_Standing st + BaseRep) else standing);
              standing = clamp_standing standing;
              old_rank = ReputationToRank (fs_Standing st + BaseRep);
              new_rank = ReputationToRank standing;
              st = st\<lparr>fs_Standing := standing - BaseRep, fs_needSend := True, fs_needSave := True\<rparr>;
              (st, m) = SetVisible_state st m;
              st = (if new_rank \<le> REP_HOSTILE then SetAtWar_state True st else st);
              m = put_state (list_id e) (st, m);
              m = (if new_rank > old_rank then m\<lparr>rm_sendFactionIncreased := True\<rparr> else m)
          in (True, UpdateRankCounters old_rank new_rank m))"

section \<open>Sending\<close>

text \<open>
  \<open>SMSG_SET_FACTION_STANDING\<close>: every faction marked for sending, which loses the mark.  The two
  floats are zero.
\<close>

definition to_send :: "rep_mgr \<Rightarrow> faction_state list" where
  "to_send m = filter fs_needSend (map snd (rm_factions m))"

definition SendState_packet :: "rep_mgr \<Rightarrow> bb_error + byte_buffer" where
  "SendState_packet m =
     ebind (append_u32 0 empty_buffer) (\<lambda>data.
     ebind (append_u32 0 data) (\<lambda>data.
     ebind (WriteBits (of_nat (length (to_send m)) :: u32) 21 data) (\<lambda>data.
     ebind (WriteBit True data) (\<lambda>data.
       efold (\<lambda>st data. ebind (append_u32 (fs_ReputationListID st) data)
                (append_u32 (word_of_int (fs_Standing st)))) (to_send m) data))))"

definition SendState :: "rep_mgr \<Rightarrow> (bb_error + byte_buffer) \<times> rep_mgr" where
  "SendState m =
     (SendState_packet m,
      m\<lparr>rm_sendFactionIncreased := False,
        rm_factions := map (\<lambda>x. (fst x, (snd x)\<lparr>fs_needSend := False\<rparr>)) (rm_factions m)\<rparr>)"

section \<open>Spillover\<close>

text \<open>
  The first branch: the slots of a spillover template.  Its factions were checked to exist when the
  template was loaded, so a failed lookup (a null dereference in the code) does nothing here.
\<close>

fun spill_template :: "rep_env \<Rightarrow> int \<Rightarrow> bool \<Rightarrow> spill_slot list \<Rightarrow> rep_mgr \<Rightarrow> rep_mgr" where
  "spill_template env standing incremental [] m = m"
| "spill_template env standing incremental ((faction, rate, rank) # slots) m =
     spill_template env standing incremental slots
       (if faction \<noteq> 0 \<and> rank_no (GetReputationRank env m faction) \<le> unat rank
        then case env_LookupEntry env faction of
               None \<Rightarrow> m
             | Some e \<Rightarrow> snd (SetOneFactionReputation env e
                 (f32_trunc (f32_mul (f32_of_int standing) rate)) incremental m)
        else m)"

text \<open>The loop over the affiliated factions; \<open>res\<close> is the local of \<open>SetReputation\<close>.\<close>

fun spill_list ::
  "rep_env \<Rightarrow> faction_entry \<Rightarrow> f32 \<Rightarrow> bool \<Rightarrow> u32 list \<Rightarrow> bool \<times> rep_mgr \<Rightarrow> bool \<times> rep_mgr" where
  "spill_list env e out incremental [] s = s"
| "spill_list env e out incremental (f # fs) s =
     spill_list env e out incremental fs
       (case env_LookupEntry env f of
          None \<Rightarrow> s
        | Some c \<Rightarrow>
            if fe_ID c = fe_ID e \<or> rank_no (GetRank env (snd s) (Some c)) > unat (fe_spilloverMaxRankIn c) then s
            else
              let spilloverRep = f32_trunc (f32_mul out (fe_spilloverRateIn c)) in
              if spilloverRep \<noteq> 0 \<or> \<not> incremental
              then SetOneFactionReputation env c spilloverRep incremental (snd s) else s)"

definition spill_related ::
  "rep_env \<Rightarrow> faction_entry \<Rightarrow> int \<Rightarrow> bool \<Rightarrow> rep_mgr \<Rightarrow> bool \<times> rep_mgr" where
  "spill_related env e standing incremental m =
     (let out = f32_of_int standing;
          flist = env_FactionTeamList env (fe_ID e);
          (out, flist, m) =
            (if flist = None \<and> fe_team e \<noteq> 0 \<and> \<not> f32_eq (fe_spilloverRateOut e) 0
             then let out = f32_mul out (fe_spilloverRateOut e) in
                  case env_LookupEntry env (fe_team e) of
                    None \<Rightarrow> (out, flist, m)
                  | Some parent \<Rightarrow>
                      (case map_find (list_id parent) (rm_factions m) of
                         Some st \<Rightarrow>
                           if has_flag (fs_Flags st) FACTION_FLAG_SPECIAL
                           then (out, flist, snd (SetOneFactionReputation env parent (f32_trunc out) incremental m))
                           else (out, env_FactionTeamList env (fe_team e), m)
                       | None \<Rightarrow> (out, env_FactionTeamList env (fe_team e), m))
             else (out, flist, m))
      in case flist of
           None \<Rightarrow> (False, m)
         | Some fs \<Rightarrow> spill_list env e out incremental fs (False, m))"

text \<open>\<open>SetReputation\<close> returns its result, the manager and the packet, when one is sent.\<close>

definition SetReputation ::
  "rep_env \<Rightarrow> faction_entry \<Rightarrow> int \<Rightarrow> bool \<Rightarrow> rep_mgr \<Rightarrow> bool \<times> rep_mgr \<times> (bb_error + byte_buffer) option" where
  "SetReputation env e standing incremental m =
     (let standing = env_OnReputationChange env (fe_ID e) standing incremental;
          (res, m) =
            (case env_RepSpilloverTemplate env (fe_ID e) of
               Some slots \<Rightarrow> (False, spill_template env standing incremental (take 5 slots) m)
             | None \<Rightarrow> spill_related env e standing incremental m)
      in case map_find (list_id e) (rm_factions m) of
           None \<Rightarrow> (res, m, None)
         | Some _ \<Rightarrow>
             let (res, m) = SetOneFactionReputation env e standing incremental m;
                 (packet, m) = SendState m
             in (res, m, Some packet))"

section \<open>Loading and saving\<close>

definition init_faction :: "rep_env \<Rightarrow> u32 \<Rightarrow> rep_mgr \<Rightarrow> rep_mgr" where
  "init_faction env i m =
     (case env_LookupEntry env i of
        None \<Rightarrow> m
      | Some e \<Rightarrow>
          if fe_reputationListID e \<ge> 0
          then
            let newFaction = \<lparr>fs_ID = fe_ID e, fs_ReputationListID = list_id e, fs_Standing = 0,
                  fs_Flags = ucast (GetDefaultStateFlags env e), fs_needSend = True, fs_needSave = True\<rparr>;
                m = (if has_flag (fs_Flags newFaction) FACTION_FLAG_VISIBLE
                     then m\<lparr>rm_visible := rm_visible m + 1\<rparr> else m);
                m = UpdateRankCounters REP_HOSTILE (GetBaseRank env e) m
            in put_state (fs_ReputationListID newFaction) (newFaction, m)
          else m)"

definition Initialize :: "rep_env \<Rightarrow> rep_mgr \<Rightarrow> rep_mgr" where
  "Initialize env m =
     fold (init_faction env) (map of_nat [1..<env_GetNumRows env])
       (m\<lparr>rm_factions := [], rm_visible := 0, rm_honored := 0, rm_revered := 0, rm_exalted := 0,
         rm_sendFactionIncreased := False\<rparr>)"

definition blank_state :: faction_state where
  "blank_state = \<lparr>fs_ID = 0, fs_ReputationListID = 0, fs_Standing = 0, fs_Flags = 0, fs_needSend = False,
     fs_needSave = False\<rparr>"

text \<open>One row of \<open>character_reputation\<close>: faction, standing and flags.\<close>

type_synonym rep_row = "u16 \<times> int \<times> u16"

definition load_row :: "rep_env \<Rightarrow> rep_row \<Rightarrow> rep_mgr \<Rightarrow> rep_mgr" where
  "load_row env row m =
     (case row of (faction, standing, dbFactionFlags) \<Rightarrow>
        case env_LookupEntry env (ucast faction) of
          None \<Rightarrow> m
        | Some e \<Rightarrow>
            if fe_reputationListID e \<ge> 0
            then
              let k = list_id e;
                  st = (case map_find k (rm_factions m) of None \<Rightarrow> blank_state | Some st \<Rightarrow> st);
                  st = st\<lparr>fs_Standing := standing\<rparr>;
                  BaseRep = GetBaseReputation env e;
                  m = UpdateRankCounters (ReputationToRank BaseRep) (ReputationToRank (BaseRep + standing)) m;
                  (st, m) = (if dbFactionFlags AND ucast FACTION_FLAG_VISIBLE \<noteq> 0 then SetVisible_state st m else (st, m));
                  st = (if dbFactionFlags AND ucast FACTION_FLAG_INACTIVE \<noteq> 0 then SetInactive_state True st else st);
                  st = (if dbFactionFlags AND ucast FACTION_FLAG_AT_WAR \<noteq> 0 then SetAtWar_state True st
                        else if has_flag (fs_Flags st) FACTION_FLAG_VISIBLE then SetAtWar_state False st else st);
                  m = put_state k (st, m);
                  st = (if GetRank env m (Some e) \<le> REP_HOSTILE then SetAtWar_state True st else st);
                  st = (if ucast (fs_Flags st) = dbFactionFlags
                        then st\<lparr>fs_needSend := False, fs_needSave := False\<rparr> else st)
              in put_state k (st, m)
            else m)"

definition LoadFromDB :: "rep_env \<Rightarrow> rep_row list \<Rightarrow> rep_mgr \<Rightarrow> rep_mgr" where
  "LoadFromDB env rows m = fold (load_row env) rows (Initialize env m)"

text \<open>\<open>new_protocol\<close>: the inter-realm session speaks a protocol that carries reputation itself.\<close>

definition LoadAfterInterRealm :: "rep_env \<Rightarrow> bool \<Rightarrow> rep_row list \<Rightarrow> rep_mgr \<Rightarrow> rep_mgr" where
  "LoadAfterInterRealm env new_protocol rows m =
     (if new_protocol then m else fold (load_row env) rows (Initialize env m))"

definition SaveToDB :: "rep_mgr \<Rightarrow> rep_row list \<times> rep_mgr" where
  "SaveToDB m =
     (map (\<lambda>st. (ucast (fs_ID st), fs_Standing st, ucast (fs_Flags st)))
        (filter fs_needSave (map snd (rm_factions m))),
      m\<lparr>rm_factions := map (\<lambda>x. (fst x, (snd x)\<lparr>fs_needSave := False\<rparr>)) (rm_factions m)\<rparr>)"

end
