(* ===== verification/ReputationInv.thy ===== *)
theory ReputationInv
  imports Reputation
begin

text \<open>
  What the reputation manager guarantees: the rank thresholds, the clamping of standings, and the
  invariant that its four counters always agree with the faction table, kept by every operation
  that changes it.
\<close>

unbundle bit_operations_syntax

section \<open>Ranks\<close>

lemma rank_eq:
  "ReputationToRank s =
     (if s \<ge> 42000 then REP_EXALTED else if s \<ge> 21000 then REP_REVERED else if s \<ge> 9000 then REP_HONORED
      else if s \<ge> 3000 then REP_FRIENDLY else if s \<ge> 0 then REP_NEUTRAL else if s \<ge> -3000 then REP_UNFRIENDLY
      else if s \<ge> -6000 then REP_HOSTILE else REP_HATED)"
  by (simp add: ReputationToRank_def Reputation_Cap_def PointsInRank_def rank_of_no_def numeral_eq_Suc)

section \<open>Flags\<close>

definition is_visible :: "faction_state \<Rightarrow> bool" where
  "is_visible st \<longleftrightarrow> has_flag (fs_Flags st) FACTION_FLAG_VISIBLE"

lemma visible_bit: "is_visible st \<longleftrightarrow> bit (fs_Flags st) 0"
  by (simp add: is_visible_def flag_defs and_one_eq odd_iff_mod_2_eq_one bit_0)

lemma bit0_masks: "\<not> bit (2 :: u8) 0" "\<not> bit (32 :: u8) 0"
  by simp_all

lemma SetAtWar_state_keeps [simp]:
  "is_visible (SetAtWar_state b st) = is_visible st" "fs_Standing (SetAtWar_state b st) = fs_Standing st"
  "fs_ID (SetAtWar_state b st) = fs_ID st"
  "fs_ReputationListID (SetAtWar_state b st) = fs_ReputationListID st"
  by (auto simp: SetAtWar_state_def visible_bit flag_defs bit_or_iff bit_and_iff bit_not_iff)

lemma SetInactive_state_keeps [simp]:
  "is_visible (SetInactive_state b st) = is_visible st" "fs_Standing (SetInactive_state b st) = fs_Standing st"
  "fs_ID (SetInactive_state b st) = fs_ID st"
  "fs_ReputationListID (SetInactive_state b st) = fs_ReputationListID st"
  by (auto simp: SetInactive_state_def visible_bit flag_defs bit_or_iff bit_and_iff bit_not_iff)

lemma SetVisible_state_keeps:
  assumes "SetVisible_state st m = (st', m')"
  shows "fs_Standing st' = fs_Standing st" "fs_ID st' = fs_ID st" "fs_ReputationListID st' = fs_ReputationListID st"
    "m' = m\<lparr>rm_visible := rm_visible m - of_bool (is_visible st) + of_bool (is_visible st')\<rparr>"
  using assms
  by (auto simp: SetVisible_state_def is_visible_def split: if_splits)
    (simp_all add: visible_bit [unfolded is_visible_def] flag_defs bit_or_iff)

section \<open>The invariant\<close>

text \<open>
  The faction table: an entry is found under its own id among its rows, list ids are 32-bit, and no two factions
  with a reputation share one.
\<close>

definition env_ok :: "rep_env \<Rightarrow> bool" where
  "env_ok env \<longleftrightarrow>
     (\<forall>i e. env_LookupEntry env i = Some e \<longrightarrow>
        fe_ID e = i \<and> 0 < i \<and> unat i < env_GetNumRows env \<and> - (2 ^ 31) \<le> fe_reputationListID e \<and> fe_reputationListID e < 2 ^ 31) \<and>
     (\<forall>i j e f. env_LookupEntry env i = Some e \<longrightarrow> env_LookupEntry env j = Some f \<longrightarrow>
        CanHaveReputation e \<longrightarrow> CanHaveReputation f \<longrightarrow> fe_reputationListID e = fe_reputationListID f \<longrightarrow> i = j)"

definition state_rank :: "rep_env \<Rightarrow> faction_state \<Rightarrow> reputation_rank" where
  "state_rank env st =
     ReputationToRank (GetBaseReputation env (the (env_LookupEntry env (fs_ID st))) + fs_Standing st)"

definition state_ok :: "rep_env \<Rightarrow> u32 \<Rightarrow> faction_state \<Rightarrow> bool" where
  "state_ok env k st \<longleftrightarrow> fs_ReputationListID st = k \<and>
     (\<exists>e. env_LookupEntry env (fs_ID st) = Some e \<and> CanHaveReputation e \<and> list_id e = k)"

definition count_states :: "(faction_state \<Rightarrow> bool) \<Rightarrow> rep_mgr \<Rightarrow> u8" where
  "count_states P m = of_nat (card {x \<in> set (rm_factions m). P (snd x)})"

definition rep_inv :: "rep_env \<Rightarrow> rep_mgr \<Rightarrow> bool" where
  "rep_inv env m \<longleftrightarrow>
     map_ok (rm_factions m) \<and> (\<forall>x \<in> set (rm_factions m). state_ok env (fst x) (snd x)) \<and>
     rm_visible m = count_states is_visible m \<and>
     rm_honored m = count_states (\<lambda>st. state_rank env st \<ge> REP_HONORED) m \<and>
     rm_revered m = count_states (\<lambda>st. state_rank env st \<ge> REP_REVERED) m \<and>
     rm_exalted m = count_states (\<lambda>st. state_rank env st \<ge> REP_EXALTED) m"

text \<open>Storing a state moves each counter by what the old and the new state contribute.\<close>

definition was :: "(faction_state \<Rightarrow> bool) \<Rightarrow> u32 \<Rightarrow> rep_mgr \<Rightarrow> bool" where
  "was P k m \<longleftrightarrow> (\<exists>st. map_find k (rm_factions m) = Some st \<and> P st)"

lemma count_states_put:
  assumes "map_ok (rm_factions m)" "rm_factions m' = rm_factions m"
  shows "count_states P (put_state k (st, m')) = count_states P m - of_bool (was P k m) + of_bool (P st)"
  using std_map.counter_store [OF assms(1), where P = "\<lambda>x. P (snd x)" and k = k and v = st and c = "count_states P m"]
    assms(2)
  by (simp add: count_states_def put_state_def was_def)

lemma rep_inv_put:
  assumes "rep_inv env m" "rm_factions m' = rm_factions m" "state_ok env k st"
    and "rm_visible m' = rm_visible m - of_bool (was is_visible k m) + of_bool (is_visible st)"
    and "rm_honored m' = rm_honored m - of_bool (was (\<lambda>st. state_rank env st \<ge> REP_HONORED) k m) +
      of_bool (state_rank env st \<ge> REP_HONORED)"
    and "rm_revered m' = rm_revered m - of_bool (was (\<lambda>st. state_rank env st \<ge> REP_REVERED) k m) +
      of_bool (state_rank env st \<ge> REP_REVERED)"
    and "rm_exalted m' = rm_exalted m - of_bool (was (\<lambda>st. state_rank env st \<ge> REP_EXALTED) k m) +
      of_bool (state_rank env st \<ge> REP_EXALTED)"
  shows "rep_inv env (put_state k (st, m'))"
proof -
  have ok: "map_ok (rm_factions m)" using assms(1) by (simp add: rep_inv_def)
  have fac: "rm_factions (put_state k (st, m')) = map_set k st (rm_factions m)"
    using assms(2) by (simp add: put_state_def)
  have "\<forall>x \<in> set (map_set k st (rm_factions m)). state_ok env (fst x) (snd x)"
    using assms(1,3) std_map.entries_store [OF ok, of k st] by (auto simp: rep_inv_def)
  moreover have "map_ok (map_set k st (rm_factions m))" using map_ok_set [OF ok] .
  moreover note c = count_states_put [OF ok assms(2)]
  ultimately show ?thesis
    using assms unfolding rep_inv_def fac c by (simp add: put_state_def)
qed

lemma state_entry:
  assumes "env_ok env" "rep_inv env m" "map_find (list_id e) (rm_factions m) = Some st"
    and "env_LookupEntry env (fe_ID e) = Some e"
  shows "state_ok env (list_id e) st" "fs_ID st = fe_ID e" "CanHaveReputation e"
    "state_rank env st = ReputationToRank (GetBaseReputation env e + fs_Standing st)"
proof -
  have "(list_id e, st) \<in> set (rm_factions m)"
    using std_map.entries_iff [of "rm_factions m"] assms(2,3) by (simp add: rep_inv_def)
  then show ok: "state_ok env (list_id e) st" using assms(2) by (auto simp: rep_inv_def)
  then obtain f where f: "env_LookupEntry env (fs_ID st) = Some f" "CanHaveReputation f" "list_id f = list_id e"
    by (auto simp: state_ok_def)
  have r: "- (2 ^ 31) \<le> fe_reputationListID e" "fe_reputationListID e < 2 ^ 31" "fe_reputationListID f < 2 ^ 31"
    "0 \<le> fe_reputationListID f"
    using assms(1,4) f(1,2) by (auto simp: env_ok_def CanHaveReputation_def)
  have mod: "fe_reputationListID f mod 2 ^ 32 = fe_reputationListID e mod 2 ^ 32"
    using arg_cong [OF f(3), of uint] by (simp add: uint_word_of_int)
  have "fe_reputationListID e = fe_reputationListID f"
    using mod r by (simp add: mod_pos_pos_trivial) (smt (verit) mod_add_self2 mod_pos_pos_trivial)
  then show can: "CanHaveReputation e" using f(2) by (simp add: CanHaveReputation_def)
  show id: "fs_ID st = fe_ID e"
    using assms(1) f(1,2) assms(4) can \<open>fe_reputationListID e = fe_reputationListID f\<close>
    unfolding env_ok_def by metis
  show "state_rank env st = ReputationToRank (GetBaseReputation env e + fs_Standing st)"
    using assms(4) id by (simp add: state_rank_def)
qed

lemma list_id_inj:
  assumes "env_ok env" "env_LookupEntry env i = Some e" "CanHaveReputation e"
    and "env_LookupEntry env j = Some f" "CanHaveReputation f" "list_id e = list_id f"
  shows "i = j"
proof -
  have r: "0 \<le> fe_reputationListID e" "fe_reputationListID e < 2 ^ 31" "0 \<le> fe_reputationListID f"
    "fe_reputationListID f < 2 ^ 31"
    using assms(1-5) by (auto simp: env_ok_def CanHaveReputation_def)
  have "fe_reputationListID e mod 2 ^ 32 = fe_reputationListID f mod 2 ^ 32"
    using arg_cong [OF assms(6), of uint] by (simp add: uint_word_of_int)
  then have "fe_reputationListID e = fe_reputationListID f" using r by (simp add: mod_pos_pos_trivial)
  then show ?thesis using assms(1-5) unfolding env_ok_def by blast
qed

section \<open>Flags and standing keep the invariant\<close>

lemma was_find: "map_find k (rm_factions m) = Some st \<Longrightarrow> was P k m = P st"
  by (simp add: was_def)

lemma state_ok_cong:
  "state_ok env k st \<Longrightarrow> fs_ID st' = fs_ID st \<Longrightarrow> fs_ReputationListID st' = fs_ReputationListID st \<Longrightarrow> state_ok env k st'"
  by (simp add: state_ok_def)

lemma state_rank_cong:
  "fs_ID st' = fs_ID st \<Longrightarrow> fs_Standing st' = fs_Standing st \<Longrightarrow> state_rank env st' = state_rank env st"
  by (simp add: state_rank_def)

lemma state_ok_found:
  "rep_inv env m \<Longrightarrow> map_find k (rm_factions m) = Some st \<Longrightarrow> state_ok env k st"
  using std_map.entries_iff [of "rm_factions m" k st] by (force simp: rep_inv_def)

text \<open>A change of flags that leaves the visible flag alone, and making a faction visible.\<close>

lemma rep_inv_flags:
  assumes "rep_inv env m" "map_find k (rm_factions m) = Some st"
    and "fs_ID st' = fs_ID st" "fs_ReputationListID st' = fs_ReputationListID st"
    and "fs_Standing st' = fs_Standing st" "is_visible st' = is_visible st"
  shows "rep_inv env (put_state k (st', m))"
  using state_ok_cong [OF state_ok_found [OF assms(1,2)] assms(3,4)] state_rank_cong [OF assms(3,5), of env] assms(6)
  by (intro rep_inv_put [OF assms(1) refl]) (simp_all add: was_find [OF assms(2)])

lemma rep_inv_visible:
  assumes "rep_inv env m" "map_find k (rm_factions m) = Some st"
  shows "rep_inv env (put_state k (SetVisible_state st m))"
proof -
  obtain st' m' where v: "SetVisible_state st m = (st', m')" by (cases "SetVisible_state st m")
  note keep = SetVisible_state_keeps [OF v]
  show ?thesis unfolding v
    using state_ok_cong [OF state_ok_found [OF assms] keep(2,3)] state_rank_cong [OF keep(2,1), of env] keep(4)
    by (intro rep_inv_put [OF assms(1)]) (simp_all add: was_find [OF assms(2)])
qed

lemma rep_inv_SetVisible: "rep_inv env m \<Longrightarrow> rep_inv env (SetVisible e m)"
  using rep_inv_visible by (auto simp: SetVisible_def split: option.split)

lemma rep_inv_SetVisible_template: "rep_inv env m \<Longrightarrow> rep_inv env (SetVisible_template env f m)"
  using rep_inv_SetVisible by (auto simp: SetVisible_template_def split: option.split)

lemma rep_inv_SetAtWar: "rep_inv env m \<Longrightarrow> rep_inv env (SetAtWar k b m)"
  by (auto simp: SetAtWar_def intro!: rep_inv_flags split: option.split)

lemma rep_inv_SetInactive: "rep_inv env m \<Longrightarrow> rep_inv env (SetInactive k b m)"
  by (auto simp: SetInactive_def intro!: rep_inv_flags split: option.split)

text \<open>The table after a change of one standing.\<close>

definition new_standing :: "rep_env \<Rightarrow> faction_entry \<Rightarrow> int \<Rightarrow> bool \<Rightarrow> faction_state \<Rightarrow> int" where
  "new_standing env e standing incremental st =
     clamp_standing (if incremental then gained env standing + (fs_Standing st + GetBaseReputation env e) else standing)"

definition stood :: "rep_env \<Rightarrow> faction_entry \<Rightarrow> int \<Rightarrow> faction_state \<Rightarrow> faction_state" where
  "stood env e n st = st\<lparr>fs_Standing := n - GetBaseReputation env e, fs_needSend := True, fs_needSave := True\<rparr>"

definition warred :: "int \<Rightarrow> faction_state \<Rightarrow> faction_state" where
  "warred n st = (if ReputationToRank n \<le> REP_HOSTILE then SetAtWar_state True st else st)"

lemma UpdateRankCounters_put:
  "UpdateRankCounters a b (put_state k (st, m)) = put_state k (st, UpdateRankCounters a b m)"
  "(put_state k (st, m))\<lparr>rm_sendFactionIncreased := c\<rparr> = put_state k (st, m\<lparr>rm_sendFactionIncreased := c\<rparr>)"
  by (simp_all add: UpdateRankCounters_def put_state_def Let_def)

lemma SetOne_eq:
  assumes "map_find (list_id e) (rm_factions m) = Some st"
    and "n = new_standing env e standing incremental st"
    and "SetVisible_state (stood env e n st) m = (st2, m2)"
    and "old = ReputationToRank (fs_Standing st + GetBaseReputation env e)"
  shows "SetOneFactionReputation env e standing incremental m =
    (True, put_state (list_id e) (warred n st2,
       UpdateRankCounters old (ReputationToRank n)
         (if ReputationToRank n > old then m2\<lparr>rm_sendFactionIncreased := True\<rparr> else m2)))"
  using assms
  by (simp add: SetOneFactionReputation_def new_standing_def stood_def warred_def Let_def
      UpdateRankCounters_put)

lemma warred_keeps [simp]:
  "is_visible (warred n st) = is_visible st" "fs_Standing (warred n st) = fs_Standing st"
  "fs_ID (warred n st) = fs_ID st" "fs_ReputationListID (warred n st) = fs_ReputationListID st"
  by (simp_all add: warred_def)

lemma stood_keeps [simp]:
  "is_visible (stood env e n st) = is_visible st" "fs_Standing (stood env e n st) = n - GetBaseReputation env e"
  "fs_ID (stood env e n st) = fs_ID st" "fs_ReputationListID (stood env e n st) = fs_ReputationListID st"
  by (simp_all add: stood_def is_visible_def)

lemma UpdateRankCounters_sel [simp]:
  "rm_factions (UpdateRankCounters a b m) = rm_factions m" "rm_visible (UpdateRankCounters a b m) = rm_visible m"
  "rm_honored (UpdateRankCounters a b m) = rm_honored m - of_bool (a \<ge> REP_HONORED) + of_bool (b \<ge> REP_HONORED)"
  "rm_revered (UpdateRankCounters a b m) = rm_revered m - of_bool (a \<ge> REP_REVERED) + of_bool (b \<ge> REP_REVERED)"
  "rm_exalted (UpdateRankCounters a b m) = rm_exalted m - of_bool (a \<ge> REP_EXALTED) + of_bool (b \<ge> REP_EXALTED)"
  by (simp_all add: UpdateRankCounters_def Let_def)

lemma rep_inv_SetOne:
  assumes "env_ok env" "rep_inv env m" "env_LookupEntry env (fe_ID e) = Some e"
  shows "rep_inv env (snd (SetOneFactionReputation env e standing incremental m))"
proof (cases "map_find (list_id e) (rm_factions m)")
  case None
  then show ?thesis using assms(2) by (simp add: SetOneFactionReputation_def)
next
  case (Some st)
  define n where "n = new_standing env e standing incremental st"
  obtain st2 m2 where v: "SetVisible_state (stood env e n st) m = (st2, m2)"
    by (cases "SetVisible_state (stood env e n st) m")
  note keep = SetVisible_state_keeps [OF v]
  note entry = state_entry [OF assms(1,2) Some assms(3)]
  have rank: "state_rank env (warred n st2) = ReputationToRank n"
    using keep entry(2) assms(3) by (simp add: state_rank_def)
  have ok: "state_ok env (list_id e) (warred n st2)"
    using state_ok_cong [OF entry(1)] keep by simp
  show ?thesis unfolding SetOne_eq [OF Some n_def v refl] snd_conv
    using ok rank keep entry(4)
    by (intro rep_inv_put [OF assms(2)]) (simp_all add: was_find [OF Some] add.commute)
qed

section \<open>Spillover and packets keep the invariant\<close>

text \<open>Clearing marks on every element changes neither keys nor counts.\<close>

lemma count_states_remark:
  assumes "map_ok (rm_factions m)" "rm_factions m' = map (\<lambda>x. (fst x, f (snd x))) (rm_factions m)"
    and "\<And>st. P (f st) = P st"
  shows "count_states P m' = count_states P m"
proof -
  let ?g = "\<lambda>x. (fst x, f (snd x))" and ?S = "{x \<in> set (rm_factions m). P (snd x)}"
  have img: "{x \<in> set (rm_factions m'). P (snd x)} = ?g ` ?S"
    using assms(3) unfolding assms(2) set_map by fastforce
  have "inj_on ?g ?S"
  proof (rule inj_onI, goal_cases)
    case (1 x y)
    then have "fst x = fst y" "x \<in> set (rm_factions m)" "y \<in> set (rm_factions m)" by auto
    then show ?case using std_map.ids_unique [OF assms(1), of "fst x" "snd x" "snd y"]
      by (metis prod.collapse)
  qed
  then show ?thesis unfolding count_states_def img by (simp add: card_image)
qed

lemma rep_inv_remark:
  assumes "rep_inv env m" "rm_factions m' = map (\<lambda>x. (fst x, f (snd x))) (rm_factions m)"
    and "\<And>st. fs_ID (f st) = fs_ID st" "\<And>st. fs_ReputationListID (f st) = fs_ReputationListID st"
    and "\<And>st. fs_Standing (f st) = fs_Standing st" "\<And>st. fs_Flags (f st) = fs_Flags st"
    and "rm_visible m' = rm_visible m" "rm_honored m' = rm_honored m" "rm_revered m' = rm_revered m"
    "rm_exalted m' = rm_exalted m"
  shows "rep_inv env m'"
proof -
  have ok: "map_ok (rm_factions m)" using assms(1) by (simp add: rep_inv_def)
  note c = count_states_remark [OF ok assms(2)]
  have v: "count_states is_visible m' = count_states is_visible m"
    by (rule c) (simp add: is_visible_def assms(6))
  have r: "count_states (\<lambda>st. state_rank env st \<ge> q) m' = count_states (\<lambda>st. state_rank env st \<ge> q) m" for q
    by (rule c) (simp add: state_rank_def assms(3,5))
  have "map_ok (rm_factions m')" using ok by (simp add: assms(2) map_ok_def comp_def)
  moreover have "\<forall>x \<in> set (rm_factions m'). state_ok env (fst x) (snd x)"
    using assms(1) by (simp add: assms(2-4) rep_inv_def state_ok_def)
  ultimately show ?thesis using assms(1) v r unfolding rep_inv_def assms(7-10) by simp
qed

lemma rep_inv_SendState: "rep_inv env m \<Longrightarrow> rep_inv env (snd (SendState m))"
  by (rule rep_inv_remark [where f = "\<lambda>st. st\<lparr>fs_needSend := False\<rparr>"]) (simp_all add: SendState_def)

lemma rep_inv_SaveToDB: "rep_inv env m \<Longrightarrow> rep_inv env (snd (SaveToDB m))"
  by (rule rep_inv_remark [where f = "\<lambda>st. st\<lparr>fs_needSave := False\<rparr>"]) (simp_all add: SaveToDB_def)

lemma rep_inv_spill_template:
  "env_ok env \<Longrightarrow> rep_inv env m \<Longrightarrow> rep_inv env (spill_template env standing incremental slots m)"
proof (induction env standing incremental slots m rule: spill_template.induct)
  case (2 env standing incremental faction rate rank slots m)
  have "rep_inv env (snd (SetOneFactionReputation env e v incremental m))"
    if "env_LookupEntry env faction = Some e" for e v
  proof -
    have "fe_ID e = faction" using 2(2) that by (auto simp: env_ok_def)
    then show ?thesis using that by (intro rep_inv_SetOne [OF 2(2,3)]) simp
  qed
  then show ?case using 2 by (auto split: option.split)
qed simp

lemma rep_inv_spill_list:
  "env_ok env \<Longrightarrow> rep_inv env (snd s) \<Longrightarrow> rep_inv env (snd (spill_list env e out incremental fs s))"
proof (induction env e out incremental fs s rule: spill_list.induct)
  case (2 env e out incremental f fs s)
  have "rep_inv env (snd (SetOneFactionReputation env c v incremental (snd s)))"
    if "env_LookupEntry env f = Some c" for c v
  proof -
    have "fe_ID c = f" using 2(2) that by (auto simp: env_ok_def)
    then show ?thesis using that by (intro rep_inv_SetOne [OF 2(2,3)]) simp
  qed
  then show ?case using 2 by (auto simp: Let_def split: option.split)
qed simp

lemma rep_inv_spill_related:
  assumes "env_ok env" "rep_inv env m"
  shows "rep_inv env (snd (spill_related env e standing incremental m))"
proof -
  have "rep_inv env (snd (SetOneFactionReputation env p v incremental m))"
    if "env_LookupEntry env t = Some p" for p v t
  proof -
    have "fe_ID p = t" using assms(1) that by (auto simp: env_ok_def)
    then show ?thesis using that by (intro rep_inv_SetOne [OF assms]) simp
  qed
  then show ?thesis using assms(2) rep_inv_spill_list [OF assms(1)]
    by (auto simp: spill_related_def Let_def split: option.splits prod.splits if_splits)
qed

lemma rep_inv_SetReputation:
  assumes "env_ok env" "rep_inv env m" "env_LookupEntry env (fe_ID e) = Some e"
  shows "rep_inv env (fst (snd (SetReputation env e standing incremental m)))"
proof -
  define s where "s = env_OnReputationChange env (fe_ID e) standing incremental"
  obtain res m1 where m1: "(case env_RepSpilloverTemplate env (fe_ID e) of
      Some slots \<Rightarrow> (False, spill_template env s incremental (take 5 slots) m)
    | None \<Rightarrow> spill_related env e s incremental m) = (res, m1)" by fastforce
  have "rep_inv env m1"
    using m1 rep_inv_spill_template [OF assms(1,2)] rep_inv_spill_related [OF assms(1,2), of e s incremental]
    by (auto split: option.splits)
  note one = rep_inv_SetOne [OF assms(1) this assms(3)]
  show ?thesis
    using \<open>rep_inv env m1\<close> rep_inv_SendState [OF one [of s incremental]] m1
    by (auto simp: SetReputation_def s_def [symmetric] Let_def split: option.split prod.split)
qed

section \<open>Initialize\<close>

text \<open>A faction with its initial standing.\<close>

definition unchanged_standing :: "rep_mgr \<Rightarrow> faction_entry \<Rightarrow> bool" where
  "unchanged_standing m e \<longleftrightarrow> (\<exists>st. map_find (list_id e) (rm_factions m) = Some st \<and> fs_Standing st = 0)"

definition init_state :: "rep_env \<Rightarrow> faction_entry \<Rightarrow> faction_state" where
  "init_state env e = \<lparr>fs_ID = fe_ID e, fs_ReputationListID = list_id e, fs_Standing = 0,
     fs_Flags = ucast (GetDefaultStateFlags env e), fs_needSend = True, fs_needSave = True\<rparr>"

lemma init_faction_eq:
  "init_faction env i m =
     (case env_LookupEntry env i of
        Some e \<Rightarrow>
          if CanHaveReputation e
          then put_state (list_id e) (init_state env e,
                 UpdateRankCounters REP_HOSTILE (GetBaseRank env e)
                   (m\<lparr>rm_visible := rm_visible m + of_bool (is_visible (init_state env e))\<rparr>))
          else m
      | None \<Rightarrow> m)"
  by (auto simp: init_faction_def init_state_def is_visible_def CanHaveReputation_def Let_def split: option.split)

definition known_ids :: "rep_mgr \<Rightarrow> u32 set" where
  "known_ids m = (\<lambda>x. fs_ID (snd x)) ` set (rm_factions m)"

lemma init_faction_step:
  assumes "env_ok env" "rep_inv env m" "i \<notin> known_ids m"
  shows "rep_inv env (init_faction env i m)" "known_ids (init_faction env i m) \<subseteq> insert i (known_ids m)"
    "unchanged_standing m e \<Longrightarrow> unchanged_standing (init_faction env i m) e"
    "env_LookupEntry env i = Some e \<Longrightarrow> CanHaveReputation e \<Longrightarrow> unchanged_standing (init_faction env i m) e"
proof -
  have ok: "map_ok (rm_factions m)" using assms(2) by (simp add: rep_inv_def)
  have id: "fe_ID f = i" if "env_LookupEntry env i = Some f" for f
    using assms(1) that by (auto simp: env_ok_def)
  have new: "map_find (list_id f) (rm_factions m) = None" if f: "env_LookupEntry env i = Some f" for f
  proof (rule ccontr)
    assume "map_find (list_id f) (rm_factions m) \<noteq> None"
    then obtain st where st: "map_find (list_id f) (rm_factions m) = Some st" by auto
    have "fs_ID st = i" using state_entry(2) [OF assms(1,2) st] f id [OF f] by simp
    moreover have "(list_id f, st) \<in> set (rm_factions m)" using std_map.entries_iff [OF ok] st by simp
    ultimately show False using assms(3) by (force simp: known_ids_def)
  qed
  have "rep_inv env (put_state (list_id f) (init_state env f,
      UpdateRankCounters REP_HOSTILE (GetBaseRank env f)
        (m\<lparr>rm_visible := rm_visible m + of_bool (is_visible (init_state env f))\<rparr>)))"
    if f: "env_LookupEntry env i = Some f" "CanHaveReputation f" for f
  proof (rule rep_inv_put [OF assms(2)])
    have r: "state_rank env (init_state env f) = GetBaseRank env f"
      using f id [OF f(1)] by (simp add: state_rank_def init_state_def GetBaseRank_def)
    show "state_ok env (list_id f) (init_state env f)"
      using f id [OF f(1)] by (auto simp: state_ok_def init_state_def)
    have w: "\<not> was P (list_id f) m" for P using new [OF f(1)] by (simp add: was_def)
    show "rm_visible (UpdateRankCounters REP_HOSTILE (GetBaseRank env f)
        (m\<lparr>rm_visible := rm_visible m + of_bool (is_visible (init_state env f))\<rparr>)) =
      rm_visible m - of_bool (was is_visible (list_id f) m) + of_bool (is_visible (init_state env f))"
      by (simp add: w)
  qed (use new [OF f(1)] f id [OF f(1)] in
    \<open>simp_all add: was_def less_eq_reputation_rank_def state_rank_def init_state_def GetBaseRank_def\<close>)
  then show "rep_inv env (init_faction env i m)"
    using assms(2) by (auto simp: init_faction_eq split: option.split)
  have fac: "rm_factions (init_faction env i m) = rm_factions m \<or>
      (\<exists>f. env_LookupEntry env i = Some f \<and> CanHaveReputation f \<and>
        rm_factions (init_faction env i m) = map_set (list_id f) (init_state env f) (rm_factions m))"
    by (auto simp: init_faction_eq put_state_def split: option.split)
  then show "known_ids (init_faction env i m) \<subseteq> insert i (known_ids m)"
  proof (elim disjE exE conjE)
    fix f assume f: "env_LookupEntry env i = Some f"
      "rm_factions (init_faction env i m) = map_set (list_id f) (init_state env f) (rm_factions m)"
    show ?thesis using id [OF f(1)]
      by (auto simp: known_ids_def f(2) std_map.entries_store [OF ok] init_state_def)
  qed (auto simp: known_ids_def)
  show "unchanged_standing m e \<Longrightarrow> unchanged_standing (init_faction env i m) e"
    using fac map_find_set [OF ok] by (auto simp: unchanged_standing_def init_state_def)
  show "env_LookupEntry env i = Some e \<Longrightarrow> CanHaveReputation e \<Longrightarrow> unchanged_standing (init_faction env i m) e"
    using map_find_set [OF ok] by (simp add: init_faction_eq unchanged_standing_def put_state_def init_state_def)
qed

lemma init_fold:
  assumes "env_ok env" "rep_inv env m" "distinct is" "set is \<inter> known_ids m = {}"
  shows "rep_inv env (fold (init_faction env) is m) \<and>
    (\<forall>e. unchanged_standing m e \<longrightarrow> unchanged_standing (fold (init_faction env) is m) e) \<and>
    (\<forall>i \<in> set is. \<forall>e. env_LookupEntry env i = Some e \<longrightarrow> CanHaveReputation e \<longrightarrow>
       unchanged_standing (fold (init_faction env) is m) e)"
  using assms(2-4)
proof (induction "is" arbitrary: m)
  case (Cons i "is")
  have i: "i \<notin> known_ids m" using Cons.prems(3) by auto
  note st = init_faction_step [OF assms(1) Cons.prems(1) i]
  have "set is \<inter> known_ids (init_faction env i m) = {}" using st(2) Cons.prems(2,3) by auto
  from Cons.IH [OF st(1) _ this] Cons.prems(2) st(3,4) show ?case by auto
qed simp

definition cleared :: "rep_mgr \<Rightarrow> rep_mgr" where
  "cleared m = m\<lparr>rm_factions := [], rm_visible := 0, rm_honored := 0, rm_revered := 0, rm_exalted := 0,
     rm_sendFactionIncreased := False\<rparr>"

lemma rep_inv_empty: "rm_factions m = [] \<Longrightarrow> rm_visible m = 0 \<Longrightarrow> rm_honored m = 0 \<Longrightarrow> rm_revered m = 0 \<Longrightarrow>
    rm_exalted m = 0 \<Longrightarrow> rep_inv env m"
  by (simp add: rep_inv_def map_ok_def count_states_def)

lemma Initialize_ok:
  assumes "env_ok env" "env_GetNumRows env \<le> 2 ^ 32"
  shows "rep_inv env (Initialize env m)"
    "env_LookupEntry env i = Some e \<Longrightarrow> CanHaveReputation e \<Longrightarrow> unchanged_standing (Initialize env m) e"
proof -
  let ?is = "map of_nat [1..<env_GetNumRows env] :: u32 list"
  have "distinct ?is"
    using assms(2) by (auto simp: distinct_map intro!: inj_onI dest: of_nat_eq_iff [THEN iffD1] simp: word_of_nat_eq_iff take_bit_nat_eq_self)
  moreover have "rep_inv env (cleared m)" by (rule rep_inv_empty) (simp_all add: cleared_def)
  moreover have "set ?is \<inter> known_ids (cleared m) = {}" by (simp add: known_ids_def cleared_def)
  ultimately have f: "rep_inv env (fold (init_faction env) ?is (cleared m))"
    "\<forall>i \<in> set ?is. \<forall>e. env_LookupEntry env i = Some e \<longrightarrow> CanHaveReputation e \<longrightarrow>
      unchanged_standing (fold (init_faction env) ?is (cleared m)) e"
    using init_fold [OF assms(1)] by blast+
  have eq: "Initialize env m = fold (init_faction env) ?is (cleared m)"
    by (simp add: Initialize_def cleared_def)
  show "rep_inv env (Initialize env m)" using f(1) eq by simp
  assume e: "env_LookupEntry env i = Some e" "CanHaveReputation e"
  then have "0 < i" "unat i < env_GetNumRows env" using assms(1) by (auto simp: env_ok_def)
  then have "i \<in> set ?is"
    by (auto intro!: image_eqI [of _ _ "unat i"] simp: unat_gt_0 Suc_le_eq)
  with f(2) e show "unchanged_standing (Initialize env m) e" unfolding eq by blast
qed

section \<open>LoadFromDB\<close>

text \<open>The flag changes a row makes, apart from the visible flag.\<close>

definition row_flags :: "u16 \<Rightarrow> faction_state \<Rightarrow> faction_state" where
  "row_flags db st =
     (let st = (if db AND ucast FACTION_FLAG_INACTIVE \<noteq> 0 then SetInactive_state True st else st)
      in if db AND ucast FACTION_FLAG_AT_WAR \<noteq> 0 then SetAtWar_state True st
         else if has_flag (fs_Flags st) FACTION_FLAG_VISIBLE then SetAtWar_state False st else st)"

definition row_done :: "u16 \<Rightarrow> reputation_rank \<Rightarrow> faction_state \<Rightarrow> faction_state" where
  "row_done db rank st =
     (let st = (if rank \<le> REP_HOSTILE then SetAtWar_state True st else st)
      in if ucast (fs_Flags st) = db then st\<lparr>fs_needSend := False, fs_needSave := False\<rparr> else st)"

lemma is_visible_marks [simp]:
  "is_visible (st\<lparr>fs_needSend := a\<rparr>) = is_visible st" "is_visible (st\<lparr>fs_needSave := a\<rparr>) = is_visible st"
  by (simp_all add: is_visible_def)

lemma row_keeps [simp]:
  "is_visible (row_flags db st) = is_visible st" "fs_Standing (row_flags db st) = fs_Standing st"
  "fs_ID (row_flags db st) = fs_ID st" "fs_ReputationListID (row_flags db st) = fs_ReputationListID st"
  "is_visible (row_done db r st) = is_visible st" "fs_Standing (row_done db r st) = fs_Standing st"
  "fs_ID (row_done db r st) = fs_ID st" "fs_ReputationListID (row_done db r st) = fs_ReputationListID st"
  by (simp_all add: row_flags_def row_done_def Let_def)

lemma put_put: "put_state k (b, put_state k (a, m)) = put_state k (b, m)"
  by (simp add: put_state_def map_set_overwrite)

lemma load_row_eq:
  assumes "env_LookupEntry env (ucast f) = Some e" "CanHaveReputation e"
    and "map_find (list_id e) (rm_factions m) = Some st"
    and "m1 = UpdateRankCounters (ReputationToRank (GetBaseReputation env e))
      (ReputationToRank (GetBaseReputation env e + s)) m"
    and "(if db AND ucast FACTION_FLAG_VISIBLE \<noteq> 0 then SetVisible_state (st\<lparr>fs_Standing := s\<rparr>) m1
          else (st\<lparr>fs_Standing := s\<rparr>, m1)) = (st2, m2)"
  shows "\<exists>rank. load_row env (f, s, db) m = put_state (list_id e) (row_done db rank (row_flags db st2), m2)"
proof -
  let ?m = "put_state (list_id e) (row_flags db st2, m2)"
  have can: "(0 \<le> fe_reputationListID e) = True" using assms(2) by (simp add: CanHaveReputation_def)
  have "load_row env (f, s, db) m =
      put_state (list_id e) (row_done db (GetRank env ?m (Some e)) (row_flags db st2), ?m)"
    unfolding load_row_def prod.case assms(1) option.case can if_True Let_def assms(3) assms(4) [symmetric]
      assms(5) row_flags_def row_done_def ..
  then show ?thesis unfolding put_put by blast
qed

lemma load_row_step:
  assumes "env_ok env" "rep_inv env m"
    and "\<forall>e. env_LookupEntry env (ucast f) = Some e \<longrightarrow> CanHaveReputation e \<longrightarrow> unchanged_standing m e"
  shows "rep_inv env (load_row env (f, s, db) m)"
    "env_LookupEntry env j = Some g \<Longrightarrow> CanHaveReputation g \<Longrightarrow> j \<noteq> ucast f \<Longrightarrow>
       map_find (list_id g) (rm_factions (load_row env (f, s, db) m)) = map_find (list_id g) (rm_factions m)"
    "env_LookupEntry env (ucast f) = Some g \<Longrightarrow> CanHaveReputation g \<Longrightarrow>
       \<exists>st. map_find (list_id g) (rm_factions (load_row env (f, s, db) m)) = Some st \<and> fs_Standing st = s"
proof -
  have ok: "map_ok (rm_factions m)" using assms(2) by (simp add: rep_inv_def)
  have no: "load_row env (f, s, db) m = m"
    if "\<And>e. env_LookupEntry env (ucast f) = Some e \<Longrightarrow> \<not> CanHaveReputation e"
    using that by (auto simp: load_row_def CanHaveReputation_def split: option.split)
  have main: "\<exists>st' m2. load_row env (f, s, db) m = put_state (list_id e) (st', m2) \<and> rm_factions m2 = rm_factions m \<and>
      fs_Standing st' = s \<and> rep_inv env (put_state (list_id e) (st', m2))"
    if e: "env_LookupEntry env (ucast f) = Some e" "CanHaveReputation e" for e
  proof -
    obtain st where st: "map_find (list_id e) (rm_factions m) = Some st" "fs_Standing st = 0"
      using assms(3) e by (auto simp: unchanged_standing_def)
    have ide: "fe_ID e = ucast f" using assms(1) e(1) by (auto simp: env_ok_def)
    note entry = state_entry [OF assms(1,2) st(1)]
    define m1 where "m1 = UpdateRankCounters (ReputationToRank (GetBaseReputation env e))
      (ReputationToRank (GetBaseReputation env e + s)) m"
    obtain st2 m2 where v: "(if db AND ucast FACTION_FLAG_VISIBLE \<noteq> 0 then SetVisible_state (st\<lparr>fs_Standing := s\<rparr>) m1
          else (st\<lparr>fs_Standing := s\<rparr>, m1)) = (st2, m2)" by fastforce
    have keep: "fs_Standing st2 = s" "fs_ID st2 = fs_ID st" "fs_ReputationListID st2 = fs_ReputationListID st"
      "m2 = m1\<lparr>rm_visible := rm_visible m1 - of_bool (is_visible st) + of_bool (is_visible st2)\<rparr>"
      using v SetVisible_state_keeps [of "st\<lparr>fs_Standing := s\<rparr>" m1 st2 m2]
      by (auto simp: is_visible_def split: if_splits)
    obtain rank where eq: "load_row env (f, s, db) m =
        put_state (list_id e) (row_done db rank (row_flags db st2), m2)"
      using load_row_eq [OF e st(1) m1_def v] by blast
    let ?st = "row_done db rank (row_flags db st2)"
    have r: "state_rank env ?st = ReputationToRank (GetBaseReputation env e + s)"
      using keep entry(2) e(1) ide by (simp add: state_rank_def)
    have old: "state_rank env st = ReputationToRank (GetBaseReputation env e)"
      using entry(4) e(1) ide st(2) by simp
    have "state_ok env (list_id e) ?st"
      using state_ok_cong [OF state_ok_found [OF assms(2) st(1)]] keep by simp
    then have "rep_inv env (put_state (list_id e) (?st, m2))"
      using keep(4) r old
      by (intro rep_inv_put [OF assms(2)]) (simp_all add: was_find [OF st(1)] m1_def)
    moreover have "rm_factions m2 = rm_factions m" using keep(4) by (simp add: m1_def)
    ultimately show ?thesis using eq keep(1) by (intro exI [of _ ?st] exI [of _ m2]) simp
  qed
  show "rep_inv env (load_row env (f, s, db) m)"
    using main no assms(2) by (cases "env_LookupEntry env (ucast f)") (auto, metis)
  show "env_LookupEntry env (ucast f) = Some g \<Longrightarrow> CanHaveReputation g \<Longrightarrow>
      \<exists>st. map_find (list_id g) (rm_factions (load_row env (f, s, db) m)) = Some st \<and> fs_Standing st = s"
    using main [of g] map_find_set [OF ok] by (auto simp: put_state_def)
  assume g: "env_LookupEntry env j = Some g" "CanHaveReputation g" "j \<noteq> ucast f"
  show "map_find (list_id g) (rm_factions (load_row env (f, s, db) m)) = map_find (list_id g) (rm_factions m)"
  proof (cases "\<exists>e. env_LookupEntry env (ucast f) = Some e \<and> CanHaveReputation e")
    case True
    then obtain e where e: "env_LookupEntry env (ucast f) = Some e" "CanHaveReputation e" by blast
    have "list_id g \<noteq> list_id e" using list_id_inj [OF assms(1) g(1,2) e] g(3) by blast
    then show ?thesis using main [OF e] map_find_set [OF ok] by (auto simp: put_state_def)
  qed (use no in auto)
qed

text \<open>Loading one row leaves the rows of other factions loadable.\<close>

definition loadable :: "rep_env \<Rightarrow> rep_row list \<Rightarrow> rep_mgr \<Rightarrow> bool" where
  "loadable env rows m \<longleftrightarrow> (\<forall>row \<in> set rows. \<forall>e. env_LookupEntry env (ucast (fst row)) = Some e \<longrightarrow>
     CanHaveReputation e \<longrightarrow> unchanged_standing m e)"

lemma loadable_step:
  assumes "env_ok env" "rep_inv env m" "distinct (map fst (row # rows))" "loadable env (row # rows) m"
  shows "rep_inv env (load_row env row m)" "loadable env rows (load_row env row m)"
proof -
  obtain f s db where row: "row = (f, s, db)" by (cases row)
  have un: "\<forall>e. env_LookupEntry env (ucast f) = Some e \<longrightarrow> CanHaveReputation e \<longrightarrow> unchanged_standing m e"
    using assms(4) row by (simp add: loadable_def)
  note st = load_row_step [OF assms(1,2) un]
  show "rep_inv env (load_row env row m)" using st(1) row by simp
  have "unchanged_standing (load_row env row m) e"
    if r: "r \<in> set rows" "env_LookupEntry env (ucast (fst r)) = Some e" "CanHaveReputation e" for r e
  proof -
    have "fst r \<noteq> f" using assms(3) r(1) row by (auto simp: image_iff)
    then have "(ucast (fst r) :: u32) \<noteq> ucast f" by (simp add: widen_inj)
    then show ?thesis
      using st(2) [OF r(2,3)] assms(4) r row by (auto simp: unchanged_standing_def loadable_def)
  qed
  then show "loadable env rows (load_row env row m)" by (simp add: loadable_def)
qed

lemma load_fold:
  assumes "env_ok env" "rep_inv env m" "distinct (map fst rows)" "loadable env rows m"
  shows "rep_inv env (fold (load_row env) rows m)"
  using assms(2-4)
proof (induction rows arbitrary: m)
  case (Cons row rows)
  from Cons.IH [OF loadable_step(1) [OF assms(1) Cons.prems] _ loadable_step(2) [OF assms(1) Cons.prems]]
  show ?case using Cons.prems(2) by simp
qed simp

text \<open>The standing of every faction after loading: the row's, or the one before.\<close>

lemma load_fold_other:
  assumes "env_ok env" "rep_inv env m" "distinct (map fst rows)" "loadable env rows m"
    and "env_LookupEntry env j = Some g" "CanHaveReputation g" "\<forall>row \<in> set rows. j \<noteq> ucast (fst row)"
  shows "map_find (list_id g) (rm_factions (fold (load_row env) rows m)) = map_find (list_id g) (rm_factions m)"
  using assms(2-4,7)
proof (induction rows arbitrary: m)
  case (Cons row rows)
  obtain f s db where row: "row = (f, s, db)" by (cases row)
  have un: "\<forall>e. env_LookupEntry env (ucast f) = Some e \<longrightarrow> CanHaveReputation e \<longrightarrow> unchanged_standing m e"
    using Cons.prems(3) row by (simp add: loadable_def)
  have "map_find (list_id g) (rm_factions (load_row env row m)) = map_find (list_id g) (rm_factions m)"
    using load_row_step(2) [OF assms(1) Cons.prems(1) un assms(5,6)] Cons.prems(4) row by simp
  then show ?case
    using Cons.IH [OF loadable_step(1) [OF assms(1) Cons.prems(1-3)] _ loadable_step(2) [OF assms(1) Cons.prems(1-3)]]
      Cons.prems(2,4) by simp
qed simp

lemma load_fold_row:
  assumes "env_ok env" "rep_inv env m" "distinct (map fst rows)" "loadable env rows m"
    and "env_LookupEntry env (ucast f) = Some g" "CanHaveReputation g" "(f, s, db) \<in> set rows"
  shows "\<exists>st. map_find (list_id g) (rm_factions (fold (load_row env) rows m)) = Some st \<and> fs_Standing st = s"
  using assms(2-4,7)
proof (induction rows arbitrary: m)
  case (Cons row rows)
  note st = loadable_step [OF assms(1) Cons.prems(1-3)]
  show ?case
  proof (cases "row = (f, s, db)")
    case True
    have un: "\<forall>e. env_LookupEntry env (ucast f) = Some e \<longrightarrow> CanHaveReputation e \<longrightarrow> unchanged_standing m e"
      using Cons.prems(3) True by (simp add: loadable_def)
    have "\<forall>r \<in> set rows. (ucast f :: u32) \<noteq> ucast (fst r)"
      using Cons.prems(2) True by (auto simp: widen_inj image_iff)
    then show ?thesis
      using load_fold_other [OF assms(1) st(1) _ st(2) assms(5,6)] load_row_step(3) [OF assms(1) Cons.prems(1) un assms(5,6)]
        Cons.prems(2) True by simp
  next
    case False
    then show ?thesis using Cons.IH [OF st(1) _ st(2)] Cons.prems(2,4) by simp
  qed
qed simp

end
