(* ===== verification/ReputationProps.thy ===== *)
theory ReputationProps
  imports ReputationInv
begin

text \<open>
  The properties of the reputation manager: rank thresholds, the effect of a change of standing,
  the counter invariant over every sequence of operations, loading, saving and the standing packet.
\<close>

unbundle bit_operations_syntax

section \<open>Ranks\<close>

text \<open>
  \<open>ReputationToRank\<close> puts the rank limits at -6000, -3000, 0, 3000, 9000, 21000 and 42000, and a
  higher standing never gives a lower rank.
\<close>

lemma rank_thresholds:
  "(ReputationToRank s \<ge> REP_HOSTILE \<longleftrightarrow> s \<ge> -6000) \<and> (ReputationToRank s \<ge> REP_UNFRIENDLY \<longleftrightarrow> s \<ge> -3000) \<and>
   (ReputationToRank s \<ge> REP_NEUTRAL \<longleftrightarrow> s \<ge> 0) \<and> (ReputationToRank s \<ge> REP_FRIENDLY \<longleftrightarrow> s \<ge> 3000) \<and>
   (ReputationToRank s \<ge> REP_HONORED \<longleftrightarrow> s \<ge> 9000) \<and> (ReputationToRank s \<ge> REP_REVERED \<longleftrightarrow> s \<ge> 21000) \<and>
   (ReputationToRank s \<ge> REP_EXALTED \<longleftrightarrow> s \<ge> 42000) \<and>
   ReputationToRank (min s t) \<le> ReputationToRank (max s t)"
  by (simp add: rank_eq less_eq_reputation_rank_def min_def max_def)

section \<open>Changing a standing\<close>



section \<open>A sample faction table\<close>

definition sample_entry :: faction_entry where
  "sample_entry = \<lparr>fe_ID = 21, fe_reputationListID = 1, fe_BaseRepRaceMask = [0x44D, 0x2B2, 0, 0],
     fe_BaseRepClassMask = [0, 0, 0, 0], fe_BaseRepValue = [500, -500, 0, 0], fe_ReputationFlags = [0x01, 0x02, 0, 0],
     fe_team = 169, fe_spilloverRateIn = 0x3F800000, fe_spilloverRateOut = 0x3F000000, fe_spilloverMaxRankIn = 7\<rparr>"

definition sample_env :: rep_env where
  "sample_env = \<lparr>env_raceMask = 1, env_classMask = 1,
     env_LookupEntry = (\<lambda>i. if i = 21 then Some sample_entry else None), env_GetNumRows = 22,
     env_FactionTeamList = (\<lambda>_. None), env_RepSpilloverTemplate = (\<lambda>_. None), env_ReputationGain = 0x3F800000,
     env_IsPremium = False, env_ReputationGainPremium = 0x3F800000, env_ReputationModifier = (\<lambda>_. False),
     env_OnReputationChange = (\<lambda>_ s _. s)\<rparr>"

lemma sample_env_ok: "env_ok sample_env" "env_GetNumRows sample_env \<le> 2 ^ 32"
  by (auto simp: env_ok_def sample_env_def sample_entry_def split: if_splits)

definition sample_state :: faction_state where
  "sample_state = \<lparr>fs_ID = 21, fs_ReputationListID = 1, fs_Standing = 100, fs_Flags = 0x01, fs_needSend = False,
     fs_needSave = False\<rparr>"

definition sample_mgr :: rep_mgr where
  "sample_mgr = new_rep_mgr\<lparr>rm_factions := [(1, sample_state)], rm_visible := 1\<rparr>"


section \<open>Every sequence of operations\<close>

text \<open>
  The managers a player can have: loaded from the database, which has one row per faction at most,
  and then changed by any sequence of the public operations on factions of the table.
\<close>

inductive rep_reach :: "rep_env \<Rightarrow> rep_mgr \<Rightarrow> bool" for env where
  load: "distinct (map fst rows) \<Longrightarrow> rep_reach env (LoadFromDB env rows new_rep_mgr)"
| set_reputation: "rep_reach env m \<Longrightarrow> env_LookupEntry env (fe_ID e) = Some e \<Longrightarrow>
    rep_reach env (fst (snd (SetReputation env e standing incremental m)))"
| set_one: "rep_reach env m \<Longrightarrow> env_LookupEntry env (fe_ID e) = Some e \<Longrightarrow>
    rep_reach env (snd (SetOneFactionReputation env e standing incremental m))"
| set_visible: "rep_reach env m \<Longrightarrow> rep_reach env (SetVisible_template env faction m)"
| set_at_war: "rep_reach env m \<Longrightarrow> rep_reach env (SetAtWar k on m)"
| set_inactive: "rep_reach env m \<Longrightarrow> rep_reach env (SetInactive k on m)"
| force_reaction: "rep_reach env m \<Longrightarrow> rep_reach env (ApplyForceReaction faction rank on m)"
| send_state: "rep_reach env m \<Longrightarrow> rep_reach env (snd (SendState m))"
| save: "rep_reach env m \<Longrightarrow> rep_reach env (snd (SaveToDB m))"
| reload: "rep_reach env m \<Longrightarrow> distinct (map fst rows) \<Longrightarrow> rep_reach env (LoadAfterInterRealm env new_protocol rows m)"

lemma Initialize_loadable:
  "env_ok env \<Longrightarrow> env_GetNumRows env \<le> 2 ^ 32 \<Longrightarrow> loadable env rows (Initialize env m)"
  using Initialize_ok(2) [of env] by (auto simp: loadable_def)

lemma rep_inv_LoadFromDB:
  assumes "env_ok env" "env_GetNumRows env \<le> 2 ^ 32" "distinct (map fst rows)"
  shows "rep_inv env (LoadFromDB env rows m)"
  using load_fold [OF assms(1) Initialize_ok(1) [OF assms(1,2)] assms(3) Initialize_loadable [OF assms(1,2)]]
  unfolding LoadFromDB_def .

lemma rep_inv_ApplyForceReaction: "rep_inv env m \<Longrightarrow> rep_inv env (ApplyForceReaction f r b m)"
  by (simp add: rep_inv_def ApplyForceReaction_def count_states_def)

text \<open>
  C2: after loading and any sequence of reputation changes (with their spillover), visibility, war,
  inactivity and forced-reaction changes, sending, saving and reloading, the four counters of the
  manager are the numbers of visible, honored, revered and exalted factions of its table (modulo
  256, the width of the counters), the table is ordered by list id and every state belongs to the
  faction with that list id.
\<close>

theorem counters_agree:
  assumes "rep_reach env m" "env_ok env" "env_GetNumRows env \<le> 2 ^ 32"
  shows "rep_inv env m"
  using assms(1)
proof (induction rule: rep_reach.induct)
  case (reload m rows new_protocol)
  then show ?case using rep_inv_LoadFromDB [OF assms(2,3)] by (simp add: LoadAfterInterRealm_def LoadFromDB_def)
qed (use assms(2,3) in \<open>simp_all add: rep_inv_LoadFromDB rep_inv_SetReputation rep_inv_SetOne
    rep_inv_SetVisible_template rep_inv_SetAtWar rep_inv_SetInactive rep_inv_ApplyForceReaction rep_inv_SendState
    rep_inv_SaveToDB\<close>)

theorem counters_agree_witness:
  "rep_inv sample_env (SetAtWar 1 True (fst (snd (SetReputation sample_env sample_entry 9000 False
     (LoadFromDB sample_env [(21, 100, 1)] new_rep_mgr)))))"
proof -
  have "rep_reach sample_env (LoadFromDB sample_env [(21, 100, 1)] new_rep_mgr)"
    by (rule rep_reach.load) simp
  then have "rep_reach sample_env (fst (snd (SetReputation sample_env sample_entry 9000 False
      (LoadFromDB sample_env [(21, 100, 1)] new_rep_mgr))))"
    by (rule rep_reach.set_reputation) (simp add: sample_env_def sample_entry_def)
  then have "rep_reach sample_env (SetAtWar 1 True (fst (snd (SetReputation sample_env sample_entry 9000 False
      (LoadFromDB sample_env [(21, 100, 1)] new_rep_mgr)))))"
    by (rule rep_reach.set_at_war)
  from counters_agree [OF this sample_env_ok] show ?thesis .
qed

section \<open>Loading and saving\<close>

lemma loaded_standing:
  assumes "env_ok env" "env_GetNumRows env \<le> 2 ^ 32" "distinct (map fst rows)"
    and "env_LookupEntry env i = Some e" "CanHaveReputation e"
  shows "\<exists>st. GetState (LoadFromDB env rows m) e = Some st \<and>
    fs_Standing st = (case map_of (map (\<lambda>row. (ucast (fst row), fst (snd row))) rows) i of None \<Rightarrow> 0 | Some s \<Rightarrow> s)"
proof -
  note init = Initialize_ok(1) [OF assms(1,2), of m] Initialize_loadable [OF assms(1,2), of rows m]
  let ?f = "\<lambda>row :: rep_row. (ucast (fst row) :: u32, fst (snd row))"
  show ?thesis
  proof (cases "\<exists>row \<in> set rows. ucast (fst row) = i")
    case False
    then have "map_of (map ?f rows) i = None" by (auto simp: map_of_eq_None_iff)
    moreover have "map_find (list_id e) (rm_factions (LoadFromDB env rows m)) =
        map_find (list_id e) (rm_factions (Initialize env m))"
      unfolding LoadFromDB_def using load_fold_other [OF assms(1) init(1) assms(3) init(2) assms(4,5)] False by blast
    moreover have "unchanged_standing (Initialize env m) e" by (rule Initialize_ok(2) [OF assms(1,2,4,5)])
    ultimately show ?thesis using assms(5) by (auto simp: unchanged_standing_def GetState_def)
  next
    case True
    then obtain f s db where row: "(f, s, db) \<in> set rows" "ucast f = i" by auto
    have "inj (ucast :: u16 \<Rightarrow> u32)" by (auto intro: injI simp: widen_inj)
    then have "distinct (map (ucast :: u16 \<Rightarrow> u32) (map fst rows))"
      using assms(3) by (metis distinct_map inj_on_subset subset_UNIV)
    then have "distinct (map fst (map ?f rows))" by (simp add: comp_def)
    then have "map_of (map ?f rows) i = Some s"
      using row by (force intro!: map_of_is_SomeI)
    moreover have "\<exists>st. map_find (list_id e) (rm_factions (LoadFromDB env rows m)) = Some st \<and> fs_Standing st = s"
      unfolding LoadFromDB_def
      using load_fold_row [OF assms(1) init(1) assms(3) init(2) _ assms(5) row(1)] assms(4) row(2) by simp
    ultimately show ?thesis using assms(5) by (auto simp: GetState_def)
  qed
qed

text \<open>The rows of a manager whose factions are all due for saving.\<close>

lemma saved_ids:
  assumes "env_ok env" "rep_inv env m" "env_GetNumRows env \<le> 2 ^ 16" "x \<in> set (rm_factions m)"
  shows "ucast (ucast (fs_ID (snd x)) :: u16) = fs_ID (snd x)"
proof -
  have "\<exists>f. env_LookupEntry env (fs_ID (snd x)) = Some f"
    using assms(2,4) by (auto simp: rep_inv_def state_ok_def)
  then have "unat (fs_ID (snd x)) < env_GetNumRows env" using assms(1) by (auto simp: env_ok_def)
  then have "fs_ID (snd x) < 2 ^ 16" using assms(3) by (simp add: word_less_nat_alt)
  then show ?thesis by (rule narrow_widen)
qed

lemma distinct_ids:
  assumes "rep_inv env m"
  shows "distinct (map (\<lambda>x. fs_ID (snd x)) (rm_factions m))"
proof -
  have ok: "map_ok (rm_factions m)" and st: "\<forall>x \<in> set (rm_factions m). state_ok env (fst x) (snd x)"
    using assms by (auto simp: rep_inv_def)
  have "x = y" if "x \<in> set (rm_factions m)" "y \<in> set (rm_factions m)" "fs_ID (snd x) = fs_ID (snd y)" for x y
  proof -
    have "fst x = fst y" using st that unfolding state_ok_def by (metis option.inject)
    then show ?thesis using std_map.ids_unique [OF ok, of "fst x" "snd x" "snd y"] that by (metis prod.collapse)
  qed
  moreover have "distinct (rm_factions m)" using map_ok_distinct [OF ok] by (simp add: distinct_map)
  ultimately show ?thesis by (auto simp: distinct_map intro: inj_onI)
qed

lemma saved_rows:
  assumes "list_all (\<lambda>x. fs_needSave (snd x)) (rm_factions m)"
  shows "fst (SaveToDB m) =
    map (\<lambda>x. (ucast (fs_ID (snd x)), fs_Standing (snd x), ucast (fs_Flags (snd x)))) (rm_factions m)"
proof -
  have "filter fs_needSave (map snd (rm_factions m)) = map snd (rm_factions m)"
    using assms by (auto simp: list_all_iff)
  then show ?thesis by (simp add: SaveToDB_def comp_def)
qed

text \<open>
  C18: what a manager saves is what a later load restores: if every faction of a well-formed manager
  is due for saving and faction ids fit the 16-bit column, then loading the saved rows into any
  manager gives every one of these factions the reputation it had.
\<close>

theorem save_load_standings:
  assumes "env_ok env" "env_GetNumRows env \<le> 2 ^ 16" "rep_inv env m"
    and "list_all (\<lambda>x. fs_needSave (snd x)) (rm_factions m)"
    and "env_LookupEntry env i = Some e" "GetState m e = Some st"
  shows "GetReputation env (LoadFromDB env (fst (SaveToDB m)) m0) (Some e) = GetReputation env m (Some e)"
proof -
  let ?rows = "fst (SaveToDB m)" and ?f = "\<lambda>row :: rep_row. (ucast (fst row) :: u32, fst (snd row))"
  have can: "CanHaveReputation e" and st: "map_find (list_id e) (rm_factions m) = Some st"
    using assms(6) by (auto simp: GetState_def split: if_splits)
  have id: "fs_ID st = i" using state_entry(2) [OF assms(1,3) st] assms(1,5) by (auto simp: env_ok_def)
  have wide: "map ?f ?rows = map (\<lambda>x. (fs_ID (snd x), fs_Standing (snd x))) (rm_factions m)"
    using saved_ids [OF assms(1,3,2)] by (simp add: saved_rows [OF assms(4)])
  then have dist2: "distinct (map fst (map ?f ?rows))" using distinct_ids [OF assms(3)] by (simp add: comp_def)
  then have "distinct (map (ucast :: u16 \<Rightarrow> u32) (map fst ?rows))" by (simp add: comp_def)
  then have dist: "distinct (map fst ?rows)" unfolding distinct_map [of ucast] by blast
  have "(list_id e, st) \<in> set (rm_factions m)"
    using st assms(3) std_map.entries_iff [of "rm_factions m"] by (simp add: rep_inv_def)
  then have "map_of (map ?f ?rows) i = Some (fs_Standing st)"
    using dist2 id unfolding wide by (force intro!: map_of_is_SomeI)
  moreover have "env_GetNumRows env \<le> 2 ^ 32" using assms(2) by simp
  ultimately obtain st' where "GetState (LoadFromDB env ?rows m0) e = Some st'" "fs_Standing st' = fs_Standing st"
    using loaded_standing [OF assms(1) _ dist assms(5) can, of m0] by auto
  then show ?thesis using assms(6) by (simp add: GetReputation_def)
qed

theorem save_load_standings_witness:
  "GetReputation sample_env (LoadFromDB sample_env
     (fst (SaveToDB (sample_mgr\<lparr>rm_factions := [(1, sample_state\<lparr>fs_needSave := True\<rparr>)]\<rparr>))) new_rep_mgr)
     (Some sample_entry) = 600"
proof -
  let ?m = "sample_mgr\<lparr>rm_factions := [(1, sample_state\<lparr>fs_needSave := True\<rparr>)]\<rparr>"
  have base: "GetBaseReputation sample_env sample_entry = 500"
    by (simp add: GetBaseReputation_def base_slot_def slot_matches_def sample_env_def sample_entry_def
        upt_rec [of 0 4])
  have rank: "state_rank sample_env (sample_state\<lparr>fs_needSave := True\<rparr>) = REP_NEUTRAL"
    using base by (simp add: state_rank_def sample_env_def sample_state_def rank_eq)
  have count: "count_states P ?m = of_bool (P (sample_state\<lparr>fs_needSave := True\<rparr>))" for P
  proof -
    have "{x \<in> set (rm_factions ?m). P (snd x)} =
        (if P (sample_state\<lparr>fs_needSave := True\<rparr>) then {(1, sample_state\<lparr>fs_needSave := True\<rparr>)} else {})" by auto
    then show ?thesis by (simp add: count_states_def)
  qed
  have inv: "rep_inv sample_env ?m"
    using rank unfolding rep_inv_def count
    by (simp add: map_ok_def state_ok_def sample_env_def sample_mgr_def new_rep_mgr_def sample_state_def
        sample_entry_def CanHaveReputation_def is_visible_def flag_defs less_eq_reputation_rank_def)
  have st: "GetState ?m sample_entry = Some (sample_state\<lparr>fs_needSave := True\<rparr>)"
    by (simp add: GetState_def CanHaveReputation_def sample_entry_def map_find_def)
  have "GetReputation sample_env (LoadFromDB sample_env (fst (SaveToDB ?m)) new_rep_mgr) (Some sample_entry) =
      GetReputation sample_env ?m (Some sample_entry)"
    by (rule save_load_standings [OF sample_env_ok(1) _ inv _ _ st, of 21])
      (simp_all add: sample_env_def sample_state_def)
  also have "\<dots> = 600" unfolding GetReputation_def option.case st base by (simp add: sample_state_def)
  finally show ?thesis .
qed

section \<open>The standing packet\<close>

text \<open>How the client reads \<open>SMSG_SET_FACTION_STANDING\<close>: two floats, the count, a bit, the pairs.\<close>

definition parse_standings :: "byte_buffer \<Rightarrow> bb_error + ((u32 \<times> u32) list \<times> byte_buffer)" where
  "parse_standings b =
     ebind (read_u32 b) (\<lambda>(_, b). ebind (read_u32 b) (\<lambda>(_, b).
     ebind (ReadBits 21 b) (\<lambda>(n, b). ebind (ReadBit b) (\<lambda>(_, b).
       get_n (get_pair read_u32 read_u32) (unat n) b))))"

lemmas standing_header = pair_codec [OF pair_codec [OF u32_codec.codec_axioms u32_codec.codec_axioms]
  pair_codec [OF count_codec.codec_axioms bit_codec.codec_axioms]]

text \<open>
  C21: the standing packet of a manager with less than 100000 factions is built without an error;
  the client reads from it exactly the list ids and standings of the factions marked for sending,
  in list order, to the last byte; and after sending no faction is marked any more.
\<close>

theorem send_state_packet:
  assumes "length (rm_factions m) < 100000"
  shows "\<exists>w r. fst (SendState m) = Inr w \<and>
     parse_standings (received (storage w)) =
       Inr (map (\<lambda>st. (fs_ReputationListID st, word_of_int (fs_Standing st))) (to_send m), r) \<and>
     rpos r = bb_size w \<and> to_send (snd (SendState m)) = []"
proof -
  let ?vs = "map (\<lambda>st. (fs_ReputationListID st, word_of_int (fs_Standing st) :: u32)) (to_send m)"
  let ?n = "of_nat (length (to_send m)) :: u32"
  have len: "length (to_send m) < 100000"
    using assms le_less_trans [OF length_filter_le] by (simp add: to_send_def)
  have un: "unat ?n = length (to_send m)" using len by (simp add: unat_of_nat take_bit_nat_eq_self)
  have "?n < 2 ^ 21" using un len by (simp add: word_less_nat_alt)
  moreover have "sum_list (map (\<lambda>_. 4 + 4 :: nat) ?vs) \<le> 800000" using len by (simp add: comp_def sum_list_triv)
  ultimately obtain w r s where
    w: "ebind (put_pair (put_pair append_u32 append_u32) (put_pair (\<lambda>v. WriteBits v 21) WriteBit)
          ((0, 0), ?n, True) empty_buffer) (efold (put_pair append_u32 append_u32) ?vs) = Inr w"
    "get_pair (get_pair read_u32 read_u32) (get_pair (ReadBits 21) ReadBit) (received (storage w)) =
       Inr (((0, 0), ?n, True), r)"
    "get_n (get_pair read_u32 read_u32) (length ?vs) r = Inr (?vs, s)" "rpos s = bb_size w"
    using framed_round_trip [OF standing_header u32_pair_codec.codec_axioms, of "((0, 0), ?n, True)" ?vs]
    by (auto simp: list_all_iff MAX_BUFFER_def)
  have loop: "efold (\<lambda>st data. ebind (append_u32 (fs_ReputationListID st) data)
      (append_u32 (word_of_int (fs_Standing st)))) (to_send m) = efold (put_pair append_u32 append_u32) ?vs"
    by (rule ext) (simp add: efold_map [symmetric] put_pair_def [abs_def])
  have "fst (SendState m) = Inr w"
    using w(1) by (simp add: SendState_def SendState_packet_def put_pair_def ebind_assoc loop)
  moreover have "parse_standings (received (storage w)) = Inr (?vs, s)"
    using w(2,3) un by (auto simp: parse_standings_def get_pair_def)
  moreover have "to_send (snd (SendState m)) = []" by (simp add: to_send_def SendState_def filter_empty_conv)
  ultimately show ?thesis using w(4) by blast
qed

theorem send_state_packet_witness:
  "\<exists>w r. fst (SendState (sample_mgr\<lparr>rm_factions := [(1, sample_state\<lparr>fs_needSend := True\<rparr>)]\<rparr>)) = Inr w \<and>
     parse_standings (received (storage w)) = Inr ([(1, 100)], r) \<and> rpos r = bb_size w"
  using send_state_packet [of "sample_mgr\<lparr>rm_factions := [(1, sample_state\<lparr>fs_needSend := True\<rparr>)]\<rparr>"]
  by (auto simp: to_send_def sample_state_def)

end
