(* ===== verification/TextUtil.thy ===== *)
theory TextUtil
  imports Prelude
begin

text \<open>
  Text columns: the \<open>Tokenizer\<close> of \<^verbatim>\<open>src/server/shared/Utilities/Util.cpp\<close>, with which lists
  stored in one database column are taken apart, and the two library functions used around it:
  decimal output of an integer to a stream and \<open>atol\<close>.
\<close>

section \<open>Tokenizer\<close>

text \<open>
  \<open>cur\<close> is the part between \<open>posold\<close> and \<open>posnew\<close>, last character first.  The scan ends at the first
  zero character, which may be the terminator.
\<close>

fun tokens_from :: "u8 \<Rightarrow> u8 list \<Rightarrow> u8 list \<Rightarrow> u8 list list" where
  "tokens_from sep cur [] = (if cur = [] then [] else [rev cur])"
| "tokens_from sep cur (c # cs) =
     (if c = sep then rev cur # tokens_from sep [] cs
      else if c = 0 then (if cur = [] then [] else [rev cur])
      else tokens_from sep (c # cur) cs)"

definition Tokenizer :: "u8 list \<Rightarrow> u8 \<Rightarrow> u8 list list" where
  "Tokenizer src sep = tokens_from sep [] src"

lemma tokens_from_plain:
  "sep \<notin> set t \<Longrightarrow> 0 \<notin> set t \<Longrightarrow> tokens_from sep cur (t @ sep # rest) = (rev cur @ t) # tokens_from sep [] rest"
  by (induction t arbitrary: cur) auto

lemma Tokenizer_join:
  assumes "\<forall>t \<in> set ts. sep \<notin> set t \<and> 0 \<notin> set t"
  shows "Tokenizer (concat (map (\<lambda>t. t @ [sep]) ts)) sep = ts"
  using assms by (induction ts) (simp_all add: Tokenizer_def tokens_from_plain)

section \<open>Decimal numbers\<close>

fun dec :: "nat \<Rightarrow> u8 list" where
  "dec n = (if n < 10 then [48 + of_nat n] else dec (n div 10) @ [48 + of_nat (n mod 10)])"

declare dec.simps [simp del]

definition is_digit :: "u8 \<Rightarrow> bool" where
  "is_digit c \<longleftrightarrow> 48 \<le> c \<and> c \<le> 57"

fun atol_digits :: "nat \<Rightarrow> u8 list \<Rightarrow> nat" where
  "atol_digits acc [] = acc"
| "atol_digits acc (c # cs) = (if is_digit c then atol_digits (10 * acc + unat (c - 48)) cs else acc)"

text \<open>White space, an optional sign, the digits; the result is clamped to the range of \<open>long\<close>.\<close>

definition is_space :: "u8 \<Rightarrow> bool" where
  "is_space c \<longleftrightarrow> c = 32 \<or> 9 \<le> c \<and> c \<le> 13"

definition atol :: "u8 list \<Rightarrow> int" where
  "atol str =
     (case dropWhile is_space str of
        [] \<Rightarrow> 0
      | c # cs \<Rightarrow>
          if c = 45 then - min (2 ^ 63) (int (atol_digits 0 cs))
          else if c = 43 then min (2 ^ 63 - 1) (int (atol_digits 0 cs))
          else min (2 ^ 63 - 1) (int (atol_digits 0 (c # cs))))"

lemma digit_char:
  assumes "d < 10"
  shows "is_digit (48 + of_nat d)" "unat ((48 + of_nat d :: u8) - 48) = d" "unat (48 + of_nat d :: u8) = 48 + d"
proof -
  have d: "unat (of_nat d :: u8) = d" using assms by (simp add: unat_of_nat take_bit_nat_eq_self)
  show s: "unat (48 + of_nat d :: u8) = 48 + d"
    using assms d by (simp add: unat_word_ariths(1))
  then show "is_digit (48 + of_nat d)" using assms by (simp add: is_digit_def word_le_nat_alt)
  show "unat ((48 + of_nat d :: u8) - 48) = d" using d by simp
qed

lemma dec_digits: "\<forall>c \<in> set (dec n). is_digit c"
proof (induction n rule: dec.induct)
  case (1 n)
  then show ?case using digit_char(1) [of n] digit_char(1) [of "n mod 10"] by (auto simp: dec.simps [of n])
qed

lemma dec_not_Nil [simp]: "dec n \<noteq> []"
  by (simp add: dec.simps [of n])

lemma atol_digits_append:
  "\<forall>c \<in> set ds. is_digit c \<Longrightarrow> atol_digits acc (ds @ cs) = atol_digits (atol_digits acc ds) cs"
  by (induction ds arbitrary: acc) auto

lemma atol_digits_dec: "atol_digits 0 (dec n) = n"
proof (induction n rule: dec.induct)
  case (1 n)
  show ?case
  proof (cases "n < 10")
    case True
    then show ?thesis using digit_char [OF True] by (simp add: dec.simps [of n])
  next
    case False
    have "atol_digits 0 (dec n) = atol_digits (n div 10) [48 + of_nat (n mod 10)]"
      using False 1 atol_digits_append [OF dec_digits] by (simp add: dec.simps [of n])
    then show ?thesis using digit_char [of "n mod 10"] by simp
  qed
qed

lemma is_digit_iff: "is_digit c \<longleftrightarrow> 48 \<le> unat c \<and> unat c \<le> 57"
  by (simp add: is_digit_def word_le_nat_alt)

lemma digit_not: "is_digit c \<Longrightarrow> \<not> is_space c \<and> c \<noteq> 45 \<and> c \<noteq> 43 \<and> c \<noteq> 32 \<and> c \<noteq> 0"
  by (auto simp: is_digit_iff is_space_def word_le_nat_alt)

lemma atol_dec: "int n < 2 ^ 63 \<Longrightarrow> atol (dec n) = int n"
proof -
  assume n: "int n < 2 ^ 63"
  obtain c cs where c: "dec n = c # cs" by (cases "dec n") auto
  have "is_digit c" using dec_digits [of n] c by simp
  then have "atol (dec n) = min (2 ^ 63 - 1) (int (atol_digits 0 (dec n)))"
    using digit_not [of c] c by (simp add: atol_def)
  then show ?thesis using n by (simp add: atol_digits_dec)
qed

lemma dec_token: "32 \<notin> set (dec n) \<and> 0 \<notin> set (dec n)"
  using dec_digits [of n] digit_not by blast

end
