(* ===== verification/GuidParts.thy ===== *)
theory GuidParts
  imports Prelude
begin

text \<open>
  The parts of a guid (\<^verbatim>\<open>src/server/game/Entities/Object/ObjectDefines.h\<close>): a guid is composed of a
  low part of 32 bits, an entry of 20 bits for some kinds of object, and the kind in the top bits.
\<close>

unbundle bit_operations_syntax

section \<open>Composing and taking apart\<close>

text \<open>The kinds of object, with the source's values.\<close>

datatype high_guid =
    HighItem | HighPlayer | HighGameObject | HighTransport | HighUnit | HighPet | HighVehicle | HighDynamicObject
  | HighCorpse | HighAreaTrigger | HighTypeBattleGround | HighMo_Transport | HighGroup | HighGuild | HighInstance
  | HighLoot | HighSceneObject

fun high_value :: "high_guid \<Rightarrow> u64" where
  "high_value HighItem = 0x400"
| "high_value HighPlayer = 0x018"
| "high_value HighGameObject = 0xF11"
| "high_value HighTransport = 0xF12"
| "high_value HighUnit = 0xF13"
| "high_value HighPet = 0xF14"
| "high_value HighVehicle = 0xF15"
| "high_value HighDynamicObject = 0xF10"
| "high_value HighCorpse = 0xF101"
| "high_value HighAreaTrigger = 0xF1B"
| "high_value HighTypeBattleGround = 0x1F1"
| "high_value HighMo_Transport = 0x1FC"
| "high_value HighGroup = 0x1F5"
| "high_value HighGuild = 0x1FF"
| "high_value HighInstance = 0x104"
| "high_value HighLoot = 0xF19"
| "high_value HighSceneObject = 0x18F"

definition MAKE_NEW_GUID :: "u64 \<Rightarrow> u64 \<Rightarrow> high_guid \<Rightarrow> u64" where
  "MAKE_NEW_GUID l e h =
     (if l = 0 then 0
      else l OR push_bit 32 e OR push_bit (if h = HighCorpse \<or> h = HighAreaTrigger then 48 else 52) (high_value h))"

text \<open>\<open>GUID_HIPART\<close> casts a number to the enumeration; the number is what it is compared by.\<close>

definition GUID_HIPART :: "u64 \<Rightarrow> u64" where
  "GUID_HIPART guid =
     (let t = drop_bit 48 guid AND 0xFFFF
      in if t = high_value HighCorpse \<or> t = high_value HighAreaTrigger then t else drop_bit 4 t AND 0xFFF)"

definition IsGuidHaveEnPart :: "u64 \<Rightarrow> bool" where
  "IsGuidHaveEnPart high \<longleftrightarrow>
     high \<notin> high_value ` {HighItem, HighPlayer, HighDynamicObject, HighCorpse, HighGroup, HighGuild}"

definition GUID_ENPART :: "u64 \<Rightarrow> u32" where
  "GUID_ENPART x = (if IsGuidHaveEnPart (GUID_HIPART x) then ucast (drop_bit 32 x AND 0xFFFFF) else 0)"

definition GUID_LOPART :: "u64 \<Rightarrow> u32" where
  "GUID_LOPART x = ucast (x AND 0xFFFFFFFF)"

section \<open>Parts come back\<close>

lemma and_masks:
  "x AND 0xFFFF = take_bit 16 (x :: u64)" "x AND 0xFFF = take_bit 12 (x :: u64)" "x AND 0xFFFFF = take_bit 20 (x :: u64)"
  "x AND 0xFFFFFFFF = take_bit 32 (x :: u64)"
  by (simp_all add: take_bit_eq_mask mask_eq_exp_minus_1)

lemmas guid_bits = and_masks bit_simps

text \<open>Composing with shift 52: the top 16 bits are the kind and the top four bits of the entry.\<close>

lemma guid_low: "ucast ((ucast (l :: u32) OR push_bit 32 e OR push_bit (if c then 48 else 52) (h :: u64)) AND 0xFFFFFFFF) = l"
  by (rule bit_word_eqI) (auto simp: guid_bits dest: bit_imp_le_length)

lemma guid_high_52:
  "drop_bit 4 (drop_bit 48 (ucast (l :: u32) OR push_bit 32 (ucast (e :: 20 word)) OR push_bit 52 (ucast (h :: 12 word) :: u64))
     AND 0xFFFF) AND 0xFFF = ucast h"
  by (rule bit_word_eqI) (auto simp: guid_bits dest: bit_imp_le_length)

lemma guid_entry_52:
  "ucast (drop_bit 32 (ucast (l :: u32) OR push_bit 32 (ucast (e :: 20 word)) OR push_bit 52 (ucast (h :: 12 word) :: u64))
     AND 0xFFFFF) = (ucast e :: u32)"
  by (rule bit_word_eqI) (auto simp: guid_bits dest: bit_imp_le_length)

lemma hipart_52:
  assumes "h \<noteq> 0xF10" "h \<noteq> 0x0F1"
  shows "GUID_HIPART (ucast (l :: u32) OR push_bit 32 (ucast (e :: 20 word)) OR push_bit 52 (ucast (h :: 12 word) :: u64)) = ucast h"
proof -
  let ?t = "drop_bit 48 (ucast l OR push_bit 32 (ucast e) OR push_bit 52 (ucast h :: u64)) AND 0xFFFF"
  have high: "drop_bit 4 ?t AND 0xFFF = ucast h" by (rule guid_high_52)
  have narrow: "ucast (ucast h :: u64) = h" by (rule bit_word_eqI) (auto simp: bit_simps)
  have "?t \<noteq> 0xF101" "?t \<noteq> 0xF1B"
  proof -
    show "?t \<noteq> 0xF101"
    proof
      assume "?t = 0xF101"
      from high [unfolded this] have h: "ucast h = (0xF10 :: u64)" by simp
      from narrow [unfolded h] show False using assms by simp
    qed
    show "?t \<noteq> 0xF1B"
    proof
      assume "?t = 0xF1B"
      from high [unfolded this] have h: "ucast h = (0x0F1 :: u64)" by simp
      from narrow [unfolded h] show False using assms by simp
    qed
  qed
  then show ?thesis unfolding GUID_HIPART_def Let_def by (simp only: high_value.simps simp_thms if_False high)
qed

lemma low_nonzero: "l \<noteq> 0 \<Longrightarrow> ucast (l :: u32) \<noteq> (0 :: u64)"
proof -
  have "ucast (ucast l :: u64) = l" by (rule bit_word_eqI) (auto simp: bit_simps)
  then show "l \<noteq> 0 \<Longrightarrow> ucast l \<noteq> (0 :: u64)" by auto
qed

text \<open>The guid of a player determines the character's number and the other way round.\<close>

definition player_guid :: "u32 \<Rightarrow> u64" where
  "player_guid low = MAKE_NEW_GUID (ucast low) 0 HighPlayer"

lemma LOPART_player [simp]: "GUID_LOPART (player_guid low) = low"
proof (cases "low = 0")
  case False
  then show ?thesis
    using guid_low [of low 0 False "high_value HighPlayer"] low_nonzero [OF False]
    by (simp add: player_guid_def MAKE_NEW_GUID_def GUID_LOPART_def)
qed (simp add: player_guid_def MAKE_NEW_GUID_def GUID_LOPART_def)

lemma player_guid_eq_iff: "player_guid a = player_guid b \<longleftrightarrow> a = b"
  by (metis LOPART_player)

text \<open>
  C34: the kind, the entry and the low part of a guid composed for any kind other than corpses, area triggers
  and dynamic objects come back from it; for kinds without an entry part the entry reads as zero.
\<close>

theorem guid_parts:
  assumes "l \<noteq> 0" "h \<notin> {HighCorpse, HighAreaTrigger, HighDynamicObject}"
  shows "GUID_HIPART (MAKE_NEW_GUID (ucast l) (ucast (e :: 20 word)) h) = high_value h \<and>
    GUID_ENPART (MAKE_NEW_GUID (ucast l) (ucast e) h) = (if IsGuidHaveEnPart (high_value h) then ucast e else 0) \<and>
    GUID_LOPART (MAKE_NEW_GUID (ucast l) (ucast e) h) = (l :: u32)"
proof -
  obtain v :: "12 word" where v: "high_value h = ucast v" "v \<noteq> 0xF10" "v \<noteq> 0x0F1"
  proof (rule that [of "ucast (high_value h)"])
    show "high_value h = ucast (ucast (high_value h) :: 12 word)" "ucast (high_value h) \<noteq> (0xF10 :: 12 word)"
      "ucast (high_value h) \<noteq> (0x0F1 :: 12 word)"
      using assms(2) by (cases h; simp)+
  qed
  note l = low_nonzero [OF assms(1)]
  have g: "MAKE_NEW_GUID (ucast l) (ucast e) h = ucast l OR push_bit 32 (ucast e) OR push_bit 52 (ucast v)"
    using l assms(2) by (simp add: MAKE_NEW_GUID_def v(1))
  show ?thesis
    using hipart_52 [OF v(2,3), of l e] guid_low [of l "ucast e" False "ucast v"] guid_entry_52 [of l e v]
    by (simp add: g GUID_LOPART_def GUID_ENPART_def v(1))
qed

theorem guid_parts_witness:
  "GUID_ENPART (MAKE_NEW_GUID 77 12345 HighUnit) = 12345 \<and> GUID_LOPART (MAKE_NEW_GUID 77 12345 HighUnit) = 77"
  using guid_parts [of 77 HighUnit 12345] by (simp add: IsGuidHaveEnPart_def)

lemma area_trigger_top:
  "drop_bit 48 (ucast (l :: u32) OR push_bit 48 (0xF1B :: u64)) AND 0xFFFF = 0xF1B"
  "ucast (drop_bit 32 (ucast l OR push_bit 48 (0xF1B :: u64)) AND 0xFFFFF) = (0xB0000 :: u32)"
proof -
  have "drop_bit 48 (ucast l :: u64) = 0" "drop_bit 32 (ucast l :: u64) = 0"
    by (rule bit_word_eqI; auto simp: bit_simps dest: bit_imp_le_length)+
  then show "drop_bit 48 (ucast (l :: u32) OR push_bit 48 (0xF1B :: u64)) AND 0xFFFF = 0xF1B"
    "ucast (drop_bit 32 (ucast l OR push_bit 48 (0xF1B :: u64)) AND 0xFFFFF) = (0xB0000 :: u32)"
    by simp_all
qed

text \<open>
  The guid of an area trigger, which has no entry, does not read back as one without entry: its
  kind is shifted by 48 bits only, and \<open>GUID_ENPART\<close> takes the last four bits of the kind for a part
  of the entry.
\<close>

lemma area_trigger_entry:
  assumes "l \<noteq> 0"
  shows "GUID_HIPART (MAKE_NEW_GUID (ucast (l :: u32)) 0 HighAreaTrigger) = high_value HighAreaTrigger \<and>
    GUID_ENPART (MAKE_NEW_GUID (ucast l) 0 HighAreaTrigger) = 0xB0000"
proof -
  have g: "MAKE_NEW_GUID (ucast l) 0 HighAreaTrigger = ucast l OR push_bit 48 0xF1B"
    using low_nonzero [OF assms] by (simp add: MAKE_NEW_GUID_def)
  have h: "GUID_HIPART (ucast l OR push_bit 48 0xF1B) = 0xF1B"
    unfolding GUID_HIPART_def Let_def area_trigger_top by simp
  then have "GUID_ENPART (ucast l OR push_bit 48 0xF1B) = 0xB0000"
    unfolding GUID_ENPART_def h area_trigger_top by (simp add: IsGuidHaveEnPart_def)
  with h show ?thesis unfolding g by simp
qed

end
