(* ===== verification/Channel.thy ===== *)
theory Channel
  imports StdMap ByteBuffer TextUtil GuidParts
begin

text \<open>
  Chat channels: \<^verbatim>\<open>src/server/game/Chat/Channels/Channel.h\<close> and \<^verbatim>\<open>Channel.cpp\<close>.

  The state of a \<open>Channel\<close> object is the record \<open>channel\<close>: the map from player guid to
  \<open>PlayerInfo\<close>, the set of banned guids, the flags, the password and the owner.  What a method
  does to the rest of the server is the list of its \<open>chan_action\<close>s, in order: packets handed to a
  session, the player's own channel list changed, rows written to the character database.  The
  players online, the channel store and the configuration are the record \<open>chan_env\<close>.

  Strings are byte lists.  \<open>players[p]\<close> inserts a zero \<open>PlayerInfo\<close> when \<open>p\<close> is not a member, as
  \<open>std::map\<close> does; \<open>at_player\<close> keeps that.
\<close>

section \<open>State\<close>

type_synonym bytes = "u8 list"
type_synonym packet = "bb_error + byte_buffer"

record player =
  pl_guid :: u64
  pl_name :: bytes
  pl_security :: u32
  pl_team :: u32
  pl_group :: bool
  pl_social :: bool
  pl_HasIgnore :: "u32 \<Rightarrow> bool"
  pl_isGMVisible :: bool
  pl_InArena :: bool

record chan_env =
  ce_FindPlayer :: "u64 \<Rightarrow> player option"
  ce_FindPlayerByName :: "bytes \<Rightarrow> player option"
  ce_GetPlayerNameByGUID :: "u64 \<Rightarrow> bytes option"
  ce_IsVisibleGloballyFor :: "player \<Rightarrow> player \<Rightarrow> bool"
  ce_LookupEntry :: "u32 \<Rightarrow> u32 option"
  ce_RESTRICTED_LFG_CHANNEL :: bool
  ce_SILENTLY_GM_JOIN_TO_CHANNEL :: bool
  ce_ALLOW_TWO_SIDE_INTERACTION_CHANNEL :: bool
  ce_PRESERVE_CUSTOM_CHANNELS :: bool
  ce_GM_LEVEL_IN_WHO_LIST :: u32

definition IsPlayerAccount :: "u32 \<Rightarrow> bool" where
  "IsPlayerAccount gmlevel \<longleftrightarrow> gmlevel = 0"

definition IsModeratorAccount :: "u32 \<Rightarrow> bool" where
  "IsModeratorAccount gmlevel \<longleftrightarrow> gmlevel \<ge> 1 \<and> gmlevel \<le> 7"

definition MEMBER_FLAG_OWNER :: u8 where "MEMBER_FLAG_OWNER = 0x01"
definition MEMBER_FLAG_MODERATOR :: u8 where "MEMBER_FLAG_MODERATOR = 0x02"
definition MEMBER_FLAG_MUTED :: u8 where "MEMBER_FLAG_MUTED = 0x08"

record player_info =
  pi_player :: u64
  pi_flags :: u8

definition IsOwner :: "player_info \<Rightarrow> bool" where
  "IsOwner i \<longleftrightarrow> pi_flags i AND MEMBER_FLAG_OWNER \<noteq> 0"

definition IsModerator :: "player_info \<Rightarrow> bool" where
  "IsModerator i \<longleftrightarrow> pi_flags i AND MEMBER_FLAG_MODERATOR \<noteq> 0"

definition IsMuted :: "player_info \<Rightarrow> bool" where
  "IsMuted i \<longleftrightarrow> pi_flags i AND MEMBER_FLAG_MUTED \<noteq> 0"

definition info_SetOwner :: "bool \<Rightarrow> player_info \<Rightarrow> player_info" where
  "info_SetOwner state i =
     i\<lparr>pi_flags := (if state then pi_flags i OR MEMBER_FLAG_OWNER else pi_flags i AND NOT MEMBER_FLAG_OWNER)\<rparr>"

definition info_SetModerator :: "bool \<Rightarrow> player_info \<Rightarrow> player_info" where
  "info_SetModerator state i =
     i\<lparr>pi_flags := (if state then pi_flags i OR MEMBER_FLAG_MODERATOR
                   else pi_flags i AND NOT MEMBER_FLAG_MODERATOR)\<rparr>"

definition info_SetMuted :: "bool \<Rightarrow> player_info \<Rightarrow> player_info" where
  "info_SetMuted state i =
     i\<lparr>pi_flags := (if state then pi_flags i OR MEMBER_FLAG_MUTED else pi_flags i AND NOT MEMBER_FLAG_MUTED)\<rparr>"

record channel =
  players :: "(u64, player_info) std_map"
  banned :: "(u64, unit) std_map"
  m_announce :: bool
  ch_special :: bool
  m_ownership :: bool
  m_name :: bytes
  m_password :: bytes
  m_flags :: u8
  m_channelId :: u32
  m_ownerGUID :: u64
  m_IsSaved :: bool
  m_Team :: u32

text \<open>A row of the \<open>channels\<close> table: announce, ownership, password, ban list.\<close>

type_synonym chan_row = "bool \<times> bool \<times> bytes \<times> bytes option"

datatype chan_action =
    SendPacket u64 packet
  | SendChat u64 u64 u32 bytes
  | Player_JoinedChannel u64
  | Player_LeftChannel u64
  | UpdRow bytes u32 chan_row
  | UpdUsage bytes u32
  | InsRow bytes u32

type_synonym chan_result = "chan_action list \<times> channel"

definition IsOn :: "u64 \<Rightarrow> channel \<Rightarrow> bool" where
  "IsOn who ch \<longleftrightarrow> map_find who (players ch) \<noteq> None"

definition IsBanned :: "u64 \<Rightarrow> channel \<Rightarrow> bool" where
  "IsBanned guid ch \<longleftrightarrow> map_find guid (banned ch) \<noteq> None"

definition IsConstant :: "channel \<Rightarrow> bool" where
  "IsConstant ch \<longleftrightarrow> m_channelId ch \<noteq> 0 \<or> ch_special ch"

definition CHANNEL_FLAG_LFG :: u8 where "CHANNEL_FLAG_LFG = 0x40"

definition ch_HasFlag :: "u8 \<Rightarrow> channel \<Rightarrow> bool" where
  "ch_HasFlag flag ch \<longleftrightarrow> m_flags ch AND flag \<noteq> 0"

definition GetPlayerFlags :: "u64 \<Rightarrow> channel \<Rightarrow> u8" where
  "GetPlayerFlags p ch = (case map_find p (players ch) of None \<Rightarrow> 0 | Some i \<Rightarrow> pi_flags i)"

text \<open>\<open>players[p]\<close>, read and written in place.\<close>

definition player_at :: "u64 \<Rightarrow> channel \<Rightarrow> player_info" where
  "player_at p ch = (case map_find p (players ch) of None \<Rightarrow> \<lparr>pi_player = 0, pi_flags = 0\<rparr> | Some i \<Rightarrow> i)"

definition at_player :: "u64 \<Rightarrow> (player_info \<Rightarrow> player_info) \<Rightarrow> channel \<Rightarrow> channel" where
  "at_player p f ch = ch\<lparr>players := map_set p (f (player_at p ch)) (players ch)\<rparr>"

section \<open>Packets\<close>

definition MakeNotifyPacket :: "u8 \<Rightarrow> channel \<Rightarrow> packet" where
  "MakeNotifyPacket notify_type ch = ebind (append_u8 notify_type empty_buffer) (append_string (m_name ch))"

text \<open>The three shapes of the fields that follow: a guid, a name, two guids, each followed by a zero.\<close>

definition with_guid :: "u64 \<Rightarrow> packet \<Rightarrow> packet" where
  "with_guid guid data = ebind (ebind data (append_u64 guid)) (append_u32 0)"

definition with_name :: "bytes \<Rightarrow> packet \<Rightarrow> packet" where
  "with_name name data = ebind (ebind data (append_string name)) (append_u32 0)"

definition MakeJoined :: "u64 \<Rightarrow> channel \<Rightarrow> packet" where
  "MakeJoined guid ch = with_guid guid (MakeNotifyPacket 0x00 ch)"

definition MakeLeft :: "u64 \<Rightarrow> channel \<Rightarrow> packet" where
  "MakeLeft guid ch = with_guid guid (MakeNotifyPacket 0x01 ch)"

definition MakeYouJoined :: "channel \<Rightarrow> packet" where
  "MakeYouJoined ch =
     ebind (MakeNotifyPacket 0x02 ch) (\<lambda>data. ebind (append_u8 (m_flags ch) data) (\<lambda>data.
       ebind (append_u32 (m_channelId ch) data) (append_u32 0)))"

definition MakeYouLeft :: "channel \<Rightarrow> packet" where
  "MakeYouLeft ch =
     ebind (MakeNotifyPacket 0x03 ch) (\<lambda>data. ebind (append_u32 (m_channelId ch) data)
       (append_u8 (of_bool (IsConstant ch))))"

definition MakeWrongPassword :: "channel \<Rightarrow> packet" where
  "MakeWrongPassword ch = MakeNotifyPacket 0x04 ch"

definition MakeNotMember :: "channel \<Rightarrow> packet" where
  "MakeNotMember ch = MakeNotifyPacket 0x05 ch"

definition MakeNotModerator :: "channel \<Rightarrow> packet" where
  "MakeNotModerator ch = MakeNotifyPacket 0x06 ch"

definition MakePasswordChanged :: "u64 \<Rightarrow> channel \<Rightarrow> packet" where
  "MakePasswordChanged guid ch = with_guid guid (MakeNotifyPacket 0x07 ch)"

definition MakeOwnerChanged :: "u64 \<Rightarrow> channel \<Rightarrow> packet" where
  "MakeOwnerChanged guid ch = with_guid guid (MakeNotifyPacket 0x08 ch)"

definition MakePlayerNotFound :: "bytes \<Rightarrow> channel \<Rightarrow> packet" where
  "MakePlayerNotFound name ch = with_name name (MakeNotifyPacket 0x09 ch)"

definition MakeNotOwner :: "channel \<Rightarrow> packet" where
  "MakeNotOwner ch = MakeNotifyPacket 0x0A ch"

text \<open>The literals \<open>"PLAYER_NOT_FOUND"\<close> and \<open>"Nobody"\<close>.\<close>

definition str_bytes :: "string \<Rightarrow> bytes" where
  "str_bytes s = map of_char s"

definition MakeChannelOwner :: "chan_env \<Rightarrow> channel \<Rightarrow> packet" where
  "MakeChannelOwner env ch =
     (let name = (case ce_GetPlayerNameByGUID env (m_ownerGUID ch) of
                    None \<Rightarrow> str_bytes ''PLAYER_NOT_FOUND''
                  | Some n \<Rightarrow> if n = [] then str_bytes ''PLAYER_NOT_FOUND'' else n)
      in with_name (if IsConstant ch \<or> m_ownerGUID ch = 0 then str_bytes ''Nobody'' else name)
           (MakeNotifyPacket 0x0B ch))"

definition MakeModeChange :: "u64 \<Rightarrow> u8 \<Rightarrow> channel \<Rightarrow> packet" where
  "MakeModeChange guid oldflags ch =
     ebind (with_guid guid (MakeNotifyPacket 0x0C ch)) (\<lambda>data. ebind (append_u8 oldflags data)
       (append_u8 (GetPlayerFlags guid ch)))"

definition MakeAnnouncementsOn :: "u64 \<Rightarrow> channel \<Rightarrow> packet" where
  "MakeAnnouncementsOn guid ch = with_guid guid (MakeNotifyPacket 0x0D ch)"

definition MakeAnnouncementsOff :: "u64 \<Rightarrow> channel \<Rightarrow> packet" where
  "MakeAnnouncementsOff guid ch = with_guid guid (MakeNotifyPacket 0x0E ch)"

definition MakeMuted :: "channel \<Rightarrow> packet" where
  "MakeMuted ch = MakeNotifyPacket 0x11 ch"

definition MakePlayerKicked :: "u64 \<Rightarrow> u64 \<Rightarrow> channel \<Rightarrow> packet" where
  "MakePlayerKicked bad good ch = with_guid good (with_guid bad (MakeNotifyPacket 0x12 ch))"

definition MakeBanned :: "channel \<Rightarrow> packet" where
  "MakeBanned ch = MakeNotifyPacket 0x13 ch"

definition MakePlayerBanned :: "u64 \<Rightarrow> u64 \<Rightarrow> channel \<Rightarrow> packet" where
  "MakePlayerBanned bad good ch = with_guid good (with_guid bad (MakeNotifyPacket 0x14 ch))"

definition MakePlayerUnbanned :: "u64 \<Rightarrow> u64 \<Rightarrow> channel \<Rightarrow> packet" where
  "MakePlayerUnbanned bad good ch = with_guid good (with_guid bad (MakeNotifyPacket 0x15 ch))"

definition MakePlayerAlreadyMember :: "u64 \<Rightarrow> channel \<Rightarrow> packet" where
  "MakePlayerAlreadyMember guid ch = with_guid guid (MakeNotifyPacket 0x17 ch)"

definition MakeInviteWrongFaction :: "channel \<Rightarrow> packet" where
  "MakeInviteWrongFaction ch = with_name (m_name ch) (MakeNotifyPacket 0x19 ch)"

definition MakePlayerInvited :: "bytes \<Rightarrow> channel \<Rightarrow> packet" where
  "MakePlayerInvited name ch = with_name name (MakeNotifyPacket 0x1D ch)"

definition MakePlayerInviteBanned :: "bytes \<Rightarrow> channel \<Rightarrow> packet" where
  "MakePlayerInviteBanned name ch = with_name name (MakeNotifyPacket 0x1E ch)"

definition MakeNotInLfg :: "channel \<Rightarrow> packet" where
  "MakeNotInLfg ch = MakeNotifyPacket 0x21 ch"

definition hears :: "chan_env \<Rightarrow> u64 \<Rightarrow> u64 \<Rightarrow> bool" where
  "hears env p who \<longleftrightarrow> (case ce_FindPlayer env who of
      None \<Rightarrow> False
    | Some pl \<Rightarrow> p = 0 \<or> (pl_social pl \<and> \<not> pl_HasIgnore pl (GUID_LOPART p)))"

definition SendToAll :: "chan_env \<Rightarrow> packet \<Rightarrow> u64 \<Rightarrow> channel \<Rightarrow> chan_action list" where
  "SendToAll env data p ch = map (\<lambda>who. SendPacket who data) (filter (hears env p) (map fst (players ch)))"

definition SendToOne :: "chan_env \<Rightarrow> packet \<Rightarrow> u64 \<Rightarrow> chan_action list" where
  "SendToOne env data who = (case ce_FindPlayer env who of None \<Rightarrow> [] | Some _ \<Rightarrow> [SendPacket who data])"

section \<open>The database\<close>

definition ban_list :: "channel \<Rightarrow> bytes" where
  "ban_list ch = concat (map (\<lambda>x. dec (unat (fst x)) @ [32]) (banned ch))"

definition UpdateChannelInDB :: "channel \<Rightarrow> chan_action list" where
  "UpdateChannelInDB ch =
     (if m_IsSaved ch
      then [UpdRow (m_name ch) (m_Team ch) (m_announce ch, m_ownership ch, m_password ch, Some (ban_list ch))]
      else [])"

definition UpdateChannelUseageInDB :: "channel \<Rightarrow> chan_action list" where
  "UpdateChannelUseageInDB ch = [UpdUsage (m_name ch) (m_Team ch)]"

text \<open>\<open>tolower\<close> and \<open>towlower\<close> in the C locale.\<close>

definition lower_byte :: "u8 \<Rightarrow> u8" where
  "lower_byte c = (if 65 \<le> c \<and> c \<le> 90 then c + 32 else c)"

definition world_name :: "bytes \<Rightarrow> bool" where
  "world_name name \<longleftrightarrow>
     map lower_byte name \<in> {str_bytes ''world'', str_bytes ''english'', str_bytes ''all''}"

definition IsWorld :: "channel \<Rightarrow> bool" where
  "IsWorld ch \<longleftrightarrow> world_name (m_name ch)"

definition load_bans :: "bytes \<Rightarrow> (u64, unit) std_map" where
  "load_bans db_BannedList =
     fold (\<lambda>token b. let banned_guid = word_of_int (atol token) in
             if banned_guid \<noteq> 0 then map_set banned_guid () b else b)
       (Tokenizer db_BannedList 32) []"

definition builtin_flags :: "u32 \<Rightarrow> u8" where
  "builtin_flags flags =
     0x10 OR (if flags AND 0x8 \<noteq> 0 then 0x04 else 0) OR (if flags AND 0x20 \<noteq> 0 then 0x20 else 0)
     OR (if flags AND 0x40000 \<noteq> 0 then CHANNEL_FLAG_LFG else 0x08)"

text \<open>\<open>row\<close> is the result of the query for a custom channel of that name and team.\<close>

definition new_Channel :: "chan_env \<Rightarrow> chan_row option \<Rightarrow> bytes \<Rightarrow> u32 \<Rightarrow> u32 \<Rightarrow> chan_result" where
  "new_Channel env row name channel_id Team =
     (let ch = \<lparr>players = [], banned = [], m_announce = True, ch_special = False, m_ownership = True,
                m_name = name, m_password = [], m_flags = 0, m_channelId = channel_id,
                m_ownerGUID = 0, m_IsSaved = False, m_Team = Team\<rparr>;
          ch = (if IsWorld ch then ch\<lparr>m_announce := False\<rparr> else ch)
      in case ce_LookupEntry env channel_id of
           Some flags \<Rightarrow>
             ([], ch\<lparr>m_announce := False, m_ownership := False, m_flags := m_flags ch OR builtin_flags flags\<rparr>)
         | None \<Rightarrow>
             if world_name name then ([], ch\<lparr>m_announce := False, ch_special := True\<rparr>)
             else
               let ch = ch\<lparr>m_flags := m_flags ch OR 0x01\<rparr> in
               if ce_PRESERVE_CUSTOM_CHANNELS env
               then case row of
                      Some (announce, ownership, password, bans) \<Rightarrow>
                        ([], ch\<lparr>m_announce := announce, m_ownership := ownership, m_password := password,
                               banned := (case bans of None \<Rightarrow> [] | Some l \<Rightarrow> load_bans l), m_IsSaved := True\<rparr>)
                    | None \<Rightarrow> ([InsRow name Team], ch\<lparr>m_IsSaved := True\<rparr>)
               else ([], ch))"

section \<open>Operations\<close>

definition SetOwner :: "chan_env \<Rightarrow> u64 \<Rightarrow> bool \<Rightarrow> channel \<Rightarrow> chan_result" where
  "SetOwner env guid exclaim ch =
     (let ch = (if m_ownerGUID ch \<noteq> 0 \<and> IsOn (m_ownerGUID ch) ch
                then at_player (m_ownerGUID ch) (info_SetOwner False) ch else ch);
          ch = ch\<lparr>m_ownerGUID := guid\<rparr>
      in if guid \<noteq> 0
         then
           let oldFlag = GetPlayerFlags guid ch;
               ch = at_player guid (info_SetModerator True) ch;
               ch = at_player guid (info_SetOwner True) ch
           in (SendToAll env (MakeModeChange guid oldFlag ch) 0 ch @
               (if exclaim then SendToAll env (MakeOwnerChanged guid ch) 0 ch else []) @
               UpdateChannelInDB ch, ch)
         else ([], ch))"

text \<open>\<open>GetSession()->GetSecurity()\<close> of a player, \<open>SEC_PLAYER\<close> when the player is not online.\<close>

definition security :: "chan_env \<Rightarrow> u64 \<Rightarrow> u32" where
  "security env p = (case ce_FindPlayer env p of None \<Rightarrow> 0 | Some pl \<Rightarrow> pl_security pl)"

text \<open>Joining and leaving are announced unless the player is a moderator account that joins silently.\<close>

definition announces :: "chan_env \<Rightarrow> u64 \<Rightarrow> channel \<Rightarrow> bool" where
  "announces env p ch \<longleftrightarrow> m_announce ch \<and>
     (ce_FindPlayer env p = None \<or> \<not> IsModeratorAccount (security env p) \<or> \<not> ce_SILENTLY_GM_JOIN_TO_CHANNEL env)"

definition lfg_restricted :: "chan_env \<Rightarrow> u64 \<Rightarrow> channel \<Rightarrow> bool" where
  "lfg_restricted env p ch \<longleftrightarrow> (case ce_FindPlayer env p of
      None \<Rightarrow> False
    | Some pl \<Rightarrow> ch_HasFlag CHANNEL_FLAG_LFG ch \<and> ce_RESTRICTED_LFG_CHANNEL env \<and>
        IsPlayerAccount (pl_security pl) \<and> pl_group pl)"

definition Join :: "chan_env \<Rightarrow> u64 \<Rightarrow> bytes \<Rightarrow> channel \<Rightarrow> chan_result" where
  "Join env p pass ch =
     (if IsOn p ch
      then (if \<not> IsConstant ch then SendToOne env (MakePlayerAlreadyMember p ch) p else [], ch)
      else if IsBanned p ch then (SendToOne env (MakeBanned ch) p, ch)
      else if m_password ch \<noteq> [] \<and> pass \<noteq> m_password ch then (SendToOne env (MakeWrongPassword ch) p, ch)
      else if lfg_restricted env p ch then (SendToOne env (MakeNotInLfg ch) p, ch)
      else
        let acts = (case ce_FindPlayer env p of None \<Rightarrow> [] | Some _ \<Rightarrow> [Player_JoinedChannel p]) @
                   (if announces env p ch then SendToAll env (MakeJoined p ch) 0 ch else []);
            ch = ch\<lparr>players := map_set p \<lparr>pi_player = p, pi_flags = 0\<rparr> (players ch)\<rparr>;
            acts = acts @ SendToOne env (MakeYouJoined ch) p
        in if \<not> IsConstant ch
           then
             let acts = acts @ (if players ch \<noteq> [] then UpdateChannelUseageInDB ch else [])
             in if m_ownerGUID ch = 0 \<and> m_ownership ch
                then
                  let (acts', ch) = SetOwner env p (length (players ch) > 1) ch
                  in (acts @ acts', at_player p (info_SetModerator True) ch)
                else (acts, ch)
           else (acts, ch))"

definition Leave :: "chan_env \<Rightarrow> u64 \<Rightarrow> bool \<Rightarrow> channel \<Rightarrow> chan_result" where
  "Leave env p send ch =
     (if \<not> IsOn p ch then (if send then SendToOne env (MakeNotMember ch) p else [], ch)
      else
        let acts = (if send
                    then SendToOne env (MakeYouLeft ch) p @
                      (case ce_FindPlayer env p of None \<Rightarrow> [] | Some _ \<Rightarrow> [Player_LeftChannel p])
                    else []);
            changeowner = IsOwner (player_at p ch);
            ch = ch\<lparr>players := map_erase p (players ch)\<rparr>;
            acts = acts @ (if announces env p ch then SendToAll env (MakeLeft p ch) 0 ch else [])
        in if \<not> IsConstant ch
           then
             let acts = acts @ UpdateChannelUseageInDB ch
             in if changeowner \<and> m_ownership ch \<and> players ch \<noteq> []
                then
                  let newowner = pi_player (snd (hd (players ch)));
                      ch = at_player newowner (info_SetModerator True) ch;
                      (acts', ch) = SetOwner env newowner True ch
                  in (acts @ acts', ch)
                else (acts, ch)
           else (acts, ch))"

text \<open>The two checks that open most of the commands: membership and moderator rights.\<close>

definition refused :: "chan_env \<Rightarrow> u64 \<Rightarrow> channel \<Rightarrow> packet option" where
  "refused env p ch =
     (if \<not> IsOn p ch then Some (MakeNotMember ch)
      else if \<not> IsModerator (player_at p ch) \<and> \<not> IsModeratorAccount (security env p)
      then Some (MakeNotModerator ch)
      else None)"

definition KickOrBan :: "chan_env \<Rightarrow> u64 \<Rightarrow> bytes \<Rightarrow> bool \<Rightarrow> channel \<Rightarrow> chan_result" where
  "KickOrBan env good badname ban ch =
     (case refused env good ch of
        Some data \<Rightarrow> (SendToOne env data good, ch)
      | None \<Rightarrow>
          let sec = security env good in
          case ce_FindPlayerByName env badname of
            None \<Rightarrow> (SendToOne env (MakePlayerNotFound badname ch) good, ch)
          | Some badp \<Rightarrow>
              let bad = pl_guid badp in
              if \<not> IsOn bad ch then (SendToOne env (MakePlayerNotFound badname ch) good, ch)
              else if \<not> IsModeratorAccount sec \<and> bad = m_ownerGUID ch \<and> good \<noteq> m_ownerGUID ch
              then (SendToOne env (MakeNotOwner ch) good, ch)
              else
                let changeowner = (m_ownerGUID ch = bad);
                    notify = (\<not> (IsModeratorAccount sec \<and> ce_SILENTLY_GM_JOIN_TO_CHANNEL env));
                    newban = (ban \<and> \<not> IsBanned bad ch);
                    ch = (if newban then ch\<lparr>banned := map_set bad () (banned ch)\<rparr> else ch);
                    data = (if newban then MakePlayerBanned bad good ch else MakePlayerKicked bad good ch);
                    acts = (if newban then UpdateChannelInDB ch else []) @
                           (if notify then SendToAll env data 0 ch else []);
                    ch = ch\<lparr>players := map_erase bad (players ch)\<rparr>;
                    acts = acts @ [Player_LeftChannel bad]
                in if changeowner \<and> m_ownership ch \<and> players ch \<noteq> []
                   then
                     let ch = at_player good (info_SetModerator True) ch;
                         (acts', ch) = SetOwner env good True ch
                     in (acts @ acts', ch)
                   else (acts, ch))"

definition UnBan :: "chan_env \<Rightarrow> u64 \<Rightarrow> bytes \<Rightarrow> channel \<Rightarrow> chan_result" where
  "UnBan env good badname ch =
     (case refused env good ch of
        Some data \<Rightarrow> (SendToOne env data good, ch)
      | None \<Rightarrow>
          case ce_FindPlayerByName env badname of
            None \<Rightarrow> (SendToOne env (MakePlayerNotFound badname ch) good, ch)
          | Some badp \<Rightarrow>
              let bad = pl_guid badp in
              if \<not> IsBanned bad ch then (SendToOne env (MakePlayerNotFound badname ch) good, ch)
              else
                let ch = ch\<lparr>banned := map_erase bad (banned ch)\<rparr>
                in (SendToAll env (MakePlayerUnbanned bad good ch) 0 ch @ UpdateChannelInDB ch, ch))"

definition Password :: "chan_env \<Rightarrow> u64 \<Rightarrow> bytes \<Rightarrow> channel \<Rightarrow> chan_result" where
  "Password env p pass ch =
     (case refused env p ch of
        Some data \<Rightarrow> (SendToOne env data p, ch)
      | None \<Rightarrow>
          if IsWorld ch then (SendToOne env (MakeNotModerator ch) p, ch)
          else
            let ch = ch\<lparr>m_password := pass\<rparr>
            in (SendToAll env (MakePasswordChanged p ch) 0 ch @ UpdateChannelInDB ch, ch))"

definition SetModerator :: "chan_env \<Rightarrow> u64 \<Rightarrow> bool \<Rightarrow> channel \<Rightarrow> chan_result" where
  "SetModerator env p on ch =
     (let ch = at_player p (\<lambda>i. i) ch in
      if IsModerator (player_at p ch) \<noteq> on
      then
        let oldFlag = GetPlayerFlags p ch; ch = at_player p (info_SetModerator on) ch
        in (SendToAll env (MakeModeChange p oldFlag ch) 0 ch, ch)
      else ([], ch))"

definition SetMute :: "chan_env \<Rightarrow> u64 \<Rightarrow> bool \<Rightarrow> channel \<Rightarrow> chan_result" where
  "SetMute env p on ch =
     (let ch = at_player p (\<lambda>i. i) ch in
      if IsMuted (player_at p ch) \<noteq> on
      then
        let oldFlag = GetPlayerFlags p ch; ch = at_player p (info_SetMuted on) ch
        in (SendToAll env (MakeModeChange p oldFlag ch) 0 ch, ch)
      else ([], ch))"

definition other_side :: "chan_env \<Rightarrow> player \<Rightarrow> player \<Rightarrow> bool" where
  "other_side env a b \<longleftrightarrow> pl_team a \<noteq> pl_team b \<and> \<not> ce_ALLOW_TWO_SIDE_INTERACTION_CHANNEL env"

definition SetMode :: "chan_env \<Rightarrow> u64 \<Rightarrow> bytes \<Rightarrow> bool \<Rightarrow> bool \<Rightarrow> channel \<Rightarrow> chan_result" where
  "SetMode env p p2n moderator on ch =
     (case ce_FindPlayer env p of
        None \<Rightarrow> ([], ch)
      | Some pl \<Rightarrow>
          case refused env p ch of
            Some data \<Rightarrow> (SendToOne env data p, ch)
          | None \<Rightarrow>
              case ce_FindPlayerByName env p2n of
                None \<Rightarrow> (SendToOne env (MakePlayerNotFound p2n ch) p, ch)
              | Some newp \<Rightarrow>
                  if p = m_ownerGUID ch \<and> pl_guid newp = m_ownerGUID ch \<and> moderator then ([], ch)
                  else if \<not> IsOn (pl_guid newp) ch then (SendToOne env (MakePlayerNotFound p2n ch) p, ch)
                  else if (\<not> IsModeratorAccount (pl_security pl) \<or> \<not> IsModeratorAccount (pl_security newp)) \<and>
                          other_side env pl newp
                  then (SendToOne env (MakePlayerNotFound p2n ch) p, ch)
                  else if m_ownerGUID ch = pl_guid newp \<and> m_ownerGUID ch \<noteq> p
                  then (SendToOne env (MakeNotOwner ch) p, ch)
                  else if moderator then SetModerator env (pl_guid newp) on ch
                  else SetMute env (pl_guid newp) on ch)"

definition SetOwner_name :: "chan_env \<Rightarrow> u64 \<Rightarrow> bytes \<Rightarrow> channel \<Rightarrow> chan_result" where
  "SetOwner_name env p newname ch =
     (case ce_FindPlayer env p of
        None \<Rightarrow> ([], ch)
      | Some pl \<Rightarrow>
          if \<not> IsOn p ch then (SendToOne env (MakeNotMember ch) p, ch)
          else if \<not> IsModeratorAccount (pl_security pl) \<and> p \<noteq> m_ownerGUID ch
          then (SendToOne env (MakeNotOwner ch) p, ch)
          else
            case ce_FindPlayerByName env newname of
              None \<Rightarrow> (SendToOne env (MakePlayerNotFound newname ch) p, ch)
            | Some newp \<Rightarrow>
                if \<not> IsOn (pl_guid newp) ch \<or> other_side env newp pl
                then (SendToOne env (MakePlayerNotFound newname ch) p, ch)
                else SetOwner env (pl_guid newp) True (at_player (pl_guid newp) (info_SetModerator True) ch))"

definition SendWhoOwner :: "chan_env \<Rightarrow> u64 \<Rightarrow> channel \<Rightarrow> chan_result" where
  "SendWhoOwner env p ch =
     (if \<not> IsOn p ch then (SendToOne env (MakeNotMember ch) p, ch)
      else (SendToOne env (MakeChannelOwner env ch) p, ch))"

definition listed :: "chan_env \<Rightarrow> player \<Rightarrow> u64 \<times> player_info \<Rightarrow> bool" where
  "listed env pl x \<longleftrightarrow> (case ce_FindPlayer env (fst x) of
      None \<Rightarrow> False
    | Some member \<Rightarrow>
        (\<not> IsPlayerAccount (pl_security pl) \<or> pl_security member \<le> ce_GM_LEVEL_IN_WHO_LIST env) \<and>
        ce_IsVisibleGloballyFor env member pl)"

definition list_packet :: "chan_env \<Rightarrow> player \<Rightarrow> channel \<Rightarrow> packet" where
  "list_packet env pl ch =
     (let shown = filter (listed env pl) (players ch) in
      ebind (append_u8 1 empty_buffer) (\<lambda>data.
      ebind (append_string (m_name ch) data) (\<lambda>data.
      ebind (append_u8 (m_flags ch) data) (\<lambda>data.
        let pos = wpos data in
        ebind (append_u32 0 data) (\<lambda>data.
        ebind (efold (\<lambda>i data. ebind (append_u64 (fst i) data) (append_u8 (pi_flags (snd i)))) shown data)
          (put_bytes pos (le_bytes 4 (of_nat (length shown) :: u32))))))))"

definition ch_List :: "chan_env \<Rightarrow> player \<Rightarrow> channel \<Rightarrow> chan_result" where
  "ch_List env pl ch =
     (if \<not> IsOn (pl_guid pl) ch then (SendToOne env (MakeNotMember ch) (pl_guid pl), ch)
      else (SendToOne env (list_packet env pl ch) (pl_guid pl), ch))"

definition Announce :: "chan_env \<Rightarrow> u64 \<Rightarrow> channel \<Rightarrow> chan_result" where
  "Announce env p ch =
     (case refused env p ch of
        Some data \<Rightarrow> (SendToOne env data p, ch)
      | None \<Rightarrow>
          let ch = ch\<lparr>m_announce := \<not> m_announce ch\<rparr>;
              data = (if m_announce ch then MakeAnnouncementsOn p ch else MakeAnnouncementsOff p ch)
          in (SendToAll env data 0 ch @ UpdateChannelInDB ch, ch))"

text \<open>
  The message itself is put together by \<open>ChatHandler::FillMessageData\<close>; here it is a \<open>SendChat\<close> to
  every receiver.  A moderator is heard even by those who ignore him.
\<close>

definition Say :: "chan_env \<Rightarrow> u64 \<Rightarrow> bytes \<Rightarrow> u32 \<Rightarrow> channel \<Rightarrow> chan_result" where
  "Say env p what lang ch =
     (let lang = (if ce_ALLOW_TWO_SIDE_INTERACTION_CHANNEL env then 0 else lang) in
      case ce_FindPlayer env p of
        None \<Rightarrow> ([], ch)
      | Some pl \<Rightarrow>
          if \<not> IsOn p ch then (SendToOne env (MakeNotMember ch) p, ch)
          else if IsMuted (player_at p ch) then (SendToOne env (MakeMuted ch) p, ch)
          else
            (map (\<lambda>who. SendChat who (pl_guid pl) lang what)
               (filter (hears env (if \<not> IsModerator (player_at p ch) then p else 0)) (map fst (players ch))), ch))"

text \<open>
  The last condition reads \<open>!newp->GetSocial() && newp->GetSocial()->HasIgnore(...)\<close>: with a social
  list it is false, without one the code dereferences a null pointer, the result \<open>None\<close>.
\<close>

definition Invite :: "chan_env \<Rightarrow> u64 \<Rightarrow> bytes \<Rightarrow> channel \<Rightarrow> chan_action list option" where
  "Invite env p newname ch =
     (if \<not> IsOn p ch then Some (SendToOne env (MakeNotMember ch) p)
      else case ce_FindPlayerByName env newname of
        None \<Rightarrow> Some (SendToOne env (MakePlayerNotFound newname ch) p)
      | Some newp \<Rightarrow>
          if \<not> pl_isGMVisible newp \<or> pl_InArena newp
          then Some (SendToOne env (MakePlayerNotFound newname ch) p)
          else if IsBanned (pl_guid newp) ch then Some (SendToOne env (MakePlayerInviteBanned newname ch) p)
          else case ce_FindPlayer env p of
            None \<Rightarrow> Some []
          | Some pl \<Rightarrow>
              if other_side env newp pl then Some (SendToOne env (MakeInviteWrongFaction ch) p)
              else if IsOn (pl_guid newp) ch then Some (SendToOne env (MakePlayerAlreadyMember (pl_guid newp) ch) p)
              else if \<not> pl_social newp then None
              else Some (SendToOne env (MakePlayerInvited (pl_name newp) ch) p))"

end
