(* ===== verification/PatchedCount.thy ===== *)
theory PatchedCount
  imports Codec
begin

text \<open>
  Packets whose item count is written as zero first and put in place once the items are written
  (\<open>data.put<uint32>(pos, count)\<close>): they read like packets that had the count from the start.
\<close>

text \<open>An item writer that appends bytes which do not depend on the buffer.\<close>

definition bytewise :: "('v \<Rightarrow> byte_buffer \<Rightarrow> bb_error + byte_buffer) \<Rightarrow> ('v \<Rightarrow> u8 list) \<Rightarrow> bool" where
  "bytewise put enc \<longleftrightarrow> (\<forall>x b b'. wpos b = bb_size b \<longrightarrow> put x b = Inr b' \<longrightarrow>
     b' = b\<lparr>storage := storage b @ enc x, wpos := bb_size b + length (enc x), bitpos := 8\<rparr>)"

lemma bytewise_words:
  "bytewise append_u8 (le_bytes 1)" "bytewise append_u32 (le_bytes 4)" "bytewise append_u64 (le_bytes 8)"
  unfolding bytewise_def append_u8_def append_u32_def append_u64_def using append_bytes_Inr by blast+

lemma bytewise_pair:
  assumes "bytewise p e" "bytewise q f"
  shows "bytewise (put_pair p q) (\<lambda>x. e (fst x) @ f (snd x))"
  unfolding bytewise_def put_pair_def
proof (intro allI impI)
  fix x b b' assume b: "wpos b = bb_size b" "ebind (p (fst x) b) (q (snd x)) = Inr b'"
  then obtain c where c: "p (fst x) b = Inr c" "q (snd x) c = Inr b'" by auto
  have "c = b\<lparr>storage := storage b @ e (fst x), wpos := bb_size b + length (e (fst x)), bitpos := 8\<rparr>"
    using assms(1) b(1) c(1) by (simp add: bytewise_def)
  moreover from this have "wpos c = bb_size c" by simp
  then have "b' = c\<lparr>storage := storage c @ f (snd x), wpos := bb_size c + length (f (snd x)), bitpos := 8\<rparr>"
    using assms(2) c(2) by (simp add: bytewise_def)
  ultimately show "b' = b\<lparr>storage := storage b @ e (fst x) @ f (snd x),
      wpos := bb_size b + length (e (fst x) @ f (snd x)), bitpos := 8\<rparr>" by simp
qed

lemma bytewise_efold:
  assumes "bytewise p e" "wpos b = bb_size b" "efold p xs b = Inr c"
  shows "storage c = storage b @ concat (map e xs)"
  using assms(2,3)
proof (induction xs arbitrary: b)
  case (Cons x xs)
  then obtain d where d: "p x b = Inr d" "efold p xs d = Inr c" by auto
  have "d = b\<lparr>storage := storage b @ e x, wpos := bb_size b + length (e x), bitpos := 8\<rparr>"
    using assms(1) Cons.prems(1) d(1) by (simp add: bytewise_def)
  then show ?case using Cons.IH [OF _ d(2)] by simp
qed simp

lemma patched_round_trip:
  assumes head: "codec ph gh vh nh" "vh h" and items: "codec p g v n" "list_all v vs" "bytewise p e"
    and "nh h + 4 + sum_list (map n vs) \<le> MAX_BUFFER"
  shows "\<exists>w r s. ebind (ph h empty_buffer) (\<lambda>b. ebind (append_u32 0 b) (\<lambda>c. ebind (efold p vs c)
       (put_bytes (wpos b) (le_bytes 4 (of_nat (length vs) :: u32))))) = Inr w \<and>
     get_pair gh read_u32 (received (storage w)) = Inr ((h, of_nat (length vs)), r) \<and>
     get_n g (length vs) r = Inr (vs, s) \<and> rpos s = bb_size w"
proof -
  let ?n = "of_nat (length vs) :: u32"
  note framed = framed_round_trip [OF pair_codec [OF head(1) u32_codec.codec_axioms] items(1) _ items(2)]
  from framed [of "(h, ?n)"] head(2) assms(6) obtain w r s where w:
    "ebind (put_pair ph append_u32 (h, ?n) empty_buffer) (efold p vs) = Inr w"
    "get_pair gh read_u32 (received (storage w)) = Inr ((h, ?n), r)"
    "get_n g (length vs) r = Inr (vs, s)" "rpos s = bb_size w" by auto
  from framed [of "(h, 0)"] head(2) assms(6) obtain z where
    z: "ebind (put_pair ph append_u32 (h, 0) empty_buffer) (efold p vs) = Inr z" by auto
  from w(1) obtain b c where b: "ph h empty_buffer = Inr b" "append_u32 ?n b = Inr c" "efold p vs c = Inr w"
    by (auto simp: put_pair_def)
  from z b(1) obtain d where d: "append_u32 0 b = Inr d" "efold p vs d = Inr z" by (auto simp: put_pair_def)
  have bi: "wr_inv b" using appender.put_inv [OF codec.put_appends [OF head] wr_inv_empty b(1)] by blast
  then have pos: "wpos b = bb_size b" by (simp add: wr_inv_def)
  have c: "storage c = storage b @ le_bytes 4 ?n" "wpos c = bb_size c"
    and dd: "storage d = storage b @ le_bytes 4 (0 :: u32)" "wpos d = bb_size d"
    using append_bytes_Inr [OF pos b(2) [unfolded append_u32_def]] append_bytes_Inr [OF pos d(1) [unfolded append_u32_def]]
    by simp_all
  have sw: "storage w = storage b @ le_bytes 4 ?n @ concat (map e vs)"
    using bytewise_efold [OF items(3) c(2) b(3)] c(1) by simp
  have sz: "storage z = storage b @ le_bytes 4 (0 :: u32) @ concat (map e vs)"
    using bytewise_efold [OF items(3) dd(2) d(2)] dd(1) by simp
  let ?z = "z\<lparr>storage := storage w\<rparr>"
  have "put_bytes (wpos b) (le_bytes 4 ?n) z = Inr ?z"
    using mod_less_eq_dividend [of "bb_size b + 4" "2 ^ 64"]
    by (simp add: put_bytes_def pos sz sw Let_def size_add_def)
  then have "ebind (ph h empty_buffer) (\<lambda>b. ebind (append_u32 0 b) (\<lambda>c. ebind (efold p vs c)
       (put_bytes (wpos b) (le_bytes 4 ?n)))) = Inr ?z" using b(1) d by simp
  then show ?thesis using w(2-4) by (intro exI [of _ ?z] exI [of _ r] exI [of _ s]) simp
qed

end
