(* ===== verification/ChannelProps.thy ===== *)
theory ChannelProps
  imports Channel PatchedCount
begin

text \<open>
  Properties of the chat channels: who can change what, that a channel has at most one owner, who
  gets in, and that bans survive a restart of the server.
\<close>

section \<open>Member flags\<close>

lemmas info_defs = IsOwner_def IsModerator_def IsMuted_def info_SetOwner_def info_SetModerator_def info_SetMuted_def
  MEMBER_FLAG_OWNER_def MEMBER_FLAG_MODERATOR_def MEMBER_FLAG_MUTED_def

lemma flag_bit:
  "(w :: u8) AND 0x01 = 0 \<longleftrightarrow> \<not> bit w 0" "w AND 0x02 = 0 \<longleftrightarrow> \<not> bit w 1" "w AND 0x08 = 0 \<longleftrightarrow> \<not> bit w 3"
  using and_exp_eq_0_iff_not_bit [of w 0] and_exp_eq_0_iff_not_bit [of w 1] and_exp_eq_0_iff_not_bit [of w 3]
  by simp_all

lemma flag_bits:
  "bit (0x01 :: u8) n \<longleftrightarrow> n = 0" "bit (0x02 :: u8) n \<longleftrightarrow> n = 1" "bit (0x08 :: u8) n \<longleftrightarrow> n = 3"
  using bit_exp_iff [where 'a = u8, of 0 n] bit_exp_iff [where 'a = u8, of 1 n] bit_exp_iff [where 'a = u8, of 3 n]
  by auto

lemma info_flags [simp]:
  "IsOwner (info_SetOwner b i) = b" "IsModerator (info_SetOwner b i) = IsModerator i"
  "IsOwner (info_SetModerator b i) = IsOwner i" "IsModerator (info_SetModerator b i) = b"
  "IsOwner (info_SetMuted b i) = IsOwner i" "IsModerator (info_SetMuted b i) = IsModerator i"
  by (simp_all add: info_defs flag_bit flag_bits bit_and_iff bit_or_iff bit_not_iff)

lemma blank_flags [simp]:
  "\<not> IsOwner \<lparr>pi_player = p, pi_flags = 0\<rparr>" "\<not> IsModerator \<lparr>pi_player = p, pi_flags = 0\<rparr>"
  by (simp_all add: info_defs)

section \<open>Changing a member\<close>

lemma at_player_simps [simp]:
  "m_ownerGUID (at_player p f ch) = m_ownerGUID ch" "banned (at_player p f ch) = banned ch"
  "m_password (at_player p f ch) = m_password ch" "m_announce (at_player p f ch) = m_announce ch"
  "m_ownership (at_player p f ch) = m_ownership ch" "IsConstant (at_player p f ch) = IsConstant ch"
  "m_name (at_player p f ch) = m_name ch"
  "map_ok (players ch) \<Longrightarrow> map_ok (players (at_player p f ch))"
  "map_ok (players ch) \<Longrightarrow>
    map_find k (players (at_player p f ch)) = (if k = p then Some (f (player_at p ch)) else map_find k (players ch))"
  by (simp_all add: at_player_def IsConstant_def std_map.ok_store std_map.find_store)

text \<open>
  What every state of a channel satisfies: a member with the owner flag is the recorded owner, and
  a moderator.
\<close>

definition owner_entry :: "u64 \<Rightarrow> u64 \<times> player_info \<Rightarrow> bool" where
  "owner_entry own x \<longleftrightarrow> (IsOwner (snd x) \<longrightarrow> fst x = own \<and> fst x \<noteq> 0 \<and> IsModerator (snd x))"

definition chan_inv :: "channel \<Rightarrow> bool" where
  "chan_inv ch \<longleftrightarrow> map_ok (players ch) \<and> map_ok (banned ch) \<and> list_all (owner_entry (m_ownerGUID ch)) (players ch)"

lemma chan_inv_iff:
  "chan_inv ch \<longleftrightarrow> map_ok (players ch) \<and> map_ok (banned ch) \<and>
     (\<forall>k i. map_find k (players ch) = Some i \<longrightarrow> owner_entry (m_ownerGUID ch) (k, i))"
  unfolding chan_inv_def list_all_iff
  using std_map.entries_iff [of "players ch"] by auto

lemma player_at_Some: "map_find p (players ch) = Some i \<Longrightarrow> player_at p ch = i"
  by (simp add: player_at_def)

lemma chan_inv_at_player:
  assumes "chan_inv ch" "owner_entry (m_ownerGUID ch) (p, f (player_at p ch))"
  shows "chan_inv (at_player p f ch)"
  using assms by (simp add: chan_inv_iff)

lemma player_at_entry: "chan_inv ch \<Longrightarrow> owner_entry (m_ownerGUID ch) (p, player_at p ch)"
  by (auto simp: chan_inv_iff player_at_def owner_entry_def split: option.split)

lemma chan_inv_moderator:
  assumes "chan_inv ch" "on \<or> p \<noteq> m_ownerGUID ch"
  shows "chan_inv (at_player p (info_SetModerator on) ch)"
  using player_at_entry [OF assms(1), of p] assms
  by (intro chan_inv_at_player) (auto simp: owner_entry_def)

text \<open>\<open>SetOwner\<close> on a channel that satisfies the invariant.\<close>

lemma SetOwner_fields:
  "banned (snd (SetOwner env g e ch)) = banned ch" "m_password (snd (SetOwner env g e ch)) = m_password ch"
  "m_announce (snd (SetOwner env g e ch)) = m_announce ch" "m_ownerGUID (snd (SetOwner env g e ch)) = g"
  by (simp_all add: SetOwner_def Let_def)

lemma SetOwner_find:
  assumes "map_ok (players ch)"
  shows "map_ok (players (snd (SetOwner env g e ch)))"
    and "map_find k (players (snd (SetOwner env g e ch))) =
      (if k = g \<and> g \<noteq> 0
       then Some (info_SetOwner True (info_SetModerator True
             (if g = m_ownerGUID ch \<and> IsOn g ch then info_SetOwner False (player_at g ch) else player_at g ch)))
       else if k = m_ownerGUID ch \<and> k \<noteq> 0 \<and> IsOn k ch then Some (info_SetOwner False (player_at k ch))
       else map_find k (players ch))"
proof -
  have upd: "player_at p (ch\<lparr>m_ownerGUID := x\<rparr>) = player_at p ch" "players (ch\<lparr>m_ownerGUID := x\<rparr>) = players ch" for p x ch
    by (simp_all add: player_at_def)
  have own: "at_player p f ch\<lparr>m_ownerGUID := x\<rparr> = at_player p f (ch\<lparr>m_ownerGUID := x\<rparr>)" for p f x ch
    by (simp add: at_player_def player_at_def)
  have read: "player_at j (at_player k f ch) = (if j = k then f (player_at k ch) else player_at j ch)"
    if "map_ok (players ch)" for j k f ch using that by (simp add: player_at_def)
  show "map_ok (players (snd (SetOwner env g e ch)))"
    using assms by (simp add: SetOwner_def Let_def)
  show "map_find k (players (snd (SetOwner env g e ch))) =
      (if k = g \<and> g \<noteq> 0
       then Some (info_SetOwner True (info_SetModerator True
             (if g = m_ownerGUID ch \<and> IsOn g ch then info_SetOwner False (player_at g ch) else player_at g ch)))
       else if k = m_ownerGUID ch \<and> k \<noteq> 0 \<and> IsOn k ch then Some (info_SetOwner False (player_at k ch))
       else map_find k (players ch))"
    using assms by (auto simp: SetOwner_def Let_def own read upd)
qed

lemma chan_inv_SetOwner:
  assumes "chan_inv ch"
  shows "chan_inv (snd (SetOwner env g e ch))"
proof -
  have ok: "map_ok (players ch)" using assms by (simp add: chan_inv_def)
  have entry: "owner_entry g (k, i)" if find: "map_find k (players (snd (SetOwner env g e ch))) = Some i" for k i
  proof (cases "k = g \<and> g \<noteq> 0")
    case False
    have "\<not> IsOwner i"
    proof (cases "k = m_ownerGUID ch \<and> k \<noteq> 0 \<and> IsOn k ch")
      case True
      then show ?thesis using find False unfolding SetOwner_find(2) [OF ok] by auto
    next
      case other: False
      then have "map_find k (players ch) = Some i" using find False unfolding SetOwner_find(2) [OF ok] by (simp split: if_splits)
      then show ?thesis using other assms by (auto simp: chan_inv_iff owner_entry_def IsOn_def)
    qed
    then show ?thesis by (simp add: owner_entry_def)
  qed (use find in \<open>auto simp: SetOwner_find(2) [OF ok] owner_entry_def\<close>)
  then show ?thesis using assms SetOwner_find(1) [OF ok] by (simp add: chan_inv_iff SetOwner_fields)
qed

section \<open>Steps\<close>

text \<open>The commands of a player \<open>p\<close> that can change a channel.\<close>

inductive chan_step :: "chan_env \<Rightarrow> u64 \<Rightarrow> channel \<Rightarrow> channel \<Rightarrow> bool" for env p where
  join: "chan_step env p ch (snd (Join env p pass ch))"
| leave: "chan_step env p ch (snd (Leave env p send ch))"
| kick: "chan_step env p ch (snd (KickOrBan env p name ban ch))"
| unban: "chan_step env p ch (snd (UnBan env p name ch))"
| password: "chan_step env p ch (snd (Password env p pass ch))"
| mode: "chan_step env p ch (snd (SetMode env p name moderator on ch))"
| owner: "chan_step env p ch (snd (SetOwner_name env p name ch))"
| announce: "chan_step env p ch (snd (Announce env p ch))"

inductive chan_reach :: "chan_env \<Rightarrow> channel \<Rightarrow> bool" for env where
  created: "chan_reach env (snd (new_Channel env row name channel_id Team))"
| step: "chan_reach env ch \<Longrightarrow> chan_step env p ch ch' \<Longrightarrow> chan_reach env ch'"

lemma chan_inv_fields:
  assumes "players ch' = players ch" "map_ok (banned ch')" "m_ownerGUID ch' = m_ownerGUID ch" "chan_inv ch"
  shows "chan_inv ch'"
  using assms by (simp add: chan_inv_def)

lemma load_bans_ok: "map_ok (load_bans l)"
proof -
  have "map_ok (fold (\<lambda>token b. let banned_guid = word_of_int (atol token) in
             if banned_guid \<noteq> 0 then map_set banned_guid () b else b) ts b)"
    if "map_ok b" for ts and b :: "(u64, unit) std_map"
    using that by (induction ts arbitrary: b) (simp_all add: std_map.ok_store Let_def)
  moreover have "map_ok ([] :: (u64, unit) std_map)" by (simp add: map_ok_def)
  ultimately show ?thesis unfolding load_bans_def by blast
qed

lemma new_Channel_inv: "chan_inv (snd (new_Channel env row name channel_id Team))"
proof -
  have [simp]: "map_ok ([] :: (u64, 'v) std_map)" by (simp add: map_ok_def)
  show ?thesis
    by (auto simp: new_Channel_def Let_def chan_inv_def load_bans_ok split: option.split prod.split)
qed

lemma chan_inv_erase:
  assumes "chan_inv ch"
  shows "chan_inv (ch\<lparr>players := map_erase p (players ch)\<rparr>)"
  using assms by (auto simp: chan_inv_iff std_map.ok_erase std_map.find_erase split: if_splits)

lemma Join_inv: "chan_inv ch \<Longrightarrow> chan_inv (snd (Join env p pass ch))"
proof -
  assume inv: "chan_inv ch"
  then have new: "chan_inv (ch\<lparr>players := map_set p \<lparr>pi_player = p, pi_flags = 0\<rparr> (players ch)\<rparr>)"
    by (auto simp: chan_inv_iff std_map.ok_store std_map.find_store owner_entry_def)
  show ?thesis
    using inv new chan_inv_SetOwner [OF new]
    by (auto simp: Join_def Let_def split_beta intro!: chan_inv_moderator)
qed

lemma Leave_inv: "chan_inv ch \<Longrightarrow> chan_inv (snd (Leave env p send ch))"
  by (auto simp: Leave_def Let_def split_beta intro!: chan_inv_moderator chan_inv_SetOwner chan_inv_erase)

lemma KickOrBan_inv: "chan_inv ch \<Longrightarrow> chan_inv (snd (KickOrBan env p name ban ch))"
proof -
  assume inv: "chan_inv ch"
  then have "chan_inv (ch\<lparr>banned := map_set g () (banned ch)\<rparr>)" for g
    by (simp add: chan_inv_def std_map.ok_store)
  note erased = chan_inv_erase [OF this] chan_inv_erase [OF inv]
  show ?thesis
    using inv erased
    by (auto simp: KickOrBan_def Let_def split_beta split: option.split intro!: chan_inv_moderator chan_inv_SetOwner)
qed

lemma SetMode_inv: "chan_inv ch \<Longrightarrow> chan_inv (snd (SetMode env p name moderator on ch))"
proof -
  assume inv: "chan_inv ch"
  have same: "chan_inv (at_player g (\<lambda>i. i) ch)" for g
    using chan_inv_at_player [OF inv] player_at_entry [OF inv] by simp
  have muted: "chan_inv (at_player g (info_SetMuted b) ch)" if "chan_inv ch" for g b ch
    using chan_inv_at_player [OF that] player_at_entry [OF that] by (simp add: owner_entry_def)
  show ?thesis
    using inv same
    by (auto simp: SetMode_def SetModerator_def SetMute_def Let_def split_beta split: option.split
        intro!: chan_inv_moderator muted)
qed

lemma chan_step_inv:
  assumes "chan_step env p ch ch'" "chan_inv ch"
  shows "chan_inv ch'"
  using assms
proof cases
  case (unban name)
  then show ?thesis using assms(2)
    by (auto simp: UnBan_def Let_def chan_inv_def std_map.ok_erase split: option.split)
next
  case (password pass)
  then show ?thesis using assms(2) by (auto simp: Password_def Let_def chan_inv_def split: option.split)
next
  case (owner name)
  then show ?thesis using assms(2)
    by (auto simp: SetOwner_name_def Let_def split: option.split intro!: chan_inv_SetOwner chan_inv_moderator)
next
  case announce
  then show ?thesis using assms(2) by (auto simp: Announce_def Let_def chan_inv_def split: option.split)
qed (use assms(2) in \<open>auto simp: Join_inv Leave_inv KickOrBan_inv SetMode_inv\<close>)

lemma chan_reach_inv: "chan_reach env ch \<Longrightarrow> chan_inv ch"
  by (induction rule: chan_reach.induct) (auto simp: new_Channel_inv chan_step_inv)

text \<open>
  C5: whatever commands the players of a custom, built-in or reloaded channel give, in any order, at
  most one member carries the owner flag; it is the recorded owner of the channel, and it has
  moderator rights.
\<close>

theorem channel_single_owner:
  assumes "chan_reach env ch" "(k, i) \<in> set (players ch)" "IsOwner i"
  shows "k = m_ownerGUID ch \<and> IsModerator i \<and> (\<forall>l j. (l, j) \<in> set (players ch) \<and> IsOwner j \<longrightarrow> l = k \<and> j = i)"
proof -
  have inv: "chan_inv ch" using assms(1) by (rule chan_reach_inv)
  then have entry: "owner_entry (m_ownerGUID ch) (l, j)" if "(l, j) \<in> set (players ch)" for l j
    using that by (auto simp: chan_inv_def list_all_iff)
  have "l = k \<and> j = i" if "(l, j) \<in> set (players ch)" "IsOwner j" for l j
    using entry [OF assms(2)] entry [OF that(1)] assms(2,3) that inv std_map.ids_unique [of "players ch" k i j]
    by (simp add: owner_entry_def chan_inv_def)
  then show ?thesis using entry [OF assms(2)] assms(3) by (auto simp: owner_entry_def)
qed

definition admitted :: "chan_env \<Rightarrow> u64 \<Rightarrow> bytes \<Rightarrow> channel \<Rightarrow> bool" where
  "admitted env p pass ch \<longleftrightarrow> \<not> IsBanned p ch \<and> (m_password ch = [] \<or> pass = m_password ch) \<and> \<not> lfg_restricted env p ch"

lemma Join_state:
  "snd (Join env p pass ch) =
     (if IsOn p ch \<or> \<not> admitted env p pass ch then ch
      else
        let ch = ch\<lparr>players := map_set p \<lparr>pi_player = p, pi_flags = 0\<rparr> (players ch)\<rparr> in
        if \<not> IsConstant ch \<and> m_ownerGUID ch = 0 \<and> m_ownership ch
        then at_player p (info_SetModerator True) (snd (SetOwner env p (length (players ch) > 1) ch))
        else ch)"
  by (simp add: Join_def admitted_def Let_def split_beta)

lemma SetOwner_first:
  assumes "m_ownerGUID ch = 0" "g \<noteq> 0"
  shows "snd (SetOwner env g e ch) =
    at_player g (info_SetOwner True) (at_player g (info_SetModerator True) (ch\<lparr>m_ownerGUID := g\<rparr>))"
  using assms by (simp add: SetOwner_def Let_def)

text \<open>Two players online, the channel \<open>ab\<close>.\<close>

definition sample_player :: "u64 \<Rightarrow> player" where
  "sample_player g = \<lparr>pl_guid = g, pl_name = [65 + ucast g], pl_security = 0, pl_team = 0, pl_group = False,
     pl_social = True, pl_HasIgnore = (\<lambda>_. False), pl_isGMVisible = True, pl_InArena = False\<rparr>"

definition sample_chan_env :: chan_env where
  "sample_chan_env = \<lparr>ce_FindPlayer = (\<lambda>g. if g = 1 \<or> g = 2 then Some (sample_player g) else None),
     ce_FindPlayerByName = (\<lambda>n. if n = [66] then Some (sample_player 1) else
       if n = [67] then Some (sample_player 2) else None),
     ce_GetPlayerNameByGUID = (\<lambda>g. None), ce_IsVisibleGloballyFor = (\<lambda>_ _. True),
     ce_LookupEntry = (\<lambda>_. None), ce_RESTRICTED_LFG_CHANNEL = False, ce_SILENTLY_GM_JOIN_TO_CHANNEL = False,
     ce_ALLOW_TWO_SIDE_INTERACTION_CHANNEL = False, ce_PRESERVE_CUSTOM_CHANNELS = True,
     ce_GM_LEVEL_IN_WHO_LIST = 0\<rparr>"

definition sample_new :: channel where
  "sample_new = snd (new_Channel sample_chan_env None [97, 98] 0 0)"

definition sample_joined :: channel where
  "sample_joined = snd (Join sample_chan_env 2 [] (snd (Join sample_chan_env 1 [] sample_new)))"

lemma sample_new_simp:
  "sample_new = \<lparr>players = [], banned = [], m_announce = True, ch_special = False, m_ownership = True,
     m_name = [97, 98], m_password = [], m_flags = 1, m_channelId = 0, m_ownerGUID = 0, m_IsSaved = True,
     m_Team = 0\<rparr>"
  by (simp add: sample_new_def new_Channel_def sample_chan_env_def IsWorld_def world_name_def lower_byte_def str_bytes_def
      of_char_def)

lemma sample_one:
  "snd (Join sample_chan_env 1 [] (sample_new\<lparr>players := [], m_ownerGUID := 0\<rparr>)) =
     sample_new\<lparr>players := [(1, \<lparr>pi_player = 1, pi_flags = 3\<rparr>)], m_ownerGUID := 1\<rparr>"
  unfolding Join_state
  by (simp add: admitted_def IsBanned_def lfg_restricted_def sample_chan_env_def ch_HasFlag_def CHANNEL_FLAG_LFG_def
      IsOn_def map_find_def IsConstant_def SetOwner_first sample_new_simp
      at_player_def player_at_def info_defs)

lemma sample_joined_eq:
  "sample_joined = sample_new\<lparr>players := [(1, \<lparr>pi_player = 1, pi_flags = 3\<rparr>), (2, \<lparr>pi_player = 2, pi_flags = 0\<rparr>)],
     m_ownerGUID := 1\<rparr>"
proof -
  have "sample_new = sample_new\<lparr>players := [], m_ownerGUID := 0\<rparr>" by (simp add: sample_new_simp)
  then have "sample_joined = snd (Join sample_chan_env 2 []
      (sample_new\<lparr>players := [(1, \<lparr>pi_player = 1, pi_flags = 3\<rparr>)], m_ownerGUID := 1\<rparr>))"
    unfolding sample_joined_def using sample_one by simp
  then show ?thesis unfolding Join_state
    by (simp add: admitted_def IsBanned_def lfg_restricted_def sample_chan_env_def ch_HasFlag_def CHANNEL_FLAG_LFG_def
        IsOn_def map_find_def sample_new_simp)
qed

lemmas sample_joined_simp = sample_joined_eq [unfolded sample_new_simp channel.update_convs]

lemma sample_reach: "chan_reach sample_chan_env sample_joined"
  unfolding sample_joined_def sample_new_def 
  by (rule chan_reach.step [OF chan_reach.step [OF chan_reach.created chan_step.join] chan_step.join])

theorem channel_single_owner_witness:
  "1 = m_ownerGUID sample_joined \<and> IsModerator \<lparr>pi_player = 1, pi_flags = 3\<rparr>"
proof -
  have "(1, \<lparr>pi_player = 1, pi_flags = 3\<rparr>) \<in> set (players sample_joined)" by (simp add: sample_joined_simp)
  moreover have "IsOwner \<lparr>pi_player = 1, pi_flags = 3\<rparr>" by (simp add: info_defs)
  ultimately show ?thesis using channel_single_owner [OF sample_reach] by blast
qed

section \<open>Rights\<close>

text \<open>Who may command: a moderator of the channel, a moderator account, the recorded owner.\<close>

definition privileged :: "chan_env \<Rightarrow> u64 \<Rightarrow> channel \<Rightarrow> bool" where
  "privileged env p ch \<longleftrightarrow> IsModerator (player_at p ch) \<or> IsModeratorAccount (security env p) \<or> p = m_ownerGUID ch"

lemma refused_unprivileged: "\<not> privileged env p ch \<Longrightarrow> refused env p ch \<noteq> None"
  by (simp add: refused_def privileged_def)

text \<open>
  A player without rights cannot affect anybody else by any command: the membership and the flags
  of all other players, the ban list, the password and the announcement mode stay as they are, and
  the owner changes only when a channel without an owner gets this player as its first one.
\<close>

definition unaffected :: "u64 \<Rightarrow> channel \<Rightarrow> channel \<Rightarrow> bool" where
  "unaffected p ch ch' \<longleftrightarrow> (\<forall>q. q \<noteq> p \<longrightarrow> map_find q (players ch') = map_find q (players ch)) \<and> banned ch' = banned ch \<and>
     m_password ch' = m_password ch \<and> m_announce ch' = m_announce ch \<and>
     (m_ownerGUID ch' \<noteq> m_ownerGUID ch \<longrightarrow> m_ownerGUID ch = 0 \<and> m_ownerGUID ch' = p)"

lemma unprivileged_step:
  assumes inv: "chan_inv ch" and "chan_step env p ch ch'" "\<not> privileged env p ch"
  shows "unaffected p ch ch'"
proof -
  have ok: "map_ok (players ch)" using inv by (simp add: chan_inv_def)
  obtain data where data: "refused env p ch = Some data" using refused_unprivileged [OF assms(3)] by auto
  have not_owner: "\<not> IsOwner (player_at p ch)"
    using player_at_entry [OF inv, of p] assms(3) by (auto simp: owner_entry_def privileged_def)
  show ?thesis
    using assms(2)
  proof cases
    case (join pass)
    have okp: "map_ok (players (ch\<lparr>players := map_set p \<lparr>pi_player = p, pi_flags = 0\<rparr> (players ch)\<rparr>))"
      using ok by (simp add: std_map.ok_store)
    show ?thesis unfolding join
      using ok SetOwner_find [OF okp] SetOwner_fields
      by (auto simp: unaffected_def Join_def Let_def split_beta std_map.find_store)
  next
    case (leave send)
    then show ?thesis using ok not_owner
      by (auto simp: unaffected_def Leave_def Let_def std_map.find_erase)
  next
    case (owner name)
    then show ?thesis using assms(3)
      by (auto simp: unaffected_def SetOwner_name_def privileged_def security_def split: option.split)
  qed (use data in \<open>auto simp: unaffected_def KickOrBan_def UnBan_def Password_def SetMode_def Announce_def split: option.split\<close>)
qed

section \<open>Joining\<close>

lemma IsOn_SetOwner:
  assumes "map_ok (players ch)"
  shows "IsOn q (snd (SetOwner env g e ch)) \<longleftrightarrow> IsOn q ch \<or> q = g \<and> g \<noteq> 0"
  using SetOwner_find(2) [OF assms, of q env g e] by (auto simp: IsOn_def split: if_splits)

lemma IsOn_at_player: "map_ok (players ch) \<Longrightarrow> IsOn q (at_player p f ch) \<longleftrightarrow> IsOn q ch \<or> q = p"
  by (simp add: IsOn_def)

text \<open>
  C30: joining adds exactly the player who asks, and only one who is not banned, gives the password
  the channel asks for and is not kept out of the group search channel; somebody who is refused is
  told why, nobody else is told anything, and the channel stays as it was.
\<close>

theorem channel_join:
  assumes "chan_reach env ch" "\<not> IsOn p ch"
  shows "(\<forall>q. IsOn q (snd (Join env p pass ch)) \<longleftrightarrow> IsOn q ch \<or> q = p \<and> admitted env p pass ch) \<and>
     (\<not> admitted env p pass ch \<longrightarrow> snd (Join env p pass ch) = ch \<and>
       fst (Join env p pass ch) = SendToOne env
         (if IsBanned p ch then MakeBanned ch
          else if m_password ch \<noteq> [] \<and> pass \<noteq> m_password ch then MakeWrongPassword ch else MakeNotInLfg ch) p)"
proof -
  have ok: "map_ok (players ch)" using chan_reach_inv [OF assms(1)] by (simp add: chan_inv_def)
  let ?ch = "ch\<lparr>players := map_set p \<lparr>pi_player = p, pi_flags = 0\<rparr> (players ch)\<rparr>"
  have okp: "map_ok (players ?ch)" using ok by (simp add: std_map.ok_store)
  have on: "IsOn q ?ch \<longleftrightarrow> IsOn q ch \<or> q = p" for q using ok by (simp add: IsOn_def std_map.find_store)
  have "IsOn q (snd (Join env p pass ch)) \<longleftrightarrow> IsOn q ch \<or> q = p \<and> admitted env p pass ch" for q
    using assms(2) on SetOwner_find(1) [OF okp]
    by (auto simp: Join_def admitted_def Let_def split_beta IsOn_at_player IsOn_SetOwner [OF okp])
  moreover have "\<not> admitted env p pass ch \<Longrightarrow> snd (Join env p pass ch) = ch \<and>
       fst (Join env p pass ch) = SendToOne env
         (if IsBanned p ch then MakeBanned ch
          else if m_password ch \<noteq> [] \<and> pass \<noteq> m_password ch then MakeWrongPassword ch else MakeNotInLfg ch) p"
    using assms(2) by (auto simp: Join_def admitted_def)
  ultimately show ?thesis by blast
qed

theorem channel_join_witness: "IsOn 3 (snd (Join sample_chan_env 3 [] sample_joined))"
  using channel_join [OF sample_reach, of 3 "[]"]
  by (simp add: IsOn_def sample_joined_simp map_find_def admitted_def IsBanned_def lfg_restricted_def sample_chan_env_def)

section \<open>Kicking\<close>

text \<open>
  The owner who kicks or bans himself while others are on the channel is put back as its owner:
  his own list of channels no longer has the channel, he may be banned from it, and yet he stays a
  member and its owner, under an entry that has lost his guid.
\<close>

lemma owner_kicks_himself:
  assumes "chan_reach env ch" "IsOn p ch" "m_ownerGUID ch = p" "p \<noteq> 0" "IsModerator (player_at p ch)" "m_ownership ch"
    and "ce_FindPlayerByName env name = Some pl" "pl_guid pl = p" "q \<noteq> p" "IsOn q ch"
    and "KickOrBan env p name ban ch = (acts, ch')"
  shows "Player_LeftChannel p \<in> set acts \<and> (ban \<longrightarrow> IsBanned p ch') \<and>
     (\<exists>i. map_find p (players ch') = Some i \<and> IsOwner i \<and> pi_player i = 0)"
proof -
  have inv: "chan_inv ch" using assms(1) by (rule chan_reach_inv)
  let ?b = "if ban \<and> \<not> IsBanned p ch then ch\<lparr>banned := map_set p () (banned ch)\<rparr> else ch"
  let ?e = "?b\<lparr>players := map_erase p (players ?b)\<rparr>"
  let ?m = "at_player p (info_SetModerator True) ?e"
  have players: "players ?b = players ch" by simp
  have ok: "map_ok (players ?e)" "map_ok (players ?m)" using inv by (simp_all add: chan_inv_def std_map.ok_erase)
  have bans: "map_ok (banned ch)" using inv by (simp add: chan_inv_def)
  have "map_find q (players ?e) = map_find q (players ch)"
    using inv assms(9) by (simp add: players chan_inv_def std_map.find_erase)
  then have ne: "players ?e \<noteq> []" using assms(10) by (auto simp: IsOn_def map_find_def)
  have "refused env p ch = None" using assms(2,5) by (simp add: refused_def)
  then have ch': "ch' = snd (SetOwner env p True ?m)" and acts: "Player_LeftChannel p \<in> set acts"
    using assms ne by (auto simp: KickOrBan_def Let_def split_beta split: if_splits)
  have gone: "player_at p ?e = \<lparr>pi_player = 0, pi_flags = 0\<rparr>"
    using inv by (simp add: player_at_def players chan_inv_def std_map.find_erase)
  have "map_find p (players ch') = Some (info_SetOwner True (info_SetModerator True
          (if p = m_ownerGUID ?m \<and> IsOn p ?m then info_SetOwner False (player_at p ?m) else player_at p ?m)))"
    using SetOwner_find(2) [OF ok(2), of p env p True] assms(4) ch' by simp
  moreover have "player_at p ?m = info_SetModerator True \<lparr>pi_player = 0, pi_flags = 0\<rparr>"
    using ok(1) gone by (simp add: player_at_def)
  moreover have "IsBanned p ch'" if ban
    using that bans ch' by (auto simp: IsBanned_def SetOwner_fields std_map.find_store)
  ultimately show ?thesis using acts by (simp add: info_SetOwner_def info_SetModerator_def info_flags(1) IsOwner_def
        MEMBER_FLAG_OWNER_def flag_bit flag_bits bit_or_iff)
qed

section \<open>Inviting\<close>

text \<open>
  An invitation never reaches the player who is invited: whatever the state of the channel, all
  that \<open>Invite\<close> sends goes to the inviting player, because the test in front of the invitation asks
  for a player without a social list.
\<close>

lemma invite_not_delivered:
  assumes "Invite env p newname ch = Some acts" "SendPacket q data \<in> set acts"
  shows "q = p"
  using assms by (auto simp: Invite_def SendToOne_def split: if_splits option.splits)

section \<open>Bans in the database\<close>

lemma map_set_last:
  "\<forall>x \<in> set m. fst x < k \<Longrightarrow> map_set k v m = m @ [(k, v)]"
  by (induction m) auto

lemma load_bans_saved:
  assumes "map_ok (b @ bs)" "\<forall>x \<in> set bs. fst x \<noteq> 0 \<and> unat (fst x) < 2 ^ 63"
  shows "fold (\<lambda>token b. let banned_guid = word_of_int (atol token) in
      if banned_guid \<noteq> 0 then map_set banned_guid () b else b) (map (\<lambda>x. dec (unat (fst x))) bs) b =
    b @ (bs :: (u64, unit) std_map)"
  using assms
proof (induction bs arbitrary: b)
  case (Cons x bs)
  have "int (unat (fst x)) < 2 ^ 63" using Cons.prems(2) by (metis list.set_intros(1) of_nat_less_numeral_power_cancel_iff)
  then have guid: "word_of_int (atol (dec (unat (fst x)))) = fst x" by (simp add: atol_dec)
  have "\<forall>y \<in> set b. fst y < fst x" using Cons.prems(1) by (auto simp: map_ok_def sorted_wrt_append)
  then have "map_set (fst x) () b = b @ [x]" by (cases x) (simp add: map_set_last)
  then show ?case using Cons.IH [of "b @ [x]"] Cons.prems guid by (simp add: Let_def)
qed simp

lemma load_bans_ban_list:
  assumes "map_ok (banned ch)" "\<forall>x \<in> set (banned ch). fst x \<noteq> 0 \<and> unat (fst x) < 2 ^ 63"
  shows "load_bans (ban_list ch) = banned ch"
proof -
  have "Tokenizer (ban_list ch) 32 = map (\<lambda>x. dec (unat (fst x))) (banned ch)"
    using Tokenizer_join [of "map (\<lambda>x. dec (unat (fst x))) (banned ch)" 32] dec_token
    by (simp add: ban_list_def comp_def)
  then show ?thesis using load_bans_saved [of "[]" "banned ch"] assms by (simp add: load_bans_def)
qed

text \<open>
  C22: the row a custom channel writes when its bans, password or announcements change restores it
  after a restart: the channel created anew from the row has the same bans, password, announcement
  and ownership mode, as long as the banned guids are player guids (not zero, below \<open>2 ^ 63\<close>).
\<close>

theorem channel_row_restores:
  assumes "chan_reach env ch" "UpdateChannelInDB ch = [UpdRow name Team row]"
    and "list_all (\<lambda>x. fst x \<noteq> 0 \<and> unat (fst x) < 2 ^ 63) (banned ch)"
    and "ce_PRESERVE_CUSTOM_CHANNELS env" "ce_LookupEntry env channel_id = None" "\<not> world_name name"
    and "new_Channel env (Some row) name channel_id Team = (acts, ch')"
  shows "banned ch' = banned ch \<and> m_password ch' = m_password ch \<and> m_announce ch' = m_announce ch \<and>
     m_ownership ch' = m_ownership ch \<and> m_name ch' = m_name ch \<and> m_IsSaved ch' \<and> players ch' = []"
proof -
  have row: "row = (m_announce ch, m_ownership ch, m_password ch, Some (ban_list ch))" "name = m_name ch"
    using assms(2) by (auto simp: UpdateChannelInDB_def split: if_splits)
  have "load_bans (ban_list ch) = banned ch"
    using load_bans_ban_list chan_reach_inv [OF assms(1)] assms(3) by (simp add: chan_inv_def list_all_iff)
  then show ?thesis using assms(4-7) row by (auto simp: new_Channel_def Let_def IsWorld_def)
qed

definition sample_banned :: channel where
  "sample_banned = snd (KickOrBan sample_chan_env 1 [67] True sample_joined)"

lemma sample_banned_fields:
  "banned sample_banned = [(2, ())]" "m_IsSaved sample_banned" "m_announce sample_banned" "m_ownership sample_banned"
  "m_password sample_banned = []" "m_name sample_banned = [97, 98]" "m_Team sample_banned = 0"
  by (simp_all add: sample_banned_def KickOrBan_def Let_def refused_def sample_joined_simp IsOn_def map_find_def
      player_at_def info_defs sample_chan_env_def sample_player_def security_def IsModeratorAccount_def IsBanned_def)

theorem channel_row_restores_witness:
  "banned (snd (new_Channel sample_chan_env (Some (True, True, [], Some (ban_list sample_banned))) [97, 98] 0 0)) = [(2, ())]"
proof -
  let ?row = "(True, True, [], Some (ban_list sample_banned)) :: chan_row"
  have "chan_reach sample_chan_env sample_banned"
    unfolding sample_banned_def by (rule chan_reach.step [OF sample_reach chan_step.kick])
  moreover have "UpdateChannelInDB sample_banned = [UpdRow [97, 98] 0 ?row]"
    by (simp add: UpdateChannelInDB_def sample_banned_fields)
  moreover have "\<not> world_name [97, 98]"
    by (simp add: world_name_def lower_byte_def str_bytes_def of_char_def)
  ultimately show ?thesis
    using channel_row_restores [of sample_chan_env sample_banned "[97, 98]" 0 ?row 0]
    by (cases "new_Channel sample_chan_env (Some ?row) [97, 98] 0 0") (simp add: sample_banned_fields sample_chan_env_def)
qed

section \<open>The member list\<close>

text \<open>How the client reads \<open>SMSG_CHANNEL_LIST\<close>.\<close>

definition parse_list :: "byte_buffer \<Rightarrow> bb_error + ((bytes \<times> u8 \<times> (u64 \<times> u8) list) \<times> byte_buffer)" where
  "parse_list b =
     ebind (read_u8 b) (\<lambda>(_, b). ebind (read_string b) (\<lambda>(name, b). ebind (read_u8 b) (\<lambda>(flags, b).
     ebind (read_u32 b) (\<lambda>(n, b). ebind (get_n (get_pair read_u64 read_u8) (unat n) b) (\<lambda>(ms, b).
       Inr ((name, flags, ms), b))))))"

lemmas list_header = pair_codec [OF u8_codec.codec_axioms
  pair_codec [OF string_codec.codec_axioms u8_codec.codec_axioms]]

lemmas list_member = pair_codec [OF u64_codec.codec_axioms u8_codec.codec_axioms]

text \<open>
  The member list packet of a channel with fewer than 100000 members is built without an error
  and tells the client the channel's name and flags and exactly the members the asking player may
  see, with their flags, in guid order; the count that is put into the packet at the end is the
  number of entries, and nothing of the packet is left over.
\<close>

lemma channel_list_packet:
  assumes "length (players ch) < 100000" "length (m_name ch) < 1000" "0 \<notin> set (m_name ch)"
  shows "\<exists>w r. list_packet env pl ch = Inr w \<and>
     parse_list (received (storage w)) =
       Inr ((m_name ch, m_flags ch, map (\<lambda>i. (fst i, pi_flags (snd i))) (filter (listed env pl) (players ch))), r) \<and>
     rpos r = bb_size w"
proof -
  let ?shown = "filter (listed env pl) (players ch)"
  let ?vs = "map (\<lambda>i. (fst i, pi_flags (snd i))) ?shown"
  let ?n = "of_nat (length ?shown) :: u32"
  have len: "length ?shown < 100000" using assms(1) le_less_trans [OF length_filter_le] by blast
  have un: "unat ?n = length ?shown" using len by (simp add: unat_of_nat take_bit_nat_eq_self)
  have "1 + (length (m_name ch) + 1 + 1) + 4 + sum_list (map (\<lambda>_. 8 + 1 :: nat) ?vs) \<le> MAX_BUFFER"
    using len assms(2) by (simp add: comp_def sum_list_triv MAX_BUFFER_def)
  then obtain w r s where w:
    "ebind (put_pair append_u8 (put_pair append_string append_u8) (1, m_name ch, m_flags ch) empty_buffer)
       (\<lambda>b. ebind (append_u32 0 b) (\<lambda>c. ebind (efold (put_pair append_u64 append_u8) ?vs c)
         (put_bytes (wpos b) (le_bytes 4 (of_nat (length ?vs) :: u32))))) = Inr w"
    "get_pair (get_pair read_u8 (get_pair read_string read_u8)) read_u32 (received (storage w)) =
       Inr (((1, m_name ch, m_flags ch), of_nat (length ?vs)), r)"
    "get_n (get_pair read_u64 read_u8) (length ?vs) r = Inr (?vs, s)" "rpos s = bb_size w"
    using patched_round_trip [OF list_header _ list_member _ bytewise_pair [OF bytewise_words(3,1)],
        of "(1, m_name ch, m_flags ch)" ?vs] assms(3)
    by (auto simp: list_all_iff)
  have loop: "efold (\<lambda>i data. ebind (append_u64 (fst i) data) (append_u8 (pi_flags (snd i)))) ?shown =
      efold (put_pair append_u64 append_u8) ?vs"
    by (rule ext) (simp add: efold_map [symmetric] put_pair_def [abs_def])
  have "list_packet env pl ch = Inr w"
    using w(1) by (simp add: list_packet_def put_pair_def ebind_assoc loop Let_def)
  moreover have "parse_list (received (storage w)) = Inr ((m_name ch, m_flags ch, ?vs), s)"
    using w(2,3) un by (auto simp: parse_list_def get_pair_def)
  ultimately show ?thesis using w(4) by blast
qed

end
