(* ===== verification/ChannelHandler.thy ===== *)
theory ChannelHandler
  imports ChannelProps "HOL-Library.List_Lexorder"
begin

text \<open>
  The managers that hold the channels of the two factions
  (\<^verbatim>\<open>src/server/game/Chat/Channels/ChannelMgr.cpp\<close>) and the packet handlers that drive them
  (\<^verbatim>\<open>src/server/game/Handlers/ChannelHandler.cpp\<close>).

  A handler gets the packet as the client sent it, so its fields are read in the error monad: a
  packet that ends early raises the position exception, which the session catches; what the handler
  did before stays done.  The result is the exception or the actions, and the new state.
  Case folding of channel names, the check of chat links and the normalisation of player names are
  parameters, as are the clock and the answers of the database.
\<close>

section \<open>Managers\<close>

type_synonym wname = "u32 list"

record channel_mgr =
  cm_team :: u32
  cm_channels :: "(wname, channel) std_map"

record chan_world =
  alliance_mgr :: channel_mgr
  horde_mgr :: channel_mgr
  cmd_times :: "u64 \<Rightarrow> nat \<Rightarrow> int"

record handler_env =
  he_chan :: chan_env
  he_wname :: "bytes \<Rightarrow> wname"
  he_SelChannel :: "bytes \<Rightarrow> u32 \<Rightarrow> chan_row option"
  he_isValidChatMessage :: "bytes \<Rightarrow> bool"
  he_normalizePlayerName :: "bytes \<Rightarrow> bytes option"
  he_CanJoinConstantChannel :: "player \<Rightarrow> u32 \<Rightarrow> bool"
  he_now :: int

datatype side = Alliance_side | Horde_side

text \<open>\<open>channelMgr(team)\<close>: one manager for both when they may talk to each other.\<close>

definition channelMgr :: "handler_env \<Rightarrow> u32 \<Rightarrow> side option" where
  "channelMgr env team =
     (if ce_ALLOW_TWO_SIDE_INTERACTION_CHANNEL (he_chan env) then Some Alliance_side
      else if team = 469 then Some Alliance_side
      else if team = 67 then Some Horde_side
      else None)"

definition mgr_of :: "side \<Rightarrow> chan_world \<Rightarrow> channel_mgr" where
  "mgr_of s w = (case s of Alliance_side \<Rightarrow> alliance_mgr w | Horde_side \<Rightarrow> horde_mgr w)"

definition set_mgr :: "side \<Rightarrow> channel_mgr \<Rightarrow> chan_world \<Rightarrow> chan_world" where
  "set_mgr s m w = (case s of Alliance_side \<Rightarrow> w\<lparr>alliance_mgr := m\<rparr> | Horde_side \<Rightarrow> w\<lparr>horde_mgr := m\<rparr>)"

definition put_channel :: "wname \<Rightarrow> channel \<Rightarrow> channel_mgr \<Rightarrow> channel_mgr" where
  "put_channel n ch m = m\<lparr>cm_channels := map_set n ch (cm_channels m)\<rparr>"

definition GetJoinChannel ::
  "handler_env \<Rightarrow> bytes \<Rightarrow> u32 \<Rightarrow> channel_mgr \<Rightarrow> chan_action list \<times> channel \<times> channel_mgr" where
  "GetJoinChannel env name channel_id m =
     (case map_find (he_wname env name) (cm_channels m) of
        None \<Rightarrow>
          (case new_Channel (he_chan env) (he_SelChannel env name (cm_team m)) name channel_id (cm_team m) of
             (acts, nchan) \<Rightarrow> (acts, nchan, put_channel (he_wname env name) nchan m))
      | Some ch \<Rightarrow> ([], ch, m))"

definition MakeNotOnPacket :: "bytes \<Rightarrow> packet" where
  "MakeNotOnPacket name = ebind (append_u8 0x05 empty_buffer) (append_string name)"

definition GetChannel ::
  "handler_env \<Rightarrow> bytes \<Rightarrow> player \<Rightarrow> channel_mgr \<Rightarrow> chan_action list \<times> channel option" where
  "GetChannel env name p m =
     (case map_find (he_wname env name) (cm_channels m) of
        None \<Rightarrow> ([SendPacket (pl_guid p) (MakeNotOnPacket name)], None)
      | Some ch \<Rightarrow> ([], Some ch))"

definition mgr_LeftChannel :: "handler_env \<Rightarrow> bytes \<Rightarrow> channel_mgr \<Rightarrow> channel_mgr" where
  "mgr_LeftChannel env name m =
     (case map_find (he_wname env name) (cm_channels m) of
        None \<Rightarrow> m
      | Some ch \<Rightarrow>
          if length (players ch) = 0 \<and> \<not> IsConstant ch
          then m\<lparr>cm_channels := map_erase (he_wname env name) (cm_channels m)\<rparr> else m)"

section \<open>Handlers\<close>

type_synonym handler_result = "(bb_error + chan_action list) \<times> chan_world"

definition c_str :: "bytes \<Rightarrow> bytes" where
  "c_str s = takeWhile (\<lambda>c. c \<noteq> 0) s"

text \<open>The fields are read, then the handler goes on.\<close>

definition parsed ::
  "(bb_error + ('a \<times> byte_buffer)) \<Rightarrow> ('a \<Rightarrow> chan_world \<Rightarrow> handler_result) \<Rightarrow> chan_world \<Rightarrow> handler_result" where
  "parsed p k w = (case p of Inl e \<Rightarrow> (Inl e, w) | Inr (v, _) \<Rightarrow> k v w)"

text \<open>
  \<open>if (Channel* chn = cMgr->GetChannel(name, _player)) chn->op(...)\<close>: the operation acts on the
  channel in place.
\<close>

definition with_channel ::
  "handler_env \<Rightarrow> player \<Rightarrow> bytes \<Rightarrow> (channel \<Rightarrow> chan_result) \<Rightarrow> chan_world \<Rightarrow> handler_result" where
  "with_channel env pl name f w =
     (case channelMgr env (pl_team pl) of
        None \<Rightarrow> (Inr [], w)
      | Some s \<Rightarrow>
          (case GetChannel env name pl (mgr_of s w) of
             (acts, None) \<Rightarrow> (Inr acts, w)
           | (acts, Some ch) \<Rightarrow>
               (case f ch of
                  (acts', ch') \<Rightarrow>
                    (Inr (acts @ acts'), set_mgr s (put_channel (he_wname env name) ch' (mgr_of s w)) w))))"

text \<open>
  \<open>if (l_Now - timeLast < 5) return; else timeLast = l_Now;\<close> with a time per session and command.
\<close>

definition set_time :: "handler_env \<Rightarrow> player \<Rightarrow> nat \<Rightarrow> chan_world \<Rightarrow> chan_world" where
  "set_time env pl cmd w =
     w\<lparr>cmd_times := (cmd_times w)(pl_guid pl := (cmd_times w (pl_guid pl))(cmd := he_now env))\<rparr>"

definition every_5s ::
  "handler_env \<Rightarrow> player \<Rightarrow> nat \<Rightarrow> (chan_world \<Rightarrow> handler_result) \<Rightarrow> chan_world \<Rightarrow> handler_result" where
  "every_5s env pl cmd k w =
     (if he_now env - cmd_times w (pl_guid pl) cmd < 5 then (Inr [], w) else k (set_time env pl cmd w))"

definition join_channel :: "handler_env \<Rightarrow> player \<Rightarrow> u32 \<Rightarrow> bytes \<Rightarrow> bytes \<Rightarrow> side \<Rightarrow> chan_world \<Rightarrow> handler_result" where
  "join_channel env pl channelId pass channelName s w =
     (let m = (mgr_of s w)\<lparr>cm_team := pl_team pl\<rparr>;
          (acts, chn, m) = GetJoinChannel env channelName channelId m;
          (acts', chn) = Join (he_chan env) (pl_guid pl) (c_str pass) chn
      in (Inr (acts @ acts'), set_mgr s (put_channel (he_wname env channelName) chn m) w))"

definition HandleJoinChannel :: "handler_env \<Rightarrow> player \<Rightarrow> byte_buffer \<Rightarrow> chan_world \<Rightarrow> handler_result" where
  "HandleJoinChannel env pl recvPacket =
     parsed
       (ebind (read_u32 recvPacket) (\<lambda>(channelId, b).
        ebind (ReadBits 7 b) (\<lambda>(passLength, b). ebind (ReadBit b) (\<lambda>(_, b).
        ebind (ReadBits 7 b) (\<lambda>(channelLength, b). ebind (ReadBit b) (\<lambda>(_, b).
        ebind (ReadString (unat passLength) b) (\<lambda>(pass, b).
        ebind (ReadString (unat channelLength) b) (\<lambda>(channelName, b).
          Inr ((channelId, pass, channelName), b)))))))))
       (\<lambda>(channelId, pass, channelName) w.
          if channelId \<noteq> 0 \<and>
             (ce_LookupEntry (he_chan env) channelId = None \<or> \<not> he_CanJoinConstantChannel env pl channelId)
          then (Inr [], w)
          else if channelName = [] \<or> \<not> he_isValidChatMessage env (c_str channelName) then (Inr [], w)
          else
            case channelMgr env (pl_team pl) of
              None \<Rightarrow> (Inr [], w)
            | Some s \<Rightarrow> join_channel env pl channelId pass channelName s w)"

definition leave_channel :: "handler_env \<Rightarrow> player \<Rightarrow> bytes \<Rightarrow> side \<Rightarrow> chan_world \<Rightarrow> handler_result" where
  "leave_channel env pl channelname s w =
     (let (res, w) = with_channel env pl channelname (Leave (he_chan env) (pl_guid pl) True) w
      in (res, set_mgr s (mgr_LeftChannel env channelname (mgr_of s w)) w))"

definition HandleLeaveChannel :: "handler_env \<Rightarrow> player \<Rightarrow> byte_buffer \<Rightarrow> chan_world \<Rightarrow> handler_result" where
  "HandleLeaveChannel env pl recvPacket =
     parsed
       (ebind (read_u32 recvPacket) (\<lambda>(_, b). ebind (ReadBits 7 b) (\<lambda>(n, b). ReadString (unat n) b)))
       (\<lambda>channelname w.
          if channelname = [] then (Inr [], w)
          else
            case channelMgr env (pl_team pl) of
              None \<Rightarrow> (Inr [], w)
            | Some s \<Rightarrow> leave_channel env pl channelname s w)"

definition HandleChannelList :: "handler_env \<Rightarrow> player \<Rightarrow> byte_buffer \<Rightarrow> chan_world \<Rightarrow> handler_result" where
  "HandleChannelList env pl recvPacket =
     parsed (ebind (ReadBits 7 recvPacket) (\<lambda>(n, b). ReadString (unat n) b))
       (\<lambda>channelname w.
          if \<not> he_isValidChatMessage env (c_str channelname) then (Inr [], w)
          else with_channel env pl channelname (ch_List (he_chan env) pl) w)"

definition HandleChannelPassword :: "handler_env \<Rightarrow> player \<Rightarrow> byte_buffer \<Rightarrow> chan_world \<Rightarrow> handler_result" where
  "HandleChannelPassword env pl p_RecvData =
     every_5s env pl 0 (parsed
       (ebind (ReadBits 7 p_RecvData) (\<lambda>(passLen, b). ebind (ReadBits 7 b) (\<lambda>(nameLen, b).
        ebind (ReadString (unat passLen) b) (\<lambda>(pass, b). ebind (ReadString (unat nameLen) b) (\<lambda>(name, b).
          Inr ((pass, name), b))))))
       (\<lambda>(pass, name). with_channel env pl name (Password (he_chan env) (pl_guid pl) (c_str pass))))"

text \<open>
  The commands about another player.  The packets differ in the order of the two lengths and of the
  two strings; the name's length is sent as eight bits and a last one.
\<close>

definition read_name_length :: "byte_buffer \<Rightarrow> bb_error + (nat \<times> byte_buffer)" where
  "read_name_length b =
     ebind (ReadBits 8 b) (\<lambda>(n, b). ebind (ReadBit b) (\<lambda>(last, b). Inr (unat n * 2 + of_bool last, b)))"

definition read_channel_length :: "byte_buffer \<Rightarrow> bb_error + (nat \<times> byte_buffer)" where
  "read_channel_length b = ebind (ReadBits 7 b) (\<lambda>(n, b). Inr (unat n, b))"

definition read_strings ::
  "bool \<Rightarrow> bool \<Rightarrow> byte_buffer \<Rightarrow> bb_error + ((bytes \<times> bytes) \<times> byte_buffer)" where
  "read_strings chan_length_first name_first b =
     ebind (if chan_length_first
            then ebind (read_channel_length b) (\<lambda>(c, b). ebind (read_name_length b) (\<lambda>(n, b). Inr ((c, n), b)))
            else ebind (read_name_length b) (\<lambda>(n, b). ebind (read_channel_length b) (\<lambda>(c, b). Inr ((c, n), b))))
       (\<lambda>((c, n), b).
          if name_first
          then ebind (ReadString n b) (\<lambda>(name, b). ebind (ReadString c b) (\<lambda>(chann, b). Inr ((chann, name), b)))
          else ebind (ReadString c b) (\<lambda>(chann, b). ebind (ReadString n b) (\<lambda>(name, b). Inr ((chann, name), b))))"

definition player_command ::
  "handler_env \<Rightarrow> player \<Rightarrow> nat \<Rightarrow> bool \<Rightarrow> bool \<Rightarrow> (bytes \<Rightarrow> channel \<Rightarrow> chan_result) \<Rightarrow> byte_buffer \<Rightarrow> chan_world
   \<Rightarrow> handler_result" where
  "player_command env pl cmd chan_length_first name_first f p_RecvData =
     every_5s env pl cmd (parsed (read_strings chan_length_first name_first p_RecvData)
       (\<lambda>(channName, plrName) w.
          case he_normalizePlayerName env plrName of
            None \<Rightarrow> (Inr [], w)
          | Some plrName \<Rightarrow> with_channel env pl channName (f (c_str plrName)) w))"

definition HandleChannelSetOwner :: "handler_env \<Rightarrow> player \<Rightarrow> byte_buffer \<Rightarrow> chan_world \<Rightarrow> handler_result" where
  "HandleChannelSetOwner env pl = player_command env pl 1 True True (SetOwner_name (he_chan env) (pl_guid pl))"

definition HandleChannelModerator :: "handler_env \<Rightarrow> player \<Rightarrow> byte_buffer \<Rightarrow> chan_world \<Rightarrow> handler_result" where
  "HandleChannelModerator env pl =
     player_command env pl 3 True False (\<lambda>name. SetMode (he_chan env) (pl_guid pl) name True True)"

definition HandleChannelUnmoderator :: "handler_env \<Rightarrow> player \<Rightarrow> byte_buffer \<Rightarrow> chan_world \<Rightarrow> handler_result" where
  "HandleChannelUnmoderator env pl =
     player_command env pl 4 True True (\<lambda>name. SetMode (he_chan env) (pl_guid pl) name True False)"

definition HandleChannelMute :: "handler_env \<Rightarrow> player \<Rightarrow> byte_buffer \<Rightarrow> chan_world \<Rightarrow> handler_result" where
  "HandleChannelMute env pl =
     player_command env pl 5 False True (\<lambda>name. SetMode (he_chan env) (pl_guid pl) name False True)"

definition HandleChannelUnmute :: "handler_env \<Rightarrow> player \<Rightarrow> byte_buffer \<Rightarrow> chan_world \<Rightarrow> handler_result" where
  "HandleChannelUnmute env pl =
     player_command env pl 6 False True (\<lambda>name. SetMode (he_chan env) (pl_guid pl) name False False)"

definition HandleChannelKick :: "handler_env \<Rightarrow> player \<Rightarrow> byte_buffer \<Rightarrow> chan_world \<Rightarrow> handler_result" where
  "HandleChannelKick env pl =
     player_command env pl 8 True True (\<lambda>name. KickOrBan (he_chan env) (pl_guid pl) name False)"

definition HandleChannelBan :: "handler_env \<Rightarrow> player \<Rightarrow> byte_buffer \<Rightarrow> chan_world \<Rightarrow> handler_result" where
  "HandleChannelBan env pl =
     player_command env pl 9 False True (\<lambda>name. KickOrBan (he_chan env) (pl_guid pl) name True)"

definition HandleChannelUnban :: "handler_env \<Rightarrow> player \<Rightarrow> byte_buffer \<Rightarrow> chan_world \<Rightarrow> handler_result" where
  "HandleChannelUnban env pl = player_command env pl 10 False True (UnBan (he_chan env) (pl_guid pl))"

definition HandleChannelOwner :: "handler_env \<Rightarrow> player \<Rightarrow> byte_buffer \<Rightarrow> chan_world \<Rightarrow> handler_result" where
  "HandleChannelOwner env pl p_RecvData =
     every_5s env pl 2 (parsed (ebind (ReadBits 7 p_RecvData) (\<lambda>(n, b). ReadString (unat n) b))
       (\<lambda>name. with_channel env pl name (SendWhoOwner (he_chan env) (pl_guid pl))))"

definition HandleChannelAnnouncements :: "handler_env \<Rightarrow> player \<Rightarrow> byte_buffer \<Rightarrow> chan_world \<Rightarrow> handler_result" where
  "HandleChannelAnnouncements env pl p_RecvData =
     every_5s env pl 11 (parsed (ebind (ReadBits 7 p_RecvData) (\<lambda>(n, b). ReadString (unat n) b))
       (\<lambda>name. with_channel env pl name (Announce (he_chan env) (pl_guid pl))))"

text \<open>A call on a null social list is a crash; the handler then has no result in the model either.\<close>

definition HandleChannelInvite ::
  "handler_env \<Rightarrow> player \<Rightarrow> byte_buffer \<Rightarrow> chan_world \<Rightarrow> handler_result option" where
  "HandleChannelInvite env pl p_RecvData w =
     (if he_now env - cmd_times w (pl_guid pl) 7 < 5 then Some (Inr [], w)
      else
        let w = set_time env pl 7 w in
        case read_strings False False p_RecvData of
          Inl e \<Rightarrow> Some (Inl e, w)
        | Inr ((channName, plrName), _) \<Rightarrow>
            (case he_normalizePlayerName env plrName of
               None \<Rightarrow> Some (Inr [], w)
             | Some plrName \<Rightarrow>
                 if \<not> he_isValidChatMessage env (c_str channName) then Some (Inr [], w)
                 else
                   case channelMgr env (pl_team pl) of
                     None \<Rightarrow> Some (Inr [], w)
                   | Some s \<Rightarrow>
                       (case GetChannel env channName pl (mgr_of s w) of
                          (acts, None) \<Rightarrow> Some (Inr acts, w)
                        | (acts, Some ch) \<Rightarrow>
                            map_option (\<lambda>acts'. (Inr (acts @ acts'), w))
                              (Invite (he_chan env) (pl_guid pl) (c_str plrName) ch))))"

definition HandleGetChannelMemberCount :: "handler_env \<Rightarrow> player \<Rightarrow> byte_buffer \<Rightarrow> chan_world \<Rightarrow> handler_result" where
  "HandleGetChannelMemberCount env pl recvPacket =
     parsed (read_string recvPacket)
       (\<lambda>channelname. with_channel env pl channelname (\<lambda>chn.
          ([SendPacket (pl_guid pl)
             (ebind (append_string (m_name chn) empty_buffer) (\<lambda>data. ebind (append_u8 (m_flags chn) data)
               (append_u32 (of_nat (length (players chn))))))], chn)))"

section \<open>What a packet can do\<close>

text \<open>The channel of a manager, if there is one; managers in which the lookups work.\<close>

definition chan_of :: "side \<Rightarrow> wname \<Rightarrow> chan_world \<Rightarrow> channel option" where
  "chan_of s n w = map_find n (cm_channels (mgr_of s w))"

definition world_ok :: "chan_world \<Rightarrow> bool" where
  "world_ok w \<longleftrightarrow> (\<forall>s. map_ok (cm_channels (mgr_of s w)))"

lemma mgr_of_set_mgr [simp]: "mgr_of s (set_mgr t m w) = (if s = t then m else mgr_of s w)"
  by (cases s; cases t) (simp_all add: mgr_of_def set_mgr_def)

lemma mgr_of_set_time [simp]: "mgr_of s (set_time env pl cmd w) = mgr_of s w"
  by (cases s) (simp_all add: mgr_of_def set_time_def)

lemma chan_of_put:
  assumes "world_ok w" "cm_channels m = cm_channels (mgr_of t w)"
  shows "chan_of s n (set_mgr t (put_channel k ch m) w) = (if s = t \<and> n = k then Some ch else chan_of s n w)"
    and "world_ok (set_mgr t (put_channel k ch m) w)"
  using assms by (auto simp: chan_of_def put_channel_def world_ok_def std_map.find_store std_map.ok_store)

text \<open>
  How one packet of a player changes one channel: not at all, or by one of the commands; a new
  channel has just been created and joined; a channel that is gone was empty and not a built-in one.
\<close>

definition step_or_same :: "chan_env \<Rightarrow> u64 \<Rightarrow> channel \<Rightarrow> channel \<Rightarrow> bool" where
  "step_or_same env p ch ch' \<longleftrightarrow> ch' = ch \<or> chan_step env p ch ch'"

definition packet_effect :: "chan_env \<Rightarrow> u64 \<Rightarrow> channel option \<Rightarrow> channel option \<Rightarrow> bool" where
  "packet_effect env p old new \<longleftrightarrow>
     (case (old, new) of
        (None, None) \<Rightarrow> True
      | (None, Some ch') \<Rightarrow> \<exists>row name cid Team pass. ch' = snd (Join env p pass (snd (new_Channel env row name cid Team)))
      | (Some ch, Some ch') \<Rightarrow> step_or_same env p ch ch'
      | (Some ch, None) \<Rightarrow> \<exists>ch'. step_or_same env p ch ch' \<and> players ch' = [] \<and> \<not> IsConstant ch')"

lemma step_or_same_refl [simp]: "step_or_same env p ch ch"
  by (simp add: step_or_same_def)

lemma packet_effect_refl [simp]: "packet_effect env p x x"
  by (cases x) (simp_all add: packet_effect_def step_or_same_def)

definition world_effect :: "chan_env \<Rightarrow> u64 \<Rightarrow> chan_world \<Rightarrow> chan_world \<Rightarrow> bool" where
  "world_effect env p w w' \<longleftrightarrow> world_ok w' \<and> (\<forall>s n. packet_effect env p (chan_of s n w) (chan_of s n w'))"

lemma world_effect_refl: "world_ok w \<Longrightarrow> world_effect env p w w"
  by (simp add: world_effect_def)

lemma with_channel_find:
  assumes "world_ok w" "channelMgr env (pl_team pl) = Some t"
  shows "chan_of s n (snd (with_channel env pl name f w)) =
      (if s = t \<and> n = he_wname env name then map_option (\<lambda>ch. snd (f ch)) (chan_of s n w) else chan_of s n w)"
    and "world_ok (snd (with_channel env pl name f w))"
proof -
  have "snd (with_channel env pl name f w) =
      (case chan_of t (he_wname env name) w of
         None \<Rightarrow> w
       | Some ch \<Rightarrow> set_mgr t (put_channel (he_wname env name) (snd (f ch)) (mgr_of t w)) w)"
    using assms(2) by (simp add: with_channel_def GetChannel_def chan_of_def split_beta split: option.split)
  then show "chan_of s n (snd (with_channel env pl name f w)) =
      (if s = t \<and> n = he_wname env name then map_option (\<lambda>ch. snd (f ch)) (chan_of s n w) else chan_of s n w)"
    and "world_ok (snd (with_channel env pl name f w))"
    using chan_of_put [OF assms(1) refl] assms(1) by (simp_all split: option.split)
qed

lemma with_channel_effect:
  assumes "world_ok w" "\<And>ch. step_or_same (he_chan env) p ch (snd (f ch))"
  shows "world_effect (he_chan env) p w (snd (with_channel env pl name f w))"
proof (cases "channelMgr env (pl_team pl)")
  case None
  then show ?thesis using assms(1) by (simp add: with_channel_def world_effect_refl)
next
  case (Some t)
  note find = with_channel_find [OF assms(1) Some, where f = f and name = name]
  show ?thesis unfolding world_effect_def
    using find assms(2) by (auto simp: packet_effect_def split: option.split)
qed

lemma parsed_effect:
  assumes "world_ok w" "\<And>v. world_effect env p w (snd (k v w))"
  shows "world_effect env p w (snd (parsed q k w))"
  using assms by (auto simp: parsed_def world_effect_refl split: sum.split prod.split)

lemma every_5s_effect:
  assumes "world_ok w" "world_ok (set_time env pl cmd w) \<Longrightarrow>
    world_effect e p (set_time env pl cmd w) (snd (k (set_time env pl cmd w)))"
  shows "world_effect e p w (snd (every_5s env pl cmd k w))"
proof -
  have "world_ok (set_time env pl cmd w)" using assms(1) by (simp add: world_ok_def)
  then show ?thesis using assms by (auto simp: every_5s_def world_effect_refl world_effect_def chan_of_def)
qed

lemma player_command_effect:
  assumes "world_ok w" "\<And>name ch. step_or_same (he_chan env) p ch (snd (f name ch))"
  shows "world_effect (he_chan env) p w (snd (player_command env pl cmd a b f packet w))"
  unfolding player_command_def
  by (intro every_5s_effect assms(1) parsed_effect)
    (auto simp: world_effect_refl intro!: with_channel_effect assms(2) split: prod.split option.split)

lemma join_channel_state:
  obtains ch where
    "snd (join_channel env pl cid pass name t w) = set_mgr t (put_channel (he_wname env name)
       (snd (Join (he_chan env) (pl_guid pl) (c_str pass) ch)) ((mgr_of t w)\<lparr>cm_team := pl_team pl\<rparr>)) w"
    and "chan_of t (he_wname env name) w = Some ch \<or>
      chan_of t (he_wname env name) w = None \<and> (\<exists>row Team. ch = snd (new_Channel (he_chan env) row name cid Team))"
proof (cases "chan_of t (he_wname env name) w")
  case None
  let ?new = "snd (new_Channel (he_chan env) (he_SelChannel env name (pl_team pl)) name cid (pl_team pl))"
  have twice: "put_channel k c (put_channel k d m) = put_channel k c m" for k c d m
    by (simp add: put_channel_def map_set_overwrite)
  show ?thesis using that [of ?new] None
    by (auto simp: join_channel_def GetJoinChannel_def chan_of_def Let_def split_beta twice)
next
  case (Some c)
  then show ?thesis using that [of c]
    by (simp add: join_channel_def GetJoinChannel_def chan_of_def Let_def split_beta)
qed

lemma join_channel_effect:
  assumes "world_ok w"
  shows "world_effect (he_chan env) (pl_guid pl) w (snd (join_channel env pl cid pass name t w))"
proof -
  let ?k = "he_wname env name" and ?m = "(mgr_of t w)\<lparr>cm_team := pl_team pl\<rparr>"
  let ?join = "\<lambda>ch. snd (Join (he_chan env) (pl_guid pl) (c_str pass) ch)"
  obtain ch where ch: "snd (join_channel env pl cid pass name t w) = set_mgr t (put_channel ?k (?join ch) ?m) w"
    and old: "chan_of t ?k w = Some ch \<or>
      chan_of t ?k w = None \<and> (\<exists>row Team. ch = snd (new_Channel (he_chan env) row name cid Team))"
    by (rule join_channel_state)
  have "chan_step (he_chan env) (pl_guid pl) c (?join c)" for c by (rule chan_step.join)
  then have "packet_effect (he_chan env) (pl_guid pl) (chan_of t ?k w) (Some (?join ch))"
    using old by (auto simp: packet_effect_def step_or_same_def; blast)
  then show ?thesis unfolding world_effect_def ch using chan_of_put [OF assms, of ?m t] by simp
qed

lemma leave_channel_effect:
  assumes "world_ok w" "channelMgr env (pl_team pl) = Some t"
  shows "world_effect (he_chan env) (pl_guid pl) w (snd (leave_channel env pl name t w))"
proof -
  let ?k = "he_wname env name" and ?leave = "Leave (he_chan env) (pl_guid pl) True"
  define w' where "w' = snd (with_channel env pl name ?leave w)"
  have eff: "world_effect (he_chan env) (pl_guid pl) w w'"
    unfolding w'_def by (rule with_channel_effect [OF assms(1)]) (simp add: step_or_same_def chan_step.leave)
  have ok: "world_ok w'" using eff by (simp add: world_effect_def)
  let ?w = "set_mgr t (mgr_LeftChannel env name (mgr_of t w')) w'"
  let ?empty = "\<exists>ch. chan_of t ?k w' = Some ch \<and> players ch = [] \<and> \<not> IsConstant ch"
  have gone: "chan_of s n ?w = (if s = t \<and> n = ?k \<and> ?empty then None else chan_of s n w')" for s n
    using ok by (auto simp: chan_of_def mgr_LeftChannel_def world_ok_def std_map.find_erase split: option.split)
  have ok': "world_ok ?w"
    using ok by (auto simp: world_ok_def mgr_LeftChannel_def std_map.ok_erase split: option.split)
  have "packet_effect (he_chan env) (pl_guid pl) (chan_of s n w) (chan_of s n ?w)" for s n
  proof (cases "s = t \<and> n = ?k \<and> ?empty")
    case True
    then obtain ch where ch: "chan_of t ?k w' = Some ch" "players ch = []" "\<not> IsConstant ch" by blast
    have "chan_of t ?k w' = map_option (\<lambda>ch. snd (?leave ch)) (chan_of t ?k w)"
      unfolding w'_def using with_channel_find(1) [OF assms, of t ?k] by simp
    then obtain c where c: "chan_of t ?k w = Some c" "ch = snd (?leave c)"
      using ch(1) by (cases "chan_of t ?k w") simp_all
    have "step_or_same (he_chan env) (pl_guid pl) c ch" using c(2) by (simp add: step_or_same_def chan_step.leave)
    then have "\<exists>ch'. step_or_same (he_chan env) (pl_guid pl) c ch' \<and> players ch' = [] \<and> \<not> IsConstant ch'"
      using ch(2,3) by blast
    then show ?thesis using True c(1) gone by (simp add: packet_effect_def)
  next
    case False
    then have "chan_of s n ?w = chan_of s n w'" unfolding gone by (rule if_not_P)
    then show ?thesis using eff by (simp add: world_effect_def)
  qed
  then have "world_effect (he_chan env) (pl_guid pl) w ?w" using ok' by (simp add: world_effect_def)
  then show ?thesis by (simp add: leave_channel_def w'_def split_beta)
qed

lemma Join_effect:
  assumes "world_ok w"
  shows "world_effect (he_chan env) (pl_guid pl) w (snd (HandleJoinChannel env pl packet w))"
  unfolding HandleJoinChannel_def
  by (rule parsed_effect [OF assms])
    (auto simp: world_effect_refl assms intro!: join_channel_effect split: option.split prod.split)

lemma Leave_effect:
  assumes "world_ok w"
  shows "world_effect (he_chan env) (pl_guid pl) w (snd (HandleLeaveChannel env pl packet w))"
  unfolding HandleLeaveChannel_def
  by (rule parsed_effect [OF assms])
    (auto simp: world_effect_refl assms intro!: leave_channel_effect split: option.split)

text \<open>The handlers that can change a channel, and the others.\<close>

definition channel_handlers :: "(handler_env \<Rightarrow> player \<Rightarrow> byte_buffer \<Rightarrow> chan_world \<Rightarrow> handler_result) list" where
  "channel_handlers =
     [HandleJoinChannel, HandleLeaveChannel, HandleChannelList, HandleChannelPassword, HandleChannelSetOwner,
      HandleChannelOwner, HandleChannelModerator, HandleChannelUnmoderator, HandleChannelMute, HandleChannelUnmute,
      HandleChannelKick, HandleChannelBan, HandleChannelUnban, HandleChannelAnnouncements,
      HandleGetChannelMemberCount]"

lemma steps:
  "step_or_same env p ch (snd (KickOrBan env p name ban ch))" "step_or_same env p ch (snd (UnBan env p name ch))"
  "step_or_same env p ch (snd (Password env p pass ch))" "step_or_same env p ch (snd (SetMode env p name m b ch))"
  "step_or_same env p ch (snd (SetOwner_name env p name ch))" "step_or_same env p ch (snd (Announce env p ch))"
  "step_or_same env p ch (snd (SendWhoOwner env p ch))" "step_or_same env p ch (snd (ch_List env pl ch))"
  by (simp_all add: step_or_same_def chan_step.intros SendWhoOwner_def ch_List_def)

lemma handler_effect:
  assumes "world_ok w" "h \<in> set channel_handlers"
  shows "world_effect (he_chan env) (pl_guid pl) w (snd (h env pl packet w))"
proof -
  note cmd = player_command_effect [OF assms(1)]
  have "world_effect (he_chan env) (pl_guid pl) w (snd (HandleChannelList env pl packet w))"
    unfolding HandleChannelList_def
    by (rule parsed_effect [OF assms(1)]) (simp add: world_effect_refl assms(1) with_channel_effect steps)
  moreover have "world_effect (he_chan env) (pl_guid pl) w (snd (HandleChannelPassword env pl packet w))"
    "world_effect (he_chan env) (pl_guid pl) w (snd (HandleChannelOwner env pl packet w))"
    "world_effect (he_chan env) (pl_guid pl) w (snd (HandleChannelAnnouncements env pl packet w))"
    unfolding HandleChannelPassword_def HandleChannelOwner_def HandleChannelAnnouncements_def
    by (auto intro!: every_5s_effect assms(1) parsed_effect with_channel_effect steps)
  moreover have "world_effect (he_chan env) (pl_guid pl) w (snd (HandleGetChannelMemberCount env pl packet w))"
    unfolding HandleGetChannelMemberCount_def
    by (rule parsed_effect [OF assms(1)]) (simp add: assms(1) with_channel_effect)
  ultimately show ?thesis
    using assms(2) Join_effect [OF assms(1)] Leave_effect [OF assms(1)]
    unfolding channel_handlers_def
    by (auto simp: HandleChannelSetOwner_def HandleChannelModerator_def HandleChannelUnmoderator_def
        HandleChannelMute_def HandleChannelUnmute_def HandleChannelKick_def HandleChannelBan_def
        HandleChannelUnban_def intro!: cmd steps)
qed

section \<open>Reachable servers\<close>

definition empty_mgr :: channel_mgr where
  "empty_mgr = \<lparr>cm_team = 0, cm_channels = []\<rparr>"

inductive world_reach :: "chan_world \<Rightarrow> bool" where
  start: "world_reach \<lparr>alliance_mgr = empty_mgr, horde_mgr = empty_mgr, cmd_times = (\<lambda>_ _. 0)\<rparr>"
| packet: "world_reach w \<Longrightarrow> h \<in> set channel_handlers \<Longrightarrow> world_reach (snd (h env pl packet w))"
| invite: "world_reach w \<Longrightarrow> HandleChannelInvite env pl packet w = Some (res, w') \<Longrightarrow> world_reach w'"

definition world_inv :: "chan_world \<Rightarrow> bool" where
  "world_inv w \<longleftrightarrow> world_ok w \<and> (\<forall>s n ch. chan_of s n w = Some ch \<longrightarrow> chan_inv ch)"

lemma Invite_keeps:
  assumes "HandleChannelInvite env pl packet w = Some (res, w')"
  shows "mgr_of s w' = mgr_of s w"
  using assms by (auto simp: HandleChannelInvite_def Let_def split: if_splits sum.splits option.splits prod.splits)

lemma world_effect_inv:
  assumes "world_effect env p w w'" "world_inv w"
  shows "world_inv w'"
  unfolding world_inv_def
proof (intro conjI allI impI)
  show "world_ok w'" using assms(1) by (simp add: world_effect_def)
next
  fix s n ch' assume ch': "chan_of s n w' = Some ch'"
  have eff: "packet_effect env p (chan_of s n w) (Some ch')" using assms(1) ch' by (metis world_effect_def)
  show "chan_inv ch'"
  proof (cases "chan_of s n w")
    case None
    then show ?thesis using eff by (auto simp: packet_effect_def Join_inv new_Channel_inv)
  next
    case (Some ch)
    then have "chan_inv ch" using assms(2) by (simp add: world_inv_def)
    then show ?thesis using eff Some chan_step_inv by (auto simp: packet_effect_def step_or_same_def)
  qed
qed

lemma world_reach_inv: "world_reach w \<Longrightarrow> world_inv w"
proof (induction rule: world_reach.induct)
  case start
  then show ?case
    by (auto simp: world_inv_def world_ok_def chan_of_def mgr_of_def empty_mgr_def map_ok_def map_find_def
        split: side.split)
next
  case (packet w h env pl packet)
  then show ?case using handler_effect world_effect_inv by (meson world_inv_def)
next
  case (invite w env pl packet res w')
  then show ?case using Invite_keeps by (simp add: world_inv_def world_ok_def chan_of_def)
qed

text \<open>
  C4: no packet, however it is made up, lets a player affect others on a channel where he has no
  rights: after any history of packets, if a player who is neither moderator nor owner of a channel
  nor a moderator account sends any channel packet with any contents, then the channel either still
  has the same other members with the same flags, the same bans, password and announcement mode,
  or it is gone, and then nobody else was on it.
\<close>

theorem channel_packets_safe:
  assumes "world_reach w" "h \<in> set channel_handlers" "chan_of s n w = Some ch" "\<not> privileged (he_chan env) (pl_guid pl) ch"
  shows "(case chan_of s n (snd (h env pl packet w)) of
      None \<Rightarrow> \<forall>q. IsOn q ch \<longrightarrow> q = pl_guid pl
    | Some ch' \<Rightarrow> (\<forall>q. q \<noteq> pl_guid pl \<longrightarrow> map_find q (players ch') = map_find q (players ch)) \<and>
        banned ch' = banned ch \<and> m_password ch' = m_password ch \<and> m_announce ch' = m_announce ch)"
proof -
  have inv: "world_inv w" using assms(1) by (rule world_reach_inv)
  then have ci: "chan_inv ch" using assms(3) by (simp add: world_inv_def)
  have "world_effect (he_chan env) (pl_guid pl) w (snd (h env pl packet w))"
    using inv assms(2) by (intro handler_effect) (simp_all add: world_inv_def)
  then have eff: "packet_effect (he_chan env) (pl_guid pl) (Some ch) (chan_of s n (snd (h env pl packet w)))"
    using assms(3) by (metis world_effect_def)
  have quiet: "unaffected (pl_guid pl) ch ch'" if "step_or_same (he_chan env) (pl_guid pl) ch ch'" for ch'
    using that unprivileged_step [OF ci _ assms(4)] by (auto simp: step_or_same_def unaffected_def)
  show ?thesis
  proof (cases "chan_of s n (snd (h env pl packet w))")
    case None
    then obtain ch' where "unaffected (pl_guid pl) ch ch'" "players ch' = []"
      using eff quiet by (auto simp: packet_effect_def)
    then have "map_find q (players ch) = None" if "q \<noteq> pl_guid pl" for q
      using that by (auto simp: unaffected_def map_find_def)
    then have "\<forall>q. IsOn q ch \<longrightarrow> q = pl_guid pl" by (metis IsOn_def)
    then show ?thesis using None by simp
  next
    case (Some ch')
    then have "unaffected (pl_guid pl) ch ch'" using eff quiet by (simp add: packet_effect_def)
    then show ?thesis using Some by (simp add: unaffected_def)
  qed
qed

text \<open>A server with one channel, built from packets.\<close>

definition sample_handler_env :: handler_env where
  "sample_handler_env = \<lparr>he_chan = sample_chan_env\<lparr>ce_ALLOW_TWO_SIDE_INTERACTION_CHANNEL := True\<rparr>, he_wname = map ucast,
     he_SelChannel = (\<lambda>_ _. None), he_isValidChatMessage = (\<lambda>_. True), he_normalizePlayerName = Some,
     he_CanJoinConstantChannel = (\<lambda>_ _. True), he_now = 100\<rparr>"

definition start_world :: chan_world where
  "start_world = \<lparr>alliance_mgr = empty_mgr, horde_mgr = empty_mgr, cmd_times = (\<lambda>_ _. 0)\<rparr>"

text \<open>\<open>CMSG_JOIN_CHANNEL\<close> for the channel \<open>ab\<close>, without a password.\<close>

definition join_packet :: byte_buffer where
  "join_packet = received [0, 0, 0, 0, 0, 4, 97, 98]"

lemma ReadBits_loop_0: "ReadBits_loop 0 v b = Inr (v, b)"
  by (simp add: ReadBits_loop.simps)

lemma join_packet_bits:
  "ReadBits 7 (join_packet\<lparr>rpos := 4\<rparr>) = Inr (0, join_packet\<lparr>rpos := 5, bitpos := 7\<rparr>)"
  "ReadBits 7 (join_packet\<lparr>rpos := 5\<rparr>) = Inr (2, join_packet\<lparr>rpos := 6, bitpos := 7\<rparr>)"
  unfolding ReadBits_def
  by (subst ReadBits_loop.simps, simp add: join_packet_def received_def enter_byte_def read_skip_def ResetBits_def
      size_add_def Let_def readThisCycle_def current_byte_def ReadBits_loop_0 mask_eq_exp_minus_1)+

lemma join_packet_read:
  "read_u32 join_packet = Inr (0, join_packet\<lparr>rpos := 4\<rparr>)"
  "ReadBit (join_packet\<lparr>rpos := 5, bitpos := 7\<rparr>) = Inr (False, join_packet\<lparr>rpos := 5\<rparr>)"
  "ReadBit (join_packet\<lparr>rpos := 6, bitpos := 7\<rparr>) = Inr (False, join_packet\<lparr>rpos := 6\<rparr>)"
  "ReadString 0 (join_packet\<lparr>rpos := 6\<rparr>) = Inr ([], join_packet\<lparr>rpos := 6\<rparr>)"
  "ReadString 2 (join_packet\<lparr>rpos := 6\<rparr>) = Inr ([97, 98], join_packet\<lparr>rpos := 8\<rparr>)"
  by (simp_all add: join_packet_def received_def read_u32_def read_word_def read_bytes_def size_add_def ResetBits_def
      Let_def enter_byte_def current_byte_def ReadBit_def ReadString_def)

lemma sample_join:
  "chan_of Alliance_side [97, 98] (snd (HandleJoinChannel sample_handler_env (sample_player 1) join_packet start_world)) =
     Some (sample_new\<lparr>players := [(1, \<lparr>pi_player = 1, pi_flags = 3\<rparr>)], m_ownerGUID := 1\<rparr>)"
proof -
  have new: "snd (new_Channel (he_chan sample_handler_env) None [97, 98] 0 0) = sample_new\<lparr>players := [], m_ownerGUID := 0\<rparr>"
    by (simp add: sample_new_simp new_Channel_def sample_handler_env_def sample_chan_env_def IsWorld_def world_name_def
        lower_byte_def str_bytes_def of_char_def)
  have join: "snd (Join (he_chan sample_handler_env) 1 [] (sample_new\<lparr>players := [], m_ownerGUID := 0\<rparr>)) =
      sample_new\<lparr>players := [(1, \<lparr>pi_player = 1, pi_flags = 3\<rparr>)], m_ownerGUID := 1\<rparr>"
    unfolding Join_state
    by (simp add: admitted_def IsBanned_def lfg_restricted_def sample_handler_env_def sample_chan_env_def ch_HasFlag_def
        CHANNEL_FLAG_LFG_def IsOn_def map_find_def IsConstant_def SetOwner_first sample_new_simp
        at_player_def player_at_def info_defs)
  have parse: "HandleJoinChannel sample_handler_env (sample_player 1) join_packet start_world =
      join_channel sample_handler_env (sample_player 1) 0 [] [97, 98] Alliance_side start_world"
    by (simp add: HandleJoinChannel_def join_packet_read join_packet_bits parsed_def)
      (simp add: sample_handler_env_def channelMgr_def)
  have "map_find (he_wname sample_handler_env [97, 98]) (cm_channels (mgr_of Alliance_side start_world)) = None"
    by (simp add: start_world_def empty_mgr_def mgr_of_def map_find_def)
  then show ?thesis unfolding parse
    using new join
    by (simp add: join_channel_def GetJoinChannel_def Let_def split_beta chan_of_def put_channel_def sample_player_def c_str_def)
      (simp add: start_world_def empty_mgr_def mgr_of_def map_find_def sample_handler_env_def)
qed

theorem channel_packets_safe_witness:
  "(case chan_of Alliance_side [97, 98] (snd (HandleChannelBan sample_handler_env (sample_player 2) join_packet
        (snd (HandleJoinChannel sample_handler_env (sample_player 1) join_packet start_world)))) of
      None \<Rightarrow> False | Some ch' \<Rightarrow> IsOn 1 ch')"
proof -
  let ?w = "snd (HandleJoinChannel sample_handler_env (sample_player 1) join_packet start_world)"
  let ?ch = "sample_new\<lparr>players := [(1, \<lparr>pi_player = 1, pi_flags = 3\<rparr>)], m_ownerGUID := 1\<rparr>"
  have reach: "world_reach ?w"
    unfolding start_world_def by (rule world_reach.packet [OF world_reach.start]) (simp add: channel_handlers_def)
  have ban: "HandleChannelBan \<in> set channel_handlers" by (simp add: channel_handlers_def)
  have other: "\<not> privileged (he_chan sample_handler_env) (pl_guid (sample_player 2)) ?ch"
    by (simp add: privileged_def player_at_def map_find_def info_defs security_def sample_handler_env_def
        sample_chan_env_def sample_player_def IsModeratorAccount_def)
  have on: "IsOn 1 ?ch" "pl_guid (sample_player 2) \<noteq> 1" by (simp_all add: IsOn_def map_find_def sample_player_def)
  show ?thesis
    using channel_packets_safe [OF reach ban sample_join other, of join_packet] on
    by (auto simp: IsOn_def split: option.splits)
qed

end
