(* ===== verification/GroupRoll.thy ===== *)
theory GroupRoll
  imports StdMap
begin

text \<open>
  Loot rolls of a group: the class \<open>Roll\<close> and the functions \<open>GetRoll\<close>, \<open>CountRollVote\<close>,
  \<open>CountTheRoll\<close> and \<open>EndRoll\<close> of \<^verbatim>\<open>src/server/game/Groups/Group.cpp\<close>.

  A group keeps a vector of running rolls.  The votes of a roll are a map from player guid to vote,
  and four 8-bit totals count them.  The dice, the players online and the room in their bags come
  from \<open>roll_env\<close>: each player throws the dice at most once when a roll is counted, so the dice are a
  function of the roll and the guid.
\<close>

unbundle bit_operations_syntax

section \<open>Rolls\<close>

datatype roll_vote = PASS | NEED | GREED | DISENCHANT | NOT_EMITED_YET | NOT_VALID

record roll =
  r_itemGUID :: u64
  r_itemid :: u32
  itemRandomPropId :: u32
  itemRandomSuffix :: u32
  itemCount :: u8
  lootedGUID :: u64
  r_votes :: "(u64, roll_vote) std_map"
  totalPlayersRolling :: u8
  totalNeed :: u8
  totalGreed :: u8
  totalPass :: u8
  itemSlot :: u8
  rollVoteMask :: u8
  r_loot :: "nat option"

record roll_env =
  re_urand :: "roll \<Rightarrow> u64 \<Rightarrow> u8"
  re_online :: "u64 \<Rightarrow> bool"
  re_CanStore :: "u64 \<Rightarrow> u32 \<Rightarrow> bool"
  re_items_empty :: "nat \<Rightarrow> bool"

datatype roll_action =
    SendLootRoll u64 u8 roll_vote
  | SendLootRollWon u64 u8 roll_vote
  | SendLootAllPassed
  | LootTaken nat u8
  | Unblocked nat u8
  | StoreNewItem u64 u32
  | AutoStoreDisenchant u64 u32
  | SendEquipError u64 u32
  | RollNeedCriteria u64 u32 u8
  | RollGreedCriteria u64 u32 u8
  | DisenchantCriteria u64

text \<open>An entry of a loot, as far as the group reads and writes it, and its template.\<close>

record loot_item =
  li_itemid :: u32
  li_randomPropertyId :: u32
  li_randomSuffix :: u32
  li_count :: u8
  li_is_blocked :: bool
  li_freeforall :: bool
  li_is_underthreshold :: bool
  li_follow_loot_rules :: bool

record item_template =
  it_Quality :: u32
  it_DisenchantID :: u32
  it_RequiredDisenchantSkill :: u32
  it_Flags2 :: u32

text \<open>
  A member of the group, as the loops that collect the players of a roll see him: whether he has a
  session, may have the item, is near and passes on everything.
\<close>

record roller =
  rm_guid :: u64
  rm_session :: bool
  rm_AllowedForPlayer :: "loot_item \<Rightarrow> bool"
  rm_near :: bool
  rm_PassOnGroupLoot :: bool

text \<open>
  What the two functions that start rolls are called with: the loot, the looted object, the members
  in the order of the group, the templates and the guids the item generator will give.
\<close>

record start_env =
  se_loot :: nat
  se_object :: u64
  se_members :: "roller list"
  se_template :: "u32 \<Rightarrow> item_template option"
  se_guid :: "nat \<Rightarrow> u64"
  se_threshold :: u32
  se_maxEnchantingLevel :: u32
  se_online :: "u64 \<Rightarrow> bool"

datatype start_action =
    SendAutoPass u64 u64
  | SendLootStartRoll u64
  | SendLootStartRollToPlayer u64 u64
  | StartLootTimer

definition new_Roll :: "u64 \<Rightarrow> loot_item \<Rightarrow> roll" where
  "new_Roll guid li =
     \<lparr>r_itemGUID = guid, r_itemid = li_itemid li, itemRandomPropId = li_randomPropertyId li,
      itemRandomSuffix = li_randomSuffix li, itemCount = li_count li, lootedGUID = 0, r_votes = [],
      totalPlayersRolling = 0, totalNeed = 0, totalGreed = 0, totalPass = 0, itemSlot = 0,
      rollVoteMask = 7, r_loot = None\<rparr>"

text \<open>\<open>isValid()\<close>: the loot has not been deleted.\<close>

definition r_isValid :: "roll \<Rightarrow> bool" where
  "r_isValid r \<longleftrightarrow> r_loot r \<noteq> None"

text \<open>
  The loop that throws the dice: the highest number so far, who threw it and what he voted.  A later
  player has to throw more.
\<close>

fun throw_dice ::
  "(roll_vote \<Rightarrow> bool) \<Rightarrow> (u64 \<Rightarrow> u8) \<Rightarrow> (u64, roll_vote) std_map \<Rightarrow> u8 \<times> u64 \<times> roll_vote
   \<Rightarrow> roll_action list \<times> u8 \<times> u64 \<times> roll_vote" where
  "throw_dice rolls urand [] best = ([], best)"
| "throw_dice rolls urand ((guid, vote) # votes) best =
     (if \<not> rolls vote then throw_dice rolls urand votes best
      else
        let randomN = urand guid;
            best = (if fst best < randomN then (randomN, guid, vote) else best);
            res = throw_dice rolls urand votes best
        in (SendLootRoll guid randomN vote # fst res, snd res))"

definition give_item :: "roll_env \<Rightarrow> nat \<Rightarrow> roll \<Rightarrow> u64 \<Rightarrow> roll_action list" where
  "give_item env loot r guid =
     (if re_CanStore env guid (r_itemid r)
      then [LootTaken loot (itemSlot r), StoreNewItem guid (r_itemid r)]
      else [Unblocked loot (itemSlot r), SendEquipError guid (r_itemid r)])"

text \<open>What happens to the item when the roll ends; the roll itself is deleted by the caller.\<close>

definition CountTheRoll :: "roll_env \<Rightarrow> roll \<Rightarrow> roll_action list" where
  "CountTheRoll env r =
     (case r_loot r of
        None \<Rightarrow> []
      | Some loot \<Rightarrow>
          if totalNeed r > 0
          then
            (case r_votes r of
               [] \<Rightarrow> []
             | v # _ \<Rightarrow>
                 (case throw_dice (\<lambda>vote. vote = NEED) (re_urand env r) (r_votes r) (0, fst v, NOT_VALID) of
                    (acts, maxresul, maxguid, _) \<Rightarrow>
                      acts @ [SendLootRollWon maxguid maxresul NEED] @
                      (if re_online env maxguid
                       then RollNeedCriteria maxguid (r_itemid r) maxresul # give_item env loot r maxguid
                       else [])))
          else if totalGreed r > 0
          then
            (case r_votes r of
               [] \<Rightarrow> []
             | v # _ \<Rightarrow>
                 (case throw_dice (\<lambda>vote. vote = GREED \<or> vote = DISENCHANT) (re_urand env r) (r_votes r) (0, fst v, NOT_VALID) of
                    (acts, maxresul, maxguid, rollvote) \<Rightarrow>
                      acts @ (if rollvote \<noteq> NOT_VALID then [SendLootRollWon maxguid maxresul rollvote] else []) @
                      (if re_online env maxguid
                       then
                         RollGreedCriteria maxguid (r_itemid r) maxresul #
                         (if rollvote = GREED then give_item env loot r maxguid
                          else if rollvote = DISENCHANT
                          then [LootTaken loot (itemSlot r), AutoStoreDisenchant maxguid (r_itemid r),
                                DisenchantCriteria maxguid]
                          else [])
                       else [])))
          else [SendLootAllPassed, Unblocked loot (itemSlot r)])"

section \<open>Starting a roll\<close>

text \<open>
  One pass of the loop over the members.  The loops for the ordinary items let members pass
  automatically, those for the quest items do not.
\<close>

definition add_roller :: "bool \<Rightarrow> loot_item \<Rightarrow> roller \<Rightarrow> roll \<Rightarrow> roll" where
  "add_roller autopass li m r =
     (if \<not> rm_session m then r
      else if rm_AllowedForPlayer m li \<and> rm_near m
      then
        let r = r\<lparr>totalPlayersRolling := totalPlayersRolling r + 1\<rparr>
        in if autopass \<and> rm_PassOnGroupLoot m
           then r\<lparr>r_votes := map_set (rm_guid m) PASS (r_votes r), totalPass := totalPass r + 1\<rparr>
           else r\<lparr>r_votes := map_set (rm_guid m) NOT_EMITED_YET (r_votes r)\<rparr>
      else r)"

definition collect_rollers :: "start_env \<Rightarrow> bool \<Rightarrow> u64 \<Rightarrow> loot_item \<Rightarrow> roll" where
  "collect_rollers env autopass guid li =
     fold (add_roller autopass li) (se_members env) ((new_Roll guid li)\<lparr>lootedGUID := se_object env\<rparr>)"

definition place_roll :: "start_env \<Rightarrow> u8 \<Rightarrow> roll \<Rightarrow> roll" where
  "place_roll env slot r = r\<lparr>r_loot := Some (se_loot env), itemSlot := slot\<rparr>"

definition allow_disenchant :: "start_env \<Rightarrow> item_template \<Rightarrow> roll \<Rightarrow> roll" where
  "allow_disenchant env item r =
     (if it_DisenchantID item \<noteq> 0 \<and> se_maxEnchantingLevel env \<ge> it_RequiredDisenchantSkill item
      then r\<lparr>rollVoteMask := rollVoteMask r OR 8\<rparr> else r)"

definition auto_passes :: "start_env \<Rightarrow> u64 \<Rightarrow> roll \<Rightarrow> start_action list" where
  "auto_passes env guid r =
     map (\<lambda>x. SendAutoPass guid (fst x)) (filter (\<lambda>x. se_online env (fst x) \<and> snd x = PASS) (r_votes r))"

text \<open>
  The two loops of \<open>GroupLoot\<close>.  Each gives the packets sent, the entries as they are afterwards,
  the rolls pushed and how many guids have been generated.
\<close>

fun GroupLoot_items ::
  "start_env \<Rightarrow> u8 \<Rightarrow> nat \<Rightarrow> loot_item list \<Rightarrow> start_action list \<times> loot_item list \<times> roll list \<times> nat" where
  "GroupLoot_items env slot n [] = ([], [], [], n)"
| "GroupLoot_items env slot n (i # items) =
     (if li_freeforall i
      then (case GroupLoot_items env (slot + 1) n items of (acts, is, rs, n) \<Rightarrow> (acts, i # is, rs, n))
      else
        (case se_template env (li_itemid i) of
           None \<Rightarrow> (case GroupLoot_items env (slot + 1) n items of (acts, is, rs, n) \<Rightarrow> (acts, i # is, rs, n))
         | Some item \<Rightarrow>
             if it_Quality item \<ge> se_threshold env
             then
               let r = collect_rollers env True (se_guid env n) i
               in if totalPlayersRolling r > 0
                  then
                    let r = allow_disenchant env item (place_roll env slot r)
                    in (case GroupLoot_items env (slot + 1) (Suc n) items of
                          (acts, is, rs, n') \<Rightarrow>
                            ((if totalPass r \<noteq> 0 then auto_passes env (se_guid env n) r else []) @
                             [SendLootStartRoll (se_guid env n), StartLootTimer] @ acts,
                             i\<lparr>li_is_blocked := True\<rparr> # is, r # rs, n'))
                  else
                    (case GroupLoot_items env (slot + 1) (Suc n) items of (acts, is, rs, n) \<Rightarrow> (acts, i # is, rs, n))
             else
               (case GroupLoot_items env (slot + 1) n items of
                  (acts, is, rs, n) \<Rightarrow> (acts, i\<lparr>li_is_underthreshold := True\<rparr> # is, rs, n))))"

fun GroupLoot_quest_items ::
  "start_env \<Rightarrow> u8 \<Rightarrow> nat \<Rightarrow> loot_item list \<Rightarrow> start_action list \<times> loot_item list \<times> roll list \<times> nat" where
  "GroupLoot_quest_items env slot n [] = ([], [], [], n)"
| "GroupLoot_quest_items env slot n (i # items) =
     (if \<not> li_follow_loot_rules i \<or> se_template env (li_itemid i) = None
      then (case GroupLoot_quest_items env (slot + 1) n items of (acts, is, rs, n) \<Rightarrow> (acts, i # is, rs, n))
      else
        let r = collect_rollers env False (se_guid env n) i
        in (case GroupLoot_quest_items env (slot + 1) (Suc n) items of
              (acts, is, rs, n') \<Rightarrow>
                if totalPlayersRolling r > 0
                then ([SendLootStartRoll (se_guid env n), StartLootTimer] @ acts, i\<lparr>li_is_blocked := True\<rparr> # is,
                      place_roll env slot r # rs, n')
                else (acts, i # is, rs, n')))"

definition GroupLoot ::
  "start_env \<Rightarrow> nat \<Rightarrow> loot_item list \<Rightarrow> loot_item list \<Rightarrow> roll list
   \<Rightarrow> start_action list \<times> loot_item list \<times> loot_item list \<times> roll list" where
  "GroupLoot env n items quest_items RollId =
     (case GroupLoot_items env 0 n items of
        (acts, items', rs, n) \<Rightarrow>
          (case GroupLoot_quest_items env (of_nat (length items)) n quest_items of
             (acts', quest_items', rs', _) \<Rightarrow> (acts @ acts', items', quest_items', RollId @ rs @ rs')))"

text \<open>
  \<open>NeedBeforeGreed\<close> differs in three ways: an item without template counts as below the threshold,
  an item may forbid need votes, and the start of the roll is sent to each player who has not passed.
\<close>

definition forbid_need :: "item_template \<Rightarrow> roll \<Rightarrow> roll" where
  "forbid_need item r =
     (if it_Flags2 item AND 0x100 \<noteq> 0 then r\<lparr>rollVoteMask := rollVoteMask r AND NOT 2\<rparr> else r)"

definition announce_start :: "start_env \<Rightarrow> u64 \<Rightarrow> roll \<Rightarrow> start_action list" where
  "announce_start env guid r =
     map (\<lambda>x. if snd x = PASS then SendAutoPass guid (fst x) else SendLootStartRollToPlayer guid (fst x))
       (filter (\<lambda>x. se_online env (fst x)) (r_votes r))"

fun NeedBeforeGreed_items ::
  "start_env \<Rightarrow> u8 \<Rightarrow> nat \<Rightarrow> loot_item list \<Rightarrow> start_action list \<times> loot_item list \<times> roll list \<times> nat" where
  "NeedBeforeGreed_items env slot n [] = ([], [], [], n)"
| "NeedBeforeGreed_items env slot n (i # items) =
     (if li_freeforall i
      then (case NeedBeforeGreed_items env (slot + 1) n items of (acts, is, rs, n) \<Rightarrow> (acts, i # is, rs, n))
      else
        (case (case se_template env (li_itemid i) of
                 None \<Rightarrow> None
               | Some item \<Rightarrow> if it_Quality item \<ge> se_threshold env then Some item else None) of
           None \<Rightarrow> (case NeedBeforeGreed_items env (slot + 1) n items of
                       (acts, is, rs, n) \<Rightarrow> (acts, i\<lparr>li_is_underthreshold := True\<rparr> # is, rs, n))
         | Some item \<Rightarrow>
             let r = collect_rollers env True (se_guid env n) i
             in if totalPlayersRolling r > 0
                then
                  let r = forbid_need item (allow_disenchant env item (place_roll env slot r))
                  in (case NeedBeforeGreed_items env (slot + 1) (Suc n) items of
                        (acts, is, rs, n') \<Rightarrow>
                          (announce_start env (se_guid env n) r @ [StartLootTimer] @ acts,
                           i\<lparr>li_is_blocked := True\<rparr> # is, r # rs, n'))
                else
                  (case NeedBeforeGreed_items env (slot + 1) (Suc n) items of (acts, is, rs, n) \<Rightarrow> (acts, i # is, rs, n))))"

fun NeedBeforeGreed_quest_items ::
  "start_env \<Rightarrow> u8 \<Rightarrow> nat \<Rightarrow> loot_item list \<Rightarrow> start_action list \<times> loot_item list \<times> roll list \<times> nat" where
  "NeedBeforeGreed_quest_items env slot n [] = ([], [], [], n)"
| "NeedBeforeGreed_quest_items env slot n (i # items) =
     (if \<not> li_follow_loot_rules i
      then (case NeedBeforeGreed_quest_items env (slot + 1) n items of (acts, is, rs, n) \<Rightarrow> (acts, i # is, rs, n))
      else
        let r = collect_rollers env False (se_guid env n) i
        in (case NeedBeforeGreed_quest_items env (slot + 1) (Suc n) items of
              (acts, is, rs, n') \<Rightarrow>
                if totalPlayersRolling r > 0
                then (announce_start env (se_guid env n) (place_roll env slot r) @ [StartLootTimer] @ acts,
                      i\<lparr>li_is_blocked := True\<rparr> # is, place_roll env slot r # rs, n')
                else (acts, i # is, rs, n')))"

definition NeedBeforeGreed ::
  "start_env \<Rightarrow> nat \<Rightarrow> loot_item list \<Rightarrow> loot_item list \<Rightarrow> roll list
   \<Rightarrow> start_action list \<times> loot_item list \<times> loot_item list \<times> roll list" where
  "NeedBeforeGreed env n items quest_items RollId =
     (case NeedBeforeGreed_items env 0 n items of
        (acts, items', rs, n) \<Rightarrow>
          (case NeedBeforeGreed_quest_items env (of_nat (length items)) n quest_items of
             (acts', quest_items', rs', _) \<Rightarrow> (acts @ acts', items', quest_items', RollId @ rs @ rs')))"

text \<open>\<open>DoRollForAllMembers\<close>, called by a master looter for one entry; \<open>found\<close>: the object is on his map.\<close>

definition DoRollForAllMembers ::
  "start_env \<Rightarrow> nat \<Rightarrow> bool \<Rightarrow> u8 \<Rightarrow> loot_item \<Rightarrow> roll list \<Rightarrow> start_action list \<times> roll list" where
  "DoRollForAllMembers env n found slot i RollId =
     (if \<not> found then ([], RollId)
      else
        let r = collect_rollers env False (se_guid env n) i
        in ([SendLootStartRoll (se_guid env n)],
            if totalPlayersRolling r > 0 then RollId @ [place_roll env slot r] else RollId))"

section \<open>Voting\<close>

definition is_roll :: "u8 \<Rightarrow> roll \<Rightarrow> bool" where
  "is_roll slot r \<longleftrightarrow> itemSlot r = slot \<and> r_isValid r"

text \<open>\<open>GetRoll\<close>: the first valid roll for the slot, with what stands before and behind it.\<close>

fun GetRoll :: "u8 \<Rightarrow> roll list \<Rightarrow> (roll list \<times> roll \<times> roll list) option" where
  "GetRoll slot [] = None"
| "GetRoll slot (r # rs) =
     (if is_roll slot r then Some ([], r, rs)
      else map_option (\<lambda>(before, x, rest). (r # before, x, rest)) (GetRoll slot rs))"

text \<open>The choices 0 to 3 of the client are votes, everything else leaves the roll as it is.\<close>

definition choice_vote :: "u8 \<Rightarrow> roll_vote option" where
  "choice_vote c = (if c = 0 then Some PASS else if c = 1 then Some NEED else if c = 2 then Some GREED
     else if c = 3 then Some DISENCHANT else None)"

definition cast_vote :: "u64 \<Rightarrow> roll_vote \<Rightarrow> roll \<Rightarrow> roll" where
  "cast_vote guid v r =
     (case v of
        PASS \<Rightarrow> r\<lparr>totalPass := totalPass r + 1\<rparr>
      | NEED \<Rightarrow> r\<lparr>totalNeed := totalNeed r + 1\<rparr>
      | GREED \<Rightarrow> r\<lparr>totalGreed := totalGreed r + 1\<rparr>
      | DISENCHANT \<Rightarrow> r\<lparr>totalGreed := totalGreed r + 1\<rparr>
      | _ \<Rightarrow> r)\<lparr>r_votes := map_set guid v (r_votes r)\<rparr>"

definition roll_done :: "roll \<Rightarrow> bool" where
  "roll_done r \<longleftrightarrow> unat (totalPass r) + unat (totalNeed r) + unat (totalGreed r) \<ge> unat (totalPlayersRolling r)"

definition CountRollVote :: "roll_env \<Rightarrow> u64 \<Rightarrow> u8 \<Rightarrow> u8 \<Rightarrow> roll list \<Rightarrow> roll_action list \<times> roll list" where
  "CountRollVote env playerGUID slot Choice RollId =
     (case GetRoll slot RollId of
        None \<Rightarrow> ([], RollId)
      | Some (before, r, rest) \<Rightarrow>
          if map_find playerGUID (r_votes r) = None then ([], RollId)
          else if (case r_loot r of None \<Rightarrow> False | Some l \<Rightarrow> re_items_empty env l) then ([], RollId)
          else
            let (acts, r) = (case choice_vote Choice of
                               None \<Rightarrow> ([], r)
                             | Some v \<Rightarrow> ([SendLootRoll playerGUID 0 v], cast_vote playerGUID v r))
            in if roll_done r then (acts @ CountTheRoll env r, before @ rest)
               else (acts, before @ r # rest))"

text \<open>
  \<open>EndRoll\<close>: every roll on the loot is counted; after each the search starts over.
\<close>

fun EndRoll :: "roll_env \<Rightarrow> nat \<Rightarrow> roll list \<Rightarrow> roll_action list \<times> roll list" where
  "EndRoll env loot [] = ([], [])"
| "EndRoll env loot (r # rs) =
     (if r_loot r = Some loot
      then (case EndRoll env loot rs of (acts, rs) \<Rightarrow> (CountTheRoll env r @ acts, rs))
      else (case EndRoll env loot rs of (acts, rs) \<Rightarrow> (acts, r # rs)))"

section \<open>Leaving the group\<close>

text \<open>
  The loop of \<open>RemoveMember\<close> over the running rolls: the leaving player's vote is taken out of the
  totals and out of the map, and then \<open>CountRollVote\<close> is called with the low byte of the guid of the
  item where it expects a slot.
\<close>

definition leave_roll :: "u64 \<Rightarrow> roll_vote \<Rightarrow> roll \<Rightarrow> roll" where
  "leave_roll guid v r =
     (let r = (if v = GREED \<or> v = DISENCHANT then r\<lparr>totalGreed := totalGreed r - 1\<rparr>
               else if v = NEED then r\<lparr>totalNeed := totalNeed r - 1\<rparr>
               else if v = PASS then r\<lparr>totalPass := totalPass r - 1\<rparr> else r);
          r = (if v \<noteq> NOT_VALID then r\<lparr>totalPlayersRolling := totalPlayersRolling r - 1\<rparr> else r)
      in r\<lparr>r_votes := map_erase guid (r_votes r)\<rparr>)"

definition MAX_ROLL_TYPE :: u8 where
  "MAX_ROLL_TYPE = 4"

lemma length_GetRoll: "GetRoll slot rs = Some (before, r, rest) \<Longrightarrow> rs = before @ r # rest"
  by (induction rs arbitrary: before) (auto split: if_splits)

lemma length_CountRollVote: "length (snd (CountRollVote env g slot c rs)) \<le> length rs"
  by (auto simp: CountRollVote_def Let_def split: option.splits prod.splits dest!: length_GetRoll)

function leave_rolls :: "roll_env \<Rightarrow> u64 \<Rightarrow> nat \<Rightarrow> roll list \<Rightarrow> roll_action list \<times> roll list" where
  "leave_rolls env guid it RollId =
     (if it < length RollId
      then
        (case map_find guid (r_votes (RollId ! it)) of
           None \<Rightarrow> leave_rolls env guid (Suc it) RollId
         | Some v \<Rightarrow>
             let res = CountRollVote env guid (ucast (r_itemGUID (RollId ! it))) MAX_ROLL_TYPE
                         (RollId[it := leave_roll guid v (RollId ! it)]);
                 res' = leave_rolls env guid (Suc it) (snd res)
             in (fst res @ fst res', snd res'))
      else ([], RollId))"
  by auto
termination
proof (relation "measure (\<lambda>(_, _, it, RollId). length RollId - it)")
  fix env guid it RollId v x
  assume "it < length RollId" and x: "x = CountRollVote env guid (ucast (r_itemGUID (RollId ! it))) MAX_ROLL_TYPE
    (RollId[it := leave_roll guid v (RollId ! it)])"
  have "length (snd x) \<le> length RollId" unfolding x by (rule order_trans [OF length_CountRollVote]) simp
  with \<open>it < length RollId\<close>
  show "((env, guid, Suc it, snd x), (env, guid, it, RollId)) \<in> measure (\<lambda>(_, _, it, RollId). length RollId - it)"
    by simp
qed auto

declare leave_rolls.simps [simp del]

end
