(* ===== verification/GroupRollProps.thy ===== *)
theory GroupRollProps
  imports GroupRoll
begin

text \<open>
  What holds of loot rolls: who wins, when a roll closes, and what the votes that are cast twice and
  the players who leave do to it.
\<close>

section \<open>The winner\<close>

lemma throw_dice_spec:
  assumes "throw_dice rolls urand votes b = (acts, m, w, u)"
  shows "fst b \<le> m \<and> (\<forall>x \<in> set votes. rolls (snd x) \<longrightarrow> urand (fst x) \<le> m) \<and>
    ((m, w, u) = b \<or> fst b < m \<and> (w, u) \<in> set votes \<and> rolls u \<and> urand w = m) \<and>
    acts = map (\<lambda>x. SendLootRoll (fst x) (urand (fst x)) (snd x)) (filter (\<lambda>x. rolls (snd x)) votes)"
  using assms
proof (induction votes arbitrary: b acts)
  case (Cons x votes)
  obtain guid vote where x: "x = (guid, vote)" by (cases x)
  show ?case
  proof (cases "rolls vote")
    case True
    let ?b = "if fst b < urand guid then (urand guid, guid, vote) else b"
    have "throw_dice rolls urand votes ?b = (fst (throw_dice rolls urand votes ?b), m, w, u)"
      and acts: "acts = SendLootRoll guid (urand guid) vote # fst (throw_dice rolls urand votes ?b)"
      using Cons.prems x True by (simp_all add: Let_def prod_eq_iff)
    note IH = Cons.IH [OF this(1)]
    have "fst b \<le> fst ?b" "urand guid \<le> fst ?b" by auto
    then show ?thesis using IH acts x True by (auto split: if_splits)
  next
    case False
    then have "throw_dice rolls urand votes b = (acts, m, w, u)" using Cons.prems x by simp
    from Cons.IH [OF this] show ?thesis using x False by auto
  qed
qed auto

lemma throw_dice_first:
  assumes "throw_dice rolls urand votes b = (acts, m, w, u)" "fst b < m" "(g, v) \<in> set votes" "rolls v" "urand g = m" "map_ok votes"
  shows "w \<le> g"
  using assms
proof (induction votes arbitrary: b acts)
  case (Cons x votes)
  obtain guid vote where x: "x = (guid, vote)" by (cases x)
  have ok: "map_ok votes" "\<forall>y \<in> set votes. guid < fst y" using Cons.prems(6) x by (auto simp: map_ok_def)
  show ?case
  proof (cases "rolls vote")
    case True
    let ?b = "if fst b < urand guid then (urand guid, guid, vote) else b"
    have dice: "throw_dice rolls urand votes ?b = (fst (throw_dice rolls urand votes ?b), m, w, u)"
      using Cons.prems(1) x True by (simp add: Let_def prod_eq_iff)
    show ?thesis
    proof (cases "fst ?b = m")
      case best: True
      then have "?b = (urand guid, guid, vote)" using Cons.prems(2) by (auto split: if_splits)
      moreover have "(m, w, u) = ?b" using throw_dice_spec [OF dice] best by auto
      ultimately have "w = guid" by simp
      then show ?thesis using ok(2) Cons.prems(3) x by auto
    next
      case False
      then have less: "fst ?b < m" using throw_dice_spec [OF dice] by auto
      then have "urand guid < m" by (auto split: if_splits)
      then have "(g, v) \<in> set votes" using Cons.prems(3,5) x by auto
      then show ?thesis using Cons.IH [OF dice less _ Cons.prems(4,5) ok(1)] by blast
    qed
  next
    case False
    then have dice: "throw_dice rolls urand votes b = (acts, m, w, u)" "(g, v) \<in> set votes"
      using Cons.prems(1,3,4) x by auto
    show ?thesis by (rule Cons.IH [OF dice(1) Cons.prems(2) dice(2) Cons.prems(4,5) ok(1)])
  qed
qed auto

text \<open>
  C25: when a roll with at least one need vote is counted, the item goes to a player who voted need
  and threw the highest number among those players; of several with that number the one with the
  lowest guid wins; everybody's number is announced, need voters only, and if the winner is online
  he gets the item or an error, nobody else gets anything.
\<close>

theorem need_roll_winner:
  assumes "r_loot r = Some loot" "0 < totalNeed r" "map_ok (r_votes r)" "(g, NEED) \<in> set (r_votes r)"
    and "list_all (\<lambda>x. 0 < re_urand env r (fst x)) (r_votes r)"
  shows "\<exists>w. (w, NEED) \<in> set (r_votes r) \<and>
     (\<forall>h. (h, NEED) \<in> set (r_votes r) \<longrightarrow> re_urand env r h < re_urand env r w \<or> re_urand env r h = re_urand env r w \<and> w \<le> h) \<and>
     CountTheRoll env r =
       map (\<lambda>x. SendLootRoll (fst x) (re_urand env r (fst x)) NEED) (filter (\<lambda>x. snd x = NEED) (r_votes r)) @
       [SendLootRollWon w (re_urand env r w) NEED] @ (if re_online env w then RollNeedCriteria w (r_itemid r) (re_urand env r w) # give_item env loot r w else [])"
proof -
  obtain v vs where v: "r_votes r = v # vs" using assms(4) by (cases "r_votes r") auto
  obtain acts m w u where dice:
    "throw_dice (\<lambda>vote. vote = NEED) (re_urand env r) (r_votes r) (0, fst v, NOT_VALID) = (acts, m, w, u)"
    by (metis prod_cases4)
  note spec = throw_dice_spec [OF dice]
  have "re_urand env r g \<le> m" using spec assms(4) by auto
  moreover have "0 < re_urand env r g" using assms(4,5) by (auto simp: list_all_iff)
  ultimately have m: "0 < m" by (rule less_le_trans [rotated])
  then have w: "(w, NEED) \<in> set (r_votes r)" "re_urand env r w = m" using spec by auto
  have best: "re_urand env r h < m \<or> re_urand env r h = m \<and> w \<le> h" if h: "(h, NEED) \<in> set (r_votes r)" for h
    using spec h throw_dice_first [OF dice _ h _ _ assms(3)] m by (auto simp: order.order_iff_strict)
  have "acts = map (\<lambda>x. SendLootRoll (fst x) (re_urand env r (fst x)) NEED) (filter (\<lambda>x. snd x = NEED) (r_votes r))"
    using spec by simp
  then have "CountTheRoll env r =
       map (\<lambda>x. SendLootRoll (fst x) (re_urand env r (fst x)) NEED) (filter (\<lambda>x. snd x = NEED) (r_votes r)) @
       [SendLootRollWon w (re_urand env r w) NEED] @ (if re_online env w then RollNeedCriteria w (r_itemid r) (re_urand env r w) # give_item env loot r w else [])"
    using assms(1,2) v dice w(2) by (simp add: CountTheRoll_def)
  then show ?thesis using w best by (intro exI [of _ w]) simp
qed

definition two_votes :: roll where
  "two_votes = \<lparr>r_itemGUID = 9, r_itemid = 7, itemRandomPropId = 0,
     itemRandomSuffix = 0, itemCount = 1, lootedGUID = 5, r_votes = [(1, NEED), (2, NEED)], totalPlayersRolling = 2, totalNeed = 2,
     totalGreed = 0, totalPass = 0, itemSlot = 0, rollVoteMask = 7, r_loot = Some 0\<rparr>"

definition sample_dice :: roll_env where
  "sample_dice = \<lparr>re_urand = (\<lambda>_ g. if g = 2 then 80 else 30), re_online = (\<lambda>_. True), re_CanStore = (\<lambda>_ _. True),
     re_items_empty = (\<lambda>_. False)\<rparr>"

theorem need_roll_winner_witness:
  "\<exists>w. (w, NEED) \<in> set (r_votes two_votes) \<and> CountTheRoll sample_dice two_votes =
     [SendLootRoll 1 30 NEED, SendLootRoll 2 80 NEED, SendLootRollWon w (re_urand sample_dice two_votes w) NEED,
      RollNeedCriteria w 7 (re_urand sample_dice two_votes w), LootTaken 0 0, StoreNewItem w 7]"
proof -
  have "r_loot two_votes = Some 0" "0 < totalNeed two_votes" "map_ok (r_votes two_votes)" "(1, NEED) \<in> set (r_votes two_votes)"
    "list_all (\<lambda>x. 0 < re_urand sample_dice two_votes (fst x)) (r_votes two_votes)"
    by (simp_all add: two_votes_def map_ok_def sample_dice_def)
  from need_roll_winner [OF this] show ?thesis
    by (auto simp: give_item_def two_votes_def sample_dice_def)
qed

section \<open>Counting the votes\<close>

text \<open>The totals are the numbers of votes, as long as no more than 255 players take part.\<close>

definition count_votes :: "(roll_vote \<Rightarrow> bool) \<Rightarrow> roll \<Rightarrow> nat" where
  "count_votes P r = card {x \<in> set (r_votes r). P (snd x)}"

definition roll_inv :: "roll \<Rightarrow> bool" where
  "roll_inv r \<longleftrightarrow> map_ok (r_votes r) \<and> length (r_votes r) < 256 \<and>
     totalPass r = of_nat (count_votes (\<lambda>v. v = PASS) r) \<and> totalNeed r = of_nat (count_votes (\<lambda>v. v = NEED) r) \<and>
     totalGreed r = of_nat (count_votes (\<lambda>v. v = GREED \<or> v = DISENCHANT) r) \<and>
     totalPlayersRolling r = of_nat (count_votes (\<lambda>v. v \<noteq> NOT_VALID) r)"



lemma cast_vote_votes [simp]: "r_votes (cast_vote g v r) = map_set g v (r_votes r)"
  by (simp add: cast_vote_def)








lemma roll_invI:
  assumes "map_ok (r_votes r)" "length (r_votes r) < 256"
    and "totalPass r = of_nat (count_votes (\<lambda>v. v = PASS) r)" "totalNeed r = of_nat (count_votes (\<lambda>v. v = NEED) r)"
    and "totalGreed r = of_nat (count_votes (\<lambda>v. v = GREED \<or> v = DISENCHANT) r)"
    and "totalPlayersRolling r = of_nat (count_votes (\<lambda>v. v \<noteq> NOT_VALID) r)"
  shows "roll_inv r"
  using assms by (simp add: roll_inv_def)


lemma leave_roll_totals:
  "r_votes (leave_roll g v r) = map_erase g (r_votes r)"
  "totalPass (leave_roll g v r) = totalPass r - of_bool (v = PASS)"
  "totalNeed (leave_roll g v r) = totalNeed r - of_bool (v = NEED)"
  "totalGreed (leave_roll g v r) = totalGreed r - of_bool (v = GREED \<or> v = DISENCHANT)"
  "totalPlayersRolling (leave_roll g v r) = totalPlayersRolling r - of_bool (v \<noteq> NOT_VALID)"
  by (cases v; simp add: leave_roll_def)+


section \<open>Starting a roll\<close>

definition joins :: "loot_item \<Rightarrow> roller \<Rightarrow> bool" where
  "joins li m \<longleftrightarrow> rm_session m \<and> rm_AllowedForPlayer m li \<and> rm_near m"

definition first_vote :: "bool \<Rightarrow> roller \<Rightarrow> roll_vote" where
  "first_vote autopass m = (if autopass \<and> rm_PassOnGroupLoot m then PASS else NOT_EMITED_YET)"

lemma add_roller_simps:
  "joins li m \<Longrightarrow> r_votes (add_roller autopass li m r) = map_set (rm_guid m) (first_vote autopass m) (r_votes r)"
  "joins li m \<Longrightarrow> totalPass (add_roller autopass li m r) = totalPass r + of_bool (first_vote autopass m = PASS)"
  "joins li m \<Longrightarrow> totalPlayersRolling (add_roller autopass li m r) = totalPlayersRolling r + 1"
  "totalNeed (add_roller autopass li m r) = totalNeed r"
  "totalGreed (add_roller autopass li m r) = totalGreed r"
  "\<not> joins li m \<Longrightarrow> add_roller autopass li m r = r"
  by (auto simp: add_roller_def joins_def first_vote_def Let_def)

lemma length_map_set_new: "k \<notin> fst ` set m \<Longrightarrow> length (map_set k v m) = Suc (length m)"
  by (induction m) auto

lemma add_roller_inv:
  assumes inv: "roll_inv r" and new: "rm_guid m \<notin> fst ` set (r_votes r)" and len: "length (r_votes r) < 255"
  shows "roll_inv (add_roller autopass li m r)"
proof (cases "joins li m")
  case True
  have ok: "map_ok (r_votes r)" using inv by (simp add: roll_inv_def)
  have find: "map_find (rm_guid m) (r_votes r) = None" using new by (simp add: map_find_def map_of_eq_None_iff)
  have total: "c + of_bool (P (first_vote autopass m)) = of_nat (count_votes P (add_roller autopass li m r))"
    if "c = (of_nat (count_votes P r) :: u8)" for c P
    using std_map.counter_store [OF ok, of c "\<lambda>x. P (snd x)" "rm_guid m" "first_vote autopass m"] that find True
    by (simp add: count_votes_def add_roller_simps)
  show ?thesis
    using inv ok len True length_map_set_new [OF new] total [of _ "\<lambda>v. v = PASS"] total [of _ "\<lambda>v. v = NEED"]
      total [of _ "\<lambda>v. v = GREED \<or> v = DISENCHANT"] total [of _ "\<lambda>v. v \<noteq> NOT_VALID"]
    by (intro roll_invI) (simp_all add: roll_inv_def add_roller_simps std_map.ok_store first_vote_def split: if_splits)
qed (simp add: inv add_roller_simps)

lemma fold_add_roller:
  assumes "roll_inv r" "distinct (map rm_guid ms)" "rm_guid ` set ms \<inter> fst ` set (r_votes r) = {}"
    and "length (r_votes r) + length ms < 256"
  shows "roll_inv (fold (add_roller autopass li) ms r) \<and>
    set (r_votes (fold (add_roller autopass li) ms r)) =
      set (r_votes r) \<union> {(rm_guid m, first_vote autopass m) |m. m \<in> set ms \<and> joins li m}"
  using assms
proof (induction ms arbitrary: r)
  case (Cons m ms)
  let ?r = "add_roller autopass li m r"
  have new: "rm_guid m \<notin> fst ` set (r_votes r)" using Cons.prems(3) by simp
  have inv: "roll_inv ?r" using Cons.prems(4) by (intro add_roller_inv Cons.prems(1) new) simp
  have ok: "map_ok (r_votes r)" using Cons.prems(1) by (simp add: roll_inv_def)
  have votes: "set (r_votes ?r) = set (r_votes r) \<union> (if joins li m then {(rm_guid m, first_vote autopass m)} else {})"
    using std_map.entries_store [OF ok, of "rm_guid m" "first_vote autopass m"] new by (auto simp: add_roller_simps image_iff)
  have len: "length (r_votes ?r) \<le> Suc (length (r_votes r))"
    using length_map_set_new [OF new] by (cases "joins li m") (simp_all add: add_roller_simps)
  have "rm_guid ` set ms \<inter> fst ` set (r_votes ?r) = {}"
    using Cons.prems(2,3) unfolding votes by auto
  from Cons.IH [OF inv _ this] Cons.prems(2,4) len votes show ?case by auto
qed auto

text \<open>The members of the group are different players, fewer than 256 of them.\<close>

definition start_ok :: "start_env \<Rightarrow> bool" where
  "start_ok env \<longleftrightarrow> distinct (map rm_guid (se_members env)) \<and> length (se_members env) < 256"

lemma new_Roll_inv: "roll_inv ((new_Roll guid li)\<lparr>lootedGUID := obj\<rparr>)"
  by (simp add: roll_inv_def new_Roll_def count_votes_def map_ok_def)

lemma collect_rollers_spec:
  assumes "start_ok env"
  shows "roll_inv (collect_rollers env autopass guid li)"
    and "set (r_votes (collect_rollers env autopass guid li)) =
      {(rm_guid m, first_vote autopass m) |m. m \<in> set (se_members env) \<and> joins li m}"
  using fold_add_roller [where r = "(new_Roll guid li)\<lparr>lootedGUID := se_object env\<rparr>" and ms = "se_members env", OF new_Roll_inv] assms
  unfolding collect_rollers_def start_ok_def by (simp_all add: new_Roll_def)

text \<open>
  A roll started for entry \<open>i\<close>, which becomes \<open>i'\<close>: its players are the members who can see the
  item, with the vote they start with.
\<close>

definition started :: "start_env \<Rightarrow> bool \<Rightarrow> loot_item \<Rightarrow> u8 \<Rightarrow> loot_item \<Rightarrow> roll \<Rightarrow> bool" where
  "started env autopass i slot i' r \<longleftrightarrow>
     roll_inv r \<and> r_loot r = Some (se_loot env) \<and> itemSlot r = slot \<and> r_itemid r = li_itemid i \<and>
     lootedGUID r = se_object env \<and> 0 < totalPlayersRolling r \<and> li_is_blocked i' \<and>
     set (r_votes r) = {(rm_guid m, first_vote autopass m) |m. m \<in> set (se_members env) \<and> joins i m}"

lemma fold_keeps:
  "r_itemid (fold (add_roller autopass li) ms r) = r_itemid r \<and> lootedGUID (fold (add_roller autopass li) ms r) = lootedGUID r"
proof (induction ms arbitrary: r)
  case (Cons m ms)
  have "r_itemid (add_roller autopass li m r) = r_itemid r" "lootedGUID (add_roller autopass li m r) = lootedGUID r"
    by (simp_all add: add_roller_def Let_def)
  then show ?case using Cons.IH by simp
qed simp

lemma collect_keeps:
  "r_itemid (collect_rollers env autopass guid li) = li_itemid li"
  "lootedGUID (collect_rollers env autopass guid li) = se_object env"
  by (simp_all add: collect_rollers_def fold_keeps new_Roll_def)

lemma roll_inv_update:
  "roll_inv (r\<lparr>rollVoteMask := vm\<rparr>) = roll_inv r" "roll_inv (r\<lparr>r_loot := l\<rparr>) = roll_inv r"
  "roll_inv (place_roll env slot r) = roll_inv r"
  by (simp_all add: roll_inv_def count_votes_def place_roll_def)

lemma started_place:
  assumes "start_ok env" "0 < totalPlayersRolling (collect_rollers env autopass guid i)"
  shows "started env autopass i slot (i\<lparr>li_is_blocked := True\<rparr>) (place_roll env slot (collect_rollers env autopass guid i))"
  using collect_rollers_spec [OF assms(1), of autopass guid i] assms(2)
  by (simp add: started_def roll_inv_update) (simp add: place_roll_def collect_keeps)

lemma started_mask:
  "started env autopass i slot i' (r\<lparr>rollVoteMask := vm\<rparr>) = started env autopass i slot i' r"
  by (simp add: started_def roll_inv_update)

lemma started_flags:
  "started env autopass i slot i' (allow_disenchant env item r) = started env autopass i slot i' r"
  "started env autopass i slot i' (forbid_need item r) = started env autopass i slot i' r"
  by (simp_all add: allow_disenchant_def forbid_need_def started_mask)

text \<open>Every roll of a loop belongs to an entry.\<close>

definition rolls_for :: "start_env \<Rightarrow> bool \<Rightarrow> u8 \<Rightarrow> loot_item list \<Rightarrow> loot_item list \<Rightarrow> roll list \<Rightarrow> bool" where
  "rolls_for env autopass slot items items' rs \<longleftrightarrow>
     length items' = length items \<and>
     (\<forall>r \<in> set rs. \<exists>k < length items. started env autopass (items ! k) (slot + of_nat k) (items' ! k) r)"

lemma rolls_for_Nil: "rolls_for env autopass slot [] [] []"
  by (simp add: rolls_for_def)

lemma rolls_for_skip:
  assumes "rolls_for env autopass (slot + 1) items items' rs"
  shows "rolls_for env autopass slot (i # items) (i' # items') rs"
  unfolding rolls_for_def
proof (intro conjI ballI)
  fix r assume "r \<in> set rs"
  then obtain k where k: "k < length items" "started env autopass (items ! k) (slot + 1 + of_nat k) (items' ! k) r"
    using assms by (auto simp: rolls_for_def)
  then show "\<exists>k < length (i # items). started env autopass ((i # items) ! k) (slot + of_nat k) ((i' # items') ! k) r"
    by (intro exI [of _ "Suc k"]) (simp add: algebra_simps)
qed (use assms in \<open>simp add: rolls_for_def\<close>)

lemma rolls_for_start:
  assumes "rolls_for env autopass (slot + 1) items items' rs" "started env autopass i slot i' r"
  shows "rolls_for env autopass slot (i # items) (i' # items') (r # rs)"
  using rolls_for_skip [OF assms(1), of i i'] assms(2) unfolding rolls_for_def by auto

lemmas rolls_for_intros = rolls_for_Nil rolls_for_skip rolls_for_start

lemma GroupLoot_items_rolls:
  assumes "start_ok env"
  shows "rolls_for env True slot items (fst (snd (GroupLoot_items env slot n items))) (fst (snd (snd (GroupLoot_items env slot n items))))"
  by (induction items arbitrary: slot n)
    (simp_all add: Let_def case_prod_beta started_place [OF assms] started_flags rolls_for_intros split: option.split)

lemma GroupLoot_quest_rolls:
  assumes "start_ok env"
  shows "rolls_for env False slot items (fst (snd (GroupLoot_quest_items env slot n items))) (fst (snd (snd (GroupLoot_quest_items env slot n items))))"
  by (induction items arbitrary: slot n)
    (simp_all add: Let_def case_prod_beta started_place [OF assms] started_flags rolls_for_intros split: option.split)

lemma NeedBeforeGreed_items_rolls:
  assumes "start_ok env"
  shows "rolls_for env True slot items (fst (snd (NeedBeforeGreed_items env slot n items))) (fst (snd (snd (NeedBeforeGreed_items env slot n items))))"
  by (induction items arbitrary: slot n)
    (simp_all add: Let_def case_prod_beta started_place [OF assms] started_flags rolls_for_intros split: option.split)

lemma NeedBeforeGreed_quest_rolls:
  assumes "start_ok env"
  shows "rolls_for env False slot items (fst (snd (NeedBeforeGreed_quest_items env slot n items))) (fst (snd (snd (NeedBeforeGreed_quest_items env slot n items))))"
  by (induction items arbitrary: slot n)
    (simp_all add: Let_def case_prod_beta started_place [OF assms] started_flags rolls_for_intros split: option.split)

lemma distribution_rolls:
  assumes "start_ok env" "f = GroupLoot \<or> f = NeedBeforeGreed"
    and "f env n items quest_items RollId = (acts, items', quest_items', RollId')"
  shows "\<exists>rs rs'. RollId' = RollId @ rs @ rs' \<and> rolls_for env True 0 items items' rs \<and>
    rolls_for env False (of_nat (length items)) quest_items quest_items' rs'"
  using assms(2)
proof (elim disjE)
  assume f: "f = GroupLoot"
  show ?thesis
    using assms(3) GroupLoot_items_rolls [OF assms(1), of 0 items n]
      GroupLoot_quest_rolls [OF assms(1), of "of_nat (length items)" quest_items "snd (snd (snd (GroupLoot_items env 0 n items)))"]
    by (auto simp: f GroupLoot_def case_prod_beta; blast)
next
  assume f: "f = NeedBeforeGreed"
  show ?thesis
    using assms(3) NeedBeforeGreed_items_rolls [OF assms(1), of 0 items n]
      NeedBeforeGreed_quest_rolls [OF assms(1), of "of_nat (length items)" quest_items "snd (snd (snd (NeedBeforeGreed_items env 0 n items)))"]
    by (auto simp: f NeedBeforeGreed_def case_prod_beta; blast)
qed




text \<open>
  When loot is distributed by group loot or need before greed, the new rolls are appended to the
  running ones; each belongs to one entry, ordinary or quest, which is now blocked; its players are
  exactly the members with a session who may have the item and are near, those who pass on
  everything have passed already (for ordinary entries) and the others have not voted; the totals
  agree with the votes and at least one player takes part.
\<close>

lemma rolls_started:
  assumes "start_ok env" "f = GroupLoot \<or> f = NeedBeforeGreed"
    and "f env n items quest_items RollId = (acts, items', quest_items', RollId')"
  shows "\<exists>rs rs'. RollId' = RollId @ rs @ rs' \<and> rolls_for env True 0 items items' rs \<and>
    rolls_for env False (of_nat (length items)) quest_items quest_items' rs'"
  by (rule distribution_rolls [OF assms])

section \<open>The life of the rolls of a group\<close>




lemma GetRoll_split: "GetRoll slot rs = Some (before, r, rest) \<Longrightarrow> rs = before @ r # rest \<and> is_roll slot r"
  by (induction rs arbitrary: before) (auto split: if_splits)











section \<open>Votes cast twice, players who leave\<close>

text \<open>
  C29: nothing keeps a player from voting again.  In a roll of two players who have not voted, the
  first choosing need and then pass closes the roll before the other is heard, and the
  player who passed wins it with the number 0.
\<close>

theorem second_vote_closes_roll:
  assumes "g < h" "r_votes r = [(g, NOT_EMITED_YET), (h, NOT_EMITED_YET)]" "totalPlayersRolling r = 2"
    and "totalNeed r = 0" "totalGreed r = 0" "totalPass r = 0"
    and "r_loot r = Some l" "\<not> re_items_empty env l" "re_online env g" "re_CanStore env g (r_itemid r)"
  shows "\<exists>rs. CountRollVote env g (itemSlot r) 1 [r] = ([SendLootRoll g 0 NEED], rs) \<and>
    CountRollVote env g (itemSlot r) 0 rs =
      ([SendLootRoll g 0 PASS, SendLootRollWon g 0 NEED, RollNeedCriteria g (r_itemid r) 0, LootTaken l (itemSlot r),
        StoreNewItem g (r_itemid r)], [])"
  using assms
  by (simp add: CountRollVote_def is_roll_def r_isValid_def map_find_def choice_vote_def cast_vote_def roll_done_def
      CountTheRoll_def give_item_def)

theorem second_vote_closes_roll_witness:
  "\<exists>rs. CountRollVote sample_dice 1 0 1 [two_votes\<lparr>r_votes := [(1, NOT_EMITED_YET), (2, NOT_EMITED_YET)], totalNeed := 0\<rparr>] =
      ([SendLootRoll 1 0 NEED], rs)"
  using second_vote_closes_roll [of 1 2 "two_votes\<lparr>r_votes := [(1, NOT_EMITED_YET), (2, NOT_EMITED_YET)], totalNeed := 0\<rparr>" 0 sample_dice]
  by (auto simp: two_votes_def sample_dice_def)

lemma find_leave_roll: "map_find g (r_votes (leave_roll g v r)) = None"
  by (simp add: leave_roll_totals map_find_erase)

text \<open>A call that finds neither a vote nor a complete roll does nothing.\<close>

lemma CountRollVote_idle:
  assumes "choice_vote c = None" "list_all (\<lambda>r. map_find g (r_votes r) = None \<or> \<not> roll_done r) rs"
  shows "CountRollVote env g slot c rs = ([], rs)"
  using assms by (auto simp: CountRollVote_def Let_def split: option.splits dest!: GetRoll_split)

lemma leave_rolls_idle:
  assumes "list_all (\<lambda>r. map_find g (r_votes r) = None) xs" "list_all (\<lambda>r. \<not> roll_done r) ys"
  shows "leave_rolls env g (length xs) (xs @ ys) =
    ([], xs @ map (\<lambda>r. case map_find g (r_votes r) of None \<Rightarrow> r | Some v \<Rightarrow> leave_roll g v r) ys)"
  using assms
proof (induction ys arbitrary: xs)
  case Nil
  then show ?case by (subst leave_rolls.simps) simp
next
  case (Cons r ys)
  show ?case
  proof (cases "map_find g (r_votes r)")
    case None
    then show ?thesis using Cons.IH [of "xs @ [r]"] Cons.prems by (subst leave_rolls.simps) simp
  next
    case (Some v)
    let ?r = "leave_roll g v r"
    have "list_all (\<lambda>r. map_find g (r_votes r) = None \<or> \<not> roll_done r) (xs @ ?r # ys)"
      using Cons.prems by (auto simp: find_leave_roll list_all_iff)
    then have "CountRollVote env g (ucast (r_itemGUID r)) MAX_ROLL_TYPE (xs @ ?r # ys) = ([], xs @ ?r # ys)"
      by (intro CountRollVote_idle) (auto simp: choice_vote_def MAX_ROLL_TYPE_def)
    then show ?thesis
      using Some Cons.IH [of "xs @ [?r]"] Cons.prems by (subst leave_rolls.simps) (simp add: Let_def find_leave_roll)
  qed
qed

text \<open>
  A player who leaves never closes a roll.  If no roll is complete, his departure takes his votes
  out of all rolls and nothing else happens: the call of \<open>CountRollVote\<close> with the item guid in place of
  the slot has no effect, even on a roll that waited only for him.
\<close>

lemma leaving_closes_no_roll:
  assumes "list_all (\<lambda>r. \<not> roll_done r) rs"
  shows "leave_rolls env g 0 rs =
    ([], map (\<lambda>r. case map_find g (r_votes r) of None \<Rightarrow> r | Some v \<Rightarrow> leave_roll g v r) rs)"
  using leave_rolls_idle [of g "[]" rs env] assms by simp

end
