(* ===== verification/GroupRoster.thy ===== *)
theory GroupRoster
  imports GroupRoll GuidParts
begin

text \<open>
  The roster of a group: \<^verbatim>\<open>src/server/game/Groups/Group.h\<close> and \<^verbatim>\<open>Group.cpp\<close>.

  A group keeps its members in a vector, the number of members of each of the eight subgroups while
  it is a raid, the invited players, the leader, the looter whose turn it is, the target icons and the
  running loot rolls.  What an operation does to players, to the database and to other managers is
  the list of actions it gives; the statements for the table \<^verbatim>\<open>group_member\<close> are carried out by
  \<open>exec_db\<close>.  What it asks about players comes from \<open>group_env\<close>.  The counters of the subgroups are
  an array of eight bytes that the code indexes without check: an index outside is the error
  \<open>Counter_Index\<close>.  A group that has been disbanded is \<open>None\<close>.
\<close>

unbundle bit_operations_syntax

section \<open>State\<close>

record member_slot =
  ms_guid :: u64
  ms_name :: string
  ms_group :: u8
  ms_flags :: u8
  ms_roles :: u8

record raid_marker =
  rk_pos :: "u32 \<times> u32 \<times> u32"
  rk_MapID :: u32
  rk_Mask :: u32
  rk_Slot :: u8

definition no_marker :: raid_marker where
  "no_marker = \<lparr>rk_pos = (0, 0, 0), rk_MapID = 0, rk_Mask = 0, rk_Slot = 0\<rparr>"

record group =
  m_memberSlots :: "member_slot list"
  m_invitees :: "u64 list"
  m_leaderGuid :: u64
  m_leaderName :: string
  m_groupType :: u8
  m_bgGroup :: bool
  m_bfGroup :: bool
  m_targetIcons :: "u64 list"
  m_lootMethod :: u8
  m_lootThreshold :: u32
  m_looterGuid :: u64
  RollId :: "roll list"
  m_subGroupsCounts :: "u8 list option"
  m_guid :: u64
  m_counter :: u32
  m_maxEnchantingLevel :: u32
  m_dbStoreId :: u32
  m_dungeonDifficulty :: u8
  m_raidDifficulty :: u8
  m_RaidMarkers :: "raid_marker list"

datatype group_error = Counter_Index | Failed_Assert

datatype remove_method = REMOVE_DEFAULT | REMOVE_KICK | REMOVE_LEAVE

record group_env =
  ge_online :: "u64 \<Rightarrow> bool"
  ge_linked :: "u64 \<Rightarrow> bool"
  ge_name :: "u64 \<Rightarrow> string"
  ge_in_group :: "u64 \<Rightarrow> bool"
  ge_in_normal_group :: "u64 \<Rightarrow> bool"
  ge_invited :: "u64 \<Rightarrow> bool"
  ge_group_here :: "u64 \<Rightarrow> bool"
  ge_original_here :: "u64 \<Rightarrow> bool"
  ge_other_group :: "u64 \<Rightarrow> bool"
  ge_enchanting :: "u64 \<Rightarrow> u32"
  ge_heroic_level :: "u64 \<Rightarrow> bool"
  ge_dungeonDifficulty :: "u64 \<Rightarrow> u8"
  ge_raidDifficulty :: "u64 \<Rightarrow> u8"
  ge_near :: "u64 \<Rightarrow> bool"
  ge_lfg_dungeon :: bool
  ge_lfg_outside :: "u64 \<Rightarrow> bool"
  ge_rolls :: roll_env

text \<open>Rows of the table \<^verbatim>\<open>group_member\<close>, by the number of the character.\<close>

record member_row =
  row_guid :: u32
  row_memberFlags :: u8
  row_subgroup :: u8
  row_roles :: u8

type_synonym member_table = "(u32, member_row) std_map"

datatype group_statement =
    InsertGroup u32
  | InsertMember u32 u32 u8 u8 u8
  | DeleteMember u32
  | UpdateSubgroup u8 u32
  | UpdateFlags u8 u32
  | UpdateRoles u8 u32
  | UpdateLeader u32 u32
  | UpdateType u8 u32
  | DeleteGroup u32
  | DeleteMembers u32
  | DeleteLfg u32

text \<open>What happens to a player, and what is sent to him.\<close>

datatype player_action =
    SetGroupInvite u64
  | SetGroup "u8 option"
  | SetOriginalGroup "u8 option"
  | SetBattleRaid u8
  | SetSubGroup u8
  | SetOriginalSubGroup u8
  | RemoveFromBattleRaid
  | SetLeaderFlag bool
  | CheckBoundInstance
  | ResetPlayerInstances
  | SetPlayerDungeonDifficulty u8
  | SetPlayerRaidDifficulty u8
  | BroadcastMemberFields
  | UpdateForQuestWorldObjects
  | ForceGroupValues
  | SendGroupUninvite
  | SendGroupDestroyed
  | SendOtherGroupUpdate
  | SendUpdatePlayerAtLeave u32
  | HomebindIfInstance

datatype group_event =
    OnInviteMember u64
  | OnAddMember u64
  | OnRemoveMember u64 remove_method u64
  | OnChangeLeader u64 u64
  | OnDisband

datatype group_action =
    DB group_statement
  | Player u64 player_action
  | Script group_event
  | Roll_Action roll_action
  | SendUpdate
  | SendSetLeader string
  | SendTargetIcon u8 u64 u64
  | SendRaidMarkers
  | DropPermanentBinds
  | ConvertInstancesToGroup u64 bool
  | ResetGroupInstances
  | RegisterGroupDbStoreId u32
  | FreeGroupDbStoreId u32
  | RemoveGroup u64

text \<open>What a statement does to the table.  An insert with a number that is there already fails.\<close>

fun exec_db :: "group_statement \<Rightarrow> member_table \<Rightarrow> member_table" where
  "exec_db (InsertMember store low flags sub roles) t =
     (if map_find low t = None
      then map_set low \<lparr>row_guid = store, row_memberFlags = flags, row_subgroup = sub, row_roles = roles\<rparr> t else t)"
| "exec_db (DeleteMember low) t = map_erase low t"
| "exec_db (UpdateSubgroup sub low) t =
     (case map_find low t of None \<Rightarrow> t | Some r \<Rightarrow> map_set low (r\<lparr>row_subgroup := sub\<rparr>) t)"
| "exec_db (UpdateFlags flags low) t =
     (case map_find low t of None \<Rightarrow> t | Some r \<Rightarrow> map_set low (r\<lparr>row_memberFlags := flags\<rparr>) t)"
| "exec_db (UpdateRoles roles low) t =
     (case map_find low t of None \<Rightarrow> t | Some r \<Rightarrow> map_set low (r\<lparr>row_roles := roles\<rparr>) t)"
| "exec_db (DeleteMembers store) t = filter (\<lambda>x. row_guid (snd x) \<noteq> store) t"
| "exec_db _ t = t"

definition run_db :: "group_action list \<Rightarrow> member_table \<Rightarrow> member_table" where
  "run_db acts t = fold (\<lambda>a. case a of DB stmt \<Rightarrow> exec_db stmt | _ \<Rightarrow> id) acts t"

section \<open>Questions\<close>

definition isLFGGroup :: "group \<Rightarrow> bool" where
  "isLFGGroup g \<longleftrightarrow> m_groupType g AND 8 \<noteq> 0"

definition isRaidGroup :: "group \<Rightarrow> bool" where
  "isRaidGroup g \<longleftrightarrow> m_groupType g AND 2 \<noteq> 0"

abbreviation isBGGroup :: "group \<Rightarrow> bool" where
  "isBGGroup g \<equiv> m_bgGroup g"

abbreviation isBFGroup :: "group \<Rightarrow> bool" where
  "isBFGroup g \<equiv> m_bfGroup g"

text \<open>The groups that are kept in the database.\<close>

definition stored :: "group \<Rightarrow> bool" where
  "stored g \<longleftrightarrow> \<not> isBGGroup g \<and> \<not> isBFGroup g"

definition IsFull :: "group \<Rightarrow> bool" where
  "IsFull g \<longleftrightarrow> (if isRaidGroup g then length (m_memberSlots g) \<ge> 40 else length (m_memberSlots g) \<ge> 5)"

definition IsCreated :: "group \<Rightarrow> bool" where
  "IsCreated g \<longleftrightarrow> length (m_memberSlots g) > 0"

definition getMemberSlot :: "u64 \<Rightarrow> group \<Rightarrow> member_slot option" where
  "getMemberSlot guid g = find (\<lambda>s. ms_guid s = guid) (m_memberSlots g)"

definition IsMember :: "u64 \<Rightarrow> group \<Rightarrow> bool" where
  "IsMember guid g \<longleftrightarrow> getMemberSlot guid g \<noteq> None"

definition IsLeader :: "u64 \<Rightarrow> group \<Rightarrow> bool" where
  "IsLeader guid g \<longleftrightarrow> m_leaderGuid g = guid"

definition GetMemberGUID :: "string \<Rightarrow> group \<Rightarrow> u64" where
  "GetMemberGUID name g =
     (case find (\<lambda>s. ms_name s = name) (m_memberSlots g) of None \<Rightarrow> 0 | Some s \<Rightarrow> ms_guid s)"

definition IsAssistant :: "u64 \<Rightarrow> group \<Rightarrow> bool" where
  "IsAssistant guid g \<longleftrightarrow> (case getMemberSlot guid g of None \<Rightarrow> False | Some s \<Rightarrow> ms_flags s AND 1 \<noteq> 0)"

definition GetMemberGroup :: "u64 \<Rightarrow> group \<Rightarrow> u8" where
  "GetMemberGroup guid g = (case getMemberSlot guid g of None \<Rightarrow> 9 | Some s \<Rightarrow> ms_group s)"

definition SameSubGroup :: "u64 \<Rightarrow> u64 \<Rightarrow> group \<Rightarrow> bool" where
  "SameSubGroup guid1 guid2 g =
     (case (getMemberSlot guid1 g, getMemberSlot guid2 g) of
        (Some s1, Some s2) \<Rightarrow> ms_group s1 = ms_group s2
      | _ \<Rightarrow> False)"

definition HasFreeSlotSubGroup :: "u8 \<Rightarrow> group \<Rightarrow> group_error + bool" where
  "HasFreeSlotSubGroup sub g =
     (case m_subGroupsCounts g of
        None \<Rightarrow> Inr False
      | Some cs \<Rightarrow> if unat sub < length cs then Inr (cs ! unat sub < 5) else Inl Counter_Index)"

definition getGroupMemberRole :: "u64 \<Rightarrow> group \<Rightarrow> u32" where
  "getGroupMemberRole guid g = (case getMemberSlot guid g of None \<Rightarrow> 0 | Some s \<Rightarrow> ucast (ms_roles s))"

section \<open>Counters and slots\<close>

definition count_step :: "(u8 \<Rightarrow> u8) \<Rightarrow> u8 \<Rightarrow> u8 list \<Rightarrow> group_error + u8 list" where
  "count_step f sub cs = (if unat sub < length cs then Inr (cs[unat sub := f (cs ! unat sub)]) else Inl Counter_Index)"

definition update_counts :: "(u8 \<Rightarrow> u8) \<Rightarrow> u8 \<Rightarrow> group \<Rightarrow> group_error + group" where
  "update_counts f sub g =
     (case m_subGroupsCounts g of
        None \<Rightarrow> Inr g
      | Some cs \<Rightarrow> ebind (count_step f sub cs) (\<lambda>cs. Inr (g\<lparr>m_subGroupsCounts := Some cs\<rparr>)))"

definition SubGroupCounterIncrease :: "u8 \<Rightarrow> group \<Rightarrow> group_error + group" where
  "SubGroupCounterIncrease = update_counts (\<lambda>c. c + 1)"

definition SubGroupCounterDecrease :: "u8 \<Rightarrow> group \<Rightarrow> group_error + group" where
  "SubGroupCounterDecrease = update_counts (\<lambda>c. c - 1)"

definition initRaidSubGroupsCounter :: "group \<Rightarrow> group_error + group" where
  "initRaidSubGroupsCounter g =
     ebind (efold (\<lambda>s. count_step (\<lambda>c. c + 1) (ms_group s)) (m_memberSlots g) (replicate 8 0))
       (\<lambda>cs. Inr (g\<lparr>m_subGroupsCounts := Some cs\<rparr>))"

text \<open>The first slot of a player is changed through the iterator; the others stay.\<close>

fun update_slot :: "u64 \<Rightarrow> (member_slot \<Rightarrow> member_slot) \<Rightarrow> member_slot list \<Rightarrow> member_slot list" where
  "update_slot guid f [] = []"
| "update_slot guid f (s # ss) = (if ms_guid s = guid then f s # ss else s # update_slot guid f ss)"

fun erase_slot :: "u64 \<Rightarrow> member_slot list \<Rightarrow> member_slot list" where
  "erase_slot guid [] = []"
| "erase_slot guid (s # ss) = (if ms_guid s = guid then ss else s # erase_slot guid ss)"

definition ToggleGroupMemberFlag :: "u8 \<Rightarrow> bool \<Rightarrow> member_slot \<Rightarrow> member_slot" where
  "ToggleGroupMemberFlag flag apply s =
     (if apply then s\<lparr>ms_flags := ms_flags s OR flag\<rparr> else s\<lparr>ms_flags := ms_flags s AND NOT flag\<rparr>)"

definition RemoveUniqueGroupMemberFlag :: "u8 \<Rightarrow> group \<Rightarrow> group" where
  "RemoveUniqueGroupMemberFlag flag g =
     g\<lparr>m_memberSlots :=
        map (\<lambda>s. if ms_flags s AND flag \<noteq> 0 then s\<lparr>ms_flags := ms_flags s AND NOT flag\<rparr> else s) (m_memberSlots g)\<rparr>"

section \<open>Joining\<close>

definition new_Group :: "u64 \<Rightarrow> bool \<Rightarrow> bool \<Rightarrow> group" where
  "new_Group guid bg bf =
     \<lparr>m_memberSlots = [], m_invitees = [], m_leaderGuid = 0, m_leaderName = '''', m_groupType = 0, m_bgGroup = bg,
      m_bfGroup = bf, m_targetIcons = replicate 8 0, m_lootMethod = 0, m_lootThreshold = 2, m_looterGuid = 0,
      RollId = [], m_subGroupsCounts = None, m_guid = guid, m_counter = 0, m_maxEnchantingLevel = 0, m_dbStoreId = 0,
      m_dungeonDifficulty = 1, m_raidDifficulty = 3,
      m_RaidMarkers = replicate 5 no_marker\<rparr>"

definition free_subgroup :: "group \<Rightarrow> u8 option" where
  "free_subgroup g =
     (case m_subGroupsCounts g of
        None \<Rightarrow> Some 0
      | Some cs \<Rightarrow> map_option of_nat (find (\<lambda>i. cs ! i < 5) [0..<8]))"

definition join_actions :: "group_env \<Rightarrow> u64 \<Rightarrow> u8 \<Rightarrow> group \<Rightarrow> group_action list" where
  "join_actions env guid sub g =
     [Player guid (SetGroupInvite 0),
      if ge_in_group env guid \<and> (isBGGroup g \<or> isBFGroup g) then Player guid (SetBattleRaid sub)
      else if ge_in_group env guid then Player guid (SetOriginalGroup (Some sub))
      else Player guid (SetGroup (Some sub)),
      Player guid CheckBoundInstance] @
     (if stored g then [DB (InsertMember (m_dbStoreId g) (GUID_LOPART guid) 0 sub 0)] else []) @
     [SendUpdate, Script (OnAddMember guid)] @
     (if \<not> IsLeader guid g \<and> stored g
      then Player guid ResetPlayerInstances #
        (if ge_heroic_level env guid
         then (if ge_dungeonDifficulty env guid \<noteq> m_dungeonDifficulty g
               then [Player guid (SetPlayerDungeonDifficulty (m_dungeonDifficulty g))] else []) @
              (if ge_raidDifficulty env guid \<noteq> m_raidDifficulty g
               then [Player guid (SetPlayerRaidDifficulty (m_raidDifficulty g))] else [])
         else [])
      else []) @
     (if isRaidGroup g then [Player guid UpdateForQuestWorldObjects] else []) @ [Player guid BroadcastMemberFields]"

text \<open>The result tells the actions, whether the player was added, and the group.\<close>

definition AddMember :: "group_env \<Rightarrow> u64 \<Rightarrow> group \<Rightarrow> group_error + group_action list \<times> bool \<times> group" where
  "AddMember env guid g =
     (case free_subgroup g of
        None \<Rightarrow> Inr ([], False, g)
      | Some sub \<Rightarrow>
          let member = \<lparr>ms_guid = guid, ms_name = ge_name env guid, ms_group = sub, ms_flags = 0, ms_roles = 0\<rparr>
          in ebind (SubGroupCounterIncrease sub (g\<lparr>m_memberSlots := m_memberSlots g @ [member]\<rparr>))
               (\<lambda>g. let g = (if isRaidGroup g then g else g\<lparr>m_targetIcons := replicate 8 0\<rparr>)
                    in Inr (join_actions env guid sub g, True,
                            g\<lparr>m_maxEnchantingLevel := max (m_maxEnchantingLevel g) (ge_enchanting env guid)\<rparr>)))"

definition Create :: "group_env \<Rightarrow> u32 \<Rightarrow> u64 \<Rightarrow> group \<Rightarrow> group_error + group_action list \<times> bool \<times> group" where
  "Create env dbStoreId leader g =
     ebind
       (let g = g\<lparr>m_leaderGuid := leader, m_leaderName := ge_name env leader,
                  m_groupType := (if isBGGroup g \<or> isBFGroup g then 3 else 0)\<rparr>
        in if m_groupType g AND 2 \<noteq> 0 then initRaidSubGroupsCounter g else Inr g)
       (\<lambda>g. let g = g\<lparr>m_lootMethod := 3, m_lootThreshold := 2, m_looterGuid := leader, m_dungeonDifficulty := 1,
                      m_raidDifficulty := 3\<rparr>
            in if stored g
               then
                 let g = g\<lparr>m_dungeonDifficulty := ge_dungeonDifficulty env leader,
                           m_raidDifficulty := ge_raidDifficulty env leader, m_dbStoreId := dbStoreId\<rparr>
                 in ebind (AddMember env leader g)
                      (\<lambda>(acts, ok, g).
                         if ok
                         then Inr ([Player leader (SetLeaderFlag True), RegisterGroupDbStoreId dbStoreId, DB (InsertGroup dbStoreId)] @ acts @
                                   [ConvertInstancesToGroup leader False], True, g)
                         else Inl Failed_Assert)
               else ebind (AddMember env leader g) (\<lambda>(acts, ok, g). Inr (Player leader (SetLeaderFlag True) # acts, ok, g)))"

text \<open>\<open>LoadMemberFromDB\<close>; \<open>name\<close> is the name found for the character, if there is one.\<close>

definition LoadMemberFromDB ::
  "u32 \<Rightarrow> u8 \<Rightarrow> u8 \<Rightarrow> u8 \<Rightarrow> string option \<Rightarrow> group \<Rightarrow> group_error + group_action list \<times> group" where
  "LoadMemberFromDB guidLow memberFlags subgroup roles name g =
     (case name of
        None \<Rightarrow> Inr ([DB (DeleteMember guidLow)], g)
      | Some n \<Rightarrow>
          let member = \<lparr>ms_guid = player_guid guidLow, ms_name = n, ms_group = subgroup, ms_flags = memberFlags, ms_roles = roles\<rparr>
          in ebind (SubGroupCounterIncrease subgroup (g\<lparr>m_memberSlots := m_memberSlots g @ [member]\<rparr>)) (\<lambda>g. Inr ([], g)))"

section \<open>Invitations\<close>

definition RemoveInvite :: "u64 \<Rightarrow> group \<Rightarrow> group_action list \<times> group" where
  "RemoveInvite guid g = ([Player guid (SetGroupInvite 0)], g\<lparr>m_invitees := removeAll guid (m_invitees g)\<rparr>)"

text \<open>\<open>ge_in_normal_group\<close>: the player's group, or the original one if that is a battleground or battlefield raid.\<close>

definition AddInvite :: "group_env \<Rightarrow> u64 \<Rightarrow> group \<Rightarrow> (group_action list \<times> group) option" where
  "AddInvite env guid g =
     (if ge_invited env guid \<or> ge_in_normal_group env guid then None
      else
        (case RemoveInvite guid g of
           (acts, g) \<Rightarrow>
             Some (acts @ [Player guid (SetGroupInvite (m_guid g)), Script (OnInviteMember guid)],
                   g\<lparr>m_invitees := insort guid (m_invitees g)\<rparr>)))"

definition AddLeaderInvite :: "group_env \<Rightarrow> u64 \<Rightarrow> group \<Rightarrow> (group_action list \<times> group) option" where
  "AddLeaderInvite env guid g =
     map_option (\<lambda>(acts, g). (acts @ [Player guid (SetLeaderFlag True)], g\<lparr>m_leaderGuid := guid, m_leaderName := ge_name env guid\<rparr>))
       (AddInvite env guid g)"

definition RemoveAllInvites :: "group_env \<Rightarrow> group \<Rightarrow> group_action list \<times> group" where
  "RemoveAllInvites env g =
     (map (\<lambda>guid. Player guid (SetGroupInvite 0)) (filter (ge_online env) (m_invitees g)), g\<lparr>m_invitees := []\<rparr>)"

section \<open>Kinds of group\<close>

definition type_statement :: "group \<Rightarrow> group_action list" where
  "type_statement g = (if stored g then [DB (UpdateType (m_groupType g) (m_dbStoreId g))] else [])"

definition quest_updates :: "group_env \<Rightarrow> group \<Rightarrow> group_action list" where
  "quest_updates env g =
     map (\<lambda>s. Player (ms_guid s) UpdateForQuestWorldObjects) (filter (\<lambda>s. ge_online env (ms_guid s)) (m_memberSlots g))"

definition ChangeFlagEveryoneAssistant :: "bool \<Rightarrow> group \<Rightarrow> group_action list \<times> group" where
  "ChangeFlagEveryoneAssistant apply g =
     ([SendUpdate], g\<lparr>m_groupType := (if apply then m_groupType g OR 0x40 else m_groupType g AND NOT 0x40)\<rparr>)"

definition ConvertToLFG :: "group \<Rightarrow> group_action list \<times> group" where
  "ConvertToLFG g =
     (let g = g\<lparr>m_groupType := m_groupType g OR 8 OR 4, m_lootMethod := 4\<rparr>
      in (type_statement g @ [SendUpdate], g))"

definition ConvertToRaid :: "group_env \<Rightarrow> group \<Rightarrow> group_error + group_action list \<times> group" where
  "ConvertToRaid env g =
     ebind (initRaidSubGroupsCounter (g\<lparr>m_groupType := m_groupType g OR 2\<rparr>))
       (\<lambda>g. Inr (type_statement g @ [SendUpdate] @ quest_updates env g, g))"

definition ConvertToGroup :: "group_env \<Rightarrow> group \<Rightarrow> group_action list \<times> group" where
  "ConvertToGroup env g =
     (if length (m_memberSlots g) > 5 then ([], g)
      else
        let g = g\<lparr>m_groupType := 0, m_subGroupsCounts := None\<rparr>
        in (type_statement g @ [SendUpdate] @ quest_updates env g, g))"

section \<open>Leaving\<close>

text \<open>The loop over the members that are online when the group is disbanded.\<close>

fun disband_members :: "group_env \<Rightarrow> bool \<Rightarrow> group \<Rightarrow> u32 \<Rightarrow> member_slot list \<Rightarrow> group_action list" where
  "disband_members env hide g counter [] = []"
| "disband_members env hide g counter (s # ss) =
     (if \<not> ge_online env (ms_guid s) then disband_members env hide g counter ss
      else
        map (Player (ms_guid s))
          ((if isBGGroup g \<or> isBFGroup g then [RemoveFromBattleRaid]
            else if ge_original_here env (ms_guid s) then [SetOriginalGroup None]
            else [SetGroup None]) @
           (if isRaidGroup g then [UpdateForQuestWorldObjects] else []) @
           (if hide then [] else [SendGroupDestroyed]) @
           (if ge_other_group env (ms_guid s) then [SendOtherGroupUpdate] else [SendUpdatePlayerAtLeave counter]) @
           [HomebindIfInstance]) @
        disband_members env hide g (if ge_other_group env (ms_guid s) then counter else counter + 1) ss)"

definition Disband :: "group_env \<Rightarrow> bool \<Rightarrow> group \<Rightarrow> group_action list" where
  "Disband env hide g =
     [Script OnDisband] @ disband_members env hide g (m_counter g) (m_memberSlots g) @
     fst (RemoveAllInvites env g) @ [SendRaidMarkers] @
     (if stored g
      then [DB (DeleteGroup (m_dbStoreId g)), DB (DeleteMembers (m_dbStoreId g)), ResetGroupInstances,
            DB (DeleteLfg (m_dbStoreId g)), FreeGroupDbStoreId (m_dbStoreId g)]
      else []) @
     [RemoveGroup (m_guid g)]"

definition ChangeLeader :: "group_env \<Rightarrow> u64 \<Rightarrow> group \<Rightarrow> group_action list \<times> group" where
  "ChangeLeader env newLeader g =
     (case getMemberSlot newLeader g of
        None \<Rightarrow> ([], g)
      | Some slot \<Rightarrow>
          if \<not> ge_online env newLeader then ([], g)
          else
            ([Script (OnChangeLeader (m_leaderGuid g) newLeader)] @
             (if stored g
              then [DropPermanentBinds, ConvertInstancesToGroup newLeader True,
                    DB (UpdateLeader (GUID_LOPART newLeader) (m_dbStoreId g))]
              else []) @
             (if ge_online env (m_leaderGuid g) then [Player (m_leaderGuid g) (SetLeaderFlag False)] else []) @
             [Player newLeader (SetLeaderFlag True), SendSetLeader (ms_name slot)],
             g\<lparr>m_leaderGuid := newLeader, m_leaderName := ge_name env newLeader,
               m_memberSlots := update_slot newLeader (ToggleGroupMemberFlag 1 False) (m_memberSlots g)\<rparr>))"

definition ResetMaxEnchantingLevel :: "group_env \<Rightarrow> group \<Rightarrow> group" where
  "ResetMaxEnchantingLevel env g =
     g\<lparr>m_maxEnchantingLevel :=
        fold (\<lambda>s m. if ge_online env (ms_guid s) \<and> m < ge_enchanting env (ms_guid s) then ge_enchanting env (ms_guid s) else m)
          (m_memberSlots g) 0\<rparr>"

definition leave_player :: "group_env \<Rightarrow> u64 \<Rightarrow> remove_method \<Rightarrow> group \<Rightarrow> group_action list \<times> group" where
  "leave_player env guid method g =
     (if ge_online env guid
      then
        (map (Player guid)
           ((if isBGGroup g \<or> isBFGroup g then [RemoveFromBattleRaid]
             else [if ge_original_here env guid then SetOriginalGroup None else SetGroup None, UpdateForQuestWorldObjects]) @
            (if method = REMOVE_KICK then [SendGroupUninvite] else []) @
            [SendUpdatePlayerAtLeave (m_counter g), HomebindIfInstance]),
         g\<lparr>m_counter := m_counter g + 1\<rparr>)
      else ([], g))"

definition remove_slot :: "u64 \<Rightarrow> group \<Rightarrow> group_error + group" where
  "remove_slot guid g =
     (case getMemberSlot guid g of
        None \<Rightarrow> Inr g
      | Some slot \<Rightarrow>
          ebind (SubGroupCounterDecrease (ms_group slot) g)
            (\<lambda>g. Inr (g\<lparr>m_memberSlots := erase_slot guid (m_memberSlots g)\<rparr>)))"

text \<open>The first member who is online becomes leader if the leader has left.\<close>

definition pick_leader :: "group_env \<Rightarrow> u64 \<Rightarrow> group \<Rightarrow> group_action list \<times> group" where
  "pick_leader env guid g =
     (if m_leaderGuid g \<noteq> guid then ([], g)
      else
        (case find (\<lambda>s. ge_online env (ms_guid s)) (m_memberSlots g) of
           None \<Rightarrow> ([], g)
         | Some s \<Rightarrow> ChangeLeader env (ms_guid s) g))"

definition lfg_abandoned :: "group_env \<Rightarrow> group \<Rightarrow> bool" where
  "lfg_abandoned env g \<longleftrightarrow>
     isLFGGroup g \<and> length (m_memberSlots g) = 1 \<and>
     ((ge_online env (m_leaderGuid g) \<and> ge_lfg_dungeon env \<and> ge_lfg_outside env (m_leaderGuid g)) \<or> \<not> ge_lfg_dungeon env)"

text \<open>\<open>m_memberMgr.getSize()\<close>: how many members have a player object linked to the group.\<close>

definition linked_size :: "group_env \<Rightarrow> group \<Rightarrow> nat" where
  "linked_size env g = length (filter (\<lambda>s. ge_linked env (ms_guid s)) (m_memberSlots g))"

definition RemoveMember ::
  "group_env \<Rightarrow> u64 \<Rightarrow> remove_method \<Rightarrow> u64 \<Rightarrow> group \<Rightarrow> group_error + group_action list \<times> bool \<times> group option" where
  "RemoveMember env guid method kicker g =
     (let acts =
        map (\<lambda>s. Player (ms_guid s) ForceGroupValues) (filter (\<lambda>s. ge_online env (ms_guid s)) (m_memberSlots g)) @
        [Script (OnRemoveMember guid method kicker)]
      in
      if isLFGGroup g \<and> method = REMOVE_KICK then Inr (acts, m_memberSlots g \<noteq> [], Some g)
      else if length (m_memberSlots g) > (if isBGGroup g \<or> isLFGGroup g \<or> isBFGroup g then 1 else 2)
      then
        let (acts1, g) = leave_player env guid method g;
            acts2 = (if stored g then [DB (DeleteMember (GUID_LOPART guid))] else []);
            g = (if ge_online env guid \<and> ge_enchanting env guid \<noteq> 0 \<or> \<not> ge_online env guid
                 then ResetMaxEnchantingLevel env g else g);
            (acts3, rolls) = leave_rolls (ge_rolls env) guid 0 (RollId g);
            g = g\<lparr>RollId := rolls\<rparr>
        in ebind (remove_slot guid g)
             (\<lambda>g. let (acts4, g) = pick_leader env guid g;
                      acts = acts @ acts1 @ acts2 @ map Roll_Action acts3 @ acts4 @ [SendUpdate]
                  in if lfg_abandoned env g then Inr (acts @ Disband env False g, False, None)
                     else if linked_size env g < (if isLFGGroup g \<or> isBGGroup g then 1 else 2)
                     then Inr (acts @ Disband env False g, True, None)
                     else Inr (acts, True, Some g))
      else Inr (acts @ Disband env False g, False, None))"

text \<open>\<open>Player::UninviteFromGroup\<close>, for the group of the invitation.\<close>

definition UninviteFromGroup :: "group_env \<Rightarrow> u64 \<Rightarrow> group \<Rightarrow> group_action list \<times> group option" where
  "UninviteFromGroup env guid g =
     (case RemoveInvite guid g of
        (acts, g) \<Rightarrow>
          if length (m_memberSlots g) \<le> 1
          then (acts @ (if IsCreated g then Disband env True g else fst (RemoveAllInvites env g)), None)
          else (acts, Some g))"

section \<open>Subgroups, flags and roles\<close>

definition ChangeMembersGroup :: "group_env \<Rightarrow> u64 \<Rightarrow> u8 \<Rightarrow> group \<Rightarrow> group_error + group_action list \<times> group" where
  "ChangeMembersGroup env guid sub g =
     (if \<not> isRaidGroup g \<or> \<not> IsMember guid g then Inr ([], g)
      else
        let prevSubGroup = GetMemberGroup guid g
        in if prevSubGroup = sub then Inr ([], g)
           else
             ebind (SubGroupCounterIncrease sub
                 (g\<lparr>m_memberSlots := update_slot guid (\<lambda>s. s\<lparr>ms_group := sub\<rparr>) (m_memberSlots g)\<rparr>))
               (\<lambda>g. ebind (SubGroupCounterDecrease prevSubGroup g)
                  (\<lambda>g. Inr ((if stored g then [DB (UpdateSubgroup sub (GUID_LOPART guid))] else []) @
                            (if ge_online env guid
                             then [Player guid (if ge_group_here env guid then SetSubGroup sub else SetOriginalSubGroup sub)]
                             else []) @ [SendUpdate], g))))"

text \<open>The flags are 1 for an assistant, 2 for the main tank and 4 for the main assist.\<close>

definition SetGroupMemberFlag :: "u64 \<Rightarrow> bool \<Rightarrow> u8 \<Rightarrow> group \<Rightarrow> group_action list \<times> group" where
  "SetGroupMemberFlag guid apply flag g =
     (if \<not> isRaidGroup g \<or> \<not> IsMember guid g \<or> flag \<notin> {1, 2, 4} then ([], g)
      else
        let g = (if flag = 1 then g else RemoveUniqueGroupMemberFlag flag g);
            g = g\<lparr>m_memberSlots := update_slot guid (ToggleGroupMemberFlag flag apply) (m_memberSlots g)\<rparr>
        in ((case getMemberSlot guid g of
               None \<Rightarrow> [] | Some s \<Rightarrow> [DB (UpdateFlags (ms_flags s) (GUID_LOPART guid))]) @ [SendUpdate], g))"

definition setGroupMemberRole :: "u64 \<Rightarrow> u32 \<Rightarrow> group \<Rightarrow> group_action list \<times> group" where
  "setGroupMemberRole guid role g =
     ([DB (UpdateRoles (ucast role) (GUID_LOPART guid))],
      g\<lparr>m_memberSlots := update_slot guid (\<lambda>s. s\<lparr>ms_roles := ucast role\<rparr>) (m_memberSlots g)\<rparr>)"

definition SetLfgRoles :: "u64 \<Rightarrow> u8 \<Rightarrow> group \<Rightarrow> group_action list \<times> group" where
  "SetLfgRoles guid roles g =
     (if IsMember guid g
      then ([SendUpdate], g\<lparr>m_memberSlots := update_slot guid (\<lambda>s. s\<lparr>ms_roles := roles\<rparr>) (m_memberSlots g)\<rparr>)
      else ([], g))"

section \<open>Looter, icons and markers\<close>

definition slot_index :: "u64 \<Rightarrow> member_slot list \<Rightarrow> nat" where
  "slot_index guid ss = length (takeWhile (\<lambda>s. ms_guid s \<noteq> guid) ss)"

definition UpdateLooterGuid :: "group_env \<Rightarrow> bool \<Rightarrow> group \<Rightarrow> group_action list \<times> group" where
  "UpdateLooterGuid env ifneed g =
     (let near = (\<lambda>s. ge_online env (ms_guid s) \<and> ge_near env (ms_guid s));
          ss = m_memberSlots g;
          found = slot_index (m_looterGuid g) ss < length ss;
          it = (if found then Suc (slot_index (m_looterGuid g) ss) else length ss)
      in if m_lootMethod g = 2 \<or> m_lootMethod g = 0 then ([], g)
         else if found \<and> ifneed \<and> ge_online env (m_looterGuid g) \<and> ge_near env (m_looterGuid g) then ([], g)
         else
           (case (case find near (drop it ss) of Some s \<Rightarrow> Some s | None \<Rightarrow> find near (take it ss)) of
              Some s \<Rightarrow> if m_looterGuid g \<noteq> ms_guid s then ([SendUpdate], g\<lparr>m_looterGuid := ms_guid s\<rparr>) else ([], g)
            | None \<Rightarrow> ([SendUpdate], g\<lparr>m_looterGuid := 0\<rparr>)))"

definition set_icon :: "nat \<Rightarrow> u64 \<Rightarrow> u64 \<Rightarrow> group_action list \<times> group \<Rightarrow> group_action list \<times> group" where
  "set_icon i who target = (\<lambda>(acts, g). (acts @ [SendTargetIcon (of_nat i) who target],
     g\<lparr>m_targetIcons := (m_targetIcons g)[i := target]\<rparr>))"

definition SetTargetIcon :: "u8 \<Rightarrow> u64 \<Rightarrow> u64 \<Rightarrow> group \<Rightarrow> group_action list \<times> group" where
  "SetTargetIcon icon who target g =
     (if icon \<ge> 8 then ([], g)
      else
        set_icon (unat icon) who target
          (if target \<noteq> 0
           then fold (\<lambda>i ag. if m_targetIcons (snd ag) ! i = target then set_icon i 0 0 ag else ag) [0..<8] ([], g)
           else ([], g)))"

definition AddRaidMarker :: "u8 \<Rightarrow> u32 \<Rightarrow> u32 \<times> u32 \<times> u32 \<Rightarrow> group \<Rightarrow> group_action list \<times> group" where
  "AddRaidMarker slot mapid pos g =
     (if slot \<ge> 5 then ([], g)
      else ([SendRaidMarkers],
        g\<lparr>m_RaidMarkers := (m_RaidMarkers g)[unat slot :=
           \<lparr>rk_pos = pos, rk_MapID = mapid, rk_Mask = push_bit (unat slot) 1, rk_Slot = slot\<rparr>]\<rparr>))"

definition RemoveRaidMarker :: "u8 \<Rightarrow> group \<Rightarrow> group_action list \<times> group" where
  "RemoveRaidMarker slot g =
     (if slot \<ge> 5 then ([], g)
      else ([SendRaidMarkers], g\<lparr>m_RaidMarkers := (m_RaidMarkers g)[unat slot := no_marker]\<rparr>))"

definition RemoveAllRaidMarkers :: "group \<Rightarrow> group_action list \<times> group" where
  "RemoveAllRaidMarkers g = ([SendRaidMarkers], g\<lparr>m_RaidMarkers := replicate 5 no_marker\<rparr>)"

definition GetActiveMarkers :: "group \<Rightarrow> u32" where
  "GetActiveMarkers g = fold (\<lambda>m l. if rk_Mask m \<noteq> 0 then l OR rk_Mask m else l) (m_RaidMarkers g) 0"

definition CountActiveMarkers :: "group \<Rightarrow> nat" where
  "CountActiveMarkers g = length (filter (\<lambda>m. rk_Mask m \<noteq> 0) (m_RaidMarkers g))"

end
