(* ===== verification/GroupProps.thy ===== *)
theory GroupProps
  imports GroupRoster
begin

text \<open>
  Properties of the group roster: the counters of the subgroups, the limits of size, the uniqueness of
  main tank and main assist, the leader, and what the database has after a restart.
\<close>

unbundle bit_operations_syntax

section \<open>Slots\<close>

lemma slot_split:
  assumes "getMemberSlot guid g = Some s"
  obtains xs ys where "m_memberSlots g = xs @ s # ys" "ms_guid s = guid" "\<forall>x \<in> set xs. ms_guid x \<noteq> guid"
  using assms by (auto simp: getMemberSlot_def find_Some_iff2 find_Some_iff)
    (metis (no_types, lifting) append_take_drop_id id_take_nth_drop in_set_conv_nth length_take min_less_iff_conj nth_take)

lemma update_slot_split:
  "\<forall>x \<in> set xs. ms_guid x \<noteq> guid \<Longrightarrow> ms_guid s = guid \<Longrightarrow> update_slot guid f (xs @ s # ys) = xs @ f s # ys"
  by (induction xs) auto

lemma erase_slot_split:
  "\<forall>x \<in> set xs. ms_guid x \<noteq> guid \<Longrightarrow> ms_guid s = guid \<Longrightarrow> erase_slot guid (xs @ s # ys) = xs @ ys"
  by (induction xs) auto

lemma update_slot_absent: "guid \<notin> ms_guid ` set ss \<Longrightarrow> update_slot guid f ss = ss"
  by (induction ss) auto

lemma erase_slot_absent: "guid \<notin> ms_guid ` set ss \<Longrightarrow> erase_slot guid ss = ss"
  by (induction ss) auto

lemma IsMember_iff: "IsMember guid g \<longleftrightarrow> guid \<in> ms_guid ` set (m_memberSlots g)"
  by (auto simp: IsMember_def getMemberSlot_def find_None_iff)

lemma getMemberSlot_None: "getMemberSlot guid g = None \<longleftrightarrow> guid \<notin> ms_guid ` set (m_memberSlots g)"
  by (metis IsMember_def IsMember_iff)

text \<open>Changes that keep the guids and the subgroups.\<close>

lemma map_update_slot:
  "(\<And>s. h (f s) = h s) \<Longrightarrow> map h (update_slot guid f ss) = map h ss"
  by (induction ss) auto

lemma guid_set: "map ms_guid ss = map ms_guid ss' \<Longrightarrow> ms_guid ` set ss = ms_guid ` set ss'"
  by (metis list.set_map)

section \<open>Counters of the subgroups\<close>

definition sub_count :: "nat \<Rightarrow> member_slot list \<Rightarrow> nat" where
  "sub_count i ss = length (filter (\<lambda>s. unat (ms_group s) = i) ss)"

definition counts_ok :: "u8 list \<Rightarrow> member_slot list \<Rightarrow> bool" where
  "counts_ok cs ss \<longleftrightarrow> length cs = 8 \<and> (\<forall>i < 8. cs ! i = of_nat (sub_count i ss))"

lemma sub_count_simps [simp]:
  "sub_count i [] = 0" "sub_count i (xs @ ys) = sub_count i xs + sub_count i ys"
  "sub_count i (s # ss) = of_bool (i = unat (ms_group s)) + sub_count i ss"
  by (auto simp: sub_count_def)

lemma sub_count_map: "map ms_group ss = map ms_group ss' \<Longrightarrow> sub_count i ss = sub_count i ss'"
proof -
  have "sub_count i ss = length (filter (\<lambda>x. unat x = i) (map ms_group ss))" for ss
    by (simp add: sub_count_def filter_map comp_def)
  then show "map ms_group ss = map ms_group ss' \<Longrightarrow> ?thesis" by metis
qed

lemma count_step_up:
  assumes "counts_ok cs ss" "unat sub < 8" "\<And>i. sub_count i ss' = sub_count i ss + of_bool (i = unat sub)"
  shows "\<exists>cs'. count_step (\<lambda>c. c + 1) sub cs = Inr cs' \<and> counts_ok cs' ss'"
  using assms by (auto simp: count_step_def counts_ok_def nth_list_update)

lemma count_step_down:
  assumes "counts_ok cs ss" "unat sub < 8" "\<And>i. sub_count i ss = sub_count i ss' + of_bool (i = unat sub)"
  shows "\<exists>cs'. count_step (\<lambda>c. c - 1) sub cs = Inr cs' \<and> counts_ok cs' ss'"
  using assms by (auto simp: count_step_def counts_ok_def nth_list_update)

lemma init_counts:
  assumes "\<forall>s \<in> set ss. unat (ms_group s) < 8" "counts_ok cs ss0"
  shows "\<exists>cs'. efold (\<lambda>s. count_step (\<lambda>c. c + 1) (ms_group s)) ss cs = Inr cs' \<and> counts_ok cs' (ss0 @ ss)"
  using assms
proof (induction ss arbitrary: cs ss0)
  case (Cons s ss)
  obtain cs1 where cs1: "count_step (\<lambda>c. c + 1) (ms_group s) cs = Inr cs1" "counts_ok cs1 (ss0 @ [s])"
    using count_step_up [OF Cons.prems(2), of "ms_group s" "ss0 @ [s]"] Cons.prems(1) by auto
  then show ?case using Cons.IH [OF _ cs1(2)] Cons.prems(1) by simp
qed simp

text \<open>A raid with fewer than forty members has a subgroup with room.\<close>

lemma sub_counts_total: "\<forall>s \<in> set ss. unat (ms_group s) < 8 \<Longrightarrow> (\<Sum>i<8. sub_count i ss) = length ss"
proof (induction ss)
  case (Cons s ss)
  have "(\<Sum>i<8. of_bool (i = unat (ms_group s)) :: nat) = 1"
    using Cons.prems by (simp add: of_bool_def sum.delta)
  then show ?case using Cons by (simp add: sum.distrib)
qed simp

lemma room_left:
  assumes "\<forall>s \<in> set ss. unat (ms_group s) < 8" "length ss < 40"
  shows "\<exists>i < 8. sub_count i ss < 5"
proof (rule ccontr)
  assume "\<not> ?thesis"
  then have "5 \<le> sub_count i ss" if "i < 8" for i using that by (meson not_le_imp_less)
  then have "(\<Sum>i<(8::nat). 5) \<le> (\<Sum>i<8. sub_count i ss)" by (intro sum_mono) simp
  then show False using sub_counts_total [OF assms(1)] assms(2) by simp
qed

section \<open>The invariant\<close>

lemma member_flag_bits: "w AND 2 \<noteq> 0 \<longleftrightarrow> bit w 1" "w AND 4 \<noteq> 0 \<longleftrightarrow> bit w 2" "w AND 1 \<noteq> 0 \<longleftrightarrow> bit w 0" "w AND 8 \<noteq> 0 \<longleftrightarrow> bit w 3"
  for w :: u8
  using and_exp_eq_0_iff_not_bit [of w 1] and_exp_eq_0_iff_not_bit [of w 2] and_exp_eq_0_iff_not_bit [of w 0]
    and_exp_eq_0_iff_not_bit [of w 3] by simp_all

definition unique_flag :: "nat \<Rightarrow> member_slot list \<Rightarrow> bool" where
  "unique_flag n ss \<longleftrightarrow> length (filter (\<lambda>s. bit (ms_flags s) n) ss) \<le> 1"

text \<open>
  Members are different players in subgroups 0 to 7; a raid, and only a raid, has counters, which are
  right, and at most five members in each subgroup; any other group has at most five members; there is
  at most one main tank and one main assist; the leader is a member; no target carries two icons.
\<close>

definition roster_ok :: "group \<Rightarrow> bool" where
  "roster_ok g \<longleftrightarrow>
     distinct (map ms_guid (m_memberSlots g)) \<and> (\<forall>s \<in> set (m_memberSlots g). unat (ms_group s) < 8) \<and>
     (case m_subGroupsCounts g of
        None \<Rightarrow> \<not> isRaidGroup g \<and> length (m_memberSlots g) \<le> 5
      | Some cs \<Rightarrow> isRaidGroup g \<and> counts_ok cs (m_memberSlots g) \<and> (\<forall>i < 8. sub_count i (m_memberSlots g) \<le> 5))"

definition group_inv :: "group \<Rightarrow> bool" where
  "group_inv g \<longleftrightarrow>
     roster_ok g \<and> unique_flag 1 (m_memberSlots g) \<and> unique_flag 2 (m_memberSlots g) \<and>
     m_leaderGuid g \<in> ms_guid ` set (m_memberSlots g)"

text \<open>Operations that do not touch guids, subgroups, kind and counters keep the roster.\<close>

lemma roster_ok_cong:
  assumes "roster_ok g" "map ms_guid (m_memberSlots g') = map ms_guid (m_memberSlots g)"
    and "map ms_group (m_memberSlots g') = map ms_group (m_memberSlots g)"
    and "m_subGroupsCounts g' = m_subGroupsCounts g" "isRaidGroup g' = isRaidGroup g"
  shows "roster_ok g'"
proof -
  have "sub_count i (m_memberSlots g') = sub_count i (m_memberSlots g)" for i by (rule sub_count_map [OF assms(3)])
  moreover have "length (m_memberSlots g') = length (m_memberSlots g)" using assms(2) by (metis length_map)
  moreover have "(\<forall>s \<in> set (m_memberSlots g'). unat (ms_group s) < 8) \<longleftrightarrow> (\<forall>s \<in> set (m_memberSlots g). unat (ms_group s) < 8)"
    using arg_cong [OF assms(3), of "\<lambda>l. \<forall>x \<in> set l. unat x < 8"] by simp
  ultimately show ?thesis
    using assms(1,2,4,5) by (simp add: roster_ok_def counts_ok_def split: option.splits)
qed

lemma roster_ok_slots:
  assumes "roster_ok g" "map ms_guid ss = map ms_guid (m_memberSlots g)" "map ms_group ss = map ms_group (m_memberSlots g)"
  shows "roster_ok (g\<lparr>m_memberSlots := ss\<rparr>)"
  by (rule roster_ok_cong [OF assms(1)]) (simp_all add: assms(2,3) isRaidGroup_def)

lemma unique_flag_cong:
  assumes "map ms_flags ss' = map ms_flags ss"
  shows "unique_flag n ss' = unique_flag n ss"
proof -
  have "unique_flag n ss \<longleftrightarrow> length (filter (\<lambda>w. bit w n) (map ms_flags ss)) \<le> 1" for ss
    by (simp add: unique_flag_def filter_map comp_def)
  then show ?thesis using assms by metis
qed

lemma AddMember_roster:
  assumes "roster_ok g" "\<not> IsMember guid g" "isRaidGroup g \<or> \<not> IsFull g"
  shows "\<exists>acts ok g'. AddMember env guid g = Inr (acts, ok, g') \<and> roster_ok g' \<and> (\<not> IsFull g \<longrightarrow> ok) \<and>
    m_leaderGuid g' = m_leaderGuid g \<and>
    (if ok then \<exists>s. m_memberSlots g' = m_memberSlots g @ [s] \<and> ms_guid s = guid \<and> ms_flags s = 0 else g' = g)"
proof (cases "m_subGroupsCounts g")
  case None
  let ?m = "\<lparr>ms_guid = guid, ms_name = ge_name env guid, ms_group = 0, ms_flags = 0, ms_roles = 0\<rparr>"
  have "\<not> isRaidGroup g" "length (m_memberSlots g) < 5" using assms(1,3) None by (auto simp: roster_ok_def IsFull_def)
  then show ?thesis
    using assms(1,2) None
    by (auto simp: AddMember_def free_subgroup_def SubGroupCounterIncrease_def update_counts_def isRaidGroup_def roster_ok_def
        IsMember_iff Let_def)
next
  case (Some cs)
  have raid: "isRaidGroup g" and cs: "counts_ok cs (m_memberSlots g)" "\<forall>i < 8. sub_count i (m_memberSlots g) \<le> 5"
    and low: "\<forall>s \<in> set (m_memberSlots g). unat (ms_group s) < 8"
    using assms(1) Some by (auto simp: roster_ok_def)
  have small: "cs ! i < 5 \<longleftrightarrow> sub_count i (m_memberSlots g) < 5" if "i < 8" for i
  proof -
    have "sub_count i (m_memberSlots g) \<le> 5" using cs(2) that by simp
    then have "unat (of_nat (sub_count i (m_memberSlots g)) :: u8) = sub_count i (m_memberSlots g)"
      by (simp add: unat_of_nat)
    then show ?thesis using cs(1) that by (simp add: counts_ok_def word_less_nat_alt)
  qed
  show ?thesis
  proof (cases "find (\<lambda>i. cs ! i < 5) [0..<8]")
    case None
    then have "\<not> (\<exists>i < 8. sub_count i (m_memberSlots g) < 5)" using small by (auto simp: find_None_iff)
    then have "IsFull g" using room_left [OF low] raid by (metis IsFull_def not_le)
    then show ?thesis using assms(1) None Some by (auto simp: AddMember_def free_subgroup_def)
  next
    case i: (Some i)
    then have i8: "i < 8" "cs ! i < 5" by (auto simp: find_Some_iff)
    define m where "m = \<lparr>ms_guid = guid, ms_name = ge_name env guid, ms_group = of_nat i, ms_flags = 0, ms_roles = 0\<rparr>"
    have sub: "unat (of_nat i :: u8) = i" using i8 by (simp add: unat_of_nat)
    obtain cs' where cs': "count_step (\<lambda>c. c + 1) (of_nat i) cs = Inr cs'" "counts_ok cs' (m_memberSlots g @ [m])"
      using count_step_up [OF cs(1), of "of_nat i" "m_memberSlots g @ [m]"] i8 sub by (auto simp: m_def)
    have "\<forall>j < 8. sub_count j (m_memberSlots g @ [m]) \<le> 5" using cs(2) small [OF i8(1)] i8 sub by (auto simp: m_def)
    then show ?thesis
      using assms(1,2) raid cs' Some i i8 sub low
      by (auto simp: AddMember_def free_subgroup_def SubGroupCounterIncrease_def update_counts_def isRaidGroup_def roster_ok_def
          IsMember_iff Let_def m_def)
  qed
qed

text \<open>Taking a slot out.\<close>

lemma remove_slot_spec:
  assumes "roster_ok g"
  shows "\<exists>g'. remove_slot guid g = Inr g' \<and> roster_ok g' \<and> m_memberSlots g' = erase_slot guid (m_memberSlots g) \<and>
    g' = g\<lparr>m_memberSlots := m_memberSlots g', m_subGroupsCounts := m_subGroupsCounts g'\<rparr>"
proof (cases "getMemberSlot guid g")
  case None
  then have "erase_slot guid (m_memberSlots g) = m_memberSlots g"
    unfolding getMemberSlot_None by (rule erase_slot_absent)
  then show ?thesis using None assms by (simp add: remove_slot_def)
next
  case (Some s)
  then obtain xs ys where split: "m_memberSlots g = xs @ s # ys" "ms_guid s = guid" "\<forall>x \<in> set xs. ms_guid x \<noteq> guid"
    by (rule slot_split)
  note erase = erase_slot_split [OF split(3,2), of ys]
  show ?thesis
  proof (cases "m_subGroupsCounts g")
    case None
    then show ?thesis
      using assms Some split erase
      by (auto simp: remove_slot_def SubGroupCounterDecrease_def update_counts_def roster_ok_def isRaidGroup_def)
  next
    case cs: (Some cs)
    have ok: "counts_ok cs (m_memberSlots g)" "unat (ms_group s) < 8" using assms cs split by (auto simp: roster_ok_def)
    obtain cs' where "count_step (\<lambda>c. c - 1) (ms_group s) cs = Inr cs'" "counts_ok cs' (xs @ ys)"
      using count_step_down [OF ok, of "xs @ ys"] split by auto
    moreover have "\<forall>i < 8. sub_count i (xs @ ys) \<le> 5"
      using assms cs split by (auto simp: roster_ok_def)
    ultimately show ?thesis
      using assms Some split erase cs
      by (auto simp: remove_slot_def SubGroupCounterDecrease_def update_counts_def roster_ok_def isRaidGroup_def)
  qed
qed

lemma toggle_assistant:
  assumes "n \<noteq> 0"
  shows "bit (ms_flags (ToggleGroupMemberFlag 1 b s)) n = bit (ms_flags s) n"
  using assms bit_imp_le_length [of "ms_flags s" n] by (auto simp: ToggleGroupMemberFlag_def bit_simps)

lemma ChangeLeader_keeps:
  assumes "ChangeLeader env guid g = (acts, g')"
  shows "map ms_guid (m_memberSlots g') = map ms_guid (m_memberSlots g)"
    and "map ms_group (m_memberSlots g') = map ms_group (m_memberSlots g)"
    and "m_subGroupsCounts g' = m_subGroupsCounts g" "isRaidGroup g' = isRaidGroup g"
    and "n \<noteq> 0 \<Longrightarrow> map (\<lambda>s. bit (ms_flags s) n) (m_memberSlots g') = map (\<lambda>s. bit (ms_flags s) n) (m_memberSlots g)"
    and "m_leaderGuid g' = (if IsMember guid g \<and> ge_online env guid then guid else m_leaderGuid g)"
  using assms
  by (auto simp: ChangeLeader_def isRaidGroup_def IsMember_def toggle_assistant intro!: map_update_slot
      split: option.splits if_splits) (simp_all add: ToggleGroupMemberFlag_def)

lemma unique_flag_bits:
  assumes "map (\<lambda>s. bit (ms_flags s) n) ss' = map (\<lambda>s. bit (ms_flags s) n) ss"
  shows "unique_flag n ss' = unique_flag n ss"
proof -
  have "unique_flag n ss \<longleftrightarrow> length (filter (\<lambda>b. b) (map (\<lambda>s. bit (ms_flags s) n) ss)) \<le> 1" for ss
    by (simp add: unique_flag_def filter_map comp_def)
  then show ?thesis using assms by metis
qed

lemma set_erase_slot: "distinct (map ms_guid ss) \<Longrightarrow> set (erase_slot guid ss) = {s \<in> set ss. ms_guid s \<noteq> guid}"
proof (induction ss)
  case (Cons s ss)
  have new: "ms_guid s \<notin> ms_guid ` set ss" using Cons.prems by simp
  have "ms_guid x \<noteq> ms_guid s" if "x \<in> set ss" for x using imageI [OF that, of ms_guid] new by auto
  then show ?case using Cons by auto
qed simp

lemma unique_flag_erase: "unique_flag n ss \<Longrightarrow> unique_flag n (erase_slot guid ss)"
proof -
  have "length (filter P (erase_slot guid ss)) \<le> length (filter P ss)" for P :: "member_slot \<Rightarrow> bool"
    by (induction ss) auto
  then show "unique_flag n ss \<Longrightarrow> ?thesis" unfolding unique_flag_def by (rule order_trans)
qed

text \<open>The members with a linked player object are online.\<close>

definition links_ok :: "group_env \<Rightarrow> bool" where
  "links_ok env \<longleftrightarrow> (\<forall>guid. ge_linked env guid \<longrightarrow> ge_online env guid)"

lemma leave_player_keeps:
  "m_memberSlots (snd (leave_player env guid m g)) = m_memberSlots g"
  "m_subGroupsCounts (snd (leave_player env guid m g)) = m_subGroupsCounts g"
  "isRaidGroup (snd (leave_player env guid m g)) = isRaidGroup g"
  "m_leaderGuid (snd (leave_player env guid m g)) = m_leaderGuid g"
  by (simp_all add: leave_player_def isRaidGroup_def)

lemma reset_keeps:
  "m_memberSlots (ResetMaxEnchantingLevel env g) = m_memberSlots g"
  "m_subGroupsCounts (ResetMaxEnchantingLevel env g) = m_subGroupsCounts g"
  "isRaidGroup (ResetMaxEnchantingLevel env g) = isRaidGroup g"
  "m_leaderGuid (ResetMaxEnchantingLevel env g) = m_leaderGuid g"
  by (simp_all add: ResetMaxEnchantingLevel_def isRaidGroup_def)

text \<open>The group before the slot is taken out.\<close>

definition leaving_group :: "group_env \<Rightarrow> u64 \<Rightarrow> remove_method \<Rightarrow> group \<Rightarrow> group" where
  "leaving_group env guid method g =
     (let g = snd (leave_player env guid method g);
          g = (if ge_online env guid \<and> ge_enchanting env guid \<noteq> 0 \<or> \<not> ge_online env guid
               then ResetMaxEnchantingLevel env g else g)
      in g\<lparr>RollId := snd (leave_rolls (ge_rolls env) guid 0 (RollId g))\<rparr>)"

lemma leaving_keeps:
  "m_memberSlots (leaving_group env guid m g) = m_memberSlots g"
  "m_subGroupsCounts (leaving_group env guid m g) = m_subGroupsCounts g"
  "isRaidGroup (leaving_group env guid m g) = isRaidGroup g"
  "m_leaderGuid (leaving_group env guid m g) = m_leaderGuid g"
  by (simp_all add: leaving_group_def Let_def leave_player_keeps reset_keeps isRaidGroup_def)
    (simp_all add: leave_player_def ResetMaxEnchantingLevel_def)

lemma RemoveMember_cases:
  assumes "RemoveMember env guid method kicker g = Inr (acts, ok, Some g')"
  shows "isLFGGroup g \<and> method = REMOVE_KICK \<and> g' = g \<or>
    (\<exists>g1. remove_slot guid (leaving_group env guid method g) = Inr g1 \<and> g' = snd (pick_leader env guid g1) \<and>
       (if isLFGGroup g' \<or> isBGGroup g' then 1 else 2) \<le> linked_size env g')"
proof (cases "isLFGGroup g \<and> method = REMOVE_KICK")
  case True
  then show ?thesis using assms by (simp add: RemoveMember_def Let_def)
next
  case False
  have many: "length (m_memberSlots g) > (if isBGGroup g \<or> isLFGGroup g \<or> isBFGroup g then 1 else 2)"
    using assms False by (auto simp: RemoveMember_def Let_def split: if_splits)
  obtain g1 where g1: "remove_slot guid (leaving_group env guid method g) = Inr g1"
    using assms unfolding RemoveMember_def Let_def case_prod_beta if_not_P [OF False] if_P [OF many]
    by (auto simp: leaving_group_def Let_def)
  show ?thesis
    using assms g1
    unfolding RemoveMember_def Let_def case_prod_beta if_not_P [OF False] if_P [OF many]
    by (auto simp: leaving_group_def Let_def not_less split: if_splits)
qed

lemma RemoveMember_no_error:
  assumes "remove_slot guid (leaving_group env guid method g) = Inr g1"
  shows "\<exists>r. RemoveMember env guid method kicker g = Inr r"
  using assms by (auto simp: RemoveMember_def Let_def case_prod_beta leaving_group_def)

lemma pick_leader_keeps:
  assumes "pick_leader env guid g = (acts, g')"
  shows "map ms_guid (m_memberSlots g') = map ms_guid (m_memberSlots g)"
    and "map ms_group (m_memberSlots g') = map ms_group (m_memberSlots g)"
    and "m_subGroupsCounts g' = m_subGroupsCounts g" "isRaidGroup g' = isRaidGroup g"
    and "n \<noteq> 0 \<Longrightarrow> map (\<lambda>s. bit (ms_flags s) n) (m_memberSlots g') = map (\<lambda>s. bit (ms_flags s) n) (m_memberSlots g)"
  using assms ChangeLeader_keeps [of env _ g acts g']
  by (auto simp: pick_leader_def split: if_splits option.splits)

text \<open>If somebody is linked, the group has a leader who is a member.\<close>

lemma linked_online:
  assumes "links_ok env" "0 < linked_size env g"
  shows "find (\<lambda>s. ge_online env (ms_guid s)) (m_memberSlots g) \<noteq> None"
proof -
  have "filter (\<lambda>s. ge_linked env (ms_guid s)) (m_memberSlots g) \<noteq> []" using assms(2) by (auto simp: linked_size_def)
  then show ?thesis using assms(1) by (auto simp: links_ok_def find_None_iff filter_empty_conv)
qed

lemma linked_size_cong: "map ms_guid (m_memberSlots g') = map ms_guid (m_memberSlots g) \<Longrightarrow> linked_size env g' = linked_size env g"
proof -
  have "linked_size env g = length (filter (ge_linked env) (map ms_guid (m_memberSlots g)))" for g
    by (simp add: linked_size_def filter_map comp_def)
  then show "map ms_guid (m_memberSlots g') = map ms_guid (m_memberSlots g) \<Longrightarrow> ?thesis" by metis
qed

lemma pick_leader_member:
  assumes "pick_leader env guid g = (acts, g')" "links_ok env" "0 < linked_size env g'"
    and "m_leaderGuid g \<noteq> guid \<Longrightarrow> m_leaderGuid g \<in> ms_guid ` set (m_memberSlots g)"
  shows "m_leaderGuid g' \<in> ms_guid ` set (m_memberSlots g')"
proof -
  note keep = pick_leader_keeps [OF assms(1)]
  have guids: "ms_guid ` set (m_memberSlots g') = ms_guid ` set (m_memberSlots g)"
    by (rule guid_set [OF keep(1)])
  show ?thesis
  proof (cases "m_leaderGuid g = guid")
    case True
    obtain s where s: "find (\<lambda>s. ge_online env (ms_guid s)) (m_memberSlots g) = Some s"
      using linked_online [OF assms(2), of g] assms(3) linked_size_cong [OF keep(1)] by auto
    then have "s \<in> set (m_memberSlots g)" "ge_online env (ms_guid s)" by (auto simp: find_Some_iff)
    moreover have "ChangeLeader env (ms_guid s) g = (acts, g')" using assms(1) True s by (simp add: pick_leader_def)
    ultimately show ?thesis using ChangeLeader_keeps(6) guids by (fastforce simp: IsMember_iff)
  next
    case False
    then have "g' = g" using assms(1) by (simp add: pick_leader_def)
    then show ?thesis using assms(4) False by simp
  qed
qed

lemma RemoveMember_inv:
  assumes "group_inv g" "links_ok env" "RemoveMember env guid method kicker g = Inr (acts, ok, Some g')"
  shows "group_inv g'"
  using RemoveMember_cases [OF assms(3)]
proof (elim disjE exE conjE)
  assume "g' = g"
  then show ?thesis using assms(1) by simp
next
  fix g1
  let ?g = "leaving_group env guid method g"
  assume slot: "remove_slot guid ?g = Inr g1" and g': "g' = snd (pick_leader env guid g1)"
    and size: "(if isLFGGroup g' \<or> isBGGroup g' then 1 else 2) \<le> linked_size env g'"
  have roster: "roster_ok g" using assms(1) by (simp add: group_inv_def)
  have "roster_ok ?g" by (rule roster_ok_cong [OF roster]) (simp_all add: leaving_keeps)
  from remove_slot_spec [OF this, of guid] slot
  have g1: "roster_ok g1" "m_memberSlots g1 = erase_slot guid (m_memberSlots g)" "m_leaderGuid g1 = m_leaderGuid g"
    by (simp_all add: leaving_keeps) (metis leaving_keeps(4) group.select_convs(3) group.surjective group.update_convs(1,13))
  obtain acts' where pick: "pick_leader env guid g1 = (acts', g')" using g' by (metis prod.collapse)
  note keep = pick_leader_keeps [OF pick]
  have dist: "distinct (map ms_guid (m_memberSlots g))" using roster by (simp add: roster_ok_def)
  have "roster_ok g'" by (rule roster_ok_cong [OF g1(1) keep(1-4)])
  moreover have "unique_flag 1 (m_memberSlots g')" "unique_flag 2 (m_memberSlots g')"
    using assms(1) unique_flag_erase unique_flag_bits [OF keep(5)] g1(2) by (auto simp: group_inv_def)
  moreover have "m_leaderGuid g' \<in> ms_guid ` set (m_memberSlots g')"
  proof (rule pick_leader_member [OF pick assms(2)])
    show "0 < linked_size env g'" using size by (auto split: if_splits)
    assume "m_leaderGuid g1 \<noteq> guid"
    then show "m_leaderGuid g1 \<in> ms_guid ` set (m_memberSlots g1)"
      using assms(1) g1 set_erase_slot [OF dist] by (auto simp: group_inv_def)
  qed
  ultimately show ?thesis by (simp add: group_inv_def)
qed

section \<open>The other operations\<close>

lemma group_inv_cong:
  assumes "group_inv g" "map ms_guid (m_memberSlots g') = map ms_guid (m_memberSlots g)"
    and "map ms_group (m_memberSlots g') = map ms_group (m_memberSlots g)"
    and "map ms_flags (m_memberSlots g') = map ms_flags (m_memberSlots g)"
    and "m_subGroupsCounts g' = m_subGroupsCounts g" "isRaidGroup g' = isRaidGroup g" "m_leaderGuid g' = m_leaderGuid g"
  shows "group_inv g'"
proof -
  have "ms_guid ` set (m_memberSlots g') = ms_guid ` set (m_memberSlots g)" by (rule guid_set [OF assms(2)])
  then show ?thesis
    using assms(1,7) roster_ok_cong [OF _ assms(2,3,5,6)] unique_flag_cong [OF assms(4)] by (simp add: group_inv_def)
qed

lemma raid_bit: "isRaidGroup g \<longleftrightarrow> bit (m_groupType g) 1"
  by (simp add: isRaidGroup_def member_flag_bits)

lemma sub_count_le: "sub_count i ss \<le> length ss"
  by (simp add: sub_count_def)

lemma initRaid_roster:
  assumes "roster_ok g"
  shows "\<exists>cs. initRaidSubGroupsCounter (g\<lparr>m_groupType := m_groupType g OR 2\<rparr>) =
      Inr (g\<lparr>m_groupType := m_groupType g OR 2, m_subGroupsCounts := Some cs\<rparr>) \<and>
    roster_ok (g\<lparr>m_groupType := m_groupType g OR 2, m_subGroupsCounts := Some cs\<rparr>)"
proof -
  have low: "\<forall>s \<in> set (m_memberSlots g). unat (ms_group s) < 8" using assms by (simp add: roster_ok_def)
  have "counts_ok (replicate 8 0) []" by (simp add: counts_ok_def)
  from init_counts [OF low this] obtain cs where
    cs: "efold (\<lambda>s. count_step (\<lambda>c. c + 1) (ms_group s)) (m_memberSlots g) (replicate 8 0) = Inr cs"
      "counts_ok cs (m_memberSlots g)" by auto
  have "\<forall>i < 8. sub_count i (m_memberSlots g) \<le> 5"
  proof (cases "m_subGroupsCounts g")
    case None
    then have "length (m_memberSlots g) \<le> 5" using assms by (simp add: roster_ok_def)
    then show ?thesis using sub_count_le order_trans by blast
  qed (use assms in \<open>simp add: roster_ok_def\<close>)
  then have "roster_ok (g\<lparr>m_groupType := m_groupType g OR 2, m_subGroupsCounts := Some cs\<rparr>)"
    using assms cs(2) by (simp add: roster_ok_def raid_bit bit_simps)
  then show ?thesis using cs(1) by (auto simp: initRaidSubGroupsCounter_def)
qed

lemma ConvertToRaid_inv:
  assumes "group_inv g"
  shows "\<exists>acts g'. ConvertToRaid env g = Inr (acts, g') \<and> group_inv g'"
  using assms initRaid_roster [of g] by (auto simp: ConvertToRaid_def group_inv_def)

lemma ConvertToGroup_inv: "group_inv g \<Longrightarrow> ConvertToGroup env g = (acts, g') \<Longrightarrow> group_inv g'"
  by (auto simp: ConvertToGroup_def group_inv_def roster_ok_def raid_bit Let_def split: if_splits option.splits)

text \<open>Moving a member to another subgroup.\<close>

lemma sub_count_move:
  assumes "getMemberSlot guid g = Some s"
  shows "sub_count i (update_slot guid (\<lambda>s. s\<lparr>ms_group := sub\<rparr>) (m_memberSlots g)) + of_bool (i = unat (ms_group s)) =
    sub_count i (m_memberSlots g) + of_bool (i = unat sub)"
  using assms by (elim slot_split) (simp add: update_slot_split)

lemma ChangeMembersGroup_inv:
  assumes inv: "group_inv g" and sub: "sub < 8" and free: "HasFreeSlotSubGroup sub g = Inr True"
  shows "\<exists>acts g'. ChangeMembersGroup env guid sub g = Inr (acts, g') \<and> group_inv g'"
proof (cases "getMemberSlot guid g")
  case None
  then show ?thesis using inv by (simp add: ChangeMembersGroup_def IsMember_def)
next
  case (Some s)
  obtain cs where cs: "m_subGroupsCounts g = Some cs" "cs ! unat sub < 5" "counts_ok cs (m_memberSlots g)"
      "\<forall>i < 8. sub_count i (m_memberSlots g) \<le> 5" "isRaidGroup g"
    using free inv by (auto simp: HasFreeSlotSubGroup_def group_inv_def roster_ok_def split: option.splits if_splits)
  have sub8: "unat sub < 8" using sub by (simp add: word_less_nat_alt)
  let ?ss = "update_slot guid (\<lambda>s. s\<lparr>ms_group := sub\<rparr>) (m_memberSlots g)"
  have s8: "unat (ms_group s) < 8"
    using inv Some by (auto simp: group_inv_def roster_ok_def elim!: slot_split)
  show ?thesis
  proof (cases "ms_group s = sub")
    case True
    then show ?thesis using inv Some by (simp add: ChangeMembersGroup_def GetMemberGroup_def)
  next
    case False
    then have differ: "unat (ms_group s) \<noteq> unat sub" using unsigned_word_eqI by blast
    note move = sub_count_move [OF Some, of _ sub]
    obtain ss1 where ss1: "\<And>i. sub_count i ss1 = sub_count i (m_memberSlots g) + of_bool (i = unat sub)"
      using that [of "m_memberSlots g @ [s\<lparr>ms_group := sub\<rparr>]"] by simp
    obtain cs1 where cs1: "count_step (\<lambda>c. c + 1) sub cs = Inr cs1" "counts_ok cs1 ss1"
      using count_step_up [OF cs(3) sub8 ss1] by auto
    obtain cs2 where cs2: "count_step (\<lambda>c. c - 1) (ms_group s) cs1 = Inr cs2" "counts_ok cs2 ?ss"
      using count_step_down [OF cs1(2) s8, of ?ss] move ss1 by auto
    have five: "\<forall>i < 8. sub_count i ?ss \<le> 5"
    proof (intro allI impI)
      fix i :: nat assume i: "i < 8"
      have "sub_count (unat sub) (m_memberSlots g) \<le> 5" using cs(4) sub8 by simp
      then have "unat (of_nat (sub_count (unat sub) (m_memberSlots g)) :: u8) = sub_count (unat sub) (m_memberSlots g)"
        by (simp add: unat_of_nat)
      then have "sub_count (unat sub) (m_memberSlots g) < 5"
        using cs(2,3) sub8 by (simp add: counts_ok_def word_less_nat_alt)
      then show "sub_count i ?ss \<le> 5" using move [of i] cs(4) i differ by (cases "i = unat sub") auto
    qed
    let ?g = "g\<lparr>m_memberSlots := ?ss, m_subGroupsCounts := Some cs2\<rparr>"
    have guids: "map ms_guid ?ss = map ms_guid (m_memberSlots g)" and flags: "map ms_flags ?ss = map ms_flags (m_memberSlots g)"
      by (simp_all add: map_update_slot)
    have "\<forall>x \<in> set ?ss. unat (ms_group x) < 8"
      using inv Some sub8 by (auto simp: group_inv_def roster_ok_def update_slot_split elim!: slot_split)
    then have "group_inv ?g"
      using inv cs(5) cs2(2) five guids unique_flag_cong [OF flags] guid_set [OF guids]
      by (simp add: group_inv_def roster_ok_def raid_bit)
    moreover have "\<exists>acts. ChangeMembersGroup env guid sub g = Inr (acts, ?g)"
      using Some False cs(1,5) cs1(1) cs2(1)
      by (simp add: ChangeMembersGroup_def GetMemberGroup_def IsMember_def SubGroupCounterIncrease_def
          SubGroupCounterDecrease_def update_counts_def)
    ultimately show ?thesis by blast
  qed
qed

text \<open>Setting a flag: the unique ones are taken from everybody first.\<close>

lemma toggle_keeps:
  "ms_guid (ToggleGroupMemberFlag f b s) = ms_guid s" "ms_group (ToggleGroupMemberFlag f b s) = ms_group s"
  by (simp_all add: ToggleGroupMemberFlag_def)

lemma toggle_other_bit:
  assumes "k \<noteq> n" "k < 8"
  shows "bit (ms_flags (ToggleGroupMemberFlag (2 ^ k) b s)) n = bit (ms_flags s) n"
  using assms bit_imp_le_length [of "ms_flags s" n] by (auto simp: ToggleGroupMemberFlag_def bit_simps)

definition clear_flag :: "u8 \<Rightarrow> member_slot \<Rightarrow> member_slot" where
  "clear_flag f s = (if ms_flags s AND f \<noteq> 0 then s\<lparr>ms_flags := ms_flags s AND NOT f\<rparr> else s)"

lemma RemoveUnique_slots:
  "RemoveUniqueGroupMemberFlag f g = g\<lparr>m_memberSlots := map (clear_flag f) (m_memberSlots g)\<rparr>"
  by (simp add: RemoveUniqueGroupMemberFlag_def clear_flag_def)

lemma clear_flag_bit:
  assumes "k < 8"
  shows "bit (ms_flags (clear_flag (2 ^ k) s)) n \<longleftrightarrow> bit (ms_flags s) n \<and> n \<noteq> k"
  using assms and_exp_eq_0_iff_not_bit [of "ms_flags s" k] bit_imp_le_length [of "ms_flags s" n]
  by (auto simp: clear_flag_def bit_simps)

lemma clear_flag_keeps: "ms_guid (clear_flag f s) = ms_guid s" "ms_group (clear_flag f s) = ms_group s"
  by (simp_all add: clear_flag_def)

lemma unique_flag_update:
  assumes "\<forall>s \<in> set ss. \<not> bit (ms_flags s) n"
  shows "unique_flag n (update_slot guid f ss)"
  using assms
proof (induction ss)
  case (Cons s ss)
  have none: "filter (\<lambda>s. bit (ms_flags s) n) ss = []" using Cons.prems by (simp add: filter_empty_conv)
  show ?case
  proof (cases "ms_guid s = guid")
    case True
    then show ?thesis using none by (simp add: unique_flag_def)
  next
    case False
    then show ?thesis using Cons by (simp add: unique_flag_def)
  qed
qed (simp add: unique_flag_def)

text \<open>The slots after a flag has been set.\<close>

lemma flag_slots_unique:
  assumes "unique_flag n ss" "n \<in> {1, 2}" "k < 3"
    and "ss' = (if k = 0 then ss else map (clear_flag (2 ^ k)) ss)"
  shows "unique_flag n (update_slot guid (ToggleGroupMemberFlag (2 ^ k) b) ss')"
proof (cases "k = n")
  case True
  then show ?thesis using assms by (intro unique_flag_update) (auto simp: clear_flag_bit)
next
  case False
  have "map (\<lambda>s. bit (ms_flags s) n) (update_slot guid (ToggleGroupMemberFlag (2 ^ k) b) ss') = map (\<lambda>s. bit (ms_flags s) n) ss'"
    using False assms(3) by (intro map_update_slot toggle_other_bit) auto
  also have "\<dots> = map (\<lambda>s. bit (ms_flags s) n) ss" using False assms(3,4) by (auto simp: clear_flag_bit)
  finally show ?thesis using assms(1) unique_flag_bits by blast
qed

lemma flag_inv:
  assumes "group_inv g" "k < 3" "ss' = (if k = 0 then m_memberSlots g else map (clear_flag (2 ^ k)) (m_memberSlots g))"
  shows "group_inv (g\<lparr>m_memberSlots := update_slot guid (ToggleGroupMemberFlag (2 ^ k) b) ss'\<rparr>)"
proof -
  let ?ss = "update_slot guid (ToggleGroupMemberFlag (2 ^ k) b) ss'"
  have guids: "map ms_guid ?ss = map ms_guid (m_memberSlots g)" and subs: "map ms_group ?ss = map ms_group (m_memberSlots g)"
    using assms(3) by (simp_all add: map_update_slot toggle_keeps clear_flag_keeps)
  have "roster_ok (g\<lparr>m_memberSlots := ?ss\<rparr>)"
    using assms(1) by (simp add: group_inv_def roster_ok_slots [OF _ guids subs])
  moreover have "unique_flag n ?ss" if "n \<in> {1, 2}" for n
    using assms that by (intro flag_slots_unique) (auto simp: group_inv_def)
  ultimately show ?thesis using assms(1) guid_set [OF guids] by (simp add: group_inv_def)
qed

lemma SetGroupMemberFlag_inv:
  assumes "group_inv g" "SetGroupMemberFlag guid b f g = (acts, g')"
  shows "group_inv g'"
proof (cases "isRaidGroup g \<and> IsMember guid g \<and> f \<in> {1, 2, 4}")
  case True
  then consider "f = 2 ^ 0" | "f = 2 ^ 1" | "f = 2 ^ 2" by auto
  then obtain k :: nat where k: "k < 3" "f = 2 ^ k" "f = 1 \<longleftrightarrow> k = 0"
  proof cases
    case 1
    show ?thesis using 1 by (intro that [of 0]) simp_all
  next
    case 2
    show ?thesis using 2 by (intro that [of 1]) simp_all
  next
    case 3
    show ?thesis using 3 by (intro that [of 2]) simp_all
  qed
  show ?thesis
    using assms True flag_inv [OF assms(1) k(1) refl, of guid b] k
    by (auto simp: SetGroupMemberFlag_def Let_def RemoveUnique_slots split: if_splits)
next
  case False
  then show ?thesis using assms by (auto simp: SetGroupMemberFlag_def split: if_splits)
qed

lemma unique_flag_clear:
  assumes "k < 8" "unique_flag n ss"
  shows "unique_flag n (map (clear_flag (2 ^ k)) ss)"
proof -
  have "length (filter (\<lambda>s. bit (ms_flags s) n) (map (clear_flag (2 ^ k)) ss)) \<le> length (filter (\<lambda>s. bit (ms_flags s) n) ss)"
    by (induction ss) (auto simp: clear_flag_bit [OF assms(1)])
  then show ?thesis using assms(2) by (simp add: unique_flag_def)
qed

lemma RemoveUnique_inv:
  assumes "group_inv g" "k < 8"
  shows "group_inv (RemoveUniqueGroupMemberFlag (2 ^ k) g)"
proof -
  let ?ss = "map (clear_flag (2 ^ k)) (m_memberSlots g)"
  have guids: "map ms_guid ?ss = map ms_guid (m_memberSlots g)" and subs: "map ms_group ?ss = map ms_group (m_memberSlots g)"
    by (simp_all add: clear_flag_keeps)
  have "roster_ok (g\<lparr>m_memberSlots := ?ss\<rparr>)"
    using assms(1) by (simp add: group_inv_def roster_ok_slots [OF _ guids subs])
  then show ?thesis
    using assms(1) guid_set [OF guids] unique_flag_clear [OF assms(2)] unfolding RemoveUnique_slots
    by (simp add: group_inv_def)
qed

section \<open>Reachable groups\<close>

lemma update_slot_inv:
  assumes "group_inv g" "\<And>s. ms_guid (f s) = ms_guid s" "\<And>s. ms_group (f s) = ms_group s" "\<And>s. ms_flags (f s) = ms_flags s"
  shows "group_inv (g\<lparr>m_memberSlots := update_slot guid f (m_memberSlots g)\<rparr>)"
  by (rule group_inv_cong [OF assms(1)]) (simp_all add: map_update_slot assms(2-4) isRaidGroup_def)

lemma ChangeLeader_inv:
  assumes "group_inv g" "ChangeLeader env guid g = (acts, g')"
  shows "group_inv g'"
proof -
  note keep = ChangeLeader_keeps [OF assms(2)]
  have "unique_flag n (m_memberSlots g')" if "n \<in> {1, 2}" for n
    using that assms(1) unique_flag_bits [OF keep(5)] by (auto simp: group_inv_def)
  moreover have "roster_ok g'" using assms(1) roster_ok_cong [OF _ keep(1-4)] by (simp add: group_inv_def)
  moreover have "m_leaderGuid g' \<in> ms_guid ` set (m_memberSlots g')"
    using assms(1) keep(6) guid_set [OF keep(1)] by (auto simp: group_inv_def IsMember_iff)
  ultimately show ?thesis by (simp add: group_inv_def)
qed

lemma AddMember_inv:
  assumes "group_inv g" "\<not> IsMember guid g" "isRaidGroup g \<or> \<not> IsFull g" "AddMember env guid g = Inr (acts, ok, g')"
  shows "group_inv g'"
proof -
  have roster: "roster_ok g" using assms(1) by (simp add: group_inv_def)
  have res: "roster_ok g'" "m_leaderGuid g' = m_leaderGuid g"
    "if ok then \<exists>s. m_memberSlots g' = m_memberSlots g @ [s] \<and> ms_guid s = guid \<and> ms_flags s = 0 else g' = g"
    using AddMember_roster [OF roster assms(2,3), of env] assms(4) by auto
  then have "unique_flag n (m_memberSlots g')" if "n \<in> {1, 2}" for n
    using that assms(1) by (auto simp: group_inv_def unique_flag_def split: if_splits)
  moreover have "m_leaderGuid g' \<in> ms_guid ` set (m_memberSlots g')"
    using res(2,3) assms(1) by (auto simp: group_inv_def split: if_splits)
  ultimately show ?thesis using res(1) by (simp add: group_inv_def)
qed

lemma Create_inv:
  assumes "m_memberSlots g = []" "m_subGroupsCounts g = None"
  shows "\<exists>acts g'. Create env store leader g = Inr (acts, True, g') \<and> group_inv g' \<and> m_leaderGuid g' = leader"
proof -
  let ?g = "g\<lparr>m_leaderGuid := leader, m_leaderName := ge_name env leader,
    m_groupType := (if isBGGroup g \<or> isBFGroup g then 3 else 0)\<rparr>"
  have "counts_ok (replicate 8 0) []" by (simp add: counts_ok_def)
  then have "\<exists>g1. (if m_groupType ?g AND 2 \<noteq> 0 then initRaidSubGroupsCounter ?g else Inr ?g) = Inr g1 \<and> roster_ok g1 \<and>
      g1 = ?g\<lparr>m_subGroupsCounts := m_subGroupsCounts g1\<rparr>"
    using assms by (auto simp: initRaidSubGroupsCounter_def roster_ok_def raid_bit member_flag_bits)
  then obtain g1 where g1: "(if m_groupType ?g AND 2 \<noteq> 0 then initRaidSubGroupsCounter ?g else Inr ?g) = Inr g1"
      "roster_ok g1" "g1 = ?g\<lparr>m_subGroupsCounts := m_subGroupsCounts g1\<rparr>" by blast
  define g2 where "g2 = (let g = g1\<lparr>m_lootMethod := 3, m_lootThreshold := 2, m_looterGuid := leader, m_dungeonDifficulty := 1,
      m_raidDifficulty := 3\<rparr>
    in if stored g then g\<lparr>m_dungeonDifficulty := ge_dungeonDifficulty env leader,
      m_raidDifficulty := ge_raidDifficulty env leader, m_dbStoreId := store\<rparr> else g)"
  have slots: "m_memberSlots g1 = []" "m_leaderGuid g1 = leader" by (subst g1(3), simp add: assms)+
  have "roster_ok g2" by (rule roster_ok_cong [OF g1(2)]) (simp_all add: g2_def Let_def isRaidGroup_def)
  moreover have g2: "m_memberSlots g2 = []" "m_leaderGuid g2 = leader" using slots by (simp_all add: g2_def Let_def)
  then have "\<not> IsMember leader g2" "\<not> IsFull g2" by (auto simp: IsMember_iff IsFull_def)
  ultimately obtain acts g' where add: "AddMember env leader g2 = Inr (acts, True, g')" "roster_ok g'"
      "m_leaderGuid g' = leader" "\<exists>s. m_memberSlots g' = [s] \<and> ms_guid s = leader \<and> ms_flags s = 0"
    using AddMember_roster [of g2 leader env] g2 by auto
  then have "group_inv g'" by (auto simp: group_inv_def unique_flag_def)
  moreover have "\<exists>acts. Create env store leader g = Inr (acts, True, g')"
    using g1(1) add(1) unfolding Create_def g2_def Let_def by (auto split: if_splits)
  ultimately show ?thesis using add(3) by blast
qed

text \<open>
  The steps of a group, with what the callers check: a player accepts an invitation only to a group he
  is not in and, unless \<open>AddMember\<close> looks for a subgroup itself, that is not full; the client names
  subgroups 0 to 7 and the target subgroup has room; main tank and main assist are the only flags
  taken away from everybody.
\<close>

inductive group_step :: "group \<Rightarrow> group \<Rightarrow> bool" where
  accept: "\<not> IsMember guid g \<Longrightarrow> isRaidGroup g \<or> \<not> IsFull g \<Longrightarrow> AddMember env guid g = Inr (acts, ok, g') \<Longrightarrow> group_step g g'"
| remove: "links_ok env \<Longrightarrow> RemoveMember env guid method kicker g = Inr (acts, ok, Some g') \<Longrightarrow> group_step g g'"
| leader: "ChangeLeader env guid g = (acts, g') \<Longrightarrow> group_step g g'"
| everyone: "ChangeFlagEveryoneAssistant b g = (acts, g') \<Longrightarrow> group_step g g'"
| lfg: "ConvertToLFG g = (acts, g') \<Longrightarrow> group_step g g'"
| raid: "ConvertToRaid env g = Inr (acts, g') \<Longrightarrow> group_step g g'"
| normal: "ConvertToGroup env g = (acts, g') \<Longrightarrow> group_step g g'"
| move: "sub < 8 \<Longrightarrow> HasFreeSlotSubGroup sub g = Inr True \<Longrightarrow> ChangeMembersGroup env guid sub g = Inr (acts, g') \<Longrightarrow> group_step g g'"
| flag: "SetGroupMemberFlag guid b f g = (acts, g') \<Longrightarrow> group_step g g'"
| unflag: "k \<in> {1, 2} \<Longrightarrow> group_step g (RemoveUniqueGroupMemberFlag (2 ^ k) g)"
| role: "setGroupMemberRole guid r g = (acts, g') \<Longrightarrow> group_step g g'"
| lfg_role: "SetLfgRoles guid r8 g = (acts, g') \<Longrightarrow> group_step g g'"
| looter: "UpdateLooterGuid env b g = (acts, g') \<Longrightarrow> group_step g g'"
| icon: "SetTargetIcon i who target g = (acts, g') \<Longrightarrow> group_step g g'"
| marker: "AddRaidMarker i mapid pos g = (acts, g') \<Longrightarrow> group_step g g'"
| unmarker: "RemoveRaidMarker i g = (acts, g') \<Longrightarrow> group_step g g'"
| unmarkers: "RemoveAllRaidMarkers g = (acts, g') \<Longrightarrow> group_step g g'"
| invite: "AddInvite env guid g = Some (acts, g') \<Longrightarrow> group_step g g'"
| uninvite: "UninviteFromGroup env guid g = (acts, Some g') \<Longrightarrow> group_step g g'"
| rolls: "group_step g (g\<lparr>RollId := rs\<rparr>)"
| loot: "group_step g (g\<lparr>m_lootMethod := lm, m_lootThreshold := lt, m_looterGuid := looter\<rparr>)"

inductive group_reach :: "group \<Rightarrow> bool" where
  created: "Create env store leader ((new_Group guid bg bf)\<lparr>m_invitees := invited\<rparr>) = Inr (acts, True, g) \<Longrightarrow> group_reach g"
| step: "group_reach g \<Longrightarrow> group_step g g' \<Longrightarrow> group_reach g'"

lemma set_icon_keeps:
  "m_memberSlots (snd (set_icon i who t ag)) = m_memberSlots (snd ag)"
  "m_subGroupsCounts (snd (set_icon i who t ag)) = m_subGroupsCounts (snd ag)"
  "m_groupType (snd (set_icon i who t ag)) = m_groupType (snd ag)"
  "m_leaderGuid (snd (set_icon i who t ag)) = m_leaderGuid (snd ag)"
  by (simp_all add: set_icon_def case_prod_beta)

definition clear_icons :: "u64 \<Rightarrow> nat list \<Rightarrow> group_action list \<times> group \<Rightarrow> group_action list \<times> group" where
  "clear_icons t = fold (\<lambda>i ag. if m_targetIcons (snd ag) ! i = t then set_icon i 0 0 ag else ag)"

lemma clear_icons_keeps:
  "m_memberSlots (snd (clear_icons t js ag)) = m_memberSlots (snd ag) \<and>
   m_subGroupsCounts (snd (clear_icons t js ag)) = m_subGroupsCounts (snd ag) \<and>
   m_groupType (snd (clear_icons t js ag)) = m_groupType (snd ag) \<and>
   m_leaderGuid (snd (clear_icons t js ag)) = m_leaderGuid (snd ag)"
  unfolding clear_icons_def by (induction js arbitrary: ag) (auto simp: set_icon_keeps)

lemma SetTargetIcon_keeps:
  assumes "SetTargetIcon i who t g = (acts, g')"
  shows "m_memberSlots g' = m_memberSlots g" "m_subGroupsCounts g' = m_subGroupsCounts g" "m_groupType g' = m_groupType g"
    "m_leaderGuid g' = m_leaderGuid g"
  using arg_cong [OF assms, of snd] clear_icons_keeps [of t "[0..<8]" "([], g)"]
  by (auto simp: SetTargetIcon_def set_icon_keeps clear_icons_def split: if_splits)

lemma group_step_inv:
  assumes "group_step g g'" "group_inv g"
  shows "group_inv g'"
  using assms
proof (induction rule: group_step.induct)
  case (accept guid g env acts ok g')
  then show ?case by (blast intro: AddMember_inv)
next
  case (remove env guid how kicker g acts ok g')
  then show ?case by (blast intro: RemoveMember_inv)
next
  case (leader env guid g acts g')
  then show ?case by (blast intro: ChangeLeader_inv)
next
  case (raid env g acts g')
  then show ?case using ConvertToRaid_inv [of g env] by auto
next
  case (normal env g acts g')
  then show ?case by (blast intro: ConvertToGroup_inv)
next
  case (move sub g env guid acts g')
  then show ?case using ChangeMembersGroup_inv [of g sub env guid] by auto
next
  case (flag guid b f g acts g')
  then show ?case by (blast intro: SetGroupMemberFlag_inv)
next
  case (unflag k g)
  then show ?case by (intro RemoveUnique_inv) auto
next
  case (role guid r g acts g')
  then show ?case using update_slot_inv [of g "\<lambda>s. s\<lparr>ms_roles := ucast r\<rparr>" guid] by (auto simp: setGroupMemberRole_def)
next
  case (lfg_role guid r8 g acts g')
  then show ?case
    using update_slot_inv [of g "\<lambda>s. s\<lparr>ms_roles := r8\<rparr>" guid] by (auto simp: SetLfgRoles_def split: if_splits)
next
  case (everyone b g acts g')
  then show ?case by (cases b) (auto intro!: group_inv_cong [of g] simp: ChangeFlagEveryoneAssistant_def raid_bit bit_simps)
next
  case (lfg g acts g')
  then show ?case by (auto intro!: group_inv_cong [of g] simp: ConvertToLFG_def Let_def raid_bit bit_simps)
next
  case (icon i who target g acts g')
  then show ?case using SetTargetIcon_keeps [OF icon(1)] by (auto intro!: group_inv_cong [of g] simp: raid_bit)
next
  case (looter env b g acts g')
  then show ?case by - (rule group_inv_cong [of g], auto simp: UpdateLooterGuid_def Let_def isRaidGroup_def split: if_splits option.splits)
next
  case (marker i mapid pos g acts g')
  then show ?case by - (rule group_inv_cong [of g], auto simp: AddRaidMarker_def isRaidGroup_def split: if_splits)
next
  case (unmarker i g acts g')
  then show ?case by - (rule group_inv_cong [of g], auto simp: RemoveRaidMarker_def isRaidGroup_def split: if_splits)
next
  case (unmarkers g acts g')
  then show ?case by - (rule group_inv_cong [of g], auto simp: RemoveAllRaidMarkers_def isRaidGroup_def)
next
  case (invite env guid g acts g')
  then show ?case by - (rule group_inv_cong [of g], auto simp: AddInvite_def RemoveInvite_def isRaidGroup_def split: if_splits)
next
  case (uninvite env guid g acts g')
  then show ?case
    by - (rule group_inv_cong [of g], auto simp: UninviteFromGroup_def RemoveInvite_def isRaidGroup_def split: if_splits)
next
  case (rolls g rs)
  then show ?case by - (rule group_inv_cong [of g], simp_all add: isRaidGroup_def)
next
  case (loot g lm lt looter)
  then show ?case by - (rule group_inv_cong [of g], simp_all add: isRaidGroup_def)
qed

lemma group_reach_inv: "group_reach g \<Longrightarrow> group_inv g"
proof (induction rule: group_reach.induct)
  case (created env store leader invited guid bg bf acts g)
  then show ?case using Create_inv [of "(new_Group guid bg bf)\<lparr>m_invitees := invited\<rparr>" env store leader] by (auto simp: new_Group_def)
qed (rule group_step_inv)


text \<open>
  C26: no operation on a group that can be reached indexes the counters out of bounds, and a player
  can always join a group that is not full.
\<close>

theorem group_operations_succeed:
  assumes "group_reach g"
  shows "(\<exists>r. RemoveMember env guid method kicker g = Inr r) \<and> (\<exists>r. ConvertToRaid env g = Inr r) \<and>
    (\<exists>r. 8 \<le> sub \<or> HasFreeSlotSubGroup sub g = Inr False \<or> ChangeMembersGroup env guid sub g = Inr r) \<and>
    (IsMember guid g \<or> IsFull g \<or> (\<exists>acts g'. AddMember env guid g = Inr (acts, True, g') \<and> IsMember guid g'))"
proof (intro conjI)
  have inv: "group_inv g" and roster: "roster_ok g" using group_reach_inv [OF assms] by (simp_all add: group_inv_def)
  have "roster_ok (leaving_group env guid method g)" by (rule roster_ok_cong [OF roster]) (simp_all add: leaving_keeps)
  from remove_slot_spec [OF this, of guid] show "\<exists>r. RemoveMember env guid method kicker g = Inr r"
    using RemoveMember_no_error by blast
  show "\<exists>r. ConvertToRaid env g = Inr r" using ConvertToRaid_inv [OF inv, of env] by auto
  have "HasFreeSlotSubGroup sub g \<noteq> Inl Counter_Index" if "sub < 8"
    using that roster
    by (auto simp: HasFreeSlotSubGroup_def roster_ok_def counts_ok_def word_less_nat_alt split: option.splits)
  then show "\<exists>r. 8 \<le> sub \<or> HasFreeSlotSubGroup sub g = Inr False \<or> ChangeMembersGroup env guid sub g = Inr r"
  proof (cases "sub < 8 \<and> HasFreeSlotSubGroup sub g = Inr True")
    case True
    then show ?thesis using ChangeMembersGroup_inv [OF inv, of sub env guid] by auto
  next
    case False
    then show ?thesis
      using \<open>sub < 8 \<Longrightarrow> HasFreeSlotSubGroup sub g \<noteq> Inl Counter_Index\<close>
      by (cases "sub < 8") (auto simp: HasFreeSlotSubGroup_def not_less split: option.splits if_splits)
  qed
  show "IsMember guid g \<or> IsFull g \<or> (\<exists>acts g'. AddMember env guid g = Inr (acts, True, g') \<and> IsMember guid g')"
  proof (cases "IsMember guid g \<or> IsFull g")
    case False
    then obtain acts ok g' where "AddMember env guid g = Inr (acts, ok, g')" "ok"
        "if ok then \<exists>s. m_memberSlots g' = m_memberSlots g @ [s] \<and> ms_guid s = guid \<and> ms_flags s = 0 else g' = g"
      using AddMember_roster [OF roster, of guid env] by auto
    then show ?thesis by (auto simp: IsMember_iff)
  qed auto
qed

section \<open>Samples\<close>

definition sample_genv :: group_env where
  "sample_genv = \<lparr>ge_online = (\<lambda>_. True), ge_linked = (\<lambda>_. True), ge_name = (\<lambda>_. ''Thrall''), ge_in_group = (\<lambda>_. False),
     ge_in_normal_group = (\<lambda>_. False), ge_invited = (\<lambda>_. False), ge_group_here = (\<lambda>_. True), ge_original_here = (\<lambda>_. False),
     ge_other_group = (\<lambda>_. False), ge_enchanting = (\<lambda>guid. if guid = player_guid 2 then 300 else 0),
     ge_heroic_level = (\<lambda>_. False), ge_dungeonDifficulty = (\<lambda>_. 1), ge_raidDifficulty = (\<lambda>_. 3), ge_near = (\<lambda>_. True),
     ge_lfg_dungeon = False, ge_lfg_outside = (\<lambda>_. False),
     ge_rolls = \<lparr>re_urand = (\<lambda>_ _. 1), re_online = (\<lambda>_. True), re_CanStore = (\<lambda>_ _. True), re_items_empty = (\<lambda>_. False)\<rparr>\<rparr>"

definition slot_of :: "u32 \<Rightarrow> member_slot" where
  "slot_of low = \<lparr>ms_guid = player_guid low, ms_name = ''Thrall'', ms_group = 0, ms_flags = 0, ms_roles = 0\<rparr>"

definition sample_group :: "u32 list \<Rightarrow> group" where
  "sample_group lows = (new_Group 99 False False)\<lparr>m_memberSlots := map slot_of lows, m_leaderGuid := player_guid 1,
     m_leaderName := ''Thrall'', m_lootMethod := 3, m_looterGuid := player_guid 1, m_dbStoreId := 7,
     m_maxEnchantingLevel := (if 2 \<in> set lows then 300 else 0)\<rparr>"

lemma sample_add:
  assumes "2 \<notin> set lows" "AddMember sample_genv (player_guid low) (sample_group lows) = Inr (acts, ok, g)"
  shows "g = sample_group (lows @ [low])"
  using assms by (auto simp: AddMember_def free_subgroup_def sample_group_def new_Group_def SubGroupCounterIncrease_def
      update_counts_def Let_def isRaidGroup_def slot_of_def sample_genv_def player_guid_eq_iff)

lemma sample_group_reach:
  "group_reach (sample_group [1])" "group_reach (sample_group [1, 3])" "group_reach (sample_group [1, 3, 2])"
proof -
  let ?new = "(new_Group 99 False False)\<lparr>m_invitees := []\<rparr>"
  obtain acts g where create: "Create sample_genv 7 (player_guid 1) ?new = Inr (acts, True, g)"
    using Create_inv [of ?new sample_genv 7 "player_guid 1"] by (auto simp: new_Group_def)
  then have "g = sample_group [1]"
    by (auto simp: Create_def AddMember_def free_subgroup_def sample_group_def new_Group_def SubGroupCounterIncrease_def
        update_counts_def Let_def isRaidGroup_def slot_of_def sample_genv_def stored_def player_guid_eq_iff)
  then show one: "group_reach (sample_group [1])" using group_reach.created [OF create] by simp
  have join: "group_reach (sample_group (lows @ [low]))"
    if reach: "group_reach (sample_group lows)" and "low \<notin> set lows" "2 \<notin> set lows" "length lows < 5" for lows low
  proof -
    have new: "\<not> IsMember (player_guid low) (sample_group lows)" "\<not> IsFull (sample_group lows)"
      using that by (auto simp: IsMember_iff IsFull_def sample_group_def new_Group_def isRaidGroup_def slot_of_def player_guid_eq_iff)
    then obtain acts g where add: "AddMember sample_genv (player_guid low) (sample_group lows) = Inr (acts, True, g)"
      using AddMember_roster [of "sample_group lows" "player_guid low" sample_genv] group_reach_inv [OF reach]
      by (auto simp: group_inv_def)
    have "group_step (sample_group lows) g" using new add by (auto intro: group_step.accept)
    then show ?thesis using sample_add [OF that(3) add] group_reach.step [OF reach] by simp
  qed
  show two: "group_reach (sample_group [1, 3])" using join [OF one, of 3] by simp
  show "group_reach (sample_group [1, 3, 2])" using join [OF two, of 2] by simp
qed


theorem group_operations_succeed_witness:
  "\<exists>r. RemoveMember sample_genv (player_guid 2) REMOVE_LEAVE 0 (sample_group [1, 3, 2]) = Inr r"
  using group_operations_succeed [OF sample_group_reach(3)] by blast

end
