(* ===== verification/GroupDetails.thy ===== *)
theory GroupDetails
  imports GroupProps
begin

text \<open>
  Properties of single operations of a group: the turn of the looter, the target icons and the
  enchanting level after a departure.
\<close>

section \<open>The looter's turn\<close>

lemma slot_index_nth:
  assumes "distinct (map ms_guid ss)" "i < length ss"
  shows "slot_index (ms_guid (ss ! i)) ss = i"
proof -
  have "takeWhile (\<lambda>s. ms_guid s \<noteq> ms_guid (ss ! i)) ss = take i ss"
  proof (rule takeWhile_eq_take_P_nth)
    fix n assume n: "n < i" "n < length ss"
    then have "map ms_guid ss ! n \<noteq> map ms_guid ss ! i" using assms by (simp add: nth_eq_iff_index_eq del: nth_map)
    then show "ms_guid (ss ! n) \<noteq> ms_guid (ss ! i)" using n assms(2) by simp
  qed simp
  then show ?thesis using assms(2) by (simp add: slot_index_def)
qed

lemma next_looter:
  assumes "distinct (map ms_guid (m_memberSlots g))" "i < length (m_memberSlots g)"
    and "list_all (\<lambda>s. ge_online env (ms_guid s) \<and> ge_near env (ms_guid s)) (m_memberSlots g)"
    and "m_lootMethod g \<notin> {0, 2}" "m_looterGuid g = ms_guid (m_memberSlots g ! i)"
  shows "snd (UpdateLooterGuid env False g) =
    g\<lparr>m_looterGuid := ms_guid (m_memberSlots g ! (Suc i mod length (m_memberSlots g)))\<rparr>"
proof -
  let ?ss = "m_memberSlots g"
  let ?near = "\<lambda>s. ge_online env (ms_guid s) \<and> ge_near env (ms_guid s)"
  have near: "find ?near xs = Some (hd xs)" if "xs \<noteq> []" "set xs \<subseteq> set ?ss" for xs
    using that assms(3) by (cases xs) (auto simp: list_all_iff)
  have "(case find ?near (drop (Suc i) ?ss) of Some s \<Rightarrow> Some s | None \<Rightarrow> find ?near (take (Suc i) ?ss)) =
      Some (?ss ! (Suc i mod length ?ss))"
  proof (cases "Suc i < length ?ss")
    case True
    then show ?thesis using near [of "drop (Suc i) ?ss"] by (simp add: hd_drop_conv_nth set_drop_subset)
  next
    case False
    then have "Suc i = length ?ss" using assms(2) by simp
    moreover have "take (Suc i) ?ss \<noteq> []" using assms(2) by auto
    ultimately show ?thesis
      using near [of "take (Suc i) ?ss"] by (simp add: hd_conv_nth set_take_subset)
  qed
  moreover have "slot_index (m_looterGuid g) ?ss = i" using slot_index_nth [OF assms(1,2)] assms(5) by simp
  ultimately show ?thesis using assms(2,4) by (auto simp: UpdateLooterGuid_def Let_def)
qed

text \<open>
  C27: while all members are near and the loot method gives turns, the turn to loot goes round: after
  any number of updates it has passed that many members in the order of the roster, beginning
  again after the last.
\<close>

theorem looter_turns:
  assumes "distinct (map ms_guid (m_memberSlots g))" "i < length (m_memberSlots g)"
    and "list_all (\<lambda>s. ge_online env (ms_guid s) \<and> ge_near env (ms_guid s)) (m_memberSlots g)"
    and "m_lootMethod g \<notin> {0, 2}" "m_looterGuid g = ms_guid (m_memberSlots g ! i)"
  shows "((\<lambda>g. snd (UpdateLooterGuid env False g)) ^^ k) g =
    g\<lparr>m_looterGuid := ms_guid (m_memberSlots g ! ((i + k) mod length (m_memberSlots g)))\<rparr>"
proof (induction k)
  case 0
  then show ?case using assms(2,5) by simp
next
  case (Suc k)
  let ?n = "length (m_memberSlots g)"
  have "snd (UpdateLooterGuid env False (g\<lparr>m_looterGuid := ms_guid (m_memberSlots g ! ((i + k) mod ?n))\<rparr>)) =
      g\<lparr>m_looterGuid := ms_guid (m_memberSlots g ! (Suc ((i + k) mod ?n) mod ?n))\<rparr>"
  proof (subst next_looter [where i = "(i + k) mod ?n"])
    have "0 < ?n" using assms(2) by linarith
    then show "(i + k) mod ?n < length (m_memberSlots (g\<lparr>m_looterGuid := ms_guid (m_memberSlots g ! ((i + k) mod ?n))\<rparr>))"
      by simp
  qed (use assms in auto)
  then show ?case using Suc by (simp add: mod_Suc_eq)
qed

theorem looter_turns_witness:
  "m_looterGuid (((\<lambda>g. snd (UpdateLooterGuid sample_genv False g)) ^^ 4) (sample_group [1, 3, 2])) = player_guid 3"
proof -
  have "((\<lambda>g. snd (UpdateLooterGuid sample_genv False g)) ^^ 4) (sample_group [1, 3, 2]) =
      (sample_group [1, 3, 2])\<lparr>m_looterGuid := ms_guid (m_memberSlots (sample_group [1, 3, 2]) ! ((0 + 4) mod 3))\<rparr>"
    using looter_turns [of "sample_group [1, 3, 2]" 0 sample_genv 4]
    by (simp add: sample_group_def new_Group_def slot_of_def sample_genv_def player_guid_eq_iff)
  then show ?thesis by (simp add: sample_group_def new_Group_def slot_of_def)
qed

section \<open>Target icons\<close>

lemma clear_icons_list:
  "m_targetIcons (snd (clear_icons t js ag)) =
     fold (\<lambda>i icons. if icons ! i = t then icons[i := 0] else icons) js (m_targetIcons (snd ag))"
  unfolding clear_icons_def by (induction js arbitrary: ag) (simp_all add: set_icon_def case_prod_beta)

lemma clear_list_nth:
  fixes t :: u64
  assumes "t \<noteq> 0" "k < length icons"
  shows "fold (\<lambda>i icons. if icons ! i = t then icons[i := 0] else icons) js icons ! k =
    (if k \<in> set js \<and> icons ! k = t then 0 else icons ! k)"
  using assms(2)
proof (induction js arbitrary: icons)
  case (Cons j js)
  have "fold (\<lambda>i icons. if icons ! i = t then icons[i := 0] else icons) js (if icons ! j = t then icons[j := 0] else icons) ! k =
      (if k \<in> set js \<and> (if icons ! j = t then icons[j := 0] else icons) ! k = t then 0
       else (if icons ! j = t then icons[j := 0] else icons) ! k)"
    by (rule Cons.IH) (use Cons.prems in simp)
  then show ?case using Cons.prems assms(1) by (cases "k = j") auto
qed simp

lemma clear_list_length: "length (fold (\<lambda>i icons. if icons ! i = t then icons[i := 0] else icons) js icons) = length icons"
  by (induction js arbitrary: icons) auto

text \<open>
  Marking a target takes the mark away from every other icon it had, so that no target carries
  two icons; all other icons stay.
\<close>

lemma target_icon_moves:
  assumes "length (m_targetIcons g) = 8" "icon < 8" "target \<noteq> 0" "SetTargetIcon icon who target g = (acts, g')"
  shows "m_targetIcons g' = (map (\<lambda>t. if t = target then 0 else t) (m_targetIcons g))[unat icon := target]"
proof -
  have "m_targetIcons (snd (clear_icons target [0..<8] ([], g))) = map (\<lambda>t. if t = target then 0 else t) (m_targetIcons g)"
    unfolding clear_icons_list using assms(1,3) by (intro nth_equalityI) (simp_all add: clear_list_length clear_list_nth)
  moreover have "g' = snd (set_icon (unat icon) who target (clear_icons target [0..<8] ([], g)))"
    using assms(2,3) arg_cong [OF assms(4), of snd] by (simp add: SetTargetIcon_def clear_icons_def not_le [symmetric])
  ultimately show ?thesis by (simp add: set_icon_def case_prod_beta)
qed

section \<open>The enchanter who leaves\<close>

lemma fold_max_ge:
  fixes f :: "'a \<Rightarrow> u32"
  assumes "x \<in> set xs" "P x"
  shows "f x \<le> fold (\<lambda>x m. if P x \<and> m < f x then f x else m) xs m"
proof -
  have grow: "m \<le> fold (\<lambda>x m. if P x \<and> m < f x then f x else m) ys m" for ys m
  proof (induction ys arbitrary: m)
    case (Cons y ys)
    then show ?case by (auto intro: order_trans less_imp_le)
  qed simp
  show ?thesis using assms
  proof (induction xs arbitrary: m)
    case (Cons y ys)
    then show ?case
      using grow [of "if P y \<and> m < f y then f y else m" ys] by (auto split: if_splits) 
  qed simp
qed

lemma remove_slot_enchanting: "remove_slot guid g = Inr g' \<Longrightarrow> m_maxEnchantingLevel g' = m_maxEnchantingLevel g"
  by (auto simp: remove_slot_def SubGroupCounterDecrease_def update_counts_def split: option.splits)

text \<open>
  A member with enchanting skill who leaves while online still counts for the enchanting level
  of the group, because it is computed while he is in the roster; so rolls keep offering
  to disenchant on the strength of a skill nobody in the group may have.
\<close>

lemma leaving_enchanter_counts:
  assumes "RemoveMember env guid method kicker g = Inr (acts, ok, Some g')" "method \<noteq> REMOVE_KICK"
    and "IsMember guid g" "ge_online env guid" "ge_enchanting env guid \<noteq> 0"
  shows "ge_enchanting env guid \<le> m_maxEnchantingLevel g'"
proof -
  obtain g1 where g1: "remove_slot guid (leaving_group env guid method g) = Inr g1" "g' = snd (pick_leader env guid g1)"
    using RemoveMember_cases [OF assms(1)] assms(2) by auto
  have "m_maxEnchantingLevel g' = m_maxEnchantingLevel g1"
    using g1(2) by (auto simp: pick_leader_def ChangeLeader_def split: option.splits)
  also have "\<dots> = m_maxEnchantingLevel (leaving_group env guid method g)" by (rule remove_slot_enchanting [OF g1(1)])
  also have "\<dots> = m_maxEnchantingLevel (ResetMaxEnchantingLevel env g)"
    using assms(4,5) by (simp add: leaving_group_def leave_player_def ResetMaxEnchantingLevel_def Let_def)
  finally have level: "m_maxEnchantingLevel g' = m_maxEnchantingLevel (ResetMaxEnchantingLevel env g)" .
  obtain s where "s \<in> set (m_memberSlots g)" "ms_guid s = guid" using assms(3) by (auto simp: IsMember_iff)
  then have "ge_enchanting env guid \<le> m_maxEnchantingLevel (ResetMaxEnchantingLevel env g)"
    using fold_max_ge [of s "m_memberSlots g" "\<lambda>s. ge_online env (ms_guid s)" "\<lambda>s. ge_enchanting env (ms_guid s)" 0] assms(4)
    by (simp add: ResetMaxEnchantingLevel_def)
  then show ?thesis by (simp add: level)
qed

end
