(* ===== verification/Social.thy ===== *)
theory Social
  imports Channel
begin

text \<open>
  Friend and ignore lists: \<^verbatim>\<open>src/server/game/Entities/Player/SocialMgr.h\<close>, \<^verbatim>\<open>SocialMgr.cpp\<close> and their packet
  handlers in \<^verbatim>\<open>src/server/game/Handlers/MiscHandler.cpp\<close>.

  \<open>SocialMgr::m_socialMap\<close> is the state \<open>social_map\<close>; a \<open>Player\<close>'s \<open>m_social\<close> points into it from the
  moment \<open>LoadFromDB\<close> returns until the session's logout erases the entry and resets the pointer, so
  \<open>GetSocial\<close> looks the player up there.  What the code sends and what it writes to the database is
  the list of its \<open>social_action\<close>s; \<open>exec_social\<close> gives the statements their meaning on the table
  \<open>character_social\<close>.  Players, visibility, configuration, the UTF-8 truncation of notes and the
  column default of \<open>note\<close> come from the record \<open>social_env\<close>.
\<close>

section \<open>State\<close>

datatype friend_status =
    FRIEND_STATUS_OFFLINE | FRIEND_STATUS_ONLINE | FRIEND_STATUS_AFK | FRIEND_STATUS_DND | FRIEND_STATUS_RAF

fun status_value :: "friend_status \<Rightarrow> u8" where
  "status_value FRIEND_STATUS_OFFLINE = 0x00"
| "status_value FRIEND_STATUS_ONLINE = 0x01"
| "status_value FRIEND_STATUS_AFK = 0x02"
| "status_value FRIEND_STATUS_DND = 0x04"
| "status_value FRIEND_STATUS_RAF = 0x08"

definition SOCIAL_FLAG_FRIEND :: u8 where "SOCIAL_FLAG_FRIEND = 0x01"
definition SOCIAL_FLAG_IGNORED :: u8 where "SOCIAL_FLAG_IGNORED = 0x02"

record friend_info =
  fi_Status :: friend_status
  fi_Flags :: u8
  fi_Area :: u32
  fi_Level :: u8
  fi_Class :: u8
  fi_Note :: bytes

definition new_FriendInfo :: "u8 \<Rightarrow> bytes \<Rightarrow> friend_info" where
  "new_FriendInfo flags note =
     \<lparr>fi_Status = FRIEND_STATUS_OFFLINE, fi_Flags = flags, fi_Area = 0, fi_Level = 0, fi_Class = 0, fi_Note = note\<rparr>"

datatype friends_result =
    FRIEND_DB_ERROR | FRIEND_LIST_FULL | FRIEND_ONLINE | FRIEND_OFFLINE | FRIEND_NOT_FOUND | FRIEND_REMOVED
  | FRIEND_ADDED_ONLINE | FRIEND_ADDED_OFFLINE | FRIEND_ALREADY | FRIEND_SELF | FRIEND_ENEMY | FRIEND_IGNORE_FULL
  | FRIEND_IGNORE_SELF | FRIEND_IGNORE_NOT_FOUND | FRIEND_IGNORE_ALREADY | FRIEND_IGNORE_ADDED | FRIEND_IGNORE_REMOVED

fun result_value :: "friends_result \<Rightarrow> u8" where
  "result_value FRIEND_DB_ERROR = 0x00"
| "result_value FRIEND_LIST_FULL = 0x01"
| "result_value FRIEND_ONLINE = 0x02"
| "result_value FRIEND_OFFLINE = 0x03"
| "result_value FRIEND_NOT_FOUND = 0x04"
| "result_value FRIEND_REMOVED = 0x05"
| "result_value FRIEND_ADDED_ONLINE = 0x06"
| "result_value FRIEND_ADDED_OFFLINE = 0x07"
| "result_value FRIEND_ALREADY = 0x08"
| "result_value FRIEND_SELF = 0x09"
| "result_value FRIEND_ENEMY = 0x0A"
| "result_value FRIEND_IGNORE_FULL = 0x0B"
| "result_value FRIEND_IGNORE_SELF = 0x0C"
| "result_value FRIEND_IGNORE_NOT_FOUND = 0x0D"
| "result_value FRIEND_IGNORE_ALREADY = 0x0E"
| "result_value FRIEND_IGNORE_ADDED = 0x0F"
| "result_value FRIEND_IGNORE_REMOVED = 0x10"

definition SOCIALMGR_FRIEND_LIMIT :: u32 where "SOCIALMGR_FRIEND_LIMIT = 50"
definition SOCIALMGR_IGNORE_LIMIT :: u32 where "SOCIALMGR_IGNORE_LIMIT = 50"

type_synonym friend_map = "(u32, friend_info) std_map"

record player_social =
  m_playerSocialMap :: friend_map
  m_playerGUID :: u32

definition new_PlayerSocial :: player_social where
  "new_PlayerSocial = \<lparr>m_playerSocialMap = [], m_playerGUID = 0\<rparr>"

type_synonym social_map = "(u32, player_social) std_map"

text \<open>A player object, with what the lists ask of it and of its session.\<close>

record online = player +
  on_IsInWorld :: bool
  on_isAFK :: bool
  on_isDND :: bool
  on_zone :: u32
  on_level :: u8
  on_class :: u8
  on_InterRealmBG :: u32

text \<open>\<open>se_Find\<close> is the map of all player objects, keyed by guid, in the world or not.\<close>

record social_env =
  se_Find :: "u64 \<Rightarrow> online option"
  se_IsVisibleGloballyFor :: "online \<Rightarrow> online \<Rightarrow> bool"
  se_ALLOW_TWO_SIDE_WHO_LIST :: bool
  se_ALLOW_TWO_SIDE_ADD_FRIEND :: bool
  se_ALLOW_GM_FRIEND :: bool
  se_GM_LEVEL_IN_WHO_LIST :: u32
  se_realmID :: u32
  se_TeamForRace :: "u8 \<Rightarrow> u32"
  se_GetSecurity :: "u32 \<Rightarrow> u32"
  se_utf8truncate48 :: "bytes \<Rightarrow> bytes"
  se_note_default :: bytes

datatype social_statement =
    AddSocialFlags u8 u32 u32
  | RemSocialFlags u8 u32 u32
  | InsSocial u32 u32 u8
  | DelSocial u32 u32
  | UpdSocialNote bytes u32 u32

datatype social_action =
    SocialDB social_statement
  | SendContactList u64 packet
  | SendStatus u64 packet

text \<open>The rows of \<open>character_social\<close>: player and friend, flags and note.\<close>

type_synonym social_table = "((u32 \<times> u32) \<times> (u8 \<times> bytes)) list"

fun exec_social :: "bytes \<Rightarrow> social_statement \<Rightarrow> social_table \<Rightarrow> social_table" where
  "exec_social dflt (AddSocialFlags flag g f) t =
     map (\<lambda>r. if fst r = (g, f) then (fst r, (fst (snd r) OR flag, snd (snd r))) else r) t"
| "exec_social dflt (RemSocialFlags flag g f) t =
     map (\<lambda>r. if fst r = (g, f) then (fst r, (fst (snd r) AND NOT flag, snd (snd r))) else r) t"
| "exec_social dflt (InsSocial g f flag) t = t @ [((g, f), (flag, dflt))]"
| "exec_social dflt (DelSocial g f) t = filter (\<lambda>r. fst r \<noteq> (g, f)) t"
| "exec_social dflt (UpdSocialNote note g f) t =
     map (\<lambda>r. if fst r = (g, f) then (fst r, (fst (snd r), note)) else r) t"

definition run_social :: "bytes \<Rightarrow> social_action list \<Rightarrow> social_table \<Rightarrow> social_table" where
  "run_social dflt acts t = fold (\<lambda>a. case a of SocialDB stmt \<Rightarrow> exec_social dflt stmt | _ \<Rightarrow> id) acts t"

text \<open>The query that loads a player's list: the rows with the player's guid whose friend still exists.\<close>

definition social_rows :: "(u32 \<Rightarrow> bool) \<Rightarrow> u32 \<Rightarrow> social_table \<Rightarrow> (u32 \<times> u8 \<times> bytes) list" where
  "social_rows alive g t =
     map (\<lambda>r. (snd (fst r), snd r)) (filter (\<lambda>r. fst (fst r) = g \<and> alive (snd (fst r))) t)"

section \<open>One player's list\<close>

definition GetNumberOfSocialsWithFlag :: "u8 \<Rightarrow> player_social \<Rightarrow> u32" where
  "GetNumberOfSocialsWithFlag flag s =
     fold (\<lambda>itr counter. if fi_Flags (snd itr) AND flag \<noteq> 0 then counter + 1 else counter) (m_playerSocialMap s) 0"

definition list_flag :: "bool \<Rightarrow> u8" where
  "list_flag ignore = (if ignore then SOCIAL_FLAG_IGNORED else SOCIAL_FLAG_FRIEND)"

definition AddToSocialList :: "u32 \<Rightarrow> bool \<Rightarrow> player_social \<Rightarrow> bool \<times> social_action list \<times> player_social" where
  "AddToSocialList friendGuid ignore s =
     (if (if ignore then GetNumberOfSocialsWithFlag SOCIAL_FLAG_IGNORED s \<ge> SOCIALMGR_IGNORE_LIMIT
          else GetNumberOfSocialsWithFlag SOCIAL_FLAG_FRIEND s \<ge> SOCIALMGR_FRIEND_LIMIT)
      then (False, [], s)
      else let flag = list_flag ignore
        in case map_find friendGuid (m_playerSocialMap s) of
          Some i \<Rightarrow> (True, [SocialDB (AddSocialFlags flag (m_playerGUID s) friendGuid)],
            s\<lparr>m_playerSocialMap := map_set friendGuid (i\<lparr>fi_Flags := fi_Flags i OR flag\<rparr>) (m_playerSocialMap s)\<rparr>)
        | None \<Rightarrow> (True, [SocialDB (InsSocial (m_playerGUID s) friendGuid flag)],
            s\<lparr>m_playerSocialMap := map_set friendGuid (new_FriendInfo (0 OR flag) []) (m_playerSocialMap s)\<rparr>))"

definition RemoveFromSocialList :: "u32 \<Rightarrow> bool \<Rightarrow> player_social \<Rightarrow> social_action list \<times> player_social" where
  "RemoveFromSocialList friendGuid ignore s =
     (case map_find friendGuid (m_playerSocialMap s) of
        None \<Rightarrow> ([], s)
      | Some i \<Rightarrow> let flag = list_flag ignore; flags = fi_Flags i AND NOT flag
          in if flags = 0
             then ([SocialDB (DelSocial (m_playerGUID s) friendGuid)],
               s\<lparr>m_playerSocialMap := map_erase friendGuid (m_playerSocialMap s)\<rparr>)
             else ([SocialDB (RemSocialFlags flag (m_playerGUID s) friendGuid)],
               s\<lparr>m_playerSocialMap := map_set friendGuid (i\<lparr>fi_Flags := flags\<rparr>) (m_playerSocialMap s)\<rparr>))"

definition SetFriendNote :: "social_env \<Rightarrow> u32 \<Rightarrow> bytes \<Rightarrow> player_social \<Rightarrow> social_action list \<times> player_social" where
  "SetFriendNote env friendGuid note s =
     (case map_find friendGuid (m_playerSocialMap s) of
        None \<Rightarrow> ([], s)
      | Some i \<Rightarrow> let note = se_utf8truncate48 env note
          in ([SocialDB (UpdSocialNote note (m_playerGUID s) friendGuid)],
              s\<lparr>m_playerSocialMap := map_set friendGuid (i\<lparr>fi_Note := note\<rparr>) (m_playerSocialMap s)\<rparr>))"

definition HasFriend :: "u32 \<Rightarrow> player_social \<Rightarrow> bool" where
  "HasFriend friend_guid s =
     (case map_find friend_guid (m_playerSocialMap s) of
        Some i \<Rightarrow> fi_Flags i AND SOCIAL_FLAG_FRIEND \<noteq> 0 | None \<Rightarrow> False)"

definition HasIgnore :: "u32 \<Rightarrow> player_social \<Rightarrow> bool" where
  "HasIgnore ignore_guid s =
     (case map_find ignore_guid (m_playerSocialMap s) of
        Some i \<Rightarrow> fi_Flags i AND SOCIAL_FLAG_IGNORED \<noteq> 0 | None \<Rightarrow> False)"

section \<open>The manager\<close>

definition RemovePlayerSocial :: "u32 \<Rightarrow> social_map \<Rightarrow> social_map" where
  "RemovePlayerSocial guid mgr = map_erase guid mgr"

definition GetSocial :: "social_map \<Rightarrow> online \<Rightarrow> player_social option" where
  "GetSocial mgr pl = map_find (GUID_LOPART (pl_guid pl)) mgr"

definition social_FindPlayer :: "social_env \<Rightarrow> u64 \<Rightarrow> online option" where
  "social_FindPlayer env guid =
     (case se_Find env guid of None \<Rightarrow> None | Some p \<Rightarrow> if on_IsInWorld p then Some p else None)"

definition FindPlayerInOrOutOfWorld :: "social_env \<Rightarrow> u64 \<Rightarrow> online option" where
  "FindPlayerInOrOutOfWorld env guid = se_Find env guid"

definition busy_status :: "online \<Rightarrow> friend_status" where
  "busy_status f =
     (if on_isDND f then FRIEND_STATUS_DND else if on_isAFK f then FRIEND_STATUS_AFK else FRIEND_STATUS_ONLINE)"

text \<open>Whether the account of \<open>viewer\<close> may see in its list that \<open>f\<close> is online.\<close>

definition may_see :: "social_env \<Rightarrow> online \<Rightarrow> online \<Rightarrow> bool" where
  "may_see env viewer f \<longleftrightarrow>
     (\<not> IsPlayerAccount (pl_security viewer) \<or>
      (pl_team f = pl_team viewer \<or> se_ALLOW_TWO_SIDE_WHO_LIST env) \<and> pl_security f \<le> se_GM_LEVEL_IN_WHO_LIST env) \<and>
     se_IsVisibleGloballyFor env f viewer"

definition GetFriendInfo :: "social_env \<Rightarrow> social_map \<Rightarrow> online \<Rightarrow> u32 \<Rightarrow> friend_info \<Rightarrow> friend_info" where
  "GetFriendInfo env mgr pl friendGUID friendInfo =
     (case GetSocial mgr pl of
        None \<Rightarrow> friendInfo
      | Some social \<Rightarrow>
          let fi = friendInfo\<lparr>fi_Status := FRIEND_STATUS_OFFLINE, fi_Area := 0, fi_Level := 0, fi_Class := 0\<rparr>
          in case social_FindPlayer env (player_guid friendGUID) of
            None \<Rightarrow> (case FindPlayerInOrOutOfWorld env (ucast friendGUID) of
                None \<Rightarrow> fi
              | Some f \<Rightarrow>
                  if on_InterRealmBG f = 0 then fi
                  else fi\<lparr>fi_Status := busy_status f, fi_Level := on_level f, fi_Class := on_class f,
                    fi_Area := (if on_InterRealmBG f > 1 then on_InterRealmBG f else 0)\<rparr>)
          | Some f \<Rightarrow>
              let fi = (case map_find friendGUID (m_playerSocialMap social) of
                    None \<Rightarrow> fi | Some e \<Rightarrow> fi\<lparr>fi_Note := fi_Note e\<rparr>)
              in if may_see env pl f
                 then fi\<lparr>fi_Status := busy_status f, fi_Area := on_zone f, fi_Level := on_level f, fi_Class := on_class f\<rparr>
                 else fi)"

definition append_contact :: "u32 \<Rightarrow> u32 \<times> friend_info \<Rightarrow> byte_buffer \<Rightarrow> packet" where
  "append_contact realmID itr data =
     (let i = snd itr in
     ebind (append_u64 (player_guid (fst itr)) data) (\<lambda>data.
     ebind (append_u32 realmID data) (\<lambda>data.
     ebind (append_u32 0 data) (\<lambda>data.
     ebind (append_u32 (ucast (fi_Flags i)) data) (\<lambda>data.
     ebind (append_string (fi_Note i) data) (\<lambda>data.
       if fi_Flags i AND SOCIAL_FLAG_FRIEND = 0 then Inr data
       else ebind (append_u8 (status_value (fi_Status i)) data) (\<lambda>data.
         if status_value (fi_Status i) = 0 then Inr data
         else ebind (append_u32 (fi_Area i) data) (\<lambda>data.
           ebind (append_u32 (ucast (fi_Level i)) data) (append_u32 (ucast (fi_Class i)))))))))))"

definition contact_list_packet :: "u32 \<Rightarrow> friend_map \<Rightarrow> packet" where
  "contact_list_packet realmID m =
     ebind (append_u32 7 empty_buffer) (\<lambda>data.
     ebind (append_u32 (of_nat (length m)) data) (efold (append_contact realmID) m))"

text \<open>
  \<open>SendSocialList\<close> refreshes every entry of the list of \<open>owner\<close> from \<open>player\<close>'s view before writing it.
  Where both are the same, the note that \<open>GetFriendInfo\<close> copies is the entry's own.
\<close>

definition SendSocialList :: "social_env \<Rightarrow> u32 \<Rightarrow> online \<Rightarrow> social_map \<Rightarrow> social_action list \<times> social_map" where
  "SendSocialList env owner pl mgr =
     (case map_find owner mgr of
        None \<Rightarrow> ([], mgr)
      | Some s \<Rightarrow>
          let m = map (\<lambda>itr. (fst itr, GetFriendInfo env mgr pl (fst itr) (snd itr))) (m_playerSocialMap s)
          in ([SendContactList (pl_guid pl) (contact_list_packet (se_realmID env) m)],
              map_set owner (s\<lparr>m_playerSocialMap := m\<rparr>) mgr))"

definition MakeFriendStatusPacket :: "friends_result \<Rightarrow> u32 \<Rightarrow> packet" where
  "MakeFriendStatusPacket result guid =
     ebind (append_u8 (result_value result) empty_buffer) (append_u64 (player_guid guid))"

definition status_packet :: "social_env \<Rightarrow> social_map \<Rightarrow> online \<Rightarrow> friends_result \<Rightarrow> u32 \<Rightarrow> packet" where
  "status_packet env mgr pl result friend_guid =
     (let fi = GetFriendInfo env mgr pl friend_guid (new_FriendInfo 0 []) in
     ebind (MakeFriendStatusPacket result friend_guid) (\<lambda>data.
     ebind (if result = FRIEND_ADDED_OFFLINE \<or> result = FRIEND_ADDED_ONLINE
            then append_string (fi_Note fi) data else Inr data) (\<lambda>data.
       if result = FRIEND_ADDED_ONLINE \<or> result = FRIEND_ONLINE
       then ebind (append_u8 (status_value (fi_Status fi)) data) (\<lambda>data.
         ebind (append_u32 (fi_Area fi) data) (\<lambda>data.
         ebind (append_u32 (ucast (fi_Level fi)) data) (append_u32 (ucast (fi_Class fi)))))
       else Inr data)))"

text \<open>The condition on the owner of a list in both loops over all lists.\<close>

definition listers :: "social_env \<Rightarrow> online \<Rightarrow> social_map \<Rightarrow> (u32 \<times> online) list" where
  "listers env pl mgr =
     List.map_filter (\<lambda>itr.
       if HasFriend (GUID_LOPART (pl_guid pl)) (snd itr)
       then (case social_FindPlayer env (player_guid (fst itr)) of
               None \<Rightarrow> None
             | Some f \<Rightarrow> if on_IsInWorld f \<and> may_see env f pl then Some (fst itr, f) else None)
       else None) mgr"

definition BroadcastToFriendListers :: "social_env \<Rightarrow> online \<Rightarrow> packet \<Rightarrow> social_map \<Rightarrow> social_action list" where
  "BroadcastToFriendListers env pl pkt mgr = map (\<lambda>f. SendStatus (pl_guid (snd f)) pkt) (listers env pl mgr)"

definition SendFriendStatus ::
  "social_env \<Rightarrow> social_map \<Rightarrow> online \<Rightarrow> friends_result \<Rightarrow> u32 \<Rightarrow> bool \<Rightarrow> social_action list" where
  "SendFriendStatus env mgr pl result friend_guid broadcast =
     (let data = status_packet env mgr pl result friend_guid in
      if broadcast then BroadcastToFriendListers env pl data mgr else [SendStatus (pl_guid pl) data])"

text \<open>The players whose list is sent again; each is sent her own list.\<close>

definition UpdateFriendList :: "social_env \<Rightarrow> online \<Rightarrow> social_map \<Rightarrow> social_action list \<times> social_map" where
  "UpdateFriendList env pl mgr =
     fold (\<lambda>f (acts, mgr). let (as, mgr) = SendSocialList env (GUID_LOPART (pl_guid (snd f))) (snd f) mgr in (acts @ as, mgr))
       (listers env pl mgr) ([], mgr)"

text \<open>The loop over the result's rows, with its early end at the client's limit.\<close>

fun load_rows :: "(u32 \<times> u8 \<times> bytes) list \<Rightarrow> friend_map \<Rightarrow> friend_map" where
  "load_rows [] m = m"
| "load_rows ((friend_guid, flags, note) # rows) m =
     (let m = map_set friend_guid (new_FriendInfo flags note) m
      in if length m \<ge> unat (SOCIALMGR_FRIEND_LIMIT + SOCIALMGR_IGNORE_LIMIT) then m else load_rows rows m)"

definition social_LoadFromDB :: "(u32 \<times> u8 \<times> bytes) list \<Rightarrow> u32 \<Rightarrow> social_map \<Rightarrow> social_map" where
  "social_LoadFromDB result guid mgr =
     (let s = (case map_find guid mgr of None \<Rightarrow> new_PlayerSocial | Some s \<Rightarrow> s)
      in map_set guid (s\<lparr>m_playerGUID := guid, m_playerSocialMap := load_rows result (m_playerSocialMap s)\<rparr>) mgr)"

section \<open>Packet handlers\<close>

text \<open>The result of an operation on the player's own list is stored back through the pointer.\<close>

definition on_social ::
  "u32 \<Rightarrow> (player_social \<Rightarrow> social_action list \<times> player_social) \<Rightarrow> social_map \<Rightarrow> social_action list \<times> social_map" where
  "on_social low f mgr =
     (case map_find low mgr of
        None \<Rightarrow> ([], mgr)
      | Some s \<Rightarrow> let (acts, s') = f s in (acts, map_set low s' mgr))"

definition HandleContactListOpcode :: "social_env \<Rightarrow> online \<Rightarrow> social_map \<Rightarrow> social_action list \<times> social_map" where
  "HandleContactListOpcode env pl mgr = SendSocialList env (GUID_LOPART (pl_guid pl)) pl mgr"

text \<open>
  The requests to add a friend or to ignore a player: the realm's name is cut off the player's name
  and the normalised name goes into a query, whose answer the call-backs below receive.  The result
  is the name to query and the note.
\<close>

definition cut_realm :: "bytes \<Rightarrow> bytes" where
  "cut_realm name = (if name \<noteq> [] \<and> hd name = 0x2D then name else takeWhile (\<lambda>c. c \<noteq> 0x2D) name)"

definition HandleAddFriendOpcode ::
  "(bytes \<Rightarrow> bytes option) \<Rightarrow> byte_buffer \<Rightarrow> bb_error + (bytes \<times> bytes) option" where
  "HandleAddFriendOpcode normalizePlayerName recvData =
     ebind (read_string recvData) (\<lambda>(friendName, recvData).
     ebind (read_string recvData) (\<lambda>(friendNote, recvData).
       Inr (map_option (\<lambda>name. (name, friendNote)) (normalizePlayerName (cut_realm friendName)))))"

definition HandleAddIgnoreOpcode :: "(bytes \<Rightarrow> bytes option) \<Rightarrow> byte_buffer \<Rightarrow> bb_error + bytes option" where
  "HandleAddIgnoreOpcode normalizePlayerName recvData =
     ebind (read_string recvData) (\<lambda>(ignoreName, recvData).
       Inr (normalizePlayerName (cut_realm ignoreName)))"

text \<open>The answer of the name query: guid, race and account of the character.\<close>

type_synonym name_row = "(u32 \<times> u8 \<times> u32) option"

definition friend_request ::
  "social_env \<Rightarrow> online \<Rightarrow> name_row \<Rightarrow> bytes \<Rightarrow> player_social \<Rightarrow> friends_result \<times> u64 \<times> social_action list \<times> player_social" where
  "friend_request env pl result friendNote s =
     (case result of
        None \<Rightarrow> (FRIEND_NOT_FOUND, 0, [], s)
      | Some (low, race, friendAccountId) \<Rightarrow>
          let friendGuid = player_guid low; team = se_TeamForRace env race
          in if (\<not> IsPlayerAccount (pl_security pl) \<or> se_ALLOW_GM_FRIEND env
                 \<or> IsPlayerAccount (se_GetSecurity env friendAccountId)) \<and> friendGuid \<noteq> 0
             then
               let (res, acts, s) =
                 (if friendGuid = pl_guid pl then (FRIEND_SELF, [], s)
                  else if pl_team pl \<noteq> team \<and> \<not> se_ALLOW_TWO_SIDE_ADD_FRIEND env \<and> IsPlayerAccount (pl_security pl)
                  then (FRIEND_ENEMY, [], s)
                  else if HasFriend (GUID_LOPART friendGuid) s then (FRIEND_ALREADY, [], s)
                  else let res = (case social_FindPlayer env friendGuid of
                            Some f \<Rightarrow> if on_IsInWorld f \<and> se_IsVisibleGloballyFor env f pl
                              then FRIEND_ADDED_ONLINE else FRIEND_ADDED_OFFLINE
                          | None \<Rightarrow> FRIEND_ADDED_OFFLINE);
                         (ok, acts, s) = AddToSocialList (GUID_LOPART friendGuid) False s
                       in (if ok then res else FRIEND_LIST_FULL, acts, s));
                   (acts', s) = SetFriendNote env (GUID_LOPART friendGuid) friendNote s
               in (res, friendGuid, acts @ acts', s)
             else (FRIEND_NOT_FOUND, friendGuid, [], s))"

text \<open>Both call-backs end by telling the player the result.\<close>

definition answer_request ::
  "social_env \<Rightarrow> online \<Rightarrow> (player_social \<Rightarrow> friends_result \<times> u64 \<times> social_action list \<times> player_social) \<Rightarrow>
   social_map \<Rightarrow> social_action list \<times> social_map" where
  "answer_request env pl request mgr =
     (case GetSocial mgr pl of
        None \<Rightarrow> ([], mgr)
      | Some s \<Rightarrow>
          let (result, guid, acts, s') = request s;
              mgr' = map_set (GUID_LOPART (pl_guid pl)) s' mgr
          in (acts @ SendFriendStatus env mgr' pl result (GUID_LOPART guid) False, mgr'))"

definition HandleAddFriendOpcodeCallBack ::
  "social_env \<Rightarrow> online \<Rightarrow> name_row \<Rightarrow> bytes \<Rightarrow> social_map \<Rightarrow> social_action list \<times> social_map" where
  "HandleAddFriendOpcodeCallBack env pl result friendNote mgr =
     answer_request env pl (friend_request env pl result friendNote) mgr"

definition HandleDelFriendOpcode :: "social_env \<Rightarrow> online \<Rightarrow> u64 \<Rightarrow> social_map \<Rightarrow> social_action list \<times> social_map" where
  "HandleDelFriendOpcode env pl FriendGUID mgr =
     (if GetSocial mgr pl = None then ([], mgr)
      else let (acts, mgr) = on_social (GUID_LOPART (pl_guid pl)) (RemoveFromSocialList (GUID_LOPART FriendGUID) False) mgr
        in (acts @ SendFriendStatus env mgr pl FRIEND_REMOVED (GUID_LOPART FriendGUID) False, mgr))"

definition ignore_request ::
  "online \<Rightarrow> u32 option \<Rightarrow> player_social \<Rightarrow> friends_result \<times> u64 \<times> social_action list \<times> player_social" where
  "ignore_request pl result s =
     (let IgnoreGuid = (case result of None \<Rightarrow> 0 | Some low \<Rightarrow> player_guid low)
      in if IgnoreGuid = 0 then (FRIEND_IGNORE_NOT_FOUND, IgnoreGuid, [], s)
         else if IgnoreGuid = pl_guid pl then (FRIEND_IGNORE_SELF, IgnoreGuid, [], s)
         else if HasIgnore (GUID_LOPART IgnoreGuid) s then (FRIEND_IGNORE_ALREADY, IgnoreGuid, [], s)
         else let (ok, acts, s) = AddToSocialList (GUID_LOPART IgnoreGuid) True s
           in (if ok then FRIEND_IGNORE_ADDED else FRIEND_IGNORE_FULL, IgnoreGuid, acts, s))"

definition HandleAddIgnoreOpcodeCallBack ::
  "social_env \<Rightarrow> online \<Rightarrow> u32 option \<Rightarrow> social_map \<Rightarrow> social_action list \<times> social_map" where
  "HandleAddIgnoreOpcodeCallBack env pl result mgr = answer_request env pl (ignore_request pl result) mgr"

definition HandleDelIgnoreOpcode :: "social_env \<Rightarrow> online \<Rightarrow> u64 \<Rightarrow> social_map \<Rightarrow> social_action list \<times> social_map" where
  "HandleDelIgnoreOpcode env pl IgnoreGUID mgr =
     (if GetSocial mgr pl = None then ([], mgr)
      else let (acts, mgr) = on_social (GUID_LOPART (pl_guid pl)) (RemoveFromSocialList (GUID_LOPART IgnoreGUID) True) mgr
        in (acts @ SendFriendStatus env mgr pl FRIEND_IGNORE_REMOVED (GUID_LOPART IgnoreGUID) False, mgr))"

definition HandleSetContactNotesOpcode ::
  "social_env \<Rightarrow> online \<Rightarrow> u64 \<Rightarrow> bytes \<Rightarrow> social_map \<Rightarrow> social_action list \<times> social_map" where
  "HandleSetContactNotesOpcode env pl guid note mgr =
     on_social (GUID_LOPART (pl_guid pl)) (SetFriendNote env (GUID_LOPART guid) note) mgr"

end
