(* ===== verification/SocialProps.thy ===== *)
theory SocialProps
  imports Social Codec "HOL-Library.Multiset"
begin

text \<open>
  Properties of the friend and ignore lists.  \<open>contacts\<close> is what a list in memory says about a
  character and \<open>saved\<close> what the table says; \<open>replay\<close> is the meaning of the statements of an operation
  on that abstract view.  Every operation's effect in memory is the replay of its own statements, so
  the table always holds the list.
\<close>

unbundle bit_operations_syntax

section \<open>The abstract lists\<close>

type_synonym contact_view = "u32 \<rightharpoonup> u8 \<times> bytes"

definition contacts :: "friend_map \<Rightarrow> contact_view" where
  "contacts m f = map_option (\<lambda>i. (fi_Flags i, fi_Note i)) (map_find f m)"

definition saved :: "social_table \<Rightarrow> u32 \<Rightarrow> contact_view" where
  "saved t g f = map_of t (g, f)"

definition listed_with :: "u8 \<Rightarrow> contact_view \<Rightarrow> u32 set" where
  "listed_with flag V = {f. \<exists>x. V f = Some x \<and> fst x AND flag \<noteq> 0}"

text \<open>Every character listed is a friend or ignored or both, and there are at most fifty of each.\<close>

definition contacts_ok :: "contact_view \<Rightarrow> bool" where
  "contacts_ok V \<longleftrightarrow> finite (dom V) \<and> (\<forall>x \<in> ran V. fst x \<in> {1, 2, 3}) \<and>
     card (listed_with SOCIAL_FLAG_FRIEND V) \<le> 50 \<and> card (listed_with SOCIAL_FLAG_IGNORED V) \<le> 50"

text \<open>A statement on the view of its owner: an insertion needs a character that is not yet listed.\<close>

fun change :: "social_statement \<Rightarrow> contact_view \<Rightarrow> contact_view" where
  "change (AddSocialFlags flag _ f) V = V(f := map_option (\<lambda>v. (fst v OR flag, snd v)) (V f))"
| "change (RemSocialFlags flag _ f) V = V(f := map_option (\<lambda>v. (fst v AND NOT flag, snd v)) (V f))"
| "change (InsSocial _ f flag) V = V(f \<mapsto> (flag, []))"
| "change (DelSocial _ f) V = V(f := None)"
| "change (UpdSocialNote note _ f) V = V(f := map_option (\<lambda>v. (fst v, note)) (V f))"

fun applicable :: "u32 \<Rightarrow> contact_view \<Rightarrow> social_statement \<Rightarrow> bool" where
  "applicable g V (AddSocialFlags _ h f) \<longleftrightarrow> h = g"
| "applicable g V (RemSocialFlags _ h f) \<longleftrightarrow> h = g"
| "applicable g V (InsSocial h f _) \<longleftrightarrow> h = g \<and> V f = None"
| "applicable g V (DelSocial h f) \<longleftrightarrow> h = g"
| "applicable g V (UpdSocialNote _ h f) \<longleftrightarrow> h = g"

fun replay :: "u32 \<Rightarrow> social_action list \<Rightarrow> contact_view \<Rightarrow> contact_view option" where
  "replay g [] V = Some V"
| "replay g (SocialDB st # acts) V = (if applicable g V st then replay g acts (change st V) else None)"
| "replay g (SendContactList _ _ # acts) V = replay g acts V"
| "replay g (SendStatus _ _ # acts) V = replay g acts V"

lemma replay_append: "replay g (as @ bs) V = Option.bind (replay g as V) (replay g bs)"
  by (induction g as V rule: replay.induct) auto

section \<open>The table replays\<close>

lemma map_of_update:
  "map_of (map (\<lambda>r. if fst r = k then (fst r, h (snd r)) else r) t) k' =
     (if k' = k then map_option h (map_of t k) else map_of t k')"
  by (induction t) auto

lemma keys_update: "map fst (map (\<lambda>r. if fst r = k then (fst r, h (snd r)) else r) t) = map fst t"
  by (induction t) auto

lemma map_of_filter_key: "map_of (filter (\<lambda>r. fst r \<noteq> k) t) k' = (if k' = k then None else map_of t k')"
  by (induction t) auto

lemma map_of_snoc: "map_of (t @ [(k, v)]) k' = (case map_of t k' of None \<Rightarrow> if k' = k then Some v else None | Some u \<Rightarrow> Some u)"
  by (induction t) auto

lemmas exec_update = map_of_update [where h = "\<lambda>v. (fst v OR x, snd v)" for x]
  map_of_update [where h = "\<lambda>v. (fst v AND NOT x, snd v)" for x] map_of_update [where h = "\<lambda>v. (fst v, x)" for x]

lemmas exec_keys = keys_update [where h = "\<lambda>v. (fst v OR x, snd v)" for x]
  keys_update [where h = "\<lambda>v. (fst v AND NOT x, snd v)" for x] keys_update [where h = "\<lambda>v. (fst v, x)" for x]

lemma exec_social_saved:
  assumes "applicable g (saved t g) st"
  shows "saved (exec_social [] st t) = (saved t)(g := change st (saved t g))"
  using assms
  by (cases st)
    (auto simp: saved_def fun_eq_iff exec_update map_of_filter_key map_of_snoc split: option.splits
      simp del: map_of_append)

lemma exec_social_distinct:
  assumes "distinct (map fst t)" "applicable g (saved t g) st"
  shows "distinct (map fst (exec_social [] st t))"
proof (cases st)
  case (InsSocial h f flag)
  then have "(h, f) \<notin> set (map fst t)" using assms(2) by (auto simp: saved_def map_of_eq_None_iff)
  then show ?thesis using InsSocial assms(1) by simp
qed (use assms(1) in \<open>simp_all add: distinct_map_filter exec_keys del: map_map\<close>)

lemma run_social_saved:
  assumes "distinct (map fst t)" "replay g acts (saved t g) = Some V"
  shows "distinct (map fst (run_social [] acts t)) \<and> saved (run_social [] acts t) = (saved t)(g := V)"
  using assms
proof (induction acts arbitrary: t)
  case Nil
  then show ?case by (auto simp: run_social_def)
next
  case (Cons a acts)
  show ?case
  proof (cases a)
    case (SocialDB st)
    then have ap: "applicable g (saved t g) st" and rest: "replay g acts (change st (saved t g)) = Some V"
      using Cons.prems by (auto split: if_splits)
    have step: "saved (exec_social [] st t) = (saved t)(g := change st (saved t g))"
      by (rule exec_social_saved [OF ap])
    have "replay g acts (saved (exec_social [] st t) g) = Some V" unfolding step using rest by simp
    from Cons.IH [OF exec_social_distinct [OF Cons.prems(1) ap] this, unfolded step fun_upd_upd]
    show ?thesis using SocialDB by (simp add: run_social_def)
  qed (use Cons in \<open>auto simp: run_social_def\<close>)
qed

section \<open>Counting\<close>

lemma contacts_dom: "map_ok m \<Longrightarrow> card (dom (contacts m)) = length m"
proof -
  assume ok: "map_ok m"
  have "dom (contacts m) = fst ` set m" by (simp add: contacts_def map_find_def dom_def flip: dom_map_of_conv_image_fst)
  then show ?thesis using map_ok_distinct [OF ok] by (metis card_image distinct_card distinct_map length_map list.set_map)
qed

lemma finite_contacts [simp]: "finite (dom (contacts m))"
  by (rule finite_subset [of _ "dom (map_of m)"]) (auto simp: contacts_def map_find_def finite_dom_map_of)

lemma count_loop:
  "fold (\<lambda>x (c :: 'a::len word). if P x then c + 1 else c) xs c = c + of_nat (length (filter P xs))"
  by (induction xs arbitrary: c) auto

lemma contacts_Some_iff:
  assumes "map_ok m"
  shows "contacts m f = Some x \<longleftrightarrow> (\<exists>i. (f, i) \<in> set m \<and> x = (fi_Flags i, fi_Note i))"
  using map_of_eq_Some_iff [OF map_ok_distinct [OF assms]] by (auto simp: contacts_def map_find_def)

lemma listed_with_contacts:
  assumes "map_ok m"
  shows "card (listed_with flag (contacts m)) = length (filter (\<lambda>itr. fi_Flags (snd itr) AND flag \<noteq> 0) m)"
proof -
  let ?P = "\<lambda>itr. fi_Flags (snd itr) AND flag \<noteq> 0"
  have d: "distinct (map fst m)" by (rule map_ok_distinct [OF assms])
  have "listed_with flag (contacts m) = fst ` set (filter ?P m)"
  proof (rule set_eqI)
    fix f
    show "f \<in> listed_with flag (contacts m) \<longleftrightarrow> f \<in> fst ` set (filter ?P m)"
      unfolding listed_with_def contacts_Some_iff [OF assms] image_iff by auto
  qed
  moreover have "distinct (map fst (filter ?P m))" using d by (rule distinct_map_filter)
  ultimately show ?thesis using distinct_card [of "map fst (filter ?P m)"] by simp
qed

lemma GetNumberOfSocialsWithFlag_count:
  assumes "map_ok (m_playerSocialMap s)" "length (m_playerSocialMap s) < 2 ^ 32"
  shows "unat (GetNumberOfSocialsWithFlag flag s) = card (listed_with flag (contacts (m_playerSocialMap s)))"
proof -
  have "length (filter (\<lambda>itr. fi_Flags (snd itr) AND flag \<noteq> 0) (m_playerSocialMap s)) < 2 ^ 32"
    using assms(2) le_less_trans [OF length_filter_le] by blast
  then show ?thesis
    by (simp add: GetNumberOfSocialsWithFlag_def count_loop listed_with_contacts [OF assms(1)] unat_of_nat take_bit_nat_eq_self)
qed

lemma contacts_ok_size:
  assumes "contacts_ok V"
  shows "card (dom V) \<le> 100"
proof -
  have flags: "x AND 1 \<noteq> 0 \<or> x AND 2 \<noteq> 0" if "x \<in> {1, 2, 3}" for x :: u8 using that by auto
  have "dom V \<subseteq> listed_with SOCIAL_FLAG_FRIEND V \<union> listed_with SOCIAL_FLAG_IGNORED V"
  proof
    fix f assume "f \<in> dom V"
    then obtain x where x: "V f = Some x" by auto
    then have "fst x \<in> {1, 2, 3}" using assms by (cases x) (auto simp: contacts_ok_def ran_def)
    from flags [OF this] x show "f \<in> listed_with SOCIAL_FLAG_FRIEND V \<union> listed_with SOCIAL_FLAG_IGNORED V"
      by (cases x) (auto simp: listed_with_def SOCIAL_FLAG_FRIEND_def SOCIAL_FLAG_IGNORED_def)
  qed
  moreover have "finite (listed_with flag V)" for flag
    using assms by (auto simp: contacts_ok_def listed_with_def intro!: finite_subset [of _ "dom V"])
  ultimately have "card (dom V) \<le> card (listed_with SOCIAL_FLAG_FRIEND V \<union> listed_with SOCIAL_FLAG_IGNORED V)"
    by (simp add: card_mono)
  also have "\<dots> \<le> card (listed_with SOCIAL_FLAG_FRIEND V) + card (listed_with SOCIAL_FLAG_IGNORED V)" by (rule card_Un_le)
  finally show ?thesis using assms by (simp add: contacts_ok_def)
qed

section \<open>The operations replay their statements\<close>

definition social_inv :: "u32 \<Rightarrow> player_social \<Rightarrow> bool" where
  "social_inv g s \<longleftrightarrow> m_playerGUID s = g \<and> map_ok (m_playerSocialMap s) \<and> contacts_ok (contacts (m_playerSocialMap s))"

text \<open>An operation on the list of \<open>g\<close> keeps the invariant and logs exactly its effect.\<close>

definition logged :: "u32 \<Rightarrow> player_social \<Rightarrow> social_action list \<Rightarrow> player_social \<Rightarrow> bool" where
  "logged g s acts s' \<longleftrightarrow> social_inv g s' \<and>
     replay g acts (contacts (m_playerSocialMap s)) = Some (contacts (m_playerSocialMap s'))"

lemma logged_nothing: "social_inv g s \<Longrightarrow> logged g s [] s"
  by (simp add: logged_def)

lemma logged_then: "logged g s as s' \<Longrightarrow> logged g s' bs s'' \<Longrightarrow> logged g s (as @ bs) s''"
  by (simp add: logged_def replay_append)

lemma contacts_set:
  "map_ok m \<Longrightarrow> contacts (map_set f i m) = (contacts m)(f \<mapsto> (fi_Flags i, fi_Note i))"
  by (simp add: contacts_def map_find_set fun_eq_iff)

lemma contacts_erase: "map_ok m \<Longrightarrow> contacts (map_erase f m) = (contacts m)(f := None)"
  by (simp add: contacts_def map_find_erase fun_eq_iff)

lemma finite_listed_with: "finite (dom V) \<Longrightarrow> finite (listed_with flag V)"
  by (rule finite_subset [of _ "dom V"]) (auto simp: listed_with_def)

lemma listed_with_upd:
  "listed_with flag (V(f \<mapsto> x)) =
     (if fst x AND flag \<noteq> 0 then insert f (listed_with flag V) else listed_with flag V - {f})"
  by (cases x) (auto simp: listed_with_def)

lemma listed_with_del: "listed_with flag (V(f := None)) = listed_with flag V - {f}"
  by (auto simp: listed_with_def)

lemma ran_upd_ok: "(\<forall>y \<in> ran V. P y) \<Longrightarrow> P x \<Longrightarrow> (\<forall>y \<in> ran (V(f \<mapsto> x)). P y)"
  by (auto simp: ran_def)

lemma contacts_ok_del:
  assumes "contacts_ok V"
  shows "contacts_ok (V(f := None))"
proof -
  have "card (listed_with flag V - {f}) \<le> card (listed_with flag V)" for flag
    by (rule card_mono) (use assms finite_listed_with in \<open>auto simp: contacts_ok_def\<close>)
  then show ?thesis using assms by (auto simp: contacts_ok_def listed_with_del ran_def intro: le_trans)
qed

text \<open>
  Changing an entry keeps the lists in order when every list it enters has room and every other
  change leaves lists.
\<close>

lemma contacts_ok_upd:
  assumes "contacts_ok V" "fst x \<in> {1, 2, 3}"
    and "\<And>flag. flag \<in> {SOCIAL_FLAG_FRIEND, SOCIAL_FLAG_IGNORED} \<Longrightarrow> fst x AND flag \<noteq> 0 \<Longrightarrow>
      f \<in> listed_with flag V \<or> card (listed_with flag V) < 50"
  shows "contacts_ok (V(f \<mapsto> x))"
proof -
  have fin: "finite (listed_with flag V)" for flag using assms(1) finite_listed_with by (auto simp: contacts_ok_def)
  have le: "card (listed_with flag V) \<le> 50" if "flag \<in> {SOCIAL_FLAG_FRIEND, SOCIAL_FLAG_IGNORED}" for flag
    using that assms(1) by (auto simp: contacts_ok_def)
  have "card (listed_with flag (V(f \<mapsto> x))) \<le> 50" if flag: "flag \<in> {SOCIAL_FLAG_FRIEND, SOCIAL_FLAG_IGNORED}" for flag
  proof (cases "fst x AND flag = 0")
    case True
    then have "card (listed_with flag (V(f \<mapsto> x))) \<le> card (listed_with flag V)"
      using fin by (auto simp: listed_with_upd intro: card_mono)
    then show ?thesis using le [OF flag] by simp
  next
    case False
    then show ?thesis using assms(3) [OF flag False] fin le [OF flag] by (auto simp: listed_with_upd card_insert_if)
  qed
  then show ?thesis using assms(1,2) ran_upd_ok [of V "\<lambda>y. fst y \<in> {1, 2, 3}" x f] by (auto simp: contacts_ok_def)
qed

lemma flag_values: "list_flag True = 2" "list_flag False = 1" "SOCIAL_FLAG_FRIEND = 1" "SOCIAL_FLAG_IGNORED = 2"
  by (simp_all add: list_flag_def SOCIAL_FLAG_FRIEND_def SOCIAL_FLAG_IGNORED_def)

text \<open>The three values that an entry's flags take, and what the list operations do to them.\<close>

lemma flag_cases:
  assumes "(x :: u8) \<in> {1, 2, 3}"
  shows "x OR list_flag b \<in> {1, 2, 3}" "x AND NOT (list_flag b) \<noteq> 0 \<Longrightarrow> x AND NOT (list_flag b) \<in> {1, 2, 3}"
    and "y \<in> {1, 2} \<Longrightarrow> (x OR list_flag b) AND y \<noteq> 0 \<Longrightarrow> y \<noteq> list_flag b \<Longrightarrow> x AND y \<noteq> 0"
    and "y \<in> {1, 2} \<Longrightarrow> (x AND NOT (list_flag b)) AND y \<noteq> 0 \<Longrightarrow> x AND y \<noteq> 0"
  using assms by (cases b; auto simp: flag_values)+

lemma social_inv_entry:
  assumes "social_inv g s" "map_find f (m_playerSocialMap s) = Some i"
  shows "fi_Flags i \<in> {1, 2, 3}" "contacts (m_playerSocialMap s) f = Some (fi_Flags i, fi_Note i)"
proof -
  show e: "contacts (m_playerSocialMap s) f = Some (fi_Flags i, fi_Note i)" using assms(2) by (simp add: contacts_def)
  then have "(fi_Flags i, fi_Note i) \<in> ran (contacts (m_playerSocialMap s))" by (rule ranI)
  then show "fi_Flags i \<in> {1, 2, 3}" using assms(1) by (auto simp: social_inv_def contacts_ok_def)
qed

lemma list_room:
  assumes "social_inv g s"
  shows "GetNumberOfSocialsWithFlag flag s \<ge> 50 \<longleftrightarrow> card (listed_with flag (contacts (m_playerSocialMap s))) \<ge> 50"
proof -
  have ok: "map_ok (m_playerSocialMap s)" using assms by (simp add: social_inv_def)
  then have "length (m_playerSocialMap s) \<le> 100"
    using assms contacts_ok_size contacts_dom by (fastforce simp: social_inv_def)
  then show ?thesis using GetNumberOfSocialsWithFlag_count [OF ok, of flag] by (simp add: word_le_nat_alt)
qed

lemma listed_with_iff: "V f = Some x \<Longrightarrow> f \<in> listed_with flag V \<longleftrightarrow> fst x AND flag \<noteq> 0"
  by (cases x) (simp add: listed_with_def)

lemma full_check:
  "(if ignore then GetNumberOfSocialsWithFlag SOCIAL_FLAG_IGNORED s \<ge> SOCIALMGR_IGNORE_LIMIT
    else GetNumberOfSocialsWithFlag SOCIAL_FLAG_FRIEND s \<ge> SOCIALMGR_FRIEND_LIMIT) \<longleftrightarrow>
   GetNumberOfSocialsWithFlag (list_flag ignore) s \<ge> 50"
  by (simp add: list_flag_def SOCIALMGR_FRIEND_LIMIT_def SOCIALMGR_IGNORE_LIMIT_def)

lemma AddToSocialList_refused:
  assumes "social_inv g s" "card (listed_with (list_flag ignore) (contacts (m_playerSocialMap s))) \<ge> 50"
  shows "AddToSocialList f ignore s = (False, [], s)"
  using assms(2) by (simp only: AddToSocialList_def full_check list_room [OF assms(1)] if_True)

lemma AddToSocialList_room:
  assumes "social_inv g s" "card (listed_with (list_flag ignore) (contacts (m_playerSocialMap s))) < 50"
  shows "AddToSocialList f ignore s = (case map_find f (m_playerSocialMap s) of
      Some i \<Rightarrow> (True, [SocialDB (AddSocialFlags (list_flag ignore) g f)],
        s\<lparr>m_playerSocialMap := map_set f (i\<lparr>fi_Flags := fi_Flags i OR list_flag ignore\<rparr>) (m_playerSocialMap s)\<rparr>)
    | None \<Rightarrow> (True, [SocialDB (InsSocial g f (list_flag ignore))],
        s\<lparr>m_playerSocialMap := map_set f (new_FriendInfo (list_flag ignore) []) (m_playerSocialMap s)\<rparr>))"
proof -
  have "m_playerGUID s = g" using assms(1) by (simp add: social_inv_def)
  moreover have "\<not> 50 \<le> card (listed_with (list_flag ignore) (contacts (m_playerSocialMap s)))" using assms(2) by simp
  ultimately show ?thesis
    by (simp only: AddToSocialList_def full_check list_room [OF assms(1)] if_False Let_def or.left_neutral)
qed

lemma logged_upd:
  assumes "social_inv g s" "applicable g (contacts (m_playerSocialMap s)) st"
    and "change st (contacts (m_playerSocialMap s)) = (contacts (m_playerSocialMap s))(f \<mapsto> (fi_Flags i, fi_Note i))"
    and "contacts_ok ((contacts (m_playerSocialMap s))(f \<mapsto> (fi_Flags i, fi_Note i)))"
  shows "logged g s [SocialDB st] (s\<lparr>m_playerSocialMap := map_set f i (m_playerSocialMap s)\<rparr>)"
  using assms by (simp add: logged_def social_inv_def contacts_set map_ok_set)

lemma logged_add:
  assumes "social_inv g s" "AddToSocialList f ignore s = (ok, acts, s')"
  shows "logged g s acts s'"
proof (cases "card (listed_with (list_flag ignore) (contacts (m_playerSocialMap s))) < 50")
  case False
  then show ?thesis using AddToSocialList_refused [OF assms(1), of ignore f] assms logged_nothing by auto
next
  case True
  note room = AddToSocialList_room [OF assms(1) True, of f, unfolded assms(2)]
  have ok: "contacts_ok (contacts (m_playerSocialMap s))" using assms(1) by (simp add: social_inv_def)
  show ?thesis
  proof (cases "map_find f (m_playerSocialMap s)")
    case None
    let ?i = "new_FriendInfo (list_flag ignore) []"
    have "contacts (m_playerSocialMap s) f = None" using None by (simp add: contacts_def)
    moreover have "contacts_ok ((contacts (m_playerSocialMap s))(f \<mapsto> (fi_Flags ?i, fi_Note ?i)))"
      by (rule contacts_ok_upd [OF ok]) (use True in \<open>cases ignore; auto simp: flag_values new_FriendInfo_def\<close>)+
    ultimately show ?thesis
      using room None logged_upd [OF assms(1), of "InsSocial g f (list_flag ignore)" f ?i]
      by (simp add: new_FriendInfo_def)
  next
    case (Some i)
    note entry = social_inv_entry [OF assms(1) Some]
    let ?i = "i\<lparr>fi_Flags := fi_Flags i OR list_flag ignore\<rparr>"
    have "contacts_ok ((contacts (m_playerSocialMap s))(f \<mapsto> (fi_Flags ?i, fi_Note ?i)))"
    proof (rule contacts_ok_upd [OF ok])
      show "fst (fi_Flags ?i, fi_Note ?i) \<in> {1, 2, 3}" using flag_cases(1) [OF entry(1)] by simp
      fix flag assume "flag \<in> {SOCIAL_FLAG_FRIEND, SOCIAL_FLAG_IGNORED}" "fst (fi_Flags ?i, fi_Note ?i) AND flag \<noteq> 0"
      then have "flag \<in> {1, 2}" "(fi_Flags i OR list_flag ignore) AND flag \<noteq> 0" by (simp_all add: flag_values(3,4))
      then have "flag \<noteq> list_flag ignore \<Longrightarrow> f \<in> listed_with flag (contacts (m_playerSocialMap s))"
        using flag_cases(3) [OF entry(1)] listed_with_iff [where V = "contacts (m_playerSocialMap s)", OF entry(2)]
        by (simp only: fst_conv)
      then show "f \<in> listed_with flag (contacts (m_playerSocialMap s)) \<or> card (listed_with flag (contacts (m_playerSocialMap s))) < 50"
        using True by blast
    qed
    then show ?thesis
      using room Some entry(2) logged_upd [OF assms(1), of "AddSocialFlags (list_flag ignore) g f" f ?i] by simp
  qed
qed

lemma logged_remove:
  assumes "social_inv g s" "RemoveFromSocialList f ignore s = (acts, s')"
  shows "logged g s acts s'"
proof (cases "map_find f (m_playerSocialMap s)")
  case None
  then show ?thesis using assms logged_nothing by (auto simp: RemoveFromSocialList_def)
next
  case (Some i)
  note entry = social_inv_entry [OF assms(1) Some]
  have s: "m_playerGUID s = g" "map_ok (m_playerSocialMap s)" "contacts_ok (contacts (m_playerSocialMap s))"
    using assms(1) by (auto simp: social_inv_def)
  let ?i = "i\<lparr>fi_Flags := fi_Flags i AND NOT (list_flag ignore)\<rparr>"
  show ?thesis
  proof (cases "fi_Flags i AND NOT (list_flag ignore) = 0")
    case True
    then have "acts = [SocialDB (DelSocial g f)]" "s' = s\<lparr>m_playerSocialMap := map_erase f (m_playerSocialMap s)\<rparr>"
      using assms(2) Some s(1) by (auto simp: RemoveFromSocialList_def Let_def)
    then show ?thesis
      using s contacts_ok_del [OF s(3)] by (simp add: logged_def social_inv_def contacts_erase map_ok_erase)
  next
    case False
    have "contacts_ok ((contacts (m_playerSocialMap s))(f \<mapsto> (fi_Flags ?i, fi_Note ?i)))"
    proof (rule contacts_ok_upd [OF s(3)])
      show "fst (fi_Flags ?i, fi_Note ?i) \<in> {1, 2, 3}" using flag_cases(2) [OF entry(1) False] by simp
      fix flag assume "flag \<in> {SOCIAL_FLAG_FRIEND, SOCIAL_FLAG_IGNORED}" "fst (fi_Flags ?i, fi_Note ?i) AND flag \<noteq> 0"
      then show "f \<in> listed_with flag (contacts (m_playerSocialMap s)) \<or> card (listed_with flag (contacts (m_playerSocialMap s))) < 50"
        using flag_cases(4) [OF entry(1), of flag ignore] listed_with_iff [where V = "contacts (m_playerSocialMap s)", OF entry(2)]
        by (auto simp: flag_values(3,4))
    qed
    moreover have "acts = [SocialDB (RemSocialFlags (list_flag ignore) g f)]"
        "s' = s\<lparr>m_playerSocialMap := map_set f ?i (m_playerSocialMap s)\<rparr>"
      using assms(2) Some s(1) False by (auto simp: RemoveFromSocialList_def Let_def)
    ultimately show ?thesis
      using entry(2) logged_upd [OF assms(1), of "RemSocialFlags (list_flag ignore) g f" f ?i] by simp
  qed
qed

lemma logged_note:
  assumes "social_inv g s" "SetFriendNote env f note s = (acts, s')"
  shows "logged g s acts s'"
proof (cases "map_find f (m_playerSocialMap s)")
  case None
  then show ?thesis using assms logged_nothing by (auto simp: SetFriendNote_def)
next
  case (Some i)
  note entry = social_inv_entry [OF assms(1) Some]
  have s: "m_playerGUID s = g" "contacts_ok (contacts (m_playerSocialMap s))" using assms(1) by (auto simp: social_inv_def)
  let ?i = "i\<lparr>fi_Note := se_utf8truncate48 env note\<rparr>"
  have "contacts_ok ((contacts (m_playerSocialMap s))(f \<mapsto> (fi_Flags ?i, fi_Note ?i)))"
    by (rule contacts_ok_upd [OF s(2)])
      (use entry listed_with_iff [where V = "contacts (m_playerSocialMap s)", OF entry(2)] in auto)
  moreover have "acts = [SocialDB (UpdSocialNote (se_utf8truncate48 env note) g f)]"
      "s' = s\<lparr>m_playerSocialMap := map_set f ?i (m_playerSocialMap s)\<rparr>"
    using assms(2) Some s(1) by (auto simp: SetFriendNote_def Let_def)
  ultimately show ?thesis
    using entry(2) logged_upd [OF assms(1), of "UpdSocialNote (se_utf8truncate48 env note) g f" f ?i] by simp
qed

section \<open>Loading\<close>

lemma contacts_empty [simp]: "contacts [] = Map.empty"
  by (simp add: contacts_def map_find_def fun_eq_iff)

text \<open>
  The rows of a list of at most a hundred characters, in any order, are all loaded although the
  loop stops early at a hundred entries; entries that were there already stay.
\<close>

lemma load_rows_restores:
  assumes "map_ok m" "contacts m \<subseteq>\<^sub>m V" "finite (dom V)" "card (dom V) \<le> 100"
    and "\<forall>r \<in> set rows. V (fst r) = Some (snd r)" "dom V \<subseteq> dom (contacts m) \<union> fst ` set rows"
  shows "map_ok (load_rows rows m) \<and> contacts (load_rows rows m) = V"
  using assms
proof (induction rows arbitrary: m)
  case Nil
  then have "dom (contacts m) = dom V" using map_le_implies_dom_le by fastforce
  then show ?case using Nil map_le_antisym [of "contacts m" V] by (simp add: map_le_def)
next
  case (Cons r rows)
  obtain f fl n where r: "r = (f, fl, n)" by (cases r)
  let ?m = "map_set f (new_FriendInfo fl n) m"
  have row: "V f = Some (fl, n)" using Cons.prems(5) r by simp
  have upd: "contacts ?m = (contacts m)(f \<mapsto> (fl, n))"
    using contacts_set [OF Cons.prems(1)] by (simp add: new_FriendInfo_def)
  have ok: "map_ok ?m" by (rule map_ok_set [OF Cons.prems(1)])
  have sub: "contacts ?m \<subseteq>\<^sub>m V" using Cons.prems(2) row upd by (auto simp: map_le_def)
  have cov: "dom V \<subseteq> dom (contacts ?m) \<union> fst ` set rows" using Cons.prems(6) upd r by auto
  show ?case
  proof (cases "length ?m \<ge> 100")
    case True
    then have "card (dom V) \<le> card (dom (contacts ?m))" using Cons.prems(4) contacts_dom [OF ok] by simp
    then have "dom (contacts ?m) = dom V"
      using card_seteq [OF Cons.prems(3) map_le_implies_dom_le [OF sub]] by simp
    then have "contacts ?m = V" using sub map_le_antisym [OF sub] by (auto simp: map_le_def)
    then show ?thesis using True ok r
      by (simp add: Let_def SOCIALMGR_FRIEND_LIMIT_def SOCIALMGR_IGNORE_LIMIT_def)
  next
    case False
    have "map_ok (load_rows rows ?m) \<and> contacts (load_rows rows ?m) = V"
      using Cons.IH [OF ok sub Cons.prems(3,4) _ cov] Cons.prems(5) by simp
    then show ?thesis using False r by (simp add: Let_def SOCIALMGR_FRIEND_LIMIT_def SOCIALMGR_IGNORE_LIMIT_def)
  qed
qed

lemma social_rows_saved:
  assumes "distinct (map fst t)" "\<And>f. saved t g f \<noteq> None \<Longrightarrow> alive f" "set rows = set (social_rows alive g t)"
  shows "\<forall>r \<in> set rows. saved t g (fst r) = Some (snd r)" "dom (saved t g) \<subseteq> fst ` set rows"
proof -
  have row: "(k, x) \<in> set t \<longleftrightarrow> map_of t k = Some x" for k x using map_of_eq_Some_iff [OF assms(1)] by simp
  show "\<forall>r \<in> set rows. saved t g (fst r) = Some (snd r)"
    by (auto simp: assms(3) social_rows_def saved_def row)
  show "dom (saved t g) \<subseteq> fst ` set rows"
  proof
    fix f assume "f \<in> dom (saved t g)"
    then obtain x where x: "saved t g f = Some x" by auto
    then have "((g, f), x) \<in> set t" "alive f" using row assms(2) by (auto simp: saved_def)
    then show "f \<in> fst ` set rows" by (force simp: assms(3) social_rows_def)
  qed
qed

section \<open>The whole system\<close>

definition social_sys_inv :: "social_map \<times> social_table \<Rightarrow> bool" where
  "social_sys_inv S \<longleftrightarrow> map_ok (fst S) \<and> distinct (map fst (snd S)) \<and> (\<forall>g. contacts_ok (saved (snd S) g)) \<and>
     (\<forall>g s. map_find g (fst S) = Some s \<longrightarrow>
        m_playerGUID s = g \<and> map_ok (m_playerSocialMap s) \<and> contacts (m_playerSocialMap s) = saved (snd S) g)"

lemma social_sys_list:
  assumes "social_sys_inv (mgr, t)" "map_find g mgr = Some s"
  shows "social_inv g s" "contacts (m_playerSocialMap s) = saved t g"
  using assms by (auto simp: social_sys_inv_def social_inv_def)

lemma social_sys_logged:
  assumes "social_sys_inv (mgr, t)" "map_find g mgr = Some s" "logged g s acts s'"
  shows "social_sys_inv (map_set g s' mgr, run_social [] acts t)"
proof -
  have replay: "replay g acts (saved t g) = Some (contacts (m_playerSocialMap s'))"
    using assms(3) social_sys_list(2) [OF assms(1,2)] by (simp add: logged_def)
  have inv: "map_ok mgr" "distinct (map fst t)" "contacts_ok (saved t h)" for h
    using assms(1) by (simp_all add: social_sys_inv_def)
  note run = run_social_saved [OF inv(2) replay]
  have s': "m_playerGUID s' = g" "map_ok (m_playerSocialMap s')" "contacts_ok (contacts (m_playerSocialMap s'))"
    using assms(3) by (auto simp: logged_def social_inv_def)
  have "map_find h (map_set g s' mgr) = Some u \<Longrightarrow> m_playerGUID u = h \<and> map_ok (m_playerSocialMap u) \<and>
      contacts (m_playerSocialMap u) = saved (run_social [] acts t) h" for h u
    using assms(1) run s' map_find_set [OF inv(1)] by (auto simp: social_sys_inv_def split: if_splits)
  then show ?thesis using run s' inv map_ok_set [OF inv(1)] by (auto simp: social_sys_inv_def)
qed

lemma run_social_append: "run_social d (as @ bs) t = run_social d bs (run_social d as t)"
  by (simp add: run_social_def)

lemma run_social_status [simp]: "run_social d (SendFriendStatus env mgr pl r f b) t = t"
proof -
  have "run_social d (map (\<lambda>f. SendStatus (h f) pkt) xs) t = t" for h pkt and xs :: "(u32 \<times> online) list"
    by (induction xs) (simp_all add: run_social_def)
  moreover have "run_social d [SendStatus a pkt] t = t" for a pkt by (simp add: run_social_def)
  ultimately show ?thesis by (simp add: SendFriendStatus_def Let_def BroadcastToFriendListers_def)
qed

text \<open>Sending a player her list changes neither flags nor notes.\<close>

lemma GetFriendInfo_keeps:
  "fi_Flags (GetFriendInfo env mgr pl f i) = fi_Flags i"
  "GetSocial mgr pl = Some s \<Longrightarrow> map_find f (m_playerSocialMap s) = Some i \<Longrightarrow> fi_Note (GetFriendInfo env mgr pl f i) = fi_Note i"
  by (auto simp: GetFriendInfo_def Let_def split: option.splits)

lemma map_find_refresh: "map_find k (map (\<lambda>e. (fst e, h (fst e) (snd e))) m) = map_option (h k) (map_find k m)"
  by (induction m) (auto simp: map_find_def)

lemma run_social_list [simp]: "run_social d [SendContactList a pkt] t = t"
  by (simp add: run_social_def)

lemma social_sys_send:
  assumes "social_sys_inv (mgr, t)" "SendSocialList env (GUID_LOPART (pl_guid pl)) pl mgr = (acts, mgr')"
  shows "social_sys_inv (mgr', t)" "run_social d acts t = t"
proof -
  have "social_sys_inv (mgr', t) \<and> run_social d acts t = t"
  proof (cases "map_find (GUID_LOPART (pl_guid pl)) mgr")
    case None
    then show ?thesis using assms by (simp add: SendSocialList_def run_social_def)
  next
    case (Some s)
    let ?g = "GUID_LOPART (pl_guid pl)"
    let ?h = "\<lambda>itr. (fst itr, GetFriendInfo env mgr pl (fst itr) (snd itr))"
    let ?m = "map ?h (m_playerSocialMap s)"
    note inv = social_sys_list [OF assms(1) Some]
    have ok: "map_ok (m_playerSocialMap s)" using inv(1) by (simp add: social_inv_def)
    have ok': "map_ok ?m" using ok by (simp add: map_ok_def comp_def)
    have social: "GetSocial mgr pl = Some s" using Some by (simp add: GetSocial_def)
    have find: "map_find f ?m = map_option (\<lambda>i. GetFriendInfo env mgr pl f i) (map_find f (m_playerSocialMap s))" for f
      by (rule map_find_refresh)
    have "contacts ?m = contacts (m_playerSocialMap s)"
      using GetFriendInfo_keeps(1) GetFriendInfo_keeps(2) [OF social]
      by (auto simp: contacts_def find fun_eq_iff option.map_comp split: option.splits intro!: option.map_cong)
    then have "logged ?g s [] (s\<lparr>m_playerSocialMap := ?m\<rparr>)"
      using inv(1) ok' by (simp add: logged_def social_inv_def)
    from social_sys_logged [OF assms(1) Some this]
    have "social_sys_inv (map_set ?g (s\<lparr>m_playerSocialMap := ?m\<rparr>) mgr, t)" by (simp add: run_social_def)
    then show ?thesis using assms(2) Some by (auto simp: SendSocialList_def Let_def)
  qed
  then show "social_sys_inv (mgr', t)" "run_social d acts t = t" by auto
qed

text \<open>
  What happens to the lists: a player logs in (the query returns the rows in any order), logs out,
  or one of the handlers runs; when a character logs in her friends are sent their lists again.
\<close>

inductive social_step :: "social_env \<Rightarrow> social_map \<times> social_table \<Rightarrow> social_map \<times> social_table \<Rightarrow> bool" for env where
  login: "mset rows = mset (social_rows alive g t) \<Longrightarrow> (\<And>f. saved t g f \<noteq> None \<Longrightarrow> alive f) \<Longrightarrow>
    social_step env (mgr, t) (social_LoadFromDB rows g mgr, t)"
| logout: "social_step env (mgr, t) (RemovePlayerSocial g mgr, t)"
| show_list: "HandleContactListOpcode env pl mgr = (acts, mgr') \<Longrightarrow>
    social_step env (mgr, t) (mgr', run_social (se_note_default env) acts t)"
| update_lists: "UpdateFriendList env pl mgr = (acts, mgr') \<Longrightarrow>
    social_step env (mgr, t) (mgr', run_social (se_note_default env) acts t)"
| add_friend: "HandleAddFriendOpcodeCallBack env pl result note mgr = (acts, mgr') \<Longrightarrow>
    social_step env (mgr, t) (mgr', run_social (se_note_default env) acts t)"
| del_friend: "HandleDelFriendOpcode env pl guid mgr = (acts, mgr') \<Longrightarrow>
    social_step env (mgr, t) (mgr', run_social (se_note_default env) acts t)"
| add_ignore: "HandleAddIgnoreOpcodeCallBack env pl answer mgr = (acts, mgr') \<Longrightarrow>
    social_step env (mgr, t) (mgr', run_social (se_note_default env) acts t)"
| del_ignore: "HandleDelIgnoreOpcode env pl guid mgr = (acts, mgr') \<Longrightarrow>
    social_step env (mgr, t) (mgr', run_social (se_note_default env) acts t)"
| set_note: "HandleSetContactNotesOpcode env pl guid note mgr = (acts, mgr') \<Longrightarrow>
    social_step env (mgr, t) (mgr', run_social (se_note_default env) acts t)"

inductive social_reach :: "social_env \<Rightarrow> social_map \<times> social_table \<Rightarrow> bool" for env where
  start: "social_reach env ([], [])"
| more: "social_reach env S \<Longrightarrow> social_step env S S' \<Longrightarrow> social_reach env S'"

lemma social_sys_login:
  assumes "social_sys_inv (mgr, t)" "mset rows = mset (social_rows alive g t)" "\<And>f. saved t g f \<noteq> None \<Longrightarrow> alive f"
  shows "social_sys_inv (social_LoadFromDB rows g mgr, t)"
    and "\<exists>s. map_find g (social_LoadFromDB rows g mgr) = Some s \<and> contacts (m_playerSocialMap s) = saved t g"
proof -
  have inv: "map_ok mgr" "distinct (map fst t)" "contacts_ok (saved t g)"
    using assms(1) by (simp_all add: social_sys_inv_def)
  define s where "s = (case map_find g mgr of None \<Rightarrow> new_PlayerSocial | Some s \<Rightarrow> s)"
  have s: "map_ok (m_playerSocialMap s)" "contacts (m_playerSocialMap s) \<subseteq>\<^sub>m saved t g"
    using assms(1) by (auto simp: s_def social_sys_inv_def new_PlayerSocial_def map_ok_def split: option.splits)
  have fin: "finite (dom (saved t g))" "card (dom (saved t g)) \<le> 100"
    using inv(3) contacts_ok_size by (auto simp: contacts_ok_def)
  note rows = social_rows_saved [OF inv(2) assms(3) mset_eq_setD [OF assms(2)]]
  have load: "map_ok (load_rows rows (m_playerSocialMap s)) \<and> contacts (load_rows rows (m_playerSocialMap s)) = saved t g"
    by (rule load_rows_restores [OF s fin rows(1)]) (use rows(2) in auto)
  have eq: "social_LoadFromDB rows g mgr =
      map_set g (s\<lparr>m_playerGUID := g, m_playerSocialMap := load_rows rows (m_playerSocialMap s)\<rparr>) mgr"
    by (simp add: social_LoadFromDB_def s_def Let_def)
  then show "social_sys_inv (social_LoadFromDB rows g mgr, t)"
    using assms(1) load map_ok_set [OF inv(1)] map_find_set [OF inv(1)] by (auto simp: social_sys_inv_def)
  show "\<exists>s. map_find g (social_LoadFromDB rows g mgr) = Some s \<and> contacts (m_playerSocialMap s) = saved t g"
    using eq load map_find_set [OF inv(1)] by auto
qed

lemma social_sys_own_list:
  assumes "social_sys_inv (mgr, t)" "on_social g op mgr = (acts, mgr')"
    and "\<And>s acts s'. social_inv g s \<Longrightarrow> op s = (acts, s') \<Longrightarrow> logged g s acts s'"
  shows "social_sys_inv (mgr', run_social [] acts t)"
proof (cases "map_find g mgr")
  case None
  then show ?thesis using assms(1,2) by (simp add: on_social_def run_social_def)
next
  case (Some s)
  obtain as s' where op: "op s = (as, s')" by (cases "op s")
  then have "logged g s as s'" using assms(3) social_sys_list(1) [OF assms(1) Some] by blast
  from social_sys_logged [OF assms(1) Some this] show ?thesis using assms(2) Some op by (simp add: on_social_def)
qed

lemma social_sys_update:
  assumes "social_sys_inv (mgr, t)" "UpdateFriendList env pl mgr = (acts, mgr')"
  shows "social_sys_inv (mgr', t) \<and> run_social d acts t = t"
proof -
  have "social_sys_inv (snd r, t) \<and> run_social d (fst r) t = t" if "social_sys_inv (m, t)" "run_social d as t = t"
    "r = fold (\<lambda>f (acts, mgr). let (as, mgr) = SendSocialList env (GUID_LOPART (pl_guid (snd f))) (snd f) mgr in (acts @ as, mgr)) fs (as, m)"
    for fs as m r
    using that
  proof (induction fs arbitrary: as m)
    case (Cons f fs)
    obtain bs m' where send: "SendSocialList env (GUID_LOPART (pl_guid (snd f))) (snd f) m = (bs, m')" by fastforce
    show ?case
      using Cons.IH [of m' "as @ bs"] Cons.prems social_sys_send [OF Cons.prems(1) send] send
      by (simp add: run_social_append)
  qed simp
  from this [OF assms(1), of "[]" _ "listers env pl mgr"] assms(2) show ?thesis
    by (simp add: UpdateFriendList_def run_social_def)
qed

lemma social_sys_remove:
  assumes "social_sys_inv (mgr, t)" "(if GetSocial mgr pl = None then ([], mgr)
      else let (acts, mgr) = on_social g (RemoveFromSocialList f ignore) mgr
        in (acts @ SendFriendStatus env mgr pl r f False, mgr)) = (acts, mgr')"
  shows "social_sys_inv (mgr', run_social [] acts t)"
proof (cases "GetSocial mgr pl = None")
  case True
  then show ?thesis using assms by (simp add: run_social_def)
next
  case False
  obtain as m where op: "on_social g (RemoveFromSocialList f ignore) mgr = (as, m)" by fastforce
  from social_sys_own_list [OF assms(1) op logged_remove] show ?thesis
    using assms(2) False op by (auto simp: run_social_append)
qed

lemma social_sys_answer:
  assumes "social_sys_inv (mgr, t)" "answer_request env pl request mgr = (acts, mgr')"
    and "\<And>s r guid as s'. social_inv (GUID_LOPART (pl_guid pl)) s \<Longrightarrow> request s = (r, guid, as, s') \<Longrightarrow>
      logged (GUID_LOPART (pl_guid pl)) s as s'"
  shows "social_sys_inv (mgr', run_social [] acts t)"
proof (cases "GetSocial mgr pl")
  case None
  then show ?thesis using assms by (simp add: answer_request_def run_social_def)
next
  case (Some s)
  then have find: "map_find (GUID_LOPART (pl_guid pl)) mgr = Some s" by (simp add: GetSocial_def)
  obtain r guid as s' where req: "request s = (r, guid, as, s')" by (metis prod_cases4)
  note logged = assms(3) [OF social_sys_list(1) [OF assms(1) find] req]
  from social_sys_logged [OF assms(1) find logged] show ?thesis
    using assms(2) Some req by (auto simp: answer_request_def Let_def run_social_append)
qed

lemma logged_ignore_request:
  assumes "social_inv g s" "ignore_request pl answer s = (r, guid, as, s')"
  shows "logged g s as s'"
proof -
  let ?I = "case answer of None \<Rightarrow> 0 | Some low \<Rightarrow> player_guid low"
  obtain ok bs u where add: "AddToSocialList (GUID_LOPART ?I) True s = (ok, bs, u)" by (metis prod_cases3)
  show ?thesis using assms(2) logged_nothing [OF assms(1)] logged_add [OF assms(1) add] add
    by (auto simp: ignore_request_def Let_def split: if_splits)
qed

lemma logged_friend_request:
  assumes "social_inv g s" "friend_request env pl row note s = (r, guid, as, s')"
  shows "logged g s as s'"
proof (cases row)
  case None
  then show ?thesis using assms logged_nothing by (auto simp: friend_request_def)
next
  case (Some x)
  obtain low race acc where x: "x = (low, race, acc)" by (cases x)
  let ?f = "GUID_LOPART (player_guid low)"
  obtain ok bs u where add: "AddToSocialList ?f False s = (ok, bs, u)" by (metis prod_cases3)
  have added: "logged g s bs u" by (rule logged_add [OF assms(1) add])
  obtain cs v where nt: "SetFriendNote env ?f note u = (cs, v)" by fastforce
  obtain ds w where nt0: "SetFriendNote env ?f note s = (ds, w)" by fastforce
  have noted: "logged g s ds w" by (rule logged_note [OF assms(1) nt0])
  have "logged g u cs v" using logged_note [OF _ nt] added by (auto simp: logged_def)
  then have both: "logged g s (bs @ cs) v" using logged_then [OF added] by blast
  show ?thesis using assms Some x add nt nt0 noted both logged_nothing [OF assms(1)]
    by (auto simp: friend_request_def Let_def split: if_splits)
qed

lemma social_reach_inv:
  assumes "social_reach env S" "se_note_default env = []"
  shows "social_sys_inv S"
  using assms(1)
proof induction
  case start
  show ?case by (simp add: social_sys_inv_def map_ok_def contacts_ok_def saved_def [abs_def] map_find_def listed_with_def)
next
  case (more S S')
  from more(2) more(3) show ?case
  proof (cases rule: social_step.cases)
    case (login rows alive g t mgr)
    then show ?thesis using social_sys_login(1) more(3) by blast
  next
    case (logout mgr t g)
    then show ?thesis using more(3) map_ok_erase map_find_erase [of _ g mgr]
      by (auto simp: social_sys_inv_def RemovePlayerSocial_def split: if_splits)
  next
    case (show_list pl mgr acts mgr' t)
    then show ?thesis using more(3) social_sys_send [of mgr t env pl acts mgr'] by (simp add: HandleContactListOpcode_def)
  next
    case (update_lists pl mgr acts mgr' t)
    then show ?thesis using more(3) social_sys_update [of mgr t env pl acts mgr'] by simp
  next
    case (add_friend pl result txt0 mgr acts mgr' t)
    then show ?thesis using more(3) social_sys_answer [of mgr t env pl _ acts mgr'] logged_friend_request assms(2)
      by (fastforce simp: HandleAddFriendOpcodeCallBack_def)
  next
    case (del_friend pl guid mgr acts mgr' t)
    from social_sys_remove [OF more(3) [unfolded this(1)] this(3) [unfolded HandleDelFriendOpcode_def]]
    show ?thesis using del_friend assms(2) by simp
  next
    case (add_ignore pl answer mgr acts mgr' t)
    then show ?thesis using more(3) social_sys_answer [of mgr t env pl _ acts mgr'] logged_ignore_request assms(2)
      by (fastforce simp: HandleAddIgnoreOpcodeCallBack_def)
  next
    case (del_ignore pl guid mgr acts mgr' t)
    from social_sys_remove [OF more(3) [unfolded this(1)] this(3) [unfolded HandleDelIgnoreOpcode_def]]
    show ?thesis using del_ignore assms(2) by simp
  next
    case (set_note pl guid txt0 mgr acts mgr' t)
    then show ?thesis using more(3) social_sys_own_list [of mgr t _ _ acts mgr'] logged_note assms(2)
      by (fastforce simp: HandleSetContactNotesOpcode_def)
  qed
qed

section \<open>What the lists promise\<close>


text \<open>A player with number 5 and a character 6 that she befriends.\<close>

definition sample_online :: online where
  "sample_online = \<lparr>pl_guid = player_guid 5, pl_name = [65], pl_security = 0, pl_team = 469, pl_group = False, pl_social = True,
     pl_HasIgnore = (\<lambda>_. False), pl_isGMVisible = False, pl_InArena = False, on_IsInWorld = True, on_isAFK = False,
     on_isDND = False, on_zone = 12, on_level = 90, on_class = 1, on_InterRealmBG = 0\<rparr>"

definition sample_social_env :: social_env where
  "sample_social_env = \<lparr>se_Find = (\<lambda>g. if g = player_guid 5 then Some sample_online else None),
     se_IsVisibleGloballyFor = (\<lambda>_ _. True), se_ALLOW_TWO_SIDE_WHO_LIST = False, se_ALLOW_TWO_SIDE_ADD_FRIEND = False,
     se_ALLOW_GM_FRIEND = False, se_GM_LEVEL_IN_WHO_LIST = 0, se_realmID = 1, se_TeamForRace = (\<lambda>_. 469),
     se_GetSecurity = (\<lambda>_. 0), se_utf8truncate48 = take 48, se_note_default = []\<rparr>"

definition sample_list :: player_social where
  "sample_list = \<lparr>m_playerSocialMap = [(6, new_FriendInfo 1 [72, 105])], m_playerGUID = 5\<rparr>"

lemma sample_note_default: "se_note_default sample_social_env = []"
  by (simp add: sample_social_env_def)

lemma sample_guids: "player_guid 5 = 0x0180000000000005" "player_guid 6 = 0x0180000000000006"
  "GUID_LOPART 0x0180000000000005 = 5" "GUID_LOPART 0x0180000000000006 = 6"
  by (simp_all add: player_guid_def MAKE_NEW_GUID_def GUID_LOPART_def push_bit_eq_mult)

lemma sample_request:
  "friend_request sample_social_env sample_online (Some (6, 1, 2)) [72, 105] \<lparr>m_playerSocialMap = [], m_playerGUID = 5\<rparr> =
     (FRIEND_ADDED_OFFLINE, player_guid 6,
      [SocialDB (InsSocial 5 6 1), SocialDB (UpdSocialNote [72, 105] 5 6)], sample_list)"
  by (simp add: friend_request_def sample_social_env_def sample_online_def sample_guids IsPlayerAccount_def HasFriend_def
      map_find_def AddToSocialList_def SetFriendNote_def GetNumberOfSocialsWithFlag_def flag_values sample_list_def
      SOCIALMGR_FRIEND_LIMIT_def new_FriendInfo_def social_FindPlayer_def Let_def)

lemma sample_social_reach: "social_reach sample_social_env ([(5, sample_list)], [((5, 6), (1, [72, 105]))])"
proof -
  let ?new = "[(5, \<lparr>m_playerSocialMap = [], m_playerGUID = 5\<rparr>)] :: social_map"
  have "social_step sample_social_env ([], []) (social_LoadFromDB [] 5 [], [])"
    by (rule social_step.login [where alive = "\<lambda>_. True"]) (auto simp: social_rows_def)
  then have 1: "social_reach sample_social_env (?new, [])"
    using social_reach.more [OF social_reach.start] by (simp add: social_LoadFromDB_def map_find_def new_PlayerSocial_def)
  have h: "HandleAddFriendOpcodeCallBack sample_social_env sample_online (Some (6, 1, 2)) [72, 105] ?new =
      ([SocialDB (InsSocial 5 6 1), SocialDB (UpdSocialNote [72, 105] 5 6)] @
       SendFriendStatus sample_social_env [(5, sample_list)] sample_online FRIEND_ADDED_OFFLINE 6 False, [(5, sample_list)])"
    using sample_request by (simp add: HandleAddFriendOpcodeCallBack_def answer_request_def GetSocial_def map_find_def
        sample_online_def sample_guids Let_def)
  from social_reach.more [OF 1 social_step.add_friend [OF h]]
  show ?thesis unfolding sample_note_default run_social_append run_social_status by (simp add: run_social_def)
qed


text \<open>
  C23: when a player logs out and logs in again, her list comes back with the same characters, flags and
  notes, in whatever order the database returns its rows, as long as no listed character has been
  deleted in between.
\<close>

theorem social_login_restores:
  assumes "social_reach env (mgr, t)" "se_note_default env = []" "map_find g mgr = Some s"
    and "mset rows = mset (social_rows alive g t)" "\<And>f. contacts (m_playerSocialMap s) f \<noteq> None \<Longrightarrow> alive f"
  shows "\<exists>s'. map_find g (social_LoadFromDB rows g (RemovePlayerSocial g mgr)) = Some s' \<and>
     contacts (m_playerSocialMap s') = contacts (m_playerSocialMap s) \<and>
     map fst (m_playerSocialMap s') = map fst (m_playerSocialMap s)"
proof -
  note inv = social_reach_inv [OF assms(1,2)]
  have out: "social_sys_inv (RemovePlayerSocial g mgr, t)"
    by (rule social_reach_inv [OF social_reach.more [OF assms(1) social_step.logout] assms(2)])
  have eq: "contacts (m_playerSocialMap s) = saved t g" by (rule social_sys_list(2) [OF inv assms(3)])
  have alive: "\<And>f. saved t g f \<noteq> None \<Longrightarrow> alive f" using assms(5) eq by simp
  from social_sys_login [OF out assms(4) alive] obtain s' where s':
    "map_find g (social_LoadFromDB rows g (RemovePlayerSocial g mgr)) = Some s'" "contacts (m_playerSocialMap s') = saved t g"
    "social_sys_inv (social_LoadFromDB rows g (RemovePlayerSocial g mgr), t)" by blast
  have ok: "map_ok (m_playerSocialMap s)" "map_ok (m_playerSocialMap s')"
    using social_sys_list(1) [OF inv assms(3)] social_sys_list(1) [OF s'(3,1)] by (auto simp: social_inv_def)
  have "set (map fst m) = dom (contacts m)" for m :: friend_map
    by (simp add: contacts_def map_find_def dom_def flip: dom_map_of_conv_image_fst)
  then have "set (map fst (m_playerSocialMap s')) = set (map fst (m_playerSocialMap s))" using s'(2) eq by metis
  then have "map fst (m_playerSocialMap s') = map fst (m_playerSocialMap s)"
    using ok strict_sorted_equal [of "map fst (m_playerSocialMap s)" "map fst (m_playerSocialMap s')"]
    by (simp add: map_ok_def)
  then show ?thesis using s' eq by auto
qed

theorem social_login_restores_witness:
  "\<exists>s'. map_find 5 (social_LoadFromDB [(6, 1, [72, 105])] 5 (RemovePlayerSocial 5 [(5, sample_list)])) = Some s' \<and>
     contacts (m_playerSocialMap s') = contacts (m_playerSocialMap sample_list) \<and>
     map fst (m_playerSocialMap s') = map fst (m_playerSocialMap sample_list)"
  by (rule social_login_restores [OF sample_social_reach, where alive = "\<lambda>_. True"])
    (simp_all add: sample_social_env_def map_find_def social_rows_def)

lemma HasFriend_iff: "HasFriend f s \<longleftrightarrow> f \<in> listed_with SOCIAL_FLAG_FRIEND (contacts (m_playerSocialMap s))"
  by (auto simp: listed_with_def contacts_def HasFriend_def split: option.splits)

lemma contacts_note:
  assumes "map_ok (m_playerSocialMap s)" "SetFriendNote env f note s = (acts, s')"
  shows "contacts (m_playerSocialMap s') = (contacts (m_playerSocialMap s))
     (f := map_option (\<lambda>v. (fst v, se_utf8truncate48 env note)) (contacts (m_playerSocialMap s) f))"
proof (cases "map_find f (m_playerSocialMap s)")
  case None
  then show ?thesis using assms(2) by (auto simp: SetFriendNote_def contacts_def fun_eq_iff)
next
  case (Some i)
  then have "contacts (m_playerSocialMap s) f = Some (fi_Flags i, fi_Note i)" by (simp add: contacts_def)
  then show ?thesis using assms Some by (auto simp: SetFriendNote_def contacts_set Let_def)
qed

lemma contacts_add:
  assumes "social_inv g s" "AddToSocialList f ignore s = (ok, acts, s')" "V = contacts (m_playerSocialMap s)"
  shows "if card (listed_with (list_flag ignore) V) < 50
     then ok \<and> contacts (m_playerSocialMap s') =
       V(f \<mapsto> ((case V f of None \<Rightarrow> 0 | Some v \<Rightarrow> fst v) OR list_flag ignore, case V f of None \<Rightarrow> [] | Some v \<Rightarrow> snd v))
     else \<not> ok \<and> s' = s"
proof (cases "card (listed_with (list_flag ignore) V) < 50")
  case True
  have "map_ok (m_playerSocialMap s)" using assms(1) by (simp add: social_inv_def)
  moreover have "V f = map_option (\<lambda>i. (fi_Flags i, fi_Note i)) (map_find f (m_playerSocialMap s))"
    using assms(3) by (simp add: contacts_def)
  ultimately show ?thesis
    using True AddToSocialList_room [OF assms(1) True [unfolded assms(3)], of f] assms(2,3)
    by (cases "map_find f (m_playerSocialMap s)") (auto simp: contacts_set new_FriendInfo_def)
next
  case False
  then show ?thesis using AddToSocialList_refused [OF assms(1), of ignore f] assms(2,3) by simp
qed

lemma or_one_and_one: "(x OR (1 :: u8)) AND 1 = 1"
  by (rule bit_word_eqI) (auto simp: bit_simps)

text \<open>
  C31: the answer to a request to add a friend says what happened to the list.  A character is
  added exactly when the answer is one of the two "added" results; she was no friend before, and
  her flags keep what they were.  In every other case no flag changes; the note is replaced
  nevertheless when the character was found and is on the list already, and "list full" is
  answered only when fifty friends are listed.
\<close>

theorem friend_request_spec:
  assumes "social_inv g s" "friend_request env pl row note s = (r, guid, acts, s')"
    and "f = GUID_LOPART guid" "n = se_utf8truncate48 env note" "V = contacts (m_playerSocialMap s)"
  shows "contacts (m_playerSocialMap s') =
      (if r \<in> {FRIEND_ADDED_ONLINE, FRIEND_ADDED_OFFLINE}
       then V(f \<mapsto> ((case V f of None \<Rightarrow> 0 | Some v \<Rightarrow> fst v) OR SOCIAL_FLAG_FRIEND, n))
       else if r = FRIEND_NOT_FOUND then V
       else V(f := map_option (\<lambda>v. (fst v, n)) (V f))) \<and>
    (r \<in> {FRIEND_ADDED_ONLINE, FRIEND_ADDED_OFFLINE} \<longrightarrow> \<not> HasFriend f s \<and> HasFriend f s') \<and>
    (r = FRIEND_LIST_FULL \<longrightarrow> card {f. HasFriend f s} = 50)"
proof -
  let ?added = "{FRIEND_ADDED_ONLINE, FRIEND_ADDED_OFFLINE}"
  have ok: "map_ok (m_playerSocialMap s)" using assms(1) by (simp add: social_inv_def)
  obtain b as u where add: "AddToSocialList f False s = (b, as, u)" by (metis prod_cases3)
  note added = contacts_add [OF assms(1) add assms(5), unfolded flag_values(2)]
  have u: "map_ok (m_playerSocialMap u)" using logged_add [OF assms(1) add] by (simp add: logged_def social_inv_def)
  obtain cs v where nt: "SetFriendNote env f note u = (cs, v)" by fastforce
  obtain ds w where nt0: "SetFriendNote env f note s = (ds, w)" by fastforce
  note v = contacts_note [OF u nt, folded assms(4)] and w = contacts_note [OF ok nt0, folded assms(4,5)]
  have full: "\<not> card (listed_with 1 V) < 50 \<Longrightarrow> card {f. HasFriend f s} = 50"
    using assms(1,5) by (simp add: HasFriend_iff social_inv_def contacts_ok_def flag_values)
  consider (none) "r = FRIEND_NOT_FOUND" "s' = s"
    | (kept) "r \<in> {FRIEND_SELF, FRIEND_ENEMY, FRIEND_ALREADY}" "s' = w"
    | (asked) "\<not> HasFriend f s" "s' = v" "if b then r \<in> ?added else r = FRIEND_LIST_FULL"
    using assms(2) add nt nt0 unfolding assms(3)
    by (auto simp: friend_request_def Let_def split: option.splits if_splits prod.splits)
  then show ?thesis
  proof cases
    case none
    then show ?thesis using assms(5) by simp
  next
    case kept
    then show ?thesis using w by auto
  next
    case asked
    show ?thesis
    proof (cases "card (listed_with 1 V) < 50")
      case True
      then have V': "contacts (m_playerSocialMap s') = V(f \<mapsto> ((case V f of None \<Rightarrow> 0 | Some v \<Rightarrow> fst v) OR 1, n))" "b"
        using added v asked(2) by auto
      then have "HasFriend f s'" by (simp add: HasFriend_iff listed_with_upd flag_values or_one_and_one)
      then show ?thesis using V' asked by (auto simp: flag_values)
    next
      case False
      then have "\<not> b" "u = s" using added by auto
      then show ?thesis using asked v full [OF False] assms(5) by auto
    qed
  qed
qed

theorem friend_request_spec_witness:
  "contacts (m_playerSocialMap sample_list) = [6 \<mapsto> (1, [72, 105])] \<and> HasFriend 6 sample_list"
proof -
  have "social_inv 5 \<lparr>m_playerSocialMap = [], m_playerGUID = 5\<rparr>"
    by (simp add: social_inv_def map_ok_def contacts_ok_def listed_with_def)
  from friend_request_spec [OF this sample_request refl refl refl] show ?thesis
    by (simp add: sample_guids flag_values sample_social_env_def)
qed

section \<open>The contact list packet\<close>

text \<open>How the client reads an entry of \<open>SMSG_CONTACT_LIST\<close>, and the value that is written for it.\<close>

abbreviation get_word3 :: "byte_buffer \<Rightarrow> bb_error + ((u32 \<times> u32 \<times> u32) \<times> byte_buffer)" where
  "get_word3 \<equiv> get_pair read_u32 (get_pair read_u32 read_u32)"

definition read_contact :: "byte_buffer \<Rightarrow>
    bb_error + (((u64 \<times> u32 \<times> u32 \<times> u32 \<times> bytes) \<times> (u8 \<times> (u32 \<times> u32 \<times> u32) option) option) \<times> byte_buffer)" where
  "read_contact = get_when (\<lambda>(_, _, _, flags, _). flags AND 1 \<noteq> 0)
     (get_pair read_u64 (get_pair read_u32 (get_pair read_u32 (get_pair read_u32 read_string))))
     (get_when (\<lambda>status. status \<noteq> 0) read_u8 get_word3)"

definition parse_contacts where
  "parse_contacts b = ebind (read_u32 b) (\<lambda>(kind, b). ebind (read_u32 b) (\<lambda>(n, b). get_n read_contact (unat n) b))"

definition shown_contact ::
  "u32 \<Rightarrow> u32 \<times> friend_info \<Rightarrow> (u64 \<times> u32 \<times> u32 \<times> u32 \<times> bytes) \<times> (u8 \<times> (u32 \<times> u32 \<times> u32) option) option" where
  "shown_contact realmID e = (let i = snd e in
     ((player_guid (fst e), realmID, 0, ucast (fi_Flags i), fi_Note i),
      if fi_Flags i AND SOCIAL_FLAG_FRIEND = 0 then None
      else Some (status_value (fi_Status i),
        if fi_Status i = FRIEND_STATUS_OFFLINE then None
        else Some (fi_Area i, ucast (fi_Level i), ucast (fi_Class i)))))"

lemmas contact_codec = when_codec [where c = "\<lambda>(_, _, _, flags, _). flags AND 1 \<noteq> 0",
  OF pair_codec [OF u64_codec.codec_axioms pair_codec [OF u32_codec.codec_axioms pair_codec [OF u32_codec.codec_axioms
      pair_codec [OF u32_codec.codec_axioms string_codec.codec_axioms]]]]
    when_codec [where c = "\<lambda>status. status \<noteq> 0",
      OF u8_codec.codec_axioms pair_codec [OF u32_codec.codec_axioms pair_codec [OF u32_codec.codec_axioms u32_codec.codec_axioms]]],
  folded read_contact_def]

lemma status_value_zero: "status_value st = 0 \<longleftrightarrow> st = FRIEND_STATUS_OFFLINE"
  by (cases st) simp_all

lemma append_contact_shown:
  "append_contact realmID e =
     put_when (\<lambda>(_, _, _, flags, _). flags AND 1 \<noteq> 0)
       (put_pair append_u64 (put_pair append_u32 (put_pair append_u32 (put_pair append_u32 append_string))))
       (put_when (\<lambda>status. status \<noteq> 0) append_u8 (put_pair append_u32 (put_pair append_u32 append_u32)))
       (shown_contact realmID e)"
  by (rule ext) (simp add: append_contact_def shown_contact_def put_when_def [abs_def] put_pair_def [abs_def] Let_def ebind_assoc status_value_zero)

lemma and_one_bit: "(y :: 'a::len word) AND 1 \<noteq> 0 \<longleftrightarrow> bit y 0"
  by (simp add: and_one_eq bit_0 mod_2_eq_odd)

lemma friend_bit_ucast: "(ucast (x :: u8) :: u32) AND 1 \<noteq> 0 \<longleftrightarrow> x AND 1 \<noteq> 0"
  unfolding and_one_bit by (simp add: bit_simps)

text \<open>
  C35: the contact list packet of a list of fewer than 5000 characters whose notes are at most 1000 bytes long is built without an error and the
  client reads it back completely: every character of the list in order of her number, with her guid,
  flags and note, the status only for friends and area, level and class only for friends who are online.
\<close>

theorem contact_list_round_trip:
  assumes "length m < 5000" "\<forall>e \<in> set m. 0 \<notin> set (fi_Note (snd e)) \<and> length (fi_Note (snd e)) \<le> 1000"
  shows "\<exists>w r. contact_list_packet realmID m = Inr w \<and>
     parse_contacts (received (storage w)) = Inr (map (shown_contact realmID) m, r) \<and> rpos r = bb_size w"
proof -
  let ?vs = "map (shown_contact realmID) m"
  let ?n = "of_nat (length m) :: u32"
  let ?put = "put_when (\<lambda>(_ :: u64, _ :: u32, _ :: u32, flags :: u32, _ :: bytes). flags AND 1 \<noteq> 0)
       (put_pair append_u64 (put_pair append_u32 (put_pair append_u32 (put_pair append_u32 append_string))))
       (put_when (\<lambda>status. status \<noteq> 0) append_u8 (put_pair append_u32 (put_pair append_u32 append_u32)))"
  let ?width = "\<lambda>x :: (u64 \<times> u32 \<times> u32 \<times> u32 \<times> bytes) \<times> (u8 \<times> (u32 \<times> u32 \<times> u32) option) option.
     8 + (4 + (4 + (4 + (length (snd (snd (snd (snd (fst x))))) + 1)))) +
     (case snd x of None \<Rightarrow> 0 | Some y \<Rightarrow> 1 + (case snd y of None \<Rightarrow> 0 | Some _ \<Rightarrow> 4 + (4 + 4)))"
  have un: "unat ?n = length m" using assms(1) by (simp add: unat_of_nat take_bit_nat_eq_self)
  have entry: "?width (shown_contact realmID e) \<le> 1034" if "e \<in> set m" for e
    using assms(2) that by (auto simp: shown_contact_def Let_def)
  have "sum_list (map ?width ?vs) \<le> sum_list (map (\<lambda>_. 1034) m)"
    using sum_list_mono [of m "\<lambda>e. ?width (shown_contact realmID e)" "\<lambda>_. 1034", OF entry] by (simp add: comp_def)
  then have size: "(4 + 4) + sum_list (map ?width ?vs) \<le> MAX_BUFFER"
    using assms(1) by (simp add: sum_list_triv MAX_BUFFER_def)
  have valid: "list_all (\<lambda>x. (True \<and> True \<and> True \<and> True \<and> 0 \<notin> set (snd (snd (snd (snd (fst x)))))) \<and>
      (case snd x of None \<Rightarrow> \<not> (case fst x of (_, _, _, flags, _) \<Rightarrow> flags AND 1 \<noteq> 0)
       | Some y \<Rightarrow> (case fst x of (_, _, _, flags, _) \<Rightarrow> flags AND 1 \<noteq> 0) \<and> True \<and>
           (case snd y of None \<Rightarrow> \<not> fst y \<noteq> 0 | Some _ \<Rightarrow> fst y \<noteq> 0 \<and> True \<and> True \<and> True))) ?vs"
    using assms(2) by (auto simp: list_all_iff shown_contact_def Let_def friend_bit_ucast flag_values status_value_zero)
  have "\<exists>w r s. ebind (put_pair append_u32 append_u32 (7, ?n) empty_buffer) (efold ?put ?vs) = Inr w \<and>
      get_pair read_u32 read_u32 (received (storage w)) = Inr ((7, ?n), r) \<and>
      get_n read_contact (length ?vs) r = Inr (?vs, s) \<and> rpos s = bb_size w"
    using framed_round_trip [OF u32_pair_codec.codec_axioms contact_codec, of ?vs "(7, ?n)"] valid size
    by (simp only: simp_thms True_implies_equals)
  then obtain w r s where w: "ebind (put_pair append_u32 append_u32 (7, ?n) empty_buffer) (efold ?put ?vs) = Inr w"
      "get_pair read_u32 read_u32 (received (storage w)) = Inr ((7, ?n), r)"
      "get_n read_contact (length ?vs) r = Inr (?vs, s)" "rpos s = bb_size w" by (elim exE conjE)
  have each: "append_contact realmID = (\<lambda>e. ?put (shown_contact realmID e))" by (rule ext) (rule append_contact_shown)
  have loop: "efold (append_contact realmID) m = efold ?put ?vs" unfolding each by (rule ext) (rule efold_map)
  have "contact_list_packet realmID m = Inr w"
    using w(1) unfolding contact_list_packet_def loop by (simp only: put_pair_def fst_conv snd_conv ebind_assoc)
  moreover have "parse_contacts (received (storage w)) = Inr (?vs, s)"
    using w(2,3) un by (auto simp: parse_contacts_def get_pair_def)
  ultimately show ?thesis using w(4) by blast
qed

theorem contact_list_round_trip_witness:
  "\<exists>w r. contact_list_packet 1 (m_playerSocialMap sample_list) = Inr w \<and>
     parse_contacts (received (storage w)) = Inr ([((player_guid 6, 1, 0, 1, [72, 105]), Some (0, None))], r) \<and> rpos r = bb_size w"
  using contact_list_round_trip [of "m_playerSocialMap sample_list" 1]
  by (simp add: sample_list_def shown_contact_def new_FriendInfo_def flag_values)

section \<open>Who is told\<close>

text \<open>A notice about a character goes to the players online who list her as a friend and may see her.\<close>

lemma map_filter_mem: "y \<in> set (List.map_filter h xs) \<longleftrightarrow> (\<exists>x \<in> set xs. h x = Some y)"
  by (force simp: List.map_filter_def)

lemma listers_iff:
  assumes "map_ok mgr"
  shows "x \<in> set (listers env pl mgr) \<longleftrightarrow> (\<exists>s. map_find (fst x) mgr = Some s \<and> HasFriend (GUID_LOPART (pl_guid pl)) s \<and>
     social_FindPlayer env (player_guid (fst x)) = Some (snd x) \<and> may_see env (snd x) pl)"
proof -
  have mem: "(g, s) \<in> set mgr \<longleftrightarrow> map_find g mgr = Some s" for g s
    using map_of_eq_Some_iff [OF map_ok_distinct [OF assms]] by (simp add: map_find_def)
  have world: "social_FindPlayer env g = Some f \<Longrightarrow> on_IsInWorld f" for g f
    by (auto simp: social_FindPlayer_def split: option.splits if_splits)
  show ?thesis
  proof
    assume "x \<in> set (listers env pl mgr)"
    then show "\<exists>s. map_find (fst x) mgr = Some s \<and> HasFriend (GUID_LOPART (pl_guid pl)) s \<and>
       social_FindPlayer env (player_guid (fst x)) = Some (snd x) \<and> may_see env (snd x) pl"
      unfolding listers_def map_filter_mem Bex_def split_paired_Ex mem by (auto split: option.splits if_splits)
  next
    assume "\<exists>s. map_find (fst x) mgr = Some s \<and> HasFriend (GUID_LOPART (pl_guid pl)) s \<and>
       social_FindPlayer env (player_guid (fst x)) = Some (snd x) \<and> may_see env (snd x) pl"
    then obtain s where s: "map_find (fst x) mgr = Some s" "HasFriend (GUID_LOPART (pl_guid pl)) s"
      "social_FindPlayer env (player_guid (fst x)) = Some (snd x)" "may_see env (snd x) pl" by blast
    show "x \<in> set (listers env pl mgr)" unfolding listers_def map_filter_mem
      by (rule bexI [of _ "(fst x, s)"]) (use s mem world [OF s(3)] in auto)
  qed
qed

text \<open>
  A player whose character takes part in a battleground of another realm is shown as offline
  to her friends: the lookup that is meant for this case uses the character's number where the map
  of players is keyed by the whole guid.
\<close>

lemma interrealm_friend_offline:
  assumes "\<And>g p. se_Find env g = Some p \<Longrightarrow> \<exists>low. low \<noteq> 0 \<and> g = player_guid low"
    and "GetSocial mgr pl = Some s" "social_FindPlayer env (player_guid f) = None"
  shows "fi_Status (GetFriendInfo env mgr pl f i) = FRIEND_STATUS_OFFLINE"
proof -
  have differ: "player_guid low \<noteq> ucast f" if "low \<noteq> 0" for low
  proof
    assume eq: "player_guid low = ucast f"
    have "bit (player_guid low) 55" using that low_nonzero
      by (auto simp: player_guid_def MAKE_NEW_GUID_def bit_simps)
    then show False unfolding eq by (auto simp: bit_simps dest: bit_imp_le_length)
  qed
  have "se_Find env (ucast f) = None" using assms(1) differ by (metis not_None_eq)
  then show ?thesis using assms(2,3) by (simp add: GetFriendInfo_def FindPlayerInOrOutOfWorld_def)
qed

end
