(* ===== verification/Money.thy ===== *)
theory Money
  imports Prelude
begin

text \<open>
  The purse of a player: \<open>Player::ModifyMoney\<close> of \<^verbatim>\<open>src/server/game/Entities/Player/Player.cpp\<close> with its
  limits, shared by the auction house and the guild bank.
\<close>

definition MAX_MONEY_AMOUNT :: u64 where "MAX_MONEY_AMOUNT = 9999999999"

text \<open>\<open>d\<close> is a signed number of 64 bits.\<close>

definition modified_money :: "u64 \<Rightarrow> u64 \<Rightarrow> u64" where
  "modified_money m d =
     (if sint d < 0 then (if m > - d then m + d else 0)
      else if m < MAX_MONEY_AMOUNT - d then m + d else MAX_MONEY_AMOUNT)"

text \<open>Whoever has the money pays exactly the price.\<close>

lemma modified_money_pay:
  assumes "x \<le> m" "m \<le> MAX_MONEY_AMOUNT"
  shows "modified_money m (- x) = m - x"
proof (cases "x = 0")
  case True
  then show ?thesis using assms(2) by (auto simp: modified_money_def)
next
  case False
  have le: "unat x \<le> 9999999999" using assms by (simp add: MAX_MONEY_AMOUNT_def word_le_nat_alt)
  have "x - 1 < 2 ^ 63" using le False by (simp add: word_less_nat_alt unat_minus_one)
  then have "\<not> bit (x - 1) 63" by (rule not_bit_above) simp
  then have "bit (- x) 63" by (simp add: minus_eq_not_minus_1 bit_simps)
  then have "sint (- x) < 0" using bit_last_iff [of "- x"] by simp
  then show ?thesis using assms(1) by (auto simp: modified_money_def)
qed

text \<open>Money received up to the limit is kept, the rest is lost.\<close>

lemma modified_money_gain:
  assumes "x \<le> MAX_MONEY_AMOUNT" "m \<le> MAX_MONEY_AMOUNT"
  shows "unat (modified_money m x) = min (unat m + unat x) (unat MAX_MONEY_AMOUNT)"
proof -
  have le: "unat x \<le> 9999999999" "unat m \<le> 9999999999" using assms by (simp_all add: MAX_MONEY_AMOUNT_def word_le_nat_alt)
  have "x < 2 ^ 63" using le by (simp add: word_less_nat_alt)
  then have "\<not> bit x 63" by (rule not_bit_above) simp
  then have pos: "\<not> sint x < 0" using bit_last_iff [of x] by simp
  have sub: "unat (MAX_MONEY_AMOUNT - x) = 9999999999 - unat x"
    using le assms(1) by (simp add: unat_sub MAX_MONEY_AMOUNT_def word_le_nat_alt)
  have sum: "unat (m + x) = unat m + unat x" using le by (simp add: unat_word_ariths)
  show ?thesis using pos sub sum le unfolding modified_money_def by (auto simp: word_less_nat_alt MAX_MONEY_AMOUNT_def)
qed

lemma modified_money_le: "m \<le> MAX_MONEY_AMOUNT \<Longrightarrow> x \<le> m \<Longrightarrow> modified_money m (- x) \<le> MAX_MONEY_AMOUNT"
  by (simp add: modified_money_pay word_le_nat_alt unat_sub)

end
