(* ===== verification/Auction.thy ===== *)
theory Auction
  imports StdMap ByteBuffer TextUtil GuidParts Money
begin

text \<open>
  The auction house: \<^verbatim>\<open>src/server/game/AuctionHouse/AuctionHouseMgr.h\<close>, \<^verbatim>\<open>AuctionHouseMgr.cpp\<close> and the
  bidding and cancelling handlers of \<^verbatim>\<open>src/server/game/Handlers/AuctionHouseHandler.cpp\<close>.

  The state \<open>auction_world\<close> holds the three houses and the items up for auction, and what the code
  changes outside: the money and the bags of the players, the mails, the rows of the table
  \<open>auctionhouse\<close>, the owner column of \<open>item_instance\<close> and the notices sent to sessions.  A mail to a
  player is the mail in the database; whether the receiver's client shows it at once does not matter
  here.  A transaction that is committed takes effect as a whole.  Logging, achievements, scripts and
  the player's feigned death are left out.

  Percentages are computed in floating point by the source; here they are arbitrary functions of the
  environment, so that what is proved holds for every rounding.
\<close>

unbundle bit_operations_syntax

section \<open>State\<close>

datatype auction_house = HordeAuctions | AllianceAuctions | NeutralAuctions

datatype mail_answer =
    AUCTION_OUTBIDDED | AUCTION_WON | AUCTION_SUCCESSFUL | AUCTION_EXPIRED | AUCTION_CANCELLED_TO_BIDDER
  | AUCTION_CANCELED | AUCTION_SALE_PENDING

fun answer_value :: "mail_answer \<Rightarrow> nat" where
  "answer_value AUCTION_OUTBIDDED = 0"
| "answer_value AUCTION_WON = 1"
| "answer_value AUCTION_SUCCESSFUL = 2"
| "answer_value AUCTION_EXPIRED = 3"
| "answer_value AUCTION_CANCELLED_TO_BIDDER = 4"
| "answer_value AUCTION_CANCELED = 5"
| "answer_value AUCTION_SALE_PENDING = 6"

datatype auction_error =
    ERR_AUCTION_OK | ERR_AUCTION_DATABASE_ERROR | ERR_AUCTION_NOT_ENOUGHT_MONEY | ERR_AUCTION_ITEM_NOT_FOUND

datatype auction_action = AUCTION_SELL_ITEM | AUCTION_CANCEL

record ah_item =
  it_guid :: u32
  it_entry :: u32
  it_count :: u32

record house_entry =
  houseId :: u32
  depositPercent :: u32
  cutPercent :: u32

record auction_entry =
  au_Id :: u32
  auctioneer :: u32
  itemGUIDLow :: u32
  itemEntry :: u32
  itemCount :: u32
  au_owner :: u32
  startbid :: u64
  bid :: u64
  buyout :: u64
  expire_time :: u64
  bidder :: u32
  deposit :: u64
  auctionHouseEntry :: house_entry

record auction_mail =
  ml_receiver :: u32
  ml_subject :: "u8 list"
  ml_body :: "u8 list"
  ml_money :: u64
  ml_item :: "ah_item option"
  ml_delay :: u32

text \<open>A row of \<open>auctionhouse\<close>, keyed by the auction's id.\<close>

record auction_row =
  row_auctioneer :: u32
  row_item :: u32
  row_owner :: u32
  row_buyout :: u64
  row_time :: u64
  row_bidder :: u32
  row_lastbid :: u64
  row_startbid :: u64
  row_deposit :: u32

text \<open>Notices: receiver and content.\<close>

datatype auction_notice =
    BidderNotification u32 u32 u32 u64 u64 u32 u32
  | OwnerNotification u32 u32 bool
  | CommandResult u32 u32 auction_action auction_error

record auction_world =
  aw_auctions :: "auction_house \<Rightarrow> (u32, auction_entry) std_map"
  mAitems :: "(u32, ah_item) std_map"
  aw_bags :: "u32 \<Rightarrow> (u64, ah_item) std_map"
  aw_money :: "u32 \<Rightarrow> u64"
  aw_mails :: "auction_mail list"
  aw_rows :: "(u32, auction_row) std_map"
  aw_item_owner :: "u32 \<Rightarrow> u32"
  aw_notices :: "auction_notice list"
  aw_auctionId :: u32

record auctioneer_npc =
  npc_faction :: u32
  npc_spawn :: u32

record auction_env =
  ae_FindPlayer :: "u32 \<Rightarrow> bool"
  ae_AccountId :: "u32 \<Rightarrow> u32"
  ae_GM_LOG_TRADE :: bool
  ae_ALLOW_TWO_SIDE :: bool
  ae_MAIL_DELIVERY_DELAY :: u32
  ae_ourMask :: "u32 \<Rightarrow> u32 option"
  ae_houses :: "u32 \<Rightarrow> house_entry option"
  ae_CalculatePct :: "u64 \<Rightarrow> u32 \<Rightarrow> u64"
  ae_cut_rate :: "u64 \<Rightarrow> u64"
  ae_GetNPC :: "u32 \<Rightarrow> u64 \<Rightarrow> auctioneer_npc option"
  ae_creature_faction :: "u32 \<Rightarrow> u32 option"
  ae_SellPrice :: "u32 \<Rightarrow> u32"
  ae_deposit_value :: "house_entry \<Rightarrow> u32 \<Rightarrow> u32 \<Rightarrow> u32 \<Rightarrow> u32"
  ae_auction_time :: "u32 \<Rightarrow> u32"
  ae_sellable :: "ah_item \<Rightarrow> bool"
  ae_HasItemCount :: "u32 \<Rightarrow> u32 \<Rightarrow> u32 \<Rightarrow> bool"
  ae_MaxStackCount :: "u32 \<Rightarrow> u32"
  ae_new_item_guid :: "u32 \<Rightarrow> u32 option"
  ae_CreatureData :: "u32 \<Rightarrow> bool"
  ae_time :: u64

section \<open>Money\<close>

definition ModifyMoney :: "u32 \<Rightarrow> u64 \<Rightarrow> auction_world \<Rightarrow> auction_world" where
  "ModifyMoney pl d w = w\<lparr>aw_money := (aw_money w)(pl := modified_money (aw_money w pl) d)\<rparr>"

definition HasEnoughMoney :: "u32 \<Rightarrow> u64 \<Rightarrow> auction_world \<Rightarrow> bool" where
  "HasEnoughMoney pl amount w \<longleftrightarrow> aw_money w pl \<ge> amount"

section \<open>Entries\<close>

definition GetAuctionCut :: "auction_env \<Rightarrow> auction_entry \<Rightarrow> u64" where
  "GetAuctionCut env a =
     max (ae_cut_rate env (ae_CalculatePct env (bid a) (cutPercent (auctionHouseEntry a)))) 0"

definition GetAuctionOutBid :: "auction_env \<Rightarrow> auction_entry \<Rightarrow> u64" where
  "GetAuctionOutBid env a = (let outbid = ae_CalculatePct env (bid a) 5 in if outbid \<noteq> 0 then outbid else 1)"

text \<open>Numbers in hexadecimal, as a stream prints them, padded with blanks to sixteen places.\<close>

fun hex_digits :: "nat \<Rightarrow> u8 list" where
  "hex_digits n = (let d = n mod 16; c = (if d < 10 then 48 + of_nat d else 87 + of_nat d)
     in if n < 16 then [c] else hex_digits (n div 16) @ [c])"

declare hex_digits.simps [simp del]

definition hex16 :: "u64 \<Rightarrow> u8 list" where
  "hex16 x = (let h = hex_digits (unat x) in replicate (16 - length h) 32 @ h)"

definition BuildAuctionMailSubject :: "mail_answer \<Rightarrow> auction_entry \<Rightarrow> u8 list" where
  "BuildAuctionMailSubject response a =
     dec (unat (itemEntry a)) @ [58, 48, 58] @ dec (answer_value response) @ [58] @ dec (unat (au_Id a)) @ [58] @
     dec (unat (itemCount a))"

definition BuildAuctionMailBody :: "u32 \<Rightarrow> u64 \<Rightarrow> u64 \<Rightarrow> u64 \<Rightarrow> u64 \<Rightarrow> u8 list" where
  "BuildAuctionMailBody lowGuid b buy dep c =
     hex16 (player_guid lowGuid) @ [58] @ dec (unat b) @ [58] @ dec (unat buy) @ [58] @ dec (unat dep) @ [58] @ dec (unat c)"

text \<open>Statements on the row of an auction.  \<open>CHAR_UPD_AUCTION_BID\<close> binds the bid as 32 bits.\<close>

definition auction_SaveToDB :: "auction_entry \<Rightarrow> auction_world \<Rightarrow> auction_world" where
  "auction_SaveToDB a w = w\<lparr>aw_rows := map_set (au_Id a)
     \<lparr>row_auctioneer = auctioneer a, row_item = itemGUIDLow a, row_owner = au_owner a, row_buyout = buyout a,
      row_time = expire_time a, row_bidder = bidder a, row_lastbid = bid a, row_startbid = startbid a,
      row_deposit = ucast (deposit a)\<rparr> (aw_rows w)\<rparr>"

definition auction_DeleteFromDB :: "auction_entry \<Rightarrow> auction_world \<Rightarrow> auction_world" where
  "auction_DeleteFromDB a w = w\<lparr>aw_rows := map_erase (au_Id a) (aw_rows w)\<rparr>"

definition update_bid_row :: "auction_entry \<Rightarrow> auction_world \<Rightarrow> auction_world" where
  "update_bid_row a w =
     (case map_find (au_Id a) (aw_rows w) of
        None \<Rightarrow> w
      | Some r \<Rightarrow> w\<lparr>aw_rows := map_set (au_Id a)
          (r\<lparr>row_bidder := bidder a, row_lastbid := ucast (ucast (bid a) :: u32)\<rparr>) (aw_rows w)\<rparr>)"

section \<open>Houses and items\<close>

definition GetAuctionsMap :: "auction_env \<Rightarrow> u32 \<Rightarrow> auction_house" where
  "GetAuctionsMap env factionTemplateId =
     (if ae_ALLOW_TWO_SIDE env then NeutralAuctions
      else case ae_ourMask env factionTemplateId of
        None \<Rightarrow> NeutralAuctions
      | Some m \<Rightarrow> if m AND 2 \<noteq> 0 then AllianceAuctions else if m AND 4 \<noteq> 0 then HordeAuctions else NeutralAuctions)"

definition GetAuctionHouseEntry :: "auction_env \<Rightarrow> u32 \<Rightarrow> house_entry option" where
  "GetAuctionHouseEntry env factionTemplateId =
     ae_houses env
       (if ae_ALLOW_TWO_SIDE env then 7
        else if factionTemplateId = 12 then 1
        else if factionTemplateId = 29 then 6
        else if factionTemplateId = 55 then 2
        else if factionTemplateId = 68 then 4
        else if factionTemplateId = 80 then 3
        else if factionTemplateId = 104 then 5
        else if factionTemplateId = 120 \<or> factionTemplateId = 474 \<or> factionTemplateId = 855 then 7
        else if factionTemplateId = 1604 then 6
        else case ae_ourMask env factionTemplateId of
            None \<Rightarrow> 7
          | Some m \<Rightarrow> if m AND 2 \<noteq> 0 then 1 else if m AND 4 \<noteq> 0 then 6 else 7)"

definition GetAuction :: "auction_house \<Rightarrow> u32 \<Rightarrow> auction_world \<Rightarrow> auction_entry option" where
  "GetAuction h i w = map_find i (aw_auctions w h)"

definition put_auction :: "auction_house \<Rightarrow> auction_entry \<Rightarrow> auction_world \<Rightarrow> auction_world" where
  "put_auction h a w = w\<lparr>aw_auctions := (aw_auctions w)(h := map_set (au_Id a) a (aw_auctions w h))\<rparr>"

definition RemoveAuction :: "auction_house \<Rightarrow> auction_entry \<Rightarrow> auction_world \<Rightarrow> auction_world" where
  "RemoveAuction h a w = w\<lparr>aw_auctions := (aw_auctions w)(h := map_erase (au_Id a) (aw_auctions w h))\<rparr>"

definition GetAItem :: "u32 \<Rightarrow> auction_world \<Rightarrow> ah_item option" where
  "GetAItem i w = map_find i (mAitems w)"

definition AddAItem :: "ah_item \<Rightarrow> auction_world \<Rightarrow> bb_error + auction_world" where
  "AddAItem it w =
     (if map_find (it_guid it) (mAitems w) \<noteq> None then Inl AssertFailed
      else Inr (w\<lparr>mAitems := map_set (it_guid it) it (mAitems w)\<rparr>))"

definition RemoveAItem :: "u32 \<Rightarrow> auction_world \<Rightarrow> auction_world" where
  "RemoveAItem i w = w\<lparr>mAitems := map_erase i (mAitems w)\<rparr>"

section \<open>Mails\<close>

definition SendMailTo :: "auction_mail \<Rightarrow> auction_world \<Rightarrow> auction_world" where
  "SendMailTo m w = w\<lparr>aw_mails := aw_mails w @ [m]\<rparr>"

definition ah_notify :: "auction_notice \<Rightarrow> auction_world \<Rightarrow> auction_world" where
  "ah_notify n w = w\<lparr>aw_notices := aw_notices w @ [n]\<rparr>"

text \<open>The account of the winner is looked up only when the trades of game masters are logged.\<close>

definition SendAuctionWonMail :: "auction_env \<Rightarrow> auction_entry \<Rightarrow> auction_world \<Rightarrow> auction_world" where
  "SendAuctionWonMail env a w =
     (case GetAItem (itemGUIDLow a) w of
        None \<Rightarrow> w
      | Some pItem \<Rightarrow>
          let bidder_accId = (if ae_GM_LOG_TRADE env then ae_AccountId env (bidder a) else 0)
          in if ae_FindPlayer env (bidder a) \<or> bidder_accId \<noteq> 0
             then
               let w = w\<lparr>aw_item_owner := (aw_item_owner w)(it_guid pItem := bidder a)\<rparr>;
                   w = (if ae_FindPlayer env (bidder a)
                        then ah_notify (BidderNotification (bidder a) (houseId (auctionHouseEntry a)) (au_Id a)
                               (player_guid (bidder a)) 0 0 (itemEntry a)) w
                        else w)
               in SendMailTo \<lparr>ml_receiver = bidder a, ml_subject = BuildAuctionMailSubject AUCTION_WON a,
                    ml_body = BuildAuctionMailBody (au_owner a) (bid a) (buyout a) 0 0, ml_money = 0, ml_item = Some pItem, ml_delay = 0\<rparr> w
             else w)"

definition mail_reachable :: "auction_env \<Rightarrow> u32 \<Rightarrow> bool" where
  "mail_reachable env low \<longleftrightarrow> ae_FindPlayer env low \<or> ae_AccountId env low \<noteq> 0"

definition SendAuctionSalePendingMail :: "auction_env \<Rightarrow> auction_entry \<Rightarrow> auction_world \<Rightarrow> auction_world" where
  "SendAuctionSalePendingMail env a w =
     (if mail_reachable env (au_owner a)
      then SendMailTo \<lparr>ml_receiver = au_owner a, ml_subject = BuildAuctionMailSubject AUCTION_SALE_PENDING a,
        ml_body = BuildAuctionMailBody (bidder a) (bid a) (buyout a) (deposit a) (GetAuctionCut env a),
        ml_money = 0, ml_item = None, ml_delay = 0\<rparr> w
      else w)"

definition SendAuctionSuccessfulMail :: "auction_env \<Rightarrow> auction_entry \<Rightarrow> auction_world \<Rightarrow> auction_world" where
  "SendAuctionSuccessfulMail env a w =
     (if mail_reachable env (au_owner a)
      then
        let profit = bid a + deposit a - GetAuctionCut env a;
            w = (if ae_FindPlayer env (au_owner a) then ah_notify (OwnerNotification (au_owner a) (au_Id a) True) w else w)
        in SendMailTo \<lparr>ml_receiver = au_owner a, ml_subject = BuildAuctionMailSubject AUCTION_SUCCESSFUL a,
          ml_body = BuildAuctionMailBody (bidder a) (bid a) (buyout a) (deposit a) (GetAuctionCut env a),
          ml_money = profit, ml_item = None, ml_delay = ae_MAIL_DELIVERY_DELAY env\<rparr> w
      else w)"

definition SendAuctionExpiredMail :: "auction_env \<Rightarrow> auction_entry \<Rightarrow> auction_world \<Rightarrow> auction_world" where
  "SendAuctionExpiredMail env a w =
     (case GetAItem (itemGUIDLow a) w of
        None \<Rightarrow> w
      | Some pItem \<Rightarrow>
          if mail_reachable env (au_owner a)
          then
            let w = (if ae_FindPlayer env (au_owner a) then ah_notify (OwnerNotification (au_owner a) (au_Id a) False) w else w)
            in SendMailTo \<lparr>ml_receiver = au_owner a, ml_subject = BuildAuctionMailSubject AUCTION_EXPIRED a,
              ml_body = BuildAuctionMailBody 0 0 (buyout a) (deposit a) 0, ml_money = 0, ml_item = Some pItem, ml_delay = 0\<rparr> w
          else w)"

definition SendAuctionOutbiddedMail :: "auction_env \<Rightarrow> auction_entry \<Rightarrow> u32 \<Rightarrow> u32 \<Rightarrow> auction_world \<Rightarrow> auction_world" where
  "SendAuctionOutbiddedMail env a newPrice newBidder w =
     (if mail_reachable env (bidder a)
      then
        let w = (if ae_FindPlayer env (bidder a)
                 then ah_notify (BidderNotification (bidder a) (houseId (auctionHouseEntry a)) (au_Id a)
                        (player_guid newBidder) (ucast newPrice) (ucast (GetAuctionOutBid env a)) (itemEntry a)) w
                 else w)
        in SendMailTo \<lparr>ml_receiver = bidder a, ml_subject = BuildAuctionMailSubject AUCTION_OUTBIDDED a,
          ml_body = BuildAuctionMailBody (au_owner a) (bid a) (buyout a) (deposit a) (GetAuctionCut env a),
          ml_money = bid a, ml_item = None, ml_delay = 0\<rparr> w
      else w)"

text \<open>The notice of the removal sends no packet any more: its body is commented out in the source.\<close>

definition SendAuctionCancelledToBidderMail :: "auction_env \<Rightarrow> auction_entry \<Rightarrow> auction_world \<Rightarrow> auction_world" where
  "SendAuctionCancelledToBidderMail env a w =
     (if mail_reachable env (bidder a)
      then SendMailTo \<lparr>ml_receiver = bidder a, ml_subject = BuildAuctionMailSubject AUCTION_CANCELLED_TO_BIDDER a,
        ml_body = BuildAuctionMailBody (au_owner a) (bid a) (buyout a) (deposit a) 0, ml_money = bid a, ml_item = None, ml_delay = 0\<rparr> w
      else w)"

section \<open>The end of an auction\<close>

text \<open>One expired auction: the seller and the winner are served and the auction is cleared.\<close>

definition close_auction :: "auction_env \<Rightarrow> auction_house \<Rightarrow> auction_entry \<Rightarrow> auction_world \<Rightarrow> auction_world" where
  "close_auction env h a w =
     (let w = (if bidder a = 0 then SendAuctionExpiredMail env a w
               else SendAuctionWonMail env a (SendAuctionSuccessfulMail env a w));
          w = auction_DeleteFromDB a w;
          w = RemoveAItem (itemGUIDLow a) w
      in RemoveAuction h a w)"

text \<open>\<open>SELECT id FROM auctionhouse WHERE time <= ? ORDER BY TIME ASC\<close>\<close>

definition due_auctions :: "u64 \<Rightarrow> (u32, auction_row) std_map \<Rightarrow> u32 list" where
  "due_auctions t rows = map fst (sort_key (\<lambda>r. row_time (snd r)) (filter (\<lambda>r. row_time (snd r) \<le> t) rows))"

definition house_Update :: "auction_env \<Rightarrow> auction_house \<Rightarrow> auction_world \<Rightarrow> auction_world" where
  "house_Update env h w =
     (if aw_auctions w h = [] then w
      else fold (\<lambda>i w. case GetAuction h i w of None \<Rightarrow> w | Some a \<Rightarrow> close_auction env h a w)
        (due_auctions (ucast (ucast (ae_time env) + 60 :: u32)) (aw_rows w)) w)"

definition AuctionHouseMgr_Update :: "auction_env \<Rightarrow> auction_world \<Rightarrow> auction_world" where
  "AuctionHouseMgr_Update env w =
     house_Update env NeutralAuctions (house_Update env AllianceAuctions (house_Update env HordeAuctions w))"

section \<open>Bidding and cancelling\<close>

text \<open>A bid below the buyout price, or where there is none.\<close>

definition raise_bid :: "auction_env \<Rightarrow> u32 \<Rightarrow> auction_house \<Rightarrow> u64 \<Rightarrow> auction_entry \<Rightarrow> auction_world \<Rightarrow> auction_world" where
  "raise_bid env pl h price a w =
     (let w = (if bidder a > 0
               then if bidder a = pl then ModifyMoney pl (- (price - bid a)) w
                    else ModifyMoney pl (- price) (SendAuctionOutbiddedMail env a (ucast price) pl w)
               else ModifyMoney pl (- price) w);
          a = a\<lparr>bidder := pl, bid := price\<rparr>
      in update_bid_row a (put_auction h a w))"

definition buy_out :: "auction_env \<Rightarrow> u32 \<Rightarrow> auction_house \<Rightarrow> auction_entry \<Rightarrow> auction_world \<Rightarrow> auction_world" where
  "buy_out env pl h a w =
     (let w = (if pl = bidder a then ModifyMoney pl (- (buyout a - bid a)) w
               else let w = ModifyMoney pl (- buyout a) w
                 in if bidder a \<noteq> 0 then SendAuctionOutbiddedMail env a (ucast (buyout a)) pl w else w);
          a = a\<lparr>bidder := pl, bid := buyout a\<rparr>;
          w = SendAuctionSalePendingMail env a w;
          w = SendAuctionSuccessfulMail env a w;
          w = SendAuctionWonMail env a w;
          w = auction_DeleteFromDB a w;
          w = RemoveAItem (itemGUIDLow a) w
      in RemoveAuction h a w)"

definition place_bid :: "auction_env \<Rightarrow> u32 \<Rightarrow> u64 \<Rightarrow> u32 \<Rightarrow> u64 \<Rightarrow> auction_world \<Rightarrow> auction_world" where
  "place_bid env pl npc auctionId price w =
     (if auctionId = 0 \<or> price = 0 then w
      else case ae_GetNPC env pl npc of
        None \<Rightarrow> w
      | Some creature \<Rightarrow>
          let h = GetAuctionsMap env (npc_faction creature)
          in case GetAuction h auctionId w of
            None \<Rightarrow> w
          | Some a \<Rightarrow>
              if au_owner a = pl then w
              else if price \<le> bid a \<or> price < startbid a then w
              else if (price < buyout a \<or> buyout a = 0) \<and> price < bid a + GetAuctionOutBid env a then w
              else if \<not> HasEnoughMoney pl price w then w
              else if price < buyout a \<or> buyout a = 0 then raise_bid env pl h price a w
              else buy_out env pl h a w)"

text \<open>A guid is read from its presence bits and then its bytes, each in the order of the packet.\<close>

definition read_ordered_guid :: "nat list \<Rightarrow> nat list \<Rightarrow> byte_buffer \<Rightarrow> bb_error + (u64 \<times> byte_buffer)" where
  "read_ordered_guid bits bytes b = ebind (ReadBitInOrder bits (0, b)) (ReadBytesSeq bytes)"

definition HandleAuctionPlaceBid :: "auction_env \<Rightarrow> u32 \<Rightarrow> byte_buffer \<Rightarrow> auction_world \<Rightarrow> bb_error + auction_world" where
  "HandleAuctionPlaceBid env pl recvData w =
     ebind (read_u64 recvData) (\<lambda>(price, b).
     ebind (read_u32 b) (\<lambda>(auctionId, b).
     ebind (read_ordered_guid [2, 5, 4, 1, 0, 3, 6, 7] [4, 7, 5, 3, 6, 2, 1, 0] b) (\<lambda>(npc, b).
       Inr (place_bid env pl npc auctionId price w))))"

text \<open>The owner pays the cut if somebody has bid, the bidder and the owner get their mails.\<close>

definition cancelled :: "auction_env \<Rightarrow> u32 \<Rightarrow> auction_house \<Rightarrow> auction_entry \<Rightarrow> ah_item \<Rightarrow> auction_world \<Rightarrow> auction_world" where
  "cancelled env pl h a pItem w =
     (let w = (if bidder a > 0 then ModifyMoney pl (- GetAuctionCut env a) (SendAuctionCancelledToBidderMail env a w) else w);
          w = SendMailTo \<lparr>ml_receiver = pl, ml_subject = BuildAuctionMailSubject AUCTION_CANCELED a,
            ml_body = BuildAuctionMailBody 0 0 (buyout a) (deposit a) 0, ml_money = 0, ml_item = Some pItem, ml_delay = 0\<rparr> w;
          w = ah_notify (CommandResult pl (au_Id a) AUCTION_CANCEL ERR_AUCTION_OK) w;
          w = auction_DeleteFromDB a w;
          w = RemoveAItem (itemGUIDLow a) w
      in RemoveAuction h a w)"

definition cancel_auction :: "auction_env \<Rightarrow> u32 \<Rightarrow> u64 \<Rightarrow> u32 \<Rightarrow> auction_world \<Rightarrow> auction_world" where
  "cancel_auction env pl npc auctionId w =
     (case ae_GetNPC env pl npc of
        None \<Rightarrow> w
      | Some creature \<Rightarrow>
          let h = GetAuctionsMap env (npc_faction creature)
          in case GetAuction h auctionId w of
            None \<Rightarrow> ah_notify (CommandResult pl 0 AUCTION_CANCEL ERR_AUCTION_DATABASE_ERROR) w
          | Some a \<Rightarrow>
              if au_owner a \<noteq> pl then ah_notify (CommandResult pl 0 AUCTION_CANCEL ERR_AUCTION_DATABASE_ERROR) w
              else case GetAItem (itemGUIDLow a) w of
                None \<Rightarrow> ah_notify (CommandResult pl 0 AUCTION_CANCEL ERR_AUCTION_DATABASE_ERROR) w
              | Some pItem \<Rightarrow>
                  if bidder a > 0 \<and> \<not> HasEnoughMoney pl (GetAuctionCut env a) w then w
                  else cancelled env pl h a pItem w)"

definition HandleAuctionRemoveItem :: "auction_env \<Rightarrow> u32 \<Rightarrow> byte_buffer \<Rightarrow> auction_world \<Rightarrow> bb_error + auction_world" where
  "HandleAuctionRemoveItem env pl recvData w =
     ebind (read_u32 recvData) (\<lambda>(auctionId, b).
     ebind (read_ordered_guid [1, 6, 0, 5, 2, 7, 4, 3] [0, 4, 7, 3, 6, 1, 5, 2] b) (\<lambda>(npc, b).
       Inr (cancel_auction env pl npc auctionId w)))"

section \<open>Start of the server\<close>

text \<open>
  The rows joined with the items of \<open>item_instance\<close>, here \<open>items\<close>.  The time is read as 32 bits.
\<close>

definition auction_LoadFromFieldList ::
  "auction_env \<Rightarrow> (u32 \<Rightarrow> ah_item option) \<Rightarrow> u32 \<times> auction_row \<Rightarrow> auction_entry option" where
  "auction_LoadFromFieldList env items row =
     (let r = snd row in
      case items (row_item r) of None \<Rightarrow> None | Some it \<Rightarrow>
      case ae_creature_faction env (row_auctioneer r) of None \<Rightarrow> None | Some f \<Rightarrow>
      case GetAuctionHouseEntry env f of None \<Rightarrow> None | Some e \<Rightarrow>
        Some \<lparr>au_Id = fst row, auctioneer = row_auctioneer r, itemGUIDLow = row_item r, itemEntry = it_entry it,
          itemCount = it_count it, au_owner = row_owner r, startbid = row_startbid r, bid = row_lastbid r,
          buyout = row_buyout r, expire_time = ucast (ucast (row_time r) :: u32), bidder = row_bidder r,
          deposit = ucast (row_deposit r), auctionHouseEntry = e\<rparr>)"

definition LoadAuctionItems :: "(u32 \<Rightarrow> ah_item option) \<Rightarrow> auction_world \<Rightarrow> bb_error + auction_world" where
  "LoadAuctionItems items w =
     efold (\<lambda>row w. case items (row_item (snd row)) of None \<Rightarrow> Inr w | Some it \<Rightarrow> AddAItem it w) (aw_rows w) (w\<lparr>mAitems := []\<rparr>)"

text \<open>\<open>LoadFromDB\<close> also wants the item to be loaded; a row that cannot be loaded is deleted.\<close>

definition LoadAuctions :: "auction_env \<Rightarrow> (u32 \<Rightarrow> ah_item option) \<Rightarrow> auction_world \<Rightarrow> auction_world" where
  "LoadAuctions env items w =
     fold (\<lambda>row w.
       if items (row_item (snd row)) = None then w
       else case auction_LoadFromFieldList env items row of
           None \<Rightarrow> w\<lparr>aw_rows := map_erase (fst row) (aw_rows w)\<rparr>
         | Some a \<Rightarrow>
             if GetAItem (itemGUIDLow a) w = None then w\<lparr>aw_rows := map_erase (fst row) (aw_rows w)\<rparr>
             else case ae_creature_faction env (auctioneer a) of
                 None \<Rightarrow> w
               | Some f \<Rightarrow> put_auction (GetAuctionsMap env f) a w)
     (aw_rows w) w"

text \<open>Runs before the items are loaded.\<close>

definition DeleteExpiredAuctionsAtStartup :: "auction_env \<Rightarrow> (u32 \<Rightarrow> ah_item option) \<Rightarrow> auction_world \<Rightarrow> auction_world" where
  "DeleteExpiredAuctionsAtStartup env items w =
     fold (\<lambda>row w.
       case auction_LoadFromFieldList env items row of
         None \<Rightarrow> w
       | Some a \<Rightarrow>
           let w = (if bidder a = 0 then SendAuctionExpiredMail env a w
                    else SendAuctionWonMail env a (SendAuctionSuccessfulMail env a w))
           in auction_DeleteFromDB a w)
     (filter (\<lambda>row. row_time (snd row) \<le> ucast (ucast (ae_time env) + 60 :: u32)) (aw_rows w)) w"

text \<open>The order in which \<open>World::SetInitialWorldSettings\<close> calls them, on a server without auctions in memory.\<close>

definition start_auctions :: "auction_env \<Rightarrow> (u32 \<Rightarrow> ah_item option) \<Rightarrow> auction_world \<Rightarrow> bb_error + auction_world" where
  "start_auctions env items w =
     ebind (LoadAuctionItems items (DeleteExpiredAuctionsAtStartup env items
       (w\<lparr>aw_auctions := (\<lambda>_. []), mAitems := []\<rparr>))) (\<lambda>w. Inr (LoadAuctions env items w))"

section \<open>Selling\<close>

text \<open>The packet's items: their guids are known only after the byte loop, which also compares them.\<close>

datatype sell_items = SellDuplicate | SellInvalid | SellItems "(u64 \<times> u32) list"

definition read_sell_bits :: "nat \<Rightarrow> byte_buffer \<Rightarrow> bb_error + (u64 list \<times> byte_buffer)" where
  "read_sell_bits n b =
     efold (\<lambda>i (gs, b). ebind (ReadBitInOrder [7, 3, 5, 1, 6, 2, 0, 4] (0, b)) (\<lambda>(g, b). Inr (gs[i := g], b)))
       [0..<n] (replicate 160 0, b)"

fun read_sell_bytes :: "nat list \<Rightarrow> u64 list \<Rightarrow> (u64 \<times> u32) list \<Rightarrow> byte_buffer \<Rightarrow> bb_error + (sell_items \<times> byte_buffer)" where
  "read_sell_bytes [] gs acc b = Inr (SellItems acc, b)"
| "read_sell_bytes (i # ixs) gs acc b =
     ebind (ReadBytesSeq [0, 2, 4, 5, 7, 3, 6, 1] (gs ! i, b)) (\<lambda>(guid, b).
     ebind (read_u32 b) (\<lambda>(n, b).
       if guid \<noteq> 0 \<and> list_ex (\<lambda>g. g \<noteq> 0 \<and> guid = g) gs then Inr (SellDuplicate, b)
       else if guid = 0 \<or> n = 0 \<or> n > 1000 then Inr (SellInvalid, b)
       else read_sell_bytes ixs (gs[i := guid]) (acc @ [(guid, n)]) b))"

text \<open>The first loop over the items: each must be in the player's bags, alike and fit for sale.\<close>

fun check_sell_items ::
  "auction_env \<Rightarrow> u32 \<Rightarrow> auction_world \<Rightarrow> u32 \<Rightarrow> (u64 \<times> u32) list \<Rightarrow> auction_error + (ah_item \<times> u32) list" where
  "check_sell_items env pl w true_item_entry [] = Inr []"
| "check_sell_items env pl w true_item_entry ((g, n) # rest) =
     (case map_find g (aw_bags w pl) of
        None \<Rightarrow> Inl ERR_AUCTION_ITEM_NOT_FOUND
      | Some it \<Rightarrow>
          if true_item_entry \<noteq> 0 \<and> it_entry it \<noteq> true_item_entry then Inl ERR_AUCTION_ITEM_NOT_FOUND
          else if GetAItem (it_guid it) w \<noteq> None \<or> \<not> ae_sellable env it \<or> it_count it < n
          then Inl ERR_AUCTION_DATABASE_ERROR
          else ebind (check_sell_items env pl w (if true_item_entry = 0 then it_entry it else true_item_entry) rest)
            (\<lambda>items. Inr ((it, n) # items)))"

definition AH_MINIMUM_DEPOSIT :: u32 where "AH_MINIMUM_DEPOSIT = 100"

definition GetAuctionDeposit :: "auction_env \<Rightarrow> house_entry \<Rightarrow> u32 \<Rightarrow> ah_item \<Rightarrow> u32 \<Rightarrow> u32" where
  "GetAuctionDeposit env entry t it n =
     (let MSV = ae_SellPrice env (it_entry it)
      in if MSV \<le> 0 then AH_MINIMUM_DEPOSIT
         else let d = ae_deposit_value env entry t MSV n in if d < AH_MINIMUM_DEPOSIT then AH_MINIMUM_DEPOSIT else d)"

definition GenerateAuctionID :: "auction_world \<Rightarrow> u32 \<times> auction_world" where
  "GenerateAuctionID w = (aw_auctionId w, w\<lparr>aw_auctionId := aw_auctionId w + 1\<rparr>)"

text \<open>A new item of a kind: at most a full stack, under a guid that the server hands out.\<close>

definition CloneItem :: "auction_env \<Rightarrow> ah_item \<Rightarrow> u32 \<Rightarrow> ah_item option" where
  "CloneItem env it n =
     (if n < 1 then None
      else map_option (\<lambda>g. \<lparr>it_guid = g, it_entry = it_entry it,
          it_count = (if n > ae_MaxStackCount env (it_entry it) then ae_MaxStackCount env (it_entry it) else n)\<rparr>)
        (ae_new_item_guid env (it_entry it)))"

definition item_key :: "ah_item \<Rightarrow> u64" where
  "item_key it = MAKE_NEW_GUID (ucast (it_guid it)) 0 HighItem"

definition MoveItemFromInventory :: "u32 \<Rightarrow> ah_item \<Rightarrow> auction_world \<Rightarrow> auction_world" where
  "MoveItemFromInventory pl it w = w\<lparr>aw_bags := (aw_bags w)(pl := map_erase (item_key it) (aw_bags w pl))\<rparr>"

text \<open>What the sale takes from one stack.\<close>

definition take_from_stack :: "u32 \<Rightarrow> ah_item \<times> u32 \<Rightarrow> auction_world \<Rightarrow> auction_world" where
  "take_from_stack pl x w =
     (if it_count (fst x) = snd x then MoveItemFromInventory pl (fst x) w
      else w\<lparr>aw_bags := (aw_bags w)(pl := map_set (item_key (fst x)) ((fst x)\<lparr>it_count := it_count (fst x) - snd x\<rparr>) (aw_bags w pl))\<rparr>)"

definition sell_auction ::
  "auction_env \<Rightarrow> u32 \<Rightarrow> auctioneer_npc \<Rightarrow> house_entry \<Rightarrow> u64 \<Rightarrow> u32 \<Rightarrow> u64 \<Rightarrow> (ah_item \<times> u32) list \<Rightarrow> u32 \<Rightarrow>
   auction_world \<Rightarrow> bb_error + auction_world" where
  "sell_auction env pl creature entry start etime buy items finalCount w =
     (let it = fst (hd items); n = snd (hd items);
          h = GetAuctionsMap env (npc_faction creature);
          d = GetAuctionDeposit env entry etime it finalCount
      in if \<not> HasEnoughMoney pl (ucast d) w
         then Inr (ah_notify (CommandResult pl 0 AUCTION_SELL_ITEM ERR_AUCTION_NOT_ENOUGHT_MONEY) w)
         else
           let w = ModifyMoney pl (scast (- d)) w;
               (i, w) = GenerateAuctionID w;
               seller = (if ae_ALLOW_TWO_SIDE env then 174444 else npc_spawn creature)
           in if \<not> ae_CreatureData env seller then Inl AssertFailed
              else
                let mk = (\<lambda>x. \<lparr>au_Id = i, auctioneer = seller, itemGUIDLow = it_guid x, itemEntry = it_entry x, itemCount = it_count x,
                      au_owner = pl, startbid = start, bid = 0, buyout = buy, expire_time = ae_time env + ucast (ae_auction_time env etime),
                      bidder = 0, deposit = ucast d, auctionHouseEntry = entry\<rparr>)
                in if length items = 1 \<and> it_count it = n
                   then ebind (AddAItem it w) (\<lambda>w.
                     Inr (ah_notify (CommandResult pl i AUCTION_SELL_ITEM ERR_AUCTION_OK)
                       (auction_SaveToDB (mk it) (MoveItemFromInventory pl it (put_auction h (mk it) w)))))
                   else case CloneItem env it finalCount of
                       None \<Rightarrow> Inr (ah_notify (CommandResult pl 0 AUCTION_SELL_ITEM ERR_AUCTION_DATABASE_ERROR) w)
                     | Some newItem \<Rightarrow> ebind (AddAItem newItem w) (\<lambda>w.
                         Inr (ah_notify (CommandResult pl i AUCTION_SELL_ITEM ERR_AUCTION_OK)
                           (auction_SaveToDB (mk newItem) (fold (take_from_stack pl) items (put_auction h (mk newItem) w))))))"

definition sell_item ::
  "auction_env \<Rightarrow> u32 \<Rightarrow> u64 \<Rightarrow> u64 \<Rightarrow> u32 \<Rightarrow> u64 \<Rightarrow> (u64 \<times> u32) list \<Rightarrow> auction_world \<Rightarrow> bb_error + auction_world" where
  "sell_item env pl npc start minutes buy guids w =
     (if start = 0 \<or> minutes = 0 then Inr w
      else case ae_GetNPC env pl npc of None \<Rightarrow> Inr w | Some creature \<Rightarrow>
      case GetAuctionHouseEntry env (npc_faction creature) of None \<Rightarrow> Inr w | Some entry \<Rightarrow>
      let etime = minutes * 60 in
      if \<not> (etime = 43200 \<or> etime = 86400 \<or> etime = 172800) then Inr w
      else case check_sell_items env pl w 0 guids of
          Inl e \<Rightarrow> Inr (ah_notify (CommandResult pl 0 AUCTION_SELL_ITEM e) w)
        | Inr items \<Rightarrow>
            let finalCount = sum_list (map snd items) in
            if finalCount = 0 then Inr (ah_notify (CommandResult pl 0 AUCTION_SELL_ITEM ERR_AUCTION_DATABASE_ERROR) w)
            else if \<not> ae_HasItemCount env pl (it_entry (fst (hd items))) finalCount
            then Inr (ah_notify (CommandResult pl 0 AUCTION_SELL_ITEM ERR_AUCTION_ITEM_NOT_FOUND) w)
            else if list_ex (\<lambda>x. ae_MaxStackCount env (it_entry (fst x)) < finalCount) items
            then Inr (ah_notify (CommandResult pl 0 AUCTION_SELL_ITEM ERR_AUCTION_DATABASE_ERROR) w)
            else sell_auction env pl creature entry start etime buy items finalCount w)"

definition HandleAuctionSellItem :: "auction_env \<Rightarrow> u32 \<Rightarrow> byte_buffer \<Rightarrow> auction_world \<Rightarrow> bb_error + auction_world" where
  "HandleAuctionSellItem env pl recvData w =
     ebind (read_u64 recvData) (\<lambda>(start, b).
     ebind (read_u32 b) (\<lambda>(minutes, b).
     ebind (read_u64 b) (\<lambda>(buy, b).
     ebind (ReadBitInOrder [2, 6, 5, 3, 1, 4, 7, 0] (0, b)) (\<lambda>(npc, b).
     ebind (ReadBits 5 b) (\<lambda>(itemsCount, b).
       if itemsCount > 160 then Inr (ah_notify (CommandResult pl 0 AUCTION_SELL_ITEM ERR_AUCTION_DATABASE_ERROR) w)
       else
         ebind (read_sell_bits (unat itemsCount) b) (\<lambda>(gs, b).
         ebind (read_sell_bytes [0..<unat itemsCount] gs [] b) (\<lambda>(r, b).
           case r of
             SellDuplicate \<Rightarrow> Inr (ah_notify (CommandResult pl 0 AUCTION_SELL_ITEM ERR_AUCTION_DATABASE_ERROR) w)
           | SellInvalid \<Rightarrow> Inr w
           | SellItems guids \<Rightarrow>
               ebind (ReadBytesSeq [3, 5, 1, 2, 0, 7, 6, 4] (npc, b)) (\<lambda>(npc, b).
                 sell_item env pl npc start minutes buy guids w))))))))"

end
