(* ===== verification/AuctionMoney.thy ===== *)
theory AuctionMoney
  imports Auction
begin

text \<open>
  Accounting for the auction house: the money of all players, in mails and held by the houses, and the
  items in bags, up for auction and in mails.  Each operation is reduced to what it moves.
\<close>

unbundle bit_operations_syntax

section \<open>Sums\<close>

instance auction_house :: finite
proof
  have "(UNIV :: auction_house set) = {HordeAuctions, AllianceAuctions, NeutralAuctions}"
    using auction_house.exhaust by auto
  then show "finite (UNIV :: auction_house set)" by (rule ssubst) simp
qed

text \<open>What the house holds for an auction: the deposit and, once somebody bids, the bid.\<close>

definition held :: "auction_entry \<Rightarrow> nat" where
  "held a = unat (deposit a) + (if bidder a = 0 then 0 else unat (bid a))"

definition purse :: "(u32 \<Rightarrow> u64) \<Rightarrow> nat" where
  "purse f = (\<Sum>p \<in> UNIV. unat (f p))"

definition mailed :: "auction_mail list \<Rightarrow> nat" where
  "mailed ms = sum_list (map (\<lambda>m. unat (ml_money m)) ms)"

definition held_total :: "(auction_house \<Rightarrow> (u32, auction_entry) std_map) \<Rightarrow> nat" where
  "held_total A = (\<Sum>h \<in> UNIV. \<Sum>e \<in> set (A h). held (snd e))"

definition money_total :: "auction_world \<Rightarrow> nat" where
  "money_total w = purse (aw_money w) + mailed (aw_mails w) + held_total (aw_auctions w)"

text \<open>Units of the items of one kind.\<close>

definition units :: "u32 \<Rightarrow> ah_item \<Rightarrow> nat" where
  "units e it = (if it_entry it = e then unat (it_count it) else 0)"

definition bag_units :: "u32 \<Rightarrow> (u32 \<Rightarrow> (u64, ah_item) std_map) \<Rightarrow> nat" where
  "bag_units e B = (\<Sum>p \<in> UNIV. \<Sum>x \<in> set (B p). units e (snd x))"

definition house_units :: "u32 \<Rightarrow> (u32, ah_item) std_map \<Rightarrow> nat" where
  "house_units e m = (\<Sum>x \<in> set m. units e (snd x))"

definition mail_units :: "u32 \<Rightarrow> auction_mail list \<Rightarrow> nat" where
  "mail_units e ms = sum_list (map (\<lambda>m. case ml_item m of None \<Rightarrow> 0 | Some it \<Rightarrow> units e it) ms)"

definition item_units :: "u32 \<Rightarrow> auction_world \<Rightarrow> nat" where
  "item_units e w = bag_units e (aw_bags w) + house_units e (mAitems w) + mail_units e (aw_mails w)"

lemma sum_fun_upd:
  fixes f :: "'a::finite \<Rightarrow> 'b" and g :: "'b \<Rightarrow> nat"
  shows "(\<Sum>x \<in> UNIV. g ((f(k := v)) x)) + g (f k) = (\<Sum>x \<in> UNIV. g (f x)) + g v"
proof -
  have "(\<Sum>x \<in> UNIV. g ((f(k := v)) x)) = g v + (\<Sum>x \<in> UNIV - {k}. g (f x))"
    by (subst sum.remove [of _ k]) (auto intro!: sum.cong)
  moreover have "(\<Sum>x \<in> UNIV. g (f x)) = g (f k) + (\<Sum>x \<in> UNIV - {k}. g (f x))"
    by (rule sum.remove) auto
  ultimately show ?thesis by simp
qed

lemma purse_upd: "purse (f(p := x)) + unat (f p) = purse f + unat x"
  unfolding purse_def by (rule sum_fun_upd)

lemma mailed_simps [simp]: "mailed [] = 0" "mailed (ms @ ns) = mailed ms + mailed ns" "mailed [m] = unat (ml_money m)"
  by (simp_all add: mailed_def)

lemma mail_units_simps [simp]: "mail_units e [] = 0" "mail_units e (ms @ ns) = mail_units e ms + mail_units e ns"
  "mail_units e [m] = (case ml_item m of None \<Rightarrow> 0 | Some it \<Rightarrow> units e it)"
  by (simp_all add: mail_units_def)

lemma held_total_put:
  assumes "map_ok (A h)"
  shows "held_total (A(h := map_set i a (A h))) + (case map_find i (A h) of None \<Rightarrow> 0 | Some b \<Rightarrow> held b) = held_total A + held a"
  using sum_fun_upd [of "\<lambda>m. \<Sum>e \<in> set m. held (snd e)" A h "map_set i a (A h)"]
    std_map.sum_store [OF assms, where k = i and v = a and f = "\<lambda>e. held (snd e)"]
  by (simp add: held_total_def cong: option.case_cong)

lemma held_total_remove:
  assumes "map_ok (A h)"
  shows "held_total (A(h := map_erase i (A h))) + (case map_find i (A h) of None \<Rightarrow> 0 | Some b \<Rightarrow> held b) = held_total A"
  using sum_fun_upd [of "\<lambda>m. \<Sum>e \<in> set m. held (snd e)" A h "map_erase i (A h)"]
    std_map.sum_erase [OF assms, where f = "\<lambda>e. held (snd e)" and k = i]
  by (simp add: held_total_def cong: option.case_cong)

lemma house_units_put:
  assumes "map_ok m"
  shows "house_units e (map_set i it m) + (case map_find i m of None \<Rightarrow> 0 | Some x \<Rightarrow> units e x) = house_units e m + units e it"
  using std_map.sum_store [OF assms, where k = i and v = it and f = "\<lambda>x. units e (snd x)"] by (simp add: house_units_def cong: option.case_cong)

lemma house_units_remove:
  assumes "map_ok m"
  shows "house_units e (map_erase i m) + (case map_find i m of None \<Rightarrow> 0 | Some x \<Rightarrow> units e x) = house_units e m"
  using std_map.sum_erase [OF assms, where f = "\<lambda>x. units e (snd x)" and k = i] by (simp add: house_units_def cong: option.case_cong)

lemma bag_units_put:
  assumes "map_ok (B p)"
  shows "bag_units e (B(p := map_set k it (B p))) + (case map_find k (B p) of None \<Rightarrow> 0 | Some x \<Rightarrow> units e x) =
     bag_units e B + units e it"
  using sum_fun_upd [of "\<lambda>m. \<Sum>x \<in> set m. units e (snd x)" B p "map_set k it (B p)"]
    std_map.sum_store [OF assms, where k = k and v = it and f = "\<lambda>x. units e (snd x)"]
  by (simp add: bag_units_def cong: option.case_cong)

lemma bag_units_remove:
  assumes "map_ok (B p)"
  shows "bag_units e (B(p := map_erase k (B p))) + (case map_find k (B p) of None \<Rightarrow> 0 | Some x \<Rightarrow> units e x) = bag_units e B"
  using sum_fun_upd [of "\<lambda>m. \<Sum>x \<in> set m. units e (snd x)" B p "map_erase k (B p)"]
    std_map.sum_erase [OF assms, where f = "\<lambda>x. units e (snd x)" and k = k]
  by (simp add: bag_units_def cong: option.case_cong)

section \<open>Paying\<close>

text \<open>Whoever has the money pays exactly the price: the clamps of \<open>ModifyMoney\<close> do not show.\<close>

lemma ModifyMoney_pay:
  assumes "x \<le> aw_money w p" "aw_money w p \<le> MAX_MONEY_AMOUNT"
  shows "ModifyMoney p (- x) w = w\<lparr>aw_money := (aw_money w)(p := aw_money w p - x)\<rparr>"
  by (simp add: ModifyMoney_def modified_money_pay [OF assms])

section \<open>The invariant\<close>

definition entry_ok :: "auction_world \<Rightarrow> u32 \<Rightarrow> auction_entry \<Rightarrow> bool" where
  "entry_ok w i a \<longleftrightarrow> au_Id a = i \<and> i < aw_auctionId w \<and> deposit a < 2 ^ 32 \<and> bid a \<le> MAX_MONEY_AMOUNT \<and>
     (bidder a = 0 \<longrightarrow> bid a = 0) \<and> (bidder a \<noteq> 0 \<and> buyout a \<noteq> 0 \<longrightarrow> bid a < buyout a) \<and>
     map_find (itemGUIDLow a) (mAitems w) \<noteq> None"

definition auction_inv :: "auction_world \<Rightarrow> bool" where
  "auction_inv w \<longleftrightarrow> (\<forall>h. map_ok (aw_auctions w h)) \<and> map_ok (mAitems w) \<and> (\<forall>p. map_ok (aw_bags w p)) \<and>
     (\<forall>p. aw_money w p \<le> MAX_MONEY_AMOUNT) \<and>
     (\<forall>h i a. map_find i (aw_auctions w h) = Some a \<longrightarrow> entry_ok w i a) \<and>
     (\<forall>h h' i i' a a'. map_find i (aw_auctions w h) = Some a \<longrightarrow> map_find i' (aw_auctions w h') = Some a' \<longrightarrow>
        itemGUIDLow a = itemGUIDLow a' \<longrightarrow> h = h' \<and> i = i') \<and>
     (\<forall>i it. map_find i (mAitems w) = Some it \<longrightarrow> it_guid it = i) \<and>
     (\<forall>p k it. map_find k (aw_bags w p) = Some it \<longrightarrow> k = item_key it \<and> it_entry it \<noteq> 0)"

lemma auction_invD:
  assumes "auction_inv w"
  shows "map_ok (aw_auctions w h)" "map_ok (mAitems w)" "map_ok (aw_bags w p)" "aw_money w p \<le> MAX_MONEY_AMOUNT"
    and "map_find i (aw_auctions w h) = Some a \<Longrightarrow> entry_ok w i a"
    and "map_find i (aw_auctions w h) = Some a \<Longrightarrow> map_find i' (aw_auctions w h') = Some a' \<Longrightarrow>
      itemGUIDLow a = itemGUIDLow a' \<Longrightarrow> h = h' \<and> i = i'"
    and "map_find j (mAitems w) = Some it \<Longrightarrow> it_guid it = j"
    and "map_find k (aw_bags w p) = Some it \<Longrightarrow> k = item_key it \<and> it_entry it \<noteq> 0"
  using assms unfolding auction_inv_def by blast+

text \<open>Mails, rows, owners and notices are no part of the invariant.\<close>

definition same_core :: "auction_world \<Rightarrow> auction_world \<Rightarrow> bool" where
  "same_core w v \<longleftrightarrow> aw_auctions v = aw_auctions w \<and> mAitems v = mAitems w \<and> aw_bags v = aw_bags w \<and>
     aw_money v = aw_money w \<and> aw_auctionId v = aw_auctionId w"

lemma auction_inv_same: "auction_inv w \<Longrightarrow> same_core w v \<Longrightarrow> auction_inv v"
  by (simp add: auction_inv_def same_core_def entry_ok_def)

lemma same_core_mails:
  "same_core w (SendMailTo m w)" "same_core w (ah_notify n w)" "same_core w (auction_DeleteFromDB a w)"
  "same_core w (auction_SaveToDB a w)" "same_core w (update_bid_row a w)"
  "same_core w (SendAuctionWonMail env a w)" "same_core w (SendAuctionSalePendingMail env a w)"
  "same_core w (SendAuctionSuccessfulMail env a w)" "same_core w (SendAuctionExpiredMail env a w)"
  "same_core w (SendAuctionOutbiddedMail env a x y w)" "same_core w (SendAuctionCancelledToBidderMail env a w)"
  by (auto simp: same_core_def SendMailTo_def ah_notify_def auction_DeleteFromDB_def auction_SaveToDB_def update_bid_row_def
      SendAuctionWonMail_def SendAuctionSalePendingMail_def SendAuctionSuccessfulMail_def SendAuctionExpiredMail_def
      SendAuctionOutbiddedMail_def SendAuctionCancelledToBidderMail_def Let_def split: option.splits)

lemmas mail_core [simp] = same_core_mails [unfolded same_core_def, THEN conjunct1]
  same_core_mails [unfolded same_core_def, THEN conjunct2, THEN conjunct1]
  same_core_mails [unfolded same_core_def, THEN conjunct2, THEN conjunct2, THEN conjunct1]
  same_core_mails [unfolded same_core_def, THEN conjunct2, THEN conjunct2, THEN conjunct2, THEN conjunct1]
  same_core_mails [unfolded same_core_def, THEN conjunct2, THEN conjunct2, THEN conjunct2, THEN conjunct2]

text \<open>Whom a mail reaches, and what it carries.\<close>

lemma mails_simps [simp]:
  "aw_mails (SendMailTo m w) = aw_mails w @ [m]" "aw_mails (ah_notify n w) = aw_mails w"
  "aw_mails (auction_DeleteFromDB a w) = aw_mails w" "aw_mails (auction_SaveToDB a w) = aw_mails w"
  "aw_mails (update_bid_row a w) = aw_mails w" "aw_mails (put_auction h a w) = aw_mails w"
  "aw_mails (RemoveAuction h a w) = aw_mails w" "aw_mails (RemoveAItem i w) = aw_mails w"
  "aw_mails (ModifyMoney p d w) = aw_mails w"
  by (auto simp: SendMailTo_def ah_notify_def auction_DeleteFromDB_def auction_SaveToDB_def update_bid_row_def put_auction_def
      RemoveAuction_def RemoveAItem_def ModifyMoney_def Let_def split: option.splits)

lemma mailed_won [simp]: "mailed (aw_mails (SendAuctionWonMail env a w)) = mailed (aw_mails w)"
  by (auto simp: SendAuctionWonMail_def SendMailTo_def ah_notify_def Let_def split: option.splits)

lemma mailed_pending [simp]: "mailed (aw_mails (SendAuctionSalePendingMail env a w)) = mailed (aw_mails w)"
  by (simp add: SendAuctionSalePendingMail_def)

lemma mailed_expired [simp]: "mailed (aw_mails (SendAuctionExpiredMail env a w)) = mailed (aw_mails w)"
  by (auto simp: SendAuctionExpiredMail_def Let_def split: option.splits)

lemma mailed_success:
  "mailed (aw_mails (SendAuctionSuccessfulMail env a w)) =
     mailed (aw_mails w) + (if mail_reachable env (au_owner a) then unat (bid a + deposit a - GetAuctionCut env a) else 0)"
  by (simp add: SendAuctionSuccessfulMail_def Let_def)

lemma mailed_outbid:
  "mailed (aw_mails (SendAuctionOutbiddedMail env a x y w)) =
     mailed (aw_mails w) + (if mail_reachable env (bidder a) then unat (bid a) else 0)"
  by (simp add: SendAuctionOutbiddedMail_def Let_def)

lemma mailed_cancelled:
  "mailed (aw_mails (SendAuctionCancelledToBidderMail env a w)) =
     mailed (aw_mails w) + (if mail_reachable env (bidder a) then unat (bid a) else 0)"
  by (simp add: SendAuctionCancelledToBidderMail_def)

lemma mail_units_money [simp]:
  "mail_units e (aw_mails (SendAuctionSalePendingMail env a w)) = mail_units e (aw_mails w)"
  "mail_units e (aw_mails (SendAuctionSuccessfulMail env a w)) = mail_units e (aw_mails w)"
  "mail_units e (aw_mails (SendAuctionOutbiddedMail env a x y w)) = mail_units e (aw_mails w)"
  "mail_units e (aw_mails (SendAuctionCancelledToBidderMail env a w)) = mail_units e (aw_mails w)"
  by (simp_all add: SendAuctionSalePendingMail_def SendAuctionSuccessfulMail_def SendAuctionOutbiddedMail_def
      SendAuctionCancelledToBidderMail_def Let_def)

text \<open>The winner's item is mailed when he is online, or when the account is looked up for the log.\<close>

definition winner_served :: "auction_env \<Rightarrow> u32 \<Rightarrow> bool" where
  "winner_served env low \<longleftrightarrow> ae_FindPlayer env low \<or> ae_GM_LOG_TRADE env \<and> ae_AccountId env low \<noteq> 0"

lemma mail_units_won:
  "mail_units e (aw_mails (SendAuctionWonMail env a w)) = mail_units e (aw_mails w) +
     (case map_find (itemGUIDLow a) (mAitems w) of None \<Rightarrow> 0 | Some it \<Rightarrow> if winner_served env (bidder a) then units e it else 0)"
  by (auto simp: SendAuctionWonMail_def SendMailTo_def ah_notify_def Let_def winner_served_def GetAItem_def split: option.splits)

lemma mail_units_expired:
  "mail_units e (aw_mails (SendAuctionExpiredMail env a w)) = mail_units e (aw_mails w) +
     (case map_find (itemGUIDLow a) (mAitems w) of None \<Rightarrow> 0 | Some it \<Rightarrow> if mail_reachable env (au_owner a) then units e it else 0)"
  by (auto simp: SendAuctionExpiredMail_def Let_def GetAItem_def split: option.splits)

section \<open>What the steps do to the core\<close>

lemma core_simps [simp]:
  "aw_auctions (put_auction h a w) = (aw_auctions w)(h := map_set (au_Id a) a (aw_auctions w h))"
  "aw_auctions (RemoveAuction h a w) = (aw_auctions w)(h := map_erase (au_Id a) (aw_auctions w h))"
  "aw_auctions (RemoveAItem i w) = aw_auctions w" "aw_auctions (ModifyMoney p d w) = aw_auctions w"
  "mAitems (put_auction h a w) = mAitems w" "mAitems (RemoveAuction h a w) = mAitems w"
  "mAitems (RemoveAItem i w) = map_erase i (mAitems w)" "mAitems (ModifyMoney p d w) = mAitems w"
  "aw_bags (put_auction h a w) = aw_bags w" "aw_bags (RemoveAuction h a w) = aw_bags w"
  "aw_bags (RemoveAItem i w) = aw_bags w" "aw_bags (ModifyMoney p d w) = aw_bags w"
  "aw_money (put_auction h a w) = aw_money w" "aw_money (RemoveAuction h a w) = aw_money w"
  "aw_money (RemoveAItem i w) = aw_money w"
  "aw_auctionId (put_auction h a w) = aw_auctionId w" "aw_auctionId (RemoveAuction h a w) = aw_auctionId w"
  "aw_auctionId (RemoveAItem i w) = aw_auctionId w" "aw_auctionId (ModifyMoney p d w) = aw_auctionId w"
  by (simp_all add: put_auction_def RemoveAuction_def RemoveAItem_def ModifyMoney_def Let_def)

lemma auction_inv_pay:
  assumes "auction_inv w" "x \<le> aw_money w p"
  shows "auction_inv (ModifyMoney p (- x) w)"
    and "purse (aw_money (ModifyMoney p (- x) w)) + unat x = purse (aw_money w)"
proof -
  have eq: "ModifyMoney p (- x) w = w\<lparr>aw_money := (aw_money w)(p := aw_money w p - x)\<rparr>"
    by (rule ModifyMoney_pay [OF assms(2) auction_invD(4) [OF assms(1)]])
  have "aw_money w p - x \<le> aw_money w p" using assms(2) by (rule word_sub_le)
  then have le: "aw_money w p - x \<le> MAX_MONEY_AMOUNT" using auction_invD(4) [OF assms(1), of p] by simp
  show "auction_inv (ModifyMoney p (- x) w)"
    using assms(1) le unfolding eq by (simp add: auction_inv_def entry_ok_def)
  have "unat (aw_money w p - x) + unat x = unat (aw_money w p)"
    using assms(2) by (simp add: unat_sub word_le_nat_alt)
  then show "purse (aw_money (ModifyMoney p (- x) w)) + unat x = purse (aw_money w)"
    using purse_upd [of "aw_money w" p "aw_money w p - x"] unfolding eq by simp
qed

lemma auction_inv_replace:
  assumes "auction_inv w" "map_find (au_Id a) (aw_auctions w h) = Some b" "itemGUIDLow a = itemGUIDLow b"
    and "entry_ok w (au_Id a) a"
  shows "auction_inv (put_auction h a w)"
proof -
  note inv = auction_invD [OF assms(1)]
  have find: "map_find i (aw_auctions (put_auction h a w) h') =
      (if h' = h \<and> i = au_Id a then Some a else map_find i (aw_auctions w h'))" for i h'
    using map_find_set [OF inv(1)] by auto
  show ?thesis
    unfolding auction_inv_def find
  proof (intro conjI allI impI)
    fix i h' x assume "(if h' = h \<and> i = au_Id a then Some a else map_find i (aw_auctions w h')) = Some x"
    then show "entry_ok (put_auction h a w) i x" using inv(5) assms(4) by (auto simp: entry_ok_def split: if_splits)
  next
    fix h1 h2 i1 i2 x y
    assume "(if h1 = h \<and> i1 = au_Id a then Some a else map_find i1 (aw_auctions w h1)) = Some x"
      "(if h2 = h \<and> i2 = au_Id a then Some a else map_find i2 (aw_auctions w h2)) = Some y" "itemGUIDLow x = itemGUIDLow y"
    then show "h1 = h2" "i1 = i2" using inv(6) assms(2,3) by (auto split: if_splits)
  qed (use inv in \<open>auto simp: map_ok_set\<close>)
qed

lemma auction_inv_clear:
  assumes "auction_inv w" "map_find (au_Id a) (aw_auctions w h) = Some b" "itemGUIDLow a = itemGUIDLow b"
  shows "auction_inv (RemoveAuction h a (RemoveAItem (itemGUIDLow a) w))" (is "auction_inv ?v")
proof -
  note inv = auction_invD [OF assms(1)]
  have find: "map_find i (aw_auctions ?v h') = (if h' = h \<and> i = au_Id a then None else map_find i (aw_auctions w h'))" for i h'
    by (simp add: map_find_erase)
  have items: "map_find j (mAitems ?v) = (if j = itemGUIDLow a then None else map_find j (mAitems w))" for j
    by (simp add: map_find_erase)
  show ?thesis
    unfolding auction_inv_def find items
  proof (intro conjI allI impI)
    fix i h' x assume x: "(if h' = h \<and> i = au_Id a then None else map_find i (aw_auctions w h')) = Some x"
    then have "map_find i (aw_auctions w h') = Some x" "itemGUIDLow x \<noteq> itemGUIDLow a"
      using inv(6) [OF _ assms(2)] assms(3) by (auto split: if_splits)
    then show "entry_ok ?v i x" using inv(5) by (auto simp: entry_ok_def map_find_erase)
  next
    fix h1 h2 i1 i2 x y
    assume "(if h1 = h \<and> i1 = au_Id a then None else map_find i1 (aw_auctions w h1)) = Some x"
      "(if h2 = h \<and> i2 = au_Id a then None else map_find i2 (aw_auctions w h2)) = Some y" "itemGUIDLow x = itemGUIDLow y"
    then show "h1 = h2" "i1 = i2" using inv(6) by (auto split: if_splits)
  qed (use inv in \<open>auto simp: map_ok_erase split: if_splits\<close>)
qed

lemma same_core_refl: "same_core w w" and same_core_trans: "same_core w v \<Longrightarrow> same_core v u \<Longrightarrow> same_core w u"
  by (auto simp: same_core_def)

section \<open>Bidding\<close>

text \<open>The outbid player's money is lost only when his character no longer exists.\<close>

definition lost_refund :: "auction_env \<Rightarrow> u32 \<Rightarrow> auction_entry \<Rightarrow> nat" where
  "lost_refund env pl a = (if bidder a \<noteq> 0 \<and> bidder a \<noteq> pl \<and> \<not> mail_reachable env (bidder a) then unat (bid a) else 0)"

lemma raise_bid_accounts:
  assumes inv: "auction_inv w" and find: "GetAuction h i w = Some a" and pl: "pl \<noteq> 0"
    and price: "bid a < price" "price \<le> aw_money w pl" "price < buyout a \<or> buyout a = 0"
  shows "auction_inv (raise_bid env pl h price a w)"
    and "money_total (raise_bid env pl h price a w) + lost_refund env pl a = money_total w"
    and "item_units e (raise_bid env pl h price a w) = item_units e w"
    and "GetAuction h i (raise_bid env pl h price a w) = Some (a\<lparr>bidder := pl, bid := price\<rparr>)"
proof -
  have f: "map_find i (aw_auctions w h) = Some a" using find by (simp add: GetAuction_def)
  have a: "entry_ok w i a" "au_Id a = i" using auction_invD(5) [OF inv f] by (auto simp: entry_ok_def)
  define x where "x = (if bidder a \<noteq> 0 \<and> bidder a = pl then price - bid a else price)"
  define v where "v = (if bidder a \<noteq> 0 \<and> bidder a \<noteq> pl then SendAuctionOutbiddedMail env a (ucast price) pl w else w)"
  let ?a = "a\<lparr>bidder := pl, bid := price\<rparr>"
  have eq: "raise_bid env pl h price a w = update_bid_row ?a (put_auction h ?a (ModifyMoney pl (- x) v))"
    by (simp add: raise_bid_def x_def v_def Let_def word_gt_0)
  have core: "same_core w v" by (auto simp: v_def same_core_mails same_core_refl)
  have fields: "aw_auctions v = aw_auctions w" "aw_money v = aw_money w" "mAitems v = mAitems w" "aw_bags v = aw_bags w"
    "aw_auctionId v = aw_auctionId w" using core by (auto simp: same_core_def)
  have vinv: "auction_inv v" by (rule auction_inv_same [OF inv core])
  have le: "x \<le> aw_money v pl"
    using price fields(2) by (auto simp: x_def intro: order_trans [OF word_sub_le])
  note pay = auction_inv_pay [OF vinv le]
  have "price \<le> MAX_MONEY_AMOUNT" using price(2) auction_invD(4) [OF inv, of pl] by simp
  then have ok: "entry_ok (ModifyMoney pl (- x) v) (au_Id ?a) ?a"
    using a pl price(3) fields by (auto simp: entry_ok_def)
  have f': "map_find (au_Id ?a) (aw_auctions (ModifyMoney pl (- x) v) h) = Some a" using f fields a by simp
  have put: "auction_inv (put_auction h ?a (ModifyMoney pl (- x) v))"
    by (rule auction_inv_replace [OF pay(1) f' _ ok]) simp
  show "auction_inv (raise_bid env pl h price a w)"
    unfolding eq by (rule auction_inv_same [OF put same_core_mails(5)])
  have heldeq: "held_total ((aw_auctions w)(h := map_set i ?a (aw_auctions w h))) + held a = held_total (aw_auctions w) + held ?a"
    using held_total_put [of "aw_auctions w" h i ?a] auction_invD(1) [OF inv] f by simp
  have xe: "unat x + (if bidder a \<noteq> 0 \<and> bidder a = pl then unat (bid a) else 0) = unat price"
    using price(1) by (auto simp: x_def unat_sub word_le_nat_alt word_less_nat_alt)
  show "money_total (raise_bid env pl h price a w) + lost_refund env pl a = money_total w"
    using pay(2) heldeq xe pl a(2) fields unfolding eq money_total_def held_def lost_refund_def
    by (auto simp: v_def mailed_outbid split: if_splits)
  show "item_units e (raise_bid env pl h price a w) = item_units e w"
    using fields unfolding eq item_units_def by (simp add: v_def)
  show "GetAuction h i (raise_bid env pl h price a w) = Some ?a"
    using fields a(2) map_find_set [OF auction_invD(1) [OF inv]] unfolding eq GetAuction_def by simp
qed

section \<open>Closing\<close>

lemma same_core_accounts:
  assumes "same_core w v"
  shows "money_total v + mailed (aw_mails w) = money_total w + mailed (aw_mails v)"
    and "item_units e v + mail_units e (aw_mails w) = item_units e w + mail_units e (aw_mails v)"
  using assms by (simp_all add: same_core_def money_total_def item_units_def)

text \<open>Taking an auction and its item out of the house.\<close>

lemma clear_accounts:
  assumes "auction_inv w" "map_find (au_Id a) (aw_auctions w h) = Some b" "map_find (itemGUIDLow a) (mAitems w) = Some it"
  shows "money_total (RemoveAuction h a (RemoveAItem (itemGUIDLow a) w)) + held b = money_total w"
    and "item_units e (RemoveAuction h a (RemoveAItem (itemGUIDLow a) w)) + units e it = item_units e w"
  using held_total_remove [of "aw_auctions w" h "au_Id a", OF auction_invD(1) [OF assms(1)]]
    house_units_remove [OF auction_invD(2) [OF assms(1)], of e "itemGUIDLow a"] assms(2,3)
  by (simp_all add: money_total_def item_units_def)

definition fair_cut :: "auction_env \<Rightarrow> bool" where
  "fair_cut env \<longleftrightarrow> (\<forall>a. GetAuctionCut env a \<le> bid a)"

lemma profit_value:
  assumes "fair_cut env" "deposit a < 2 ^ 32" "bid a \<le> MAX_MONEY_AMOUNT"
  shows "unat (bid a + deposit a - GetAuctionCut env a) + unat (GetAuctionCut env a) = unat (bid a) + unat (deposit a)"
proof -
  have c: "unat (GetAuctionCut env a) \<le> unat (bid a)" using assms(1) by (simp add: fair_cut_def word_le_nat_alt)
  have b: "unat (bid a) \<le> 9999999999" using assms(3) by (simp add: MAX_MONEY_AMOUNT_def word_le_nat_alt)
  have d: "unat (deposit a) < 4294967296" using assms(2) by (simp add: word_less_nat_alt)
  have s: "unat (bid a + deposit a) = unat (bid a) + unat (deposit a)" using b d by (simp add: unat_word_ariths)
  moreover have "GetAuctionCut env a \<le> bid a + deposit a" using s c by (simp add: word_le_nat_alt)
  ultimately show ?thesis using c by (simp add: unat_sub word_le_nat_alt)
qed

text \<open>What a sale costs: the house's cut, or everything when the seller is gone.\<close>

definition sale_loss :: "auction_env \<Rightarrow> auction_entry \<Rightarrow> nat" where
  "sale_loss env a = (if mail_reachable env (au_owner a) then unat (GetAuctionCut env a) else unat (bid a) + unat (deposit a))"

text \<open>The end of a sale: seller and winner get their mails and the auction is cleared.\<close>

lemma sale_accounts:
  assumes inv: "auction_inv w" and a: "map_find (au_Id a) (aw_auctions w h) = Some b" "itemGUIDLow b = itemGUIDLow a"
    and bounds: "deposit a < 2 ^ 32" "bid a \<le> MAX_MONEY_AMOUNT"
    and it: "map_find (itemGUIDLow a) (mAitems w) = Some it" and cut: "fair_cut env"
    and v: "v = SendAuctionWonMail env a (SendAuctionSuccessfulMail env a u)" "same_core w u" "mailed (aw_mails u) = mailed (aw_mails w)"
      "mail_units e (aw_mails u) = mail_units e (aw_mails w)"
  shows "auction_inv (RemoveAuction h a (RemoveAItem (itemGUIDLow a) (auction_DeleteFromDB a v)))"
    and "money_total (RemoveAuction h a (RemoveAItem (itemGUIDLow a) (auction_DeleteFromDB a v))) + held b + sale_loss env a =
      money_total w + unat (bid a) + unat (deposit a)"
    and "item_units e (RemoveAuction h a (RemoveAItem (itemGUIDLow a) (auction_DeleteFromDB a v))) +
      (if winner_served env (bidder a) then 0 else units e it) = item_units e w"
proof -
  let ?v = "auction_DeleteFromDB a v"
  have core: "same_core w ?v"
    using v(2) by (simp add: same_core_def v(1))
  have vinv: "auction_inv ?v" by (rule auction_inv_same [OF inv core])
  have f: "map_find (au_Id a) (aw_auctions ?v h) = Some b" "map_find (itemGUIDLow a) (mAitems ?v) = Some it"
    using core a(1) it by (simp_all add: same_core_def)
  have f': "map_find (itemGUIDLow a) (mAitems u) = Some it" using v(2) it by (simp add: same_core_def)
  show "auction_inv (RemoveAuction h a (RemoveAItem (itemGUIDLow a) ?v))"
    by (rule auction_inv_clear [OF vinv f(1)]) (simp add: a(2))
  have m: "mailed (aw_mails ?v) + sale_loss env a = mailed (aw_mails w) + unat (bid a) + unat (deposit a)"
    using profit_value [OF cut bounds] v(3) by (simp add: v(1) mailed_success sale_loss_def)
  show "money_total (RemoveAuction h a (RemoveAItem (itemGUIDLow a) ?v)) + held b + sale_loss env a =
      money_total w + unat (bid a) + unat (deposit a)"
    using clear_accounts(1) [OF vinv f] same_core_accounts(1) [OF core] m by linarith
  have "mail_units e (aw_mails ?v) = mail_units e (aw_mails w) + (if winner_served env (bidder a) then units e it else 0)"
    using f' v(4) by (simp add: v(1) mail_units_won)
  then show "item_units e (RemoveAuction h a (RemoveAItem (itemGUIDLow a) ?v)) +
      (if winner_served env (bidder a) then 0 else units e it) = item_units e w"
    using clear_accounts(2) [OF vinv f, of e] same_core_accounts(2) [OF core, of e] by (auto split: if_splits)
qed

lemma close_auction_accounts:
  assumes inv: "auction_inv w" and find: "GetAuction h i w = Some a" and cut: "fair_cut env"
    and it: "map_find (itemGUIDLow a) (mAitems w) = Some it"
  shows "auction_inv (close_auction env h a w)"
    and "money_total (close_auction env h a w) + (if bidder a = 0 then unat (deposit a) else sale_loss env a) = money_total w"
    and "item_units e (close_auction env h a w) +
      (if (if bidder a = 0 then mail_reachable env (au_owner a) else winner_served env (bidder a)) then 0 else units e it) = item_units e w"
proof -
  have f: "map_find i (aw_auctions w h) = Some a" using find by (simp add: GetAuction_def)
  have a: "au_Id a = i" "deposit a < 2 ^ 32" "bid a \<le> MAX_MONEY_AMOUNT"
    using auction_invD(5) [OF inv f] by (auto simp: entry_ok_def)
  have fa: "map_find (au_Id a) (aw_auctions w h) = Some a" using f a(1) by simp
  have "auction_inv (close_auction env h a w) \<and>
    money_total (close_auction env h a w) + (if bidder a = 0 then unat (deposit a) else sale_loss env a) = money_total w \<and>
    item_units e (close_auction env h a w) +
      (if (if bidder a = 0 then mail_reachable env (au_owner a) else winner_served env (bidder a)) then 0 else units e it) = item_units e w"
  proof (cases "bidder a = 0")
    case True
    let ?v = "auction_DeleteFromDB a (SendAuctionExpiredMail env a w)"
    have eq: "close_auction env h a w = RemoveAuction h a (RemoveAItem (itemGUIDLow a) ?v)"
      using True by (simp add: close_auction_def Let_def)
    have core: "same_core w ?v" by (simp add: same_core_def)
    have vinv: "auction_inv ?v" by (rule auction_inv_same [OF inv core])
    have f': "map_find (au_Id a) (aw_auctions ?v h) = Some a" "map_find (itemGUIDLow a) (mAitems ?v) = Some it"
      using f a it by simp_all
    have "mail_units e (aw_mails ?v) = mail_units e (aw_mails w) + (if mail_reachable env (au_owner a) then units e it else 0)"
      using it by (simp add: mail_units_expired)
    then have "item_units e (RemoveAuction h a (RemoveAItem (itemGUIDLow a) ?v)) +
        (if mail_reachable env (au_owner a) then 0 else units e it) = item_units e w"
      using clear_accounts(2) [OF vinv f', of e] same_core_accounts(2) [OF core, of e] by (auto split: if_splits)
    moreover have "money_total (RemoveAuction h a (RemoveAItem (itemGUIDLow a) ?v)) + unat (deposit a) = money_total w"
      using clear_accounts(1) [OF vinv f'] same_core_accounts(1) [OF core] True by (simp add: held_def)
    ultimately show ?thesis using auction_inv_clear [OF vinv f'(1) refl] True unfolding eq by simp
  next
    case False
    let ?v = "SendAuctionWonMail env a (SendAuctionSuccessfulMail env a w)"
    have eq: "close_auction env h a w = RemoveAuction h a (RemoveAItem (itemGUIDLow a) (auction_DeleteFromDB a ?v))"
      using False by (simp add: close_auction_def Let_def)
    note sale = sale_accounts [where e = e, OF inv fa refl a(2,3) it cut refl same_core_refl refl refl]
    show ?thesis using sale False unfolding eq by (simp add: held_def)
  qed
  then show "auction_inv (close_auction env h a w)"
    and "money_total (close_auction env h a w) + (if bidder a = 0 then unat (deposit a) else sale_loss env a) = money_total w"
    and "item_units e (close_auction env h a w) +
      (if (if bidder a = 0 then mail_reachable env (au_owner a) else winner_served env (bidder a)) then 0 else units e it) = item_units e w"
    by blast+
qed

lemma buy_out_accounts:
  assumes inv: "auction_inv w" and find: "GetAuction h i w = Some a" and cut: "fair_cut env" and pl: "pl \<noteq> 0"
    and price: "buyout a \<le> aw_money w pl" "buyout a \<noteq> 0"
    and it: "map_find (itemGUIDLow a) (mAitems w) = Some it"
  shows "auction_inv (buy_out env pl h a w)"
    and "money_total (buy_out env pl h a w) + lost_refund env pl a + sale_loss env (a\<lparr>bidder := pl, bid := buyout a\<rparr>) = money_total w"
    and "item_units e (buy_out env pl h a w) + (if winner_served env pl then 0 else units e it) = item_units e w"
proof -
  have f: "map_find i (aw_auctions w h) = Some a" using find by (simp add: GetAuction_def)
  have a: "entry_ok w i a" using auction_invD(5) [OF inv f] by simp
  let ?a = "a\<lparr>bidder := pl, bid := buyout a\<rparr>"
  define x where "x = (if pl = bidder a then buyout a - bid a else buyout a)"
  define v where "v = (let u = ModifyMoney pl (- x) w in
    if pl \<noteq> bidder a \<and> bidder a \<noteq> 0 then SendAuctionOutbiddedMail env a (ucast (buyout a)) pl u else u)"
  define u where "u = SendAuctionSalePendingMail env ?a v"
  have eq: "buy_out env pl h a w = RemoveAuction h ?a (RemoveAItem (itemGUIDLow ?a)
      (auction_DeleteFromDB ?a (SendAuctionWonMail env ?a (SendAuctionSuccessfulMail env ?a u))))"
    by (simp add: buy_out_def x_def v_def u_def Let_def)
  have lt: "bidder a \<noteq> 0 \<Longrightarrow> bid a < buyout a" using a price(2) by (simp add: entry_ok_def)
  have le: "x \<le> aw_money w pl"
    using price lt pl by (auto simp: x_def intro: order_trans [OF word_sub_le])
  note pay = auction_inv_pay [OF inv le]
  have core: "same_core (ModifyMoney pl (- x) w) v"
    by (auto simp: v_def Let_def same_core_mails same_core_refl)
  have vinv: "auction_inv v" by (rule auction_inv_same [OF pay(1) core])
  have fields: "aw_auctions v = aw_auctions w" "mAitems v = mAitems w" "aw_bags v = aw_bags w" "aw_auctionId v = aw_auctionId w"
    using core by (auto simp: same_core_def)
  have max: "buyout a \<le> MAX_MONEY_AMOUNT" using price(1) auction_invD(4) [OF inv, of pl] by simp
  have xe: "unat x + (if bidder a = pl then unat (bid a) else 0) = unat (buyout a)"
    using lt pl by (auto simp: x_def unat_sub word_le_nat_alt word_less_nat_alt)
  have fa: "map_find (au_Id ?a) (aw_auctions v h) = Some a" "map_find (itemGUIDLow ?a) (mAitems v) = Some it"
    using f a fields it by (simp_all add: entry_ok_def)
  have b: "deposit ?a < 2 ^ 32" "bid ?a \<le> MAX_MONEY_AMOUNT" using a max by (simp_all add: entry_ok_def)
  have u: "same_core v u" "mailed (aw_mails u) = mailed (aw_mails v)" "mail_units e (aw_mails u) = mail_units e (aw_mails v)"
    by (simp_all add: u_def same_core_mails)
  note sale = sale_accounts [where e = e, OF vinv fa(1) _ b fa(2) cut refl u]
  show "auction_inv (buy_out env pl h a w)" unfolding eq by (rule sale(1)) simp
  have "money_total v + unat x = money_total w + (if bidder a \<noteq> 0 \<and> bidder a \<noteq> pl \<and> mail_reachable env (bidder a) then unat (bid a) else 0)"
    using pay(2) by (auto simp: v_def Let_def money_total_def mailed_outbid)
  moreover have "held a = unat (deposit a) + (if bidder a \<noteq> 0 then unat (bid a) else 0)" by (simp add: held_def)
  ultimately show "money_total (buy_out env pl h a w) + lost_refund env pl a + sale_loss env ?a = money_total w"
    using sale(2) xe pl unfolding eq by (auto simp: lost_refund_def split: if_splits)
  have "item_units e v = item_units e w" by (simp add: v_def Let_def item_units_def)
  then show "item_units e (buy_out env pl h a w) + (if winner_served env pl then 0 else units e it) = item_units e w"
    using sale(3) unfolding eq by simp
qed

end
