(* ===== verification/AuctionSteps.thy ===== *)
theory AuctionSteps
  imports AuctionMoney
begin

text \<open>
  The steps of the auction house: over any sequence of sales, bids, cancellations and updates no
  money and no items come into being.
\<close>

unbundle bit_operations_syntax

section \<open>Cancelling\<close>

lemma cancelled_accounts:
  assumes inv: "auction_inv w" and find: "GetAuction h i w = Some a"
    and it: "GetAItem (itemGUIDLow a) w = Some it" and cut: "bidder a \<noteq> 0 \<Longrightarrow> GetAuctionCut env a \<le> aw_money w pl"
  shows "auction_inv (cancelled env pl h a it w)"
    and "money_total (cancelled env pl h a it w) + unat (deposit a) +
      (if bidder a = 0 then 0 else unat (GetAuctionCut env a) + (if mail_reachable env (bidder a) then 0 else unat (bid a))) = money_total w"
    and "item_units e (cancelled env pl h a it w) = item_units e w"
proof -
  have f: "map_find i (aw_auctions w h) = Some a" using find by (simp add: GetAuction_def)
  have id: "au_Id a = i" using auction_invD(5) [OF inv f] by (simp add: entry_ok_def)
  let ?m = "\<lparr>ml_receiver = pl, ml_subject = BuildAuctionMailSubject AUCTION_CANCELED a,
            ml_body = BuildAuctionMailBody 0 0 (buyout a) (deposit a) 0, ml_money = 0, ml_item = Some it, ml_delay = 0\<rparr>"
  define v where "v = (if bidder a > 0 then ModifyMoney pl (- GetAuctionCut env a) (SendAuctionCancelledToBidderMail env a w) else w)"
  let ?u = "auction_DeleteFromDB a (ah_notify (CommandResult pl (au_Id a) AUCTION_CANCEL ERR_AUCTION_OK) (SendMailTo ?m v))"
  have eq: "cancelled env pl h a it w = RemoveAuction h a (RemoveAItem (itemGUIDLow a) ?u)"
    by (simp add: cancelled_def v_def Let_def)
  have sent: "auction_inv (SendAuctionCancelledToBidderMail env a w)" by (rule auction_inv_same [OF inv same_core_mails(11)])
  have vinv: "auction_inv v \<and> money_total v = money_total w - (if bidder a = 0 then 0 else unat (GetAuctionCut env a)) +
      (if bidder a \<noteq> 0 \<and> mail_reachable env (bidder a) then unat (bid a) else 0) \<and>
      (bidder a \<noteq> 0 \<longrightarrow> unat (GetAuctionCut env a) \<le> money_total w)"
  proof (cases "bidder a = 0")
    case True
    then show ?thesis using inv by (simp add: v_def)
  next
    case False
    then have "GetAuctionCut env a \<le> aw_money (SendAuctionCancelledToBidderMail env a w) pl" using cut by simp
    from auction_inv_pay [OF sent this] False show ?thesis
      by (simp add: v_def word_gt_0 money_total_def mailed_cancelled)
  qed
  have fields: "aw_auctions v = aw_auctions w" "mAitems v = mAitems w" by (simp_all add: v_def)
  have core: "same_core v ?u" by (simp add: same_core_def)
  have uinv: "auction_inv ?u" by (rule auction_inv_same [OF conjunct1 [OF vinv] core])
  have fa: "map_find (au_Id a) (aw_auctions ?u h) = Some a" "map_find (itemGUIDLow a) (mAitems ?u) = Some it"
    using f id it fields by (simp_all add: GetAItem_def)
  show "auction_inv (cancelled env pl h a it w)" unfolding eq by (rule auction_inv_clear [OF uinv fa(1) refl])
  show "money_total (cancelled env pl h a it w) + unat (deposit a) +
      (if bidder a = 0 then 0 else unat (GetAuctionCut env a) + (if mail_reachable env (bidder a) then 0 else unat (bid a))) = money_total w"
    using clear_accounts(1) [OF uinv fa] same_core_accounts(1) [OF core] vinv unfolding eq
    by (auto simp: held_def split: if_splits)
  have "item_units e v = item_units e w" by (simp add: v_def item_units_def)
  then show "item_units e (cancelled env pl h a it w) = item_units e w"
    using clear_accounts(2) [OF uinv fa, of e] same_core_accounts(2) [OF core, of e] unfolding eq by simp
qed

lemma cancel_auction_cases:
  "same_core w (cancel_auction env pl npc i w) \<and> aw_mails (cancel_auction env pl npc i w) = aw_mails w \<or>
   (\<exists>h a it. GetAuction h i w = Some a \<and> au_owner a = pl \<and> GetAItem (itemGUIDLow a) w = Some it \<and>
      (bidder a \<noteq> 0 \<longrightarrow> GetAuctionCut env a \<le> aw_money w pl) \<and> cancel_auction env pl npc i w = cancelled env pl h a it w)"
proof (cases "ae_GetNPC env pl npc")
  case None
  then show ?thesis by (simp add: cancel_auction_def same_core_refl)
next
  case (Some c)
  note npc = Some
  let ?h = "GetAuctionsMap env (npc_faction c)"
  show ?thesis
  proof (cases "GetAuction ?h i w")
    case None
    then show ?thesis using npc by (simp add: cancel_auction_def Let_def same_core_mails)
  next
    case (Some a)
    then show ?thesis using npc
      by (cases "GetAItem (itemGUIDLow a) w")
        (auto simp: cancel_auction_def Let_def same_core_refl same_core_mails HasEnoughMoney_def word_gt_0 intro!: exI)
  qed
qed

section \<open>Selling\<close>

text \<open>The guids read from the packet are different: the check against all guids read so far sees to that.\<close>

lemma read_sell_bytes_distinct:
  assumes "read_sell_bytes ixs gs acc b = Inr (SellItems r, b')" "distinct ixs" "\<forall>i \<in> set ixs. i < length gs"
    and "\<forall>x \<in> set acc. fst x \<noteq> 0 \<and> (\<exists>j < length gs. j \<notin> set ixs \<and> gs ! j = fst x)" "distinct (map fst acc)"
    and "\<forall>x \<in> set acc. snd x \<le> 1000"
  shows "distinct (map fst r) \<and> (\<forall>x \<in> set r. snd x \<le> 1000) \<and> length r = length acc + length ixs"
  using assms
proof (induction ixs arbitrary: gs acc b)
  case (Cons i ixs)
  from Cons.prems(1) obtain guid c n d where r:
    "ReadBytesSeq [0, 2, 4, 5, 7, 3, 6, 1] (gs ! i, b) = Inr (guid, c)" "read_u32 c = Inr (n, d)" "guid \<noteq> 0" "n \<le> 1000"
    "\<not> list_ex (\<lambda>g. g \<noteq> 0 \<and> guid = g) gs" "read_sell_bytes ixs (gs[i := guid]) (acc @ [(guid, n)]) d = Inr (SellItems r, b')"
    by (auto split: if_splits)
  have new: "guid \<notin> set gs" using r(3,5) by (auto simp: list_ex_iff)
  have "fst x \<noteq> guid" if "x \<in> set acc" for x using Cons.prems(4) that new nth_mem by metis
  then have d: "distinct (map fst (acc @ [(guid, n)]))" using Cons.prems(5) by auto
  have seen: "\<forall>x \<in> set (acc @ [(guid, n)]). fst x \<noteq> 0 \<and> (\<exists>j < length (gs[i := guid]). j \<notin> set ixs \<and> gs[i := guid] ! j = fst x)"
  proof
    fix x assume x: "x \<in> set (acc @ [(guid, n)])"
    show "fst x \<noteq> 0 \<and> (\<exists>j < length (gs[i := guid]). j \<notin> set ixs \<and> gs[i := guid] ! j = fst x)"
    proof (cases "x \<in> set acc")
      case True
      then obtain j where "j < length gs" "j \<notin> set (i # ixs)" "gs ! j = fst x" "fst x \<noteq> 0" using Cons.prems(4) by blast
      then show ?thesis by (intro conjI exI [of _ j]) auto
    next
      case False
      then show ?thesis using x r(3) Cons.prems(2,3) by (intro conjI exI [of _ i]) auto
    qed
  qed
  from Cons.IH [OF r(6) _ _ seen d] show ?case using r(4) Cons.prems(2,3,6) by auto
qed auto

lemma check_sell_items_ok:
  assumes "auction_inv w" "check_sell_items env pl w e guids = Inr items"
  shows "map (\<lambda>x. item_key (fst x)) items = map fst guids" "map snd items = map snd guids"
    and "\<forall>x \<in> set items. map_find (item_key (fst x)) (aw_bags w pl) = Some (fst x) \<and> snd x \<le> it_count (fst x) \<and>
      it_entry (fst x) = (if e = 0 then it_entry (fst (hd items)) else e)"
proof -
  have "map (\<lambda>x. item_key (fst x)) items = map fst guids \<and> map snd items = map snd guids \<and>
    (\<forall>x \<in> set items. map_find (item_key (fst x)) (aw_bags w pl) = Some (fst x) \<and> snd x \<le> it_count (fst x) \<and>
      it_entry (fst x) = (if e = 0 then it_entry (fst (hd items)) else e))"
    using assms(2)
  proof (induction guids arbitrary: e items)
    case (Cons y guids)
    obtain g n where y: "y = (g, n)" by (cases y)
    from Cons.prems y obtain it rest where r: "map_find g (aw_bags w pl) = Some it" "e = 0 \<or> it_entry it = e" "n \<le> it_count it"
      "check_sell_items env pl w (if e = 0 then it_entry it else e) guids = Inr rest" "items = (it, n) # rest"
      by (auto split: option.splits if_splits simp: not_less)
    have key: "g = item_key it" "it_entry it \<noteq> 0" using auction_invD(8) [OF assms(1) r(1)] by auto
    from Cons.IH [OF r(4)] r key y show ?case by auto
  qed simp
  then show "map (\<lambda>x. item_key (fst x)) items = map fst guids" "map snd items = map snd guids"
    and "\<forall>x \<in> set items. map_find (item_key (fst x)) (aw_bags w pl) = Some (fst x) \<and> snd x \<le> it_count (fst x) \<and>
      it_entry (fst x) = (if e = 0 then it_entry (fst (hd items)) else e)" by blast+
qed

text \<open>What the stacks lose is what the sale takes.\<close>

definition bags_ok :: "(u32 \<Rightarrow> (u64, ah_item) std_map) \<Rightarrow> bool" where
  "bags_ok B \<longleftrightarrow> (\<forall>p. map_ok (B p)) \<and> (\<forall>p k it. map_find k (B p) = Some it \<longrightarrow> k = item_key it \<and> it_entry it \<noteq> 0)"

lemma item_key_count [simp]: "item_key (it\<lparr>it_count := n\<rparr>) = item_key it"
  by (simp add: item_key_def)

lemma take_from_stack_accounts:
  assumes "bags_ok (aw_bags w)" "map_find (item_key (fst x)) (aw_bags w pl) = Some (fst x)" "snd x \<le> it_count (fst x)"
  shows "bags_ok (aw_bags (take_from_stack pl x w))"
    and "bag_units e (aw_bags (take_from_stack pl x w)) + (if it_entry (fst x) = e then unat (snd x) else 0) = bag_units e (aw_bags w)"
    and "k \<noteq> item_key (fst x) \<Longrightarrow> map_find k (aw_bags (take_from_stack pl x w) pl) = map_find k (aw_bags w pl)"
    and "\<exists>B. take_from_stack pl x w = w\<lparr>aw_bags := B\<rparr>"
proof -
  obtain it n where x: "x = (it, n)" by (cases x)
  let ?k = "item_key it" and ?less = "it\<lparr>it_count := it_count it - n\<rparr>"
  have ok: "map_ok (aw_bags w pl)" using assms(1) by (simp add: bags_ok_def)
  have B: "aw_bags (take_from_stack pl x w) = (aw_bags w)(pl :=
      if it_count it = n then map_erase ?k (aw_bags w pl) else map_set ?k ?less (aw_bags w pl))"
    by (simp add: x take_from_stack_def MoveItemFromInventory_def)
  have entry: "it_entry it \<noteq> 0" using assms(1,2) x by (auto simp: bags_ok_def)
  show "bags_ok (aw_bags (take_from_stack pl x w))"
    using assms(1) ok entry unfolding B
    by (auto simp: bags_ok_def map_ok_erase map_ok_set map_find_erase map_find_set split: if_splits)
  have n: "unat (it_count it - n) + unat n = unat (it_count it)" using assms(3) x by (simp add: unat_sub word_le_nat_alt)
  show "bag_units e (aw_bags (take_from_stack pl x w)) + (if it_entry (fst x) = e then unat (snd x) else 0) = bag_units e (aw_bags w)"
    using bag_units_remove [of "aw_bags w" pl e ?k, OF ok] bag_units_put [of "aw_bags w" pl e ?k ?less, OF ok] assms(2) n x
    unfolding B by (auto simp: units_def)
  show "k \<noteq> item_key (fst x) \<Longrightarrow> map_find k (aw_bags (take_from_stack pl x w) pl) = map_find k (aw_bags w pl)"
    unfolding B using x by (simp add: map_find_erase map_find_set [OF ok])
  show "\<exists>B. take_from_stack pl x w = w\<lparr>aw_bags := B\<rparr>"
    by (auto simp: take_from_stack_def MoveItemFromInventory_def)
qed

lemma take_from_stacks_accounts:
  assumes "bags_ok (aw_bags w)" "distinct (map (\<lambda>x. item_key (fst x)) items)"
    and "\<forall>x \<in> set items. map_find (item_key (fst x)) (aw_bags w pl) = Some (fst x) \<and> snd x \<le> it_count (fst x)"
  shows "\<exists>B. fold (take_from_stack pl) items w = w\<lparr>aw_bags := B\<rparr> \<and> bags_ok B \<and>
    (\<forall>e. bag_units e B + sum_list (map (\<lambda>x. if it_entry (fst x) = e then unat (snd x) else 0) items) = bag_units e (aw_bags w))"
  using assms
proof (induction items arbitrary: w)
  case Nil
  then show ?case by (auto intro!: exI [of _ "aw_bags w"])
next
  case (Cons x items)
  have x: "map_find (item_key (fst x)) (aw_bags w pl) = Some (fst x)" "snd x \<le> it_count (fst x)" using Cons.prems(3) by auto
  note step = take_from_stack_accounts [OF Cons.prems(1) x]
  obtain C where C: "take_from_stack pl x w = w\<lparr>aw_bags := C\<rparr>" using step(4) by blast
  have "\<forall>y \<in> set items. map_find (item_key (fst y)) (aw_bags (take_from_stack pl x w) pl) = Some (fst y) \<and> snd y \<le> it_count (fst y)"
  proof
    fix y assume y: "y \<in> set items"
    then have "item_key (fst y) \<noteq> item_key (fst x)" using Cons.prems(2) by (auto simp: image_iff)
    then show "map_find (item_key (fst y)) (aw_bags (take_from_stack pl x w) pl) = Some (fst y) \<and> snd y \<le> it_count (fst y)"
      using step(3) Cons.prems(3) y by auto
  qed
  from Cons.IH [OF step(1) _ this] Cons.prems(2) obtain B where B:
    "fold (take_from_stack pl) items (take_from_stack pl x w) = (take_from_stack pl x w)\<lparr>aw_bags := B\<rparr>" "bags_ok B"
    "\<And>e. bag_units e B + sum_list (map (\<lambda>x. if it_entry (fst x) = e then unat (snd x) else 0) items) =
      bag_units e (aw_bags (take_from_stack pl x w))" by auto
  have "fold (take_from_stack pl) (x # items) w = w\<lparr>aw_bags := B\<rparr>" using B(1) by (simp add: C)
  moreover have "bag_units e B + sum_list (map (\<lambda>x. if it_entry (fst x) = e then unat (snd x) else 0) (x # items)) =
      bag_units e (aw_bags w)" for e
    using B(3) [of e] step(2) [of e] by simp
  ultimately show ?case using B(2) by blast
qed

lemma auction_inv_bags: "auction_inv w \<longleftrightarrow> auction_inv (w\<lparr>aw_bags := (\<lambda>_. [])\<rparr>) \<and> bags_ok (aw_bags w)"
  unfolding auction_inv_def bags_ok_def entry_ok_def by (simp add: map_find_def map_ok_def) blast

lemma auction_inv_new_bags: "auction_inv w \<Longrightarrow> bags_ok B \<Longrightarrow> auction_inv (w\<lparr>aw_bags := B\<rparr>)"
  using auction_inv_bags [of w] auction_inv_bags [of "w\<lparr>aw_bags := B\<rparr>"] by simp

lemma next_id:
  assumes "(n :: u32) < 0xFFFFFFFE" "i \<le> n"
  shows "i < n + 1"
proof -
  have "unat n < 4294967294" using assms(1) by (simp add: word_less_nat_alt)
  then have "unat (n + 1) = unat n + 1" by (simp add: unat_word_ariths)
  then show ?thesis using assms(2) by (simp add: word_less_nat_alt word_le_nat_alt)
qed

lemma auction_inv_next_id:
  assumes "auction_inv w" "aw_auctionId w < 0xFFFFFFFE"
  shows "auction_inv (w\<lparr>aw_auctionId := aw_auctionId w + 1\<rparr>)"
  using assms(1) next_id [OF assms(2)] unfolding auction_inv_def entry_ok_def by (auto simp: less_imp_le)

text \<open>A new auction of an item that is not up for auction yet, under the next id.\<close>

lemma auction_inv_new:
  assumes inv: "auction_inv w" and it: "map_find (it_guid it) (mAitems w) = None"
    and a: "au_Id a = aw_auctionId w" "itemGUIDLow a = it_guid it" "bidder a = 0" "bid a = 0" "deposit a < 2 ^ 32"
    and room: "aw_auctionId w < 0xFFFFFFFE"
  shows "auction_inv (put_auction h a (w\<lparr>mAitems := map_set (it_guid it) it (mAitems w), aw_auctionId := aw_auctionId w + 1\<rparr>))"
    (is "auction_inv ?v")
    and "map_find (au_Id a) (aw_auctions w h') = None"
proof -
  note D = auction_invD [OF inv]
  have fresh: "map_find (au_Id a) (aw_auctions w h') = None" for h'
  proof (rule ccontr)
    assume "map_find (au_Id a) (aw_auctions w h') \<noteq> None"
    then obtain b where "map_find (au_Id a) (aw_auctions w h') = Some b" by blast
    from D(5) [OF this] show False by (simp add: entry_ok_def a(1))
  qed
  then show "map_find (au_Id a) (aw_auctions w h') = None" .
  note lt = next_id [OF room]
  have find: "map_find i (aw_auctions ?v h') = (if h' = h \<and> i = au_Id a then Some a else map_find i (aw_auctions w h'))" for i h'
    using map_find_set [OF D(1)] by auto
  have items: "map_find j (mAitems ?v) = (if j = it_guid it then Some it else map_find j (mAitems w))" for j
    using map_find_set [OF D(2)] by simp
  show "auction_inv ?v"
    unfolding auction_inv_def find items
  proof (intro conjI allI impI)
    fix i h' x assume x: "(if h' = h \<and> i = au_Id a then Some a else map_find i (aw_auctions w h')) = Some x"
    show "entry_ok ?v i x"
    proof (cases "h' = h \<and> i = au_Id a")
      case True
      then show ?thesis using x lt [of i] a unfolding entry_ok_def items by (simp add: MAX_MONEY_AMOUNT_def)
    next
      case False
      then have old: "entry_ok w i x" using x D(5) by auto
      then have "i \<le> aw_auctionId w" by (simp add: entry_ok_def less_imp_le)
      then show ?thesis using old lt [of i] unfolding entry_ok_def items by simp
    qed
  next
    fix h1 h2 i1 i2 x y
    assume *: "(if h1 = h \<and> i1 = au_Id a then Some a else map_find i1 (aw_auctions w h1)) = Some x"
      "(if h2 = h \<and> i2 = au_Id a then Some a else map_find i2 (aw_auctions w h2)) = Some y" "itemGUIDLow x = itemGUIDLow y"
    have old: "itemGUIDLow b \<noteq> it_guid it" if "map_find i (aw_auctions w h') = Some b" for i h' b
      using D(5) [OF that] it by (auto simp: entry_ok_def)
    show "h1 = h2" "i1 = i2" using * D(6) old a(2) by (auto split: if_splits)
  qed (use D in \<open>auto simp: map_ok_set split: if_splits\<close>)
qed

lemma deposit_sign:
  assumes "(d :: u32) < 2 ^ 31"
  shows "(scast (- d) :: u64) = - ucast d"
proof -
  have u: "uint d < 2 ^ 31" using assms by (simp add: word_less_alt)
  have "signed_take_bit 31 (uint d) = uint d" by (rule signed_take_bit_int_eq_self) (use u uint_ge_0 [of d] in linarith)+
  then have "sint d = uint d" by (simp add: sint_uint)
  moreover have "signed_take_bit 31 (- uint d) = - uint d" by (rule signed_take_bit_int_eq_self) (use u uint_ge_0 [of d] in linarith)+
  ultimately have "sint (- d) = - uint d" by (simp add: sint_word_ariths(4))
  then have "scast (- d) = (word_of_int (- uint d) :: u64)" by (metis of_int_sint word_of_int_eq_iff)
  then show ?thesis by simp
qed

lemma AddAItem_Inr:
  "AddAItem it w = Inr v \<Longrightarrow> map_find (it_guid it) (mAitems w) = None \<and> v = w\<lparr>mAitems := map_set (it_guid it) it (mAitems w)\<rparr>"
  by (auto simp: AddAItem_def split: if_splits)

text \<open>The state after the deposit is paid, the item is in the house's store and the auction is listed.\<close>

lemma new_auction_accounts:
  fixes d :: u32
  assumes inv: "auction_inv w" and money: "ucast d \<le> aw_money w pl" and d: "d < 2 ^ 31"
    and add: "AddAItem it (snd (GenerateAuctionID (ModifyMoney pl (scast (- d)) w))) = Inr v"
    and a: "au_Id a = aw_auctionId w" "itemGUIDLow a = it_guid it" "bidder a = 0" "bid a = 0" "deposit a = ucast d"
    and room: "aw_auctionId w < 0xFFFFFFFE"
  shows "auction_inv (put_auction h a v)" "money_total (put_auction h a v) = money_total w"
    and "item_units e (put_auction h a v) = item_units e w + units e it" "aw_bags (put_auction h a v) = aw_bags w"
proof -
  let ?u = "ModifyMoney pl (- ucast d) w"
  have sgn: "(scast (- d) :: u64) = - ucast d" by (rule deposit_sign [OF d])
  note pay = auction_inv_pay [OF inv money]
  have v: "map_find (it_guid it) (mAitems ?u) = None"
    "v = ?u\<lparr>mAitems := map_set (it_guid it) it (mAitems ?u), aw_auctionId := aw_auctionId ?u + 1\<rparr>"
    using AddAItem_Inr [OF add] by (simp_all add: GenerateAuctionID_def sgn)
  have dep: "deposit a < 2 ^ 32"
  proof -
    have "unat d < 2 ^ 32" using unsigned_less [of d] by simp
    then show ?thesis using a(5) by (simp add: word_less_nat_alt unsigned_ucast_eq take_bit_nat_eq_self)
  qed
  have ids: "aw_auctionId ?u = aw_auctionId w" by simp
  note new = auction_inv_new [of ?u it a, unfolded ids, OF pay(1) v(1) a(1-4) dep room]
  show "auction_inv (put_auction h a v)" using new(1) [of h] unfolding v(2) ids .
  have "held_total ((aw_auctions w)(h := map_set (au_Id a) a (aw_auctions w h))) = held_total (aw_auctions w) + held a"
    using held_total_put [of "aw_auctions w" h "au_Id a" a, OF auction_invD(1) [OF inv]] new(2) [of h] by simp
  then show "money_total (put_auction h a v) = money_total w"
    using pay(2) a by (simp add: money_total_def v(2) held_def)
  show "item_units e (put_auction h a v) = item_units e w + units e it"
    using house_units_put [OF auction_invD(2) [OF inv], of e "it_guid it" it] v(1) by (simp add: item_units_def v(2))
  show "aw_bags (put_auction h a v) = aw_bags w" by (simp add: v(2))
qed

lemma sell_auction_accounts:
  assumes inv: "auction_inv w" and ne: "items \<noteq> []" and keys: "distinct (map (\<lambda>x. item_key (fst x)) items)"
    and items: "\<forall>x \<in> set items. map_find (item_key (fst x)) (aw_bags w pl) = Some (fst x) \<and> snd x \<le> it_count (fst x) \<and>
      it_entry (fst x) = it_entry (fst (hd items))"
    and n: "unat finalCount = sum_list (map (\<lambda>x. unat (snd x)) items)" "finalCount \<le> ae_MaxStackCount env (it_entry (fst (hd items)))"
    and d: "GetAuctionDeposit env entry etime (fst (hd items)) finalCount < 2 ^ 31" and room: "aw_auctionId w < 0xFFFFFFFE"
    and run: "sell_auction env pl creature entry start etime buy items finalCount w = Inr w'"
  shows "auction_inv w'" "money_total w' \<le> money_total w" "item_units e w' = item_units e w"
proof -
  obtain it m rest where hd: "items = (it, m) # rest" using ne by (cases items) auto
  let ?d = "GetAuctionDeposit env entry etime it finalCount" and ?h = "GetAuctionsMap env (npc_faction creature)"
  let ?u = "ModifyMoney pl (scast (- ?d)) w"
  let ?s = "if ae_ALLOW_TWO_SIDE env then 174444 else npc_spawn creature"
  let ?mk = "\<lambda>x. \<lparr>au_Id = aw_auctionId w, auctioneer = ?s, itemGUIDLow = it_guid x, itemEntry = it_entry x, itemCount = it_count x,
     au_owner = pl, startbid = start, bid = 0, buyout = buy, expire_time = ae_time env + ucast (ae_auction_time env etime),
     bidder = 0, deposit = ucast ?d, auctionHouseEntry = entry\<rparr>"
  let ?v = "snd (GenerateAuctionID ?u)"
  have dd: "?d < 2 ^ 31" using d hd by simp
  have bags: "bags_ok (aw_bags w)" using inv auction_inv_bags by blast
  have "auction_inv w' \<and> money_total w' \<le> money_total w \<and> item_units e w' = item_units e w"
  proof (cases "HasEnoughMoney pl (ucast ?d) w")
    case False
    then have "w' = ah_notify (CommandResult pl 0 AUCTION_SELL_ITEM ERR_AUCTION_NOT_ENOUGHT_MONEY) w"
      using run by (simp add: sell_auction_def hd Let_def)
    then show ?thesis using auction_inv_same [OF inv same_core_mails(2)] by (simp add: money_total_def item_units_def)
  next
    case True
    then have money: "ucast ?d \<le> aw_money w pl" by (simp add: HasEnoughMoney_def)
    let ?done = "\<lambda>x v. ah_notify (CommandResult pl (aw_auctionId w) AUCTION_SELL_ITEM ERR_AUCTION_OK)
      (auction_SaveToDB (?mk x) (fold (take_from_stack pl) items (put_auction ?h (?mk x) v)))"
    have sum: "sum_list (map (\<lambda>x. if it_entry (fst x) = e then unat (snd x) else 0) items) = (if it_entry it = e then unat finalCount else 0)"
    proof -
      have "map (\<lambda>x. if it_entry (fst x) = e then unat (snd x) else 0) items =
          (if it_entry it = e then map (\<lambda>x. unat (snd x)) items else map (\<lambda>x. 0) items)"
        using items hd by auto
      then show ?thesis using n(1) by (auto simp: sum_list_triv)
    qed
    have sold: "auction_inv (?done x v) \<and> money_total (?done x v) = money_total w \<and> item_units e (?done x v) = item_units e w"
      if "AddAItem x ?v = Inr v" "units e x = (if it_entry it = e then unat finalCount else 0)" for x v
    proof -
      note new = new_auction_accounts [where a = "?mk x" and h = ?h, OF inv money dd that(1) _ _ _ _ _ room, simplified]
      have tb: "bags_ok (aw_bags (put_auction ?h (?mk x) v))" using bags new(4) by simp
      have ti: "\<forall>x' \<in> set items. map_find (item_key (fst x')) (aw_bags (put_auction ?h (?mk x) v) pl) = Some (fst x') \<and> snd x' \<le> it_count (fst x')"
        using items new(4) by simp
      from take_from_stacks_accounts [OF tb keys ti] obtain B where B: "fold (take_from_stack pl) items (put_auction ?h (?mk x) v) = (put_auction ?h (?mk x) v)\<lparr>aw_bags := B\<rparr>"
        "bags_ok B" "\<forall>e. bag_units e B + sum_list (map (\<lambda>x. if it_entry (fst x) = e then unat (snd x) else 0) items) =
          bag_units e (aw_bags (put_auction ?h (?mk x) v))" by (elim exE conjE)
      have be: "bag_units e B + (if it_entry it = e then unat finalCount else 0) = bag_units e (aw_bags w)"
        using B(3) [THEN spec, of e] sum new(4) by simp
      have "auction_inv (put_auction ?h (?mk x) v\<lparr>aw_bags := B\<rparr>)" by (rule auction_inv_new_bags [OF new(1) B(2)])
      then have "auction_inv (?done x v)" unfolding B(1) using same_core_mails(2,4) auction_inv_same by blast
      moreover have "money_total (?done x v) = money_total w" using new(2) unfolding B(1) by (simp add: money_total_def)
      moreover have "item_units e (?done x v) = item_units e w"
        using new(3) [of e] new(4) be that(2) unfolding B(1) by (simp add: item_units_def)
      ultimately show ?thesis by blast
    qed
    have ids: "fst (GenerateAuctionID ?u) = aw_auctionId w" by (simp add: GenerateAuctionID_def)
    have hds: "hd items = (it, m)" by (simp add: hd)
    have r: "(if \<not> ae_CreatureData env ?s then Inl AssertFailed
        else if length items = 1 \<and> it_count it = m then ebind (AddAItem it ?v) (\<lambda>v. Inr (ah_notify (CommandResult pl (aw_auctionId w) AUCTION_SELL_ITEM ERR_AUCTION_OK)
            (auction_SaveToDB (?mk it) (MoveItemFromInventory pl it (put_auction ?h (?mk it) v)))))
        else case CloneItem env it finalCount of
            None \<Rightarrow> Inr (ah_notify (CommandResult pl 0 AUCTION_SELL_ITEM ERR_AUCTION_DATABASE_ERROR) ?v)
          | Some x \<Rightarrow> ebind (AddAItem x ?v) (\<lambda>v. Inr (?done x v))) = Inr w'"
      using run unfolding sell_auction_def Let_def case_prod_beta hds fst_conv snd_conv ids by (simp only: True not_True_eq_False if_False)
    show ?thesis
    proof (cases "length items = 1 \<and> it_count it = m")
      case True
      then obtain v where v: "AddAItem it ?v = Inr v" "w' = ?done it v"
        using r hd by (auto simp: take_from_stack_def split: if_splits)
      have "units e it = (if it_entry it = e then unat finalCount else 0)" using True n(1) hd by (simp add: units_def)
      from sold [OF v(1) this] v(2) show ?thesis by simp
    next
      case False
      show ?thesis
      proof (cases "CloneItem env it finalCount")
        case None
        then have w': "w' = ah_notify (CommandResult pl 0 AUCTION_SELL_ITEM ERR_AUCTION_DATABASE_ERROR) ?v"
          using r False by (simp split: if_splits)
        have u: "?u = ModifyMoney pl (- ucast ?d) w" by (simp add: deposit_sign [OF dd])
        note pay = auction_inv_pay [OF inv money]
        let ?p = "ModifyMoney pl (- ucast ?d) w"
        have v: "?v = ?p\<lparr>aw_auctionId := aw_auctionId ?p + 1\<rparr>" unfolding u by (simp add: GenerateAuctionID_def)
        have "auction_inv ?v" unfolding v by (rule auction_inv_next_id [OF pay(1)]) (use room in simp)
        then have "auction_inv w'" unfolding w' by (rule auction_inv_same [OF _ same_core_mails(2)])
        moreover have "money_total w' \<le> money_total w" using pay(2) unfolding w' v by (simp add: money_total_def)
        moreover have "item_units e w' = item_units e w" unfolding w' v by (simp add: item_units_def)
        ultimately show ?thesis by blast
      next
        case (Some x)
        then obtain v where v: "AddAItem x ?v = Inr v" "w' = ?done x v" using r False by (auto split: if_splits)
        have "units e x = (if it_entry it = e then unat finalCount else 0)"
          using Some n(2) hd by (auto simp: CloneItem_def units_def split: if_splits)
        from sold [OF v(1) this] v(2) show ?thesis by simp
      qed
    qed
  qed
  then show "auction_inv w'" "money_total w' \<le> money_total w" "item_units e w' = item_units e w" by auto
qed

section \<open>The steps of the house\<close>

text \<open>The invariant holds afterwards and neither money nor items have come into being.\<close>

definition no_gain :: "auction_world \<Rightarrow> auction_world \<Rightarrow> bool" where
  "no_gain w v \<longleftrightarrow> auction_inv v \<and> money_total v \<le> money_total w \<and> (\<forall>e. item_units e v \<le> item_units e w)"

lemma no_gainI: "auction_inv v \<Longrightarrow> money_total v \<le> money_total w \<Longrightarrow> (\<And>e. item_units e v \<le> item_units e w) \<Longrightarrow> no_gain w v"
  by (simp add: no_gain_def)

lemma no_gain_trans [trans]: "no_gain w v \<Longrightarrow> no_gain v u \<Longrightarrow> no_gain w u"
  unfolding no_gain_def using order_trans by blast

lemma no_gain_same: "auction_inv w \<Longrightarrow> same_core w v \<Longrightarrow> aw_mails v = aw_mails w \<Longrightarrow> no_gain w v"
  using same_core_accounts [of w v] auction_inv_same by (auto intro!: no_gainI)

lemma no_gain_refl: "auction_inv w \<Longrightarrow> no_gain w w"
  by (simp add: no_gain_def)

lemma no_gain_notify: "auction_inv w \<Longrightarrow> no_gain w (ah_notify n w)"
  by (rule no_gain_same) (simp_all add: same_core_mails)

lemma auction_item:
  assumes "auction_inv w" "GetAuction h i w = Some a"
  obtains it where "map_find (itemGUIDLow a) (mAitems w) = Some it"
  using auction_invD(5) [OF assms(1) assms(2) [unfolded GetAuction_def]] that by (auto simp: entry_ok_def)

text \<open>A bid that is taken is a higher bid or a buyout; every other request changes nothing.\<close>

lemma place_bid_cases:
  obtains (refused) "place_bid env pl npc i price w = w"
  | (raised) h a where "GetAuction h i w = Some a" "bid a < price" "price \<le> aw_money w pl" "price < buyout a \<or> buyout a = 0"
      "au_owner a \<noteq> pl" "startbid a \<le> price" "bid a + GetAuctionOutBid env a \<le> price"
      "place_bid env pl npc i price w = raise_bid env pl h price a w"
  | (bought) h a where "GetAuction h i w = Some a" "buyout a \<le> price" "price \<le> aw_money w pl" "buyout a \<noteq> 0" "au_owner a \<noteq> pl"
      "place_bid env pl npc i price w = buy_out env pl h a w"
proof (cases "ae_GetNPC env pl npc")
  case None
  then show ?thesis by (intro refused) (simp add: place_bid_def)
next
  case (Some c)
  note npc = Some
  show ?thesis
  proof (cases "GetAuction (GetAuctionsMap env (npc_faction c)) i w")
    case None
    then show ?thesis using npc by (intro refused) (simp add: place_bid_def)
  next
    case (Some a)
    let ?b = "price < buyout a \<or> buyout a = 0"
    consider "i = 0 \<or> price = 0 \<or> au_owner a = pl \<or> price \<le> bid a \<or> price < startbid a \<or> ?b \<and> price < bid a + GetAuctionOutBid env a \<or>
        \<not> HasEnoughMoney pl price w"
      | "i \<noteq> 0" "price \<noteq> 0" "au_owner a \<noteq> pl" "bid a < price" "startbid a \<le> price" "?b" "bid a + GetAuctionOutBid env a \<le> price" "HasEnoughMoney pl price w"
      | "i \<noteq> 0" "price \<noteq> 0" "au_owner a \<noteq> pl" "bid a < price" "startbid a \<le> price" "\<not> ?b" "HasEnoughMoney pl price w"
      using linorder_not_less by blast
    then show ?thesis
    proof cases
      case 1
      then show ?thesis using npc Some by (intro refused) (auto simp: place_bid_def Let_def)
    next
      case 2
      then have "place_bid env pl npc i price w = raise_bid env pl (GetAuctionsMap env (npc_faction c)) price a w"
        using npc Some by (simp add: place_bid_def Let_def)
      with 2 Some show ?thesis by (intro raised) (auto simp: HasEnoughMoney_def)
    next
      case 3
      then have "place_bid env pl npc i price w = buy_out env pl (GetAuctionsMap env (npc_faction c)) a w"
        using npc Some by (simp add: place_bid_def Let_def)
      with 3 Some show ?thesis by (intro bought) (auto simp: HasEnoughMoney_def)
    qed
  qed
qed

lemma place_bid_no_gain:
  assumes "auction_inv w" "fair_cut env" "pl \<noteq> 0"
  shows "no_gain w (place_bid env pl npc i price w)"
proof (rule place_bid_cases [of env pl npc i price w])
  assume "place_bid env pl npc i price w = w"
  then show ?thesis using assms(1) by (simp add: no_gain_refl)
next
  fix h a assume *: "GetAuction h i w = Some a" "bid a < price" "price \<le> aw_money w pl" "price < buyout a \<or> buyout a = 0"
    "place_bid env pl npc i price w = raise_bid env pl h price a w"
  note acc = raise_bid_accounts [OF assms(1) *(1) assms(3) *(2-4), where env = env]
  show ?thesis unfolding *(5) using acc(2) by (intro no_gainI acc(1)) (simp_all add: acc(3))
next
  fix h a assume *: "GetAuction h i w = Some a" "buyout a \<le> price" "price \<le> aw_money w pl" "buyout a \<noteq> 0"
    "place_bid env pl npc i price w = buy_out env pl h a w"
  obtain it where it: "map_find (itemGUIDLow a) (mAitems w) = Some it" using auction_item [OF assms(1) *(1)] .
  have le: "buyout a \<le> aw_money w pl" using *(2,3) by (rule order_trans)
  note acc = buy_out_accounts [OF assms(1) *(1) assms(2,3) le *(4) it]
  have "item_units e (buy_out env pl h a w) \<le> item_units e w" for e using acc(3) [of e] by linarith
  then show ?thesis unfolding *(5) using acc(2) by (intro no_gainI acc(1)) simp_all
qed

lemma cancel_auction_no_gain:
  assumes "auction_inv w"
  shows "no_gain w (cancel_auction env pl npc i w)"
  using cancel_auction_cases [of w env pl npc i]
proof
  assume "same_core w (cancel_auction env pl npc i w) \<and> aw_mails (cancel_auction env pl npc i w) = aw_mails w"
  then show ?thesis using assms no_gain_same by blast
next
  assume "\<exists>h a it. GetAuction h i w = Some a \<and> au_owner a = pl \<and> GetAItem (itemGUIDLow a) w = Some it \<and>
      (bidder a \<noteq> 0 \<longrightarrow> GetAuctionCut env a \<le> aw_money w pl) \<and> cancel_auction env pl npc i w = cancelled env pl h a it w"
  then obtain h a it where *: "GetAuction h i w = Some a" "GetAItem (itemGUIDLow a) w = Some it"
    "bidder a \<noteq> 0 \<Longrightarrow> GetAuctionCut env a \<le> aw_money w pl" "cancel_auction env pl npc i w = cancelled env pl h a it w" by blast
  note acc = cancelled_accounts [OF assms *(1,2,3)]
  show ?thesis unfolding *(4) using acc(2) by (intro no_gainI acc(1)) (simp_all add: acc(3))
qed

lemma close_auction_no_gain:
  assumes "auction_inv w" "fair_cut env" "GetAuction h i w = Some a"
  shows "no_gain w (close_auction env h a w)"
proof -
  obtain it where it: "map_find (itemGUIDLow a) (mAitems w) = Some it" using auction_item [OF assms(1,3)] .
  note acc = close_auction_accounts [OF assms(1,3,2) it]
  have "item_units e (close_auction env h a w) \<le> item_units e w" for e using acc(3) [of e] by linarith
  moreover have "money_total (close_auction env h a w) \<le> money_total w" using acc(2) by linarith
  ultimately show ?thesis by (intro no_gainI acc(1)) simp_all
qed

lemma house_Update_no_gain:
  assumes "auction_inv w" "fair_cut env"
  shows "no_gain w (house_Update env h w)"
proof -
  let ?f = "\<lambda>i w. case GetAuction h i w of None \<Rightarrow> w | Some a \<Rightarrow> close_auction env h a w"
  have "no_gain w (fold ?f ids w)" for ids
    using assms(1)
  proof (induction ids arbitrary: w)
    case (Cons i ids)
    have step: "no_gain w (?f i w)"
      using close_auction_no_gain [OF Cons.prems assms(2)] no_gain_refl [OF Cons.prems] by (cases "GetAuction h i w") auto
    then have "auction_inv (?f i w)" by (simp add: no_gain_def)
    from no_gain_trans [OF step Cons.IH [OF this]] show ?case by simp
  qed (simp add: no_gain_refl)
  then show ?thesis using no_gain_refl [OF assms(1)] by (simp add: house_Update_def)
qed

lemma AuctionHouseMgr_Update_no_gain:
  assumes "auction_inv w" "fair_cut env"
  shows "no_gain w (AuctionHouseMgr_Update env w)"
proof -
  let ?a = "house_Update env HordeAuctions w"
  let ?b = "house_Update env AllianceAuctions ?a"
  have a: "no_gain w ?a" by (rule house_Update_no_gain [OF assms])
  then have "no_gain ?a ?b" by (intro house_Update_no_gain assms(2)) (simp add: no_gain_def)
  with a have b: "no_gain w ?b" by (rule no_gain_trans)
  then have "no_gain ?b (house_Update env NeutralAuctions ?b)" by (intro house_Update_no_gain assms(2)) (simp add: no_gain_def)
  with b show ?thesis unfolding AuctionHouseMgr_Update_def by (rule no_gain_trans)
qed

text \<open>Few stacks of at most a thousand: their sum fits in 32 bits.\<close>

lemma unat_sum_list:
  fixes xs :: "u32 list"
  assumes "\<forall>x \<in> set xs. x \<le> 1000" "length xs \<le> 4000"
  shows "unat (sum_list xs) = sum_list (map unat xs)"
proof -
  have "unat (sum_list xs) = sum_list (map unat xs) \<and> sum_list (map unat xs) \<le> 1000 * length xs"
    using assms
  proof (induction xs)
    case (Cons x xs)
    have x: "unat x \<le> 1000" using Cons.prems(1) by (simp add: word_le_nat_alt)
    have "unat x + unat (sum_list xs) < 2 ^ LENGTH(32)" using Cons x by simp
    then have "unat (x + sum_list xs) = unat x + unat (sum_list xs)" by (simp add: unat_word_ariths)
    then show ?case using Cons x by simp
  qed simp
  then show ?thesis by simp
qed

definition small_deposits :: "auction_env \<Rightarrow> bool" where
  "small_deposits env \<longleftrightarrow> (\<forall>entry t it n. GetAuctionDeposit env entry t it n < 2 ^ 31)"

lemma sell_item_no_gain:
  assumes inv: "auction_inv w" and d: "small_deposits env" and room: "aw_auctionId w < 0xFFFFFFFE"
    and g: "distinct (map fst guids)" "\<forall>x \<in> set guids. snd x \<le> 1000" "length guids \<le> 4000"
    and run: "sell_item env pl npc start minutes buy guids w = Inr w'"
  shows "no_gain w w'"
proof (cases "\<exists>n. w' = ah_notify n w \<or> w' = w")
  case True
  then show ?thesis using inv no_gain_refl no_gain_notify by blast
next
  case False
  let ?sum = "\<lambda>items. sum_list (map snd (items :: (ah_item \<times> u32) list))"
  have "\<exists>creature entry items. check_sell_items env pl w 0 guids = Inr items \<and> ?sum items \<noteq> 0 \<and>
      \<not> list_ex (\<lambda>x. ae_MaxStackCount env (it_entry (fst x)) < ?sum items) items \<and>
      sell_auction env pl creature entry start (minutes * 60) buy items (?sum items) w = Inr w'"
    using run False unfolding sell_item_def Let_def by (auto split: if_splits option.splits sum.splits)
  then obtain creature entry items where s: "check_sell_items env pl w 0 guids = Inr items" "?sum items \<noteq> 0"
    "\<not> list_ex (\<lambda>x. ae_MaxStackCount env (it_entry (fst x)) < ?sum items) items"
    "sell_auction env pl creature entry start (minutes * 60) buy items (?sum items) w = Inr w'" by (elim exE conjE)
  note ok = check_sell_items_ok [OF inv s(1)]
  have ne: "items \<noteq> []" using s(2) by auto
  have keys: "distinct (map (\<lambda>x. item_key (fst x)) items)" using ok(1) g(1) by simp
  have "\<forall>x \<in> set (map snd items). x \<le> 1000" unfolding ok(2) using g(2) by auto
  moreover have "length (map snd items) \<le> 4000" unfolding ok(2) using g(3) by simp
  ultimately have "unat (?sum items) = sum_list (map unat (map snd items))" by (rule unat_sum_list)
  then have n: "unat (?sum items) = sum_list (map (\<lambda>x. unat (snd x)) items)" by (simp add: comp_def)
  have "hd items \<in> set items" using ne by simp
  then have m: "?sum items \<le> ae_MaxStackCount env (it_entry (fst (hd items)))"
    using s(3) by (auto simp: list_ex_iff not_less)
  have dd: "GetAuctionDeposit env entry (minutes * 60) (fst (hd items)) (?sum items) < 2 ^ 31"
    using d unfolding small_deposits_def by blast
  note acc = sell_auction_accounts [OF inv ne keys _ n m dd room s(4)]
  show ?thesis by (intro no_gainI acc(1,2)) (use ok(3) acc(3) in \<open>simp_all\<close>)
qed

lemma read_sell_bits_length:
  assumes "read_sell_bits n b = Inr (gs, c)"
  shows "length gs = 160"
proof -
  have "efold (\<lambda>i (gs, b). ebind (ReadBitInOrder [7, 3, 5, 1, 6, 2, 0, 4] (0, b)) (\<lambda>(g, b). Inr (gs[i := g], b))) ixs (hs, b) = Inr (gs, c) \<Longrightarrow>
      length gs = length hs" for ixs hs b
  proof (induction ixs arbitrary: hs b)
    case (Cons i ixs)
    from Cons.prems obtain g d where "efold (\<lambda>i (gs, b). ebind (ReadBitInOrder [7, 3, 5, 1, 6, 2, 0, 4] (0, b)) (\<lambda>(g, b). Inr (gs[i := g], b))) ixs (hs[i := g], d) = Inr (gs, c)"
      by auto
    from Cons.IH [OF this] show ?case by simp
  qed simp
  from this [OF assms [unfolded read_sell_bits_def]] show ?thesis by simp
qed

lemma HandleAuctionSellItem_no_gain:
  assumes inv: "auction_inv w" and d: "small_deposits env" and room: "aw_auctionId w < 0xFFFFFFFE"
    and run: "HandleAuctionSellItem env pl recvData w = Inr w'"
  shows "no_gain w w'"
proof (cases "\<exists>n. w' = ah_notify n w \<or> w' = w")
  case True
  then show ?thesis using inv no_gain_refl no_gain_notify by blast
next
  case False
  have "\<exists>start minutes buy npc n gs b guids c c'. \<not> 160 < (n :: u32) \<and> read_sell_bits (unat n) b = Inr (gs, c) \<and>
      read_sell_bytes [0..<unat n] gs [] c = Inr (SellItems guids, c') \<and> sell_item env pl npc start minutes buy guids w = Inr w'"
    using run False unfolding HandleAuctionSellItem_def by (auto split: if_splits sell_items.splits; blast)
  then obtain start minutes buy npc n gs b guids c c' where s: "\<not> 160 < (n :: u32)" "read_sell_bits (unat n) b = Inr (gs, c)"
    "read_sell_bytes [0..<unat n] gs [] c = Inr (SellItems guids, c')" "sell_item env pl npc start minutes buy guids w = Inr w'"
    by (elim exE conjE)
  have n: "unat n \<le> 160" using s(1) by (simp add: word_le_nat_alt not_less)
  have g: "distinct (map fst guids) \<and> (\<forall>x \<in> set guids. snd x \<le> 1000) \<and> length guids = unat n"
    using read_sell_bytes_distinct [OF s(3)] read_sell_bits_length [OF s(2)] n by simp
  show ?thesis by (rule sell_item_no_gain [OF inv d room _ _ _ s(4)]) (use g n in auto)
qed

section \<open>Sequences of steps\<close>

text \<open>
  What the server does with the houses between two restarts: a player's packet is handled, or the
  houses are updated.  Every step has an environment of its own (who is online, what time it is, what
  the packet handler finds); the rules below are what the steps share.  A sale needs a free auction id:
  the server stops when they run out.
\<close>

inductive auction_step :: "auction_world \<Rightarrow> auction_world \<Rightarrow> bool" where
  sell_step: "small_deposits env \<Longrightarrow> aw_auctionId w < 0xFFFFFFFE \<Longrightarrow> HandleAuctionSellItem env pl pkt w = Inr w' \<Longrightarrow> auction_step w w'"
| bid_step: "fair_cut env \<Longrightarrow> pl \<noteq> 0 \<Longrightarrow> HandleAuctionPlaceBid env pl pkt w = Inr w' \<Longrightarrow> auction_step w w'"
| cancel_step: "HandleAuctionRemoveItem env pl pkt w = Inr w' \<Longrightarrow> auction_step w w'"
| update_step: "fair_cut env \<Longrightarrow> auction_step w (AuctionHouseMgr_Update env w)"

inductive auction_reach :: "auction_world \<Rightarrow> auction_world \<Rightarrow> bool" where
  reach_start: "auction_reach w w"
| reach_next: "auction_reach w v \<Longrightarrow> auction_step v u \<Longrightarrow> auction_reach w u"

lemma HandleAuctionPlaceBid_place:
  "HandleAuctionPlaceBid env pl pkt w = Inr w' \<Longrightarrow> \<exists>npc i price. w' = place_bid env pl npc i price w"
  unfolding HandleAuctionPlaceBid_def by (auto; blast)

lemma HandleAuctionRemoveItem_cancel:
  "HandleAuctionRemoveItem env pl pkt w = Inr w' \<Longrightarrow> \<exists>npc i. w' = cancel_auction env pl npc i w"
  unfolding HandleAuctionRemoveItem_def by (auto; blast)

lemma auction_step_no_gain: "auction_step w w' \<Longrightarrow> auction_inv w \<Longrightarrow> no_gain w w'"
proof (induction rule: auction_step.induct)
  case (sell_step env w pl pkt w')
  from HandleAuctionSellItem_no_gain [OF sell_step.prems sell_step.hyps] show ?case .
next
  case (bid_step env pl pkt w w')
  obtain npc i price where "w' = place_bid env pl npc i price w" using HandleAuctionPlaceBid_place [OF bid_step.hyps(3)] by (elim exE)
  then show ?case using place_bid_no_gain [OF bid_step.prems bid_step.hyps(1,2)] by simp
next
  case (cancel_step env pl pkt w w')
  obtain npc i where "w' = cancel_auction env pl npc i w" using HandleAuctionRemoveItem_cancel [OF cancel_step.hyps] by (elim exE)
  then show ?case using cancel_auction_no_gain [OF cancel_step.prems] by simp
next
  case (update_step env w)
  then show ?case by (intro AuctionHouseMgr_Update_no_gain)
qed

lemma auction_reach_no_gain: "auction_reach w v \<Longrightarrow> auction_inv w \<Longrightarrow> no_gain w v"
proof (induction rule: auction_reach.induct)
  case (reach_next w v u)
  then have "no_gain w v" by simp
  moreover have "no_gain v u" using reach_next.hyps(2) calculation by (intro auction_step_no_gain) (simp_all add: no_gain_def)
  ultimately show ?case by (rule no_gain_trans)
qed (rule no_gain_refl)

end
