(* ===== verification/AuctionProps.thy ===== *)
theory AuctionProps
  imports AuctionSteps Codec
begin

text \<open>
  The properties of the auction house: over any sequence of steps neither money nor items come into
  being; what a bid and the end of an auction move; which auctions an update ends; and the places
  where the code loses items or money.
\<close>

unbundle bit_operations_syntax

section \<open>A small auction house\<close>

text \<open>
  Player 7 sells a stack of five; player 8 has bid 200.  The player 9 is the only one online.
\<close>

definition sample_ah_env :: auction_env where
  "sample_ah_env = \<lparr>ae_FindPlayer = (\<lambda>p. p = 9), ae_AccountId = (\<lambda>p. p), ae_GM_LOG_TRADE = False, ae_ALLOW_TWO_SIDE = False,
     ae_MAIL_DELIVERY_DELAY = 3600, ae_ourMask = (\<lambda>_. Some 2), ae_houses = (\<lambda>i. Some \<lparr>houseId = i, depositPercent = 5, cutPercent = 5\<rparr>),
     ae_CalculatePct = (\<lambda>x _. x div 20), ae_cut_rate = (\<lambda>x. x),
     ae_GetNPC = (\<lambda>_ g. if g = 1 then Some \<lparr>npc_faction = 12, npc_spawn = 5\<rparr> else None), ae_creature_faction = (\<lambda>_. Some 12),
     ae_SellPrice = (\<lambda>_. 10), ae_deposit_value = (\<lambda>_ _ _ n. n AND 1023), ae_auction_time = (\<lambda>t. t), ae_sellable = (\<lambda>_. True),
     ae_HasItemCount = (\<lambda>_ _ _. True), ae_MaxStackCount = (\<lambda>_. 20), ae_new_item_guid = (\<lambda>_. Some 99), ae_CreatureData = (\<lambda>_. True),
     ae_time = 5000\<rparr>"

definition sample_item :: ah_item where
  "sample_item = \<lparr>it_guid = 40, it_entry = 2589, it_count = 5\<rparr>"

definition sample_auction :: auction_entry where
  "sample_auction = \<lparr>au_Id = 3, auctioneer = 5, itemGUIDLow = 40, itemEntry = 2589, itemCount = 5, au_owner = 7, startbid = 100, bid = 200,
     buyout = 0, expire_time = 4000, bidder = 8, deposit = 100, auctionHouseEntry = \<lparr>houseId = 1, depositPercent = 5, cutPercent = 5\<rparr>\<rparr>"

definition sample_row :: auction_row where
  "sample_row = \<lparr>row_auctioneer = 5, row_item = 40, row_owner = 7, row_buyout = 0, row_time = 4000, row_bidder = 8, row_lastbid = 200,
     row_startbid = 100, row_deposit = 100\<rparr>"

definition sample_house :: auction_world where
  "sample_house = \<lparr>aw_auctions = (\<lambda>h. if h = AllianceAuctions then [(3, sample_auction)] else []), mAitems = [(40, sample_item)],
     aw_bags = (\<lambda>_. []), aw_money = (\<lambda>_. 5000000000), aw_mails = [], aw_rows = [(3, sample_row)], aw_item_owner = (\<lambda>_. 0), aw_notices = [],
     aw_auctionId = 4\<rparr>"

lemmas auction_samples = sample_ah_env_def sample_item_def sample_auction_def sample_row_def sample_house_def

lemma sample_house_inv: "auction_inv sample_house"
  by (auto simp: auction_inv_def auction_samples entry_ok_def map_ok_def map_find_def MAX_MONEY_AMOUNT_def split: if_splits)

lemma sample_fair_cut: "fair_cut sample_ah_env"
  by (auto simp: fair_cut_def GetAuctionCut_def auction_samples max_def word_le_nat_alt unat_div)

section \<open>Money and items\<close>





lemmas auction_run = place_bid_def GetAuction_def GetAuctionsMap_def GetAuctionOutBid_def HasEnoughMoney_def raise_bid_def
  update_bid_row_def put_auction_def AuctionHouseMgr_Update_def house_Update_def due_auctions_def close_auction_def RemoveAuction_def
  RemoveAItem_def auction_DeleteFromDB_def SendAuctionWonMail_def SendAuctionSuccessfulMail_def SendAuctionExpiredMail_def
  SendAuctionOutbiddedMail_def SendMailTo_def ah_notify_def ModifyMoney_def modified_money_def mail_reachable_def GetAItem_def GetAuctionCut_def
  map_find_def map_erase_def Let_def





section \<open>The end of an auction\<close>




text \<open>
  C36: the winner of an auction who is offline when it ends loses the item: unless the trades of game
  masters are logged, his account is never looked up, no mail carries the item, and it is removed from
  the house all the same.  The seller is paid.
\<close>

theorem offline_winner_loses_item:
  assumes "auction_inv w" "fair_cut env" "GetAuction h i w = Some a" "GetAItem (itemGUIDLow a) w = Some it"
    and "bidder a \<noteq> 0" "\<not> ae_FindPlayer env (bidder a)" "\<not> ae_GM_LOG_TRADE env" "mail_reachable env (au_owner a)"
  shows "map (\<lambda>m. (ml_receiver m, ml_money m, ml_item m)) (aw_mails (close_auction env h a w)) =
      map (\<lambda>m. (ml_receiver m, ml_money m, ml_item m)) (aw_mails w) @ [(au_owner a, bid a + deposit a - GetAuctionCut env a, None)] \<and>
    GetAItem (itemGUIDLow a) (close_auction env h a w) = None \<and>
    item_units (it_entry it) (close_auction env h a w) + unat (it_count it) = item_units (it_entry it) w"
proof -
  have it: "map_find (itemGUIDLow a) (mAitems w) = Some it" using assms(4) by (simp add: GetAItem_def)
  have "item_units (it_entry it) (close_auction env h a w) + unat (it_count it) = item_units (it_entry it) w"
    using close_auction_accounts(3) [OF assms(1,3,2) it, of "it_entry it"] assms(5-7) by (simp add: winner_served_def units_def)
  moreover have "GetAItem (itemGUIDLow a) (close_auction env h a w) = None"
    using assms(5) by (simp add: close_auction_def Let_def GetAItem_def map_find_erase)
  moreover have "map (\<lambda>m. (ml_receiver m, ml_money m, ml_item m)) (aw_mails (close_auction env h a w)) =
      map (\<lambda>m. (ml_receiver m, ml_money m, ml_item m)) (aw_mails w) @ [(au_owner a, bid a + deposit a - GetAuctionCut env a, None)]"
    using assms(5-8) by (auto simp: close_auction_def SendAuctionWonMail_def SendAuctionSuccessfulMail_def Let_def split: option.splits)
  ultimately show ?thesis by blast
qed

theorem offline_winner_loses_item_witness:
  "GetAItem 40 (close_auction sample_ah_env AllianceAuctions sample_auction sample_house) = None \<and>
   item_units 2589 (close_auction sample_ah_env AllianceAuctions sample_auction sample_house) + 5 = item_units 2589 sample_house"
proof -
  have a: "GetAuction AllianceAuctions 3 sample_house = Some sample_auction" "GetAItem (itemGUIDLow sample_auction) sample_house = Some sample_item"
    "bidder sample_auction \<noteq> 0" "\<not> ae_FindPlayer sample_ah_env (bidder sample_auction)" "\<not> ae_GM_LOG_TRADE sample_ah_env"
    "mail_reachable sample_ah_env (au_owner sample_auction)"
    by (simp_all add: auction_run auction_samples)
  have v: "itemGUIDLow sample_auction = 40" "it_entry sample_item = 2589" "it_count sample_item = 5" by (simp_all add: auction_samples)
  show ?thesis using offline_winner_loses_item [OF sample_house_inv sample_fair_cut a] by (simp add: v)
qed

text \<open>Closing an auction takes away this auction only.\<close>

lemma close_auction_others:
  "GetAuction h j (close_auction env h a w) = (if j = au_Id a then None else GetAuction h j w)"
  by (simp add: close_auction_def Let_def GetAuction_def map_find_erase)

lemma close_due:
  assumes "\<And>i a. GetAuction h i w = Some a \<Longrightarrow> au_Id a = i"
  shows "GetAuction h j (fold (\<lambda>i w. case GetAuction h i w of None \<Rightarrow> w | Some a \<Rightarrow> close_auction env h a w) ixs w) =
     (if j \<in> set ixs then None else GetAuction h j w)"
  using assms
proof (induction ixs arbitrary: w)
  case (Cons i ixs)
  let ?v = "case GetAuction h i w of None \<Rightarrow> w | Some a \<Rightarrow> close_auction env h a w"
  have v: "GetAuction h k ?v = (if k = i then None else GetAuction h k w)" for k
    using Cons.prems [of i] by (auto simp: close_auction_others split: option.splits)
  have "au_Id a = k" if "GetAuction h k ?v = Some a" for k a
    using that Cons.prems unfolding v by (auto split: if_splits)
  then have "GetAuction h j (fold (\<lambda>i w. case GetAuction h i w of None \<Rightarrow> w | Some a \<Rightarrow> close_auction env h a w) ixs ?v) =
     (if j \<in> set ixs then None else GetAuction h j ?v)" by (rule Cons.IH)
  then show ?case unfolding v by simp
qed simp

text \<open>
  C28: an update of a house ends exactly the auctions whose row is due within a minute: afterwards none
  of them is listed and every other auction is as before.
\<close>

theorem update_closes_due:
  assumes "auction_inv w" "map_ok (aw_rows w)"
  shows "GetAuction h i (house_Update env h w) =
    (case map_find i (aw_rows w) of
       None \<Rightarrow> GetAuction h i w
     | Some r \<Rightarrow> if row_time r \<le> ucast (ucast (ae_time env) + 60 :: u32) then None else GetAuction h i w)"
proof -
  let ?t = "ucast (ucast (ae_time env) + 60 :: u32) :: u64"
  have ids: "GetAuction h i w = Some a \<Longrightarrow> au_Id a = i" for i a
    using auction_invD(5) [OF assms(1)] by (auto simp: GetAuction_def entry_ok_def)
  have "i \<in> set (due_auctions ?t (aw_rows w)) \<longleftrightarrow> (\<exists>r. (i, r) \<in> set (aw_rows w) \<and> row_time r \<le> ?t)"
    by (force simp: due_auctions_def)
  also have "\<dots> \<longleftrightarrow> (case map_find i (aw_rows w) of None \<Rightarrow> False | Some r \<Rightarrow> row_time r \<le> ?t)"
    unfolding map_of_eq_Some_iff [OF map_ok_distinct [OF assms(2)], symmetric] map_find_def [symmetric] by (simp split: option.splits)
  finally have due: "i \<in> set (due_auctions ?t (aw_rows w)) \<longleftrightarrow>
    (case map_find i (aw_rows w) of None \<Rightarrow> False | Some r \<Rightarrow> row_time r \<le> ?t)" .
  show ?thesis
  proof (cases "aw_auctions w h = []")
    case True
    then show ?thesis by (simp add: house_Update_def GetAuction_def map_find_def split: option.splits)
  next
    case False
    then show ?thesis using close_due [OF ids] due by (simp add: house_Update_def split: option.splits)
  qed
qed

theorem update_closes_due_witness:
  "GetAuction AllianceAuctions 3 (house_Update sample_ah_env AllianceAuctions sample_house) = None"
proof -
  have "map_ok (aw_rows sample_house)" by (simp add: auction_samples map_ok_def)
  from update_closes_due [OF sample_house_inv this, of AllianceAuctions 3 sample_ah_env] show ?thesis
    by (simp add: auction_samples map_find_def)
qed

section \<open>What does not survive a restart\<close>

text \<open>
  The row of an auction keeps only the low 32 bits of a bid: of a bid of \<open>2 ^ 32\<close> copper or more, which
  the limit of 9999999999 allows, only the remainder is there after a restart, so the seller or the
  outbid player is paid that much less than the bidder has paid.
\<close>

lemma big_bid_truncated:
  assumes "au_Id a = i" "map_ok (aw_rows w)" "map_find i (aw_rows w) = Some r"
  shows "\<exists>r'. map_find i (aw_rows (raise_bid env pl h price a w)) = Some r' \<and> row_bidder r' = pl \<and>
    (\<forall>env' items b. auction_LoadFromFieldList env' items (i, r') = Some b \<longrightarrow>
       bidder b = pl \<and> unat (bid b) = unat price mod 2 ^ 32)"
proof -
  define v where "v = (if bidder a > 0 then if bidder a = pl then ModifyMoney pl (- (price - bid a)) w
      else ModifyMoney pl (- price) (SendAuctionOutbiddedMail env a (ucast price) pl w) else ModifyMoney pl (- price) w)"
  let ?r = "r\<lparr>row_bidder := pl, row_lastbid := ucast (ucast price :: u32)\<rparr>"
  have "aw_rows v = aw_rows w"
    by (simp add: v_def ModifyMoney_def SendAuctionOutbiddedMail_def SendMailTo_def ah_notify_def Let_def)
  then have "aw_rows (raise_bid env pl h price a w) = map_set i ?r (aw_rows w)"
    using assms by (simp add: raise_bid_def Let_def v_def [symmetric] update_bid_row_def put_auction_def)
  then have find: "map_find i (aw_rows (raise_bid env pl h price a w)) = Some ?r"
    using map_find_set [OF assms(2)] by simp
  have "unat (ucast (ucast price :: u32) :: u64) = unat price mod 2 ^ 32"
    by (simp add: unsigned_ucast_eq take_bit_eq_mod unat_mod_distrib)
  then have load: "bidder b = pl \<and> unat (bid b) = unat price mod 2 ^ 32"
    if "auction_LoadFromFieldList env' items (i, ?r) = Some b" for env' items b
    using that by (auto simp: auction_LoadFromFieldList_def Let_def split: option.splits)
  show ?thesis by (rule exI [of _ ?r]) (use find load in simp)
qed





end
