(* ===== verification/Guild.thy ===== *)
theory Guild
  imports StdMap ByteBuffer GuidParts Money
begin

text \<open>
  Guilds: ranks, members, rights, the money of the bank and the event logs
  (\<^verbatim>\<open>src/server/game/Guilds/Guild.cpp\<close>, \<^verbatim>\<open>Guild.h\<close>) with the packet handlers of
  \<^verbatim>\<open>src/server/game/Handlers/GuildHandler.cpp\<close>.

  The state \<open>guild_world\<close> is one guild with the rows it has in the character database, and what the code
  keeps in the players: the guild they are in, their rank in it, the guild they are invited to, when their session
  last sent an invitation, their money.  The packets that show the guild to clients (roster, ranks, bank contents), the items of the
  bank, achievements, perks, the guild reputation, petitions and scripts are left out; the answers to
  commands are kept.  (Listing the bank to a client also fills up a member's daily values of the tabs, which
  \<open>GetBankRemainingValue\<close> does here when it is called.)
\<close>

unbundle bit_operations_syntax

section \<open>Data\<close>

definition GUILD_BANK_MAX_TABS :: nat where "GUILD_BANK_MAX_TABS = 8"
definition GUILD_RANKS_MIN_COUNT :: nat where "GUILD_RANKS_MIN_COUNT = 5"
definition GUILD_RANKS_MAX_COUNT :: nat where "GUILD_RANKS_MAX_COUNT = 10"
definition GUILD_RANK_NONE :: u8 where "GUILD_RANK_NONE = 0xFF"
definition GUILD_WITHDRAW_UNLIMITED :: u32 where "GUILD_WITHDRAW_UNLIMITED = 0xFFFFFFFF"
definition GUILD_EVENT_LOG_GUID_UNDEFINED :: u32 where "GUILD_EVENT_LOG_GUID_UNDEFINED = 0xFFFFFFFF"

definition GR_GUILDMASTER :: u32 where "GR_GUILDMASTER = 0"
definition GR_OFFICER :: u32 where "GR_OFFICER = 1"

definition GR_RIGHT_EMPTY :: u32 where "GR_RIGHT_EMPTY = 0x40"
definition GR_RIGHT_ALL :: u32 where "GR_RIGHT_ALL = 0x00DDFFBF"

datatype guild_right =
    GR_RIGHT_GCHATLISTEN | GR_RIGHT_GCHATSPEAK | GR_RIGHT_INVITE | GR_RIGHT_REMOVE | GR_RIGHT_PROMOTE | GR_RIGHT_DEMOTE
  | GR_RIGHT_SETMOTD | GR_RIGHT_EPNOTE | GR_RIGHT_EOFFNOTE | GR_RIGHT_MODIFY_GUILD_INFO | GR_RIGHT_WITHDRAW_REPAIR | GR_RIGHT_WITHDRAW_GOLD

fun right_value :: "guild_right \<Rightarrow> u32" where
  "right_value GR_RIGHT_GCHATLISTEN = GR_RIGHT_EMPTY OR 0x1"
| "right_value GR_RIGHT_GCHATSPEAK = GR_RIGHT_EMPTY OR 0x2"
| "right_value GR_RIGHT_INVITE = GR_RIGHT_EMPTY OR 0x10"
| "right_value GR_RIGHT_REMOVE = GR_RIGHT_EMPTY OR 0x20"
| "right_value GR_RIGHT_PROMOTE = GR_RIGHT_EMPTY OR 0x80"
| "right_value GR_RIGHT_DEMOTE = GR_RIGHT_EMPTY OR 0x100"
| "right_value GR_RIGHT_SETMOTD = GR_RIGHT_EMPTY OR 0x1000"
| "right_value GR_RIGHT_EPNOTE = GR_RIGHT_EMPTY OR 0x2000"
| "right_value GR_RIGHT_EOFFNOTE = GR_RIGHT_EMPTY OR 0x8000"
| "right_value GR_RIGHT_MODIFY_GUILD_INFO = GR_RIGHT_EMPTY OR 0x10000"
| "right_value GR_RIGHT_WITHDRAW_REPAIR = 0x40000"
| "right_value GR_RIGHT_WITHDRAW_GOLD = 0x80000"

datatype guild_command = GUILD_CREATE_S | GUILD_INVITE_S | GUILD_QUIT_S | GUILD_BANK

datatype guild_error =
    ERR_PLAYER_NO_MORE_IN_GUILD | ERR_GUILD_INTERNAL | ERR_ALREADY_IN_GUILD_S | ERR_ALREADY_INVITED_TO_GUILD_S | ERR_GUILD_NAME_INVALID
  | ERR_GUILD_LEADER_LEAVE | ERR_GUILD_PERMISSIONS | ERR_GUILD_PLAYER_NOT_IN_GUILD | ERR_GUILD_PLAYER_NOT_IN_GUILD_S
  | ERR_GUILD_PLAYER_NOT_FOUND_S | ERR_GUILD_NOT_ALLIED | ERR_GUILD_RANK_TOO_HIGH_S | ERR_GUILD_TOO_MUCH_MONEY
  | ERR_GUILD_UNDELETABLE_DUE_TO_LEVEL

record remaining_value =
  rv_value :: u32
  rv_resetTime :: u32

record member_stats =
  st_name :: "u8 list"
  st_level :: u8
  st_class :: u8
  st_zoneId :: u32
  st_accountId :: u32

record guild_member =
  gm_guid :: u64
  gm_stats :: member_stats
  gm_logoutTime :: u64
  gm_rankId :: u32
  gm_publicNote :: "u8 list"
  gm_officerNote :: "u8 list"
  gm_bankRemaining :: "remaining_value list"

record bank_rights =
  br_rights :: u32
  br_slots :: u32

record rank_info =
  ri_rankId :: u32
  ri_name :: "u8 list"
  ri_rights :: u32
  ri_bankMoneyPerDay :: u32
  ri_tabs :: "bank_rights list"

record bank_tab =
  bt_name :: "u8 list"
  bt_icon :: "u8 list"
  bt_text :: "u8 list"

record emblem_info =
  em_style :: u32
  em_color :: u32
  em_borderStyle :: u32
  em_borderColor :: u32
  em_backgroundColor :: u32

section \<open>Logs\<close>

text \<open>A log keeps its newest entries, numbered in a ring; its rows have the numbers as keys.\<close>

record 'a log_holder =
  lh_log :: "(u32 \<times> 'a) list"
  lh_maxRecords :: u32
  lh_nextGUID :: u32

type_synonym 'a log_rows = "(u32, 'a) std_map"

definition new_LogHolder :: "u32 \<Rightarrow> 'a log_holder" where
  "new_LogHolder n = \<lparr>lh_log = [], lh_maxRecords = n, lh_nextGUID = GUILD_EVENT_LOG_GUID_UNDEFINED\<rparr>"

definition GetNextGUID :: "'a log_holder \<Rightarrow> u32 \<times> 'a log_holder" where
  "GetNextGUID h =
     (let n = (if lh_nextGUID h = GUILD_EVENT_LOG_GUID_UNDEFINED then 0 else (lh_nextGUID h + 1) mod lh_maxRecords h)
      in (n, h\<lparr>lh_nextGUID := n\<rparr>))"

text \<open>\<open>AddEvent\<close> and the row that the entry writes: the old row of that number is deleted first.\<close>

definition log_AddEvent :: "u32 \<times> 'a \<Rightarrow> 'a log_holder \<Rightarrow> 'a log_rows \<Rightarrow> 'a log_holder \<times> 'a log_rows" where
  "log_AddEvent e h rows =
     (let old = (if length (lh_log h) \<ge> unat (lh_maxRecords h) then tl (lh_log h) else lh_log h)
      in (h\<lparr>lh_log := old @ [e]\<rparr>, map_set (fst e) (snd e) (map_erase (fst e) rows)))"

definition log_LoadEvent :: "u32 \<times> 'a \<Rightarrow> 'a log_holder \<Rightarrow> 'a log_holder" where
  "log_LoadEvent e h =
     (if length (lh_log h) < unat (lh_maxRecords h)
      then h\<lparr>lh_nextGUID := (if lh_nextGUID h = GUILD_EVENT_LOG_GUID_UNDEFINED then fst e else lh_nextGUID h), lh_log := e # lh_log h\<rparr>
      else h)"

definition log_event :: "'a \<Rightarrow> 'a log_holder \<Rightarrow> 'a log_rows \<Rightarrow> 'a log_holder \<times> 'a log_rows" where
  "log_event x h rows = (let (n, h) = GetNextGUID h in log_AddEvent (n, x) h rows)"

datatype guild_event_type =
    GUILD_EVENT_LOG_INVITE_PLAYER | GUILD_EVENT_LOG_JOIN_GUILD | GUILD_EVENT_LOG_PROMOTE_PLAYER | GUILD_EVENT_LOG_DEMOTE_PLAYER
  | GUILD_EVENT_LOG_UNINVITE_PLAYER | GUILD_EVENT_LOG_LEAVE_GUILD

record guild_event =
  ge_type :: guild_event_type
  ge_playerGuid1 :: u32
  ge_playerGuid2 :: u32
  ge_newRank :: u8
  ge_timestamp :: u64

datatype bank_event_type = GUILD_BANK_LOG_DEPOSIT_MONEY | GUILD_BANK_LOG_WITHDRAW_MONEY | GUILD_BANK_LOG_REPAIR_MONEY

record bank_event =
  be_type :: bank_event_type
  be_playerGuid :: u32
  be_money :: u32
  be_timestamp :: u64

section \<open>The guild, its rows and the players\<close>

record guild =
  gd_id :: u32
  gd_name :: "u8 list"
  gd_leaderGuid :: u64
  gd_motd :: "u8 list"
  gd_info :: "u8 list"
  gd_emblem :: emblem_info
  gd_accountsNumber :: u32
  gd_bankMoney :: u64
  gd_ranks :: "rank_info list"
  gd_members :: "(u32, guild_member) std_map"
  gd_bankTabs :: "bank_tab list"
  gd_level :: u32
  gd_eventLog :: "guild_event log_holder"
  gd_moneyLog :: "bank_event log_holder"

text \<open>Rows: \<open>guild\<close>, \<open>guild_rank\<close>, \<open>guild_member\<close>, \<open>guild_bank_right\<close>, \<open>guild_bank_tab\<close> and the two logs.\<close>

record guild_row =
  gr_leaderguid :: u32
  gr_motd :: "u8 list"
  gr_info :: "u8 list"
  gr_emblem :: emblem_info
  gr_BankMoney :: u64

record rank_row =
  rr_rname :: "u8 list"
  rr_rights :: u32
  rr_BankMoneyPerDay :: u32

record guild_member_row =
  mr_rank :: u8
  mr_pnote :: "u8 list"
  mr_offnote :: "u8 list"
  mr_remaining :: "remaining_value list"

record guild_db =
  db_guild :: "guild_row option"
  db_ranks :: "(u8, rank_row) std_map"
  db_members :: "(u32, guild_member_row) std_map"
  db_rights :: "u8 \<times> u8 \<Rightarrow> (u8 \<times> u32) option"
  db_tabs :: "(u8, bank_tab) std_map"
  db_eventlog :: "guild_event log_rows"
  db_moneylog :: "bank_event log_rows"

datatype emblem_error = ERR_GUILDEMBLEM_SUCCESS | ERR_GUILDEMBLEM_NOGUILD | ERR_GUILDEMBLEM_NOTGUILDMASTER | ERR_GUILDEMBLEM_NOTENOUGHMONEY

datatype guild_answer = CommandAnswer u64 guild_command guild_error | EmblemAnswer u64 emblem_error

record guild_world =
  gw_guild :: guild
  gw_disbanded :: bool
  gw_db :: guild_db
  gw_guildId :: "u64 \<Rightarrow> u32"
  gw_rank :: "u64 \<Rightarrow> u32"
  gw_invited :: "u64 \<Rightarrow> u32"
  gw_lastInvite :: "u64 \<Rightarrow> u64"
  gw_money :: "u64 \<Rightarrow> u64"
  gw_answers :: "guild_answer list"

text \<open>
  What the code asks of the rest of the server.  \<open>ge_order\<close> is the order in which the hash map of the
  members is traversed; \<open>ge_max\<close> is the address of \<open>numeric_limits::max\<close> which the source compares with.
\<close>

record guild_env =
  ge_FindPlayer :: "u64 \<Rightarrow> bool"
  ge_FindPlayerByName :: "u8 list \<Rightarrow> u64 option"
  ge_player_stats :: "u64 \<Rightarrow> member_stats"
  ge_char_stats :: "u32 \<Rightarrow> member_stats option"
  ge_other_guild :: "u64 \<Rightarrow> u32"
  ge_other_rank :: "u64 \<Rightarrow> u8"
  ge_team :: "u64 \<Rightarrow> nat"
  ge_TWO_SIDE_GUILD :: bool
  ge_UNDELETABLE_LEVEL :: u32
  ge_EVENT_LOG_COUNT :: u32
  ge_BANK_EVENT_LOG_COUNT :: u32
  ge_no_invitation :: "u64 \<Rightarrow> u64 \<Rightarrow> bool"
  ge_bank_near :: "u64 \<Rightarrow> u64 \<Rightarrow> bool"
  ge_order :: "(u32, guild_member) std_map \<Rightarrow> (u32 \<times> guild_member) list"
  ge_default_name :: "nat \<Rightarrow> u8 list"
  ge_normalizePlayerName :: "u8 list \<Rightarrow> u8 list option"
  ge_utf8truncate :: "u8 list \<Rightarrow> u8 list"
  ge_max :: u64
  ge_now :: u64

section \<open>Ranks\<close>

definition upd_guild :: "(guild \<Rightarrow> guild) \<Rightarrow> guild_world \<Rightarrow> guild_world" where
  "upd_guild f w = w\<lparr>gw_guild := f (gw_guild w)\<rparr>"

definition upd_db :: "(guild_db \<Rightarrow> guild_db) \<Rightarrow> guild_world \<Rightarrow> guild_world" where
  "upd_db f w = w\<lparr>gw_db := f (gw_db w)\<rparr>"

text \<open>\<open>UPDATE ... WHERE key = ?\<close>\<close>

definition upd_row :: "'k::linorder \<Rightarrow> ('v \<Rightarrow> 'v) \<Rightarrow> ('k, 'v) std_map \<Rightarrow> ('k, 'v) std_map" where
  "upd_row k f m = (case map_find k m of None \<Rightarrow> m | Some r \<Rightarrow> map_set k (f r) m)"

definition SendCommandResult :: "u64 \<Rightarrow> guild_command \<Rightarrow> guild_error \<Rightarrow> guild_world \<Rightarrow> guild_world" where
  "SendCommandResult pl c e w = w\<lparr>gw_answers := gw_answers w @ [CommandAnswer pl c e]\<rparr>"

definition GetRankInfo :: "u32 \<Rightarrow> guild \<Rightarrow> rank_info option" where
  "GetRankInfo rankId g = (if unat rankId < length (gd_ranks g) then Some (gd_ranks g ! unat rankId) else None)"

definition GetRankRights :: "u32 \<Rightarrow> guild \<Rightarrow> u32" where
  "GetRankRights rankId g = (case GetRankInfo rankId g of None \<Rightarrow> 0 | Some r \<Rightarrow> ri_rights r)"

definition HasRankRight :: "u64 \<Rightarrow> guild_right \<Rightarrow> guild_world \<Rightarrow> bool" where
  "HasRankRight pl right w \<longleftrightarrow> (GetRankRights (gw_rank w pl) (gw_guild w) AND right_value right) \<noteq> GR_RIGHT_EMPTY"

definition GetLowestRankId :: "guild \<Rightarrow> u32" where
  "GetLowestRankId g = of_nat (length (gd_ranks g)) - 1"

definition GetBankMoneyPerDay :: "rank_info \<Rightarrow> u32" where
  "GetBankMoneyPerDay r = (if ri_rankId r = GR_GUILDMASTER then GUILD_WITHDRAW_UNLIMITED else ri_bankMoneyPerDay r)"

definition GetRankBankMoneyPerDay :: "u32 \<Rightarrow> guild \<Rightarrow> u32" where
  "GetRankBankMoneyPerDay rankId g = (case GetRankInfo rankId g of None \<Rightarrow> 0 | Some r \<Rightarrow> GetBankMoneyPerDay r)"

definition GetRankBankTabRights :: "u32 \<Rightarrow> nat \<Rightarrow> guild \<Rightarrow> u32" where
  "GetRankBankTabRights rankId tab g =
     (case GetRankInfo rankId g of None \<Rightarrow> 0
      | Some r \<Rightarrow> if tab < GUILD_BANK_MAX_TABS then br_rights (ri_tabs r ! tab) else 0)"

definition GetRankBankTabSlotsPerDay :: "u32 \<Rightarrow> nat \<Rightarrow> guild \<Rightarrow> u32" where
  "GetRankBankTabSlotsPerDay rankId tab g =
     (if tab < length (gd_bankTabs g)
      then case GetRankInfo rankId g of None \<Rightarrow> 0
        | Some r \<Rightarrow> if tab < GUILD_BANK_MAX_TABS
            then if ri_rankId r = GR_GUILDMASTER then GUILD_WITHDRAW_UNLIMITED else br_slots (ri_tabs r ! tab)
            else 0
      else 0)"

text \<open>The setters of \<open>RankInfo\<close>, for the rank at index \<open>i\<close>; they change memory and the row of its id.\<close>

definition upd_rank :: "nat \<Rightarrow> (rank_info \<Rightarrow> rank_info) \<Rightarrow> guild_world \<Rightarrow> guild_world" where
  "upd_rank i f = upd_guild (\<lambda>g. g\<lparr>gd_ranks := (gd_ranks g)[i := f (gd_ranks g ! i)]\<rparr>)"

definition upd_rank_row :: "u32 \<Rightarrow> (rank_row \<Rightarrow> rank_row) \<Rightarrow> guild_world \<Rightarrow> guild_world" where
  "upd_rank_row rid f = upd_db (\<lambda>d. d\<lparr>db_ranks := upd_row (ucast rid) f (db_ranks d)\<rparr>)"

definition rank_SetName :: "nat \<Rightarrow> u8 list \<Rightarrow> guild_world \<Rightarrow> guild_world" where
  "rank_SetName i name w =
     (let r = gd_ranks (gw_guild w) ! i in
      if ri_name r = name then w
      else upd_rank_row (ri_rankId r) (rr_rname_update (\<lambda>_. name)) (upd_rank i (ri_name_update (\<lambda>_. name)) w))"

definition rank_SetRights :: "nat \<Rightarrow> u32 \<Rightarrow> guild_world \<Rightarrow> guild_world" where
  "rank_SetRights i rights w =
     (let r = gd_ranks (gw_guild w) ! i;
          rights = (if ri_rankId r = GR_GUILDMASTER then GR_RIGHT_ALL else rights) in
      if ri_rights r = rights then w
      else upd_rank_row (ri_rankId r) (rr_rights_update (\<lambda>_. rights)) (upd_rank i (ri_rights_update (\<lambda>_. rights)) w))"

text \<open>\<open>UPDATE guild_member SET BankResetTime... = 0 WHERE rank = ?\<close>; column 8 is the one for money.\<close>

definition reset_times :: "u32 \<Rightarrow> nat \<Rightarrow> guild_world \<Rightarrow> guild_world" where
  "reset_times rid tab = upd_db (\<lambda>d. d\<lparr>db_members := map (\<lambda>(k, r).
     (k, if mr_rank r = ucast rid then r\<lparr>mr_remaining := (mr_remaining r)[tab := (mr_remaining r ! tab)\<lparr>rv_resetTime := 0\<rparr>]\<rparr> else r)) (db_members d)\<rparr>)"

definition rank_SetBankMoneyPerDay :: "nat \<Rightarrow> u32 \<Rightarrow> guild_world \<Rightarrow> guild_world" where
  "rank_SetBankMoneyPerDay i money w =
     (let r = gd_ranks (gw_guild w) ! i;
          money = (if ri_rankId r = GR_GUILDMASTER then GUILD_WITHDRAW_UNLIMITED else money) in
      if ri_bankMoneyPerDay r = money then w
      else reset_times (ri_rankId r) GUILD_BANK_MAX_TABS
        (upd_rank_row (ri_rankId r) (rr_BankMoneyPerDay_update (\<lambda>_. money)) (upd_rank i (ri_bankMoneyPerDay_update (\<lambda>_. money)) w)))"

definition SetGuildMasterValues :: bank_rights where
  "SetGuildMasterValues = \<lparr>br_rights = 0xFF, br_slots = GUILD_WITHDRAW_UNLIMITED\<rparr>"

definition rank_SetBankTabSlotsAndRights :: "nat \<Rightarrow> nat \<Rightarrow> bank_rights \<Rightarrow> guild_world \<Rightarrow> guild_world" where
  "rank_SetBankTabSlotsAndRights i tab rs w =
     (let r = gd_ranks (gw_guild w) ! i;
          rs = (if ri_rankId r = GR_GUILDMASTER then SetGuildMasterValues else rs) in
      if ri_tabs r ! tab = rs then w
      else reset_times (ri_rankId r) tab
        (upd_db (\<lambda>d. d\<lparr>db_rights := (db_rights d)((of_nat tab, ucast (ri_rankId r)) \<mapsto> (ucast (br_rights rs), br_slots rs))\<rparr>)
          (upd_rank i (\<lambda>r. r\<lparr>ri_tabs := (ri_tabs r)[tab := rs]\<rparr>) w)))"

section \<open>Members\<close>

definition GetMember :: "u64 \<Rightarrow> guild \<Rightarrow> guild_member option" where
  "GetMember guid g = map_find (GUID_LOPART guid) (gd_members g)"

definition guild_IsMember :: "u64 \<Rightarrow> guild \<Rightarrow> bool" where
  "guild_IsMember guid g \<longleftrightarrow> GetMember guid g \<noteq> None"

text \<open>\<open>IsRank\<close> and \<open>IsRankNotLower\<close> take a byte.\<close>

definition IsRank :: "u32 \<Rightarrow> guild_member \<Rightarrow> bool" where
  "IsRank rankId m \<longleftrightarrow> gm_rankId m = ucast (ucast rankId :: u8)"

definition IsRankNotLower :: "u32 \<Rightarrow> guild_member \<Rightarrow> bool" where
  "IsRankNotLower rankId m \<longleftrightarrow> gm_rankId m \<le> ucast (ucast rankId :: u8)"

definition upd_member :: "u32 \<Rightarrow> (guild_member \<Rightarrow> guild_member) \<Rightarrow> guild_world \<Rightarrow> guild_world" where
  "upd_member low f = upd_guild (\<lambda>g. g\<lparr>gd_members := upd_row low f (gd_members g)\<rparr>)"

definition upd_member_row :: "u32 \<Rightarrow> (guild_member_row \<Rightarrow> guild_member_row) \<Rightarrow> guild_world \<Rightarrow> guild_world" where
  "upd_member_row low f = upd_db (\<lambda>d. d\<lparr>db_members := upd_row low f (db_members d)\<rparr>)"

definition upd_guild_row :: "(guild_row \<Rightarrow> guild_row) \<Rightarrow> guild_world \<Rightarrow> guild_world" where
  "upd_guild_row f = upd_db (\<lambda>d. d\<lparr>db_guild := map_option f (db_guild d)\<rparr>)"

text \<open>\<open>Member::ChangeRank\<close> of the member under \<open>low\<close>, whose guid is \<open>guid\<close>; the new rank is a byte.\<close>

definition ChangeRank :: "guild_env \<Rightarrow> u32 \<Rightarrow> u64 \<Rightarrow> u32 \<Rightarrow> guild_world \<Rightarrow> guild_world" where
  "ChangeRank env low guid newRank w =
     (let r = ucast newRank :: u8;
          w = upd_member low (gm_rankId_update (\<lambda>_. ucast r)) w;
          w = (if ge_FindPlayer env guid then w\<lparr>gw_rank := (gw_rank w)(guid := ucast r)\<rparr> else w)
      in upd_member_row (GUID_LOPART guid) (mr_rank_update (\<lambda>_. r)) w)"

definition SetLeaderGUID :: "guild_env \<Rightarrow> u32 \<Rightarrow> u64 \<Rightarrow> guild_world \<Rightarrow> guild_world" where
  "SetLeaderGUID env low guid w =
     upd_guild_row (gr_leaderguid_update (\<lambda>_. GUID_LOPART guid))
       (ChangeRank env low guid GR_GUILDMASTER (upd_guild (gd_leaderGuid_update (\<lambda>_. guid)) w))"

definition guild_IsLeader :: "u64 \<Rightarrow> guild \<Rightarrow> bool" where
  "guild_IsLeader pl g \<longleftrightarrow> pl = gd_leaderGuid g \<or> (case GetMember pl g of None \<Rightarrow> False | Some m \<Rightarrow> IsRank GR_GUILDMASTER m)"

definition UpdateAccountsNumber :: "guild_world \<Rightarrow> guild_world" where
  "UpdateAccountsNumber = upd_guild (\<lambda>g. g\<lparr>gd_accountsNumber :=
     of_nat (length (remdups (map (\<lambda>x. st_accountId (gm_stats (snd x))) (gd_members g))))\<rparr>)"

definition CheckStats :: "member_stats \<Rightarrow> bool" where
  "CheckStats s \<longleftrightarrow> \<not> st_level s < 1 \<and> \<not> (st_class s < 1 \<or> st_class s \<ge> 12)"

text \<open>\<open>Player::GetGuildIdFromDB\<close>: the rows of this guild, or what the table says of other guilds.\<close>

definition GetGuildIdFromDB :: "guild_env \<Rightarrow> u64 \<Rightarrow> guild_world \<Rightarrow> u32" where
  "GetGuildIdFromDB env guid w =
     (if map_find (GUID_LOPART guid) (db_members (gw_db w)) \<noteq> None then gd_id (gw_guild w) else ge_other_guild env guid)"

definition new_Member :: "guild_env \<Rightarrow> u64 \<Rightarrow> u32 \<Rightarrow> member_stats \<Rightarrow> guild_member" where
  "new_Member env guid rankId s =
     \<lparr>gm_guid = guid, gm_stats = s, gm_logoutTime = ge_now env, gm_rankId = rankId, gm_publicNote = [], gm_officerNote = [],
      gm_bankRemaining = replicate (GUILD_BANK_MAX_TABS + 1) \<lparr>rv_value = 0, rv_resetTime = 0\<rparr>\<rparr>"

text \<open>\<open>Member::SaveToDB\<close>: an \<open>INSERT\<close>; the columns it does not name have the default 0.\<close>

definition member_SaveToDB :: "guild_member \<Rightarrow> guild_world \<Rightarrow> guild_world" where
  "member_SaveToDB m = upd_db (\<lambda>d.
     if map_find (GUID_LOPART (gm_guid m)) (db_members d) \<noteq> None then d
     else d\<lparr>db_members := map_set (GUID_LOPART (gm_guid m))
       \<lparr>mr_rank = ucast (gm_rankId m), mr_pnote = gm_publicNote m, mr_offnote = gm_officerNote m,
        mr_remaining = replicate (GUILD_BANK_MAX_TABS + 1) \<lparr>rv_value = 0, rv_resetTime = 0\<rparr>\<rparr> (db_members d)\<rparr>)"

definition guild_AddMember :: "guild_env \<Rightarrow> u64 \<Rightarrow> u8 \<Rightarrow> guild_world \<Rightarrow> bool \<times> guild_world" where
  "guild_AddMember env guid rankId w =
     (let online = ge_FindPlayer env guid in
      if (if online then gw_guildId w guid \<noteq> 0 else GetGuildIdFromDB env guid w \<noteq> 0) then (False, w)
      else
        let r = (if rankId = GUILD_RANK_NONE then ucast (GetLowestRankId (gw_guild w)) else rankId) :: u8;
            stats = (if online then Some (ge_player_stats env guid)
                     else case ge_char_stats env (GUID_LOPART guid) of None \<Rightarrow> None | Some s \<Rightarrow> if CheckStats s then Some s else None)
        in case stats of
             None \<Rightarrow> (False, w)
           | Some s \<Rightarrow>
               let m = new_Member env guid (ucast r) s;
                   w = upd_guild (\<lambda>g. g\<lparr>gd_members := map_set (GUID_LOPART guid) m (gd_members g)\<rparr>) w;
                   w = member_SaveToDB m w;
                   w = (if online
                        then w\<lparr>gw_guildId := (gw_guildId w)(guid := gd_id (gw_guild w)), gw_rank := (gw_rank w)(guid := ucast r),
                               gw_invited := (gw_invited w)(guid := 0)\<rparr>
                        else w)
               in (True, UpdateAccountsNumber w))"

text \<open>The last part of \<open>DeleteMember\<close>: the member, his row and his fields.\<close>

definition erase_member :: "guild_env \<Rightarrow> u64 \<Rightarrow> guild_world \<Rightarrow> guild_world" where
  "erase_member env guid w =
     (let low = GUID_LOPART guid;
          w = upd_guild (\<lambda>g. g\<lparr>gd_members := map_erase low (gd_members g)\<rparr>) w;
          w = (if ge_FindPlayer env guid
               then w\<lparr>gw_guildId := (gw_guildId w)(guid := 0), gw_rank := (gw_rank w)(guid := 0)\<rparr> else w)
      in upd_db (\<lambda>d. d\<lparr>db_members := map_erase low (db_members d)\<rparr>) w)"

definition guild_Disband :: "guild_env \<Rightarrow> guild_world \<Rightarrow> guild_world" where
  "guild_Disband env w =
     (let w = fold (erase_member env) (map (\<lambda>x. gm_guid (snd x)) (ge_order env (gd_members (gw_guild w)))) w;
          w = upd_db (\<lambda>d. d\<lparr>db_guild := None, db_ranks := [], db_tabs := [], db_rights := (\<lambda>_. None), db_moneylog := [], db_eventlog := []\<rparr>) w;
          w = upd_guild (\<lambda>g. g\<lparr>gd_bankTabs := []\<rparr>) w
      in w\<lparr>gw_disbanded := True\<rparr>)"

text \<open>The loop that looks for the new leader: a later member only if his rank is higher.\<close>

definition pick_guild_leader :: "u32 \<Rightarrow> (u32 \<times> guild_member) list \<Rightarrow> (u32 \<times> guild_member) option" where
  "pick_guild_leader lowguid ms =
     fold (\<lambda>x best. if fst x = lowguid then best
                    else case best of None \<Rightarrow> Some x | Some b \<Rightarrow> if gm_rankId (snd b) > gm_rankId (snd x) then Some x else best) ms None"

definition DeleteMember :: "guild_env \<Rightarrow> u64 \<Rightarrow> guild_world \<Rightarrow> guild_world" where
  "DeleteMember env guid w =
     (if gd_leaderGuid (gw_guild w) = guid
      then case pick_guild_leader (GUID_LOPART guid) (ge_order env (gd_members (gw_guild w))) of
          None \<Rightarrow> guild_Disband env w
        | Some (low, m) \<Rightarrow>
            let w = SetLeaderGUID env low (gm_guid m) w;
                w = (if ge_FindPlayer env (gm_guid m) then w\<lparr>gw_rank := (gw_rank w)(gm_guid m := GR_GUILDMASTER)\<rparr> else w)
            in UpdateAccountsNumber (erase_member env guid w)
      else UpdateAccountsNumber (erase_member env guid w))"

definition ChangeMemberRank :: "guild_env \<Rightarrow> u64 \<Rightarrow> u8 \<Rightarrow> guild_world \<Rightarrow> bool \<times> guild_world" where
  "ChangeMemberRank env guid newRank w =
     (if ucast newRank \<le> GetLowestRankId (gw_guild w)
      then case GetMember guid (gw_guild w) of
          None \<Rightarrow> (False, w)
        | Some m \<Rightarrow> (True, ChangeRank env (GUID_LOPART guid) (gm_guid m) (ucast newRank) w)
      else (False, w))"

definition LogEvent :: "guild_env \<Rightarrow> guild_event_type \<Rightarrow> u32 \<Rightarrow> u32 \<Rightarrow> u8 \<Rightarrow> guild_world \<Rightarrow> guild_world" where
  "LogEvent env t p1 p2 r w =
     (let (h, rows) = log_event \<lparr>ge_type = t, ge_playerGuid1 = p1, ge_playerGuid2 = p2, ge_newRank = r, ge_timestamp = ge_now env\<rparr>
            (gd_eventLog (gw_guild w)) (db_eventlog (gw_db w))
      in upd_db (db_eventlog_update (\<lambda>_. rows)) (upd_guild (gd_eventLog_update (\<lambda>_. h)) w))"

text \<open>The events of the money log carry the amount as 32 bits.\<close>

definition LogBankMoneyEvent :: "guild_env \<Rightarrow> bank_event_type \<Rightarrow> u32 \<Rightarrow> u64 \<Rightarrow> guild_world \<Rightarrow> guild_world" where
  "LogBankMoneyEvent env t low amount w =
     (let (h, rows) = log_event \<lparr>be_type = t, be_playerGuid = low, be_money = ucast amount, be_timestamp = ge_now env\<rparr>
            (gd_moneyLog (gw_guild w)) (db_moneylog (gw_db w))
      in upd_db (db_moneylog_update (\<lambda>_. rows)) (upd_guild (gd_moneyLog_update (\<lambda>_. h)) w))"

section \<open>Creating ranks, tabs and the guild\<close>

definition CreateRank :: "u8 list \<Rightarrow> u32 \<Rightarrow> guild_world \<Rightarrow> guild_world" where
  "CreateRank name rights w =
     (let n = length (gd_ranks (gw_guild w)) in
      if n \<ge> GUILD_RANKS_MAX_COUNT then w
      else
        let info = \<lparr>ri_rankId = of_nat n, ri_name = name, ri_rights = rights, ri_bankMoneyPerDay = 0,
              ri_tabs = replicate GUILD_BANK_MAX_TABS \<lparr>br_rights = 0, br_slots = 0\<rparr>\<rparr>;
            tabs = length (gd_bankTabs (gw_guild w));
            w = upd_guild (\<lambda>g. g\<lparr>gd_ranks := gd_ranks g @ [info]\<rparr>) w;
            w = upd_db (\<lambda>d. d\<lparr>db_rights := (\<lambda>(t, r). if r = of_nat n \<and> unat t < tabs \<and> db_rights d (t, r) = None
                  then Some (0, 0) else db_rights d (t, r))\<rparr>) w
        in upd_db (\<lambda>d. if map_find (of_nat n) (db_ranks d) \<noteq> None then d
             else d\<lparr>db_ranks := map_set (of_nat n) \<lparr>rr_rname = name, rr_rights = rights, rr_BankMoneyPerDay = 0\<rparr> (db_ranks d)\<rparr>) w)"

definition basic_rights :: u32 where
  "basic_rights = right_value GR_RIGHT_GCHATLISTEN OR right_value GR_RIGHT_GCHATSPEAK"

definition CreateDefaultGuildRanks :: "guild_env \<Rightarrow> guild_world \<Rightarrow> guild_world" where
  "CreateDefaultGuildRanks env w =
     (let w = upd_db (\<lambda>d. d\<lparr>db_ranks := [], db_rights := (\<lambda>_. None)\<rparr>) w;
          w = CreateRank (ge_default_name env 0) GR_RIGHT_ALL w;
          w = CreateRank (ge_default_name env 1) GR_RIGHT_ALL w;
          w = CreateRank (ge_default_name env 2) basic_rights w;
          w = CreateRank (ge_default_name env 3) basic_rights w
      in CreateRank (ge_default_name env 4) basic_rights w)"

text \<open>\<open>Guild::Create\<close> for a name that is free; \<open>newId\<close> is the next guild id.\<close>

definition guild_Create :: "guild_env \<Rightarrow> u32 \<Rightarrow> u64 \<Rightarrow> u8 list \<Rightarrow> guild_world \<Rightarrow> bool \<times> guild_world" where
  "guild_Create env newId leader name w =
     (let no_emblem = \<lparr>em_style = 0, em_color = 0, em_borderStyle = 0, em_borderColor = 0, em_backgroundColor = 0\<rparr>;
          motd = map of_char ''No message set.'';
          g = \<lparr>gd_id = newId, gd_name = name, gd_leaderGuid = leader, gd_motd = motd, gd_info = [], gd_emblem = no_emblem,
               gd_accountsNumber = 0, gd_bankMoney = 0, gd_ranks = [], gd_members = [], gd_bankTabs = [], gd_level = 1,
               gd_eventLog = new_LogHolder (ge_EVENT_LOG_COUNT env), gd_moneyLog = new_LogHolder (ge_BANK_EVENT_LOG_COUNT env)\<rparr>;
          w = w\<lparr>gw_guild := g, gw_disbanded := False\<rparr>;
          w = upd_db (\<lambda>d. d\<lparr>db_members := [], db_guild := Some
                \<lparr>gr_leaderguid = GUID_LOPART leader, gr_motd = motd, gr_info = [], gr_emblem = no_emblem, gr_BankMoney = 0\<rparr>\<rparr>) w;
          w = CreateDefaultGuildRanks env w
      in guild_AddMember env leader 0 w)"

definition CreateNewBankTab :: "guild_world \<Rightarrow> guild_world option" where
  "CreateNewBankTab w =
     (let n = length (gd_bankTabs (gw_guild w)); tab = \<lparr>bt_name = [], bt_icon = [], bt_text = []\<rparr> in
      if n \<ge> GUILD_BANK_MAX_TABS then None
      else Some (upd_db (\<lambda>d. d\<lparr>db_tabs := map_set (of_nat n) tab (db_tabs d)\<rparr>)
             (upd_guild (\<lambda>g. g\<lparr>gd_bankTabs := gd_bankTabs g @ [tab]\<rparr>) w)))"

section \<open>Commands\<close>

definition HandleSetMOTD :: "u64 \<Rightarrow> u8 list \<Rightarrow> guild_world \<Rightarrow> guild_world" where
  "HandleSetMOTD pl motd w =
     (if gd_motd (gw_guild w) = motd then w
      else if \<not> HasRankRight pl GR_RIGHT_SETMOTD w then SendCommandResult pl GUILD_INVITE_S ERR_GUILD_PERMISSIONS w
      else upd_guild_row (gr_motd_update (\<lambda>_. motd)) (upd_guild (gd_motd_update (\<lambda>_. motd)) w))"

definition HandleSetInfo :: "u64 \<Rightarrow> u8 list \<Rightarrow> guild_world \<Rightarrow> guild_world" where
  "HandleSetInfo pl info w =
     (if gd_info (gw_guild w) = info then w
      else if \<not> HasRankRight pl GR_RIGHT_MODIFY_GUILD_INFO w then SendCommandResult pl GUILD_CREATE_S ERR_GUILD_PERMISSIONS w
      else upd_guild_row (gr_info_update (\<lambda>_. info)) (upd_guild (gd_info_update (\<lambda>_. info)) w))"

definition EMBLEM_PRICE :: u64 where "EMBLEM_PRICE = 10 * 10000"

definition pay :: "u64 \<Rightarrow> u64 \<Rightarrow> guild_world \<Rightarrow> guild_world" where
  "pay pl d w = w\<lparr>gw_money := (gw_money w)(pl := modified_money (gw_money w pl) d)\<rparr>"

definition SendSaveEmblemResult :: "u64 \<Rightarrow> emblem_error \<Rightarrow> guild_world \<Rightarrow> guild_world" where
  "SendSaveEmblemResult pl e w = w\<lparr>gw_answers := gw_answers w @ [EmblemAnswer pl e]\<rparr>"

definition HandleSetEmblem :: "u64 \<Rightarrow> emblem_info \<Rightarrow> guild_world \<Rightarrow> guild_world" where
  "HandleSetEmblem pl e w =
     (if \<not> guild_IsLeader pl (gw_guild w) then SendSaveEmblemResult pl ERR_GUILDEMBLEM_NOTGUILDMASTER w
      else if \<not> gw_money w pl \<ge> EMBLEM_PRICE then SendSaveEmblemResult pl ERR_GUILDEMBLEM_NOTENOUGHMONEY w
      else SendSaveEmblemResult pl ERR_GUILDEMBLEM_SUCCESS
        (upd_guild_row (gr_emblem_update (\<lambda>_. e)) (upd_guild (gd_emblem_update (\<lambda>_. e)) (pay pl (- EMBLEM_PRICE) w))))"

text \<open>The first member of that name, in the order of the map.\<close>

definition member_by_name :: "guild_env \<Rightarrow> u8 list \<Rightarrow> guild \<Rightarrow> (u32 \<times> guild_member) option" where
  "member_by_name env name g = find (\<lambda>x. st_name (gm_stats (snd x)) = name) (ge_order env (gd_members g))"

definition HandleSetLeader :: "guild_env \<Rightarrow> u64 \<Rightarrow> u8 list \<Rightarrow> guild_world \<Rightarrow> guild_world" where
  "HandleSetLeader env pl name w =
     (if \<not> guild_IsLeader pl (gw_guild w) then SendCommandResult pl GUILD_INVITE_S ERR_GUILD_PERMISSIONS w
      else case GetMember pl (gw_guild w) of
          None \<Rightarrow> SendCommandResult pl GUILD_INVITE_S ERR_GUILD_PERMISSIONS w
        | Some old \<Rightarrow>
            (case member_by_name env name (gw_guild w) of
               None \<Rightarrow> SendCommandResult pl GUILD_INVITE_S ERR_GUILD_PLAYER_NOT_IN_GUILD_S w
             | Some (low, m) \<Rightarrow> ChangeRank env (GUID_LOPART pl) (gm_guid old) GR_OFFICER (SetLeaderGUID env low (gm_guid m) w)))"

definition SwitchGuildLeader :: "guild_env \<Rightarrow> u64 \<Rightarrow> guild_world \<Rightarrow> bool \<times> guild_world" where
  "SwitchGuildLeader env newLeader w =
     (let leader = gd_leaderGuid (gw_guild w) in
      case GetMember leader (gw_guild w) of None \<Rightarrow> (False, w)
      | Some old \<Rightarrow>
          (case GetMember newLeader (gw_guild w) of None \<Rightarrow> (False, w)
           | Some m \<Rightarrow> (True, ChangeRank env (GUID_LOPART leader) (gm_guid old) GR_OFFICER
               (SetLeaderGUID env (GUID_LOPART newLeader) (gm_guid m) w))))"

definition HandleSetMemberNote :: "u64 \<Rightarrow> u8 list \<Rightarrow> u64 \<Rightarrow> bool \<Rightarrow> guild_world \<Rightarrow> guild_world" where
  "HandleSetMemberNote pl text guid isPublic w =
     (if \<not> HasRankRight pl (if isPublic then GR_RIGHT_EPNOTE else GR_RIGHT_EOFFNOTE) w
      then SendCommandResult pl GUILD_INVITE_S ERR_GUILD_PERMISSIONS w
      else case GetMember guid (gw_guild w) of
          None \<Rightarrow> w
        | Some m \<Rightarrow>
            if isPublic
            then if gm_publicNote m = text then w
              else upd_member_row (GUID_LOPART (gm_guid m)) (mr_pnote_update (\<lambda>_. text))
                (upd_member (GUID_LOPART guid) (gm_publicNote_update (\<lambda>_. text)) w)
            else if gm_officerNote m = text then w
              else upd_member_row (GUID_LOPART (gm_guid m)) (mr_offnote_update (\<lambda>_. text))
                (upd_member (GUID_LOPART guid) (gm_officerNote_update (\<lambda>_. text)) w))"

text \<open>The members of a rank start a new day in memory; the rows only if the rank's value changes.\<close>

definition reset_members :: "u32 \<Rightarrow> (remaining_value list \<Rightarrow> remaining_value list) \<Rightarrow> guild_world \<Rightarrow> guild_world" where
  "reset_members rankId f = upd_guild (\<lambda>g. g\<lparr>gd_members := map (\<lambda>(k, m).
     (k, if IsRank rankId m then m\<lparr>gm_bankRemaining := f (gm_bankRemaining m)\<rparr> else m)) (gd_members g)\<rparr>)"

definition ResetMoneyTime :: "remaining_value list \<Rightarrow> remaining_value list" where
  "ResetMoneyTime rs = rs[GUILD_BANK_MAX_TABS := (rs ! GUILD_BANK_MAX_TABS)\<lparr>rv_resetTime := 0\<rparr>]"

definition ResetTabTimes :: "remaining_value list \<Rightarrow> remaining_value list" where
  "ResetTabTimes rs = map (rv_resetTime_update (\<lambda>_. 0)) (take GUILD_BANK_MAX_TABS rs) @ drop GUILD_BANK_MAX_TABS rs"

definition SetRankBankMoneyPerDay :: "u32 \<Rightarrow> u32 \<Rightarrow> guild_world \<Rightarrow> guild_world" where
  "SetRankBankMoneyPerDay rankId money w =
     (if GetRankInfo rankId (gw_guild w) = None then w
      else rank_SetBankMoneyPerDay (unat rankId) money (reset_members rankId ResetMoneyTime w))"

definition SetRankBankTabRightsAndSlots :: "u32 \<Rightarrow> nat \<Rightarrow> bank_rights \<Rightarrow> guild_world \<Rightarrow> guild_world" where
  "SetRankBankTabRightsAndSlots rankId tab rs w =
     (if tab \<ge> length (gd_bankTabs (gw_guild w)) \<or> GetRankInfo rankId (gw_guild w) = None then w
      else rank_SetBankTabSlotsAndRights (unat rankId) tab rs (reset_members rankId ResetTabTimes w))"

definition HandleSetRankInfo :: "u64 \<Rightarrow> u32 \<Rightarrow> u8 list \<Rightarrow> u32 \<Rightarrow> u32 \<Rightarrow> bank_rights list \<Rightarrow> guild_world \<Rightarrow> guild_world" where
  "HandleSetRankInfo pl rankId name rights money rss w =
     (if \<not> guild_IsLeader pl (gw_guild w) then SendCommandResult pl GUILD_INVITE_S ERR_GUILD_PERMISSIONS w
      else if GetRankInfo rankId (gw_guild w) = None then w
      else fold (\<lambda>(tab, rs). SetRankBankTabRightsAndSlots rankId tab rs) (enumerate 0 rss)
        (SetRankBankMoneyPerDay rankId money (rank_SetRights (unat rankId) rights (rank_SetName (unat rankId) name w))))"

definition tab_price :: "u8 \<Rightarrow> u32" where
  "tab_price tab =
     (if tab = 0 then 100 else if tab = 1 then 250 else if tab = 2 then 500 else if tab = 3 then 1000
      else if tab = 4 then 2500 else if tab = 5 then 5000 else 0)"

text \<open>What a new tab gives to the rank of the player who buys it.\<close>

definition tab_bought :: "u64 \<Rightarrow> u8 \<Rightarrow> guild_world \<Rightarrow> guild_world" where
  "tab_bought pl tab w =
     SetRankBankTabRightsAndSlots (gw_rank w pl) (unat tab) SetGuildMasterValues
       (SetRankBankMoneyPerDay (gw_rank w pl) GUILD_WITHDRAW_UNLIMITED w)"

definition HandleBuyBankTab :: "u64 \<Rightarrow> u8 \<Rightarrow> guild_world \<Rightarrow> guild_world" where
  "HandleBuyBankTab pl tab w =
     (let cost = tab_price tab * 10000 in
      if tab \<noteq> of_nat (length (gd_bankTabs (gw_guild w))) then w
      else if cost = 0 \<and> tab < 6 then w
      else if \<not> gw_money w pl \<ge> ucast cost then w
      else case CreateNewBankTab w of None \<Rightarrow> w | Some w \<Rightarrow> tab_bought pl tab (pay pl (- ucast cost) w))"

definition HandleSpellEffectBuyBankTab :: "u64 \<Rightarrow> u8 \<Rightarrow> guild_world \<Rightarrow> guild_world" where
  "HandleSpellEffectBuyBankTab pl tab w =
     (if tab \<noteq> of_nat (length (gd_bankTabs (gw_guild w))) then w
      else case CreateNewBankTab w of None \<Rightarrow> w | Some w \<Rightarrow> tab_bought pl tab w)"

text \<open>Neither of these asks for a right.\<close>

definition HandleSetBankTabInfo :: "u8 \<Rightarrow> u8 list \<Rightarrow> u8 list \<Rightarrow> guild_world \<Rightarrow> guild_world" where
  "HandleSetBankTabInfo tab name icon w =
     (if unat tab < length (gd_bankTabs (gw_guild w))
      then let t = gd_bankTabs (gw_guild w) ! unat tab in
        if bt_name t = name \<and> bt_icon t = icon then w
        else upd_db (\<lambda>d. d\<lparr>db_tabs := upd_row tab (\<lambda>t. t\<lparr>bt_name := name, bt_icon := icon\<rparr>) (db_tabs d)\<rparr>)
          (upd_guild (\<lambda>g. g\<lparr>gd_bankTabs := (gd_bankTabs g)[unat tab := t\<lparr>bt_name := name, bt_icon := icon\<rparr>]\<rparr>) w)
      else w)"

definition SetBankTabText :: "guild_env \<Rightarrow> u8 \<Rightarrow> u8 list \<Rightarrow> guild_world \<Rightarrow> guild_world" where
  "SetBankTabText env tab text w =
     (if unat tab < length (gd_bankTabs (gw_guild w))
      then let t = gd_bankTabs (gw_guild w) ! unat tab; short = ge_utf8truncate env text in
        if bt_text t = text then w
        else upd_db (\<lambda>d. d\<lparr>db_tabs := upd_row tab (\<lambda>t. t\<lparr>bt_text := short\<rparr>) (db_tabs d)\<rparr>)
          (upd_guild (\<lambda>g. g\<lparr>gd_bankTabs := (gd_bankTabs g)[unat tab := t\<lparr>bt_text := short\<rparr>]\<rparr>) w)
      else w)"

definition HandleInviteMember :: "guild_env \<Rightarrow> u64 \<Rightarrow> u8 list \<Rightarrow> guild_world \<Rightarrow> guild_world" where
  "HandleInviteMember env pl name w =
     (case ge_FindPlayerByName env name of
        None \<Rightarrow> SendCommandResult pl GUILD_INVITE_S ERR_GUILD_PLAYER_NOT_FOUND_S w
      | Some invitee \<Rightarrow>
          if ge_no_invitation env invitee pl then w
          else if \<not> ge_TWO_SIDE_GUILD env \<and> ge_team env invitee \<noteq> ge_team env pl then SendCommandResult pl GUILD_INVITE_S ERR_GUILD_NOT_ALLIED w
          else if gw_guildId w invitee \<noteq> 0 then SendCommandResult pl GUILD_INVITE_S ERR_ALREADY_IN_GUILD_S w
          else if gw_invited w invitee \<noteq> 0 then SendCommandResult pl GUILD_INVITE_S ERR_ALREADY_INVITED_TO_GUILD_S w
          else if \<not> HasRankRight pl GR_RIGHT_INVITE w then SendCommandResult pl GUILD_INVITE_S ERR_GUILD_PERMISSIONS w
          else LogEvent env GUILD_EVENT_LOG_INVITE_PLAYER (GUID_LOPART pl) (GUID_LOPART invitee) 0
            (w\<lparr>gw_invited := (gw_invited w)(invitee := gd_id (gw_guild w))\<rparr>))"

definition HandleAcceptMember :: "guild_env \<Rightarrow> u64 \<Rightarrow> guild_world \<Rightarrow> guild_world" where
  "HandleAcceptMember env pl w =
     (if \<not> ge_TWO_SIDE_GUILD env \<and> ge_team env pl \<noteq> ge_team env (gd_leaderGuid (gw_guild w)) then w
      else let (added, w) = guild_AddMember env pl GUILD_RANK_NONE w
        in if added then LogEvent env GUILD_EVENT_LOG_JOIN_GUILD (GUID_LOPART pl) 0 0 w else w)"

definition HandleLeaveMember :: "guild_env \<Rightarrow> u64 \<Rightarrow> guild_world \<Rightarrow> guild_world" where
  "HandleLeaveMember env pl w =
     (if guild_IsLeader pl (gw_guild w)
      then if length (gd_members (gw_guild w)) > 1 then SendCommandResult pl GUILD_QUIT_S ERR_GUILD_LEADER_LEAVE w
        else if gd_level (gw_guild w) \<ge> ge_UNDELETABLE_LEVEL env then SendCommandResult pl GUILD_QUIT_S ERR_GUILD_UNDELETABLE_DUE_TO_LEVEL w
        else guild_Disband env w
      else SendCommandResult pl GUILD_QUIT_S ERR_PLAYER_NO_MORE_IN_GUILD
        (LogEvent env GUILD_EVENT_LOG_LEAVE_GUILD (GUID_LOPART pl) 0 0 (DeleteMember env pl w)))"

definition HandleRemoveMember :: "guild_env \<Rightarrow> u64 \<Rightarrow> u64 \<Rightarrow> guild_world \<Rightarrow> guild_world" where
  "HandleRemoveMember env pl guid w =
     (if \<not> HasRankRight pl GR_RIGHT_REMOVE w then SendCommandResult pl GUILD_INVITE_S ERR_GUILD_PERMISSIONS w
      else case GetMember guid (gw_guild w) of
          None \<Rightarrow> if ge_FindPlayer env guid then SendCommandResult pl GUILD_QUIT_S ERR_PLAYER_NO_MORE_IN_GUILD w else w
        | Some m \<Rightarrow>
            if IsRank GR_GUILDMASTER m then SendCommandResult pl GUILD_QUIT_S ERR_GUILD_LEADER_LEAVE w
            else if IsRankNotLower (gw_rank w pl) m then SendCommandResult pl GUILD_QUIT_S ERR_GUILD_RANK_TOO_HIGH_S w
            else DeleteMember env guid (LogEvent env GUILD_EVENT_LOG_UNINVITE_PLAYER (GUID_LOPART pl) (GUID_LOPART guid) 0 w))"

text \<open>\<open>SendGuildRanksUpdate\<close> changes the rank; the event is chosen after the change.\<close>

definition SendGuildRanksUpdate :: "guild_env \<Rightarrow> u64 \<Rightarrow> u64 \<Rightarrow> u32 \<Rightarrow> guild_world \<Rightarrow> guild_world" where
  "SendGuildRanksUpdate env setterGuid targetGuid rank w =
     (case GetMember targetGuid (gw_guild w) of
        None \<Rightarrow> w
      | Some m \<Rightarrow>
          let w = ChangeRank env (GUID_LOPART targetGuid) (gm_guid m) rank w
          in LogEvent env (if rank < ucast (ucast rank :: u8) then GUILD_EVENT_LOG_DEMOTE_PLAYER else GUILD_EVENT_LOG_PROMOTE_PLAYER)
               (GUID_LOPART setterGuid) (GUID_LOPART targetGuid) (ucast rank) w)"

definition HandleSetMemberRank :: "guild_env \<Rightarrow> u64 \<Rightarrow> u64 \<Rightarrow> u64 \<Rightarrow> u32 \<Rightarrow> guild_world \<Rightarrow> guild_world" where
  "HandleSetMemberRank env pl targetGuid setterGuid rank w =
     (case GetMember targetGuid (gw_guild w) of
        None \<Rightarrow> w
      | Some m \<Rightarrow>
          if \<not> HasRankRight pl (if rank > gm_rankId m then GR_RIGHT_DEMOTE else GR_RIGHT_PROMOTE) w
          then SendCommandResult pl GUILD_INVITE_S ERR_GUILD_PERMISSIONS w
          else case GetMember setterGuid (gw_guild w) of
              None \<Rightarrow> SendCommandResult pl GUILD_INVITE_S ERR_GUILD_INTERNAL w
            | Some setter \<Rightarrow>
                if gm_rankId setter \<noteq> 1 \<and> gm_rankId setter \<ge> gm_rankId m
                then SendCommandResult pl GUILD_INVITE_S ERR_GUILD_PERMISSIONS w
                else if gm_guid m = pl then SendCommandResult pl GUILD_INVITE_S ERR_GUILD_NAME_INVALID w
                else SendGuildRanksUpdate env setterGuid targetGuid rank w)"

text \<open>The last rank with that id.\<close>

definition rank_index :: "u32 \<Rightarrow> guild \<Rightarrow> nat option" where
  "rank_index i g = fold (\<lambda>k best. if ri_rankId (gd_ranks g ! k) = i then Some k else best) [0..<length (gd_ranks g)] None"

definition swap_ranks :: "u32 \<Rightarrow> bool \<Rightarrow> guild_world \<Rightarrow> guild_world" where
  "swap_ranks i up w =
     (case (rank_index i (gw_guild w), rank_index (if up then i - 1 else i + 1) (gw_guild w)) of
        (Some k, Some k2) \<Rightarrow>
          let r = gd_ranks (gw_guild w) ! k; tmp = gd_ranks (gw_guild w) ! k2
          in rank_SetRights k (ri_rights tmp) (rank_SetName k (ri_name tmp) (rank_SetRights k2 (ri_rights r) (rank_SetName k2 (ri_name r) w)))
      | _ \<Rightarrow> w)"

definition HandleAddNewRank :: "u64 \<Rightarrow> u8 list \<Rightarrow> guild_world \<Rightarrow> guild_world" where
  "HandleAddNewRank pl name w =
     (if length (gd_ranks (gw_guild w)) \<ge> GUILD_RANKS_MAX_COUNT then w
      else if \<not> guild_IsLeader pl (gw_guild w) then SendCommandResult pl GUILD_INVITE_S ERR_GUILD_PERMISSIONS w
      else CreateRank name basic_rights w)"

text \<open>\<open>RankInfo::UpdateId\<close>: the rows of the rank and of its members, and the id of the rank in memory.\<close>

definition rank_UpdateId :: "nat \<Rightarrow> u32 \<Rightarrow> guild_world \<Rightarrow> guild_world" where
  "rank_UpdateId i newId w =
     (let old = ucast (ri_rankId (gd_ranks (gw_guild w) ! i)) :: u8; new = ucast newId :: u8;
          w = upd_db (\<lambda>d. d\<lparr>
                db_members := map (\<lambda>(k, r). (k, if mr_rank r = old then r\<lparr>mr_rank := new\<rparr> else r)) (db_members d),
                db_ranks := (case map_find old (db_ranks d) of None \<Rightarrow> db_ranks d | Some r \<Rightarrow> map_set new r (map_erase old (db_ranks d))),
                db_rights := (\<lambda>(t, r). if r = new then db_rights d (t, old) else if r = old then None else db_rights d (t, r))\<rparr>) w
      in upd_rank i (ri_rankId_update (\<lambda>_. newId)) w)"

definition HandleRemoveRank :: "u64 \<Rightarrow> u32 \<Rightarrow> guild_world \<Rightarrow> bb_error + guild_world" where
  "HandleRemoveRank pl rankId w =
     (if length (gd_ranks (gw_guild w)) \<le> GUILD_RANKS_MIN_COUNT then Inr w
      else if \<not> guild_IsLeader pl (gw_guild w) then Inr (SendCommandResult pl GUILD_INVITE_S ERR_GUILD_PERMISSIONS w)
      else
        let w = upd_db (\<lambda>d. d\<lparr>db_rights := (\<lambda>(t, r). if r = ucast rankId then None else db_rights d (t, r)),
                  db_ranks := map_erase (ucast rankId) (db_ranks d)\<rparr>) w
        in if unat rankId \<ge> length (gd_ranks (gw_guild w)) then Inl OutOfBounds
           else
             let w = upd_guild (\<lambda>g. g\<lparr>gd_ranks := take (unat rankId) (gd_ranks g) @ drop (Suc (unat rankId)) (gd_ranks g)\<rparr>) w
             in Inr (fold (\<lambda>i w. if ri_rankId (gd_ranks (gw_guild w) ! i) \<noteq> of_nat i then rank_UpdateId i (of_nat i) w else w)
                  [0..<length (gd_ranks (gw_guild w))] w))"

definition HandleDisband :: "guild_env \<Rightarrow> u64 \<Rightarrow> guild_world \<Rightarrow> guild_world" where
  "HandleDisband env pl w =
     (if \<not> guild_IsLeader pl (gw_guild w) then SendCommandResult pl GUILD_INVITE_S ERR_GUILD_PERMISSIONS w
      else if gd_level (gw_guild w) \<ge> ge_UNDELETABLE_LEVEL env then SendCommandResult pl GUILD_INVITE_S ERR_GUILD_UNDELETABLE_DUE_TO_LEVEL w
      else guild_Disband env w)"

definition HandleMemberLogout :: "guild_env \<Rightarrow> u64 \<Rightarrow> guild_world \<Rightarrow> guild_world" where
  "HandleMemberLogout env pl =
     upd_member (GUID_LOPART pl) (\<lambda>m. m\<lparr>gm_stats := ge_player_stats env pl, gm_logoutTime := ge_now env\<rparr>)"

section \<open>The bank\<close>

definition ModifyBankMoney :: "u64 \<Rightarrow> bool \<Rightarrow> guild_world \<Rightarrow> bool \<times> guild_world" where
  "ModifyBankMoney amount add w =
     (let m = gd_bankMoney (gw_guild w) in
      if \<not> add \<and> m < amount then (False, w)
      else let m = (if add then m + amount else m - amount)
        in (True, upd_guild_row (gr_BankMoney_update (\<lambda>_. m)) (upd_guild (gd_bankMoney_update (\<lambda>_. m)) w)))"

definition HandleMemberDepositMoney :: "guild_env \<Rightarrow> u64 \<Rightarrow> u64 \<Rightarrow> guild_world \<Rightarrow> guild_world" where
  "HandleMemberDepositMoney env pl amount w =
     LogBankMoneyEvent env GUILD_BANK_LOG_DEPOSIT_MONEY (GUID_LOPART pl) amount (pay pl (- amount) (snd (ModifyBankMoney amount True w)))"

definition DepositMoney :: "u64 \<Rightarrow> guild_world \<Rightarrow> guild_world" where
  "DepositMoney amount w = snd (ModifyBankMoney amount True w)"

text \<open>
  What a member may still take today, of tab \<open>tab\<close> or, for \<open>GUILD_BANK_MAX_TABS\<close>, of the money.  When a day has
  passed the value is filled up again, in memory and in the row.
\<close>

definition set_remaining :: "u64 \<Rightarrow> nat \<Rightarrow> remaining_value \<Rightarrow> guild_world \<Rightarrow> guild_world" where
  "set_remaining guid tab v w =
     upd_member_row (GUID_LOPART guid) (\<lambda>r. r\<lparr>mr_remaining := (mr_remaining r)[tab := v]\<rparr>)
       (upd_member (GUID_LOPART guid) (\<lambda>m. m\<lparr>gm_bankRemaining := (gm_bankRemaining m)[tab := v]\<rparr>) w)"

definition GetBankRemainingValue :: "guild_env \<Rightarrow> u64 \<Rightarrow> nat \<Rightarrow> guild_world \<Rightarrow> u32 \<times> guild_world" where
  "GetBankRemainingValue env guid tab w =
     (case GetMember guid (gw_guild w) of
        None \<Rightarrow> (0, w)
      | Some m \<Rightarrow>
          if IsRank GR_GUILDMASTER m then (GUILD_WITHDRAW_UNLIMITED, w)
          else if tab \<noteq> GUILD_BANK_MAX_TABS \<and> GetRankBankTabRights (gm_rankId m) tab (gw_guild w) AND 1 \<noteq> 1 then (0, w)
          else
            let now = ucast (ge_now env div 60) :: u32; rv = gm_bankRemaining m ! tab in
            if now > rv_resetTime rv + 1440
            then let v = (if tab = GUILD_BANK_MAX_TABS then GetRankBankMoneyPerDay (gm_rankId m) (gw_guild w)
                          else GetRankBankTabSlotsPerDay (gm_rankId m) tab (gw_guild w))
              in (v, set_remaining guid tab \<lparr>rv_value = v, rv_resetTime = now\<rparr> w)
            else (rv_value rv, w))"

text \<open>\<open>DecreaseBankRemainingValue\<close>: the row gets the new value, its time stays.\<close>

definition DecreaseBankRemainingValue :: "u64 \<Rightarrow> nat \<Rightarrow> u32 \<Rightarrow> guild_world \<Rightarrow> guild_world" where
  "DecreaseBankRemainingValue guid tab amount w =
     (case GetMember guid (gw_guild w) of
        None \<Rightarrow> w
      | Some m \<Rightarrow>
          let v = rv_value (gm_bankRemaining m ! tab) - amount
          in upd_member_row (GUID_LOPART guid) (\<lambda>r. r\<lparr>mr_remaining := (mr_remaining r)[tab := (mr_remaining r ! tab)\<lparr>rv_value := v\<rparr>]\<rparr>)
               (upd_member (GUID_LOPART guid) (\<lambda>m. m\<lparr>gm_bankRemaining := (gm_bankRemaining m)[tab := (gm_bankRemaining m ! tab)\<lparr>rv_value := v\<rparr>]\<rparr>) w))"

definition HandleMemberWithdrawMoney :: "guild_env \<Rightarrow> u64 \<Rightarrow> u64 \<Rightarrow> bool \<Rightarrow> guild_world \<Rightarrow> bool \<times> guild_world" where
  "HandleMemberWithdrawMoney env pl request repair w =
     (let amount = min request MAX_MONEY_AMOUNT in
      if gd_bankMoney (gw_guild w) < amount then (False, w)
      else if \<not> HasRankRight pl (if repair then GR_RIGHT_WITHDRAW_REPAIR else GR_RIGHT_WITHDRAW_GOLD) w then (False, w)
      else
        let (left, w) = GetBankRemainingValue env pl GUILD_BANK_MAX_TABS w in
        if left = 0 \<or> ucast left < amount then (False, w)
        else
          let w = (if left < GUILD_WITHDRAW_UNLIMITED then DecreaseBankRemainingValue pl GUILD_BANK_MAX_TABS (ucast amount) w else w);
              w = snd (ModifyBankMoney amount False w);
              w = (if repair then w else pay pl amount w)
          in (True, LogBankMoneyEvent env (if repair then GUILD_BANK_LOG_REPAIR_MONEY else GUILD_BANK_LOG_WITHDRAW_MONEY) (GUID_LOPART pl) amount w))"

section \<open>Packets\<close>

text \<open>\<open>_GetPlayerGuild\<close>: the guild of the player's field, if it exists.  What a member of another guild sends is for that guild.\<close>

definition in_guild :: "u64 \<Rightarrow> guild_world \<Rightarrow> bool" where
  "in_guild pl w \<longleftrightarrow> gw_guildId w pl \<noteq> 0 \<and> gw_guildId w pl = gd_id (gw_guild w) \<and> \<not> gw_disbanded w"

definition in_other_guild :: "u64 \<Rightarrow> guild_world \<Rightarrow> bool" where
  "in_other_guild pl w \<longleftrightarrow> gw_guildId w pl \<noteq> 0 \<and> gw_guildId w pl \<noteq> gd_id (gw_guild w)"

definition with_guild :: "u64 \<Rightarrow> (guild_world \<Rightarrow> bb_error + guild_world) \<Rightarrow> guild_world \<Rightarrow> bb_error + guild_world" where
  "with_guild pl f w =
     (if in_guild pl w then f w else if in_other_guild pl w then Inr w
      else Inr (SendCommandResult pl GUILD_CREATE_S ERR_GUILD_PLAYER_NOT_IN_GUILD w))"

definition with_own_guild :: "u64 \<Rightarrow> (guild_world \<Rightarrow> guild_world) \<Rightarrow> guild_world \<Rightarrow> bb_error + guild_world" where
  "with_own_guild pl f w = Inr (if in_guild pl w then f w else w)"

definition read_guid_in :: "nat list \<Rightarrow> nat list \<Rightarrow> byte_buffer \<Rightarrow> bb_error + (u64 \<times> byte_buffer)" where
  "read_guid_in bits bytes b = ebind (ReadBitInOrder bits (0, b)) (ReadBytesSeq bytes)"

text \<open>The name in front of a realm: \<open>find\<close> gives \<open>npos\<close> when there is no dash, a dash in front cuts nothing.\<close>

definition name_of_realm :: "u8 list \<Rightarrow> u8 list" where
  "name_of_realm name = (if takeWhile (\<lambda>c. c \<noteq> 45) name = [] then name else takeWhile (\<lambda>c. c \<noteq> 45) name)"

definition read_name :: "nat \<Rightarrow> byte_buffer \<Rightarrow> bb_error + (u8 list \<times> byte_buffer)" where
  "read_name bits b = ebind (ReadBits bits b) (\<lambda>(n, b). ReadString (unat n) b)"

text \<open>One invitation in five seconds; the difference of the times is signed.\<close>

definition HandleGuildInviteOpcode :: "guild_env \<Rightarrow> u64 \<Rightarrow> byte_buffer \<Rightarrow> guild_world \<Rightarrow> bb_error + guild_world" where
  "HandleGuildInviteOpcode env pl recvPacket w =
     (if sint (ge_now env - gw_lastInvite w pl) < 5 then Inr w
      else
        let w = w\<lparr>gw_lastInvite := (gw_lastInvite w)(pl := ge_now env)\<rparr>
        in ebind (read_name 9 recvPacket) (\<lambda>(name, b).
             case ge_normalizePlayerName env (name_of_realm name) of
               None \<Rightarrow> Inr w
             | Some name \<Rightarrow> with_guild pl (\<lambda>w. Inr (HandleInviteMember env pl name w)) w))"

definition HandleGuildRemoveOpcode :: "guild_env \<Rightarrow> u64 \<Rightarrow> byte_buffer \<Rightarrow> guild_world \<Rightarrow> bb_error + guild_world" where
  "HandleGuildRemoveOpcode env pl recvPacket w =
     ebind (read_guid_in [3, 1, 6, 0, 7, 2, 5, 4] [2, 6, 0, 1, 4, 3, 5, 7] recvPacket) (\<lambda>(guid, b).
       with_guild pl (\<lambda>w. Inr (HandleRemoveMember env pl guid w)) w)"

text \<open>Only a leader who has been away for three months can be replaced.\<close>

definition HandleGuildMasterReplaceOpcode :: "guild_env \<Rightarrow> u64 \<Rightarrow> byte_buffer \<Rightarrow> guild_world \<Rightarrow> bb_error + guild_world" where
  "HandleGuildMasterReplaceOpcode env pl recvPacket =
     with_guild pl (\<lambda>w.
       let logoutTime = (case GetMember (gd_leaderGuid (gw_guild w)) (gw_guild w) of None \<Rightarrow> 0 | Some m \<Rightarrow> ucast (gm_logoutTime m)) :: u32
       in Inr (if logoutTime = 0 \<or> ucast (logoutTime + 3 * 2592000) > ge_now env then w else snd (SwitchGuildLeader env pl w)))"

definition HandleGuildAcceptOpcode :: "guild_env \<Rightarrow> u64 \<Rightarrow> byte_buffer \<Rightarrow> guild_world \<Rightarrow> bb_error + guild_world" where
  "HandleGuildAcceptOpcode env pl recvPacket w =
     Inr (if gw_guildId w pl = 0 \<and> gw_invited w pl = gd_id (gw_guild w) \<and> \<not> gw_disbanded w then HandleAcceptMember env pl w else w)"

definition HandleGuildDeclineOpcode :: "u64 \<Rightarrow> byte_buffer \<Rightarrow> guild_world \<Rightarrow> bb_error + guild_world" where
  "HandleGuildDeclineOpcode pl recvPacket w =
     Inr (w\<lparr>gw_invited := (gw_invited w)(pl := 0), gw_guildId := (gw_guildId w)(pl := 0)\<rparr>)"

definition HandleGuildAssignRankOpcode :: "guild_env \<Rightarrow> u64 \<Rightarrow> byte_buffer \<Rightarrow> guild_world \<Rightarrow> bb_error + guild_world" where
  "HandleGuildAssignRankOpcode env pl recvPacket w =
     ebind (read_u32 recvPacket) (\<lambda>(rankId, b).
     ebind (read_guid_in [7, 5, 2, 1, 0, 3, 6, 4] [7, 3, 0, 5, 2, 1, 6, 4] b) (\<lambda>(target, b).
       with_guild pl (\<lambda>w. Inr (HandleSetMemberRank env pl target pl rankId w)) w))"

definition HandleGuildLeaveOpcode :: "guild_env \<Rightarrow> u64 \<Rightarrow> byte_buffer \<Rightarrow> guild_world \<Rightarrow> bb_error + guild_world" where
  "HandleGuildLeaveOpcode env pl recvPacket = with_guild pl (\<lambda>w. Inr (HandleLeaveMember env pl w))"

definition HandleGuildDisbandOpcode :: "guild_env \<Rightarrow> u64 \<Rightarrow> byte_buffer \<Rightarrow> guild_world \<Rightarrow> bb_error + guild_world" where
  "HandleGuildDisbandOpcode env pl recvPacket = with_guild pl (\<lambda>w. Inr (HandleDisband env pl w))"

definition HandleGuildLeaderOpcode :: "guild_env \<Rightarrow> u64 \<Rightarrow> byte_buffer \<Rightarrow> guild_world \<Rightarrow> bb_error + guild_world" where
  "HandleGuildLeaderOpcode env pl recvPacket w =
     ebind (read_name 9 recvPacket) (\<lambda>(name, b).
       case ge_normalizePlayerName env (name_of_realm name) of
         None \<Rightarrow> Inr w
       | Some name \<Rightarrow> with_guild pl (\<lambda>w. Inr (HandleSetLeader env pl name w)) w)"

definition HandleGuildMOTDOpcode :: "u64 \<Rightarrow> byte_buffer \<Rightarrow> guild_world \<Rightarrow> bb_error + guild_world" where
  "HandleGuildMOTDOpcode pl recvPacket w =
     ebind (read_name 10 recvPacket) (\<lambda>(motd, b). with_guild pl (\<lambda>w. Inr (HandleSetMOTD pl motd w)) w)"

definition HandleSwapRanks :: "u64 \<Rightarrow> byte_buffer \<Rightarrow> guild_world \<Rightarrow> bb_error + guild_world" where
  "HandleSwapRanks pl recvPacket w =
     ebind (read_u32 recvPacket) (\<lambda>(i, b). ebind (ReadBit b) (\<lambda>(up, b).
       with_guild pl (\<lambda>w. Inr (swap_ranks i up w)) w))"

text \<open>The bytes of the guid come before and after the text.\<close>

definition HandleGuildSetNoteOpcode :: "u64 \<Rightarrow> byte_buffer \<Rightarrow> guild_world \<Rightarrow> bb_error + guild_world" where
  "HandleGuildSetNoteOpcode pl recvPacket w =
     ebind (ReadBitInOrder [1, 5] (0, recvPacket)) (\<lambda>(g, b).
     ebind (ReadBit b) (\<lambda>(ispublic, b).
     ebind (ReadBitInOrder [2] (g, b)) (\<lambda>(g, b).
     ebind (ReadBits 8 b) (\<lambda>(n, b).
     ebind (ReadBitInOrder [0, 4, 3, 7, 6] (g, b)) (\<lambda>(g, b).
     ebind (ReadBytesSeq [7, 0, 4, 1] (g, b)) (\<lambda>(g, b).
     ebind (ReadString (unat n) b) (\<lambda>(text, b).
     ebind (ReadBytesSeq [5, 6, 3, 2] (g, b)) (\<lambda>(g, b).
       with_guild pl (\<lambda>w. Inr (HandleSetMemberNote pl text g ispublic w)) w))))))))"

definition HandleGuildAddRankOpcode :: "u64 \<Rightarrow> byte_buffer \<Rightarrow> guild_world \<Rightarrow> bb_error + guild_world" where
  "HandleGuildAddRankOpcode pl recvPacket w =
     ebind (read_u32 recvPacket) (\<lambda>(_, b). ebind (read_name 7 b) (\<lambda>(name, b).
       with_guild pl (\<lambda>w. Inr (HandleAddNewRank pl name w)) w))"

definition HandleGuildDelRankOpcode :: "u64 \<Rightarrow> byte_buffer \<Rightarrow> guild_world \<Rightarrow> bb_error + guild_world" where
  "HandleGuildDelRankOpcode pl recvPacket w =
     ebind (read_u32 recvPacket) (\<lambda>(rankId, b). with_guild pl (HandleRemoveRank pl rankId) w)"

definition HandleGuildChangeInfoTextOpcode :: "u64 \<Rightarrow> byte_buffer \<Rightarrow> guild_world \<Rightarrow> bb_error + guild_world" where
  "HandleGuildChangeInfoTextOpcode pl recvPacket w =
     ebind (read_name 11 recvPacket) (\<lambda>(info, b). with_guild pl (\<lambda>w. Inr (HandleSetInfo pl info w)) w)"

definition HandleSaveGuildEmblemOpcode :: "guild_env \<Rightarrow> u64 \<Rightarrow> byte_buffer \<Rightarrow> guild_world \<Rightarrow> bb_error + guild_world" where
  "HandleSaveGuildEmblemOpcode env pl recvPacket w =
     ebind (read_u32 recvPacket) (\<lambda>(bg, b). ebind (read_u32 b) (\<lambda>(bc, b). ebind (read_u32 b) (\<lambda>(c, b).
     ebind (read_u32 b) (\<lambda>(bs, b). ebind (read_u32 b) (\<lambda>(s, b).
     ebind (read_guid_in [6, 0, 1, 5, 2, 4, 7, 3] [7, 1, 0, 2, 6, 5, 4, 3] b) (\<lambda>(guid, b).
       if \<not> ge_FindPlayer env guid \<or> pl \<noteq> guid then Inr w
       else if in_guild pl w \<or> in_other_guild pl w
       then with_own_guild pl (HandleSetEmblem pl \<lparr>em_style = s, em_color = c, em_borderStyle = bs, em_borderColor = bc, em_backgroundColor = bg\<rparr>) w
       else Inr (SendSaveEmblemResult pl ERR_GUILDEMBLEM_NOGUILD w)))))))"

text \<open>The money per day is read in gold; \<open>moneyPerDay * GOLD\<close> is computed in 32 bits.\<close>

definition HandleGuildSetRankPermissionsOpcode :: "guild_env \<Rightarrow> u64 \<Rightarrow> byte_buffer \<Rightarrow> guild_world \<Rightarrow> bb_error + guild_world" where
  "HandleGuildSetRankPermissionsOpcode env pl recvPacket w =
     with_guild pl (\<lambda>w.
       ebind (read_u32 recvPacket) (\<lambda>(_, b).
       ebind (get_n (\<lambda>b. ebind (read_u32 b) (\<lambda>(r, b). ebind (read_u32 b) (\<lambda>(s, b).
           Inr (\<lparr>br_rights = ucast (ucast r :: u8), br_slots = s\<rparr>, b)))) GUILD_BANK_MAX_TABS b) (\<lambda>(rss, b).
       ebind (read_u32 b) (\<lambda>(money, b). ebind (read_u32 b) (\<lambda>(rights, b). ebind (read_u32 b) (\<lambda>(rankId, b). ebind (read_u32 b) (\<lambda>(_, b).
       ebind (read_name 7 b) (\<lambda>(name, b).
         Inr (HandleSetRankInfo pl rankId name rights (ucast (min (ucast (money * 10000)) (ge_max env))) rss w))))))))) w"

definition HandleGuildBankDepositMoney :: "guild_env \<Rightarrow> u64 \<Rightarrow> byte_buffer \<Rightarrow> guild_world \<Rightarrow> bb_error + guild_world" where
  "HandleGuildBankDepositMoney env pl recvData w =
     ebind (read_u64 recvData) (\<lambda>(money, b).
     ebind (read_guid_in [4, 7, 5, 1, 2, 3, 0, 6] [2, 0, 4, 6, 5, 1, 3, 7] b) (\<lambda>(go, b).
       if ge_bank_near env pl go \<and> money \<noteq> 0 \<and> gw_money w pl \<ge> money
       then with_own_guild pl (\<lambda>w.
         if gd_bankMoney (gw_guild w) + money > MAX_MONEY_AMOUNT then SendCommandResult pl GUILD_BANK ERR_GUILD_TOO_MUCH_MONEY w
         else HandleMemberDepositMoney env pl money w) w
       else Inr w))"

definition HandleGuildBankWithdrawMoney :: "guild_env \<Rightarrow> u64 \<Rightarrow> byte_buffer \<Rightarrow> guild_world \<Rightarrow> bb_error + guild_world" where
  "HandleGuildBankWithdrawMoney env pl recvData w =
     ebind (read_u64 recvData) (\<lambda>(money, b).
     ebind (read_guid_in [0, 3, 7, 4, 5, 1, 6, 2] [4, 2, 0, 5, 3, 6, 1, 7] b) (\<lambda>(go, b).
       if money \<noteq> 0 \<and> ge_bank_near env pl go
       then with_own_guild pl (\<lambda>w. snd (HandleMemberWithdrawMoney env pl money False w)) w
       else Inr w))"

definition HandleGuildBankBuyTab :: "guild_env \<Rightarrow> u64 \<Rightarrow> byte_buffer \<Rightarrow> guild_world \<Rightarrow> bb_error + guild_world" where
  "HandleGuildBankBuyTab env pl recvData w =
     ebind (read_u8 recvData) (\<lambda>(tab, b).
     ebind (read_guid_in [7, 6, 1, 2, 5, 3, 0, 4] [0, 7, 3, 4, 1, 6, 5, 2] b) (\<lambda>(go, b).
       if tab > 5 then Inr w
       else if go = 0 \<or> ge_bank_near env pl go then with_own_guild pl (HandleBuyBankTab pl tab) w
       else Inr w))"

definition HandleGuildBankUpdateTab :: "guild_env \<Rightarrow> u64 \<Rightarrow> byte_buffer \<Rightarrow> guild_world \<Rightarrow> bb_error + guild_world" where
  "HandleGuildBankUpdateTab env pl recvData w =
     ebind (read_u8 recvData) (\<lambda>(tab, b).
     ebind (ReadBits 9 b) (\<lambda>(iconLen, b).
     ebind (ReadBitInOrder [0, 3, 4, 7, 2, 5, 6] (0, b)) (\<lambda>(go, b).
     ebind (ReadBits 7 b) (\<lambda>(nameLen, b).
     ebind (ReadBitInOrder [1] (go, b)) (\<lambda>(go, b).
     ebind (ReadBytesSeq [3, 2, 5] (go, b)) (\<lambda>(go, b).
     ebind (ReadString (unat nameLen) b) (\<lambda>(name, b).
     ebind (ReadString (unat iconLen) b) (\<lambda>(icon, b).
     ebind (ReadBytesSeq [4, 0, 1, 6, 7] (go, b)) (\<lambda>(go, b).
       if name \<noteq> [] \<and> icon \<noteq> [] \<and> ge_bank_near env pl go then with_own_guild pl (HandleSetBankTabInfo tab name icon) w else Inr w)))))))))"

definition HandleSetGuildBankTabText :: "guild_env \<Rightarrow> u64 \<Rightarrow> byte_buffer \<Rightarrow> guild_world \<Rightarrow> bb_error + guild_world" where
  "HandleSetGuildBankTabText env pl recvData w =
     ebind (read_u32 recvData) (\<lambda>(tab, b). ebind (read_name 14 b) (\<lambda>(text, b).
       with_own_guild pl (SetBankTabText env (ucast tab) text) w))"

text \<open>
  What login sets in the new player object: the guild and the rank of the row in \<open>guild_member\<close>, be it of
  this guild or of another, or nothing.
\<close>

definition guild_login :: "guild_env \<Rightarrow> u64 \<Rightarrow> guild_world \<Rightarrow> guild_world" where
  "guild_login env pl w =
     (let rank = (case map_find (GUID_LOPART pl) (db_members (gw_db w)) of
                    Some r \<Rightarrow> mr_rank r | None \<Rightarrow> if ge_other_guild env pl \<noteq> 0 then ge_other_rank env pl else 0)
      in w\<lparr>gw_guildId := (gw_guildId w)(pl := GetGuildIdFromDB env pl w), gw_rank := (gw_rank w)(pl := ucast rank),
           gw_invited := (gw_invited w)(pl := 0), gw_lastInvite := (gw_lastInvite w)(pl := 0)\<rparr>)"

text \<open>The handlers by opcode, as \<open>Opcodes.cpp\<close> registers them.\<close>

datatype guild_opcode =
    CMSG_GUILD_INVITE | CMSG_GUILD_REMOVE | CMSG_GUILD_REPLACE_GUILD_MASTER | CMSG_GUILD_ACCEPT | CMSG_GUILD_DECLINE
  | CMSG_GUILD_ASSIGN_MEMBER_RANK | CMSG_GUILD_LEAVE | CMSG_GUILD_DISBAND | CMSG_GUILD_LEADER | CMSG_GUILD_MOTD | CMSG_GUILD_SWITCH_RANK
  | CMSG_GUILD_SET_NOTE | CMSG_GUILD_ADD_RANK | CMSG_GUILD_DEL_RANK | CMSG_GUILD_INFO_TEXT | CMSG_SAVE_GUILD_EMBLEM
  | CMSG_GUILD_BANK_DEPOSIT_MONEY | CMSG_GUILD_BANK_WITHDRAW_MONEY | CMSG_GUILD_BANK_BUY_TAB | CMSG_GUILD_BANK_UPDATE_TAB
  | CMSG_SET_GUILD_BANK_TEXT | CMSG_GUILD_SET_RANK_PERMISSIONS

fun guild_handler :: "guild_env \<Rightarrow> guild_opcode \<Rightarrow> u64 \<Rightarrow> byte_buffer \<Rightarrow> guild_world \<Rightarrow> bb_error + guild_world" where
  "guild_handler env CMSG_GUILD_INVITE pl = HandleGuildInviteOpcode env pl"
| "guild_handler env CMSG_GUILD_REMOVE pl = HandleGuildRemoveOpcode env pl"
| "guild_handler env CMSG_GUILD_REPLACE_GUILD_MASTER pl = HandleGuildMasterReplaceOpcode env pl"
| "guild_handler env CMSG_GUILD_ACCEPT pl = HandleGuildAcceptOpcode env pl"
| "guild_handler env CMSG_GUILD_DECLINE pl = HandleGuildDeclineOpcode pl"
| "guild_handler env CMSG_GUILD_ASSIGN_MEMBER_RANK pl = HandleGuildAssignRankOpcode env pl"
| "guild_handler env CMSG_GUILD_LEAVE pl = HandleGuildLeaveOpcode env pl"
| "guild_handler env CMSG_GUILD_DISBAND pl = HandleGuildDisbandOpcode env pl"
| "guild_handler env CMSG_GUILD_LEADER pl = HandleGuildLeaderOpcode env pl"
| "guild_handler env CMSG_GUILD_MOTD pl = HandleGuildMOTDOpcode pl"
| "guild_handler env CMSG_GUILD_SWITCH_RANK pl = HandleSwapRanks pl"
| "guild_handler env CMSG_GUILD_SET_NOTE pl = HandleGuildSetNoteOpcode pl"
| "guild_handler env CMSG_GUILD_ADD_RANK pl = HandleGuildAddRankOpcode pl"
| "guild_handler env CMSG_GUILD_DEL_RANK pl = HandleGuildDelRankOpcode pl"
| "guild_handler env CMSG_GUILD_INFO_TEXT pl = HandleGuildChangeInfoTextOpcode pl"
| "guild_handler env CMSG_SAVE_GUILD_EMBLEM pl = HandleSaveGuildEmblemOpcode env pl"
| "guild_handler env CMSG_GUILD_BANK_DEPOSIT_MONEY pl = HandleGuildBankDepositMoney env pl"
| "guild_handler env CMSG_GUILD_BANK_WITHDRAW_MONEY pl = HandleGuildBankWithdrawMoney env pl"
| "guild_handler env CMSG_GUILD_BANK_BUY_TAB pl = HandleGuildBankBuyTab env pl"
| "guild_handler env CMSG_GUILD_BANK_UPDATE_TAB pl = HandleGuildBankUpdateTab env pl"
| "guild_handler env CMSG_SET_GUILD_BANK_TEXT pl = HandleSetGuildBankTabText env pl"
| "guild_handler env CMSG_GUILD_SET_RANK_PERMISSIONS pl = HandleGuildSetRankPermissionsOpcode env pl"

end
