(* ===== verification/GuildSteps.thy ===== *)
theory GuildSteps
  imports Guild
begin

text \<open>
  The guild is changed by a few kinds of steps only: \<open>guild_kept\<close> is the interface that says that a
  predicate is kept by each of them, and its lemmas show once that every packet handler then keeps it.
\<close>

unbundle bit_operations_syntax

section \<open>Well-formed guilds\<close>

definition player_id :: "u64 \<Rightarrow> bool" where
  "player_id guid \<longleftrightarrow> guid = player_guid (GUID_LOPART guid)"

definition rank_ok :: "nat \<Rightarrow> rank_info \<Rightarrow> bool" where
  "rank_ok i r \<longleftrightarrow> ri_rankId r = of_nat i \<and> length (ri_tabs r) = GUILD_BANK_MAX_TABS"

definition member_ok :: "u32 \<Rightarrow> guild_member \<Rightarrow> bool" where
  "member_ok k m \<longleftrightarrow> gm_guid m = player_guid k \<and> length (gm_bankRemaining m) = GUILD_BANK_MAX_TABS + 1"

text \<open>
  Members are kept under the low part of their guid, the leader is one of them, the ranks are numbered
  by their places, and neither the bank nor a purse holds more than the limit.
\<close>

definition guild_inv :: "guild_world \<Rightarrow> bool" where
  "guild_inv w \<longleftrightarrow>
     map_ok (gd_members (gw_guild w)) \<and>
     (\<forall>k m. map_find k (gd_members (gw_guild w)) = Some m \<longrightarrow> member_ok k m) \<and>
     (\<not> gw_disbanded w \<longrightarrow> (\<exists>k m. gd_leaderGuid (gw_guild w) = player_guid k \<and> map_find k (gd_members (gw_guild w)) = Some m)) \<and>
     GUILD_RANKS_MIN_COUNT \<le> length (gd_ranks (gw_guild w)) \<and> length (gd_ranks (gw_guild w)) \<le> GUILD_RANKS_MAX_COUNT \<and>
     (\<forall>i < length (gd_ranks (gw_guild w)). rank_ok i (gd_ranks (gw_guild w) ! i)) \<and>
     length (gd_bankTabs (gw_guild w)) \<le> GUILD_BANK_MAX_TABS \<and>
     gd_bankMoney (gw_guild w) \<le> MAX_MONEY_AMOUNT \<and> (\<forall>p. gw_money w p \<le> MAX_MONEY_AMOUNT)"

text \<open>The traversal of the members visits all of them and nothing else.\<close>

definition guild_env_ok :: "guild_env \<Rightarrow> bool" where
  "guild_env_ok env \<longleftrightarrow> (\<forall>m. set (ge_order env m) = set m)"

lemma guild_invD:
  assumes "guild_inv w"
  shows "map_ok (gd_members (gw_guild w))"
    and "map_find k (gd_members (gw_guild w)) = Some m \<Longrightarrow> gm_guid m = player_guid k"
    and "map_find k (gd_members (gw_guild w)) = Some m \<Longrightarrow> length (gm_bankRemaining m) = GUILD_BANK_MAX_TABS + 1"
    and "length (gd_bankTabs (gw_guild w)) \<le> GUILD_BANK_MAX_TABS"
    and "gd_bankMoney (gw_guild w) \<le> MAX_MONEY_AMOUNT" "gw_money w p \<le> MAX_MONEY_AMOUNT"
    and "i < length (gd_ranks (gw_guild w)) \<Longrightarrow> rank_ok i (gd_ranks (gw_guild w) ! i)"
    and "length (gd_ranks (gw_guild w)) \<le> GUILD_RANKS_MAX_COUNT" "GUILD_RANKS_MIN_COUNT \<le> length (gd_ranks (gw_guild w))"
  using assms by (auto simp: guild_inv_def member_ok_def)

lemma guild_inv_leader:
  assumes "guild_inv w" "\<not> gw_disbanded w"
  obtains k m where "gd_leaderGuid (gw_guild w) = player_guid k" "map_find k (gd_members (gw_guild w)) = Some m"
  using assms by (auto simp: guild_inv_def)

lemma player_id_player [simp]: "player_id (player_guid k)"
  by (simp add: player_id_def)

section \<open>What the operations leave alone\<close>

lemma map_find_upd_row:
  "map_ok m \<Longrightarrow> map_find k (upd_row low f m) = (if k = low then map_option f (map_find low m) else map_find k m)"
  by (auto simp: upd_row_def map_find_set split: option.split)

lemma map_ok_upd_row: "map_ok m \<Longrightarrow> map_ok (upd_row low f m)"
  by (auto simp: upd_row_def map_ok_set split: option.split)

lemmas world_updates = upd_guild_def upd_db_def upd_guild_row_def upd_member_def upd_member_row_def upd_rank_def upd_rank_row_def
  reset_times_def reset_members_def

lemma rank_setters_keep [simp]:
  "length (gd_ranks (gw_guild (rank_SetName i name w))) = length (gd_ranks (gw_guild w))"
  "length (gd_ranks (gw_guild (rank_SetRights i rights w))) = length (gd_ranks (gw_guild w))"
  "length (gd_ranks (gw_guild (rank_SetBankMoneyPerDay i money w))) = length (gd_ranks (gw_guild w))"
  "length (gd_ranks (gw_guild (rank_SetBankTabSlotsAndRights i tab rs w))) = length (gd_ranks (gw_guild w))"
  "length (gd_ranks (gw_guild (reset_members r f w))) = length (gd_ranks (gw_guild w))"
  by (simp_all add: rank_SetName_def rank_SetRights_def rank_SetBankMoneyPerDay_def rank_SetBankTabSlotsAndRights_def world_updates Let_def)

lemma GetRankInfo_None: "GetRankInfo r g = None \<longleftrightarrow> \<not> unat r < length (gd_ranks g)"
  by (simp add: GetRankInfo_def)

lemma rank_info_length [simp]:
  "length (gd_ranks (gw_guild (SetRankBankMoneyPerDay r money w))) = length (gd_ranks (gw_guild w))"
  "length (gd_ranks (gw_guild (SetRankBankTabRightsAndSlots r tab rs w))) = length (gd_ranks (gw_guild w))"
  by (simp_all add: SetRankBankMoneyPerDay_def SetRankBankTabRightsAndSlots_def)

lemma CreateNewBankTab_keeps: "CreateNewBankTab w = Some v \<Longrightarrow> gw_money v = gw_money w \<and> gw_rank v = gw_rank w"
  by (auto simp: CreateNewBankTab_def Let_def world_updates split: if_splits)

lemma remaining_keeps [simp]:
  "gd_bankMoney (gw_guild (snd (GetBankRemainingValue env guid tab w))) = gd_bankMoney (gw_guild w)"
  "gd_bankMoney (gw_guild (DecreaseBankRemainingValue guid tab x w)) = gd_bankMoney (gw_guild w)"
  by (simp_all add: GetBankRemainingValue_def DecreaseBankRemainingValue_def set_remaining_def world_updates Let_def split: option.split)

lemma ChangeRank_find:
  "map_ok (gd_members (gw_guild w)) \<Longrightarrow> map_find k (gd_members (gw_guild (ChangeRank env low g r w))) =
     (if k = low then map_option (gm_rankId_update (\<lambda>_. ucast (ucast r :: u8))) (map_find low (gd_members (gw_guild w)))
      else map_find k (gd_members (gw_guild w)))"
  by (simp add: ChangeRank_def world_updates map_find_upd_row Let_def)

lemma SetLeaderGUID_find:
  "map_ok (gd_members (gw_guild w)) \<Longrightarrow> map_find k (gd_members (gw_guild (SetLeaderGUID env low g w))) =
     (if k = low then map_option (gm_rankId_update (\<lambda>_. 0)) (map_find low (gd_members (gw_guild w)))
      else map_find k (gd_members (gw_guild w)))"
  by (simp add: SetLeaderGUID_def ChangeRank_def world_updates map_find_upd_row Let_def GR_GUILDMASTER_def)

lemma SetLeaderGUID_leader: "gd_leaderGuid (gw_guild (SetLeaderGUID env low g w)) = g"
  by (simp add: SetLeaderGUID_def ChangeRank_def world_updates Let_def)

lemma log_keeps [simp]:
  "gd_members (gw_guild (LogEvent env ty p1 p2 nr w)) = gd_members (gw_guild w)"
  "gd_leaderGuid (gw_guild (LogEvent env ty p1 p2 nr w)) = gd_leaderGuid (gw_guild w)"
  "gw_disbanded (LogEvent env ty p1 p2 nr w) = gw_disbanded w"
  "gw_disbanded (LogBankMoneyEvent env bt low x w) = gw_disbanded w"
  by (simp_all add: LogEvent_def LogBankMoneyEvent_def world_updates split: prod.split)

lemma pick_guild_leader_fold:
  assumes "fold (\<lambda>x best. if fst x = lowguid then best
      else case best of None \<Rightarrow> Some x | Some b \<Rightarrow> if gm_rankId (snd b) > gm_rankId (snd x) then Some x else best) ms best = Some y"
  shows "Some y = best \<or> y \<in> set ms \<and> fst y \<noteq> lowguid"
  using assms
proof (induction ms arbitrary: best)
  case (Cons x ms)
  from Cons.IH [OF Cons.prems [unfolded fold_simps]] show ?case
    by (auto split: if_splits option.splits)
qed simp

lemma pick_guild_leader_member:
  assumes "guild_env_ok env" "map_ok m" "pick_guild_leader low (ge_order env m) = Some (k, x)"
  shows "map_find k m = Some x" "k \<noteq> low"
proof -
  from pick_guild_leader_fold [of low "ge_order env m" None "(k, x)"] assms(3)
  have "(k, x) \<in> set (ge_order env m) \<and> k \<noteq> low" by (auto simp: pick_guild_leader_def)
  then show "map_find k m = Some x" "k \<noteq> low"
    using assms(1) std_map.entries_iff [OF assms(2), of k x] by (auto simp: guild_env_ok_def)
qed

lemma member_by_name_member:
  assumes "guild_env_ok env" "map_ok (gd_members g)" "member_by_name env name g = Some (k, x)"
  shows "map_find k (gd_members g) = Some x"
proof -
  have "(k, x) \<in> set (ge_order env (gd_members g))"
    using assms(3) by (auto simp: member_by_name_def find_Some_iff)
  then show ?thesis using assms(1) std_map.entries_iff [OF assms(2), of k x] by (auto simp: guild_env_ok_def)
qed

section \<open>Sequences of packets\<close>

text \<open>The bits and bytes of the guid in the packet that removes a member.\<close>

definition removed_guid :: "byte_buffer \<Rightarrow> u64 option" where
  "removed_guid b = (case read_guid_in [3, 1, 6, 0, 7, 2, 5, 4] [2, 6, 0, 1, 4, 3, 5, 7] b of Inl _ \<Rightarrow> None | Inr (guid, _) \<Rightarrow> Some guid)"

definition packet_ok :: "guild_env \<Rightarrow> guild_opcode \<Rightarrow> u64 \<Rightarrow> byte_buffer \<Rightarrow> bool" where
  "packet_ok env op pl b \<longleftrightarrow> player_id pl \<and> ge_FindPlayer env pl \<and>
     (op = CMSG_GUILD_REMOVE \<longrightarrow> (case removed_guid b of None \<Rightarrow> True | Some guid \<Rightarrow> player_id guid))"

text \<open>
  What happens to a guild: packets with one of the opcodes \<open>ops\<close>, logins, logouts, repairs paid by the bank and
  the spell that adds a tab.  The rest of the server may be in another state at each step.
\<close>

inductive guild_run :: "guild_opcode set \<Rightarrow> guild_world \<Rightarrow> guild_world \<Rightarrow> bool" for ops w where
  guild_start: "guild_run ops w w"
| guild_packet: "guild_run ops w v \<Longrightarrow> guild_env_ok env \<Longrightarrow> op \<in> ops \<Longrightarrow> packet_ok env op pl b \<Longrightarrow>
    guild_handler env op pl b v = Inr u \<Longrightarrow> guild_run ops w u"
| guild_logged_in: "guild_run ops w v \<Longrightarrow> guild_run ops w (guild_login env pl v)"
| guild_logged_out: "guild_run ops w v \<Longrightarrow> guild_run ops w (HandleMemberLogout env pl v)"
| guild_repair: "guild_run ops w v \<Longrightarrow> in_guild pl v \<Longrightarrow> guild_run ops w (snd (HandleMemberWithdrawMoney env pl x True v))"
| guild_tab_spell: "guild_run ops w v \<Longrightarrow> in_guild pl v \<Longrightarrow> guild_run ops w (HandleSpellEffectBuyBankTab pl tab v)"

section \<open>The interface\<close>

locale guild_kept =
  fixes P :: "guild_world \<Rightarrow> bool"
  assumes kept_inv: "P w \<Longrightarrow> guild_inv w"
    and kept_answers: "P w \<Longrightarrow> P (w\<lparr>gw_answers := a\<rparr>)"
    and kept_invited: "P w \<Longrightarrow> P (w\<lparr>gw_invited := iv\<rparr>)"
    and kept_lastInvite: "P w \<Longrightarrow> P (w\<lparr>gw_lastInvite := li\<rparr>)"
    and kept_rank: "P w \<Longrightarrow> P (w\<lparr>gw_rank := rk\<rparr>)"
    and kept_motd: "P w \<Longrightarrow> P (upd_guild_row (gr_motd_update (\<lambda>_. t)) (upd_guild (gd_motd_update (\<lambda>_. t)) w))"
    and kept_info: "P w \<Longrightarrow> P (upd_guild_row (gr_info_update (\<lambda>_. t)) (upd_guild (gd_info_update (\<lambda>_. t)) w))"
    and kept_emblem: "P w \<Longrightarrow> P (upd_guild_row (gr_emblem_update (\<lambda>_. e)) (upd_guild (gd_emblem_update (\<lambda>_. e)) w))"
    and kept_pay: "P w \<Longrightarrow> x \<le> gw_money w pl \<Longrightarrow> P (pay pl (- x) w)"
    and kept_deposit: "P w \<Longrightarrow> x \<le> gw_money w pl \<Longrightarrow> gd_bankMoney (gw_guild w) + x \<le> MAX_MONEY_AMOUNT \<Longrightarrow>
      P (pay pl (- x) (snd (ModifyBankMoney x True w)))"
    and kept_withdraw: "P w \<Longrightarrow> x \<le> gd_bankMoney (gw_guild w) \<Longrightarrow> P (pay pl x (snd (ModifyBankMoney x False w)))"
    and kept_repair: "P w \<Longrightarrow> x \<le> gd_bankMoney (gw_guild w) \<Longrightarrow> P (snd (ModifyBankMoney x False w))"
    and kept_remaining: "P w \<Longrightarrow> P (set_remaining guid tab val w)"
    and kept_decrease: "P w \<Longrightarrow> P (DecreaseBankRemainingValue guid tab u w)"
    and kept_SetName: "P w \<Longrightarrow> i < length (gd_ranks (gw_guild w)) \<Longrightarrow> P (rank_SetName i name w)"
    and kept_SetRights: "P w \<Longrightarrow> i < length (gd_ranks (gw_guild w)) \<Longrightarrow> P (rank_SetRights i rights w)"
    and kept_SetMoney: "P w \<Longrightarrow> i < length (gd_ranks (gw_guild w)) \<Longrightarrow> P (rank_SetBankMoneyPerDay i money w)"
    and kept_SetTab: "P w \<Longrightarrow> i < length (gd_ranks (gw_guild w)) \<Longrightarrow> P (rank_SetBankTabSlotsAndRights i tab rs w)"
    and kept_reset: "P w \<Longrightarrow> P (reset_members r ResetMoneyTime w)" "P w \<Longrightarrow> P (reset_members r ResetTabTimes w)"
    and kept_CreateRank: "P w \<Longrightarrow> P (CreateRank name rights w)"
    and kept_tab: "P w \<Longrightarrow> CreateNewBankTab w = Some v \<Longrightarrow> P v"
    and kept_tab_info: "P w \<Longrightarrow> P (HandleSetBankTabInfo tabId name icon w)"
    and kept_tab_text: "P w \<Longrightarrow> P (SetBankTabText env tabId name w)"
    and kept_ChangeRank: "P w \<Longrightarrow> map_find low (gd_members (gw_guild w)) = Some m \<Longrightarrow> P (ChangeRank env low (gm_guid m) nrank w)"
    and kept_leader: "P w \<Longrightarrow> map_find low (gd_members (gw_guild w)) = Some m \<Longrightarrow> P (SetLeaderGUID env low (gm_guid m) w)"
    and kept_pnote: "P w \<Longrightarrow> map_find low (gd_members (gw_guild w)) = Some m \<Longrightarrow>
      P (upd_member_row low (mr_pnote_update (\<lambda>_. t)) (upd_member low (gm_publicNote_update (\<lambda>_. t)) w))"
    and kept_offnote: "P w \<Longrightarrow> map_find low (gd_members (gw_guild w)) = Some m \<Longrightarrow>
      P (upd_member_row low (mr_offnote_update (\<lambda>_. t)) (upd_member low (gm_officerNote_update (\<lambda>_. t)) w))"
    and kept_accounts: "P w \<Longrightarrow> P (UpdateAccountsNumber w)"
    and kept_log: "P w \<Longrightarrow> P (LogEvent env ty p1 p2 nr w)"
    and kept_money_log: "P w \<Longrightarrow> P (LogBankMoneyEvent env bty low x w)"
    and kept_logout: "P w \<Longrightarrow> P (HandleMemberLogout env pl w)"
    and kept_login: "P w \<Longrightarrow> P (guild_login env pl w)"
    and kept_add: "P w \<Longrightarrow> player_id guid \<Longrightarrow> gw_guildId w guid = 0 \<Longrightarrow> ge_FindPlayer env guid \<Longrightarrow> \<not> gw_disbanded w \<Longrightarrow>
      P (snd (guild_AddMember env guid jr w))"
    and kept_erase: "P w \<Longrightarrow> player_id guid \<Longrightarrow> gd_leaderGuid (gw_guild w) \<noteq> guid \<Longrightarrow> P (erase_member env guid w)"
    and kept_disband: "P w \<Longrightarrow> P (guild_Disband env w)"
begin

lemma kept_SendCommandResult: "P w \<Longrightarrow> P (SendCommandResult pl c e w)"
  by (simp add: SendCommandResult_def kept_answers)

lemma kept_SendSaveEmblemResult: "P w \<Longrightarrow> P (SendSaveEmblemResult pl e w)"
  by (simp add: SendSaveEmblemResult_def kept_answers)

lemmas kept_basic = kept_answers kept_invited kept_lastInvite kept_rank kept_motd kept_info kept_emblem kept_reset kept_CreateRank kept_tab_info
  kept_tab_text kept_accounts kept_log kept_money_log kept_logout kept_login kept_disband kept_SendCommandResult kept_SendSaveEmblemResult kept_remaining kept_decrease

lemma kept_HandleSetMOTD: "P w \<Longrightarrow> P (HandleSetMOTD pl t w)"
  by (simp add: HandleSetMOTD_def kept_basic)

lemma kept_HandleSetInfo: "P w \<Longrightarrow> P (HandleSetInfo pl t w)"
  by (simp add: HandleSetInfo_def kept_basic)

lemma kept_HandleSetEmblem: "P w \<Longrightarrow> P (HandleSetEmblem pl e w)"
  by (simp add: HandleSetEmblem_def kept_basic kept_pay)

lemma kept_HandleInviteMember: "P w \<Longrightarrow> P (HandleInviteMember env pl name w)"
  by (simp add: HandleInviteMember_def kept_basic split: option.split)

lemma kept_HandleAddNewRank: "P w \<Longrightarrow> P (HandleAddNewRank pl name w)"
  by (simp add: HandleAddNewRank_def kept_basic)

lemma kept_HandleDisband: "P w \<Longrightarrow> P (HandleDisband env pl w)"
  by (simp add: HandleDisband_def kept_basic)

lemma kept_rank_bank:
  "P w \<Longrightarrow> P (SetRankBankTabRightsAndSlots r tab rs w)" "P w \<Longrightarrow> P (SetRankBankMoneyPerDay r money w)"
  by (auto simp: SetRankBankTabRightsAndSlots_def SetRankBankMoneyPerDay_def kept_SetTab kept_SetMoney kept_basic GetRankInfo_None)

lemma kept_HandleSetRankInfo:
  assumes "P w"
  shows "P (HandleSetRankInfo pl r name rights money rss w)"
proof -
  have "P (fold (\<lambda>(tab, rs). SetRankBankTabRightsAndSlots r tab rs) xs v)" if "P v" for xs v
    using that by (induction xs arbitrary: v) (auto simp: kept_rank_bank)
  then show ?thesis
    using assms by (auto simp: HandleSetRankInfo_def kept_basic kept_SetName kept_SetRights kept_rank_bank GetRankInfo_None)
qed

lemma kept_tab_bought: "P w \<Longrightarrow> P (tab_bought pl tab w)"
  by (simp add: tab_bought_def kept_rank_bank)

lemma kept_HandleBuyBankTab: "P w \<Longrightarrow> P (HandleBuyBankTab pl tab w)"
  by (auto simp: HandleBuyBankTab_def Let_def kept_tab_bought kept_pay kept_tab CreateNewBankTab_keeps split: option.split)

lemma kept_HandleSpellEffectBuyBankTab: "P w \<Longrightarrow> P (HandleSpellEffectBuyBankTab pl tab w)"
  by (auto simp: HandleSpellEffectBuyBankTab_def kept_tab_bought kept_tab split: option.split)

lemma kept_swap_ranks:
  assumes "P w"
  shows "P (swap_ranks i up w)"
proof -
  have fold: "k < length (gd_ranks g)"
    if "fold (\<lambda>k best. if ri_rankId (gd_ranks g ! k) = i then Some k else best) ks best = Some k"
      "\<forall>k \<in> set ks. k < length (gd_ranks g)" "\<forall>k. best = Some k \<longrightarrow> k < length (gd_ranks g)" for g ks best k i
    using that by (induction ks arbitrary: best) (auto split: if_splits)
  have "k < length (gd_ranks g)" if "rank_index i g = Some k" for i k g
    using fold [of g i "[0..<length (gd_ranks g)]" None k] that by (auto simp: rank_index_def)
  then show ?thesis using assms by (auto simp: swap_ranks_def Let_def kept_SetName kept_SetRights split: option.split)
qed

lemma kept_HandleSetMemberNote:
  assumes "P w"
  shows "P (HandleSetMemberNote pl text guid pub w)"
proof (cases "GetMember guid (gw_guild w)")
  case None
  then show ?thesis using assms by (simp add: HandleSetMemberNote_def kept_basic)
next
  case (Some m)
  then have m: "map_find (GUID_LOPART guid) (gd_members (gw_guild w)) = Some m" by (simp add: GetMember_def)
  have "GUID_LOPART (gm_guid m) = GUID_LOPART guid" using guild_invD(2) [OF kept_inv [OF assms] m] by simp
  then show ?thesis
    using assms Some kept_pnote [OF assms m] kept_offnote [OF assms m] by (simp add: HandleSetMemberNote_def kept_basic)
qed

lemma kept_HandleSetMemberRank: "P w \<Longrightarrow> P (HandleSetMemberRank env pl target setter rank w)"
  by (auto simp: HandleSetMemberRank_def SendGuildRanksUpdate_def GetMember_def Let_def kept_basic kept_ChangeRank split: option.split)

lemma kept_new_leader:
  assumes "P w" "map_find low (gd_members (gw_guild w)) = Some m" "map_find k (gd_members (gw_guild w)) = Some old"
  shows "P (ChangeRank env k (gm_guid old) GR_OFFICER (SetLeaderGUID env low (gm_guid m) w))"
proof -
  have ok: "map_ok (gd_members (gw_guild w))" using guild_invD(1) [OF kept_inv [OF assms(1)]] .
  have "\<exists>x. map_find k (gd_members (gw_guild (SetLeaderGUID env low (gm_guid m) w))) = Some x \<and> gm_guid x = gm_guid old"
    using assms(2,3) by (auto simp: SetLeaderGUID_find [OF ok])
  then show ?thesis using kept_ChangeRank [OF kept_leader [OF assms(1,2)]] by metis
qed

lemma kept_HandleSetLeader:
  assumes "P w" "guild_env_ok env"
  shows "P (HandleSetLeader env pl name w)"
  using member_by_name_member [OF assms(2) guild_invD(1) [OF kept_inv [OF assms(1)]]] assms(1)
  by (auto simp: HandleSetLeader_def GetMember_def kept_basic kept_new_leader split: option.split)

lemma kept_SwitchGuildLeader: "P w \<Longrightarrow> P (snd (SwitchGuildLeader env pl w))"
  by (auto simp: SwitchGuildLeader_def GetMember_def Let_def kept_new_leader split: option.split)

lemma kept_DeleteMember:
  assumes "P w" "guild_env_ok env" "player_id guid"
  shows "P (DeleteMember env guid w)"
proof (cases "gd_leaderGuid (gw_guild w) = guid")
  case False
  then show ?thesis using assms by (simp add: DeleteMember_def kept_basic kept_erase)
next
  case True
  let ?ms = "gd_members (gw_guild w)"
  note ok = guild_invD(1) [OF kept_inv [OF assms(1)]]
  show ?thesis
  proof (cases "pick_guild_leader (GUID_LOPART guid) (ge_order env ?ms)")
    case None
    then show ?thesis using True assms(1) by (simp add: DeleteMember_def kept_basic)
  next
    case (Some x)
    obtain low m where x: "x = (low, m)" by (cases x)
    note m = pick_guild_leader_member [OF assms(2) ok Some [unfolded x]]
    have "gm_guid m \<noteq> guid" using m(2) guild_invD(2) [OF kept_inv [OF assms(1)] m(1)] by auto
    then have "P (erase_member env guid (if ge_FindPlayer env (gm_guid m) then
        (SetLeaderGUID env low (gm_guid m) w)\<lparr>gw_rank := (gw_rank (SetLeaderGUID env low (gm_guid m) w))(gm_guid m := GR_GUILDMASTER)\<rparr>
        else SetLeaderGUID env low (gm_guid m) w))"
      using kept_leader [OF assms(1) m(1)] assms(3) by (simp add: kept_erase kept_rank SetLeaderGUID_leader)
    then show ?thesis using True Some x by (simp add: DeleteMember_def kept_basic Let_def)
  qed
qed

lemma kept_HandleLeaveMember: "P w \<Longrightarrow> guild_env_ok env \<Longrightarrow> player_id pl \<Longrightarrow> P (HandleLeaveMember env pl w)"
  by (simp add: HandleLeaveMember_def kept_basic kept_DeleteMember)

lemma kept_HandleRemoveMember: "P w \<Longrightarrow> guild_env_ok env \<Longrightarrow> player_id guid \<Longrightarrow> P (HandleRemoveMember env pl guid w)"
  by (simp add: HandleRemoveMember_def kept_basic kept_DeleteMember split: option.split)

lemma kept_HandleAcceptMember:
  "P w \<Longrightarrow> player_id pl \<Longrightarrow> gw_guildId w pl = 0 \<Longrightarrow> ge_FindPlayer env pl \<Longrightarrow> \<not> gw_disbanded w \<Longrightarrow> P (HandleAcceptMember env pl w)"
  using kept_add [of w pl env GUILD_RANK_NONE]
  by (cases "guild_AddMember env pl GUILD_RANK_NONE w") (simp add: HandleAcceptMember_def kept_basic)

lemma kept_HandleMemberDepositMoney:
  "P w \<Longrightarrow> x \<le> gw_money w pl \<Longrightarrow> gd_bankMoney (gw_guild w) + x \<le> MAX_MONEY_AMOUNT \<Longrightarrow> P (HandleMemberDepositMoney env pl x w)"
  by (simp add: HandleMemberDepositMoney_def kept_deposit kept_basic)

lemma kept_HandleMemberWithdrawMoney:
  assumes "P w"
  shows "P (snd (HandleMemberWithdrawMoney env pl x repair w))"
proof -
  have rest: "P (snd (GetBankRemainingValue env pl GUILD_BANK_MAX_TABS w))"
    using assms by (simp add: GetBankRemainingValue_def Let_def kept_basic split: option.split)
  obtain left v where v: "GetBankRemainingValue env pl GUILD_BANK_MAX_TABS w = (left, v)" by (cases "GetBankRemainingValue env pl GUILD_BANK_MAX_TABS w")
  have bank: "gd_bankMoney (gw_guild v) = gd_bankMoney (gw_guild w)"
    using remaining_keeps(1) [of env pl GUILD_BANK_MAX_TABS w] v by simp
  show ?thesis
    using assms rest v bank
    by (simp add: HandleMemberWithdrawMoney_def Let_def kept_basic kept_withdraw kept_repair not_less min_le_iff_disj)
qed

text \<open>The packets, for a sender who is in the world; a guid in a packet that removes a member is that of a player.\<close>

lemma kept_with_guild: "with_guild pl f w = Inr v \<Longrightarrow> P w \<Longrightarrow> (in_guild pl w \<Longrightarrow> f w = Inr v \<Longrightarrow> P v) \<Longrightarrow> P v"
  by (auto simp: with_guild_def kept_basic split: if_splits)

lemma kept_with_own_guild: "with_own_guild pl f w = Inr v \<Longrightarrow> P w \<Longrightarrow> (in_guild pl w \<Longrightarrow> P (f w)) \<Longrightarrow> P v"
  by (auto simp: with_own_guild_def split: if_splits)

lemmas kept_commands = kept_HandleSetMOTD kept_HandleSetInfo kept_HandleSetEmblem kept_HandleInviteMember kept_HandleAddNewRank
  kept_HandleDisband kept_HandleSetRankInfo kept_HandleBuyBankTab kept_swap_ranks kept_HandleSetMemberNote kept_HandleSetMemberRank
  kept_HandleSetLeader kept_SwitchGuildLeader kept_HandleLeaveMember kept_HandleRemoveMember kept_HandleAcceptMember
  kept_HandleMemberDepositMoney kept_HandleMemberWithdrawMoney

lemma kept_packets_of_members:
  assumes "P w" "guild_env_ok env"
  shows "HandleGuildInviteOpcode env pl b w = Inr v \<Longrightarrow> P v"
    and "HandleGuildMasterReplaceOpcode env pl b w = Inr v \<Longrightarrow> P v"
    and "HandleGuildAssignRankOpcode env pl b w = Inr v \<Longrightarrow> P v"
    and "HandleGuildDisbandOpcode env pl b w = Inr v \<Longrightarrow> P v"
    and "HandleGuildLeaderOpcode env pl b w = Inr v \<Longrightarrow> P v"
    and "HandleGuildMOTDOpcode pl b w = Inr v \<Longrightarrow> P v"
    and "HandleSwapRanks pl b w = Inr v \<Longrightarrow> P v"
    and "HandleGuildSetNoteOpcode pl b w = Inr v \<Longrightarrow> P v"
    and "HandleGuildAddRankOpcode pl b w = Inr v \<Longrightarrow> P v"
    and "HandleGuildChangeInfoTextOpcode pl b w = Inr v \<Longrightarrow> P v"
  using assms
  by (auto simp: HandleGuildInviteOpcode_def HandleGuildMasterReplaceOpcode_def HandleGuildAssignRankOpcode_def Let_def
      HandleGuildDisbandOpcode_def HandleGuildLeaderOpcode_def HandleGuildMOTDOpcode_def HandleSwapRanks_def HandleGuildSetNoteOpcode_def
      HandleGuildAddRankOpcode_def HandleGuildChangeInfoTextOpcode_def kept_commands kept_basic
      split: option.splits if_splits elim!: kept_with_guild)

lemma kept_packets_of_bank:
  assumes "P w" "guild_env_ok env"
  shows "HandleSaveGuildEmblemOpcode env pl b w = Inr v \<Longrightarrow> P v"
    and "HandleGuildSetRankPermissionsOpcode env pl b w = Inr v \<Longrightarrow> P v"
    and "HandleGuildBankDepositMoney env pl b w = Inr v \<Longrightarrow> P v"
    and "HandleGuildBankWithdrawMoney env pl b w = Inr v \<Longrightarrow> P v"
    and "HandleGuildBankBuyTab env pl b w = Inr v \<Longrightarrow> P v"
    and "HandleGuildBankUpdateTab env pl b w = Inr v \<Longrightarrow> P v"
    and "HandleSetGuildBankTabText env pl b w = Inr v \<Longrightarrow> P v"
  using assms
  by (auto simp: HandleSaveGuildEmblemOpcode_def HandleGuildSetRankPermissionsOpcode_def HandleGuildBankDepositMoney_def
      HandleGuildBankWithdrawMoney_def HandleGuildBankBuyTab_def HandleGuildBankUpdateTab_def HandleSetGuildBankTabText_def
      kept_commands kept_basic split: if_splits elim!: kept_with_guild kept_with_own_guild)

lemma kept_handler:
  assumes "P w" "guild_env_ok env" "packet_ok env op pl b" "guild_handler env op pl b w = Inr v"
    and "op \<noteq> CMSG_GUILD_DECLINE" "op \<noteq> CMSG_GUILD_DEL_RANK"
  shows "P v"
proof -
  have pl: "player_id pl" "ge_FindPlayer env pl" using assms(3) by (simp_all add: packet_ok_def)
  have remove: "P v" if "op = CMSG_GUILD_REMOVE"
  proof -
    from assms(4) that obtain guid c where r: "read_guid_in [3, 1, 6, 0, 7, 2, 5, 4] [2, 6, 0, 1, 4, 3, 5, 7] b = Inr (guid, c)"
      "with_guild pl (\<lambda>w. Inr (HandleRemoveMember env pl guid w)) w = Inr v"
      by (auto simp: HandleGuildRemoveOpcode_def)
    have "player_id guid" using assms(3) r(1) that by (simp add: packet_ok_def removed_guid_def)
    then show ?thesis using r(2) assms(1,2) by (auto simp: kept_commands elim!: kept_with_guild)
  qed
  have leave: "P v" if "op = CMSG_GUILD_LEAVE"
    using assms(1,2,4) that pl by (auto simp: HandleGuildLeaveOpcode_def kept_commands elim!: kept_with_guild)
  have accept: "P v" if "op = CMSG_GUILD_ACCEPT"
    using assms(1,2,4) that pl by (auto simp: HandleGuildAcceptOpcode_def kept_commands split: if_splits)
  show ?thesis
    using kept_packets_of_members [OF assms(1,2)] kept_packets_of_bank [OF assms(1,2)] remove leave accept assms(4-6)
    by (cases op) simp_all
qed

lemma kept_run:
  assumes "guild_run ops w v" "P w" "CMSG_GUILD_DECLINE \<notin> ops" "CMSG_GUILD_DEL_RANK \<notin> ops"
  shows "P v"
  using assms(1)
proof (induction rule: guild_run.induct)
  case (guild_packet v env op pl b u)
  from kept_handler [OF guild_packet(6,2,4,5)] guild_packet(3) assms(3,4) show ?case by blast
qed (use assms(2) in \<open>simp_all add: kept_login kept_logout kept_commands kept_HandleSpellEffectBuyBankTab\<close>)

end

text \<open>Two packets break more: declining an invitation clears the guild field, and removing a rank renumbers the others.\<close>

locale guild_always = guild_kept +
  assumes kept_guildId: "P w \<Longrightarrow> P (w\<lparr>gw_guildId := gi\<rparr>)"
    and kept_RemoveRank: "P w \<Longrightarrow> HandleRemoveRank pl r w = Inr v \<Longrightarrow> P v"
begin

lemma kept_any_handler:
  assumes "P w" "guild_env_ok env" "packet_ok env op pl b" "guild_handler env op pl b w = Inr v"
  shows "P v"
proof -
  have decline: "P v" if "op = CMSG_GUILD_DECLINE"
    using assms(4) kept_guildId [OF kept_invited [OF assms(1)]] that by (auto simp: HandleGuildDeclineOpcode_def)
  have del: "P v" if "op = CMSG_GUILD_DEL_RANK"
    using assms(1,4) that by (auto simp: HandleGuildDelRankOpcode_def kept_RemoveRank elim!: kept_with_guild)
  show ?thesis using kept_handler [OF assms] decline del by blast
qed

lemma kept_any_run:
  assumes "guild_run ops w v" "P w"
  shows "P v"
  using assms(1)
proof (induction rule: guild_run.induct)
  case (guild_packet v env op pl b u)
  from kept_any_handler [OF guild_packet(6,2,4,5)] show ?case .
qed (use assms(2) in \<open>simp_all add: kept_login kept_logout kept_commands kept_HandleSpellEffectBuyBankTab\<close>)

end

end
