(* ===== verification/GuildInv.thy ===== *)
theory GuildInv
  imports GuildSteps
begin

text \<open>
  Guilds stay well-formed, and no money comes into being: the two interpretations of
  \<open>guild_always\<close>.
\<close>

unbundle bit_operations_syntax

section \<open>Well-formed guilds\<close>

lemma guild_inv_cong:
  assumes "guild_inv w" "gd_members (gw_guild v) = gd_members (gw_guild w)" "gd_leaderGuid (gw_guild v) = gd_leaderGuid (gw_guild w)"
    "gw_disbanded v = gw_disbanded w" "gd_ranks (gw_guild v) = gd_ranks (gw_guild w)"
    "length (gd_bankTabs (gw_guild v)) = length (gd_bankTabs (gw_guild w))"
    "gd_bankMoney (gw_guild v) = gd_bankMoney (gw_guild w)" "gw_money v = gw_money w"
  shows "guild_inv v"
  using assms unfolding guild_inv_def by simp

text \<open>The members keep their guids and the number of their columns.\<close>

lemma guild_inv_members:
  assumes "guild_inv w" "map_ok M"
    and members: "\<And>k. rel_option (\<lambda>m' m. gm_guid m' = gm_guid m \<and> length (gm_bankRemaining m') = length (gm_bankRemaining m))
      (map_find k M) (map_find k (gd_members (gw_guild w)))"
    and v: "gd_members (gw_guild v) = M" "gd_leaderGuid (gw_guild v) = gd_leaderGuid (gw_guild w)"
    "gw_disbanded v = gw_disbanded w" "gd_ranks (gw_guild v) = gd_ranks (gw_guild w)"
    "gd_bankTabs (gw_guild v) = gd_bankTabs (gw_guild w)"
    "gd_bankMoney (gw_guild v) = gd_bankMoney (gw_guild w)" "gw_money v = gw_money w"
  shows "guild_inv v"
proof -
  have "member_ok k m" if "map_find k M = Some m" for k m
    using members [of k] assms(1) that by (auto simp: option_rel_Some1 guild_inv_def member_ok_def)
  moreover have "\<exists>m'. map_find k M = Some m'" if "map_find k (gd_members (gw_guild w)) = Some m" for k m
    using members [of k] that by (auto simp: option_rel_Some2)
  ultimately show ?thesis using assms(1,2) v unfolding guild_inv_def by simp metis
qed

lemma guild_inv_upd_member:
  assumes "guild_inv w"
    and f: "\<And>m. gm_guid (f m) = gm_guid m" "\<And>m. length (gm_bankRemaining (f m)) = length (gm_bankRemaining m)"
    and v: "gd_members (gw_guild v) = upd_row low f (gd_members (gw_guild w))" "gd_leaderGuid (gw_guild v) = gd_leaderGuid (gw_guild w)"
    "gw_disbanded v = gw_disbanded w" "gd_ranks (gw_guild v) = gd_ranks (gw_guild w)"
    "gd_bankTabs (gw_guild v) = gd_bankTabs (gw_guild w)"
    "gd_bankMoney (gw_guild v) = gd_bankMoney (gw_guild w)" "gw_money v = gw_money w"
  shows "guild_inv v"
proof (rule guild_inv_members [OF assms(1) _ _ v])
  note ok = guild_invD(1) [OF assms(1)]
  show "map_ok (upd_row low f (gd_members (gw_guild w)))" using ok by (rule map_ok_upd_row)
  show "rel_option (\<lambda>m' m. gm_guid m' = gm_guid m \<and> length (gm_bankRemaining m') = length (gm_bankRemaining m))
      (map_find k (upd_row low f (gd_members (gw_guild w)))) (map_find k (gd_members (gw_guild w)))" for k
    by (cases "map_find k (gd_members (gw_guild w))") (auto simp: map_find_upd_row [OF ok] f)
qed

lemma map_find_map: "map_find k (map (\<lambda>(k, m). (k, f m)) M) = map_option f (map_find k M)"
  by (simp add: map_find_def map_of_map)

lemma map_ok_map: "map_ok (map (\<lambda>(k, m). (k, f m)) M) = map_ok M"
  by (simp add: map_ok_def case_prod_beta comp_def)

lemma guild_inv_reset:
  assumes "guild_inv w" "\<And>rs. length (f rs) = length rs"
  shows "guild_inv (reset_members r f w)"
proof (rule guild_inv_members [OF assms(1)])
  let ?f = "\<lambda>m. if IsRank r m then m\<lparr>gm_bankRemaining := f (gm_bankRemaining m)\<rparr> else m"
  show "map_ok (map (\<lambda>(k, m). (k, ?f m)) (gd_members (gw_guild w)))"
    unfolding map_ok_map by (rule guild_invD(1) [OF assms(1)])
  show "rel_option (\<lambda>m' m. gm_guid m' = gm_guid m \<and> length (gm_bankRemaining m') = length (gm_bankRemaining m))
      (map_find k (map (\<lambda>(k, m). (k, ?f m)) (gd_members (gw_guild w)))) (map_find k (gd_members (gw_guild w)))" for k
    unfolding map_find_map by (cases "map_find k (gd_members (gw_guild w))") (auto simp: assms(2))
qed (simp_all add: world_updates)

text \<open>The ranks keep their numbers and the number of their tabs.\<close>

lemma guild_inv_ranks:
  assumes "guild_inv w" "GUILD_RANKS_MIN_COUNT \<le> length R" "length R \<le> GUILD_RANKS_MAX_COUNT"
    and "\<And>i. i < length R \<Longrightarrow> rank_ok i (R ! i)"
    and v: "gd_ranks (gw_guild v) = R" "gd_members (gw_guild v) = gd_members (gw_guild w)" "gd_leaderGuid (gw_guild v) = gd_leaderGuid (gw_guild w)"
    "gw_disbanded v = gw_disbanded w" "gd_bankTabs (gw_guild v) = gd_bankTabs (gw_guild w)"
    "gd_bankMoney (gw_guild v) = gd_bankMoney (gw_guild w)" "gw_money v = gw_money w"
  shows "guild_inv v"
  using assms unfolding guild_inv_def by simp

lemma guild_inv_upd_rank:
  assumes "guild_inv w" "i < length (gd_ranks (gw_guild w))"
    and f: "\<And>r. ri_rankId (f r) = ri_rankId r" "\<And>r. length (ri_tabs (f r)) = length (ri_tabs r)"
    and v: "gd_ranks (gw_guild v) = (gd_ranks (gw_guild w))[i := f (gd_ranks (gw_guild w) ! i)]"
    "gd_members (gw_guild v) = gd_members (gw_guild w)" "gd_leaderGuid (gw_guild v) = gd_leaderGuid (gw_guild w)"
    "gw_disbanded v = gw_disbanded w" "gd_bankTabs (gw_guild v) = gd_bankTabs (gw_guild w)"
    "gd_bankMoney (gw_guild v) = gd_bankMoney (gw_guild w)" "gw_money v = gw_money w"
  shows "guild_inv v"
  by (rule guild_inv_ranks [OF assms(1) _ _ _ v])
    (use guild_invD(7,8,9) [OF assms(1)] assms(2) in \<open>auto simp: nth_list_update rank_ok_def f\<close>)

subsection \<open>Each step\<close>

lemma guild_inv_plain:
  assumes "guild_inv w"
  shows "guild_inv (w\<lparr>gw_answers := a\<rparr>)" "guild_inv (w\<lparr>gw_invited := iv\<rparr>)" "guild_inv (w\<lparr>gw_rank := rk\<rparr>)" "guild_inv (w\<lparr>gw_guildId := gi\<rparr>)"
    and "guild_inv (upd_guild_row (gr_motd_update (\<lambda>_. t)) (upd_guild (gd_motd_update (\<lambda>_. t)) w))"
    and "guild_inv (upd_guild_row (gr_info_update (\<lambda>_. t)) (upd_guild (gd_info_update (\<lambda>_. t)) w))"
    and "guild_inv (upd_guild_row (gr_emblem_update (\<lambda>_. e)) (upd_guild (gd_emblem_update (\<lambda>_. e)) w))"
    and "guild_inv (UpdateAccountsNumber w)" "guild_inv (guild_login env pl w)" "guild_inv (upd_db dbf w)" "guild_inv (w\<lparr>gw_lastInvite := li\<rparr>)"
  by (rule guild_inv_cong [OF assms]; simp add: world_updates UpdateAccountsNumber_def guild_login_def Let_def)+

lemma guild_inv_tabs:
  assumes "guild_inv w"
  shows "guild_inv (HandleSetBankTabInfo tabId name icon w)" "guild_inv (SetBankTabText env tabId name w)"
    and "CreateNewBankTab w = Some v \<Longrightarrow> guild_inv v"
proof -
  show "guild_inv (HandleSetBankTabInfo tabId name icon w)" "guild_inv (SetBankTabText env tabId name w)"
    by (rule guild_inv_cong [OF assms]; simp add: world_updates HandleSetBankTabInfo_def SetBankTabText_def Let_def)+
  assume "CreateNewBankTab w = Some v"
  then show "guild_inv v"
    using assms by (auto simp: CreateNewBankTab_def guild_inv_def world_updates Let_def split: if_splits)
qed

lemma guild_inv_logs:
  assumes "guild_inv w"
  shows "guild_inv (LogEvent env ty p1 p2 nr w)" "guild_inv (LogBankMoneyEvent env bty low x w)"
  by (rule guild_inv_cong [OF assms]; simp add: world_updates LogEvent_def LogBankMoneyEvent_def split: prod.split)+

lemma guild_inv_member_steps:
  assumes "guild_inv w"
  shows "guild_inv (ChangeRank env low g nrank w)" "guild_inv (HandleMemberLogout env pl w)"
    and "guild_inv (upd_member_row low rf (upd_member low (gm_publicNote_update (\<lambda>_. t)) w))"
    and "guild_inv (upd_member_row low rf (upd_member low (gm_officerNote_update (\<lambda>_. t)) w))"
    and "guild_inv (set_remaining guid tab val w)"
proof -
  show "guild_inv (ChangeRank env low g nrank w)"
    by (rule guild_inv_upd_member [OF assms, where f = "gm_rankId_update (\<lambda>_. ucast (ucast nrank :: u8))" and low = low])
      (simp_all add: ChangeRank_def world_updates Let_def)
  show "guild_inv (HandleMemberLogout env pl w)"
    by (rule guild_inv_upd_member [OF assms, where f = "\<lambda>m. m\<lparr>gm_stats := ge_player_stats env pl, gm_logoutTime := ge_now env\<rparr>"])
      (simp_all add: HandleMemberLogout_def world_updates)
  show "guild_inv (upd_member_row low rf (upd_member low (gm_publicNote_update (\<lambda>_. t)) w))"
    by (rule guild_inv_upd_member [OF assms, where f = "gm_publicNote_update (\<lambda>_. t)" and low = low]) (simp_all add: world_updates)
  show "guild_inv (upd_member_row low rf (upd_member low (gm_officerNote_update (\<lambda>_. t)) w))"
    by (rule guild_inv_upd_member [OF assms, where f = "gm_officerNote_update (\<lambda>_. t)" and low = low]) (simp_all add: world_updates)
  show "guild_inv (set_remaining guid tab val w)"
    by (rule guild_inv_upd_member [OF assms, where f = "\<lambda>m. m\<lparr>gm_bankRemaining := (gm_bankRemaining m)[tab := val]\<rparr>" and low = "GUID_LOPART guid"])
      (simp_all add: set_remaining_def world_updates)
qed

lemma guild_inv_decrease:
  assumes "guild_inv w"
  shows "guild_inv (DecreaseBankRemainingValue guid tab u w)"
proof (cases "GetMember guid (gw_guild w)")
  case None
  then show ?thesis using assms by (simp add: DecreaseBankRemainingValue_def)
next
  case (Some m)
  show ?thesis
    by (rule guild_inv_upd_member [OF assms, where low = "GUID_LOPART guid" and
        f = "\<lambda>x. x\<lparr>gm_bankRemaining := (gm_bankRemaining x)[tab := (gm_bankRemaining x ! tab)\<lparr>rv_value := rv_value (gm_bankRemaining m ! tab) - u\<rparr>]\<rparr>"])
      (simp_all add: DecreaseBankRemainingValue_def Some world_updates Let_def)
qed

lemma guild_inv_leader_change:
  assumes "guild_inv w" "map_find low (gd_members (gw_guild w)) = Some m"
  shows "guild_inv (SetLeaderGUID env low (gm_guid m) w)"
proof -
  have g: "gm_guid m = player_guid low" using guild_invD(2) [OF assms] .
  have "guild_inv (upd_guild (gd_leaderGuid_update (\<lambda>_. gm_guid m)) w)"
    using assms g unfolding guild_inv_def by (simp add: world_updates) blast
  then have "guild_inv (ChangeRank env low (gm_guid m) GR_GUILDMASTER (upd_guild (gd_leaderGuid_update (\<lambda>_. gm_guid m)) w))"
    by (rule guild_inv_member_steps(1))
  then show ?thesis unfolding SetLeaderGUID_def upd_guild_row_def by (rule guild_inv_plain(10))
qed

lemma guild_inv_rank_steps:
  assumes "guild_inv w" "i < length (gd_ranks (gw_guild w))"
  shows "guild_inv (rank_SetName i name w)" "guild_inv (rank_SetRights i rights w)"
    and "guild_inv (rank_SetBankMoneyPerDay i money w)" "guild_inv (rank_SetBankTabSlotsAndRights i tab rs w)"
proof -
  note set = guild_inv_upd_rank [OF assms]
  show "guild_inv (rank_SetName i name w)"
    using assms(1) unfolding rank_SetName_def Let_def
    by (auto intro!: set [where f = "ri_name_update (\<lambda>_. name)"] simp: world_updates)
  show "guild_inv (rank_SetRights i rights w)"
    using assms(1) unfolding rank_SetRights_def Let_def
    by (auto intro!: set [where f = "ri_rights_update (\<lambda>_. if ri_rankId (gd_ranks (gw_guild w) ! i) = GR_GUILDMASTER then GR_RIGHT_ALL else rights)"] simp: world_updates)
  show "guild_inv (rank_SetBankMoneyPerDay i money w)"
    using assms(1) unfolding rank_SetBankMoneyPerDay_def Let_def
    by (auto intro!: set [where f = "ri_bankMoneyPerDay_update
          (\<lambda>_. if ri_rankId (gd_ranks (gw_guild w) ! i) = GR_GUILDMASTER then GUILD_WITHDRAW_UNLIMITED else money)"] simp: world_updates)
  show "guild_inv (rank_SetBankTabSlotsAndRights i tab rs w)"
    using assms(1) unfolding rank_SetBankTabSlotsAndRights_def Let_def
    by (auto intro!: set [where f = "\<lambda>r. r\<lparr>ri_tabs := (ri_tabs r)
          [tab := if ri_rankId (gd_ranks (gw_guild w) ! i) = GR_GUILDMASTER then SetGuildMasterValues else rs]\<rparr>"] simp: world_updates)
qed

lemma guild_inv_CreateRank:
  assumes "guild_inv w"
  shows "guild_inv (CreateRank name rights w)"
proof (cases "length (gd_ranks (gw_guild w)) \<ge> GUILD_RANKS_MAX_COUNT")
  case True
  then show ?thesis using assms by (simp add: CreateRank_def)
next
  case False
  let ?r = "\<lparr>ri_rankId = of_nat (length (gd_ranks (gw_guild w))), ri_name = name, ri_rights = rights, ri_bankMoneyPerDay = 0,
    ri_tabs = replicate GUILD_BANK_MAX_TABS \<lparr>br_rights = 0, br_slots = 0\<rparr>\<rparr>"
  show ?thesis
    by (rule guild_inv_ranks [OF assms, where R = "gd_ranks (gw_guild w) @ [?r]"])
      (use guild_invD(7,8,9) [OF assms] False in \<open>auto simp: CreateRank_def Let_def world_updates nth_append rank_ok_def less_Suc_eq\<close>)
qed

lemma guild_inv_resets: "guild_inv w \<Longrightarrow> guild_inv (reset_members r ResetMoneyTime w)" "guild_inv w \<Longrightarrow> guild_inv (reset_members r ResetTabTimes w)"
  by (simp_all add: guild_inv_reset ResetMoneyTime_def ResetTabTimes_def)

subsection \<open>Members come and go\<close>

lemma guild_inv_add:
  assumes "guild_inv w" "player_id guid"
  shows "guild_inv (snd (guild_AddMember env guid jr w))"
proof -
  let ?low = "GUID_LOPART guid"
  have "guild_inv v" if v: "gd_members (gw_guild v) = map_set ?low (new_Member env guid r s) (gd_members (gw_guild w))"
    "gd_leaderGuid (gw_guild v) = gd_leaderGuid (gw_guild w)" "gw_disbanded v = gw_disbanded w" "gd_ranks (gw_guild v) = gd_ranks (gw_guild w)"
    "gd_bankTabs (gw_guild v) = gd_bankTabs (gw_guild w)" "gd_bankMoney (gw_guild v) = gd_bankMoney (gw_guild w)" "gw_money v = gw_money w" for v r s
  proof -
    note ok = guild_invD(1) [OF assms(1)]
    have new: "member_ok ?low (new_Member env guid r s)" using assms(2) by (simp add: member_ok_def player_id_def new_Member_def)
    have "\<exists>k m. gd_leaderGuid (gw_guild w) = player_guid k \<and> map_find k (map_set ?low (new_Member env guid r s) (gd_members (gw_guild w))) = Some m"
      if live: "\<not> gw_disbanded w"
    proof -
      obtain k m where k: "gd_leaderGuid (gw_guild w) = player_guid k" "map_find k (gd_members (gw_guild w)) = Some m"
        using guild_inv_leader [OF assms(1) live] by blast
      then show ?thesis by (intro exI [of _ k]) (simp add: map_find_set [OF ok])
    qed
    then show ?thesis using assms(1) new v unfolding guild_inv_def by (simp add: map_ok_set map_find_set)
  qed
  then show ?thesis using assms(1)
    by (auto simp: guild_AddMember_def Let_def member_SaveToDB_def UpdateAccountsNumber_def world_updates split: option.split)
qed

lemma guild_inv_erase:
  assumes "guild_inv w" "player_id guid" "gd_leaderGuid (gw_guild w) \<noteq> guid"
  shows "guild_inv (erase_member env guid w)"
proof -
  have "\<exists>k m. gd_leaderGuid (gw_guild w) = player_guid k \<and> map_find k (map_erase (GUID_LOPART guid) (gd_members (gw_guild w))) = Some m"
    if live: "\<not> gw_disbanded w"
  proof -
    obtain k m where k: "gd_leaderGuid (gw_guild w) = player_guid k" "map_find k (gd_members (gw_guild w)) = Some m"
      using guild_inv_leader [OF assms(1) live] by blast
    then have "k \<noteq> GUID_LOPART guid" using assms(2,3) by (auto simp: player_id_def)
    then show ?thesis using k by (auto simp: map_find_erase)
  qed
  then show ?thesis using assms(1) unfolding guild_inv_def erase_member_def
    by (simp add: Let_def world_updates map_ok_erase map_find_erase)
qed

lemma guild_inv_erase_disbanded: "guild_inv w \<Longrightarrow> gw_disbanded w \<Longrightarrow> guild_inv (erase_member env guid w) \<and> gw_disbanded (erase_member env guid w)"
  unfolding guild_inv_def erase_member_def by (simp add: Let_def world_updates map_ok_erase map_find_erase)

lemma erase_member_flag: "(erase_member env guid w)\<lparr>gw_disbanded := d\<rparr> = erase_member env guid (w\<lparr>gw_disbanded := d\<rparr>)"
  by (simp add: erase_member_def Let_def world_updates)

lemma erase_members_flag: "(fold (erase_member env) gs w)\<lparr>gw_disbanded := d\<rparr> = fold (erase_member env) gs (w\<lparr>gw_disbanded := d\<rparr>)"
  by (induction gs arbitrary: w) (simp_all add: erase_member_flag)

lemma guild_inv_disband:
  assumes "guild_inv w"
  shows "guild_inv (guild_Disband env w)"
proof -
  have start: "guild_inv (w\<lparr>gw_disbanded := True\<rparr>)" using assms unfolding guild_inv_def by simp
  have "guild_inv (fold (erase_member env) gs v) \<and> gw_disbanded (fold (erase_member env) gs v)" if "guild_inv v" "gw_disbanded v" for gs v
    using that by (induction gs arbitrary: v) (auto simp: guild_inv_erase_disbanded)
  then have "guild_inv ((fold (erase_member env) gs w)\<lparr>gw_disbanded := True\<rparr>)" for gs
    using start by (simp add: erase_members_flag)
  then show ?thesis unfolding guild_Disband_def Let_def guild_inv_def by (simp add: world_updates)
qed

subsection \<open>Removing a rank\<close>

definition renumber :: "nat \<Rightarrow> guild_world \<Rightarrow> guild_world" where
  "renumber n = fold (\<lambda>i w. if ri_rankId (gd_ranks (gw_guild w) ! i) \<noteq> of_nat i then rank_UpdateId i (of_nat i) w else w) [0..<n]"

lemma renumber_Suc:
  "renumber (Suc n) w = (if ri_rankId (gd_ranks (gw_guild (renumber n w)) ! n) \<noteq> of_nat n then rank_UpdateId n (of_nat n) (renumber n w) else renumber n w)"
  by (simp add: renumber_def)

lemma renumber_ranks:
  assumes "n \<le> length (gd_ranks (gw_guild w))"
  shows "\<exists>R d. renumber n w = w\<lparr>gw_guild := (gw_guild w)\<lparr>gd_ranks := R\<rparr>, gw_db := d\<rparr> \<and> length R = length (gd_ranks (gw_guild w)) \<and>
    (\<forall>j < length R. R ! j = (if j < n then (gd_ranks (gw_guild w) ! j)\<lparr>ri_rankId := of_nat j\<rparr> else gd_ranks (gw_guild w) ! j))"
  using assms
proof (induction n)
  case 0
  then show ?case by (auto simp: renumber_def intro!: exI [of _ "gd_ranks (gw_guild w)"] exI [of _ "gw_db w"])
next
  case (Suc n)
  then obtain R d where R: "renumber n w = w\<lparr>gw_guild := (gw_guild w)\<lparr>gd_ranks := R\<rparr>, gw_db := d\<rparr>" "length R = length (gd_ranks (gw_guild w))"
    "\<forall>j < length R. R ! j = (if j < n then (gd_ranks (gw_guild w) ! j)\<lparr>ri_rankId := of_nat j\<rparr> else gd_ranks (gw_guild w) ! j)" by auto
  have n: "R ! n = gd_ranks (gw_guild w) ! n" using R(2,3) Suc.prems by simp
  show ?case
  proof (cases "ri_rankId (R ! n) = of_nat n")
    case True
    then have "renumber (Suc n) w = renumber n w" by (simp add: renumber_Suc R(1))
    moreover have "R ! n = (gd_ranks (gw_guild w) ! n)\<lparr>ri_rankId := of_nat n\<rparr>" using True n by simp
    ultimately show ?thesis using R by (intro exI [of _ R] exI [of _ d]) (auto simp: less_Suc_eq)
  next
    case False
    let ?R = "R[n := (R ! n)\<lparr>ri_rankId := of_nat n\<rparr>]"
    have "\<exists>d. renumber (Suc n) w = w\<lparr>gw_guild := (gw_guild w)\<lparr>gd_ranks := ?R\<rparr>, gw_db := d\<rparr>"
      by (rule exI [of _ "gw_db (renumber (Suc n) w)"]) (use False in \<open>simp add: renumber_Suc R(1) rank_UpdateId_def Let_def world_updates\<close>)
    then show ?thesis using R(2,3) n Suc.prems by (auto simp: nth_list_update less_Suc_eq intro!: exI [of _ ?R])
  qed
qed

lemma HandleRemoveRank_cases:
  assumes "HandleRemoveRank pl rankId w = Inr v"
  shows "v = w \<or> v = SendCommandResult pl GUILD_INVITE_S ERR_GUILD_PERMISSIONS w \<or>
    GUILD_RANKS_MIN_COUNT < length (gd_ranks (gw_guild w)) \<and> unat rankId < length (gd_ranks (gw_guild w)) \<and>
    (\<exists>R d. v = w\<lparr>gw_guild := (gw_guild w)\<lparr>gd_ranks := R\<rparr>, gw_db := d\<rparr> \<and> length R = length (gd_ranks (gw_guild w)) - 1 \<and>
      (\<forall>j < length R. R ! j = (gd_ranks (gw_guild w) ! (if j < unat rankId then j else Suc j))\<lparr>ri_rankId := of_nat j\<rparr>))"
proof (cases "length (gd_ranks (gw_guild w)) \<le> GUILD_RANKS_MIN_COUNT \<or> \<not> guild_IsLeader pl (gw_guild w)")
  case True
  then show ?thesis using assms by (auto simp: HandleRemoveRank_def split: if_splits)
next
  case False
  let ?R = "gd_ranks (gw_guild w)"
  let ?d = "\<lambda>d. d\<lparr>db_rights := (\<lambda>(t, r). if r = ucast rankId then None else db_rights d (t, r)), db_ranks := map_erase (ucast rankId) (db_ranks d)\<rparr>"
  let ?S = "take (unat rankId) ?R @ drop (Suc (unat rankId)) ?R"
  define u where "u = upd_guild (\<lambda>g. g\<lparr>gd_ranks := take (unat rankId) (gd_ranks g) @ drop (Suc (unat rankId)) (gd_ranks g)\<rparr>) (upd_db ?d w)"
  have lt: "unat rankId < length ?R" and v: "v = renumber (length ?S) u"
    using assms False by (auto simp: HandleRemoveRank_def renumber_def u_def Let_def world_updates split: if_splits)
  have S: "gd_ranks (gw_guild u) = ?S" by (simp add: u_def world_updates)
  from renumber_ranks [of "length ?S" u] obtain R d where R: "v = u\<lparr>gw_guild := (gw_guild u)\<lparr>gd_ranks := R\<rparr>, gw_db := d\<rparr>" "length R = length ?S"
    "\<forall>j < length R. R ! j = (?S ! j)\<lparr>ri_rankId := of_nat j\<rparr>" unfolding v S by auto
  have "v = w\<lparr>gw_guild := (gw_guild w)\<lparr>gd_ranks := R\<rparr>, gw_db := d\<rparr>" using R(1) by (simp add: u_def world_updates)
  moreover have "length R = length ?R - 1" using R(2) lt by simp
  moreover have "\<forall>j < length R. R ! j = (?R ! (if j < unat rankId then j else Suc j))\<lparr>ri_rankId := of_nat j\<rparr>"
    using R(2,3) lt by (auto simp: nth_append)
  ultimately show ?thesis using False lt by auto
qed

lemma guild_inv_RemoveRank:
  assumes "guild_inv w" "HandleRemoveRank pl rankId w = Inr v"
  shows "guild_inv v"
  using HandleRemoveRank_cases [OF assms(2)]
proof (elim disjE conjE exE)
  fix R d
  assume R: "GUILD_RANKS_MIN_COUNT < length (gd_ranks (gw_guild w))" "v = w\<lparr>gw_guild := (gw_guild w)\<lparr>gd_ranks := R\<rparr>, gw_db := d\<rparr>"
    "length R = length (gd_ranks (gw_guild w)) - 1"
    "\<forall>j < length R. R ! j = (gd_ranks (gw_guild w) ! (if j < unat rankId then j else Suc j))\<lparr>ri_rankId := of_nat j\<rparr>"
  note D = guild_invD [OF assms(1)]
  have "rank_ok j (R ! j)" if "j < length R" for j
    using R(1,3,4) that D(7) [of j] D(7) [of "Suc j"] by (auto simp: rank_ok_def)
  then show "guild_inv v" by (intro guild_inv_ranks [OF assms(1), where R = R]) (use R D(8) in auto)
qed (use assms(1) in \<open>simp_all add: SendCommandResult_def guild_inv_plain\<close>)

section \<open>Money\<close>

text \<open>All the money there is: the purses of the players and the bank.\<close>

definition guild_money :: "guild_world \<Rightarrow> nat" where
  "guild_money w = (\<Sum>p \<in> UNIV. unat (gw_money w p)) + unat (gd_bankMoney (gw_guild w))"

lemma purses_update: "(\<Sum>p \<in> UNIV. unat ((m(pl := x)) p)) + unat (m pl) = (\<Sum>p \<in> UNIV. unat ((m :: u64 \<Rightarrow> u64) p)) + unat x"
proof -
  have "(\<Sum>p \<in> UNIV. unat ((m(pl := x)) p)) = unat x + (\<Sum>p \<in> UNIV - {pl}. unat ((m(pl := x)) p))"
    using sum.remove [of UNIV pl "\<lambda>p. unat ((m(pl := x)) p)"] by simp
  moreover have "(\<Sum>p \<in> UNIV - {pl}. unat ((m(pl := x)) p)) = (\<Sum>p \<in> UNIV - {pl}. unat (m p))" by (rule sum.cong) auto
  moreover have "(\<Sum>p \<in> UNIV. unat (m p)) = unat (m pl) + (\<Sum>p \<in> UNIV - {pl}. unat (m p))" using sum.remove [of UNIV pl "\<lambda>p. unat (m p)"] by simp
  ultimately show ?thesis by simp
qed

lemma pay_money:
  "guild_money (pay pl d w) + unat (gw_money w pl) = guild_money w + unat (modified_money (gw_money w pl) d)"
  using purses_update [of "gw_money w" pl "modified_money (gw_money w pl) d"] by (simp add: guild_money_def pay_def)

lemma guild_inv_pay:
  assumes "guild_inv w" "x \<le> gw_money w pl"
  shows "guild_inv (pay pl (- x) w)" "guild_money (pay pl (- x) w) + unat x = guild_money w"
proof -
  have m: "gw_money w pl \<le> MAX_MONEY_AMOUNT" by (rule guild_invD(6) [OF assms(1)])
  show "guild_inv (pay pl (- x) w)"
    using assms(1) modified_money_le [OF m assms(2)] unfolding guild_inv_def pay_def by simp
  have "unat (gw_money w pl - x) + unat x = unat (gw_money w pl)" using assms(2) by (simp add: unat_sub word_le_nat_alt)
  then show "guild_money (pay pl (- x) w) + unat x = guild_money w"
    using pay_money [of pl "- x" w] modified_money_pay [OF assms(2) m] by simp
qed

lemma guild_inv_bank:
  assumes "guild_inv w" "x \<le> gd_bankMoney (gw_guild w)"
  shows "guild_inv (snd (ModifyBankMoney x False w))" "guild_money (snd (ModifyBankMoney x False w)) + unat x = guild_money w"
proof -
  have u: "unat (gd_bankMoney (gw_guild w) - x) + unat x = unat (gd_bankMoney (gw_guild w))" using assms(2) by (simp add: unat_sub word_le_nat_alt)
  then have "gd_bankMoney (gw_guild w) - x \<le> MAX_MONEY_AMOUNT" using guild_invD(5) [OF assms(1)] by (simp add: word_le_nat_alt)
  then show "guild_inv (snd (ModifyBankMoney x False w))"
    using assms unfolding guild_inv_def by (simp add: ModifyBankMoney_def world_updates Let_def)
  show "guild_money (snd (ModifyBankMoney x False w)) + unat x = guild_money w"
    using u assms(2) by (simp add: ModifyBankMoney_def world_updates guild_money_def Let_def not_less [symmetric])
qed

lemma guild_inv_deposit:
  assumes "guild_inv w" "x \<le> gw_money w pl" "gd_bankMoney (gw_guild w) + x \<le> MAX_MONEY_AMOUNT"
  shows "guild_inv (pay pl (- x) (snd (ModifyBankMoney x True w)))" (is "guild_inv (pay pl _ ?v)")
    and "guild_money (pay pl (- x) (snd (ModifyBankMoney x True w))) = guild_money w"
proof -
  have le: "unat x \<le> 9999999999" "unat (gd_bankMoney (gw_guild w)) \<le> 9999999999"
    using assms(2) guild_invD(6) [OF assms(1), of pl] guild_invD(5) [OF assms(1)] by (simp_all add: word_le_nat_alt MAX_MONEY_AMOUNT_def)
  have sum: "unat (gd_bankMoney (gw_guild w) + x) = unat (gd_bankMoney (gw_guild w)) + unat x" using le by (simp add: unat_word_ariths)
  have v: "guild_inv ?v" using assms(1,3) unfolding guild_inv_def by (simp add: ModifyBankMoney_def world_updates Let_def)
  have m: "x \<le> gw_money ?v pl" "guild_money ?v = guild_money w + unat x"
    using assms(2) sum by (simp_all add: ModifyBankMoney_def world_updates guild_money_def Let_def)
  show "guild_inv (pay pl (- x) ?v)" "guild_money (pay pl (- x) ?v) = guild_money w" using guild_inv_pay [OF v m(1)] m(2) by simp_all
qed

text \<open>What the bank gives the purse may lose: a purse at the limit takes no more.\<close>

lemma guild_inv_withdraw:
  assumes "guild_inv w" "x \<le> gd_bankMoney (gw_guild w)"
  shows "guild_inv (pay pl x (snd (ModifyBankMoney x False w)))" (is "guild_inv (pay pl x ?v)")
    and "guild_money (pay pl x (snd (ModifyBankMoney x False w))) \<le> guild_money w"
proof -
  note v = guild_inv_bank [OF assms]
  have le: "x \<le> MAX_MONEY_AMOUNT" "gw_money ?v pl \<le> MAX_MONEY_AMOUNT"
    using assms(2) guild_invD(5) [OF assms(1)] guild_invD(6) [OF v(1)] by (auto intro: order_trans)
  note gain = modified_money_gain [OF le]
  show "guild_inv (pay pl x ?v)"
    using v(1) gain unfolding guild_inv_def pay_def by (simp add: word_le_nat_alt)
  show "guild_money (pay pl x ?v) \<le> guild_money w" using pay_money [of pl x ?v] v(2) gain by simp
qed

lemmas guild_inv_steps = guild_inv_plain(1-9,11) guild_inv_tabs guild_inv_logs guild_inv_member_steps guild_inv_decrease guild_inv_leader_change
  guild_inv_rank_steps guild_inv_CreateRank guild_inv_resets guild_inv_add guild_inv_erase guild_inv_disband guild_inv_RemoveRank
  guild_inv_pay guild_inv_bank guild_inv_deposit guild_inv_withdraw

interpretation well_formed: guild_always guild_inv
  by (unfold_locales; (assumption | (rule guild_inv_steps; assumption)))

subsection \<open>No step creates money\<close>

lemma guild_money_cong: "gw_money v = gw_money w \<Longrightarrow> gd_bankMoney (gw_guild v) = gd_bankMoney (gw_guild w) \<Longrightarrow> guild_money v = guild_money w"
  by (simp add: guild_money_def)

lemma erase_members_money: "guild_money (fold (erase_member env) gs w) = guild_money w"
  by (induction gs arbitrary: w) (simp_all add: erase_member_def Let_def world_updates guild_money_def)

lemma guild_money_steps:
  shows "guild_money (w\<lparr>gw_answers := a\<rparr>) = guild_money w" "guild_money (w\<lparr>gw_invited := iv\<rparr>) = guild_money w"
    and "guild_money (w\<lparr>gw_lastInvite := li\<rparr>) = guild_money w" "guild_money (w\<lparr>gw_rank := rk\<rparr>) = guild_money w" "guild_money (w\<lparr>gw_guildId := gi\<rparr>) = guild_money w"
    and "guild_money (upd_guild_row rf (upd_guild (gd_motd_update (\<lambda>_. t)) w)) = guild_money w"
    and "guild_money (upd_guild_row rf (upd_guild (gd_info_update (\<lambda>_. t)) w)) = guild_money w"
    and "guild_money (upd_guild_row rf (upd_guild (gd_emblem_update (\<lambda>_. e)) w)) = guild_money w"
    and "guild_money (UpdateAccountsNumber w) = guild_money w" "guild_money (guild_login env pl w) = guild_money w"
    and "guild_money (HandleSetBankTabInfo tabId name icon w) = guild_money w" "guild_money (SetBankTabText env tabId name w) = guild_money w"
    and "guild_money (LogEvent env ty p1 p2 nr w) = guild_money w" "guild_money (LogBankMoneyEvent env bty low x w) = guild_money w"
    and "guild_money (ChangeRank env low g nrank w) = guild_money w" "guild_money (HandleMemberLogout env pl w) = guild_money w"
    and "guild_money (upd_member_row low mf (upd_member low gf w)) = guild_money w" "guild_money (set_remaining guid tab val w) = guild_money w"
    and "guild_money (DecreaseBankRemainingValue guid tab u w) = guild_money w" "guild_money (SetLeaderGUID env low g w) = guild_money w"
    and "guild_money (rank_SetName i name w) = guild_money w" "guild_money (rank_SetRights i rights w) = guild_money w"
    and "guild_money (rank_SetBankMoneyPerDay i money w) = guild_money w" "guild_money (rank_SetBankTabSlotsAndRights i tab rs w) = guild_money w"
    and "guild_money (CreateRank name rights w) = guild_money w" "guild_money (reset_members r f w) = guild_money w"
    and "guild_money (snd (guild_AddMember env guid jr w)) = guild_money w" "guild_money (erase_member env guid w) = guild_money w"
  by (rule guild_money_cong; simp add: world_updates UpdateAccountsNumber_def guild_login_def HandleSetBankTabInfo_def SetBankTabText_def
      LogEvent_def LogBankMoneyEvent_def ChangeRank_def HandleMemberLogout_def set_remaining_def DecreaseBankRemainingValue_def SetLeaderGUID_def
      rank_SetName_def rank_SetRights_def rank_SetBankMoneyPerDay_def rank_SetBankTabSlotsAndRights_def CreateRank_def guild_AddMember_def
      member_SaveToDB_def erase_member_def Let_def split: prod.split option.split)+

lemma guild_money_disband: "guild_money (guild_Disband env w) = guild_money w"
  using erase_members_money [of env "map (\<lambda>x. gm_guid (snd x)) (ge_order env (gd_members (gw_guild w)))" w]
  by (simp add: guild_Disband_def Let_def world_updates guild_money_def)

lemma guild_money_tab: "CreateNewBankTab w = Some v \<Longrightarrow> guild_money v = guild_money w"
  by (auto simp: CreateNewBankTab_def Let_def world_updates guild_money_def split: if_splits)

lemma guild_money_RemoveRank: "HandleRemoveRank pl r w = Inr v \<Longrightarrow> guild_money v = guild_money w"
  by (drule HandleRemoveRank_cases) (auto simp: SendCommandResult_def guild_money_def)

definition money_bounded :: "nat \<Rightarrow> guild_world \<Rightarrow> bool" where
  "money_bounded t w \<longleftrightarrow> guild_inv w \<and> guild_money w \<le> t"

lemma money_bounded_step: "money_bounded t w \<Longrightarrow> guild_inv v \<Longrightarrow> guild_money v = guild_money w \<Longrightarrow> money_bounded t v"
  by (simp add: money_bounded_def)

lemma money_bounded_pay:
  assumes "money_bounded t w"
  shows "x \<le> gw_money w pl \<Longrightarrow> money_bounded t (pay pl (- x) w)"
    and "x \<le> gw_money w pl \<Longrightarrow> gd_bankMoney (gw_guild w) + x \<le> MAX_MONEY_AMOUNT \<Longrightarrow> money_bounded t (pay pl (- x) (snd (ModifyBankMoney x True w)))"
    and "x \<le> gd_bankMoney (gw_guild w) \<Longrightarrow> money_bounded t (pay pl x (snd (ModifyBankMoney x False w)))"
    and "x \<le> gd_bankMoney (gw_guild w) \<Longrightarrow> money_bounded t (snd (ModifyBankMoney x False w))"
  using assms guild_inv_pay [of w x pl] guild_inv_deposit [of w x pl] guild_inv_withdraw [of w x pl] guild_inv_bank [of w x]
  unfolding money_bounded_def by linarith+

lemma money_bounded_inv: "money_bounded t w \<Longrightarrow> guild_inv w"
  by (simp add: money_bounded_def)

interpretation money: guild_always "money_bounded t" for t
  by (unfold_locales; (erule money_bounded_inv | (rule money_bounded_pay; assumption) |
    (rule money_bounded_step, assumption, rule guild_inv_steps, erule money_bounded_inv, (assumption+)?,
      (rule guild_money_steps guild_money_disband | erule guild_money_tab guild_money_RemoveRank))))

end
