(* ===== verification/GuildLog.thy ===== *)
theory GuildLog
  imports Guild
begin

text \<open>
  The logs of a guild.  A log of \<open>n\<close> records keeps the last \<open>n\<close> events, numbered modulo \<open>n\<close>, and its rows
  are its entries.
\<close>

section \<open>The last events\<close>

definition log_entries :: "nat \<Rightarrow> 'a list \<Rightarrow> (u32 \<times> 'a) list" where
  "log_entries n xs = drop (length xs - n) (map (\<lambda>(i, x). (of_nat (i mod n), x)) (enumerate 0 xs))"

definition log_holds :: "'a list \<Rightarrow> 'a log_holder \<Rightarrow> 'a log_rows \<Rightarrow> bool" where
  "log_holds xs h rows \<longleftrightarrow> lh_maxRecords h \<noteq> 0 \<and> lh_log h = log_entries (unat (lh_maxRecords h)) xs \<and>
     lh_nextGUID h = (if xs = [] then GUILD_EVENT_LOG_GUID_UNDEFINED else of_nat ((length xs - 1) mod unat (lh_maxRecords h))) \<and>
     map_ok rows \<and> (\<forall>i. map_find i rows = map_of (lh_log h) i)"

lemma length_log_entries: "length (log_entries n xs) = min (length xs) n"
  by (simp add: log_entries_def)

lemma log_entries_snoc:
  assumes "0 < n"
  shows "log_entries n (xs @ [x]) =
    (if length xs \<ge> n then tl (log_entries n xs) else log_entries n xs) @ [(of_nat (length xs mod n), x)]"
  using assms by (auto simp: log_entries_def enumerate_append_eq tl_drop drop_Suc [symmetric] Suc_diff_le)

lemma nth_log_entries:
  assumes "j < length (log_entries n xs)"
  shows "log_entries n xs ! j = (of_nat ((length xs - n + j) mod n), xs ! (length xs - n + j))"
  using assms by (simp add: log_entries_def nth_enumerate_eq)

text \<open>The new number is that of the entry that goes, and of no other entry.\<close>

lemma new_number:
  assumes "0 < n" "n < 2 ^ 32" "j < length (log_entries n xs)"
  shows "fst (log_entries n xs ! j) = of_nat (length xs mod n) \<longleftrightarrow> n \<le> length xs \<and> j = 0"
proof -
  let ?i = "length xs - n + j"
  have j: "?i < length xs" "j < n" using assms(3) by (auto simp: length_log_entries)
  have lt: "?i mod n < 2 ^ 32" "length xs mod n < 2 ^ 32"
    using assms(1,2) mod_less_divisor [of n] by (meson less_trans)+
  have "(of_nat (?i mod n) :: u32) = of_nat (length xs mod n) \<longleftrightarrow> ?i mod n = length xs mod n"
    using lt by (simp add: word_unat_eq_iff unat_of_nat)
  also have "\<dots> \<longleftrightarrow> n dvd length xs - ?i" using j(1) mod_eq_dvd_iff_nat [of ?i "length xs" n] by auto
  also have "\<dots> \<longleftrightarrow> n \<le> length xs \<and> j = 0"
  proof (cases "n \<le> length xs")
    case True
    then have "length xs - ?i = n - j" by simp
    then show ?thesis using True j(2) assms(1) by (auto dest: dvd_imp_le)
  next
    case False
    then show ?thesis using j(1) by (auto dest: dvd_imp_le)
  qed
  finally show ?thesis using assms(3) by (simp add: nth_log_entries)
qed

lemma map_of_new_key: "k \<notin> fst ` set ys \<Longrightarrow> map_of (ys @ [(k, x)]) i = (if i = k then Some x else map_of ys i)"
  by (induction ys) auto

lemma old_entries:
  fixes xs :: "'a list"
  assumes "0 < n" "n < 2 ^ 32"
  defines "k \<equiv> of_nat (length xs mod n) :: u32" and "old \<equiv> if length xs \<ge> n then tl (log_entries n xs) else log_entries n xs"
  shows "k \<notin> fst ` set old" and "i \<noteq> k \<Longrightarrow> map_of old i = map_of (log_entries n xs) i"
proof -
  show "k \<notin> fst ` set old"
  proof
    assume "k \<in> fst ` set old"
    then obtain j where j: "j < length old" "fst (old ! j) = k" by (auto simp: in_set_conv_nth image_iff)
    then show False
      using new_number [OF assms(1,2), of "if length xs \<ge> n then Suc j else j" xs]
      by (auto simp: old_def k_def nth_tl split: if_splits)
  qed
  assume i: "i \<noteq> k"
  show "map_of old i = map_of (log_entries n xs) i"
  proof (cases "length xs \<ge> n")
    case True
    then obtain y ys where y: "log_entries n xs = y # ys" using assms(1) length_log_entries [of n xs] by (cases "log_entries n xs") auto
    then have "fst y = k" using new_number [OF assms(1,2), of 0 xs] True by (simp add: k_def)
    then show ?thesis using i True y by (cases y) (simp add: old_def)
  qed (simp add: old_def)
qed

section \<open>Adding an event\<close>

lemma next_number:
  assumes "log_holds xs h rows"
  shows "GetNextGUID h = (of_nat (length xs mod unat (lh_maxRecords h)), h\<lparr>lh_nextGUID := of_nat (length xs mod unat (lh_maxRecords h))\<rparr>)"
proof (cases "xs = []")
  case True
  then show ?thesis using assms by (simp add: log_holds_def GetNextGUID_def Let_def)
next
  case False
  let ?n = "unat (lh_maxRecords h)" and ?a = "(length xs - 1) mod unat (lh_maxRecords h)"
  have n: "0 < ?n" using assms by (simp add: log_holds_def unat_gt_0)
  have n32: "?n < 2 ^ 32" using unsigned_less [of "lh_maxRecords h"] by simp
  have a: "?a < ?n" using n by simp
  then have small: "?a < 4294967295" using n32 by simp
  have "(of_nat ?a :: u32) \<noteq> GUILD_EVENT_LOG_GUID_UNDEFINED"
    using small by (simp add: GUILD_EVENT_LOG_GUID_UNDEFINED_def word_unat_eq_iff unat_of_nat)
  moreover have "(of_nat ?a + 1) mod lh_maxRecords h = of_nat (length xs mod ?n)"
  proof -
    have "unat ((of_nat ?a + 1 :: u32)) = ?a + 1" using small by (simp add: unat_word_ariths unat_of_nat)
    moreover have "(?a + 1) mod ?n = length xs mod ?n" using False by (simp add: mod_Suc_eq)
    ultimately have "unat ((of_nat ?a + 1) mod lh_maxRecords h) = length xs mod ?n" by (simp add: unat_mod)
    moreover have "unat (of_nat (length xs mod ?n) :: u32) = length xs mod ?n"
      using n32 mod_less_divisor [OF n, of "length xs"] by (simp add: unat_of_nat)
    ultimately show ?thesis by (simp add: word_unat_eq_iff)
  qed
  moreover have "lh_nextGUID h = of_nat ?a" using assms False by (simp add: log_holds_def)
  ultimately show ?thesis by (simp add: GetNextGUID_def Let_def)
qed

lemma log_event_holds:
  assumes "log_holds xs h rows" "log_event x h rows = (h', rows')"
  shows "log_holds (xs @ [x]) h' rows' \<and> lh_maxRecords h' = lh_maxRecords h"
proof -
  let ?n = "unat (lh_maxRecords h)" and ?k = "of_nat (length xs mod unat (lh_maxRecords h)) :: u32"
  let ?old = "if length xs \<ge> ?n then tl (log_entries ?n xs) else log_entries ?n xs"
  have n: "0 < ?n" "?n < 2 ^ 32" using assms(1) unsigned_less [of "lh_maxRecords h"] by (simp_all add: log_holds_def unat_gt_0)
  have log: "lh_log h = log_entries ?n xs" and ok: "map_ok rows" and rows: "\<And>i. map_find i rows = map_of (lh_log h) i"
    using assms(1) by (simp_all add: log_holds_def)
  have h': "h' = h\<lparr>lh_nextGUID := ?k, lh_log := ?old @ [(?k, x)]\<rparr>" and r': "rows' = map_set ?k x (map_erase ?k rows)"
    using assms(2) by (auto simp: log_event_def next_number [OF assms(1)] log_AddEvent_def log length_log_entries Let_def)
  have "map_find i rows' = map_of (?old @ [(?k, x)]) i" for i
    unfolding map_of_new_key [OF old_entries(1) [OF n, where xs = xs]] r'
    using old_entries(2) [OF n, where xs = xs and i = i] rows [of i] by (simp only: map_find_set [OF map_ok_erase [OF ok]] map_find_erase log) simp
  then show ?thesis
    using assms(1) n(1) ok by (simp add: log_holds_def h' log_entries_snoc r' map_ok_set map_ok_erase)
qed

lemma log_holds_start: "n \<noteq> 0 \<Longrightarrow> log_holds [] (new_LogHolder n) []"
  by (simp add: log_holds_def new_LogHolder_def log_entries_def map_ok_def map_find_def)

section \<open>Loading\<close>

lemma load_events:
  assumes "length (lh_log h) + length ys \<le> unat (lh_maxRecords h)" "lh_nextGUID h \<noteq> GUILD_EVENT_LOG_GUID_UNDEFINED"
  shows "fold log_LoadEvent ys h = h\<lparr>lh_log := rev ys @ lh_log h\<rparr>"
  using assms by (induction ys arbitrary: h) (simp_all add: log_LoadEvent_def)

lemma last_log_entry:
  assumes "log_holds xs h rows" "xs \<noteq> []"
  shows "lh_log h \<noteq> []" "fst (last (lh_log h)) = lh_nextGUID h" "lh_nextGUID h \<noteq> GUILD_EVENT_LOG_GUID_UNDEFINED"
proof -
  let ?n = "unat (lh_maxRecords h)"
  have n: "0 < ?n" "?n < 2 ^ 32" using assms(1) unsigned_less [of "lh_maxRecords h"] by (simp_all add: log_holds_def unat_gt_0)
  have log: "lh_log h = log_entries ?n xs" and nx: "lh_nextGUID h = of_nat ((length xs - 1) mod ?n)" using assms by (simp_all add: log_holds_def)
  have "log_entries ?n xs \<noteq> []" using n assms(2) length_log_entries [of ?n xs] by (metis length_greater_0_conv min_less_iff_conj)
  then show "lh_log h \<noteq> []" using log by simp
  have "log_entries ?n xs = log_entries ?n (butlast xs @ [last xs])" using assms(2) by simp
  then show "fst (last (lh_log h)) = lh_nextGUID h" unfolding log nx by (simp add: log_entries_snoc [OF n(1)] length_butlast del: append_butlast_last_id)
  have "(length xs - 1) mod ?n < 4294967295" using mod_less_divisor [OF n(1), of "length xs - 1"] n(2) by simp
  then show "lh_nextGUID h \<noteq> GUILD_EVENT_LOG_GUID_UNDEFINED"
    by (simp add: nx GUILD_EVENT_LOG_GUID_UNDEFINED_def word_unat_eq_iff unat_of_nat)
qed

text \<open>Loading a log's entries, newest first, gives the log back, and the numbers go on where they were.\<close>

lemma log_reload:
  assumes "log_holds xs h rows"
  shows "fold log_LoadEvent (rev (lh_log h)) (new_LogHolder (lh_maxRecords h)) = h"
proof (cases "xs = []")
  case True
  then show ?thesis using assms by (simp add: log_holds_def log_entries_def new_LogHolder_def)
next
  case False
  note last = last_log_entry [OF assms False]
  obtain ys y where ys: "lh_log h = ys @ [y]" using last(1) by (metis append_butlast_last_id)
  have len: "length (lh_log h) \<le> unat (lh_maxRecords h)" using assms by (simp add: log_holds_def length_log_entries)
  let ?h = "log_LoadEvent y (new_LogHolder (lh_maxRecords h))"
  have h: "?h = h\<lparr>lh_log := [y]\<rparr>" using len last(2) ys by (simp add: log_LoadEvent_def new_LogHolder_def)
  have "fold log_LoadEvent (rev (lh_log h)) (new_LogHolder (lh_maxRecords h)) = fold log_LoadEvent (rev ys) ?h" by (simp add: ys)
  also have "\<dots> = ?h\<lparr>lh_log := rev (rev ys) @ lh_log ?h\<rparr>" by (rule load_events) (use len last(3) h ys in auto)
  also have "\<dots> = h" using h ys by simp
  finally show ?thesis .
qed

text \<open>
  C16: a log that starts empty and takes the events \<open>xs\<close> one by one holds exactly the last \<open>n\<close> of them, the event with
  index \<open>i\<close> under the number \<open>i mod n\<close>; its rows are its entries, and the log loaded from them newest first is the
  log itself, so that numbering goes on after a restart.
\<close>

theorem guild_log_keeps_last:
  assumes "n \<noteq> 0" and run: "fold (\<lambda>x (h, rows). log_event x h rows) xs (new_LogHolder n, []) = (h, rows)"
  shows "lh_log h = drop (length xs - unat n) (map (\<lambda>(i, x). (of_nat (i mod unat n), x)) (enumerate 0 xs)) \<and>
    (\<forall>i. map_find i rows = map_of (lh_log h) i) \<and>
    fold log_LoadEvent (rev (lh_log h)) (new_LogHolder n) = h"
proof -
  have "log_holds (ys @ xs) h rows \<and> lh_maxRecords h = n"
    if "fold (\<lambda>x (h, rows). log_event x h rows) xs (h0, r0) = (h, rows)" "log_holds ys h0 r0" "lh_maxRecords h0 = n" for ys h0 r0
    using that
  proof (induction xs arbitrary: ys h0 r0)
    case (Cons x xs)
    obtain h1 r1 where e: "log_event x h0 r0 = (h1, r1)" by (cases "log_event x h0 r0")
    have "log_holds (ys @ [x]) h1 r1 \<and> lh_maxRecords h1 = n" using log_event_holds [OF Cons.prems(2) e] Cons.prems(3) by simp
    then show ?case using Cons.IH [of h1 r1 "ys @ [x]"] Cons.prems(1) e by simp
  qed simp
  from this [OF run log_holds_start [OF assms(1)]] have "log_holds xs h rows" "lh_maxRecords h = n" by (simp_all add: new_LogHolder_def)
  then show ?thesis using log_reload [of xs h rows] by (simp add: log_holds_def log_entries_def)
qed

theorem guild_log_keeps_last_witness:
  "lh_log (fst (fold (\<lambda>x (h, rows). log_event x h rows) [10, 11, 12 :: nat] (new_LogHolder 2, []))) = [(1, 11), (0, 12)]"
proof -
  let ?r = "fold (\<lambda>x (h, rows). log_event x h rows) [10, 11, 12 :: nat] (new_LogHolder 2, [])"
  show ?thesis using guild_log_keeps_last [of 2 "[10, 11, 12]" "fst ?r" "snd ?r"] by simp
qed

end
