(* ===== verification/GuildRows.thy ===== *)
theory GuildRows
  imports GuildInv GuildLog
begin

text \<open>
  The rows of a guild say what the guild holds in memory: the third interpretation of \<open>guild_kept\<close>.
\<close>

unbundle bit_operations_syntax

section \<open>What the rows say\<close>

definition guild_row_of :: "guild \<Rightarrow> guild_row" where
  "guild_row_of g = \<lparr>gr_leaderguid = GUID_LOPART (gd_leaderGuid g), gr_motd = gd_motd g, gr_info = gd_info g, gr_emblem = gd_emblem g,
     gr_BankMoney = gd_bankMoney g\<rparr>"

definition rank_row_of :: "rank_info \<Rightarrow> rank_row" where
  "rank_row_of r = \<lparr>rr_rname = ri_name r, rr_rights = ri_rights r, rr_BankMoneyPerDay = ri_bankMoneyPerDay r\<rparr>"

text \<open>Rank, notes and what is left of the day's withdrawals; the times of the columns are not compared.\<close>

definition member_view :: "guild_member \<Rightarrow> u32 \<times> u8 list \<times> u8 list \<times> u32 list" where
  "member_view m = (gm_rankId m, gm_publicNote m, gm_officerNote m, map rv_value (gm_bankRemaining m))"

definition row_view :: "guild_member_row \<Rightarrow> u32 \<times> u8 list \<times> u8 list \<times> u32 list" where
  "row_view r = (ucast (mr_rank r), mr_pnote r, mr_offnote r, map rv_value (mr_remaining r))"

definition member_rows :: "(u32, guild_member) std_map \<Rightarrow> (u32, guild_member_row) std_map \<Rightarrow> bool" where
  "member_rows M D \<longleftrightarrow> map_ok D \<and> (\<forall>k. map_option row_view (map_find k D) = map_option member_view (map_find k M))"

definition list_rows :: "('a \<Rightarrow> 'b) \<Rightarrow> 'a list \<Rightarrow> (u8, 'b) std_map \<Rightarrow> bool" where
  "list_rows f xs D \<longleftrightarrow> map_ok D \<and> (\<forall>k. map_find k D = (if unat k < length xs then Some (f (xs ! unat k)) else None))"

definition rows_agree :: "guild_world \<Rightarrow> bool" where
  "rows_agree w \<longleftrightarrow> db_guild (gw_db w) = Some (guild_row_of (gw_guild w)) \<and>
     member_rows (gd_members (gw_guild w)) (db_members (gw_db w)) \<and>
     list_rows rank_row_of (gd_ranks (gw_guild w)) (db_ranks (gw_db w)) \<and>
     list_rows (\<lambda>t. t) (gd_bankTabs (gw_guild w)) (db_tabs (gw_db w)) \<and>
     (\<exists>xs. log_holds xs (gd_eventLog (gw_guild w)) (db_eventlog (gw_db w))) \<and>
     (\<exists>xs. log_holds xs (gd_moneyLog (gw_guild w)) (db_moneylog (gw_db w)))"

text \<open>The field of every member's player object names the guild.\<close>

definition fields_agree :: "guild_world \<Rightarrow> bool" where
  "fields_agree w \<longleftrightarrow> gd_id (gw_guild w) \<noteq> 0 \<and>
     (\<forall>k. map_find k (gd_members (gw_guild w)) \<noteq> None \<longrightarrow> gw_guildId w (player_guid k) = gd_id (gw_guild w))"

definition guild_saved :: "guild_world \<Rightarrow> bool" where
  "guild_saved w \<longleftrightarrow> guild_inv w \<and> (\<not> gw_disbanded w \<longrightarrow> rows_agree w \<and> fields_agree w)"

lemma guild_saved_inv: "guild_saved w \<Longrightarrow> guild_inv w"
  by (simp add: guild_saved_def)

lemma guild_savedI:
  assumes "guild_saved w" "guild_inv v" "gw_disbanded v = gw_disbanded w"
    and "\<not> gw_disbanded w \<Longrightarrow> rows_agree w \<Longrightarrow> fields_agree w \<Longrightarrow> rows_agree v \<and> fields_agree v"
  shows "guild_saved v"
  using assms by (simp add: guild_saved_def)

section \<open>Updates of rows\<close>

lemma member_rows_upd:
  assumes "member_rows M D" "map_ok M" "\<And>m r. map_find low M = Some m \<Longrightarrow> map_find low D = Some r \<Longrightarrow> row_view r = member_view m \<Longrightarrow> row_view (g r) = member_view (f m)"
  shows "member_rows (upd_row low f M) (upd_row low g D)"
proof -
  have ok: "map_ok D" and view: "\<And>k. map_option row_view (map_find k D) = map_option member_view (map_find k M)"
    using assms(1) by (simp_all add: member_rows_def)
  have "map_option row_view (map_find k (upd_row low g D)) = map_option member_view (map_find k (upd_row low f M))" for k
    using view [of k] assms(3) by (auto simp: map_find_upd_row [OF ok] map_find_upd_row [OF assms(2)] option.map_comp comp_def map_option_case split: option.splits)
  then show ?thesis using ok by (simp add: member_rows_def map_ok_upd_row)
qed

lemma member_rows_maps:
  assumes "member_rows M D" "\<And>m. member_view (f m) = member_view m" "\<And>r. row_view (g r) = row_view r"
  shows "member_rows (map (\<lambda>(k, m). (k, f m)) M) (map (\<lambda>(k, r). (k, g r)) D)"
  using assms unfolding member_rows_def map_ok_map map_find_map by (simp add: option.map_comp comp_def)

lemma member_rows_map_rows:
  assumes "member_rows M D" "\<And>r. row_view (g r) = row_view r"
  shows "member_rows M (map (\<lambda>(k, r). (k, g r)) D)"
  using member_rows_maps [OF assms(1), of "\<lambda>m. m" g] assms(2) by simp

lemma member_rows_map_members:
  assumes "member_rows M D" "\<And>m. member_view (f m) = member_view m"
  shows "member_rows (map (\<lambda>(k, m). (k, f m)) M) D"
  using member_rows_maps [OF assms(1), of f "\<lambda>r. r"] assms(2) by simp

lemma member_rows_upd_members:
  assumes "member_rows M D" "map_ok M" "\<And>m. member_view (f m) = member_view m"
  shows "member_rows (upd_row low f M) D"
  using assms unfolding member_rows_def
  by (simp add: map_find_upd_row option.map_comp comp_def)

lemma member_rows_set:
  assumes "member_rows M D" "map_ok M" "row_view r = member_view m"
  shows "member_rows (map_set low m M) (map_set low r D)"
  using assms unfolding member_rows_def by (simp add: map_find_set map_ok_set)

lemma member_rows_erase:
  assumes "member_rows M D"
  shows "member_rows (map_erase low M) (map_erase low D)"
  using assms unfolding member_rows_def by (simp add: map_find_erase map_ok_erase)

lemma list_rows_upd:
  assumes "list_rows f xs D" "i < length xs" "length xs \<le> 255" "g (f (xs ! i)) = f y"
  shows "list_rows f (xs[i := y]) (upd_row (of_nat i) g D)"
proof -
  have i: "unat (of_nat i :: u8) = i" using assms(2,3) by (simp add: unat_of_nat)
  have ok: "map_ok D" using assms(1) by (simp add: list_rows_def)
  have "k = of_nat i \<longleftrightarrow> unat k = i" for k :: u8 using i by (auto simp: word_unat_eq_iff)
  then show ?thesis using assms(1,2,4) i unfolding list_rows_def
    by (auto simp: map_find_upd_row [OF ok] map_ok_upd_row nth_list_update)
qed

lemma list_rows_same:
  assumes "list_rows f xs D" "f y = f (xs ! i)"
  shows "list_rows f (xs[i := y]) D"
  using assms unfolding list_rows_def by (cases "i < length xs") (auto simp: nth_list_update list_update_beyond)

lemma list_rows_snoc:
  assumes "list_rows f xs D" "length xs < 255"
  shows "list_rows f (xs @ [y]) (map_set (of_nat (length xs)) (f y) D)" "map_find (of_nat (length xs)) D = None"
proof -
  have i: "unat (of_nat (length xs) :: u8) = length xs" using assms(2) by (simp add: unat_of_nat)
  have ok: "map_ok D" using assms(1) by (simp add: list_rows_def)
  have "k = of_nat (length xs) \<longleftrightarrow> unat k = length xs" for k :: u8 using i by (auto simp: word_unat_eq_iff)
  then show "list_rows f (xs @ [y]) (map_set (of_nat (length xs)) (f y) D)" using assms(1) i unfolding list_rows_def
    by (auto simp: map_find_set [OF ok] map_ok_set nth_append less_Suc_eq)
  show "map_find (of_nat (length xs)) D = None" using assms(1) i unfolding list_rows_def by simp
qed

section \<open>Each step\<close>

lemmas saved_defs = rows_agree_def fields_agree_def guild_row_of_def world_updates

lemma guild_saved_plain:
  assumes "guild_saved w"
  shows "guild_saved (w\<lparr>gw_answers := a\<rparr>)" "guild_saved (w\<lparr>gw_invited := iv\<rparr>)" "guild_saved (w\<lparr>gw_rank := rk\<rparr>)"
    and "guild_saved (upd_guild_row (gr_motd_update (\<lambda>_. t)) (upd_guild (gd_motd_update (\<lambda>_. t)) w))"
    and "guild_saved (upd_guild_row (gr_info_update (\<lambda>_. t)) (upd_guild (gd_info_update (\<lambda>_. t)) w))"
    and "guild_saved (upd_guild_row (gr_emblem_update (\<lambda>_. e)) (upd_guild (gd_emblem_update (\<lambda>_. e)) w))"
    and "guild_saved (UpdateAccountsNumber w)" "guild_saved (w\<lparr>gw_lastInvite := li\<rparr>)"
  by (rule guild_savedI [OF assms]; (rule guild_inv_plain [OF guild_saved_inv [OF assms]] | simp add: saved_defs UpdateAccountsNumber_def))+

lemma guild_saved_pay:
  assumes "guild_saved w"
  shows "x \<le> gw_money w pl \<Longrightarrow> guild_saved (pay pl (- x) w)"
    and "x \<le> gw_money w pl \<Longrightarrow> gd_bankMoney (gw_guild w) + x \<le> MAX_MONEY_AMOUNT \<Longrightarrow> guild_saved (pay pl (- x) (snd (ModifyBankMoney x True w)))"
    and "x \<le> gd_bankMoney (gw_guild w) \<Longrightarrow> guild_saved (pay pl x (snd (ModifyBankMoney x False w)))"
    and "x \<le> gd_bankMoney (gw_guild w) \<Longrightarrow> guild_saved (snd (ModifyBankMoney x False w))"
  by (rule guild_savedI [OF assms]; ((rule guild_inv_steps [OF guild_saved_inv [OF assms]]; assumption) |
      simp add: saved_defs pay_def ModifyBankMoney_def Let_def))+

lemma guild_saved_members:
  assumes "guild_saved w"
  shows "guild_saved (set_remaining guid tab val w)" "guild_saved (HandleMemberLogout env pl w)"
    and "guild_saved (upd_member_row low (mr_pnote_update (\<lambda>_. t)) (upd_member low (gm_publicNote_update (\<lambda>_. t)) w))"
    and "guild_saved (upd_member_row low (mr_offnote_update (\<lambda>_. t)) (upd_member low (gm_officerNote_update (\<lambda>_. t)) w))"
    and "guild_saved (DecreaseBankRemainingValue guid tab u w)"
    and "map_find low (gd_members (gw_guild w)) = Some m \<Longrightarrow> guild_saved (ChangeRank env low (gm_guid m) nrank w)"
    and "map_find low (gd_members (gw_guild w)) = Some m \<Longrightarrow> guild_saved (SetLeaderGUID env low (gm_guid m) w)"
proof -
  note inv = guild_saved_inv [OF assms]
  note ok = guild_invD(1) [OF inv]
  note upd = map_find_upd_row [OF ok]
  show "guild_saved (set_remaining guid tab val w)"
    by (rule guild_savedI [OF assms guild_inv_member_steps(5) [OF inv]])
      (auto simp: saved_defs set_remaining_def upd row_view_def member_view_def map_update intro!: member_rows_upd ok)
  show "guild_saved (HandleMemberLogout env pl w)"
    by (rule guild_savedI [OF assms guild_inv_member_steps(2) [OF inv]])
      (auto simp: saved_defs HandleMemberLogout_def upd member_view_def intro!: member_rows_upd_members ok)
  show "guild_saved (upd_member_row low (mr_pnote_update (\<lambda>_. t)) (upd_member low (gm_publicNote_update (\<lambda>_. t)) w))"
    by (rule guild_savedI [OF assms guild_inv_member_steps(3) [OF inv]])
      (auto simp: saved_defs upd row_view_def member_view_def intro!: member_rows_upd ok)
  show "guild_saved (upd_member_row low (mr_offnote_update (\<lambda>_. t)) (upd_member low (gm_officerNote_update (\<lambda>_. t)) w))"
    by (rule guild_savedI [OF assms guild_inv_member_steps(4) [OF inv]])
      (auto simp: saved_defs upd row_view_def member_view_def intro!: member_rows_upd ok)
  show "guild_saved (DecreaseBankRemainingValue guid tab u w)"
    by (rule guild_savedI [OF assms guild_inv_decrease [OF inv]])
      (auto simp: saved_defs DecreaseBankRemainingValue_def Let_def upd row_view_def member_view_def map_update intro!: member_rows_upd ok split: option.split)
  assume m: "map_find low (gd_members (gw_guild w)) = Some m"
  have low: "GUID_LOPART (gm_guid m) = low" using guild_invD(2) [OF inv m] by simp
  show "guild_saved (ChangeRank env low (gm_guid m) nrank w)"
    by (rule guild_savedI [OF assms guild_inv_member_steps(1) [OF inv]])
      (auto simp: saved_defs ChangeRank_def Let_def upd low row_view_def member_view_def intro!: member_rows_upd ok)
  show "guild_saved (SetLeaderGUID env low (gm_guid m) w)"
    by (rule guild_savedI [OF assms guild_inv_leader_change [OF inv m]])
      (auto simp: saved_defs SetLeaderGUID_def ChangeRank_def Let_def upd low row_view_def member_view_def intro!: member_rows_upd ok)
qed

lemma guild_saved_reset:
  assumes "guild_saved w"
  shows "guild_saved (reset_members r ResetMoneyTime w)" "guild_saved (reset_members r ResetTabTimes w)"
proof -
  note inv = guild_saved_inv [OF assms]
  have view: "member_view (m\<lparr>gm_bankRemaining := ResetMoneyTime (gm_bankRemaining m)\<rparr>) = member_view m"
    "member_view (m\<lparr>gm_bankRemaining := ResetTabTimes (gm_bankRemaining m)\<rparr>) = member_view m" for m
  proof -
    have "map rv_value (xs[i := (xs ! i)\<lparr>rv_resetTime := 0\<rparr>]) = map rv_value xs" for xs :: "remaining_value list" and i
      by (cases "i < length xs") (simp_all add: map_update list_update_same_conv list_update_beyond)
    moreover have "map rv_value (ResetTabTimes xs) = map rv_value (take GUILD_BANK_MAX_TABS xs @ drop GUILD_BANK_MAX_TABS xs)" for xs
      unfolding ResetTabTimes_def map_append by (simp add: comp_def)
    ultimately show "member_view (m\<lparr>gm_bankRemaining := ResetMoneyTime (gm_bankRemaining m)\<rparr>) = member_view m"
      "member_view (m\<lparr>gm_bankRemaining := ResetTabTimes (gm_bankRemaining m)\<rparr>) = member_view m"
      by (simp_all add: member_view_def ResetMoneyTime_def)
  qed
  show "guild_saved (reset_members r ResetMoneyTime w)"
    by (rule guild_savedI [OF assms guild_inv_resets(1) [OF inv]])
      (auto simp: saved_defs map_find_map view intro!: member_rows_map_members)
  show "guild_saved (reset_members r ResetTabTimes w)"
    by (rule guild_savedI [OF assms guild_inv_resets(2) [OF inv]])
      (auto simp: saved_defs map_find_map view intro!: member_rows_map_members)
qed

lemma reset_row_view:
  "row_view (r\<lparr>mr_remaining := (mr_remaining r)[tab := (mr_remaining r ! tab)\<lparr>rv_resetTime := 0\<rparr>]\<rparr>) = row_view r"
  by (cases "tab < length (mr_remaining r)") (simp_all add: row_view_def map_update list_update_same_conv list_update_beyond)

lemma guild_saved_ranks:
  assumes "guild_saved w" and i: "i < length (gd_ranks (gw_guild w))"
  shows "guild_saved (rank_SetName i name w)" "guild_saved (rank_SetRights i rights w)"
    and "guild_saved (rank_SetBankMoneyPerDay i money w)" "guild_saved (rank_SetBankTabSlotsAndRights i tab rs w)"
proof -
  note inv = guild_saved_inv [OF assms(1)]
  have len: "length (gd_ranks (gw_guild w)) \<le> 255" using guild_invD(8) [OF inv] by (simp add: GUILD_RANKS_MAX_COUNT_def)
  have "take_bit 32 i = i" using i len by (intro take_bit_nat_eq_self) simp
  then have id: "(ucast (ri_rankId (gd_ranks (gw_guild w) ! i)) :: u8) = of_nat i"
    using guild_invD(7) [OF inv i] by (simp add: rank_ok_def unsigned_of_nat)
  note rows = list_rows_upd [OF _ i len]
  show "guild_saved (rank_SetName i name w)"
    by (rule guild_savedI [OF assms(1) guild_inv_rank_steps(1) [OF inv i]])
      (auto simp: saved_defs rank_SetName_def Let_def id rank_row_of_def intro!: rows)
  show "guild_saved (rank_SetRights i rights w)"
    by (rule guild_savedI [OF assms(1) guild_inv_rank_steps(2) [OF inv i]])
      (auto simp: saved_defs rank_SetRights_def Let_def id rank_row_of_def intro!: rows)
  show "guild_saved (rank_SetBankMoneyPerDay i money w)"
    by (rule guild_savedI [OF assms(1) guild_inv_rank_steps(3) [OF inv i]])
      (auto simp: saved_defs rank_SetBankMoneyPerDay_def Let_def id rank_row_of_def reset_row_view intro!: rows member_rows_map_rows)
  show "guild_saved (rank_SetBankTabSlotsAndRights i tab rs w)"
    by (rule guild_savedI [OF assms(1) guild_inv_rank_steps(4) [OF inv i]])
      (auto simp: saved_defs rank_SetBankTabSlotsAndRights_def Let_def id rank_row_of_def reset_row_view intro!: list_rows_same member_rows_map_rows)
qed

lemma guild_saved_new_rank:
  assumes "guild_saved w"
  shows "guild_saved (CreateRank name rights w)"
proof (rule guild_savedI [OF assms guild_inv_CreateRank [OF guild_saved_inv [OF assms]]])
  show "gw_disbanded (CreateRank name rights w) = gw_disbanded w" by (simp add: CreateRank_def Let_def world_updates)
  assume "rows_agree w" "fields_agree w"
  then show "rows_agree (CreateRank name rights w) \<and> fields_agree (CreateRank name rights w)"
    using list_rows_snoc(2) [of rank_row_of "gd_ranks (gw_guild w)" "db_ranks (gw_db w)"]
      list_rows_snoc(1) [of rank_row_of "gd_ranks (gw_guild w)" "db_ranks (gw_db w)" "\<lparr>ri_rankId = of_nat (length (gd_ranks (gw_guild w))), ri_name = name,
      ri_rights = rights, ri_bankMoneyPerDay = 0, ri_tabs = replicate GUILD_BANK_MAX_TABS \<lparr>br_rights = 0, br_slots = 0\<rparr>\<rparr>"]
    by (auto simp: saved_defs CreateRank_def Let_def rank_row_of_def GUILD_RANKS_MAX_COUNT_def)
qed

lemma guild_saved_tabs:
  assumes "guild_saved w"
  shows "guild_saved (HandleSetBankTabInfo tabId name icon w)" "guild_saved (SetBankTabText env tabId name w)"
    and "CreateNewBankTab w = Some v \<Longrightarrow> guild_saved v"
proof -
  note inv = guild_saved_inv [OF assms]
  let ?T = "gd_bankTabs (gw_guild w)"
  have len: "length ?T \<le> 8" using guild_invD(4) [OF inv] by (simp add: GUILD_BANK_MAX_TABS_def)
  have rows: "list_rows (\<lambda>t. t) (?T[unat tabId := y]) (upd_row tabId g D)"
    if "list_rows (\<lambda>t. t) ?T D" "unat tabId < length ?T" "g (?T ! unat tabId) = y" for y g D
    using list_rows_upd [of "\<lambda>t. t" ?T D "unat tabId" g y] that len by simp
  show "guild_saved (HandleSetBankTabInfo tabId name icon w)"
    by (rule guild_savedI [OF assms guild_inv_tabs(1) [OF inv]])
      (auto simp: saved_defs HandleSetBankTabInfo_def Let_def intro!: rows)
  show "guild_saved (SetBankTabText env tabId name w)"
    by (rule guild_savedI [OF assms guild_inv_tabs(2) [OF inv]])
      (auto simp: saved_defs SetBankTabText_def Let_def intro!: rows)
  assume v: "CreateNewBankTab w = Some v"
  have small: "length ?T < 255" using len by simp
  show "guild_saved v"
    by (rule guild_savedI [OF assms guild_inv_tabs(3) [OF inv v]])
      (use v list_rows_snoc(1) [of "\<lambda>t. t" ?T "db_tabs (gw_db w)", OF _ small] in \<open>auto simp: saved_defs CreateNewBankTab_def Let_def split: if_splits\<close>)
qed

lemma guild_saved_logs:
  assumes "guild_saved w"
  shows "guild_saved (LogEvent env ty p1 p2 nr w)" "guild_saved (LogBankMoneyEvent env bty low x w)"
proof -
  note inv = guild_saved_inv [OF assms]
  show "guild_saved (LogEvent env ty p1 p2 nr w)"
    by (rule guild_savedI [OF assms guild_inv_logs(1) [OF inv]])
      (auto simp: saved_defs LogEvent_def split: prod.split dest: log_event_holds)
  show "guild_saved (LogBankMoneyEvent env bty low x w)"
    by (rule guild_savedI [OF assms guild_inv_logs(2) [OF inv]])
      (auto simp: saved_defs LogBankMoneyEvent_def split: prod.split dest: log_event_holds)
qed

lemma member_rows_None: "member_rows M D \<Longrightarrow> map_find k D = None \<longleftrightarrow> map_find k M = None"
  unfolding member_rows_def by (metis map_option_is_None)

lemma guild_saved_login:
  assumes "guild_saved w"
  shows "guild_saved (guild_login env pl w)"
  by (rule guild_savedI [OF assms guild_inv_plain(9) [OF guild_saved_inv [OF assms]]])
    (auto simp: saved_defs guild_login_def GetGuildIdFromDB_def Let_def member_rows_None)

lemma guild_saved_erase:
  assumes "guild_saved w" "player_id guid" "gd_leaderGuid (gw_guild w) \<noteq> guid"
  shows "guild_saved (erase_member env guid w)"
proof (rule guild_savedI [OF assms(1) guild_inv_erase [OF guild_saved_inv [OF assms(1)] assms(2,3)]])
  show "gw_disbanded (erase_member env guid w) = gw_disbanded w" by (simp add: erase_member_def Let_def world_updates)
  have "player_guid k \<noteq> guid" if "k \<noteq> GUID_LOPART guid" for k using that by auto
  moreover assume "rows_agree w" "fields_agree w"
  ultimately show "rows_agree (erase_member env guid w) \<and> fields_agree (erase_member env guid w)"
    by (auto simp: saved_defs erase_member_def Let_def map_find_erase member_rows_erase split: if_splits)
qed

lemma byte_of_rank: "ucast (ucast (x :: u8) :: u32) = x"
  by (rule bit_word_eqI) (simp add: bit_simps)

lemma guild_saved_add:
  assumes "guild_saved w" "player_id guid" "gw_guildId w guid = 0" "ge_FindPlayer env guid"
  shows "guild_saved (snd (guild_AddMember env guid jr w))"
proof (rule guild_savedI [OF assms(1) guild_inv_add [OF guild_saved_inv [OF assms(1)] assms(2)]])
  show "gw_disbanded (snd (guild_AddMember env guid jr w)) = gw_disbanded w"
    by (simp add: guild_AddMember_def Let_def member_SaveToDB_def UpdateAccountsNumber_def world_updates split: option.split)
  assume r: "rows_agree w" "fields_agree w"
  let ?low = "GUID_LOPART guid"
  have guid: "player_guid ?low = guid" using assms(2) by (simp add: player_id_def)
  have "map_find ?low (gd_members (gw_guild w)) = None" using r(2) assms(3) guid by (auto simp: fields_agree_def)
  then have new: "map_find ?low (db_members (gw_db w)) = None" using r(1) member_rows_None by (auto simp: rows_agree_def)
  note ok = guild_invD(1) [OF guild_saved_inv [OF assms(1)]]
  show "rows_agree (snd (guild_AddMember env guid jr w)) \<and> fields_agree (snd (guild_AddMember env guid jr w))"
    using r assms(3,4) new guid
    by (auto simp: saved_defs guild_AddMember_def Let_def member_SaveToDB_def UpdateAccountsNumber_def map_find_set [OF ok] new_Member_def
        row_view_def member_view_def byte_of_rank intro!: member_rows_set ok)
qed

lemma guild_saved_disband: "guild_saved w \<Longrightarrow> guild_saved (guild_Disband env w)"
  using guild_inv_disband [of w env] by (simp add: guild_saved_def guild_Disband_def Let_def)

lemmas guild_saved_steps = guild_saved_plain guild_saved_pay guild_saved_members guild_saved_reset guild_saved_ranks guild_saved_new_rank
  guild_saved_tabs guild_saved_logs guild_saved_login guild_saved_erase guild_saved_add guild_saved_disband

interpretation saved: guild_kept guild_saved
  by (unfold_locales; (erule guild_saved_inv | (rule guild_saved_steps; assumption)))

section \<open>A new guild\<close>

text \<open>
  The founder is a player in the world, the id is new, so that no rows with it are left, and the numbers of
  records in the logs are configured.
\<close>

definition fresh_guild :: "guild_env \<Rightarrow> u32 \<Rightarrow> u64 \<Rightarrow> guild_world \<Rightarrow> bool" where
  "fresh_guild env newId leader w \<longleftrightarrow> newId \<noteq> 0 \<and> player_id leader \<and> ge_FindPlayer env leader \<and>
     ge_EVENT_LOG_COUNT env \<noteq> 0 \<and> ge_BANK_EVENT_LOG_COUNT env \<noteq> 0 \<and> (\<forall>p. gw_money w p \<le> MAX_MONEY_AMOUNT) \<and>
     db_tabs (gw_db w) = [] \<and> db_eventlog (gw_db w) = [] \<and> db_moneylog (gw_db w) = []"

definition default_rank :: "guild_env \<Rightarrow> nat \<Rightarrow> rank_info" where
  "default_rank env i = \<lparr>ri_rankId = of_nat i, ri_name = ge_default_name env i, ri_rights = (if i < 2 then GR_RIGHT_ALL else basic_rights),
     ri_bankMoneyPerDay = 0, ri_tabs = replicate GUILD_BANK_MAX_TABS \<lparr>br_rights = 0, br_slots = 0\<rparr>\<rparr>"

definition ranks_made :: "guild_env \<Rightarrow> nat \<Rightarrow> guild_world \<Rightarrow> guild_world \<Rightarrow> bool" where
  "ranks_made env n w v \<longleftrightarrow> (\<exists>D. v = w\<lparr>gw_guild := (gw_guild w)\<lparr>gd_ranks := map (default_rank env) [0..<n]\<rparr>,
      gw_db := (gw_db w)\<lparr>db_ranks := D, db_rights := \<lambda>_. None\<rparr>\<rparr> \<and> list_rows rank_row_of (map (default_rank env) [0..<n]) D)"

lemma ranks_made_Suc:
  assumes "ranks_made env n w v" "gd_bankTabs (gw_guild w) = []" "n < 10" "rights = (if n < 2 then GR_RIGHT_ALL else basic_rights)"
  shows "ranks_made env (Suc n) w (CreateRank (ge_default_name env n) rights v)"
proof -
  obtain D where v: "v = w\<lparr>gw_guild := (gw_guild w)\<lparr>gd_ranks := map (default_rank env) [0..<n]\<rparr>,
      gw_db := (gw_db w)\<lparr>db_ranks := D, db_rights := \<lambda>_. None\<rparr>\<rparr>" and D: "list_rows rank_row_of (map (default_rank env) [0..<n]) D"
    using assms(1) unfolding ranks_made_def by blast
  let ?D = "map_set (of_nat n) (rank_row_of (default_rank env n)) D"
  have none: "map_find (of_nat n) D = None" and rows: "list_rows rank_row_of (map (default_rank env) [0..<Suc n]) ?D"
    using list_rows_snoc(2) [OF D] list_rows_snoc(1) [OF D, of "default_rank env n"] assms(3) by simp_all
  have no_rights: "(\<lambda>(t :: u8, r :: u8). None :: (u8 \<times> u32) option) = (\<lambda>_. None)" by auto
  have "CreateRank (ge_default_name env n) rights v = w\<lparr>gw_guild := (gw_guild w)\<lparr>gd_ranks := map (default_rank env) [0..<Suc n]\<rparr>,
      gw_db := (gw_db w)\<lparr>db_ranks := ?D, db_rights := \<lambda>_. None\<rparr>\<rparr>"
    using none assms(2-4)
    by (auto simp: v CreateRank_def Let_def world_updates GUILD_RANKS_MAX_COUNT_def default_rank_def rank_row_of_def no_rights)
  then show ?thesis using rows unfolding ranks_made_def by blast
qed

lemma default_ranks:
  assumes "gd_ranks (gw_guild w) = []" "gd_bankTabs (gw_guild w) = []"
  shows "ranks_made env 5 w (CreateDefaultGuildRanks env w)"
proof -
  have "ranks_made env 0 w (upd_db (\<lambda>d. d\<lparr>db_ranks := [], db_rights := (\<lambda>_. None)\<rparr>) w)"
    using assms(1) unfolding ranks_made_def
    by (intro exI [of _ "[]"]) (simp add: world_updates list_rows_def map_ok_def map_find_def)
  from ranks_made_Suc [OF ranks_made_Suc [OF ranks_made_Suc [OF ranks_made_Suc [OF ranks_made_Suc [OF this assms(2)] assms(2)] assms(2)] assms(2)] assms(2)]
  show ?thesis by (simp add: CreateDefaultGuildRanks_def Let_def eval_nat_numeral)
qed

lemma guild_created:
  assumes "fresh_guild env newId leader w" "guild_Create env newId leader name w = (True, v)"
  shows "guild_saved v \<and> \<not> gw_disbanded v"
proof -
  let ?e = "\<lparr>em_style = 0, em_color = 0, em_borderStyle = 0, em_borderColor = 0, em_backgroundColor = 0\<rparr>"
  let ?motd = "map of_char ''No message set.''"
  let ?g = "\<lparr>gd_id = newId, gd_name = name, gd_leaderGuid = leader, gd_motd = ?motd, gd_info = [], gd_emblem = ?e,
               gd_accountsNumber = 0, gd_bankMoney = 0, gd_ranks = [], gd_members = [], gd_bankTabs = [], gd_level = 1,
               gd_eventLog = new_LogHolder (ge_EVENT_LOG_COUNT env), gd_moneyLog = new_LogHolder (ge_BANK_EVENT_LOG_COUNT env)\<rparr>"
  let ?u = "upd_db (\<lambda>d. d\<lparr>db_members := [], db_guild := Some
                \<lparr>gr_leaderguid = GUID_LOPART leader, gr_motd = ?motd, gr_info = [], gr_emblem = ?e, gr_BankMoney = 0\<rparr>\<rparr>) (w\<lparr>gw_guild := ?g, gw_disbanded := False\<rparr>)"
  have c: "guild_AddMember env leader 0 (CreateDefaultGuildRanks env ?u) = (True, v)"
    using assms(2) unfolding guild_Create_def Let_def .
  have "ranks_made env 5 ?u (CreateDefaultGuildRanks env ?u)" by (rule default_ranks) (simp_all add: world_updates)
  then obtain D where D: "CreateDefaultGuildRanks env ?u = ?u\<lparr>gw_guild := (gw_guild ?u)\<lparr>gd_ranks := map (default_rank env) [0..<5]\<rparr>,
      gw_db := (gw_db ?u)\<lparr>db_ranks := D, db_rights := \<lambda>_. None\<rparr>\<rparr>" "list_rows rank_row_of (map (default_rank env) [0..<5]) D"
    unfolding ranks_made_def by blast
  have f: "newId \<noteq> 0" "player_guid (GUID_LOPART leader) = leader" "ge_FindPlayer env leader" "ge_EVENT_LOG_COUNT env \<noteq> 0" "ge_BANK_EVENT_LOG_COUNT env \<noteq> 0"
    "\<forall>p. gw_money w p \<le> MAX_MONEY_AMOUNT" "db_tabs (gw_db w) = []" "db_eventlog (gw_db w) = []" "db_moneylog (gw_db w) = []"
    using assms(1) by (simp_all add: fresh_guild_def player_id_def)
  let ?m = "new_Member env leader 0 (ge_player_stats env leader)"
  let ?r = "\<lparr>mr_rank = 0, mr_pnote = [], mr_offnote = [], mr_remaining = replicate (GUILD_BANK_MAX_TABS + 1) \<lparr>rv_value = 0, rv_resetTime = 0\<rparr>\<rparr>"
  have v: "gd_members (gw_guild v) = [(GUID_LOPART leader, ?m)]" "gd_leaderGuid (gw_guild v) = leader" "\<not> gw_disbanded v"
    "gd_ranks (gw_guild v) = map (default_rank env) [0..<5]" "gd_bankTabs (gw_guild v) = []" "gd_bankMoney (gw_guild v) = 0" "gw_money v = gw_money w"
    "db_guild (gw_db v) = Some (guild_row_of (gw_guild v))" "db_members (gw_db v) = [(GUID_LOPART leader, ?r)]" "db_ranks (gw_db v) = D"
    "db_tabs (gw_db v) = []" "gd_eventLog (gw_guild v) = new_LogHolder (ge_EVENT_LOG_COUNT env)"
    "gd_moneyLog (gw_guild v) = new_LogHolder (ge_BANK_EVENT_LOG_COUNT env)" "db_eventlog (gw_db v) = []" "db_moneylog (gw_db v) = []"
    "gd_id (gw_guild v) = newId" "gw_guildId v leader = newId"
    using c f(3,7-9) unfolding D(1)
    by (auto simp: guild_AddMember_def Let_def member_SaveToDB_def UpdateAccountsNumber_def world_updates map_find_def guild_row_of_def
        new_Member_def GUILD_RANK_NONE_def split: if_splits)
  have "rank_ok i (default_rank env i)" for i by (simp add: rank_ok_def default_rank_def)
  then have "guild_inv v" using f v
    by (auto simp: guild_inv_def map_ok_def map_find_def member_ok_def new_Member_def GUILD_RANKS_MIN_COUNT_def GUILD_RANKS_MAX_COUNT_def
        GUILD_BANK_MAX_TABS_def simp del: upt_rec_numeral split: if_splits)
  moreover have "rows_agree v" using f v D(2) log_holds_start [OF f(4)] log_holds_start [OF f(5)]
    by (auto simp: rows_agree_def member_rows_def list_rows_def map_ok_def map_find_def row_view_def member_view_def new_Member_def simp del: upt_rec_numeral)
  moreover have "fields_agree v" using f(1,2) v by (auto simp: fields_agree_def map_find_def split: if_splits)
  ultimately show ?thesis using v(3) by (simp add: guild_saved_def)
qed

end
