(* ===== verification/GuildProps.thy ===== *)
theory GuildProps
  imports GuildRows
begin

text \<open>
  Properties of guilds: over any sequence of packets the guild stays well-formed, no money comes into being and
  the rows say what memory holds; what a member may take in a day; and what the tests of rights really ask.
\<close>

unbundle bit_operations_syntax

section \<open>Rights\<close>

lemma bit_empty_right: "bit (0x40 :: u32) n \<longleftrightarrow> n = 6"
proof -
  have "bit ((2 :: u32) ^ 6) n \<longleftrightarrow> n = 6" unfolding bit_exp_iff possible_bit_word by auto
  then show ?thesis by simp
qed

lemma and_empty_right:
  assumes "b AND 0x40 = (0 :: u32)"
  shows "x AND (0x40 OR b) = 0x40 \<longleftrightarrow> x AND 0x40 \<noteq> 0 \<and> x AND b = 0"
proof -
  have "\<not> bit (b AND 0x40) 6" unfolding assms by simp
  then have b: "\<not> bit b 6" unfolding bit_and_iff bit_empty_right by simp
  define Q where "Q n \<longleftrightarrow> (bit x n \<and> (n = 6 \<or> bit b n) \<longleftrightarrow> n = 6)" for n
  have "Q n" if "\<not> n < LENGTH(32)" for n using bit_imp_le_length [of x n] that by (auto simp: Q_def)
  then have "x AND (0x40 OR b) = 0x40 \<longleftrightarrow> (\<forall>n. Q n)"
    unfolding bit_eq_iff [of "x AND (0x40 OR b)"] bit_and_iff bit_or_iff bit_empty_right possible_bit_word Q_def [symmetric] by blast
  then have e1: "x AND (0x40 OR b) = 0x40 \<longleftrightarrow> (\<forall>n. bit x n \<and> (n = 6 \<or> bit b n) \<longleftrightarrow> n = 6)" unfolding Q_def .
  have e2: "x AND 0x40 = 0 \<longleftrightarrow> (\<forall>n. \<not> (bit x n \<and> n = 6))"
    unfolding bit_eq_iff [of "x AND 0x40"] bit_and_iff bit_empty_right by (auto dest: spec [of _ "6 :: nat"])
  have e3: "x AND b = 0 \<longleftrightarrow> (\<forall>n. \<not> (bit x n \<and> bit b n))"
    unfolding bit_eq_iff [of "x AND b"] bit_and_iff possible_bit_word using bit_imp_le_length [of x] by auto
  show ?thesis unfolding e1 e2 e3 using b by metis
qed

lemma and_ne_empty: "(b :: u32) AND 0x40 = 0 \<Longrightarrow> 0x40 \<noteq> x AND b"
proof
  assume b: "b AND 0x40 = 0" and eq: "0x40 = x AND b"
  have "bit (x AND b) 6" unfolding eq [symmetric] bit_empty_right ..
  moreover have "\<not> bit (b AND 0x40) 6" unfolding b by simp
  ultimately show False unfolding bit_and_iff bit_empty_right by simp
qed

text \<open>
  C38: a player has a right if and only if it is one of the two rights to the money of the bank, or his rank lacks the
  bit \<open>GR_RIGHT_EMPTY\<close>, or his rank has the right's own bit.  The test compares with \<open>GR_RIGHT_EMPTY\<close> where it means
  that no bit is left: everybody may withdraw, and a rank with rights 0, or one that does not exist, may do everything.
\<close>

theorem rank_rights_granted:
  "HasRankRight pl right w \<longleftrightarrow> right = GR_RIGHT_WITHDRAW_GOLD \<or> right = GR_RIGHT_WITHDRAW_REPAIR \<or>
     GetRankRights (gw_rank w pl) (gw_guild w) AND GR_RIGHT_EMPTY = 0 \<or>
     GetRankRights (gw_rank w pl) (gw_guild w) AND (right_value right AND NOT GR_RIGHT_EMPTY) \<noteq> 0"
proof -
  let ?x = "GetRankRights (gw_rank w pl) (gw_guild w)"
  have money: "?x AND 0x80000 \<noteq> 0x40" "?x AND 0x40000 \<noteq> 0x40"
    by (rule not_sym, rule and_ne_empty, simp)+
  show ?thesis
    using money and_empty_right [of "right_value right AND NOT 0x40" ?x]
    by (cases right) (simp_all add: HasRankRight_def GR_RIGHT_EMPTY_def)
qed

lemma money_right: "HasRankRight pl (if repair then GR_RIGHT_WITHDRAW_REPAIR else GR_RIGHT_WITHDRAW_GOLD) w"
proof -
  have "GetRankRights (gw_rank w pl) (gw_guild w) AND 0x80000 \<noteq> 0x40" "GetRankRights (gw_rank w pl) (gw_guild w) AND 0x40000 \<noteq> 0x40"
    by (rule not_sym, rule and_ne_empty, simp)+
  then show ?thesis by (simp add: HasRankRight_def GR_RIGHT_EMPTY_def)
qed

section \<open>What a member takes in a day\<close>

text \<open>A member who is not a guild master, with what he may still take today and when that was filled up.\<close>

definition allowance :: "u64 \<Rightarrow> remaining_value \<Rightarrow> guild_world \<Rightarrow> bool" where
  "allowance pl rv w \<longleftrightarrow> (case GetMember pl (gw_guild w) of None \<Rightarrow> False
     | Some m \<Rightarrow> \<not> IsRank GR_GUILDMASTER m \<and> gm_bankRemaining m ! GUILD_BANK_MAX_TABS = rv)"

definition same_day :: "guild_env \<Rightarrow> remaining_value \<Rightarrow> bool" where
  "same_day env rv \<longleftrightarrow> \<not> (ucast (ge_now env div 60) :: u32) > rv_resetTime rv + 1440"

text \<open>The withdrawals of a player, one after the other, and how much money they took out of the bank.\<close>

fun withdrawals :: "u64 \<Rightarrow> (guild_env \<times> u64) list \<Rightarrow> guild_world \<Rightarrow> nat \<times> guild_world" where
  "withdrawals pl [] w = (0, w)"
| "withdrawals pl ((env, x) # rs) w =
     (let (done, v) = HandleMemberWithdrawMoney env pl x False w; (n, u) = withdrawals pl rs v
      in ((if done then unat (min x MAX_MONEY_AMOUNT) else 0) + n, u))"

lemma same_day_remaining:
  assumes "allowance pl rv w" "same_day env rv"
  shows "GetBankRemainingValue env pl GUILD_BANK_MAX_TABS w = (rv_value rv, w)"
  using assms by (auto simp: allowance_def same_day_def GetBankRemainingValue_def Let_def split: option.splits)

lemma allowance_decrease:
  assumes "allowance pl rv w" "guild_inv w"
  shows "allowance pl (rv\<lparr>rv_value := rv_value rv - u\<rparr>) (DecreaseBankRemainingValue pl GUILD_BANK_MAX_TABS u w)"
proof -
  obtain m where m: "map_find (GUID_LOPART pl) (gd_members (gw_guild w)) = Some m" "\<not> IsRank GR_GUILDMASTER m"
    "gm_bankRemaining m ! GUILD_BANK_MAX_TABS = rv" using assms(1) by (auto simp: allowance_def GetMember_def split: option.splits)
  have "GUILD_BANK_MAX_TABS < length (gm_bankRemaining m)" using guild_invD(3) [OF assms(2) m(1)] by simp
  then show ?thesis using m
    by (simp add: allowance_def GetMember_def DecreaseBankRemainingValue_def Let_def world_updates map_find_upd_row [OF guild_invD(1) [OF assms(2)]] IsRank_def)
qed

lemma allowance_members: "gd_members (gw_guild v) = gd_members (gw_guild w) \<Longrightarrow> allowance pl rv v = allowance pl rv w"
  by (simp add: allowance_def GetMember_def)

lemma money_steps_keep [simp]:
  "gd_members (gw_guild (pay pl x w)) = gd_members (gw_guild w)"
  "gd_members (gw_guild (snd (ModifyBankMoney x add w))) = gd_members (gw_guild w)"
  "gd_members (gw_guild (LogBankMoneyEvent env bt low x w)) = gd_members (gw_guild w)"
  "gd_bankMoney (gw_guild (pay pl x w)) = gd_bankMoney (gw_guild w)"
  "gd_bankMoney (gw_guild (LogBankMoneyEvent env bt low x w)) = gd_bankMoney (gw_guild w)"
  by (simp_all add: pay_def ModifyBankMoney_def LogBankMoneyEvent_def world_updates Let_def split: prod.split)

text \<open>One withdrawal: refused without effect, or taken from the bank and from what is left of the day.\<close>

lemma withdraw_once:
  assumes inv: "guild_inv w" and all: "allowance pl rv w" and day: "same_day env rv" and lim: "rv_value rv < GUILD_WITHDRAW_UNLIMITED"
    and run: "HandleMemberWithdrawMoney env pl x False w = (ok, v)"
  defines "n \<equiv> if ok then min x MAX_MONEY_AMOUNT else 0"
  shows "guild_inv v \<and> allowance pl (rv\<lparr>rv_value := rv_value rv - ucast n\<rparr>) v \<and>
    unat (rv_value rv - ucast n) + unat n = unat (rv_value rv) \<and>
    unat (gd_bankMoney (gw_guild v)) + unat n = unat (gd_bankMoney (gw_guild w)) \<and>
    (ok \<longleftrightarrow> min x MAX_MONEY_AMOUNT \<le> gd_bankMoney (gw_guild w) \<and> rv_value rv \<noteq> 0 \<and> min x MAX_MONEY_AMOUNT \<le> ucast (rv_value rv))"
proof -
  define a where "a = min x MAX_MONEY_AMOUNT"
  note handler = HandleMemberWithdrawMoney_def Let_def a_def [symmetric] same_day_remaining [OF all day]
  have right: "HasRankRight pl GR_RIGHT_WITHDRAW_GOLD w" using money_right [of pl False w] by simp
  show ?thesis unfolding n_def a_def [symmetric]
  proof (cases "a \<le> gd_bankMoney (gw_guild w) \<and> rv_value rv \<noteq> 0 \<and> a \<le> ucast (rv_value rv)")
    case False
    then have "\<not> ok \<and> v = w" using run right unfolding handler by (auto simp: not_less split: if_splits)
    then show "guild_inv v \<and> allowance pl (rv\<lparr>rv_value := rv_value rv - ucast (if ok then a else 0)\<rparr>) v \<and>
      unat (rv_value rv - ucast (if ok then a else 0)) + unat (if ok then a else 0) = unat (rv_value rv) \<and>
      unat (gd_bankMoney (gw_guild v)) + unat (if ok then a else 0) = unat (gd_bankMoney (gw_guild w)) \<and>
      ok = (a \<le> gd_bankMoney (gw_guild w) \<and> rv_value rv \<noteq> 0 \<and> a \<le> ucast (rv_value rv))" using False inv all by simp
  next
    case True
    let ?d = "DecreaseBankRemainingValue pl GUILD_BANK_MAX_TABS (ucast a) w"
    have r: "ok" "v = LogBankMoneyEvent env GUILD_BANK_LOG_WITHDRAW_MONEY (GUID_LOPART pl) a (pay pl a (snd (ModifyBankMoney a False ?d)))"
      using True run right lim unfolding handler by (auto simp: not_less split: if_splits)
    have small: "unat (rv_value rv) < 2 ^ 32" using unsigned_less [of "rv_value rv"] by simp
    have a: "unat a \<le> unat (rv_value rv)" using True small by (simp add: word_le_nat_alt unsigned_ucast_eq take_bit_nat_eq_self)
    then have "unat (ucast a :: u32) = unat a" using small by (simp add: unsigned_ucast_eq take_bit_nat_eq_self)
    then have left: "unat (rv_value rv - ucast a) + unat a = unat (rv_value rv)" using a by (simp add: unat_sub word_le_nat_alt)
    have "unat (gd_bankMoney (gw_guild w) - a) + unat a = unat (gd_bankMoney (gw_guild w))" using True by (simp add: unat_sub word_le_nat_alt)
    moreover have "gd_bankMoney (gw_guild (snd (ModifyBankMoney a False u))) = gd_bankMoney (gw_guild u) - a"
      if "a \<le> gd_bankMoney (gw_guild u)" for u using that by (simp add: ModifyBankMoney_def world_updates Let_def not_less [symmetric])
    then have "gd_bankMoney (gw_guild v) = gd_bankMoney (gw_guild w) - a" using True unfolding r(2) by simp
    moreover have "gd_members (gw_guild v) = gd_members (gw_guild ?d)" unfolding r(2) by simp
    then have "allowance pl (rv\<lparr>rv_value := rv_value rv - ucast a\<rparr>) v"
      using allowance_decrease [OF all inv, of "ucast a"] allowance_members [of v ?d pl] by blast
    moreover have "guild_inv v" using well_formed.kept_HandleMemberWithdrawMoney [OF inv, of env pl x False] run by simp
    ultimately show "guild_inv v \<and> allowance pl (rv\<lparr>rv_value := rv_value rv - ucast (if ok then a else 0)\<rparr>) v \<and>
      unat (rv_value rv - ucast (if ok then a else 0)) + unat (if ok then a else 0) = unat (rv_value rv) \<and>
      unat (gd_bankMoney (gw_guild v)) + unat (if ok then a else 0) = unat (gd_bankMoney (gw_guild w)) \<and>
      ok = (a \<le> gd_bankMoney (gw_guild w) \<and> rv_value rv \<noteq> 0 \<and> a \<le> ucast (rv_value rv))" using True r(1) left by simp
  qed
qed

text \<open>
  C15: on one day a member who is not a guild master and has a limit takes no more than what was left of his day's money,
  however often and for however much he asks: what his withdrawals took is exactly what his remaining value went down
  by, and exactly what left the bank.
\<close>

theorem withdrawals_within_allowance:
  assumes "guild_inv w" "allowance pl rv w" "rv_value rv < GUILD_WITHDRAW_UNLIMITED" "list_all (\<lambda>(env, x). same_day env rv) requests"
    and "withdrawals pl requests w = (taken, v)"
  shows "\<exists>rv'. allowance pl rv' v \<and> rv_resetTime rv' = rv_resetTime rv \<and> unat (rv_value rv') + taken = unat (rv_value rv) \<and>
    unat (gd_bankMoney (gw_guild v)) + taken = unat (gd_bankMoney (gw_guild w))"
  using assms
proof (induction requests arbitrary: w rv taken)
  case Nil
  then show ?case by auto
next
  case (Cons r rs)
  obtain env x where r: "r = (env, x)" by (cases r)
  obtain ok u where once: "HandleMemberWithdrawMoney env pl x False w = (ok, u)" by (cases "HandleMemberWithdrawMoney env pl x False w")
  obtain n where rest: "withdrawals pl rs u = (n, v)" and taken: "taken = unat (if ok then min x MAX_MONEY_AMOUNT else 0) + n"
    using Cons.prems(5) r once by (auto split: prod.splits)
  define m where "m = (if ok then min x MAX_MONEY_AMOUNT else 0)"
  let ?rv = "rv\<lparr>rv_value := rv_value rv - ucast m\<rparr>"
  have day: "same_day env rv" "list_all (\<lambda>(env, x). same_day env rv) rs" using Cons.prems(4) r by simp_all
  note step = withdraw_once [OF Cons.prems(1,2) day(1) Cons.prems(3) once, folded m_def]
  have lim: "rv_value ?rv < GUILD_WITHDRAW_UNLIMITED" using step Cons.prems(3) by (simp add: word_less_nat_alt)
  have day': "list_all (\<lambda>(env, x). same_day env ?rv) rs" using day(2) by (simp add: same_day_def)
  from Cons.IH [OF _ _ lim day' rest] step taken [folded m_def] show ?case by auto
qed

section \<open>A guild and its packets\<close>


text \<open>
  C9: no packet to a guild creates money: what the players and the bank have together never grows, though it may shrink, by
  prices, repairs and withdrawals into a full purse.
\<close>

theorem guild_creates_no_money:
  assumes "fresh_guild env newId leader w0" "guild_Create env newId leader name w0 = (True, w)" "guild_run UNIV w v"
  shows "guild_money v \<le> guild_money w"
proof -
  have "money_bounded (guild_money w) w" using guild_created [OF assms(1,2)] by (simp add: money_bounded_def guild_saved_def)
  from money.kept_any_run [OF assms(3) this] show ?thesis by (simp add: money_bounded_def)
qed

text \<open>
  C10: as long as a guild is not disbanded its rows hold what it has in memory after every packet except those that delete a
  rank or decline an invitation: leader, texts, emblem and bank money; every member's rank, notes and remaining values, and
  no other members; the ranks and the tabs; and the entries of both logs.
\<close>

theorem guild_rows_hold_memory:
  assumes "fresh_guild env newId leader w0" "guild_Create env newId leader name w0 = (True, w)"
    "guild_run (UNIV - {CMSG_GUILD_DECLINE, CMSG_GUILD_DEL_RANK}) w v" "\<not> gw_disbanded v"
  shows "rows_agree v"
proof -
  have "guild_saved v" by (rule saved.kept_run [OF assms(3)]) (use guild_created [OF assms(1,2)] in auto)
  then show ?thesis using assms(4) by (simp add: guild_saved_def)
qed

section \<open>Ranks that should not be\<close>

text \<open>
  C39: deleting a rank moves the ranks after it down by one but not the members who hold them: a player with the last rank
  keeps its number in memory, which no longer belongs to any rank, and so passes every test of rights.
\<close>

theorem deleted_rank_grants_everything:
  assumes "HandleRemoveRank pl rankId w = Inr v" "length (gd_ranks (gw_guild v)) < length (gd_ranks (gw_guild w))"
    "length (gd_ranks (gw_guild w)) \<le> GUILD_RANKS_MAX_COUNT" "gw_rank w p = of_nat (length (gd_ranks (gw_guild w)) - 1)"
  shows "gw_rank v p = gw_rank w p \<and> GetMember p (gw_guild v) = GetMember p (gw_guild w) \<and> GetRankInfo (gw_rank v p) (gw_guild v) = None \<and>
    (\<forall>right. HasRankRight p right v)"
proof -
  have v: "length (gd_ranks (gw_guild v)) = length (gd_ranks (gw_guild w)) - 1" "gw_rank v = gw_rank w" "gd_members (gw_guild v) = gd_members (gw_guild w)"
    using HandleRemoveRank_cases [OF assms(1)] assms(2) by (auto simp: SendCommandResult_def)
  have "unat (gw_rank w p) = length (gd_ranks (gw_guild w)) - 1" using assms(3,4) by (simp add: unat_of_nat GUILD_RANKS_MAX_COUNT_def)
  then have none: "GetRankInfo (gw_rank v p) (gw_guild v) = None" using v by (simp add: GetRankInfo_None)
  then have "HasRankRight p right v" for right by (simp add: HasRankRight_def GetRankRights_def GR_RIGHT_EMPTY_def)
  then show ?thesis using none v by (simp add: GetMember_def)
qed

text \<open>
  C40: the rank in the packet is not compared with the guild's ranks and is cut to a byte: whoever may demote a member turns
  him into a guild master with the rank 256.
\<close>

theorem demoted_to_guild_master:
  assumes "guild_inv w" "GetMember target (gw_guild w) = Some m" "gm_rankId m < 256" "gm_guid m \<noteq> pl"
    "GetMember pl (gw_guild w) = Some setter" "gm_rankId setter < gm_rankId m" "HasRankRight pl GR_RIGHT_DEMOTE w"
  shows "guild_IsLeader target (gw_guild (HandleSetMemberRank env pl target pl 256 w))"
proof -
  have "\<not> 256 \<le> gm_rankId m" "\<not> gm_rankId m \<le> gm_rankId setter" using assms(3,6) by simp_all
  then have "HandleSetMemberRank env pl target pl 256 w = SendGuildRanksUpdate env pl target 256 w"
    using assms(2,4,5,7) by (simp add: HandleSetMemberRank_def)
  then show ?thesis
    using assms(2) by (simp add: SendGuildRanksUpdate_def Let_def guild_IsLeader_def GetMember_def ChangeRank_find [OF guild_invD(1) [OF assms(1)]]
        IsRank_def GR_GUILDMASTER_def)
qed

section \<open>Samples\<close>

definition guild_sample_env :: guild_env where
  "guild_sample_env = \<lparr>ge_FindPlayer = (\<lambda>_. True), ge_FindPlayerByName = (\<lambda>_. None),
     ge_player_stats = (\<lambda>g. \<lparr>st_name = [], st_level = 90, st_class = 1, st_zoneId = 1, st_accountId = GUID_LOPART g\<rparr>), ge_char_stats = (\<lambda>_. None),
     ge_other_guild = (\<lambda>_. 0), ge_other_rank = (\<lambda>_. 0), ge_team = (\<lambda>_. 67), ge_TWO_SIDE_GUILD = False, ge_UNDELETABLE_LEVEL = 4,
     ge_EVENT_LOG_COUNT = 100, ge_BANK_EVENT_LOG_COUNT = 25, ge_no_invitation = (\<lambda>_ _. False), ge_bank_near = (\<lambda>_ _. True),
     ge_order = (\<lambda>m. m), ge_default_name = (\<lambda>_. []), ge_normalizePlayerName = Some, ge_utf8truncate = (\<lambda>t. t), ge_max = 0, ge_now = 3600\<rparr>"

definition guild_sample_member :: "u32 \<Rightarrow> u32 \<Rightarrow> guild_member" where
  "guild_sample_member low rank = (new_Member guild_sample_env (player_guid low) rank (ge_player_stats guild_sample_env (player_guid low)))
     \<lparr>gm_bankRemaining := replicate 8 \<lparr>rv_value = 0, rv_resetTime = 60\<rparr> @ [\<lparr>rv_value = 500, rv_resetTime = 60\<rparr>]\<rparr>"

definition sample_guild :: guild where
  "sample_guild = \<lparr>gd_id = 7, gd_name = [], gd_leaderGuid = player_guid 1, gd_motd = [], gd_info = [],
     gd_emblem = \<lparr>em_style = 0, em_color = 0, em_borderStyle = 0, em_borderColor = 0, em_backgroundColor = 0\<rparr>, gd_accountsNumber = 3, gd_bankMoney = 1000,
     gd_ranks = map (default_rank guild_sample_env) [0..<6],
     gd_members = [(1, guild_sample_member 1 0), (2, guild_sample_member 2 1), (3, guild_sample_member 3 5)], gd_bankTabs = [], gd_level = 1,
     gd_eventLog = new_LogHolder 100, gd_moneyLog = new_LogHolder 25\<rparr>"

definition sample_guild_world :: guild_world where
  "sample_guild_world = \<lparr>gw_guild = sample_guild, gw_disbanded = False,
     gw_db = \<lparr>db_guild = None, db_ranks = [], db_members = [], db_rights = (\<lambda>_. None), db_tabs = [], db_eventlog = [], db_moneylog = []\<rparr>,
     gw_guildId = (\<lambda>_. 0), gw_rank = (\<lambda>p. if p = player_guid 3 then 5 else if p = player_guid 2 then 1 else 0),
     gw_invited = (\<lambda>p. if p = player_guid 2 then 7 else 0), gw_lastInvite = (\<lambda>_. 0), gw_money = (\<lambda>_. 2000), gw_answers = []\<rparr>"

lemma sample_guild_inv: "guild_inv sample_guild_world"
proof -
  have "rank_ok i (default_rank guild_sample_env i)" for i by (simp add: rank_ok_def default_rank_def)
  then show ?thesis
    by (auto simp: guild_inv_def sample_guild_world_def sample_guild_def map_ok_def map_find_def member_ok_def guild_sample_member_def new_Member_def
        GUILD_RANKS_MIN_COUNT_def GUILD_RANKS_MAX_COUNT_def GUILD_BANK_MAX_TABS_def MAX_MONEY_AMOUNT_def simp del: upt_rec_numeral split: if_splits)
      (rule exI [of _ 1], simp)
qed

theorem rank_rights_granted_witness:
  "HasRankRight (player_guid 3) GR_RIGHT_WITHDRAW_GOLD sample_guild_world = True \<and>
   HasRankRight (player_guid 3) GR_RIGHT_REMOVE sample_guild_world = False"
  unfolding rank_rights_granted
  by (simp add: GetRankRights_def GetRankInfo_def sample_guild_world_def sample_guild_def default_rank_def basic_rights_def GR_RIGHT_EMPTY_def)

theorem withdrawals_within_allowance_witness:
  "fst (withdrawals (player_guid 2) [(guild_sample_env, 300), (guild_sample_env, 300)] sample_guild_world) \<le> 500"
proof -
  let ?rs = "[(guild_sample_env, 300), (guild_sample_env, 300)]"
  have "allowance (player_guid 2) \<lparr>rv_value = 500, rv_resetTime = 60\<rparr> sample_guild_world"
    by (simp add: allowance_def sample_guild_world_def sample_guild_def GetMember_def map_find_def guild_sample_member_def new_Member_def IsRank_def
        GR_GUILDMASTER_def GUILD_BANK_MAX_TABS_def nth_append)
  from withdrawals_within_allowance [OF sample_guild_inv this, of ?rs "fst (withdrawals (player_guid 2) ?rs sample_guild_world)"
      "snd (withdrawals (player_guid 2) ?rs sample_guild_world)"]
  show ?thesis by (auto simp: GUILD_WITHDRAW_UNLIMITED_def same_day_def guild_sample_env_def simp del: withdrawals.simps)
qed

lemma sample_rank_removed:
  "\<exists>v. HandleRemoveRank (player_guid 1) 2 sample_guild_world = Inr v \<and> length (gd_ranks (gw_guild v)) < length (gd_ranks (gw_guild sample_guild_world))"
proof -
  let ?g = "gw_guild sample_guild_world"
  have len: "length (gd_ranks ?g) = 6" and leader: "guild_IsLeader (player_guid 1) ?g"
    by (simp_all add: sample_guild_world_def sample_guild_def guild_IsLeader_def)
  then obtain u where u: "HandleRemoveRank (player_guid 1) 2 sample_guild_world = Inr (renumber (length (gd_ranks (gw_guild u))) u)"
    "length (gd_ranks (gw_guild u)) = 5"
    by (force simp: HandleRemoveRank_def renumber_def GUILD_RANKS_MIN_COUNT_def Let_def world_updates)
  from renumber_ranks [of "length (gd_ranks (gw_guild u))" u] u len show ?thesis by auto
qed

theorem deleted_rank_grants_everything_witness:
  "\<exists>v. HandleRemoveRank (player_guid 1) 2 sample_guild_world = Inr v \<and> HasRankRight (player_guid 3) GR_RIGHT_REMOVE v"
proof -
  obtain v where v: "HandleRemoveRank (player_guid 1) 2 sample_guild_world = Inr v" "length (gd_ranks (gw_guild v)) < length (gd_ranks (gw_guild sample_guild_world))"
    using sample_rank_removed by blast
  from deleted_rank_grants_everything [OF v, of "player_guid 3"] v(1) show ?thesis
    by (auto simp: sample_guild_world_def sample_guild_def GUILD_RANKS_MAX_COUNT_def)
qed

theorem demoted_to_guild_master_witness:
  "guild_IsLeader (player_guid 3) (gw_guild (HandleSetMemberRank guild_sample_env (player_guid 2) (player_guid 3) (player_guid 2) 256 sample_guild_world))"
proof -
  let ?m = "guild_sample_member 3 5" and ?s = "guild_sample_member 2 1"
  have "GetMember (player_guid 3) (gw_guild sample_guild_world) = Some ?m" "GetMember (player_guid 2) (gw_guild sample_guild_world) = Some ?s"
    by (simp_all add: sample_guild_world_def sample_guild_def GetMember_def map_find_def)
  moreover have "HasRankRight (player_guid 2) GR_RIGHT_DEMOTE sample_guild_world"
    by (simp add: HasRankRight_def GetRankRights_def GetRankInfo_def sample_guild_world_def sample_guild_def player_guid_eq_iff default_rank_def
        GR_RIGHT_ALL_def GR_RIGHT_EMPTY_def)
  ultimately show ?thesis
    using demoted_to_guild_master [OF sample_guild_inv, of "player_guid 3" ?m "player_guid 2" ?s guild_sample_env]
    by (simp add: guild_sample_member_def new_Member_def player_guid_eq_iff)
qed

text \<open>A guild that player 1 founds and player 2, who is invited, joins.\<close>

definition guild_sample_founded :: guild_world where
  "guild_sample_founded = snd (guild_Create guild_sample_env 7 (player_guid 1) [] sample_guild_world)"

definition guild_sample_joined :: guild_world where
  "guild_sample_joined = HandleAcceptMember guild_sample_env (player_guid 2) guild_sample_founded"

lemma CreateRank_fields: "gw_guildId (CreateRank name rights w) = gw_guildId w" "gw_invited (CreateRank name rights w) = gw_invited w"
  "gw_disbanded (CreateRank name rights w) = gw_disbanded w" "gd_id (gw_guild (CreateRank name rights w)) = gd_id (gw_guild w)"
  by (simp_all add: CreateRank_def Let_def world_updates)

lemma founded_fields:
  assumes "ge_FindPlayer env leader" "gw_guildId w leader = 0"
  shows "fst (guild_Create env newId leader name w)" "gw_guildId (snd (guild_Create env newId leader name w)) = (gw_guildId w)(leader := newId)"
    "gw_invited (snd (guild_Create env newId leader name w)) = (gw_invited w)(leader := 0)" "gd_id (gw_guild (snd (guild_Create env newId leader name w))) = newId"
    "\<not> gw_disbanded (snd (guild_Create env newId leader name w))"
  using assms
  by (simp_all add: guild_Create_def guild_AddMember_def CreateDefaultGuildRanks_def CreateRank_fields Let_def member_SaveToDB_def UpdateAccountsNumber_def world_updates)

lemma sample_fresh: "fresh_guild guild_sample_env 7 (player_guid 1) sample_guild_world"
  by (simp add: fresh_guild_def guild_sample_env_def sample_guild_world_def MAX_MONEY_AMOUNT_def)

lemma sample_founded_ok: "guild_Create guild_sample_env 7 (player_guid 1) [] sample_guild_world = (True, guild_sample_founded)"
  using founded_fields(1) [of guild_sample_env "player_guid 1" sample_guild_world 7 "[]"]
  by (simp add: guild_sample_founded_def guild_sample_env_def sample_guild_world_def prod_eq_iff)

lemma sample_accepts: "guild_handler guild_sample_env CMSG_GUILD_ACCEPT (player_guid 2) b guild_sample_founded = Inr guild_sample_joined"
proof -
  have "ge_FindPlayer guild_sample_env (player_guid 1)" "gw_guildId sample_guild_world (player_guid 1) = 0"
    by (simp_all add: guild_sample_env_def sample_guild_world_def)
  note f = founded_fields [OF this, of 7 "[]", folded guild_sample_founded_def]
  show ?thesis using f by (simp add: HandleGuildAcceptOpcode_def guild_sample_joined_def player_guid_eq_iff) (simp add: sample_guild_world_def)
qed

lemma sample_run: "CMSG_GUILD_ACCEPT \<in> ops \<Longrightarrow> guild_run ops guild_sample_founded guild_sample_joined"
  by (rule guild_packet [OF guild_start _ _ _ sample_accepts])
    (simp_all add: guild_env_ok_def packet_ok_def guild_sample_env_def)


theorem guild_creates_no_money_witness: "guild_money guild_sample_joined \<le> guild_money guild_sample_founded"
  by (rule guild_creates_no_money [OF sample_fresh sample_founded_ok sample_run]) simp

lemma sample_joined_lives: "\<not> gw_disbanded guild_sample_joined"
proof -
  have "\<not> gw_disbanded guild_sample_founded" using founded_fields(5) [of guild_sample_env "player_guid 1" sample_guild_world 7 "[]"]
    by (simp add: guild_sample_founded_def guild_sample_env_def sample_guild_world_def)
  then show ?thesis
    by (simp add: guild_sample_joined_def HandleAcceptMember_def guild_AddMember_def Let_def member_SaveToDB_def UpdateAccountsNumber_def world_updates
        split: prod.split option.split)
qed

theorem guild_rows_hold_memory_witness: "rows_agree guild_sample_joined"
  by (rule guild_rows_hold_memory [OF sample_fresh sample_founded_ok sample_run sample_joined_lives]) simp

end
