(* ===== verification/Spec2Isabelle.thy ===== *)
theory Spec2Isabelle
  imports PacketFields GuidOrder MovementProtocol Timer SpellEvent ReputationProps ChannelHandler GroupRollProps GroupDetails SocialProps AuctionProps GuildProps
begin

text \<open>
  Verification library of the game server under \<^verbatim>\<open>src/src/server\<close> (a World of Warcraft 5.4.8
  server).  All file names below are relative to that directory.

  \<^bold>\<open>The program.\<close>  Clients talk to the server in packets.  A packet is a \<open>ByteBuffer\<close> in which bits,
  bytes, integers, strings and guids are written in an order that differs from opcode to opcode.
  Packet handlers read a packet and call the managers (reputation, channels, groups, friends, auctions, guilds), which
  change their state, write rows to the character database and send packets back.  Timed behaviour (delayed
  spells, periodic work) goes through the event queue of each unit and a few timer classes.

  \<^bold>\<open>Theories and sources.\<close>

  \<^item> \<open>Prelude\<close>: machine integers, the error monad \<open>ebind\<close>/\<open>efold\<close> (an exception, a failed assertion or
    an access out of bounds is \<open>Inl\<close>), list and word lemmas.  \<open>StdMap\<close>: \<open>std::map\<close> as an ascending
    association list, with the locale \<open>keyed_store\<close> for counting entries.  \<open>TextUtil\<close>: the tokenizer
    of \<^verbatim>\<open>shared/Utilities/Util.cpp\<close>.
  \<^item> \<open>ByteBuffer\<close>, \<open>ByteStream\<close>, \<open>Codec\<close>, \<open>PackedGuid\<close>, \<open>GuidOrder\<close>, \<open>PatchedCount\<close>, \<open>PacketFields\<close>:
    \<^verbatim>\<open>shared/Packets/ByteBuffer.h\<close>.  The buffer with its byte and bit cursors; its abstract reading as a
    bit stream; the locales \<open>appender\<close> (writes only append) and \<open>codec\<close> (what is written is read back),
    interpreted on every field kind; guids in packed form and in the bit and byte orders of hand-written
    packets; counts that are patched into a packet afterwards.
  \<^item> \<open>GuidParts\<close>: \<^verbatim>\<open>game/Entities/Object/ObjectDefines.h\<close>, how a guid is composed and taken apart.
  \<^item> \<open>Float32\<close>, \<open>MovementTables\<close>, \<open>MovementInfo\<close>, \<open>MovementSteps\<close>, \<open>MovementProtocol\<close>: the movement
    protocol.  The tables of \<^verbatim>\<open>game/Movement/MovementStructures.cpp\<close> say in which order an opcode carries
    the fields of \<open>MovementInfo\<close>; \<open>Unit::ReadMovementInfo\<close>, \<open>WriteMovementInfo\<close> and the packet sender of
    \<^verbatim>\<open>game/Entities/Unit/Unit.cpp\<close> interpret them.  \<open>sequence_ok\<close> is an executable check of a table; a
    table that passes it is read back as it was written.
  \<^item> \<open>Timer\<close>: \<^verbatim>\<open>shared/Utilities/Timer.h\<close>.  \<open>EventProcessor\<close>: \<^verbatim>\<open>shared/Utilities/EventProcessor.cpp\<close>, the
    queue of timed events; the update loop is a \<open>partial_function (option)\<close> because an event may queue
    another one for the same moment, and the locale \<open>event_handler\<close> gives the condition under which it
    returns.  \<open>SpellEvent\<close>: the event of a cast spell in \<^verbatim>\<open>game/Spells/Spell.cpp\<close>, whose handler meets
    that condition.
  \<^item> \<open>Reputation\<close>, \<open>ReputationInv\<close>, \<open>ReputationProps\<close>: \<^verbatim>\<open>game/Reputation/ReputationMgr.cpp\<close>, standings,
    ranks, counters, spillover, loading and saving.
  \<^item> \<open>Channel\<close>, \<open>ChannelProps\<close>, \<open>ChannelHandler\<close>: chat channels (\<^verbatim>\<open>game/Chat/Channels\<close>) and the packet
    handlers of \<^verbatim>\<open>game/Handlers/ChannelHandler.cpp\<close>, reading their packets with the buffer above.
  \<^item> \<open>GroupRoll\<close>, \<open>GroupRollProps\<close>: the loot rolls of \<^verbatim>\<open>game/Groups/Group.cpp\<close>.  \<open>GroupRoster\<close>,
    \<open>GroupProps\<close>, \<open>GroupDetails\<close>: the members, subgroups, flags, leader, looter, icons and markers of a
    group.
  \<^item> \<open>Social\<close>, \<open>SocialProps\<close>: the friend and ignore lists of \<^verbatim>\<open>game/Entities/Player/SocialMgr.cpp\<close> with
    their handlers in \<^verbatim>\<open>game/Handlers/MiscHandler.cpp\<close>.
  \<^item> \<open>Auction\<close>: the auction houses of \<^verbatim>\<open>game/AuctionHouse/AuctionHouseMgr.cpp\<close> and the handlers for selling,
    bidding and cancelling in \<^verbatim>\<open>game/Handlers/AuctionHouseHandler.cpp\<close>, with the money, bags, mails and
    rows they change.  \<open>AuctionMoney\<close>: the sums of money and items, and what bids and the end of an
    auction do to them.  \<open>AuctionSteps\<close>: the same for selling and cancelling, and all sequences of steps.
    \<open>AuctionProps\<close>: the properties.  \<open>Money\<close>: the purse of a player, shared with the guilds.
  \<^item> \<open>Guild\<close>: the ranks, members, rights, bank money and logs of \<^verbatim>\<open>game/Guilds/Guild.cpp\<close> with the rows they
    change, and the packet handlers of \<^verbatim>\<open>game/Handlers/GuildHandler.cpp\<close>.  \<open>GuildSteps\<close>: the locales
    \<open>guild_kept\<close> and \<open>guild_always\<close>, which reduce every handler to a few kinds of steps, and the relation
    \<open>guild_run\<close> of all sequences of packets.  \<open>GuildInv\<close>, \<open>GuildRows\<close>: their interpretations, for well-formed
    guilds, for the sum of the money and for the agreement of rows and memory.  \<open>GuildLog\<close>: the logs.
    \<open>GuildProps\<close>: the properties.

  \<^bold>\<open>State, effects and parameters.\<close>  Each class is a record with the source's fields, each method a
  function on it.  What a method does outside its object (packets, database statements, calls of
  other managers) is a list of actions in the order of the calls; the statements for reputation rows,
  channel rows, group members, friend lists, auctions and guilds are interpreted, so that saving and loading can be compared.  What a
  method asks about the rest of the server (who is online, templates, configuration, dice, the clock) is
  an argument, gathered in the records \<open>rep_env\<close>, \<open>chan_env\<close>, \<open>roll_env\<close>, \<open>start_env\<close>,
  \<open>group_env\<close>, \<open>social_env\<close>, \<open>auction_env\<close> and \<open>guild_env\<close>.  Floating point values are their bit patterns.

  \<^bold>\<open>What is shown.\<close>  Round trips: movement packets of every checked opcode, bit fields, packed and ordered
  guids, guid parts, reputation rows, channel rows, friend lists and their packet.  Refinement: a friend
  list in memory and its rows in the database never differ.  Invariants over all reachable states: the
  reputation counters, the single owner of a channel, the roster of a group, the totals of a loot roll.
  Safety: channel packets never change a channel without the right to; the operations of a group never
  index its counters out of bounds; reading past the end of a packet throws; the auction houses
  duplicate neither money nor items.  Functional behaviour: bids and the end of an auction,
  joining a channel, the standing and list packets, delayed hits, the winner of a roll, when a roll
  closes, target icons.  Termination and progress: an update with spell events returns, the
  looter's turn goes round, an update of an auction house ends what is due.  Where the code does not do what it means to, a theorem states what it
  does: these are the findings of the manifest.

  \<^bold>\<open>Bounds.\<close>  A packet stays below \<open>MAX_BUFFER\<close> bytes (the source asserts it); a loot has fewer than 256
  entries and a group fewer than 256 members, so that slots and totals fit a byte, as the source's
  limits of 16 and 32 entries and 40 members ensure.  The auction theorems take a cut of at most the bid
  and deposits below \<open>2 ^ 31\<close>, where the source's conversion to a signed number is exact.  No theorem uses fuel.

  \<^bold>\<open>Not modelled.\<close>  Third-party code under \<^verbatim>\<open>src/dep\<close>; sockets, threads, files and the database client
  (input and output); collision geometry (floating point over binary map files); scripts, spell effects,
  auras and conditions (they act on the whole entity state); the bytes of packets that only display
  something.  Of the modelled parts these are left out: the packet handlers of groups, the auction
  listings, the items of the guild bank.  The calendar, mail, loot, quests, the dungeon finder, threat lists and grids
  are not modelled.
\<close>

end
